(* ===== verification/Dovecote_Prelude.thy ===== *)
theory Dovecote_Prelude
  imports Main "HOL-Library.Char_ord" "HOL-Library.List_Lexorder" "HOL-Library.Multiset"
begin

text \<open>
  Vocabulary shared by every component of the development.

  \<^item> Rust's \<open>Result\<close> is the sum \<open>'e + 'a\<close> (\<open>Inl\<close> the error); the \<open>?\<close> operator is
    \<open>and_then\<close>, \<open>map_err\<close> and \<open>ok_or\<close> are the methods of that name.
  \<^item> A Rust \<open>String\<close>, \<open>&str\<close>, \<open>Vec<u8>\<close> or \<open>[u8; N]\<close> is the list of its octets: an
    Isabelle \<open>char\<close> is exactly one octet, \<open>length\<close> is Rust's \<open>len()\<close>, and the order on
    strings (Char_ord, List_Lexorder) is the bytewise lexicographic order that Rust's
    \<open>Ord for str\<close> and SQLite's BINARY collation use. \<open>chars()\<close> decodes UTF-8.
  \<^item> An \<open>i64\<close> is an \<open>int\<close> and a \<open>usize\<close>/\<open>u32\<close> a \<open>nat\<close>, with the checked and
    saturating operations of the source written out against the bounds of the width.
  \<^item> \<open>std::time::Duration\<close> is a record of whole seconds and sub-second nanoseconds;
    \<open>time::OffsetDateTime\<close> is an instant in nanoseconds since the epoch together
    with the UTC offset it is displayed in.
\<close>

named_theorems result_simps "rewriting of Result chains"
named_theorems std_defs "Rust standard-library functions used by the source"

section \<open>Result and Option\<close>

fun and_then :: "'e + 'a \<Rightarrow> ('a \<Rightarrow> 'e + 'b) \<Rightarrow> 'e + 'b" where
  "and_then (Inl e) f = Inl e"
| "and_then (Inr x) f = f x"

fun map_err :: "('e \<Rightarrow> 'f) \<Rightarrow> 'e + 'a \<Rightarrow> 'f + 'a" where
  "map_err g (Inl e) = Inl (g e)"
| "map_err g (Inr x) = Inr x"

fun ok_or :: "'e \<Rightarrow> 'a option \<Rightarrow> 'e + 'a" where
  "ok_or e None = Inl e"
| "ok_or e (Some x) = Inr x"

fun collect_results :: "('a \<Rightarrow> 'e + 'b) \<Rightarrow> 'a list \<Rightarrow> 'e + 'b list" where
  "collect_results f [] = Inr []"
| "collect_results f (x # xs) =
     and_then (f x) (\<lambda>y. and_then (collect_results f xs) (\<lambda>ys. Inr (y # ys)))"

lemma and_then_Inr_iff [result_simps]:
  "and_then r f = Inr y \<longleftrightarrow> (\<exists>x. r = Inr x \<and> f x = Inr y)"
  by (cases r) auto

lemma and_then_Inl_iff [result_simps]:
  "and_then r f = Inl e \<longleftrightarrow> r = Inl e \<or> (\<exists>x. r = Inr x \<and> f x = Inl e)"
  by (cases r) auto

lemma map_err_Inr_iff [result_simps, simp]: "map_err g r = Inr x \<longleftrightarrow> r = Inr x"
  by (cases r) auto

lemma map_err_Inl_iff [result_simps]: "map_err g r = Inl e \<longleftrightarrow> (\<exists>d. r = Inl d \<and> e = g d)"
  by (cases r) auto

lemma ok_or_Inr_iff [result_simps, simp]: "ok_or e v = Inr x \<longleftrightarrow> v = Some x"
  by (cases v) auto

lemma ok_or_Inl_iff [result_simps]: "ok_or e v = Inl d \<longleftrightarrow> v = None \<and> d = e"
  by (cases v) auto

lemma and_then_assoc: "and_then (and_then r f) g = and_then r (\<lambda>x. and_then (f x) g)"
  by (cases r) auto

lemma if_Inl_eq_Inr [result_simps]: "(if b then Inl e else r) = Inr x \<longleftrightarrow> \<not> b \<and> r = Inr x"
  by auto

lemma collect_results_Inr_iff:
  "collect_results f xs = Inr ys \<longleftrightarrow> list_all2 (\<lambda>x y. f x = Inr y) xs ys"
proof (induction xs arbitrary: ys)
  case Nil
  then show ?case by auto
next
  case (Cons x xs)
  show ?case by (cases ys) (auto simp: and_then_Inr_iff Cons.IH)
qed

lemma collect_results_length: "collect_results f xs = Inr ys \<Longrightarrow> length ys = length xs"
  by (auto simp: collect_results_Inr_iff dest: list_all2_lengthD)

lemma set_map_filter: "set (List.map_filter f xs) = {y. \<exists>x \<in> set xs. f x = Some y}"
  by (induction xs) (auto simp: map_filter_simps split: option.splits)

section \<open>Integers of fixed width\<close>

definition i64_max :: int where "i64_max = 9223372036854775807"

definition i64_min :: int where "i64_min = - 9223372036854775808"

definition i64_range :: "int \<Rightarrow> bool" where
  "i64_range v \<longleftrightarrow> i64_min \<le> v \<and> v \<le> i64_max"

definition checked_add_i64 :: "int \<Rightarrow> int \<Rightarrow> int option" where
  "checked_add_i64 a b = (if i64_range (a + b) then Some (a + b) else None)"

definition usize_max :: nat where "usize_max = 18446744073709551615"

definition saturating_add_usize :: "nat \<Rightarrow> nat \<Rightarrow> nat" where
  "saturating_add_usize a b = min usize_max (a + b)"

definition saturating_mul_usize :: "nat \<Rightarrow> nat \<Rightarrow> nat" where
  "saturating_mul_usize a b = min usize_max (a * b)"

definition checked_add_usize :: "nat \<Rightarrow> nat \<Rightarrow> nat option" where
  "checked_add_usize a b = (if a + b \<le> usize_max then Some (a + b) else None)"

lemma checked_add_i64_Some_iff [simp]:
  "checked_add_i64 a b = Some c \<longleftrightarrow> i64_range (a + b) \<and> c = a + b"
  by (auto simp: checked_add_i64_def)

lemma checked_add_i64_None_iff [simp]:
  "checked_add_i64 a b = None \<longleftrightarrow> \<not> i64_range (a + b)"
  by (simp add: checked_add_i64_def)

section \<open>Octet strings\<close>

type_synonym bytes = string

definition byte :: "char \<Rightarrow> nat" where [std_defs]: "byte c = of_char c"

definition is_ascii_lowercase :: "char \<Rightarrow> bool" where [std_defs]:
  "is_ascii_lowercase c \<longleftrightarrow> 97 \<le> byte c \<and> byte c \<le> 122"

definition is_ascii_uppercase :: "char \<Rightarrow> bool" where [std_defs]:
  "is_ascii_uppercase c \<longleftrightarrow> 65 \<le> byte c \<and> byte c \<le> 90"

definition is_ascii_digit :: "char \<Rightarrow> bool" where [std_defs]:
  "is_ascii_digit c \<longleftrightarrow> 48 \<le> byte c \<and> byte c \<le> 57"

definition is_ascii_alphanumeric :: "char \<Rightarrow> bool" where [std_defs]:
  "is_ascii_alphanumeric c \<longleftrightarrow> is_ascii_lowercase c \<or> is_ascii_uppercase c \<or> is_ascii_digit c"

text \<open>\<open>str::split_once\<close>, \<open>str::split\<close> and \<open>str::splitn\<close> on one separator octet.\<close>

fun split_once :: "char \<Rightarrow> string \<Rightarrow> (string \<times> string) option" where
  "split_once d [] = None"
| "split_once d (c # cs) =
     (if c = d then Some ([], cs)
      else map_option (\<lambda>(a, b). (c # a, b)) (split_once d cs))"

fun split_str :: "char \<Rightarrow> string \<Rightarrow> string list" where
  "split_str d [] = [[]]"
| "split_str d (c # cs) =
     (if c = d then [] # split_str d cs
      else (case split_str d cs of [] \<Rightarrow> [[c]] | p # ps \<Rightarrow> (c # p) # ps))"

fun splitn :: "nat \<Rightarrow> char \<Rightarrow> string \<Rightarrow> string list" where
  "splitn 0 d s = []"
| "splitn (Suc 0) d s = [s]"
| "splitn (Suc (Suc n)) d s =
     (case split_once d s of None \<Rightarrow> [s] | Some (a, b) \<Rightarrow> a # splitn (Suc n) d b)"

definition trim_start_matches :: "(char \<Rightarrow> bool) \<Rightarrow> string \<Rightarrow> string" where [std_defs]:
  "trim_start_matches p s = dropWhile p s"

definition trim_end_matches :: "(char \<Rightarrow> bool) \<Rightarrow> string \<Rightarrow> string" where [std_defs]:
  "trim_end_matches p s = rev (dropWhile p (rev s))"

definition trim_matches :: "(char \<Rightarrow> bool) \<Rightarrow> string \<Rightarrow> string" where [std_defs]:
  "trim_matches p s = trim_end_matches p (trim_start_matches p s)"

definition strip_suffix :: "char \<Rightarrow> string \<Rightarrow> string option" where [std_defs]:
  "strip_suffix c s = (if s \<noteq> [] \<and> last s = c then Some (butlast s) else None)"

lemma split_once_Some:
  "split_once d s = Some (a, b) \<Longrightarrow> s = a @ d # b \<and> d \<notin> set a"
  by (induction s arbitrary: a) (auto split: if_splits)

lemma split_once_None: "split_once d s = None \<longleftrightarrow> d \<notin> set s"
  by (induction s) auto

lemma split_once_append: "d \<notin> set a \<Longrightarrow> split_once d (a @ d # b) = Some (a, b)"
  by (induction a) auto

lemma split_str_not_Nil [simp]: "split_str d s \<noteq> []"
  by (induction s) (auto split: list.splits)

section \<open>UTF-8\<close>

definition is_cont :: "char \<Rightarrow> bool" where [std_defs]:
  "is_cont c \<longleftrightarrow> 128 \<le> byte c \<and> byte c \<le> 191"

text \<open>
  The decoder behind \<open>str::from_utf8\<close> and \<open>str::chars\<close>: the scalar values of a
  well-formed octet string, \<open>None\<close> for an ill-formed one (overlong forms, surrogates and
  values above U+10FFFF are ill-formed).
\<close>

fun utf8_decode :: "string \<Rightarrow> nat list option" where
  "utf8_decode [] = Some []"
| "utf8_decode (a # rest) =
    (if byte a < 128 then map_option ((#) (byte a)) (utf8_decode rest)
     else if byte a < 194 then None
     else if byte a < 224 then
       (case rest of
          b # r \<Rightarrow> if is_cont b
             then map_option ((#) ((byte a - 192) * 64 + (byte b - 128))) (utf8_decode r)
             else None
        | _ \<Rightarrow> None)
     else if byte a < 240 then
       (case rest of
          b # c # r \<Rightarrow> if is_cont b \<and> is_cont c
               \<and> (byte a = 224 \<longrightarrow> 160 \<le> byte b) \<and> (byte a = 237 \<longrightarrow> byte b \<le> 159)
             then map_option ((#) ((byte a - 224) * 4096 + (byte b - 128) * 64 + (byte c - 128)))
                    (utf8_decode r)
             else None
        | _ \<Rightarrow> None)
     else if byte a < 245 then
       (case rest of
          b # c # d # r \<Rightarrow> if is_cont b \<and> is_cont c \<and> is_cont d
               \<and> (byte a = 240 \<longrightarrow> 144 \<le> byte b) \<and> (byte a = 244 \<longrightarrow> byte b \<le> 143)
             then map_option ((#) ((byte a - 240) * 262144 + (byte b - 128) * 4096
                    + (byte c - 128) * 64 + (byte d - 128))) (utf8_decode r)
             else None
        | _ \<Rightarrow> None)
     else None)"

definition utf8_valid :: "string \<Rightarrow> bool" where
  "utf8_valid s \<longleftrightarrow> utf8_decode s \<noteq> None"

text \<open>\<open>chars()\<close> is only ever called on a \<open>str\<close>, which is well-formed by construction.\<close>

definition chars :: "string \<Rightarrow> nat list" where
  "chars s = (case utf8_decode s of None \<Rightarrow> [] | Some cs \<Rightarrow> cs)"

definition ascii :: "string \<Rightarrow> bool" where
  "ascii s \<longleftrightarrow> list_all (\<lambda>c. byte c < 128) s"

lemma utf8_decode_ascii: "ascii s \<Longrightarrow> utf8_decode s = Some (map byte s)"
  by (induction s) (auto simp: ascii_def)

lemma chars_ascii: "ascii s \<Longrightarrow> chars s = map byte s"
  by (simp add: chars_def utf8_decode_ascii)

lemma utf8_valid_ascii: "ascii s \<Longrightarrow> utf8_valid s"
  by (simp add: utf8_valid_def utf8_decode_ascii)

text \<open>\<open>char::is_control\<close> (general category Cc) and \<open>char::is_whitespace\<close> (White_Space).\<close>

definition is_control :: "nat \<Rightarrow> bool" where [std_defs]:
  "is_control c \<longleftrightarrow> c \<le> 31 \<or> (127 \<le> c \<and> c \<le> 159)"

definition is_whitespace :: "nat \<Rightarrow> bool" where [std_defs]:
  "is_whitespace c \<longleftrightarrow> (9 \<le> c \<and> c \<le> 13) \<or> c = 32 \<or> c = 133 \<or> c = 160 \<or> c = 5760
     \<or> (8192 \<le> c \<and> c \<le> 8202) \<or> c = 8232 \<or> c = 8233 \<or> c = 8239 \<or> c = 8287 \<or> c = 12288"

section \<open>Decimal rendering of integers\<close>

fun digits_rev :: "nat \<Rightarrow> nat \<Rightarrow> string" where
  "digits_rev 0 n = []"
| "digits_rev (Suc k) n =
     (if n < 10 then [char_of (48 + n)]
      else char_of (48 + n mod 10) # digits_rev k (n div 10))"

definition nat_to_string :: "nat \<Rightarrow> string" where
  "nat_to_string n = rev (digits_rev (Suc n) n)"

definition int_to_string :: "int \<Rightarrow> string" where
  "int_to_string v = (if v < 0 then CHR ''-'' # nat_to_string (nat (- v)) else nat_to_string (nat v))"

section \<open>Durations and instants\<close>

record duration =
  secs :: nat
  subsec_nanos :: nat

definition duration_is_zero :: "duration \<Rightarrow> bool" where [std_defs]:
  "duration_is_zero d \<longleftrightarrow> secs d = 0 \<and> subsec_nanos d = 0"

definition as_nanos :: "duration \<Rightarrow> nat" where [std_defs]:
  "as_nanos d = secs d * 1000000000 + subsec_nanos d"

definition as_millis :: "duration \<Rightarrow> nat" where [std_defs]:
  "as_millis d = secs d * 1000 + subsec_nanos d div 1000000"

definition as_micros :: "duration \<Rightarrow> nat" where [std_defs]:
  "as_micros d = secs d * 1000000 + subsec_nanos d div 1000"

definition duration_wf :: "duration \<Rightarrow> bool" where
  "duration_wf d \<longleftrightarrow> secs d < 2 ^ 64 \<and> subsec_nanos d < 1000000000"

definition duration_less :: "duration \<Rightarrow> duration \<Rightarrow> bool" where [std_defs]:
  "duration_less a b \<longleftrightarrow> secs a < secs b \<or> (secs a = secs b \<and> subsec_nanos a < subsec_nanos b)"

record offset_date_time =
  unix_nanos :: int
  utc_offset :: int

text \<open>
  \<open>OffsetDateTime::to_offset(UTC)\<close> keeps the instant. It panics when the UTC calendar date
  falls outside the years -9999 to 9999 that the type can represent.
\<close>

definition to_offset_utc :: "offset_date_time \<Rightarrow> offset_date_time" where
  "to_offset_utc t = t\<lparr>utc_offset := 0\<rparr>"

definition odt_min_nanos :: int where "odt_min_nanos = - 377705116800000000000"

definition odt_max_nanos :: int where "odt_max_nanos = 253402300799999999999"

definition to_offset_utc_panics :: "offset_date_time \<Rightarrow> bool" where
  "to_offset_utc_panics t \<longleftrightarrow> unix_nanos t < odt_min_nanos \<or> odt_max_nanos < unix_nanos t"

text \<open>\<open>PartialEq\<close> and \<open>PartialOrd\<close> of \<open>OffsetDateTime\<close> compare instants.\<close>

definition same_instant :: "offset_date_time \<Rightarrow> offset_date_time \<Rightarrow> bool" where
  "same_instant a b \<longleftrightarrow> unix_nanos a = unix_nanos b"

lemma to_offset_utc_nanos [simp]: "unix_nanos (to_offset_utc t) = unix_nanos t"
  by (simp add: to_offset_utc_def)

lemma to_offset_utc_offset [simp]: "utc_offset (to_offset_utc t) = 0"
  by (simp add: to_offset_utc_def)

lemma to_offset_utc_idem [simp]: "to_offset_utc (to_offset_utc t) = to_offset_utc t"
  by (simp add: to_offset_utc_def)

section \<open>Ordered association lists\<close>

text \<open>
  \<open>BTreeMap\<close> as the list of its entries in ascending key order; \<open>serde_json::Map\<close> with
  the \<open>preserve_order\<close> feature as the list of its entries in insertion order, where
  inserting an existing key replaces the value in place.
\<close>

fun btree_insert :: "'k::linorder \<Rightarrow> 'v \<Rightarrow> ('k \<times> 'v) list \<Rightarrow> ('k \<times> 'v) list" where
  "btree_insert k v [] = [(k, v)]"
| "btree_insert k v ((k', v') # xs) =
     (if k < k' then (k, v) # (k', v') # xs
      else if k = k' then (k, v) # xs
      else (k', v') # btree_insert k v xs)"

fun map_insert :: "'k \<Rightarrow> 'v \<Rightarrow> ('k \<times> 'v) list \<Rightarrow> ('k \<times> 'v) list" where
  "map_insert k v [] = [(k, v)]"
| "map_insert k v ((k', v') # xs) =
     (if k = k' then (k, v) # xs else (k', v') # map_insert k v xs)"

abbreviation keys_sorted :: "('k::linorder \<times> 'v) list \<Rightarrow> bool" where
  "keys_sorted xs \<equiv> sorted_wrt (<) (map fst xs)"

lemma btree_insert_keys: "fst ` set (btree_insert k v xs) = insert k (fst ` set xs)"
  by (induction k v xs rule: btree_insert.induct) auto

lemma btree_insert_sorted: "keys_sorted xs \<Longrightarrow> keys_sorted (btree_insert k v xs)"
proof (induction k v xs rule: btree_insert.induct)
  case (2 k v k' v' xs)
  then show ?case
    using btree_insert_keys [of k v xs] by (auto simp: image_iff)
qed simp

lemma btree_insert_map_of:
  "map_of (btree_insert k v xs) = (map_of xs)(k \<mapsto> v)"
  by (induction k v xs rule: btree_insert.induct) auto

lemma btree_insert_last:
  "keys_sorted (xs @ [(k, v)]) \<Longrightarrow> btree_insert k v xs = xs @ [(k, v)]"
  by (induction xs) (auto simp: sorted_wrt_append)

lemma foldl_btree_insert_sorted:
  "keys_sorted (acc @ xs) \<Longrightarrow> foldl (\<lambda>m (k, v). btree_insert k v m) acc xs = acc @ xs"
proof (induction xs arbitrary: acc)
  case (Cons x xs)
  obtain k v where x: "x = (k, v)" by (cases x)
  have "keys_sorted (acc @ [(k, v)])"
    using Cons.prems x by (auto simp: sorted_wrt_append)
  then have "btree_insert k v acc = acc @ [(k, v)]" by (rule btree_insert_last)
  then show ?case using Cons.IH [of "acc @ [(k, v)]"] Cons.prems x by simp
qed simp

lemma map_insert_new: "k \<notin> fst ` set xs \<Longrightarrow> map_insert k v xs = xs @ [(k, v)]"
  by (induction k v xs rule: map_insert.induct) auto

lemma map_insert_keys: "fst ` set (map_insert k v xs) = insert k (fst ` set xs)"
  by (induction k v xs rule: map_insert.induct) auto

lemma foldl_map_insert_distinct:
  "distinct (map fst (acc @ xs)) \<Longrightarrow> foldl (\<lambda>m (k, v). map_insert k v m) acc xs = acc @ xs"
proof (induction xs arbitrary: acc)
  case (Cons x xs)
  obtain k v where x: "x = (k, v)" by (cases x)
  have "k \<notin> fst ` set acc" using Cons.prems x by auto
  then have "map_insert k v acc = acc @ [(k, v)]" by (rule map_insert_new)
  then show ?case using Cons.IH [of "acc @ [(k, v)]"] Cons.prems x by simp
qed simp

lemma keys_sorted_distinct: "keys_sorted xs \<Longrightarrow> distinct (map fst xs)"
  by (simp add: strict_sorted_iff)

end
