(* ===== verification/Core_Error.thy ===== *)
theory Core_Error
  imports Dovecote_Prelude
begin

text \<open>
  \<open>crates/dovecote/src/error.rs\<close>: the validation error every constructor of the core crate
  returns. It names the field, the operation category and the low-level kind; the codes
  are the stable strings applications branch on and the English text is a projection.
\<close>

datatype ValidationKind =
    Empty | Length | Characters | Syntax | MediaType | Json | Combination | Range
  | Precision | ReservedName | Duplicate | TraceContext | Size

datatype ValidationOperation = Event | Limit | Duration | OperationalField | State

record ValidationError =
  err_field :: string
  err_operation :: ValidationOperation
  err_kind :: ValidationKind

fun kind_code :: "ValidationKind \<Rightarrow> string" where
  "kind_code Empty = ''empty''"
| "kind_code Length = ''length''"
| "kind_code Characters = ''characters''"
| "kind_code Syntax = ''syntax''"
| "kind_code MediaType = ''media_type''"
| "kind_code Json = ''json''"
| "kind_code Combination = ''combination''"
| "kind_code Range = ''range''"
| "kind_code Precision = ''precision''"
| "kind_code ReservedName = ''reserved_name''"
| "kind_code Duplicate = ''duplicate''"
| "kind_code TraceContext = ''trace_context''"
| "kind_code Size = ''size''"

fun kind_message :: "ValidationKind \<Rightarrow> string" where
  "kind_message Empty = ''must not be empty''"
| "kind_message Length = ''has an invalid byte length''"
| "kind_message Characters = ''contains forbidden characters''"
| "kind_message Syntax = ''has invalid syntax''"
| "kind_message MediaType = ''must be a valid media type''"
| "kind_message Json = ''must contain one valid JSON value encoded as UTF-8''"
| "kind_message Combination = ''is invalid in combination with another value''"
| "kind_message Range = ''is outside the supported range''"
| "kind_message Precision = ''has unsupported precision''"
| "kind_message ReservedName = ''uses a reserved name''"
| "kind_message Duplicate = ''is already present''"
| "kind_message TraceContext = ''does not satisfy the trace-context rules''"
| "kind_message Size = ''exceeds the configured event-size limit''"

fun operation_code :: "ValidationOperation \<Rightarrow> string" where
  "operation_code Event = ''invalid_event''"
| "operation_code Limit = ''invalid_limit''"
| "operation_code Duration = ''invalid_duration''"
| "operation_code OperationalField = ''invalid_operational_field''"
| "operation_code State = ''invalid_state''"

definition verror_new :: "string \<Rightarrow> ValidationKind \<Rightarrow> ValidationError" where
  "verror_new field kind = \<lparr>err_field = field, err_operation = Event, err_kind = kind\<rparr>"

definition verror_with_operation ::
  "string \<Rightarrow> ValidationOperation \<Rightarrow> ValidationKind \<Rightarrow> ValidationError" where
  "verror_with_operation field op kind =
     \<lparr>err_field = field, err_operation = op, err_kind = kind\<rparr>"

definition verror_code :: "ValidationError \<Rightarrow> string" where
  "verror_code e = kind_code (err_kind e)"

definition verror_category_code :: "ValidationError \<Rightarrow> string" where
  "verror_category_code e = operation_code (err_operation e)"

definition verror_to_string :: "ValidationError \<Rightarrow> string" where
  "verror_to_string e = err_field e @ '': '' @ kind_message (err_kind e)"

text \<open>Re-labelling an error as one of an operational field keeps the field and the kind.\<close>

definition as_operational :: "ValidationError \<Rightarrow> ValidationError" where
  "as_operational e = verror_with_operation (err_field e) OperationalField (err_kind e)"

lemma verror_new_sel [simp]:
  "err_field (verror_new f k) = f" "err_operation (verror_new f k) = Event"
  "err_kind (verror_new f k) = k"
  by (simp_all add: verror_new_def)

lemma verror_with_operation_sel [simp]:
  "err_field (verror_with_operation f p k) = f" "err_operation (verror_with_operation f p k) = p"
  "err_kind (verror_with_operation f p k) = k"
  by (simp_all add: verror_with_operation_def)

lemma kind_code_inj: "kind_code a = kind_code b \<Longrightarrow> a = b"
  by (cases a; cases b) simp_all

lemma operation_code_inj: "operation_code a = operation_code b \<Longrightarrow> a = b"
  by (cases a; cases b) simp_all

end
