(* ===== verification/Core_External.thy ===== *)
theory Core_External
  imports Core_Error
begin

text \<open>
  What the core crate takes from other crates. Their code is not part of the repository,
  so every function of them is a field of the record \<open>ext_lib\<close>, an argument of the
  definitions that call it:

  \<^item> \<open>fluent_uri\<close>: whether \<open>UriRef::parse\<close> and \<open>Uri::parse\<close> accept a string;
  \<^item> \<open>mime\<close>: \<open>Mime::from_str\<close>, of which the source reads the subtype and the suffix;
  \<^item> \<open>serde_json\<close>: parsing a text into a value, \<open>Value::to_string\<close> and the fallible
    \<open>to_vec\<close>;
  \<^item> \<open>base64\<close>: the STANDARD engine's encoder and decoder;
  \<^item> \<open>time\<close>: RFC 3339 formatting and parsing;
  \<^item> the diagnostics of the JSON, base64 and RFC 3339 parsers for a text they refuse;
  \<^item> the \<open>Debug\<close> rendering of a string inside diagnostics.

  \<open>serde_json::Value\<close> itself is data: the source builds and takes apart its constructors.
  A member list of an object is in insertion order (\<open>preserve_order\<close>).
\<close>

datatype json_number = NInt int | NFloat string

datatype json =
    JNull
  | JBool bool
  | JNumber json_number
  | JString string
  | JArray "json list"
  | JObject "(string \<times> json) list"

record mime =
  mime_subtype :: string
  mime_suffix :: "string option"

record ext_lib =
  uri_ref_parses :: "string \<Rightarrow> bool"
  uri_parses :: "string \<Rightarrow> bool"
  mime_parse :: "string \<Rightarrow> mime option"
  json_parse :: "string \<Rightarrow> json option"
  json_print :: "json \<Rightarrow> string"
  json_to_vec :: "json \<Rightarrow> string option"
  base64_encode :: "string \<Rightarrow> string"
  base64_decode :: "string \<Rightarrow> string option"
  rfc3339_format :: "offset_date_time \<Rightarrow> string"
  rfc3339_parse :: "string \<Rightarrow> offset_date_time option"
  json_error :: "string \<Rightarrow> string"
  base64_error :: "string \<Rightarrow> string"
  rfc3339_error :: "string \<Rightarrow> string"
  debug_str :: "string \<Rightarrow> string"

text \<open>Accessors of \<open>Value\<close> used by the source.\<close>

fun json_as_bool :: "json \<Rightarrow> bool option" where
  "json_as_bool (JBool b) = Some b"
| "json_as_bool _ = None"

fun json_as_i64 :: "json \<Rightarrow> int option" where
  "json_as_i64 (JNumber (NInt v)) = (if i64_range v then Some v else None)"
| "json_as_i64 _ = None"

fun json_as_str :: "json \<Rightarrow> string option" where
  "json_as_str (JString s) = Some s"
| "json_as_str _ = None"

lemma json_as_bool_Some [simp]: "json_as_bool v = Some b \<longleftrightarrow> v = JBool b"
  by (cases v rule: json_as_bool.cases) auto

lemma json_as_str_Some [simp]: "json_as_str v = Some s \<longleftrightarrow> v = JString s"
  by (cases v rule: json_as_str.cases) auto

end
