(* ===== verification/Core_Validation.thy ===== *)
theory Core_Validation
  imports Core_External
begin

text \<open>
  The byte limits of \<open>crates/dovecote/src/bounds.rs\<close> and the whole of
  \<open>crates/dovecote/src/validation.rs\<close>: the portable string check, URI references, the two
  W3C trace-context grammars and the canonical timestamp spelling.
\<close>

section \<open>Limits\<close>

definition MAX_PORTABLE_EVENT_BYTES :: nat where "MAX_PORTABLE_EVENT_BYTES = 65536"
definition MAX_CLAIM_OR_PAGE_LIMIT :: nat where "MAX_CLAIM_OR_PAGE_LIMIT = 1000"
definition MAX_LEASE :: duration where
  "MAX_LEASE = \<lparr>secs = 24 * 60 * 60, subsec_nanos = 0\<rparr>"
definition MAX_BACKOFF_OR_DELAY :: duration where
  "MAX_BACKOFF_OR_DELAY = \<lparr>secs = 30 * 24 * 60 * 60, subsec_nanos = 0\<rparr>"
definition MAX_STREAM_BYTES :: nat where "MAX_STREAM_BYTES = 255"
definition MAX_TENANT_ID_BYTES :: nat where "MAX_TENANT_ID_BYTES = 255"
definition MAX_EVENT_ID_BYTES :: nat where "MAX_EVENT_ID_BYTES = 1024"
definition MAX_EVENT_TYPE_BYTES :: nat where "MAX_EVENT_TYPE_BYTES = 1024"
definition MAX_SUBJECT_BYTES :: nat where "MAX_SUBJECT_BYTES = 2048"
definition MAX_SOURCE_BYTES :: nat where "MAX_SOURCE_BYTES = 2048"
definition MAX_SCHEMA_URI_BYTES :: nat where "MAX_SCHEMA_URI_BYTES = 2048"
definition MAX_CONTENT_TYPE_BYTES :: nat where "MAX_CONTENT_TYPE_BYTES = 255"
definition MAX_PARTITION_KEY_BYTES :: nat where "MAX_PARTITION_KEY_BYTES = 255"
definition MAX_IDENTITY_BYTES :: nat where "MAX_IDENTITY_BYTES = 2048"
definition MAX_EXTENSION_NAME_BYTES :: nat where "MAX_EXTENSION_NAME_BYTES = 20"
definition MAX_WORKER_ID_BYTES :: nat where "MAX_WORKER_ID_BYTES = 255"
definition MAX_FAILURE_CODE_BYTES :: nat where "MAX_FAILURE_CODE_BYTES = 128"
definition MAX_FAILURE_DETAIL_BYTES :: nat where "MAX_FAILURE_DETAIL_BYTES = 2048"
definition MAX_QUARANTINE_REASON_BYTES :: nat where "MAX_QUARANTINE_REASON_BYTES = 2048"
definition TRACEPARENT_VERSION_CHARS :: nat where "TRACEPARENT_VERSION_CHARS = 2"
definition TRACEPARENT_TRACE_ID_CHARS :: nat where "TRACEPARENT_TRACE_ID_CHARS = 32"
definition TRACEPARENT_PARENT_ID_CHARS :: nat where "TRACEPARENT_PARENT_ID_CHARS = 16"
definition TRACEPARENT_FLAGS_CHARS :: nat where "TRACEPARENT_FLAGS_CHARS = 2"
definition MAX_TRACESTATE_BYTES :: nat where "MAX_TRACESTATE_BYTES = 512"
definition MAX_TRACESTATE_MEMBERS :: nat where "MAX_TRACESTATE_MEMBERS = 32"
definition MAX_TRACESTATE_KEY_BYTES :: nat where "MAX_TRACESTATE_KEY_BYTES = 256"
definition MAX_TRACESTATE_VALUE_BYTES :: nat where "MAX_TRACESTATE_VALUE_BYTES = 256"
definition MAX_TRACESTATE_TENANT_ID_BYTES :: nat where "MAX_TRACESTATE_TENANT_ID_BYTES = 241"
definition MAX_TRACESTATE_SYSTEM_ID_BYTES :: nat where "MAX_TRACESTATE_SYSTEM_ID_BYTES = 14"
definition CLAIM_TOKEN_BYTES :: nat where "CLAIM_TOKEN_BYTES = 16"
definition TAGGED_EXTENSION_FIELDS :: nat where "TAGGED_EXTENSION_FIELDS = 2"

lemmas limit_defs =
  MAX_PORTABLE_EVENT_BYTES_def MAX_CLAIM_OR_PAGE_LIMIT_def MAX_LEASE_def
  MAX_BACKOFF_OR_DELAY_def MAX_STREAM_BYTES_def MAX_TENANT_ID_BYTES_def
  MAX_EVENT_ID_BYTES_def MAX_EVENT_TYPE_BYTES_def MAX_SUBJECT_BYTES_def MAX_SOURCE_BYTES_def
  MAX_SCHEMA_URI_BYTES_def MAX_CONTENT_TYPE_BYTES_def MAX_PARTITION_KEY_BYTES_def
  MAX_IDENTITY_BYTES_def MAX_EXTENSION_NAME_BYTES_def MAX_WORKER_ID_BYTES_def
  MAX_FAILURE_CODE_BYTES_def MAX_FAILURE_DETAIL_BYTES_def MAX_QUARANTINE_REASON_BYTES_def
  TRACEPARENT_VERSION_CHARS_def TRACEPARENT_TRACE_ID_CHARS_def TRACEPARENT_PARENT_ID_CHARS_def
  TRACEPARENT_FLAGS_CHARS_def MAX_TRACESTATE_BYTES_def MAX_TRACESTATE_MEMBERS_def
  MAX_TRACESTATE_KEY_BYTES_def MAX_TRACESTATE_VALUE_BYTES_def
  MAX_TRACESTATE_TENANT_ID_BYTES_def MAX_TRACESTATE_SYSTEM_ID_BYTES_def
  CLAIM_TOKEN_BYTES_def TAGGED_EXTENSION_FIELDS_def

section \<open>Strings and URI references\<close>

text \<open>The character test of \<open>validate_string\<close>: controls and Unicode noncharacters.\<close>

definition forbidden_char :: "nat \<Rightarrow> bool" where
  "forbidden_char c \<longleftrightarrow> is_control c \<or> (64976 \<le> c \<and> c \<le> 65007)
     \<or> c mod 65536 = 65535 \<or> c mod 65536 = 65534"

definition validate_string ::
  "string \<Rightarrow> string \<Rightarrow> nat option \<Rightarrow> bool \<Rightarrow> ValidationError + unit" where
  "validate_string field value maximum_bytes allow_empty =
     (if \<not> allow_empty \<and> value = [] then Inl (verror_new field Empty)
      else if (case maximum_bytes of None \<Rightarrow> False | Some m \<Rightarrow> m < length value)
        then Inl (verror_new field Length)
      else if list_ex forbidden_char (chars value) then Inl (verror_new field Characters)
      else Inr ())"

definition validate_uri_reference ::
  "ext_lib \<Rightarrow> string \<Rightarrow> string \<Rightarrow> nat option \<Rightarrow> bool \<Rightarrow> ValidationError + unit" where
  "validate_uri_reference lib field value maximum_bytes allow_empty =
     and_then (validate_string field value maximum_bytes allow_empty) (\<lambda>_.
       if uri_ref_parses lib value then Inr () else Inl (verror_new field Syntax))"

section \<open>Trace context\<close>

definition valid_lower_hex :: "string \<Rightarrow> nat \<Rightarrow> bool" where
  "valid_lower_hex part width \<longleftrightarrow> length part = width
     \<and> list_all (\<lambda>b. is_ascii_digit b \<or> (97 \<le> byte b \<and> byte b \<le> 102)) part"

definition validate_traceparent :: "string \<Rightarrow> ValidationError + unit" where
  "validate_traceparent value =
     (let invalid = Inl (verror_new ''traceparent'' TraceContext) in
      case splitn 5 (CHR ''-'') value of
        version # trace_id # parent_id # flags # future_fields \<Rightarrow>
          if \<not> valid_lower_hex version TRACEPARENT_VERSION_CHARS
             \<or> \<not> valid_lower_hex trace_id TRACEPARENT_TRACE_ID_CHARS
             \<or> \<not> valid_lower_hex parent_id TRACEPARENT_PARENT_ID_CHARS
             \<or> \<not> valid_lower_hex flags TRACEPARENT_FLAGS_CHARS
             \<or> version = ''ff''
             \<or> list_all (\<lambda>b. b = CHR ''0'') trace_id
             \<or> list_all (\<lambda>b. b = CHR ''0'') parent_id
             \<or> (version = ''00'' \<and> (future_fields \<noteq> [] \<or> \<not> (flags = ''00'' \<or> flags = ''01'')))
          then invalid else Inr ()
      | _ \<Rightarrow> invalid)"

definition valid_tracestate_key_part :: "string \<Rightarrow> nat \<Rightarrow> bool \<Rightarrow> bool" where
  "valid_tracestate_key_part part maximum tenant =
     (case part of [] \<Rightarrow> False
      | first # _ \<Rightarrow> length part \<le> maximum
          \<and> (is_ascii_lowercase first \<or> (tenant \<and> is_ascii_digit first))
          \<and> list_all (\<lambda>b. is_ascii_lowercase b \<or> is_ascii_digit b \<or> b \<in> set ''_*-/'') part)"

definition valid_tracestate_key :: "string \<Rightarrow> bool" where
  "valid_tracestate_key key =
     (case split_once (CHR ''@'') key of
        Some (tenant, system) \<Rightarrow>
          valid_tracestate_key_part tenant MAX_TRACESTATE_TENANT_ID_BYTES True
          \<and> valid_tracestate_key_part system MAX_TRACESTATE_SYSTEM_ID_BYTES False
      | None \<Rightarrow> valid_tracestate_key_part key MAX_TRACESTATE_KEY_BYTES False)"

text \<open>
  The loop over the raw members: \<open>keys\<close> is the set of keys inserted so far, and a member
  whose key is already there is refused by \<open>keys.insert\<close> returning false.
\<close>

fun check_tracestate_members :: "string list \<Rightarrow> string list \<Rightarrow> ValidationError + unit" where
  "check_tracestate_members keys [] = Inr ()"
| "check_tracestate_members keys (raw_member # rest) =
     (let invalid = Inl (verror_new ''tracestate'' TraceContext);
          member = trim_matches (\<lambda>c. c = CHR '' '' \<or> byte c = 9) raw_member in
      if member = [] then check_tracestate_members keys rest
      else case split_once (CHR ''='') member of
        None \<Rightarrow> invalid
      | Some (key, member_value) \<Rightarrow>
          if key = [] \<or> MAX_TRACESTATE_KEY_BYTES < length key
             \<or> member_value = [] \<or> MAX_TRACESTATE_VALUE_BYTES < length member_value
             \<or> \<not> valid_tracestate_key key
             \<or> \<not> list_all (\<lambda>b. 32 \<le> byte b \<and> byte b \<le> 126 \<and> b \<noteq> CHR ''='') member_value
             \<or> key \<in> set keys
          then invalid
          else check_tracestate_members (key # keys) rest)"

definition validate_tracestate :: "string \<Rightarrow> ValidationError + unit" where
  "validate_tracestate value =
     (let invalid = Inl (verror_new ''tracestate'' TraceContext);
          raw_members = split_str (CHR '','') value in
      if MAX_TRACESTATE_BYTES < length value then invalid
      else if MAX_TRACESTATE_MEMBERS < length raw_members then invalid
      else check_tracestate_members [] raw_members)"

section \<open>Canonical timestamps\<close>

definition format_timestamp :: "ext_lib \<Rightarrow> offset_date_time \<Rightarrow> string" where
  "format_timestamp lib value =
     (let formatted = rfc3339_format lib (to_offset_utc value) in
      case split_once (CHR ''.'') formatted of
        None \<Rightarrow> formatted
      | Some (whole, fraction) \<Rightarrow>
          let fraction = (case strip_suffix (CHR ''Z'') fraction of None \<Rightarrow> fraction | Some f \<Rightarrow> f);
              fraction = trim_end_matches (\<lambda>c. c = CHR ''0'') fraction in
          if fraction = [] then whole @ ''Z'' else whole @ ''.'' @ fraction @ ''Z'')"

section \<open>What the checks accept\<close>

lemma validate_string_Inr_iff [result_simps]:
  "validate_string field value m allow = Inr u \<longleftrightarrow>
     (allow \<or> value \<noteq> []) \<and> (\<forall>b. m = Some b \<longrightarrow> length value \<le> b)
     \<and> list_all (\<lambda>c. \<not> forbidden_char c) (chars value)"
  by (cases m) (auto simp: validate_string_def list_all_iff list_ex_iff)

lemma validate_string_Inl:
  "validate_string field value m allow = Inl e \<Longrightarrow> err_field e = field \<and> err_operation e = Event"
  by (auto simp: validate_string_def split: if_splits)

lemma splitn_5_eq:
  assumes "splitn 5 d value = a # b # c # e # rest"
  shows "d \<notin> set a" "d \<notin> set b" "d \<notin> set c"
    and "rest = [] \<Longrightarrow> value = a @ d # b @ d # c @ d # e \<and> d \<notin> set e"
    and "rest \<noteq> [] \<Longrightarrow> \<exists>f. rest = [f] \<and> value = a @ d # b @ d # c @ d # e @ d # f \<and> d \<notin> set e"
  using assms
  by (auto simp: numeral_eq_Suc split_once_None split: option.splits prod.splits
      dest!: split_once_Some)

lemma splitn_5_append:
  assumes "d \<notin> set a" "d \<notin> set b" "d \<notin> set c" "d \<notin> set e"
  shows "splitn 5 d (a @ d # b @ d # c @ d # e) = [a, b, c, e]"
    and "splitn 5 d (a @ d # b @ d # c @ d # e @ d # f) = [a, b, c, e, f]"
  using assms by (simp_all add: numeral_eq_Suc split_once_append split_once_None [THEN iffD2])

lemma valid_lower_hex_no_hyphen: "valid_lower_hex p n \<Longrightarrow> CHR ''-'' \<notin> set p"
  by (auto simp: valid_lower_hex_def list_all_iff is_ascii_digit_def byte_def)

text \<open>
  The W3C grammar of an accepted \<open>traceparent\<close>, as a predicate on the four fields and
  the optional rest a version other than 00 may carry.
\<close>

definition traceparent_fields :: "string \<Rightarrow> string \<Rightarrow> string \<Rightarrow> string \<Rightarrow> string option \<Rightarrow> bool" where
  "traceparent_fields version trace_id parent_id flags future \<longleftrightarrow>
     valid_lower_hex version 2 \<and> valid_lower_hex trace_id 32 \<and> valid_lower_hex parent_id 16
     \<and> valid_lower_hex flags 2 \<and> version \<noteq> ''ff''
     \<and> (\<exists>b \<in> set trace_id. b \<noteq> CHR ''0'') \<and> (\<exists>b \<in> set parent_id. b \<noteq> CHR ''0'')
     \<and> (version = ''00'' \<longrightarrow> future = None \<and> flags \<in> {''00'', ''01''})"

definition traceparent_text :: "string \<Rightarrow> string \<Rightarrow> string \<Rightarrow> string \<Rightarrow> string option \<Rightarrow> string" where
  "traceparent_text version trace_id parent_id flags future =
     version @ ''-'' @ trace_id @ ''-'' @ parent_id @ ''-'' @ flags
     @ (case future of None \<Rightarrow> [] | Some f \<Rightarrow> ''-'' @ f)"

lemma validate_traceparent_sound:
  assumes "validate_traceparent value = Inr u"
  shows "\<exists>v t p f r. value = traceparent_text v t p f r \<and> traceparent_fields v t p f r"
proof -
  from assms obtain v t p f rest where sp: "splitn 5 (CHR ''-'') value = v # t # p # f # rest"
    and ok: "valid_lower_hex v 2" "valid_lower_hex t 32" "valid_lower_hex p 16"
      "valid_lower_hex f 2" "v \<noteq> ''ff''" "\<not> list_all (\<lambda>b. b = CHR ''0'') t"
      "\<not> list_all (\<lambda>b. b = CHR ''0'') p"
      "v = ''00'' \<longrightarrow> rest = [] \<and> (f = ''00'' \<or> f = ''01'')"
    by (auto simp: validate_traceparent_def Let_def limit_defs split: list.splits if_splits)
  have "traceparent_fields v t p f (case rest of [] \<Rightarrow> None | x # _ \<Rightarrow> Some x)"
    using ok by (auto simp: traceparent_fields_def list_all_iff)
  moreover have "value = traceparent_text v t p f (case rest of [] \<Rightarrow> None | x # _ \<Rightarrow> Some x)"
    using splitn_5_eq(4,5) [OF sp] by (cases rest) (auto simp: traceparent_text_def)
  ultimately show ?thesis by blast
qed

lemma validate_traceparent_complete:
  assumes "traceparent_fields v t p f r"
  shows "validate_traceparent (traceparent_text v t p f r) = Inr ()"
proof -
  from assms have hex: "valid_lower_hex v 2" "valid_lower_hex t 32" "valid_lower_hex p 16"
    "valid_lower_hex f 2"
    by (auto simp: traceparent_fields_def)
  have "splitn 5 (CHR ''-'') (traceparent_text v t p f r)
      = v # t # p # f # (case r of None \<Rightarrow> [] | Some x \<Rightarrow> [x])"
    using hex [THEN valid_lower_hex_no_hyphen]
    by (cases r) (simp_all add: traceparent_text_def splitn_5_append)
  then show ?thesis
    using assms by (auto simp: validate_traceparent_def Let_def limit_defs traceparent_fields_def
        list_all_iff split: option.splits)
qed

text \<open>
  The member grammar of \<open>tracestate\<close> without the loop: what each non-empty member must
  look like, and that no key occurs twice.
\<close>

definition tracestate_trim :: "string \<Rightarrow> string" where
  "tracestate_trim = trim_matches (\<lambda>c. c = CHR '' '' \<or> byte c = 9)"

definition tracestate_member :: "string \<Rightarrow> string \<Rightarrow> string \<Rightarrow> bool" where
  "tracestate_member member key v \<longleftrightarrow>
     split_once (CHR ''='') member = Some (key, v)
     \<and> key \<noteq> [] \<and> length key \<le> 256 \<and> v \<noteq> [] \<and> length v \<le> 256 \<and> valid_tracestate_key key
     \<and> (\<forall>b \<in> set v. 32 \<le> byte b \<and> byte b \<le> 126 \<and> b \<noteq> CHR ''='')"

definition tracestate_members :: "string \<Rightarrow> string list" where
  "tracestate_members value =
     filter (\<lambda>m. m \<noteq> []) (map tracestate_trim (split_str (CHR '','') value))"

lemma check_tracestate_members_step:
  "check_tracestate_members keys (raw # rest) =
     (if tracestate_trim raw = [] then check_tracestate_members keys rest
      else case split_once (CHR ''='') (tracestate_trim raw) of
        None \<Rightarrow> Inl (verror_new ''tracestate'' TraceContext)
      | Some (k, v) \<Rightarrow>
          if tracestate_member (tracestate_trim raw) k v \<and> k \<notin> set keys
          then check_tracestate_members (k # keys) rest
          else Inl (verror_new ''tracestate'' TraceContext))"
  unfolding check_tracestate_members.simps(2) tracestate_trim_def [symmetric] Let_def
  by (rule if_cong [OF refl refl], rule option.case_cong [OF refl refl], rule prod.case_cong [OF refl])
    (simp add: tracestate_member_def limit_defs list_all_iff not_less)

declare check_tracestate_members.simps(2) [simp del]

lemma tracestate_member_unique:
  "tracestate_member m k v \<Longrightarrow> tracestate_member m k' v' \<longleftrightarrow> k' = k \<and> v' = v"
  by (auto simp: tracestate_member_def)

lemma check_tracestate_members_iff:
  "check_tracestate_members keys raws = Inr () \<longleftrightarrow>
     (\<exists>kvs. list_all2 (\<lambda>m (k, v). tracestate_member m k v)
              (filter (\<lambda>m. m \<noteq> []) (map tracestate_trim raws)) kvs
        \<and> distinct (map fst kvs) \<and> set (map fst kvs) \<inter> set keys = {})"
proof (induction raws arbitrary: keys)
  case Nil
  then show ?case by simp
next
  case (Cons raw rest)
  let ?m = "tracestate_trim raw"
  let ?P = "\<lambda>ms keys. \<exists>kvs. list_all2 (\<lambda>m (k, v). tracestate_member m k v) ms kvs
        \<and> distinct (map fst kvs) \<and> set (map fst kvs) \<inter> set keys = {}"
  let ?ms = "filter (\<lambda>m. m \<noteq> []) (map tracestate_trim rest)"
  have step: "?P (?m # ?ms) keys \<longleftrightarrow>
      (\<exists>k v. tracestate_member ?m k v \<and> k \<notin> set keys \<and> ?P ?ms (k # keys))" (is "?L \<longleftrightarrow> ?R")
  proof
    assume ?L
    then obtain k v kvs where "tracestate_member ?m k v"
      "list_all2 (\<lambda>m (k, v). tracestate_member m k v) ?ms kvs"
      "distinct (map fst ((k, v) # kvs))" "set (map fst ((k, v) # kvs)) \<inter> set keys = {}"
      by (auto simp: list_all2_Cons1)
    then show ?R by (intro exI [of _ k] exI [of _ v]) (auto intro!: exI [of _ kvs])
  next
    assume ?R
    then obtain k v kvs where "tracestate_member ?m k v" "k \<notin> set keys"
      "list_all2 (\<lambda>m (k, v). tracestate_member m k v) ?ms kvs"
      "distinct (map fst kvs)" "set (map fst kvs) \<inter> set (k # keys) = {}"
      by blast
    then show ?L by (intro exI [of _ "(k, v) # kvs"]) auto
  qed
  show ?case
  proof (cases "?m = []")
    case True
    then show ?thesis using Cons.IH by (simp add: check_tracestate_members_step)
  next
    case False
    then have "?P (filter (\<lambda>m. m \<noteq> []) (map tracestate_trim (raw # rest))) keys
        \<longleftrightarrow> ?P (?m # ?ms) keys" by simp
    moreover have "check_tracestate_members keys (raw # rest) = Inr () \<longleftrightarrow>
        (\<exists>k v. tracestate_member ?m k v \<and> k \<notin> set keys
           \<and> check_tracestate_members (k # keys) rest = Inr ())"
      using False
      by (auto simp: check_tracestate_members_step tracestate_member_def
          split: option.splits prod.splits)
    ultimately show ?thesis unfolding Cons.IH step by blast
  qed
qed

lemma validate_tracestate_iff:
  "validate_tracestate value = Inr () \<longleftrightarrow>
     length value \<le> 512 \<and> length (split_str (CHR '','') value) \<le> 32
     \<and> (\<exists>kvs. list_all2 (\<lambda>m (k, v). tracestate_member m k v) (tracestate_members value) kvs
          \<and> distinct (map fst kvs))"
  by (auto simp: validate_tracestate_def Let_def limit_defs check_tracestate_members_iff
      tracestate_members_def)

text \<open>The canonical spelling drops a zero fraction and every trailing zero of another one.\<close>

lemma trim_end_matches_append_replicate:
  "s = [] \<or> last s \<noteq> c \<Longrightarrow> trim_end_matches (\<lambda>x. x = c) (s @ replicate n c) = s"
  by (cases s rule: rev_cases) (auto simp: trim_end_matches_def dropWhile_append)

lemma format_timestamp_fraction:
  assumes "rfc3339_format lib (to_offset_utc t) = whole @ ''.'' @ f @ replicate n (CHR ''0'') @ ''Z''"
    and "CHR ''.'' \<notin> set whole" and "f = [] \<or> last f \<noteq> CHR ''0''"
  shows "format_timestamp lib t = whole @ (if f = [] then ''Z'' else ''.'' @ f @ ''Z'')"
proof -
  have "split_once (CHR ''.'') (whole @ ''.'' @ f @ replicate n (CHR ''0'') @ ''Z'')
      = Some (whole, f @ replicate n (CHR ''0'') @ ''Z'')"
    using assms(2) split_once_append [of "CHR ''.''" whole] by simp
  moreover have "strip_suffix (CHR ''Z'') (f @ replicate n (CHR ''0'') @ ''Z'')
      = Some (f @ replicate n (CHR ''0''))"
    by (simp add: strip_suffix_def butlast_append)
  ultimately show ?thesis
    using assms(1) trim_end_matches_append_replicate [OF assms(3), of n]
    by (simp add: format_timestamp_def Let_def)
qed

lemma format_timestamp_whole:
  assumes "rfc3339_format lib (to_offset_utc t) = s" and "CHR ''.'' \<notin> set s"
  shows "format_timestamp lib t = s"
  using assms split_once_None [of "CHR ''.''" s] by (simp add: format_timestamp_def)

lemma format_timestamp_utc [simp]: "format_timestamp lib (to_offset_utc t) = format_timestamp lib t"
  by (simp add: format_timestamp_def)

section \<open>Properties\<close>

text \<open>\<open>validate_traceparent\<close> accepts exactly the W3C traceparent grammar: four
  lower-case hexadecimal fields of widths 2, 32, 16 and 2, a version other than ff,
  a trace and a parent identifier that are not all zero, no further field and the flags 00
  or 01 under version 00, and any further text after a fifth hyphen under a later version.\<close>

theorem validate_traceparent_grammar:
  "validate_traceparent value = Inr () \<longleftrightarrow>
     (\<exists>v t p f r. value = traceparent_text v t p f r \<and> traceparent_fields v t p f r)"
  using validate_traceparent_sound validate_traceparent_complete by blast

text \<open>C39. \<open>validate_tracestate\<close> accepts exactly the lists of at most 32 comma-separated members
  in at most 512 octets whose non-empty members, after trimming blanks and tabs, are
  key=value pairs of the member grammar with pairwise distinct keys.\<close>

theorem validate_tracestate_grammar:
  "validate_tracestate value = Inr () \<longleftrightarrow>
     length value \<le> 512 \<and> length (split_str (CHR '','') value) \<le> 32
     \<and> (\<exists>kvs. list_all2 (\<lambda>m (k, v). tracestate_member m k v) (tracestate_members value) kvs
          \<and> distinct (map fst kvs))"
  by (rule validate_tracestate_iff)

end
