(* ===== verification/Core_Bounds.thy ===== *)
theory Core_Bounds
  imports Core_Validation
begin

text \<open>
  \<open>crates/dovecote/src/bounds.rs\<close>: the bounded newtypes of the operational interface (row
  identifiers, attempt counters, limits, leases, delays, worker identities, failures and
  quarantine reasons) and the range check on instants. A tuple struct with a private field
  is a datatype with one constructor; a value built by the constructor function satisfies
  the predicate \<open><type>_ok\<close>.
\<close>

datatype RowId = RowId (row_id_get: int)
datatype AttemptCount = AttemptCount (attempt_count_get: int)
datatype PageLimit = PageLimit (limit_get: nat)
datatype Lease = Lease (lease_get: duration)
datatype Delay = Delay (delay_get: duration)
datatype EventSizeLimit = EventSizeLimit (event_size_limit_get: nat)
datatype WorkerId = WorkerId (worker_id_str: string)
datatype QuarantineReason = QuarantineReason (quarantine_reason_str: string)

record Failure =
  failure_code :: string
  failure_detail :: string

definition row_id_new :: "int \<Rightarrow> ValidationError + RowId" where
  "row_id_new value =
     (if 0 < value then Inr (RowId value)
      else Inl (verror_with_operation ''row_id'' State Range))"

definition attempt_count_new :: "int \<Rightarrow> ValidationError + AttemptCount" where
  "attempt_count_new value =
     (if 0 \<le> value then Inr (AttemptCount value)
      else Inl (verror_with_operation ''attempts'' State Range))"

definition limit_new :: "nat \<Rightarrow> ValidationError + PageLimit" where
  "limit_new value =
     (if 1 \<le> value \<and> value \<le> MAX_CLAIM_OR_PAGE_LIMIT then Inr (PageLimit value)
      else Inl (verror_with_operation ''limit'' Limit Range))"

definition validate_duration ::
  "string \<Rightarrow> duration \<Rightarrow> bool \<Rightarrow> duration \<Rightarrow> ValidationError + unit" where
  "validate_duration field value allow_zero maximum =
     (if (\<not> allow_zero \<and> duration_is_zero value) \<or> duration_less maximum value
        then Inl (verror_with_operation field Duration Range)
      else if \<not> duration_is_zero value \<and> subsec_nanos value mod 1000000 \<noteq> 0
        then Inl (verror_with_operation field Duration Precision)
      else Inr ())"

definition lease_new :: "duration \<Rightarrow> ValidationError + Lease" where
  "lease_new value =
     and_then (validate_duration ''lease'' value False MAX_LEASE) (\<lambda>_. Inr (Lease value))"

definition delay_new :: "duration \<Rightarrow> ValidationError + Delay" where
  "delay_new value =
     and_then (validate_duration ''delay or backoff'' value True MAX_BACKOFF_OR_DELAY)
       (\<lambda>_. Inr (Delay value))"

definition event_size_limit_new :: "nat \<Rightarrow> ValidationError + EventSizeLimit" where
  "event_size_limit_new value =
     (if 0 < value then Inr (EventSizeLimit value)
      else Inl (verror_with_operation ''event size limit'' Event Range))"

definition event_size_limit_default :: EventSizeLimit where
  "event_size_limit_default = EventSizeLimit MAX_PORTABLE_EVENT_BYTES"

definition worker_id_new :: "string \<Rightarrow> ValidationError + WorkerId" where
  "worker_id_new value =
     and_then (map_err as_operational
       (validate_string ''worker_id'' value (Some MAX_WORKER_ID_BYTES) False))
       (\<lambda>_. Inr (WorkerId value))"

definition failure_new :: "string \<Rightarrow> string \<Rightarrow> ValidationError + Failure" where
  "failure_new code detail =
     and_then (map_err as_operational
       (validate_string ''failure code'' code (Some MAX_FAILURE_CODE_BYTES) False)) (\<lambda>_.
     and_then (map_err as_operational
       (validate_string ''failure detail'' detail (Some MAX_FAILURE_DETAIL_BYTES) False)) (\<lambda>_.
     Inr \<lparr>failure_code = code, failure_detail = detail\<rparr>))"

definition quarantine_reason_new :: "string \<Rightarrow> ValidationError + QuarantineReason" where
  "quarantine_reason_new value =
     and_then (map_err as_operational
       (validate_string ''quarantine reason'' value (Some MAX_QUARANTINE_REASON_BYTES) False))
       (\<lambda>_. Inr (QuarantineReason value))"

text \<open>The supported instants: the epoch to 9999-12-31T23:59:59.999999Z, in microseconds.\<close>

definition instant_minimum :: int where "instant_minimum = 0"

definition instant_maximum :: int where "instant_maximum = 253402300799999999000"

definition validate_instant :: "string \<Rightarrow> offset_date_time \<Rightarrow> ValidationError + unit" where
  "validate_instant field value =
     (if \<not> (instant_minimum \<le> unix_nanos value \<and> unix_nanos value \<le> instant_maximum)
        then Inl (verror_with_operation field State Range)
      else if (unix_nanos value mod 1000000000) mod 1000 \<noteq> 0
        then Inl (verror_with_operation field State Precision)
      else Inr ())"

definition canonicalize_instant ::
  "string \<Rightarrow> offset_date_time \<Rightarrow> ValidationError + offset_date_time" where
  "canonicalize_instant field value =
     and_then (validate_instant field value) (\<lambda>_. Inr (to_offset_utc value))"

definition validate_optional_instant ::
  "string \<Rightarrow> offset_date_time option \<Rightarrow> ValidationError + unit" where
  "validate_optional_instant field value =
     (case value of None \<Rightarrow> Inr () | Some v \<Rightarrow> and_then (validate_instant field v) (\<lambda>_. Inr ()))"

section \<open>The values the constructors let through\<close>

definition lease_ok :: "Lease \<Rightarrow> bool" where
  "lease_ok l \<longleftrightarrow> 0 < as_nanos (lease_get l) \<and> as_nanos (lease_get l) \<le> 86400 * 1000000000
     \<and> as_nanos (lease_get l) mod 1000000 = 0"

definition delay_ok :: "Delay \<Rightarrow> bool" where
  "delay_ok d \<longleftrightarrow> as_nanos (delay_get d) \<le> 2592000 * 1000000000
     \<and> as_nanos (delay_get d) mod 1000000 = 0"

definition text_ok :: "nat \<Rightarrow> string \<Rightarrow> bool" where
  "text_ok m s \<longleftrightarrow> s \<noteq> [] \<and> length s \<le> m \<and> list_all (\<lambda>c. \<not> forbidden_char c) (chars s)"

definition worker_id_ok :: "WorkerId \<Rightarrow> bool" where
  "worker_id_ok w \<longleftrightarrow> text_ok MAX_WORKER_ID_BYTES (worker_id_str w)"

definition failure_ok :: "Failure \<Rightarrow> bool" where
  "failure_ok f \<longleftrightarrow> text_ok MAX_FAILURE_CODE_BYTES (failure_code f)
     \<and> text_ok MAX_FAILURE_DETAIL_BYTES (failure_detail f)"

definition quarantine_reason_ok :: "QuarantineReason \<Rightarrow> bool" where
  "quarantine_reason_ok r \<longleftrightarrow> text_ok MAX_QUARANTINE_REASON_BYTES (quarantine_reason_str r)"

definition instant_ok :: "offset_date_time \<Rightarrow> bool" where
  "instant_ok t \<longleftrightarrow> 0 \<le> unix_nanos t \<and> unix_nanos t \<le> instant_maximum \<and> unix_nanos t mod 1000 = 0"

lemma row_id_new_Inr_iff [result_simps]:
  "row_id_new v = Inr r \<longleftrightarrow> 0 < v \<and> r = RowId v"
  by (auto simp: row_id_new_def)

lemma attempt_count_new_Inr_iff [result_simps]:
  "attempt_count_new v = Inr r \<longleftrightarrow> 0 \<le> v \<and> r = AttemptCount v"
  by (auto simp: attempt_count_new_def)

lemma limit_new_Inr_iff [result_simps]:
  "limit_new v = Inr l \<longleftrightarrow> 1 \<le> v \<and> v \<le> 1000 \<and> l = PageLimit v"
  by (auto simp: limit_new_def limit_defs)

lemma event_size_limit_new_Inr_iff [result_simps]:
  "event_size_limit_new v = Inr l \<longleftrightarrow> 0 < v \<and> l = EventSizeLimit v"
  by (auto simp: event_size_limit_new_def)

lemma worker_id_new_Inr_iff [result_simps]:
  "worker_id_new s = Inr w \<longleftrightarrow> text_ok MAX_WORKER_ID_BYTES s \<and> w = WorkerId s"
  by (auto simp: worker_id_new_def text_ok_def result_simps)

lemma failure_new_Inr_iff [result_simps]:
  "failure_new c d = Inr f \<longleftrightarrow> text_ok MAX_FAILURE_CODE_BYTES c
     \<and> text_ok MAX_FAILURE_DETAIL_BYTES d \<and> f = \<lparr>failure_code = c, failure_detail = d\<rparr>"
  by (auto simp: failure_new_def text_ok_def result_simps)

lemma quarantine_reason_new_Inr_iff [result_simps]:
  "quarantine_reason_new s = Inr r \<longleftrightarrow> text_ok MAX_QUARANTINE_REASON_BYTES s \<and> r = QuarantineReason s"
  by (auto simp: quarantine_reason_new_def text_ok_def result_simps)

lemma validate_instant_Inr_iff [result_simps]:
  "validate_instant f t = Inr u \<longleftrightarrow> instant_ok t"
  by (auto simp: validate_instant_def instant_ok_def instant_minimum_def mod_mod_cancel)

lemma canonicalize_instant_Inr_iff [result_simps]:
  "canonicalize_instant f t = Inr u \<longleftrightarrow> instant_ok t \<and> u = to_offset_utc t"
  by (auto simp: canonicalize_instant_def result_simps)

lemma validate_optional_instant_Inr_iff [result_simps]:
  "validate_optional_instant f v = Inr u \<longleftrightarrow> (\<forall>t. v = Some t \<longrightarrow> instant_ok t)"
  by (auto simp: validate_optional_instant_def result_simps split: option.splits)

lemma instant_ok_utc [simp]: "instant_ok (to_offset_utc t) \<longleftrightarrow> instant_ok t"
  by (simp add: instant_ok_def)

lemma instant_ok_no_panic: "instant_ok t \<Longrightarrow> \<not> to_offset_utc_panics t"
  by (auto simp: instant_ok_def to_offset_utc_panics_def odt_min_nanos_def odt_max_nanos_def
      instant_maximum_def)

text \<open>Durations: the checks on seconds and sub-second nanoseconds, read as nanoseconds.\<close>

lemma duration_is_zero_iff: "duration_is_zero d \<longleftrightarrow> as_nanos d = 0"
  by (auto simp: duration_is_zero_def as_nanos_def)

lemma duration_less_iff:
  "duration_wf a \<Longrightarrow> duration_wf b \<Longrightarrow> duration_less a b \<longleftrightarrow> as_nanos a < as_nanos b"
  by (auto simp: duration_less_def as_nanos_def duration_wf_def)

lemma subsec_millis_iff: "subsec_nanos d mod 1000000 = as_nanos d mod 1000000"
proof -
  have "secs d * 1000000000 = (secs d * 1000) * 1000000" by simp
  then show ?thesis by (metis as_nanos_def mod_mult_self3)
qed

lemma validate_duration_Inr_iff:
  assumes "duration_wf d" and "duration_wf m"
  shows "validate_duration f d z m = Inr u \<longleftrightarrow>
     (z \<or> 0 < as_nanos d) \<and> as_nanos d \<le> as_nanos m \<and> as_nanos d mod 1000000 = 0"
  using assms
  by (auto simp: validate_duration_def duration_less_iff duration_is_zero_iff subsec_millis_iff)

lemma lease_new_Inr_iff:
  assumes "duration_wf d"
  shows "lease_new d = Inr l \<longleftrightarrow> l = Lease d \<and> lease_ok l"
proof -
  have "duration_wf MAX_LEASE" by (simp add: duration_wf_def limit_defs)
  moreover have "as_nanos MAX_LEASE = 86400 * 1000000000" by (simp add: as_nanos_def limit_defs)
  ultimately show ?thesis
    using assms by (auto simp: lease_new_def result_simps validate_duration_Inr_iff lease_ok_def)
qed

lemma delay_new_Inr_iff:
  assumes "duration_wf d"
  shows "delay_new d = Inr l \<longleftrightarrow> l = Delay d \<and> delay_ok l"
proof -
  have "duration_wf MAX_BACKOFF_OR_DELAY" by (simp add: duration_wf_def limit_defs)
  moreover have "as_nanos MAX_BACKOFF_OR_DELAY = 2592000 * 1000000000"
    by (simp add: as_nanos_def limit_defs)
  ultimately show ?thesis
    using assms by (auto simp: delay_new_def result_simps validate_duration_Inr_iff delay_ok_def)
qed

end
