(* ===== verification/Core_Value.thy ===== *)
theory Core_Value
  imports Core_Bounds
begin

text \<open>
  \<open>crates/dovecote/src/value.rs\<close>: the validated strings of an event (stream, identifiers,
  URIs, media types), the tenant identity and the event data.
\<close>

datatype StreamName = StreamName (stream_str: string)
datatype EventId = EventId (event_id_str: string)
datatype EventType = EventType (event_type_str: string)
datatype EventSubject = EventSubject (subject_str: string)
datatype PartitionKey = PartitionKey (partition_key_str: string)
datatype TenantId = TenantId (tenant_id_str: string)
datatype EventSource = EventSource (source_str: string)
datatype AbsoluteUri = AbsoluteUri (absolute_uri_str: string)
datatype UriReference = UriReference (uri_reference_str: string)
datatype SchemaUri = SchemaUri (schema_uri_inner: AbsoluteUri)
datatype ContentType = ContentType (content_type_str: string)
datatype JsonData = JsonData (json_data_bytes: bytes)
datatype EventData = DataJson JsonData | DataBinary bytes

definition schema_uri_str :: "SchemaUri \<Rightarrow> string" where
  "schema_uri_str u = absolute_uri_str (schema_uri_inner u)"

definition stream_name_new :: "string \<Rightarrow> ValidationError + StreamName" where
  "stream_name_new value =
     and_then (validate_string ''stream'' value (Some MAX_STREAM_BYTES) False) (\<lambda>_.
       if \<not> list_all (\<lambda>b. is_ascii_alphanumeric b \<or> b \<in> set ''._-'') value
         then Inl (verror_new ''stream'' Characters)
       else if \<not> (case value of [] \<Rightarrow> False | b # _ \<Rightarrow> is_ascii_alphanumeric b)
         then Inl (verror_new ''stream'' Characters)
       else Inr (StreamName value))"

text \<open>The macro \<open>bounded_string!\<close>, at its four instances.\<close>

definition bounded_string_new ::
  "string \<Rightarrow> nat \<Rightarrow> (string \<Rightarrow> 'a) \<Rightarrow> string \<Rightarrow> ValidationError + 'a" where
  "bounded_string_new field maximum mk value =
     and_then (validate_string field value (Some maximum) False) (\<lambda>_. Inr (mk value))"

definition event_id_new :: "string \<Rightarrow> ValidationError + EventId" where
  "event_id_new = bounded_string_new ''event id'' MAX_EVENT_ID_BYTES EventId"

definition event_type_new :: "string \<Rightarrow> ValidationError + EventType" where
  "event_type_new = bounded_string_new ''event type'' MAX_EVENT_TYPE_BYTES EventType"

definition event_subject_new :: "string \<Rightarrow> ValidationError + EventSubject" where
  "event_subject_new = bounded_string_new ''subject'' MAX_SUBJECT_BYTES EventSubject"

definition partition_key_new :: "string \<Rightarrow> ValidationError + PartitionKey" where
  "partition_key_new = bounded_string_new ''partition key'' MAX_PARTITION_KEY_BYTES PartitionKey"

text \<open>\<open>trim().is_empty()\<close> holds exactly when every scalar value is white space.\<close>

definition tenant_id_new :: "string \<Rightarrow> ValidationError + TenantId" where
  "tenant_id_new value =
     and_then (validate_string ''tenant id'' value (Some MAX_TENANT_ID_BYTES) False) (\<lambda>_.
       if list_all is_whitespace (chars value) then Inl (verror_new ''tenant id'' Empty)
       else Inr (TenantId value))"

definition event_source_new :: "ext_lib \<Rightarrow> string \<Rightarrow> ValidationError + EventSource" where
  "event_source_new lib value =
     and_then (validate_uri_reference lib ''source'' value (Some MAX_SOURCE_BYTES) False)
       (\<lambda>_. Inr (EventSource value))"

definition absolute_uri_new :: "ext_lib \<Rightarrow> string \<Rightarrow> ValidationError + AbsoluteUri" where
  "absolute_uri_new lib value =
     and_then (validate_string ''URI'' value None False) (\<lambda>_.
       if uri_parses lib value then Inr (AbsoluteUri value)
       else Inl (verror_new ''URI'' Syntax))"

definition uri_reference_new :: "ext_lib \<Rightarrow> string \<Rightarrow> ValidationError + UriReference" where
  "uri_reference_new lib value =
     and_then (validate_uri_reference lib ''URI-reference'' value None False)
       (\<lambda>_. Inr (UriReference value))"

definition schema_uri_new :: "ext_lib \<Rightarrow> string \<Rightarrow> ValidationError + SchemaUri" where
  "schema_uri_new lib value =
     and_then (validate_string ''schema URI'' value (Some MAX_SCHEMA_URI_BYTES) False) (\<lambda>_.
     and_then (absolute_uri_new lib value) (\<lambda>u. Inr (SchemaUri u)))"

definition content_type_new :: "ext_lib \<Rightarrow> string \<Rightarrow> ValidationError + ContentType" where
  "content_type_new lib value =
     and_then (validate_string ''datacontenttype'' value (Some MAX_CONTENT_TYPE_BYTES) False) (\<lambda>_.
     and_then (ok_or (verror_new ''datacontenttype'' MediaType) (mime_parse lib value))
       (\<lambda>_. Inr (ContentType value)))"

text \<open>
  \<open>is_json\<close> parses again and unwraps: a \<open>ContentType\<close> was accepted by the same parser.
  The \<open>None\<close> branch stands for the panic of \<open>expect\<close>, which a constructed value never
  reaches.
\<close>

definition content_type_is_json :: "ext_lib \<Rightarrow> ContentType \<Rightarrow> bool" where
  "content_type_is_json lib ct =
     (case mime_parse lib (content_type_str ct) of
        None \<Rightarrow> False
      | Some m \<Rightarrow> mime_subtype m = ''json'' \<or> mime_suffix m = Some ''json'')"

definition json_data_new :: "ext_lib \<Rightarrow> bytes \<Rightarrow> ValidationError + JsonData" where
  "json_data_new lib value =
     (if \<not> utf8_valid value then Inl (verror_new ''JSON data'' Json)
      else case json_parse lib value of
        None \<Rightarrow> Inl (verror_new ''JSON data'' Json)
      | Some _ \<Rightarrow> Inr (JsonData value))"

definition json_data_as_value :: "ext_lib \<Rightarrow> JsonData \<Rightarrow> json" where
  "json_data_as_value lib d =
     (case json_parse lib (json_data_bytes d) of None \<Rightarrow> JNull | Some v \<Rightarrow> v)"

definition event_data_json :: "ext_lib \<Rightarrow> bytes \<Rightarrow> ValidationError + EventData" where
  "event_data_json lib value = and_then (json_data_new lib value) (\<lambda>d. Inr (DataJson d))"

definition event_data_binary :: "bytes \<Rightarrow> EventData" where
  "event_data_binary value = DataBinary value"

fun event_data_bytes :: "EventData \<Rightarrow> bytes" where
  "event_data_bytes (DataJson d) = json_data_bytes d"
| "event_data_bytes (DataBinary b) = b"

fun event_data_is_json :: "EventData \<Rightarrow> bool" where
  "event_data_is_json (DataJson d) = True"
| "event_data_is_json (DataBinary b) = False"

section \<open>The values the constructors let through\<close>

definition stream_ok :: "StreamName \<Rightarrow> bool" where
  "stream_ok s \<longleftrightarrow> length (stream_str s) \<le> 255
     \<and> (\<exists>b r. stream_str s = b # r \<and> is_ascii_alphanumeric b)
     \<and> list_all (\<lambda>b. is_ascii_alphanumeric b \<or> b \<in> set ''._-'') (stream_str s)"

definition tenant_ok :: "TenantId \<Rightarrow> bool" where
  "tenant_ok t \<longleftrightarrow> text_ok MAX_TENANT_ID_BYTES (tenant_id_str t)
     \<and> \<not> list_all is_whitespace (chars (tenant_id_str t))"

definition event_data_ok :: "ext_lib \<Rightarrow> EventData \<Rightarrow> bool" where
  "event_data_ok lib d = (case d of DataJson j \<Rightarrow>
      utf8_valid (json_data_bytes j) \<and> json_parse lib (json_data_bytes j) \<noteq> None
    | DataBinary b \<Rightarrow> True)"

lemma stream_chars_ascii:
  "list_all (\<lambda>b. is_ascii_alphanumeric b \<or> b \<in> set ''._-'') s \<Longrightarrow> ascii s"
  by (auto simp: ascii_def list_all_iff std_defs)

lemma stream_chars_allowed:
  assumes "list_all (\<lambda>b. is_ascii_alphanumeric b \<or> b \<in> set ''._-'') s"
  shows "list_all (\<lambda>c. \<not> forbidden_char c) (chars s)"
proof -
  have "\<not> forbidden_char (byte b)" if "is_ascii_alphanumeric b \<or> b \<in> set ''._-''" for b
    using that by (auto simp: forbidden_char_def std_defs)
  then show ?thesis
    using assms chars_ascii [OF stream_chars_ascii [OF assms]] by (auto simp: list_all_iff)
qed

lemma stream_name_new_Inr_iff [result_simps]:
  "stream_name_new v = Inr s \<longleftrightarrow> s = StreamName v \<and> stream_ok s"
  using stream_chars_allowed [of v]
  by (auto simp: stream_name_new_def result_simps stream_ok_def limit_defs split: list.splits if_splits)

lemma bounded_string_new_Inr_iff [result_simps]:
  "bounded_string_new f m mk v = Inr x \<longleftrightarrow> text_ok m v \<and> x = mk v"
  by (auto simp: bounded_string_new_def result_simps text_ok_def)

lemmas bounded_string_defs =
  event_id_new_def event_type_new_def event_subject_new_def partition_key_new_def

lemma tenant_id_new_Inr_iff [result_simps]:
  "tenant_id_new v = Inr t \<longleftrightarrow> t = TenantId v \<and> tenant_ok t"
  by (auto simp: tenant_id_new_def result_simps tenant_ok_def text_ok_def)

lemma event_source_new_Inr_iff [result_simps]:
  "event_source_new lib v = Inr s \<longleftrightarrow>
     text_ok MAX_SOURCE_BYTES v \<and> uri_ref_parses lib v \<and> s = EventSource v"
  by (auto simp: event_source_new_def validate_uri_reference_def result_simps text_ok_def split: if_splits)

lemma absolute_uri_new_Inr_iff [result_simps]:
  "absolute_uri_new lib v = Inr u \<longleftrightarrow> v \<noteq> [] \<and> list_all (\<lambda>c. \<not> forbidden_char c) (chars v)
     \<and> uri_parses lib v \<and> u = AbsoluteUri v"
  by (auto simp: absolute_uri_new_def result_simps split: if_splits)

lemma uri_reference_new_Inr_iff [result_simps]:
  "uri_reference_new lib v = Inr u \<longleftrightarrow> v \<noteq> [] \<and> list_all (\<lambda>c. \<not> forbidden_char c) (chars v)
     \<and> uri_ref_parses lib v \<and> u = UriReference v"
  by (auto simp: uri_reference_new_def validate_uri_reference_def result_simps split: if_splits)

lemma schema_uri_new_Inr_iff [result_simps]:
  "schema_uri_new lib v = Inr u \<longleftrightarrow>
     text_ok MAX_SCHEMA_URI_BYTES v \<and> uri_parses lib v \<and> u = SchemaUri (AbsoluteUri v)"
  by (auto simp: schema_uri_new_def result_simps text_ok_def)

lemma content_type_new_Inr_iff [result_simps]:
  "content_type_new lib v = Inr c \<longleftrightarrow>
     text_ok MAX_CONTENT_TYPE_BYTES v \<and> mime_parse lib v \<noteq> None \<and> c = ContentType v"
  by (auto simp: content_type_new_def result_simps text_ok_def)

lemma event_data_json_Inr_iff [result_simps]:
  "event_data_json lib v = Inr d \<longleftrightarrow> d = DataJson (JsonData v) \<and> event_data_ok lib d"
  by (auto simp: event_data_json_def json_data_new_def event_data_ok_def result_simps split: option.splits)

end
