(* ===== verification/Core_Extension.thy ===== *)
theory Core_Extension
  imports Core_Value
begin

text \<open>
  \<open>crates/dovecote/src/extension.rs\<close>: typed CloudEvents extension attributes. The set is a
  \<open>BTreeMap\<close>, here the list of its entries in ascending name order. The durable form is a
  JSON object of tagged values; decoding re-encodes and compares, so that only the exact
  bytes the encoder emits are accepted.
\<close>

datatype ExtensionName = ExtensionName (extension_name_str: string)
datatype ExtensionString = ExtensionString (extension_string_str: string)
datatype Timestamp = Timestamp (timestamp_get: offset_date_time)

datatype ExtensionValue =
    EBoolean bool
  | EInteger int
  | EString ExtensionString
  | EBinary bytes
  | EUri AbsoluteUri
  | EUriReference UriReference
  | ETimestamp Timestamp

type_synonym Extensions = "(ExtensionName \<times> ExtensionValue) list"

text \<open>The derived \<open>Ord\<close> of a newtype is the order of the string inside.\<close>

instantiation ExtensionName :: linorder
begin

definition less_eq_ExtensionName :: "ExtensionName \<Rightarrow> ExtensionName \<Rightarrow> bool" where
  "less_eq_ExtensionName a b \<longleftrightarrow> extension_name_str a \<le> extension_name_str b"

definition less_ExtensionName :: "ExtensionName \<Rightarrow> ExtensionName \<Rightarrow> bool" where
  "less_ExtensionName a b \<longleftrightarrow> extension_name_str a < extension_name_str b"

instance
  by standard
    (auto simp: less_eq_ExtensionName_def less_ExtensionName_def less_le_not_le
      intro: ExtensionName.expand)

end

section \<open>Constructors\<close>

definition reserved_extension_names :: "string list" where
  "reserved_extension_names =
     [''id'', ''source'', ''type'', ''specversion'', ''subject'', ''time'', ''datacontenttype'',
      ''dataschema'', ''data'', ''data_base64'', ''partitionkey'']"

definition extension_name_new :: "string \<Rightarrow> ValidationError + ExtensionName" where
  "extension_name_new value =
     (if value = [] then Inl (verror_new ''extension name'' Empty)
      else if MAX_EXTENSION_NAME_BYTES < length value then Inl (verror_new ''extension name'' Length)
      else if \<not> list_all (\<lambda>b. is_ascii_lowercase b \<or> is_ascii_digit b) value
        then Inl (verror_new ''extension name'' Characters)
      else if value \<in> set reserved_extension_names
        then Inl (verror_new ''extension name'' ReservedName)
      else Inr (ExtensionName value))"

definition extension_string_new :: "string \<Rightarrow> ValidationError + ExtensionString" where
  "extension_string_new value =
     and_then (validate_string ''extension string'' value None True) (\<lambda>_. Inr (ExtensionString value))"

definition timestamp_new :: "offset_date_time \<Rightarrow> ValidationError + Timestamp" where
  "timestamp_new value =
     and_then (canonicalize_instant ''extension timestamp'' value) (\<lambda>v. Inr (Timestamp v))"

definition extension_value_string :: "string \<Rightarrow> ValidationError + ExtensionValue" where
  "extension_value_string value = and_then (extension_string_new value) (\<lambda>v. Inr (EString v))"

definition extension_value_uri :: "ext_lib \<Rightarrow> string \<Rightarrow> ValidationError + ExtensionValue" where
  "extension_value_uri lib value = and_then (absolute_uri_new lib value) (\<lambda>v. Inr (EUri v))"

definition extension_value_uri_reference ::
  "ext_lib \<Rightarrow> string \<Rightarrow> ValidationError + ExtensionValue" where
  "extension_value_uri_reference lib value =
     and_then (uri_reference_new lib value) (\<lambda>v. Inr (EUriReference v))"

definition extension_value_timestamp :: "offset_date_time \<Rightarrow> ValidationError + ExtensionValue" where
  "extension_value_timestamp value = and_then (timestamp_new value) (\<lambda>v. Inr (ETimestamp v))"

section \<open>Encoding\<close>

fun structured_json_value :: "ext_lib \<Rightarrow> ExtensionValue \<Rightarrow> json" where
  "structured_json_value lib (EBoolean v) = JBool v"
| "structured_json_value lib (EInteger v) = JNumber (NInt v)"
| "structured_json_value lib (EString v) = JString (extension_string_str v)"
| "structured_json_value lib (EBinary v) = JString (base64_encode lib v)"
| "structured_json_value lib (EUri v) = JString (absolute_uri_str v)"
| "structured_json_value lib (EUriReference v) = JString (uri_reference_str v)"
| "structured_json_value lib (ETimestamp v) = JString (format_timestamp lib (timestamp_get v))"

fun extension_type_name :: "ExtensionValue \<Rightarrow> string" where
  "extension_type_name (EBoolean _) = ''boolean''"
| "extension_type_name (EInteger _) = ''integer''"
| "extension_type_name (EString _) = ''string''"
| "extension_type_name (EBinary _) = ''binary''"
| "extension_type_name (EUri _) = ''uri''"
| "extension_type_name (EUriReference _) = ''uri-reference''"
| "extension_type_name (ETimestamp _) = ''timestamp''"

definition tagged_json :: "ext_lib \<Rightarrow> ExtensionValue \<Rightarrow> json" where
  "tagged_json lib v =
     JObject (map_insert ''value'' (structured_json_value lib v)
               (map_insert ''type'' (JString (extension_type_name v)) []))"

fun extension_as_string :: "ExtensionValue \<Rightarrow> string option" where
  "extension_as_string (EString v) = Some (extension_string_str v)"
| "extension_as_string _ = None"

definition extensions_new :: Extensions where "extensions_new = []"

definition extensions_insert ::
  "ExtensionName \<Rightarrow> ExtensionValue \<Rightarrow> Extensions \<Rightarrow> ValidationError + Extensions" where
  "extensions_insert name v e =
     (if name \<in> fst ` set e then Inl (verror_new ''extension name'' Duplicate)
      else Inr (btree_insert name v e))"

definition extensions_get :: "Extensions \<Rightarrow> ExtensionName \<Rightarrow> ExtensionValue option" where
  "extensions_get e name = map_of e name"

definition extensions_object :: "ext_lib \<Rightarrow> Extensions \<Rightarrow> json" where
  "extensions_object lib e =
     JObject (foldl (\<lambda>object (name, v). map_insert (extension_name_str name) (tagged_json lib v) object)
                [] e)"

definition canonical_json :: "ext_lib \<Rightarrow> Extensions \<Rightarrow> string" where
  "canonical_json lib e = json_print lib (extensions_object lib e)"

section \<open>Trace context\<close>

definition validate_trace_extension ::
  "Extensions \<Rightarrow> string \<Rightarrow> (string \<Rightarrow> ValidationError + unit) \<Rightarrow> ValidationError + unit" where
  "validate_trace_extension e name validator =
     (let extension = extensions_get e (ExtensionName name) in
      case Option.bind extension extension_as_string of
        Some value \<Rightarrow> validator value
      | None \<Rightarrow> if extension \<noteq> None then Inl (verror_new name TraceContext) else Inr ())"

definition validate_trace_context :: "Extensions \<Rightarrow> ValidationError + unit" where
  "validate_trace_context e =
     (let traceparent = extensions_get e (ExtensionName ''traceparent'');
          tracestate = extensions_get e (ExtensionName ''tracestate'') in
      if tracestate \<noteq> None \<and> traceparent = None then Inl (verror_new ''tracestate'' TraceContext)
      else and_then (validate_trace_extension e ''traceparent'' validate_traceparent) (\<lambda>_.
           and_then (validate_trace_extension e ''tracestate'' validate_tracestate) (\<lambda>_. Inr ())))"

section \<open>Decoding\<close>

text \<open>
  The last constructor is not a variant of the enum: it stands for the panic of
  \<open>format_timestamp\<close> on an instant whose UTC date RFC 3339 cannot express.
\<close>

datatype ExtensionDecodeError =
    DecodeJson string
  | DecodeInvalidName ValidationError
  | DecodeInvalidShape string
  | DecodeInvalidValue string string "ValidationError option"
  | DecodeInvalidBinary string string
  | DecodeInvalidTimestamp string string
  | DecodeInvalidExtensions ValidationError
  | DecodeNonCanonical
  | DecodeUnsupportedType string string
  | DecodePanic

definition format_timestamp_panics :: "offset_date_time \<Rightarrow> bool" where
  "format_timestamp_panics t \<longleftrightarrow>
     to_offset_utc_panics t \<or> unix_nanos t < - 62167219200000000000"

definition invalid_extension_value :: "string \<Rightarrow> string \<Rightarrow> ExtensionDecodeError" where
  "invalid_extension_value name type_name = DecodeInvalidValue name type_name None"

definition invalid_extension_value_with_source ::
  "string \<Rightarrow> string \<Rightarrow> ValidationError \<Rightarrow> ExtensionDecodeError" where
  "invalid_extension_value_with_source name type_name source =
     DecodeInvalidValue name type_name (Some source)"

definition decode_validated_string ::
  "string \<Rightarrow> string \<Rightarrow> json \<Rightarrow> (string \<Rightarrow> ValidationError + ExtensionValue)
     \<Rightarrow> ExtensionDecodeError + ExtensionValue" where
  "decode_validated_string name type_name v constructor =
     and_then (ok_or (DecodeInvalidValue name type_name None) (json_as_str v)) (\<lambda>s.
       map_err (\<lambda>source. DecodeInvalidValue name type_name (Some source)) (constructor s))"

definition decode_binary ::
  "ext_lib \<Rightarrow> string \<Rightarrow> json \<Rightarrow> ExtensionDecodeError + ExtensionValue" where
  "decode_binary lib name v =
     and_then (ok_or (invalid_extension_value name ''binary'') (json_as_str v)) (\<lambda>s.
     and_then (ok_or (DecodeInvalidBinary name (base64_error lib s)) (base64_decode lib s)) (\<lambda>b. Inr (EBinary b)))"

definition decode_timestamp ::
  "ext_lib \<Rightarrow> string \<Rightarrow> string \<Rightarrow> json \<Rightarrow> ExtensionDecodeError + ExtensionValue" where
  "decode_timestamp lib name type_name v =
     and_then (ok_or (invalid_extension_value name type_name) (json_as_str v)) (\<lambda>s.
     and_then (ok_or (DecodeInvalidTimestamp name (rfc3339_error lib s)) (rfc3339_parse lib s)) (\<lambda>timestamp.
       if format_timestamp_panics timestamp then Inl DecodePanic
       else if format_timestamp lib timestamp \<noteq> s
         then Inl (invalid_extension_value name type_name)
       else map_err (invalid_extension_value_with_source name type_name)
              (extension_value_timestamp timestamp)))"

definition i32_try_from :: "int \<Rightarrow> int option" where
  "i32_try_from v = (if - 2147483648 \<le> v \<and> v \<le> 2147483647 then Some v else None)"

definition decode_extension_value ::
  "ext_lib \<Rightarrow> string \<Rightarrow> string \<Rightarrow> json \<Rightarrow> ExtensionDecodeError + ExtensionValue" where
  "decode_extension_value lib name type_name v =
     (if type_name = ''boolean'' then
        ok_or (DecodeInvalidValue name type_name None) (map_option EBoolean (json_as_bool v))
      else if type_name = ''integer'' then
        ok_or (DecodeInvalidValue name type_name None)
          (map_option EInteger (Option.bind (json_as_i64 v) i32_try_from))
      else if type_name = ''string'' then
        decode_validated_string name type_name v extension_value_string
      else if type_name = ''binary'' then decode_binary lib name v
      else if type_name = ''uri'' then
        decode_validated_string name type_name v (extension_value_uri lib)
      else if type_name = ''uri-reference'' then
        decode_validated_string name type_name v (extension_value_uri_reference lib)
      else if type_name = ''timestamp'' then decode_timestamp lib name type_name v
      else Inl (DecodeUnsupportedType name type_name))"

text \<open>One turn of the loop over the members: the shape checks, then the typed value.\<close>

definition decode_entry ::
  "ext_lib \<Rightarrow> string \<times> json \<Rightarrow> ExtensionDecodeError + (ExtensionName \<times> ExtensionValue)" where
  "decode_entry lib entry = (case entry of (name, tagged) \<Rightarrow>
     and_then (map_err DecodeInvalidName (extension_name_new name)) (\<lambda>extension_name.
     (case tagged of
        JObject tagged_members \<Rightarrow>
          if length tagged_members \<noteq> TAGGED_EXTENSION_FIELDS then Inl (DecodeInvalidShape name)
          else (case map_of tagged_members ''type'' of
            Some (JString type_name) \<Rightarrow>
              (case map_of (filter (\<lambda>(k, _). k \<noteq> ''type'') tagged_members) ''value'' of
                 None \<Rightarrow> Inl (DecodeInvalidShape name)
               | Some v \<Rightarrow> and_then (decode_extension_value lib name type_name v)
                             (\<lambda>ev. Inr (extension_name, ev)))
          | _ \<Rightarrow> Inl (DecodeInvalidShape name))
      | _ \<Rightarrow> Inl (DecodeInvalidShape name))))"

fun decode_entries ::
  "ext_lib \<Rightarrow> Extensions \<Rightarrow> (string \<times> json) list \<Rightarrow> ExtensionDecodeError + Extensions" where
  "decode_entries lib extensions [] = Inr extensions"
| "decode_entries lib extensions (entry # entries) =
     and_then (decode_entry lib entry) (\<lambda>(name, v).
       decode_entries lib (btree_insert name v extensions) entries)"

definition from_canonical_json :: "ext_lib \<Rightarrow> string \<Rightarrow> ExtensionDecodeError + Extensions" where
  "from_canonical_json lib encoded =
     and_then (ok_or (DecodeJson (json_error lib encoded)) (json_parse lib encoded)) (\<lambda>v.
     (case v of
        JObject entries \<Rightarrow>
          and_then (decode_entries lib extensions_new entries) (\<lambda>extensions.
          and_then (map_err DecodeInvalidExtensions (validate_trace_context extensions)) (\<lambda>_.
            if canonical_json lib extensions \<noteq> encoded then Inl DecodeNonCanonical
            else Inr extensions))
      | _ \<Rightarrow> Inl (DecodeInvalidShape ''<root>'')))"

text \<open>The \<open>Display\<close> text of a decode error; a panic has none.\<close>

fun decode_error_to_string :: "ExtensionDecodeError \<Rightarrow> string" where
  "decode_error_to_string (DecodeJson message) = ''extensions JSON is invalid: '' @ message"
| "decode_error_to_string (DecodeInvalidName source) =
     ''extension name is invalid: '' @ verror_to_string source"
| "decode_error_to_string (DecodeInvalidShape name) = ''extension '' @ name @ '' has invalid shape''"
| "decode_error_to_string (DecodeInvalidValue name type_name source) =
     ''extension '' @ name @ '' has invalid '' @ type_name @ '' value''"
| "decode_error_to_string (DecodeInvalidBinary name message) =
     ''extension '' @ name @ '' has invalid binary data: '' @ message"
| "decode_error_to_string (DecodeInvalidTimestamp name message) =
     ''extension '' @ name @ '' has invalid timestamp: '' @ message"
| "decode_error_to_string (DecodeInvalidExtensions source) =
     ''extension set is invalid: '' @ verror_to_string source"
| "decode_error_to_string DecodeNonCanonical =
     ''extensions JSON is not the canonical durable representation''"
| "decode_error_to_string (DecodeUnsupportedType name type_name) =
     ''extension '' @ name @ '' uses unsupported type '' @ type_name"
| "decode_error_to_string DecodePanic = []"

section \<open>Well-formed extension sets\<close>

definition extension_name_ok :: "ExtensionName \<Rightarrow> bool" where
  "extension_name_ok n \<longleftrightarrow> extension_name_str n \<noteq> [] \<and> length (extension_name_str n) \<le> 20
     \<and> list_all (\<lambda>b. is_ascii_lowercase b \<or> is_ascii_digit b) (extension_name_str n)
     \<and> extension_name_str n \<notin> set reserved_extension_names"

fun extension_value_ok :: "ext_lib \<Rightarrow> ExtensionValue \<Rightarrow> bool" where
  "extension_value_ok lib (EBoolean b) = True"
| "extension_value_ok lib (EInteger v) = (- 2147483648 \<le> v \<and> v \<le> 2147483647)"
| "extension_value_ok lib (EString s) =
     list_all (\<lambda>c. \<not> forbidden_char c) (chars (extension_string_str s))"
| "extension_value_ok lib (EBinary b) = True"
| "extension_value_ok lib (EUri u) = (absolute_uri_str u \<noteq> []
     \<and> list_all (\<lambda>c. \<not> forbidden_char c) (chars (absolute_uri_str u))
     \<and> uri_parses lib (absolute_uri_str u))"
| "extension_value_ok lib (EUriReference u) = (uri_reference_str u \<noteq> []
     \<and> list_all (\<lambda>c. \<not> forbidden_char c) (chars (uri_reference_str u))
     \<and> uri_ref_parses lib (uri_reference_str u))"
| "extension_value_ok lib (ETimestamp t) =
     (instant_ok (timestamp_get t) \<and> utc_offset (timestamp_get t) = 0)"

definition extensions_wf :: "ext_lib \<Rightarrow> Extensions \<Rightarrow> bool" where
  "extensions_wf lib e \<longleftrightarrow> keys_sorted e
     \<and> list_all (\<lambda>(n, v). extension_name_ok n \<and> extension_value_ok lib v) e"

definition extensions_ok :: "ext_lib \<Rightarrow> Extensions \<Rightarrow> bool" where
  "extensions_ok lib e \<longleftrightarrow> extensions_wf lib e \<and> validate_trace_context e = Inr ()"

lemma extension_name_new_Inr_iff [result_simps]:
  "extension_name_new v = Inr n \<longleftrightarrow> n = ExtensionName v \<and> extension_name_ok n"
  by (auto simp: extension_name_new_def extension_name_ok_def limit_defs)

lemma extension_value_string_Inr_iff [result_simps]:
  "extension_value_string s = Inr v \<longleftrightarrow>
     v = EString (ExtensionString s) \<and> list_all (\<lambda>c. \<not> forbidden_char c) (chars s)"
  by (auto simp: extension_value_string_def extension_string_new_def result_simps)

lemma extension_value_uri_Inr_iff [result_simps]:
  "extension_value_uri lib s = Inr v \<longleftrightarrow> v = EUri (AbsoluteUri s) \<and> extension_value_ok lib v"
  by (auto simp: extension_value_uri_def result_simps)

lemma extension_value_uri_reference_Inr_iff [result_simps]:
  "extension_value_uri_reference lib s = Inr v \<longleftrightarrow>
     v = EUriReference (UriReference s) \<and> extension_value_ok lib v"
  by (auto simp: extension_value_uri_reference_def result_simps)

lemma extension_value_timestamp_Inr_iff [result_simps]:
  "extension_value_timestamp t = Inr v \<longleftrightarrow> v = ETimestamp (Timestamp (to_offset_utc t)) \<and> instant_ok t"
  by (auto simp: extension_value_timestamp_def timestamp_new_def result_simps)

lemma extensions_insert_wf:
  assumes "extensions_wf lib e" "extension_name_ok n" "extension_value_ok lib v"
    and "extensions_insert n v e = Inr e'"
  shows "extensions_wf lib e'"
proof -
  have set_ins: "set (btree_insert n v e) \<subseteq> insert (n, v) (set e)" for n v and e :: Extensions
    by (induction n v e rule: btree_insert.induct) auto
  show ?thesis
    using assms set_ins [of n v e] btree_insert_sorted [of e n v]
    by (auto simp: extensions_wf_def extensions_insert_def list_all_iff split: if_splits)
qed

lemma extensions_insert_get:
  "extensions_insert n v e = Inr e' \<Longrightarrow>
     extensions_get e n = None \<and> extensions_get e' = (extensions_get e)(n \<mapsto> v)"
  by (auto simp: extensions_insert_def extensions_get_def btree_insert_map_of map_of_eq_None_iff
      split: if_splits)

section \<open>Durable form\<close>

text \<open>The values of a set that the encoder hands to the base64 and timestamp printers.\<close>

definition codec_round_trips :: "ext_lib \<Rightarrow> ExtensionValue \<Rightarrow> bool" where
  "codec_round_trips lib v = (case v of
      EBinary b \<Rightarrow> base64_decode lib (base64_encode lib b) = Some b
    | ETimestamp t \<Rightarrow>
        rfc3339_parse lib (format_timestamp lib (timestamp_get t)) = Some (timestamp_get t)
    | _ \<Rightarrow> True)"

lemma tagged_json_eq:
  "tagged_json lib v =
     JObject [(''type'', JString (extension_type_name v)), (''value'', structured_json_value lib v)]"
  by (simp add: tagged_json_def)

lemma extensions_object_eq:
  assumes "keys_sorted e"
  shows "extensions_object lib e =
     JObject (map (\<lambda>(n, v). (extension_name_str n, tagged_json lib v)) e)"
proof -
  let ?f = "\<lambda>(n, v). (extension_name_str n, tagged_json lib v)"
  have "inj extension_name_str" by (rule injI) (rule ExtensionName.expand, simp)
  then have "distinct (map extension_name_str (map fst e))"
    using keys_sorted_distinct [OF assms] by (metis distinct_map inj_on_subset subset_UNIV)
  then have "distinct (map fst (map ?f e))" by (simp add: comp_def case_prod_unfold)
  moreover have "foldl (\<lambda>object (n, v). map_insert (extension_name_str n) (tagged_json lib v) object) acc xs
      = foldl (\<lambda>m (k, v). map_insert k v m) acc (map ?f xs)" for acc xs
    by (induction xs arbitrary: acc) auto
  ultimately show ?thesis
    using foldl_map_insert_distinct [of "[]" "map ?f e"] by (simp add: extensions_object_def)
qed

lemma decode_extension_value_tagged:
  assumes "extension_value_ok lib v" and "codec_round_trips lib v"
  shows "decode_extension_value lib name (extension_type_name v) (structured_json_value lib v) = Inr v"
proof (cases v)
  case (EInteger i)
  then show ?thesis using assms
    by (simp add: decode_extension_value_def i32_try_from_def i64_range_def i64_min_def i64_max_def)
next
  case (EString s)
  then show ?thesis using assms
    by (simp add: decode_extension_value_def decode_validated_string_def result_simps)
next
  case (EUri u)
  then show ?thesis using assms
    by (simp add: decode_extension_value_def decode_validated_string_def result_simps)
next
  case (EUriReference u)
  then show ?thesis using assms
    by (simp add: decode_extension_value_def decode_validated_string_def result_simps)
next
  case (ETimestamp t)
  let ?t = "timestamp_get t"
  have utc: "to_offset_utc ?t = ?t" and ok: "instant_ok ?t"
    using assms ETimestamp by (simp_all add: to_offset_utc_def)
  have "\<not> format_timestamp_panics ?t"
    using instant_ok_no_panic [OF ok] ok by (auto simp: format_timestamp_panics_def instant_ok_def)
  moreover have "extension_value_timestamp ?t = Inr v"
    using ok utc ETimestamp by (simp add: extension_value_timestamp_Inr_iff)
  ultimately show ?thesis using assms ETimestamp
    by (simp add: decode_extension_value_def decode_timestamp_def codec_round_trips_def)
qed (use assms in \<open>simp_all add: decode_extension_value_def decode_binary_def codec_round_trips_def\<close>)

lemma decode_entry_tagged:
  assumes "extension_name_ok n" "extension_value_ok lib v" "codec_round_trips lib v"
  shows "decode_entry lib (extension_name_str n, tagged_json lib v) = Inr (n, v)"
proof -
  have "extension_name_new (extension_name_str n) = Inr n"
    using assms(1) by (simp add: extension_name_new_Inr_iff)
  then show ?thesis
    by (simp add: decode_entry_def tagged_json_eq limit_defs decode_extension_value_tagged assms)
qed

lemma decode_entries_tagged:
  assumes "list_all (\<lambda>(n, v). extension_name_ok n \<and> extension_value_ok lib v \<and> codec_round_trips lib v) e"
  shows "decode_entries lib acc (map (\<lambda>(n, v). (extension_name_str n, tagged_json lib v)) e)
     = Inr (foldl (\<lambda>m (k, v). btree_insert k v m) acc e)"
  using assms by (induction e arbitrary: acc) (auto simp: decode_entry_tagged)

lemma from_canonical_json_complete:
  assumes "extensions_ok lib e"
    and "json_parse lib (canonical_json lib e) = Some (extensions_object lib e)"
    and "list_all (\<lambda>(n, v). codec_round_trips lib v) e"
  shows "from_canonical_json lib (canonical_json lib e) = Inr e"
proof -
  have sorted: "keys_sorted e" and trace: "validate_trace_context e = Inr ()"
    using assms(1) by (auto simp: extensions_ok_def extensions_wf_def)
  have "list_all (\<lambda>(n, v). extension_name_ok n \<and> extension_value_ok lib v \<and> codec_round_trips lib v) e"
    using assms(1,3) by (auto simp: extensions_ok_def extensions_wf_def list_all_iff)
  then have "decode_entries lib [] (map (\<lambda>(n, v). (extension_name_str n, tagged_json lib v)) e) = Inr e"
    using decode_entries_tagged foldl_btree_insert_sorted [of "[]" e] sorted by simp
  then show ?thesis
    using assms(2) trace extensions_object_eq [OF sorted]
    by (simp add: from_canonical_json_def extensions_new_def)
qed

lemma decode_extension_value_ok:
  "decode_extension_value lib name ty j = Inr v \<Longrightarrow> extension_value_ok lib v"
  by (auto simp: decode_extension_value_def decode_validated_string_def decode_binary_def
      decode_timestamp_def result_simps i32_try_from_def bind_eq_Some_conv split: if_splits)

lemma decode_entry_ok:
  "decode_entry lib x = Inr (n, v) \<Longrightarrow> extension_name_ok n \<and> extension_value_ok lib v"
  by (auto simp: decode_entry_def result_simps split: json.splits option.splits if_splits prod.splits
      dest: decode_extension_value_ok)

lemma decode_entries_wf:
  assumes "decode_entries lib acc xs = Inr e" and "extensions_wf lib acc"
  shows "extensions_wf lib e"
  using assms
proof (induction xs arbitrary: acc)
  case (Cons x xs)
  from Cons.prems(1) obtain n v where d: "decode_entry lib x = Inr (n, v)"
    and rest: "decode_entries lib (btree_insert n v acc) xs = Inr e"
    by (auto simp: result_simps)
  have "set (btree_insert n v acc) \<subseteq> insert (n, v) (set acc)"
    by (induction n v acc rule: btree_insert.induct) auto
  then have "extensions_wf lib (btree_insert n v acc)"
    using Cons.prems(2) decode_entry_ok [OF d] btree_insert_sorted [of acc n v]
    by (auto simp: extensions_wf_def list_all_iff)
  then show ?case using Cons.IH rest by blast
qed simp

lemma from_canonical_json_sound:
  assumes "from_canonical_json lib s = Inr e"
  shows "canonical_json lib e = s" and "extensions_ok lib e"
proof -
  from assms obtain j where j: "json_parse lib s = Some j"
    by (auto simp: from_canonical_json_def result_simps)
  obtain xs where d: "decode_entries lib [] xs = Inr e"
    and t: "validate_trace_context e = Inr ()" and c: "canonical_json lib e = s"
    using assms j
    by (cases j) (auto simp: from_canonical_json_def extensions_new_def result_simps split: if_splits)
  show "canonical_json lib e = s" by (rule c)
  show "extensions_ok lib e"
    using decode_entries_wf [OF d] t by (simp add: extensions_ok_def extensions_wf_def)
qed

end
