(* ===== verification/Core_Event.thy ===== *)
theory Core_Event
  imports Core_Extension
begin

text \<open>
  \<open>crates/dovecote/src/event.rs\<close>, \<open>serialization.rs\<close> and \<open>projection.rs\<close>: the event content and its
  builder, the structured JSON bytes and the binary-mode size, and the two projections of a
  stored event.
\<close>

definition SPEC_VERSION :: string where "SPEC_VERSION = ''1.0''"

record EventContent =
  ec_stream :: StreamName
  ec_id :: EventId
  ec_source :: EventSource
  ec_event_type :: EventType
  ec_subject :: "EventSubject option"
  ec_time :: "offset_date_time option"
  ec_datacontenttype :: "ContentType option"
  ec_dataschema :: "SchemaUri option"
  ec_partitionkey :: "PartitionKey option"
  ec_extensions :: Extensions
  ec_data :: "EventData option"

record NewEvent =
  new_content :: EventContent
  new_size_limit :: EventSizeLimit

datatype StoredEvent = StoredEvent (stored_content: EventContent)
datatype NewEventBuilder = NewEventBuilder (builder_content: EventContent)

section \<open>serialization.rs\<close>

type_synonym json_members = "(string \<times> json) list"

definition insert_optional_json_member ::
  "string \<Rightarrow> json option \<Rightarrow> json_members \<Rightarrow> json_members" where
  "insert_optional_json_member name v object =
     (case v of None \<Rightarrow> object | Some j \<Rightarrow> map_insert name j object)"

fun canonicalize_json :: "json \<Rightarrow> json" where
  "canonicalize_json (JObject object) =
     JObject (foldl (\<lambda>m (k, v). map_insert k v m) []
       (foldl (\<lambda>m (k, v). btree_insert k v m) []
         (map (\<lambda>(k, v). (k, canonicalize_json v)) object)))"
| "canonicalize_json (JArray values) = JArray (map canonicalize_json values)"
| "canonicalize_json v = v"

definition structured_json_object :: "ext_lib \<Rightarrow> EventContent \<Rightarrow> json_members" where
  "structured_json_object lib content =
     (let object = map_insert ''specversion'' (JString SPEC_VERSION) [];
          object = map_insert ''id'' (JString (event_id_str (ec_id content))) object;
          object = map_insert ''source'' (JString (source_str (ec_source content))) object;
          object = map_insert ''type'' (JString (event_type_str (ec_event_type content))) object;
          object = insert_optional_json_member ''subject''
            (map_option (\<lambda>v. JString (subject_str v)) (ec_subject content)) object;
          object = insert_optional_json_member ''time''
            (map_option (\<lambda>v. JString (format_timestamp lib v)) (ec_time content)) object;
          object = insert_optional_json_member ''datacontenttype''
            (map_option (\<lambda>v. JString (content_type_str v)) (ec_datacontenttype content)) object;
          object = insert_optional_json_member ''dataschema''
            (map_option (\<lambda>v. JString (schema_uri_str v)) (ec_dataschema content)) object;
          object = insert_optional_json_member ''partitionkey''
            (map_option (\<lambda>v. JString (partition_key_str v)) (ec_partitionkey content)) object;
          object = foldl (\<lambda>m (name, v).
              map_insert (extension_name_str name) (structured_json_value lib v) m)
            object (ec_extensions content)
      in case ec_data content of
           None \<Rightarrow> object
         | Some (DataJson v) \<Rightarrow>
             map_insert ''data'' (canonicalize_json (json_data_as_value lib v)) object
         | Some (DataBinary v) \<Rightarrow> map_insert ''data_base64'' (JString (base64_encode lib v)) object)"

definition structured_json_bytes :: "ext_lib \<Rightarrow> EventContent \<Rightarrow> ValidationError + bytes" where
  "structured_json_bytes lib content =
     ok_or (verror_new ''event'' Json) (json_to_vec lib (JObject (structured_json_object lib content)))"

definition add_binary_context :: "string \<Rightarrow> string \<Rightarrow> nat \<Rightarrow> nat" where
  "add_binary_context name value sz =
     saturating_add_usize
       (saturating_add_usize (saturating_add_usize sz (length name)) 4)
       (saturating_mul_usize (length value) 3)"

definition add_optional_binary_context :: "string \<Rightarrow> string option \<Rightarrow> nat \<Rightarrow> nat" where
  "add_optional_binary_context name value sz =
     (case value of None \<Rightarrow> sz | Some v \<Rightarrow> add_binary_context name v sz)"

fun extension_binary_string :: "ext_lib \<Rightarrow> ExtensionValue \<Rightarrow> string" where
  "extension_binary_string lib (EBoolean v) = (if v then ''true'' else ''false'')"
| "extension_binary_string lib (EInteger v) = int_to_string v"
| "extension_binary_string lib (EString v) = extension_string_str v"
| "extension_binary_string lib (EBinary v) = base64_encode lib v"
| "extension_binary_string lib (EUri v) = absolute_uri_str v"
| "extension_binary_string lib (EUriReference v) = uri_reference_str v"
| "extension_binary_string lib (ETimestamp v) = format_timestamp lib (timestamp_get v)"

definition binary_material_bytes :: "ext_lib \<Rightarrow> EventContent \<Rightarrow> ValidationError + nat" where
  "binary_material_bytes lib content =
     (let sz = (case ec_data content of None \<Rightarrow> 0 | Some v \<Rightarrow> length (event_data_bytes v));
          sz = add_binary_context ''ce-specversion'' SPEC_VERSION sz;
          sz = add_binary_context ''ce-id'' (event_id_str (ec_id content)) sz;
          sz = add_binary_context ''ce-source'' (source_str (ec_source content)) sz;
          sz = add_binary_context ''ce-type'' (event_type_str (ec_event_type content)) sz;
          sz = add_optional_binary_context ''ce-subject''
            (map_option subject_str (ec_subject content)) sz;
          sz = add_optional_binary_context ''ce-time''
            (map_option (format_timestamp lib) (ec_time content)) sz;
          sz = add_optional_binary_context ''ce-dataschema''
            (map_option schema_uri_str (ec_dataschema content)) sz;
          sz = add_optional_binary_context ''ce-partitionkey''
            (map_option partition_key_str (ec_partitionkey content)) sz;
          sz = foldl (\<lambda>sz (name, v).
              add_binary_context (''ce-'' @ extension_name_str name) (extension_binary_string lib v) sz)
            sz (ec_extensions content)
      in case ec_datacontenttype content of
           None \<Rightarrow> Inr sz
         | Some v \<Rightarrow>
             let header_name = (if length ''ce-datacontenttype'' > length ''Content-Type''
                                then ''ce-datacontenttype'' else ''Content-Type'') in
             Inr (add_binary_context header_name (content_type_str v) sz))"

section \<open>event.rs\<close>

definition STRUCTURED_CONTENT_TYPE :: string where
  "STRUCTURED_CONTENT_TYPE = ''application/cloudevents+json''"

text \<open>The final two octets are the carriage return and line feed of \<open>"\r\n".len()\<close>.\<close>

definition CONTENT_TYPE_BYTES :: nat where
  "CONTENT_TYPE_BYTES = length ''Content-Type: '' + length STRUCTURED_CONTENT_TYPE + 2"

definition portable_size :: "ext_lib \<Rightarrow> EventContent \<Rightarrow> ValidationError + nat" where
  "portable_size lib content =
     and_then (structured_json_bytes lib content) (\<lambda>bs.
     and_then (ok_or (verror_new ''event'' Size) (checked_add_usize (length bs) CONTENT_TYPE_BYTES))
       (\<lambda>structured.
     and_then (binary_material_bytes lib content) (\<lambda>binary. Inr (max structured binary))))"

definition validate_content ::
  "ext_lib \<Rightarrow> EventContent \<Rightarrow> EventSizeLimit \<Rightarrow> ValidationError + unit" where
  "validate_content lib content limit =
     (if (case checked_add_usize (length (source_str (ec_source content)))
                 (length (event_id_str (ec_id content))) of
            None \<Rightarrow> True | Some n \<Rightarrow> MAX_IDENTITY_BYTES < n)
        then Inl (verror_new ''source and event id'' Length)
      else and_then (validate_optional_instant ''time'' (ec_time content)) (\<lambda>_.
      and_then (validate_trace_context (ec_extensions content)) (\<lambda>_.
      and_then
        (case ec_data content of
           None \<Rightarrow> Inr ()
         | Some d \<Rightarrow>
             if event_data_bytes d \<noteq> [] \<and> ec_datacontenttype content = None
               then Inl (verror_new ''datacontenttype'' Combination)
             else if event_data_is_json d
                 \<and> \<not> (case ec_datacontenttype content of
                        None \<Rightarrow> False | Some ct \<Rightarrow> content_type_is_json lib ct)
               then Inl (verror_new ''datacontenttype'' Combination)
             else Inr ()) (\<lambda>_.
      and_then (portable_size lib content) (\<lambda>sz.
        if event_size_limit_get limit < sz then Inl (verror_new ''event'' Size) else Inr ())))))"

definition builder_new ::
  "StreamName \<Rightarrow> EventId \<Rightarrow> EventSource \<Rightarrow> EventType \<Rightarrow> NewEventBuilder" where
  "builder_new stream eid source event_type = NewEventBuilder
     \<lparr>ec_stream = stream, ec_id = eid, ec_source = source, ec_event_type = event_type,
      ec_subject = None, ec_time = None, ec_datacontenttype = None, ec_dataschema = None,
      ec_partitionkey = None, ec_extensions = extensions_new, ec_data = None\<rparr>"

definition builder_subject :: "EventSubject \<Rightarrow> NewEventBuilder \<Rightarrow> NewEventBuilder" where
  "builder_subject v b = NewEventBuilder ((builder_content b)\<lparr>ec_subject := Some v\<rparr>)"

text \<open>\<open>None\<close> is the panic of \<open>to_offset\<close>, which comes before any range check of the value.\<close>

definition builder_time :: "offset_date_time \<Rightarrow> NewEventBuilder \<Rightarrow> NewEventBuilder option" where
  "builder_time v b =
     (if to_offset_utc_panics v then None
      else Some (NewEventBuilder ((builder_content b)\<lparr>ec_time := Some (to_offset_utc v)\<rparr>)))"

definition builder_datacontenttype :: "ContentType \<Rightarrow> NewEventBuilder \<Rightarrow> NewEventBuilder" where
  "builder_datacontenttype v b =
     NewEventBuilder ((builder_content b)\<lparr>ec_datacontenttype := Some v\<rparr>)"

definition builder_dataschema :: "SchemaUri \<Rightarrow> NewEventBuilder \<Rightarrow> NewEventBuilder" where
  "builder_dataschema v b = NewEventBuilder ((builder_content b)\<lparr>ec_dataschema := Some v\<rparr>)"

definition builder_partitionkey :: "PartitionKey \<Rightarrow> NewEventBuilder \<Rightarrow> NewEventBuilder" where
  "builder_partitionkey v b = NewEventBuilder ((builder_content b)\<lparr>ec_partitionkey := Some v\<rparr>)"

definition builder_extensions :: "Extensions \<Rightarrow> NewEventBuilder \<Rightarrow> NewEventBuilder" where
  "builder_extensions v b = NewEventBuilder ((builder_content b)\<lparr>ec_extensions := v\<rparr>)"

definition builder_data :: "EventData \<Rightarrow> NewEventBuilder \<Rightarrow> NewEventBuilder" where
  "builder_data v b = NewEventBuilder ((builder_content b)\<lparr>ec_data := Some v\<rparr>)"

definition builder_json_data ::
  "ext_lib \<Rightarrow> bytes \<Rightarrow> NewEventBuilder \<Rightarrow> ValidationError + NewEventBuilder" where
  "builder_json_data lib bs b =
     and_then (event_data_json lib bs) (\<lambda>d.
     and_then (content_type_new lib ''application/json'') (\<lambda>ct.
       Inr (NewEventBuilder
         ((builder_content b)\<lparr>ec_data := Some d, ec_datacontenttype := Some ct\<rparr>))))"

definition build_with_limit ::
  "ext_lib \<Rightarrow> NewEventBuilder \<Rightarrow> EventSizeLimit \<Rightarrow> ValidationError + NewEvent" where
  "build_with_limit lib b limit =
     and_then (validate_content lib (builder_content b) limit) (\<lambda>_.
       Inr \<lparr>new_content = builder_content b, new_size_limit = limit\<rparr>)"

definition build :: "ext_lib \<Rightarrow> NewEventBuilder \<Rightarrow> ValidationError + NewEvent" where
  "build lib b = build_with_limit lib b event_size_limit_default"

definition new_event_new ::
  "ext_lib \<Rightarrow> StreamName \<Rightarrow> EventId \<Rightarrow> EventSource \<Rightarrow> EventType \<Rightarrow> ValidationError + NewEvent" where
  "new_event_new lib stream eid source event_type =
     build lib (builder_new stream eid source event_type)"

definition validate_with_limit ::
  "ext_lib \<Rightarrow> NewEvent \<Rightarrow> EventSizeLimit \<Rightarrow> ValidationError + unit" where
  "validate_with_limit lib e limit = validate_content lib (new_content e) limit"

definition new_event_validate :: "ext_lib \<Rightarrow> NewEvent \<Rightarrow> ValidationError + unit" where
  "new_event_validate lib e = validate_with_limit lib e (new_size_limit e)"

definition stored_from_new :: "ext_lib \<Rightarrow> NewEvent \<Rightarrow> ValidationError + StoredEvent" where
  "stored_from_new lib e =
     and_then (validate_with_limit lib e (new_size_limit e)) (\<lambda>_. Inr (StoredEvent (new_content e)))"

definition into_stored :: "ext_lib \<Rightarrow> NewEvent \<Rightarrow> ValidationError + StoredEvent" where
  "into_stored lib e = stored_from_new lib e"

section \<open>projection.rs\<close>

datatype StructuredJsonProjection = StructuredJsonProjection (structured_bytes: bytes)

record BinaryProjection =
  bp_body :: "bytes option"
  bp_datacontenttype :: "ContentType option"
  bp_attributes :: "(string \<times> string) list"

definition structured_json :: "ext_lib \<Rightarrow> StoredEvent \<Rightarrow> ValidationError + StructuredJsonProjection" where
  "structured_json lib e =
     and_then (structured_json_bytes lib (stored_content e)) (\<lambda>bs. Inr (StructuredJsonProjection bs))"

definition binary_attributes :: "ext_lib \<Rightarrow> StoredEvent \<Rightarrow> (string \<times> string) list" where
  "binary_attributes lib e = (let c = stored_content e in
     [(''specversion'', SPEC_VERSION), (''id'', event_id_str (ec_id c)),
      (''source'', source_str (ec_source c)), (''type'', event_type_str (ec_event_type c))]
     @ List.map_filter (\<lambda>(name, v). map_option (Pair name) v)
         [(''subject'', map_option subject_str (ec_subject c)),
          (''time'', map_option (format_timestamp lib) (ec_time c)),
          (''dataschema'', map_option schema_uri_str (ec_dataschema c)),
          (''partitionkey'', map_option partition_key_str (ec_partitionkey c))]
     @ map (\<lambda>(name, v). (extension_name_str name, extension_binary_string lib v)) (ec_extensions c))"

definition binary_projection :: "ext_lib \<Rightarrow> StoredEvent \<Rightarrow> BinaryProjection" where
  "binary_projection lib e =
     \<lparr>bp_body = map_option event_data_bytes (ec_data (stored_content e)),
      bp_datacontenttype = ec_datacontenttype (stored_content e),
      bp_attributes = binary_attributes lib e\<rparr>"

section \<open>Canonical JSON\<close>

lemma foldl_btree_insert_keys_sorted:
  "keys_sorted acc \<Longrightarrow> keys_sorted (foldl (\<lambda>m (k, v). btree_insert k v m) acc xs)"
proof (induction xs arbitrary: acc)
  case (Cons x xs)
  then show ?case by (cases x) (simp add: btree_insert_sorted)
qed simp

lemma foldl_btree_insert_map_of:
  "map_of (foldl (\<lambda>m (k, v). btree_insert k v m) acc xs) = map_of acc ++ map_of (rev xs)"
proof (induction xs arbitrary: acc)
  case (Cons x xs)
  then show ?case by (cases x) (auto simp: btree_insert_map_of fun_eq_iff map_add_def split: option.splits)
qed simp

lemma foldl_btree_insert_set:
  "set (foldl (\<lambda>m (k, v). btree_insert k v m) acc xs) \<subseteq> set acc \<union> set xs"
proof (induction xs arbitrary: acc)
  case (Cons x xs)
  obtain k v where x: "x = (k, v)" by (cases x)
  have "set (btree_insert k v acc) \<subseteq> insert (k, v) (set acc)"
    by (induction k v acc rule: btree_insert.induct) auto
  then show ?case using Cons [of "btree_insert k v acc"] x by auto
qed simp

definition sort_members :: "json_members \<Rightarrow> json_members" where
  "sort_members xs = foldl (\<lambda>m (k, v). btree_insert k v m) [] xs"

lemma sort_members_sorted [simp]: "keys_sorted (sort_members xs)"
  unfolding sort_members_def by (rule foldl_btree_insert_keys_sorted) simp

lemma sort_members_id: "keys_sorted xs \<Longrightarrow> sort_members xs = xs"
  using foldl_btree_insert_sorted [of "[]" xs] by (simp add: sort_members_def)

lemma canonicalize_object:
  "canonicalize_json (JObject xs) = JObject (sort_members (map (\<lambda>(k, v). (k, canonicalize_json v)) xs))"
  using foldl_map_insert_distinct [of "[]" "sort_members (map (\<lambda>(k, v). (k, canonicalize_json v)) xs)"]
    keys_sorted_distinct [OF sort_members_sorted]
  by (simp add: sort_members_def)

text \<open>Two key-sorted association lists with the same lookups are equal.\<close>

lemma keys_sorted_map_of_eq:
  assumes "keys_sorted xs" "keys_sorted ys" "map_of xs = map_of ys"
  shows "xs = ys"
proof -
  have "sorted (map fst xs)" "distinct (map fst xs)" "sorted (map fst ys)" "distinct (map fst ys)"
    using assms(1,2) by (simp_all add: strict_sorted_iff)
  moreover have "set xs = set ys"
    using assms(3) calculation(2,4) by (metis map_of_inject_set)
  ultimately show ?thesis by (intro map_sorted_distinct_set_unique [of fst]) (auto simp: distinct_map)
qed

fun canonical_members :: "json \<Rightarrow> bool" where
  "canonical_members (JObject xs) = (keys_sorted xs \<and> list_all (\<lambda>(k, v). canonical_members v) xs)"
| "canonical_members (JArray vs) = list_all canonical_members vs"
| "canonical_members v = True"

lemma canonicalize_json_canonical: "canonical_members (canonicalize_json v)"
proof (induction v rule: canonicalize_json.induct)
  case (1 xs)
  have "set (sort_members (map (\<lambda>(k, v). (k, canonicalize_json v)) xs))
      \<subseteq> set (map (\<lambda>(k, v). (k, canonicalize_json v)) xs)"
    using foldl_btree_insert_set [of "[]" "map (\<lambda>(k, v). (k, canonicalize_json v)) xs"]
    by (simp add: sort_members_def)
  then show ?case using 1 by (fastforce simp: canonicalize_object list_all_iff simp del: canonicalize_json.simps)
qed (auto simp: list_all_iff)

lemma canonicalize_json_id: "canonical_members v \<Longrightarrow> canonicalize_json v = v"
proof (induction v rule: canonicalize_json.induct)
  case (1 xs)
  have "map (\<lambda>(k, v). (k, canonicalize_json v)) xs = xs"
    using 1 by (intro map_idI) (auto simp: list_all_iff)
  then show ?case using 1(2)
    by (simp add: canonicalize_object sort_members_id del: canonicalize_json.simps)
next
  case (2 vs)
  then show ?case by (auto simp: list_all_iff intro!: map_idI)
qed auto

lemma canonicalize_json_order:
  assumes "distinct (map fst xs)" and "mset xs = mset ys"
  shows "canonicalize_json (JObject xs) = canonicalize_json (JObject ys)"
proof -
  let ?f = "\<lambda>(k, v). (k, canonicalize_json v)"
  have "distinct (map fst ys)" using assms by (metis mset_eq_imp_distinct_iff mset_map)
  then have d: "distinct (map fst (rev (map ?f xs)))" "distinct (map fst (rev (map ?f ys)))"
    using assms(1) by (simp_all add: rev_map [symmetric] comp_def case_prod_unfold)
  have "set (rev (map ?f xs)) = set (rev (map ?f ys))"
    using assms(2) by (metis mset_eq_setD set_map set_rev)
  then have "map_of (rev (map ?f xs)) = map_of (rev (map ?f ys))"
    using d by (metis map_of_inject_set)
  then have "map_of (sort_members (map ?f xs)) = map_of (sort_members (map ?f ys))"
    by (simp add: sort_members_def foldl_btree_insert_map_of)
  then have "sort_members (map ?f xs) = sort_members (map ?f ys)"
    by (intro keys_sorted_map_of_eq) simp_all
  then show ?thesis unfolding canonicalize_object by simp
qed

section \<open>Member order of the structured form\<close>

definition optional_member :: "string \<Rightarrow> json option \<Rightarrow> json_members" where
  "optional_member name v = (case v of None \<Rightarrow> [] | Some j \<Rightarrow> [(name, j)])"

definition context_members :: "ext_lib \<Rightarrow> EventContent \<Rightarrow> json_members" where
  "context_members lib c =
     [(''specversion'', JString ''1.0''), (''id'', JString (event_id_str (ec_id c))),
      (''source'', JString (source_str (ec_source c))),
      (''type'', JString (event_type_str (ec_event_type c)))]
     @ optional_member ''subject'' (map_option (\<lambda>v. JString (subject_str v)) (ec_subject c))
     @ optional_member ''time'' (map_option (\<lambda>v. JString (format_timestamp lib v)) (ec_time c))
     @ optional_member ''datacontenttype''
         (map_option (\<lambda>v. JString (content_type_str v)) (ec_datacontenttype c))
     @ optional_member ''dataschema'' (map_option (\<lambda>v. JString (schema_uri_str v)) (ec_dataschema c))
     @ optional_member ''partitionkey''
         (map_option (\<lambda>v. JString (partition_key_str v)) (ec_partitionkey c))"

definition extension_members :: "ext_lib \<Rightarrow> EventContent \<Rightarrow> json_members" where
  "extension_members lib c =
     map (\<lambda>(n, v). (extension_name_str n, structured_json_value lib v)) (ec_extensions c)"

definition data_members :: "ext_lib \<Rightarrow> EventContent \<Rightarrow> json_members" where
  "data_members lib c = (case ec_data c of None \<Rightarrow> []
     | Some (DataJson v) \<Rightarrow> [(''data'', canonicalize_json (json_data_as_value lib v))]
     | Some (DataBinary v) \<Rightarrow> [(''data_base64'', JString (base64_encode lib v))])"

lemma insert_optional_new:
  "name \<notin> fst ` set xs \<Longrightarrow> insert_optional_json_member name v xs = xs @ optional_member name v"
  by (auto simp: insert_optional_json_member_def optional_member_def map_insert_new split: option.splits)

lemma optional_member_keys: "fst ` set (optional_member name v) \<subseteq> {name}"
  by (auto simp: optional_member_def split: option.splits)

lemma context_members_reserved:
  "fst ` set (context_members lib c) \<subseteq> set reserved_extension_names - {''data'', ''data_base64''}"
  by (auto simp: context_members_def reserved_extension_names_def optional_member_def
      split: option.splits)

lemma extension_names_distinct:
  assumes "extensions_wf lib' e"
  shows "distinct (map (extension_name_str \<circ> fst) e)"
    and "(extension_name_str \<circ> fst) ` set e \<inter> set reserved_extension_names = {}"
proof -
  have "inj extension_name_str" by (rule injI) (rule ExtensionName.expand, simp)
  then show "distinct (map (extension_name_str \<circ> fst) e)"
    using keys_sorted_distinct [of e] assms
    by (simp add: extensions_wf_def flip: map_map) (metis distinct_map inj_on_subset subset_UNIV)
  show "(extension_name_str \<circ> fst) ` set e \<inter> set reserved_extension_names = {}"
    using assms by (fastforce simp: extensions_wf_def list_all_iff extension_name_ok_def)
qed

lemma structured_prefix_eq:
  "insert_optional_json_member ''partitionkey'' v5
     (insert_optional_json_member ''dataschema'' v4
       (insert_optional_json_member ''datacontenttype'' v3
         (insert_optional_json_member ''time'' v2
           (insert_optional_json_member ''subject'' v1
             [(''specversion'', a), (''id'', b), (''source'', d), (''type'', e)]))))
   = (''specversion'', a) # (''id'', b) # (''source'', d) # (''type'', e)
     # optional_member ''subject'' v1 @ optional_member ''time'' v2
     @ optional_member ''datacontenttype'' v3 @ optional_member ''dataschema'' v4
     @ optional_member ''partitionkey'' v5"
  by (cases v1; cases v2; cases v3; cases v4; cases v5)
    (simp_all add: insert_optional_json_member_def optional_member_def)

lemma structured_json_object_context:
  "structured_json_object lib c =
     (let object = foldl (\<lambda>m (name, v).
            map_insert (extension_name_str name) (structured_json_value lib v) m)
          (context_members lib c) (ec_extensions c)
      in case ec_data c of
           None \<Rightarrow> object
         | Some (DataJson v) \<Rightarrow>
             map_insert ''data'' (canonicalize_json (json_data_as_value lib v)) object
         | Some (DataBinary v) \<Rightarrow> map_insert ''data_base64'' (JString (base64_encode lib v)) object)"
  by (simp add: structured_json_object_def Let_def SPEC_VERSION_def structured_prefix_eq
      context_members_def split: option.split EventData.split)

lemma foldl_map_insert_map:
  assumes "distinct (map fst (acc @ map f xs))"
  shows "foldl (\<lambda>m x. map_insert (fst (f x)) (snd (f x)) m) acc xs = acc @ map f xs"
proof -
  have "foldl (\<lambda>m x. map_insert (fst (f x)) (snd (f x)) m) acc xs
      = foldl (\<lambda>m (k, v). map_insert k v m) acc (map f xs)"
    by (simp add: foldl_map case_prod_unfold)
  then show ?thesis using foldl_map_insert_distinct [OF assms] by simp
qed

lemma context_members_distinct: "distinct (map fst (context_members lib c))"
  by (auto simp: context_members_def optional_member_def split: option.splits)

lemma disjoint_parts:
  assumes "E \<inter> R = {}" "D \<subseteq> K" "K \<subseteq> R" "C \<subseteq> R - K"
  shows "E \<inter> D = {}" "C \<inter> D = {}" "C \<inter> E = {}"
  using assms by blast+

lemma structured_members_distinct:
  assumes "extensions_wf lib (ec_extensions c)"
  shows "distinct (map fst (context_members lib c @ extension_members lib c @ data_members lib c))"
proof -
  have keys: "map fst (extension_members lib c) = map (extension_name_str \<circ> fst) (ec_extensions c)"
    by (auto simp: extension_members_def)
  have disj: "fst ` set (extension_members lib c) \<inter> set reserved_extension_names = {}"
    using extension_names_distinct(2) [OF assms] arg_cong [OF keys, of set] by simp
  have data: "fst ` set (data_members lib c) \<subseteq> {''data'', ''data_base64''}"
    "distinct (map fst (data_members lib c))"
    by (cases "ec_data c" rule: option.exhaust; simp add: data_members_def split: EventData.split)+
  have "{''data'', ''data_base64''} \<subseteq> set reserved_extension_names"
    by (auto simp: reserved_extension_names_def)
  then have "fst ` set (extension_members lib c) \<inter> fst ` set (data_members lib c) = {}"
    "fst ` set (context_members lib c) \<inter> fst ` set (data_members lib c) = {}"
    "fst ` set (context_members lib c) \<inter> fst ` set (extension_members lib c) = {}"
    using disjoint_parts [OF disj data(1) _ context_members_reserved] by simp_all
  moreover have "distinct (map fst (extension_members lib c))"
    using extension_names_distinct(1) [OF assms] unfolding keys .
  ultimately show ?thesis
    using context_members_distinct data(2) by (simp add: Int_Un_distrib)
qed

lemma structured_json_object_eq:
  assumes "extensions_wf lib (ec_extensions c)"
  shows "structured_json_object lib c =
     context_members lib c @ extension_members lib c @ data_members lib c"
proof -
  let ?f = "\<lambda>(n, v). (extension_name_str n, structured_json_value lib v)"
  note names = structured_members_distinct [OF assms]
  have ext: "foldl (\<lambda>m (name, v). map_insert (extension_name_str name) (structured_json_value lib v) m)
      (context_members lib c) (ec_extensions c) = context_members lib c @ extension_members lib c"
    using names foldl_map_insert_map [of "context_members lib c" ?f "ec_extensions c"]
    by (simp add: extension_members_def case_prod_unfold Int_Un_distrib)
  show ?thesis
    using names
    by (auto simp: structured_json_object_context ext data_members_def map_insert_new image_Un
        split: option.splits EventData.splits)
qed

section \<open>Binary-mode size\<close>

text \<open>
  The octets one context attribute may take in a binary-mode message: its header name, the
  four octets of the separator and line end, and every value octet percent-encoded.
\<close>

definition header_cost :: "string \<Rightarrow> string \<Rightarrow> nat" where
  "header_cost name v = length name + 4 + 3 * length v"

definition binary_message_bytes :: "BinaryProjection \<Rightarrow> nat" where
  "binary_message_bytes p =
     (case bp_body p of None \<Rightarrow> 0 | Some b \<Rightarrow> length b)
     + (\<Sum>(k, v) \<leftarrow> bp_attributes p. header_cost (''ce-'' @ k) v)
     + (case bp_datacontenttype p of None \<Rightarrow> 0
        | Some ct \<Rightarrow> header_cost ''ce-datacontenttype'' (content_type_str ct))"

lemma add_binary_context_eq:
  "add_binary_context name v sz = min usize_max (sz + header_cost name v)"
  by (simp add: add_binary_context_def saturating_add_usize_def saturating_mul_usize_def
      header_cost_def)

lemma min_usize_absorb: "min usize_max (min usize_max a + b) = min usize_max (a + b)"
  by simp

lemma add_binary_context_min:
  "add_binary_context name v (min usize_max a) = min usize_max (a + header_cost name v)"
  by (simp only: add_binary_context_eq min_usize_absorb)

lemma foldl_binary_context:
  "foldl (\<lambda>sz (name, v). add_binary_context (f name) (g v) sz) (min usize_max a) xs
     = min usize_max (a + (\<Sum>(name, v) \<leftarrow> xs. header_cost (f name) (g v)))"
proof (induction xs arbitrary: a)
  case (Cons x xs)
  obtain n v where x: "x = (n, v)" by (cases x)
  show ?case
    using Cons.IH [of "a + header_cost (f n) (g v)"]
    by (simp add: x add_binary_context_eq min_usize_absorb add.assoc)
qed simp

lemma add_optional_binary_context_min:
  "add_optional_binary_context name v (min usize_max a)
     = min usize_max (a + (case v of None \<Rightarrow> 0 | Some s \<Rightarrow> header_cost name s))"
  by (simp add: add_optional_binary_context_def add_binary_context_eq min_usize_absorb
      split: option.splits)

lemma sum_optional_four:
  "(\<Sum>(k, v) \<leftarrow> List.map_filter (\<lambda>(name, v). map_option (Pair name) v)
        [(n1, w1), (n2, w2), (n3, w3), (n4, w4)]. (h k v :: nat))
     = (case w1 of None \<Rightarrow> 0 | Some s \<Rightarrow> h n1 s) + (case w2 of None \<Rightarrow> 0 | Some s \<Rightarrow> h n2 s)
       + (case w3 of None \<Rightarrow> 0 | Some s \<Rightarrow> h n3 s) + (case w4 of None \<Rightarrow> 0 | Some s \<Rightarrow> h n4 s)"
  by (cases w1; cases w2; cases w3; cases w4) (simp_all add: map_filter_simps)

lemma binary_material_bytes_eq:
  "binary_material_bytes lib c =
     Inr (min usize_max (binary_message_bytes (binary_projection lib (StoredEvent c))))"
proof -
  let ?opt = "\<lambda>name v. case v of None \<Rightarrow> 0 | Some s \<Rightarrow> header_cost name s"
  let ?ext = "\<Sum>(n, v) \<leftarrow> ec_extensions c.
    header_cost (''ce-'' @ extension_name_str n) (extension_binary_string lib v)"
  let ?body = "case ec_data c of None \<Rightarrow> 0 | Some v \<Rightarrow> length (event_data_bytes v)"
  let ?a = "?body + header_cost ''ce-specversion'' SPEC_VERSION
    + header_cost ''ce-id'' (event_id_str (ec_id c))
    + header_cost ''ce-source'' (source_str (ec_source c))
    + header_cost ''ce-type'' (event_type_str (ec_event_type c))
    + ?opt ''ce-subject'' (map_option subject_str (ec_subject c))
    + ?opt ''ce-time'' (map_option (format_timestamp lib) (ec_time c))
    + ?opt ''ce-dataschema'' (map_option schema_uri_str (ec_dataschema c))
    + ?opt ''ce-partitionkey'' (map_option partition_key_str (ec_partitionkey c)) + ?ext"
  let ?ct = "case ec_datacontenttype c of None \<Rightarrow> 0
    | Some ct \<Rightarrow> header_cost ''ce-datacontenttype'' (content_type_str ct)"
  have "binary_material_bytes lib c = Inr (min usize_max (?a + ?ct))"
    unfolding binary_material_bytes_def Let_def
      add_binary_context_eq [of "''ce-specversion''" SPEC_VERSION] add_binary_context_min
      add_optional_binary_context_min foldl_binary_context
    by (cases "ec_datacontenttype c")
      (simp_all add: add_binary_context_min del: case_map_option min.bounded_iff)
  moreover have "binary_message_bytes (binary_projection lib (StoredEvent c)) = ?a + ?ct"
    unfolding binary_message_bytes_def binary_projection_def binary_attributes_def Let_def
      BinaryProjection.simps StoredEvent.sel map_append sum_list_append sum_optional_four
    unfolding append.simps
    by (cases "ec_data c") (simp_all add: comp_def case_prod_unfold del: case_map_option)
  ultimately show ?thesis by simp
qed

section \<open>What validation accepts\<close>

definition data_type_ok :: "ext_lib \<Rightarrow> EventContent \<Rightarrow> bool" where
  "data_type_ok lib c = (case ec_data c of None \<Rightarrow> True
     | Some d \<Rightarrow> (event_data_bytes d \<noteq> [] \<longrightarrow> ec_datacontenttype c \<noteq> None)
         \<and> (event_data_is_json d \<longrightarrow>
              (\<exists>ct. ec_datacontenttype c = Some ct \<and> content_type_is_json lib ct)))"

lemma portable_size_Inr_iff:
  "portable_size lib c = Inr n \<longleftrightarrow>
     (\<exists>bs. structured_json_bytes lib c = Inr bs \<and> length bs + CONTENT_TYPE_BYTES \<le> usize_max
        \<and> n = max (length bs + CONTENT_TYPE_BYTES)
               (min usize_max (binary_message_bytes (binary_projection lib (StoredEvent c)))))"
  by (auto simp: portable_size_def result_simps checked_add_usize_def binary_material_bytes_eq
      split: if_splits)

lemma validate_content_Inr_iff:
  "validate_content lib c limit = Inr () \<longleftrightarrow>
     length (source_str (ec_source c)) + length (event_id_str (ec_id c)) \<le> 2048
     \<and> (\<forall>t. ec_time c = Some t \<longrightarrow> instant_ok t)
     \<and> validate_trace_context (ec_extensions c) = Inr ()
     \<and> data_type_ok lib c
     \<and> (\<exists>n. portable_size lib c = Inr n \<and> n \<le> event_size_limit_get limit)"
proof -
  have id: "(case checked_add_usize a b of None \<Rightarrow> True | Some n \<Rightarrow> MAX_IDENTITY_BYTES < n)
      \<longleftrightarrow> \<not> a + b \<le> 2048" for a b
    by (auto simp: checked_add_usize_def usize_max_def limit_defs)
  have data: "(case ec_data c of
           None \<Rightarrow> Inr ()
         | Some d \<Rightarrow>
             if event_data_bytes d \<noteq> [] \<and> ec_datacontenttype c = None
               then Inl (verror_new ''datacontenttype'' Combination)
             else if event_data_is_json d
                 \<and> \<not> (case ec_datacontenttype c of
                        None \<Rightarrow> False | Some ct \<Rightarrow> content_type_is_json lib ct)
               then Inl (verror_new ''datacontenttype'' Combination)
             else Inr ()) = Inr () \<longleftrightarrow> data_type_ok lib c"
    by (auto simp: data_type_ok_def split: option.splits)
  show ?thesis
    unfolding validate_content_def id
    by (auto simp: result_simps data not_less split: if_splits)
qed

text \<open>
  The invariant of a content assembled from constructed values: every field went through the
  constructor of its type.
\<close>

definition event_content_wf :: "ext_lib \<Rightarrow> EventContent \<Rightarrow> bool" where
  "event_content_wf lib c \<longleftrightarrow>
     stream_ok (ec_stream c)
     \<and> text_ok MAX_EVENT_ID_BYTES (event_id_str (ec_id c))
     \<and> text_ok MAX_SOURCE_BYTES (source_str (ec_source c)) \<and> uri_ref_parses lib (source_str (ec_source c))
     \<and> text_ok MAX_EVENT_TYPE_BYTES (event_type_str (ec_event_type c))
     \<and> (\<forall>v. ec_subject c = Some v \<longrightarrow> text_ok MAX_SUBJECT_BYTES (subject_str v))
     \<and> (\<forall>t. ec_time c = Some t \<longrightarrow> utc_offset t = 0)
     \<and> (\<forall>v. ec_datacontenttype c = Some v \<longrightarrow>
          text_ok MAX_CONTENT_TYPE_BYTES (content_type_str v) \<and> mime_parse lib (content_type_str v) \<noteq> None)
     \<and> (\<forall>v. ec_dataschema c = Some v \<longrightarrow>
          text_ok MAX_SCHEMA_URI_BYTES (schema_uri_str v) \<and> uri_parses lib (schema_uri_str v))
     \<and> (\<forall>v. ec_partitionkey c = Some v \<longrightarrow> text_ok MAX_PARTITION_KEY_BYTES (partition_key_str v))
     \<and> extensions_wf lib (ec_extensions c)
     \<and> (\<forall>d. ec_data c = Some d \<longrightarrow> event_data_ok lib d)"

lemma build_with_limit_Inr_iff [result_simps]:
  "build_with_limit lib b limit = Inr e \<longleftrightarrow>
     validate_content lib (builder_content b) limit = Inr ()
     \<and> e = \<lparr>new_content = builder_content b, new_size_limit = limit\<rparr>"
  by (auto simp: build_with_limit_def result_simps)

lemma build_into_stored:
  assumes "build_with_limit lib b limit = Inr e"
  shows "into_stored lib e = Inr (StoredEvent (builder_content b))"
  using assms by (auto simp: into_stored_def stored_from_new_def validate_with_limit_def result_simps)

end
