(* ===== verification/Core_State.thy ===== *)
theory Core_State
  imports Core_Event
begin

text \<open>
  \<open>crates/dovecote/src/state.rs\<close>: delivery states, the outcomes of the adapter operations,
  claim tokens, and the snapshots and events the adapters return. Accessors that show an
  instant convert it to UTC again.
\<close>

datatype DeliveryState = Pending | Claimed | Delivered | Quarantined

datatype EnqueueOutcome = Enqueued RowId | AlreadyEnqueued RowId

datatype ImportedDeliveryState = ImportPending | ImportDelivered offset_date_time

datatype ImportOutcome = Imported RowId | AlreadyImported RowId

datatype FinalizeOutcome = Finalized RowId | AlreadyFinalized RowId

datatype ClaimToken = ClaimToken (claim_token_bytes: bytes)

definition imported_delivered :: "offset_date_time \<Rightarrow> ValidationError + ImportedDeliveryState" where
  "imported_delivered t =
     and_then (canonicalize_instant ''delivered_at'' t) (\<lambda>u. Inr (ImportDelivered u))"

fun imported_validate :: "ImportedDeliveryState \<Rightarrow> ValidationError + unit" where
  "imported_validate ImportPending = Inr ()"
| "imported_validate (ImportDelivered t) = validate_instant ''delivered_at'' t"

text \<open>The variant is public; for an instant that \<open>validate\<close> refuses, \<open>to_offset\<close> may panic.\<close>

fun imported_delivered_at :: "ImportedDeliveryState \<Rightarrow> offset_date_time option" where
  "imported_delivered_at ImportPending = None"
| "imported_delivered_at (ImportDelivered t) = Some (to_offset_utc t)"

text \<open>
  A token is sixteen octets; \<open>from_bytes\<close> takes an array of that length. Its \<open>Debug\<close>
  rendering hides the octets.
\<close>

definition claim_token_from_bytes :: "bytes \<Rightarrow> ClaimToken" where
  "claim_token_from_bytes v = ClaimToken v"

definition claim_token_debug :: "ClaimToken \<Rightarrow> string" where
  "claim_token_debug t = ''ClaimToken([redacted])''"

definition claim_token_ok :: "ClaimToken \<Rightarrow> bool" where
  "claim_token_ok t \<longleftrightarrow> length (claim_token_bytes t) = CLAIM_TOKEN_BYTES"

section \<open>Snapshots\<close>

datatype DeliverySnapshot =
    SnapPending offset_date_time AttemptCount "Failure option"
  | SnapClaimed offset_date_time WorkerId offset_date_time AttemptCount "Failure option"
  | SnapDelivered offset_date_time offset_date_time AttemptCount "Failure option"
  | SnapQuarantined offset_date_time offset_date_time AttemptCount "Failure option" QuarantineReason

definition snapshot_pending ::
  "offset_date_time \<Rightarrow> AttemptCount \<Rightarrow> Failure option \<Rightarrow> ValidationError + DeliverySnapshot" where
  "snapshot_pending available_at attempts last_failure =
     and_then (canonicalize_instant ''available_at'' available_at) (\<lambda>a.
       Inr (SnapPending a attempts last_failure))"

definition snapshot_claimed ::
  "offset_date_time \<Rightarrow> WorkerId \<Rightarrow> offset_date_time \<Rightarrow> AttemptCount \<Rightarrow> Failure option
     \<Rightarrow> ValidationError + DeliverySnapshot" where
  "snapshot_claimed available_at worker expires_at attempts last_failure =
     and_then (canonicalize_instant ''available_at'' available_at) (\<lambda>a.
     and_then (canonicalize_instant ''claim_expires_at'' expires_at) (\<lambda>x.
       Inr (SnapClaimed a worker x attempts last_failure)))"

definition snapshot_delivered ::
  "offset_date_time \<Rightarrow> offset_date_time \<Rightarrow> AttemptCount \<Rightarrow> Failure option
     \<Rightarrow> ValidationError + DeliverySnapshot" where
  "snapshot_delivered available_at delivered_at attempts last_failure =
     and_then (canonicalize_instant ''available_at'' available_at) (\<lambda>a.
     and_then (canonicalize_instant ''delivered_at'' delivered_at) (\<lambda>d.
       Inr (SnapDelivered a d attempts last_failure)))"

definition snapshot_quarantined ::
  "offset_date_time \<Rightarrow> offset_date_time \<Rightarrow> AttemptCount \<Rightarrow> Failure option \<Rightarrow> QuarantineReason
     \<Rightarrow> ValidationError + DeliverySnapshot" where
  "snapshot_quarantined available_at quarantined_at attempts last_failure reason =
     and_then (canonicalize_instant ''available_at'' available_at) (\<lambda>a.
     and_then (canonicalize_instant ''quarantined_at'' quarantined_at) (\<lambda>q.
       Inr (SnapQuarantined a q attempts last_failure reason)))"

fun snapshot_state :: "DeliverySnapshot \<Rightarrow> DeliveryState" where
  "snapshot_state (SnapPending _ _ _) = Pending"
| "snapshot_state (SnapClaimed _ _ _ _ _) = Claimed"
| "snapshot_state (SnapDelivered _ _ _ _) = Delivered"
| "snapshot_state (SnapQuarantined _ _ _ _ _) = Quarantined"

fun snapshot_attempts :: "DeliverySnapshot \<Rightarrow> AttemptCount" where
  "snapshot_attempts (SnapPending _ n _) = n"
| "snapshot_attempts (SnapClaimed _ _ _ n _) = n"
| "snapshot_attempts (SnapDelivered _ _ n _) = n"
| "snapshot_attempts (SnapQuarantined _ _ n _ _) = n"

fun snapshot_last_failure :: "DeliverySnapshot \<Rightarrow> Failure option" where
  "snapshot_last_failure (SnapPending _ _ f) = f"
| "snapshot_last_failure (SnapClaimed _ _ _ _ f) = f"
| "snapshot_last_failure (SnapDelivered _ _ _ f) = f"
| "snapshot_last_failure (SnapQuarantined _ _ _ f _) = f"

fun snapshot_available_at :: "DeliverySnapshot \<Rightarrow> offset_date_time option" where
  "snapshot_available_at (SnapPending a _ _) = Some (to_offset_utc a)"
| "snapshot_available_at (SnapClaimed a _ _ _ _) = Some (to_offset_utc a)"
| "snapshot_available_at (SnapDelivered a _ _ _) = Some (to_offset_utc a)"
| "snapshot_available_at (SnapQuarantined a _ _ _ _) = Some (to_offset_utc a)"

fun snapshot_claim_expires_at :: "DeliverySnapshot \<Rightarrow> offset_date_time option" where
  "snapshot_claim_expires_at (SnapClaimed _ _ x _ _) = Some (to_offset_utc x)"
| "snapshot_claim_expires_at _ = None"

fun snapshot_claimed_by :: "DeliverySnapshot \<Rightarrow> WorkerId option" where
  "snapshot_claimed_by (SnapClaimed _ w _ _ _) = Some w"
| "snapshot_claimed_by _ = None"

fun snapshot_delivered_at :: "DeliverySnapshot \<Rightarrow> offset_date_time option" where
  "snapshot_delivered_at (SnapDelivered _ d _ _) = Some (to_offset_utc d)"
| "snapshot_delivered_at _ = None"

fun snapshot_quarantined_at :: "DeliverySnapshot \<Rightarrow> offset_date_time option" where
  "snapshot_quarantined_at (SnapQuarantined _ q _ _ _) = Some (to_offset_utc q)"
| "snapshot_quarantined_at _ = None"

fun snapshot_quarantine_reason :: "DeliverySnapshot \<Rightarrow> QuarantineReason option" where
  "snapshot_quarantine_reason (SnapQuarantined _ _ _ _ r) = Some r"
| "snapshot_quarantine_reason _ = None"

section \<open>Claimed and paged events\<close>

record ClaimedEvent =
  ce_tenant_id :: TenantId
  ce_row_id :: RowId
  ce_event :: StoredEvent
  ce_attempts :: AttemptCount
  ce_claim_token :: ClaimToken
  ce_claimed_by :: WorkerId
  ce_claim_expires_at :: offset_date_time

record PagedEvent =
  pe_tenant_id :: TenantId
  pe_row_id :: RowId
  pe_event :: StoredEvent
  pe_enqueued_at :: offset_date_time
  pe_delivery :: DeliverySnapshot

definition claimed_event_new ::
  "TenantId \<Rightarrow> RowId \<Rightarrow> StoredEvent \<Rightarrow> AttemptCount \<Rightarrow> ClaimToken \<Rightarrow> WorkerId \<Rightarrow> offset_date_time
     \<Rightarrow> ValidationError + ClaimedEvent" where
  "claimed_event_new tenant_id row_id event attempts claim_token claimed_by claim_expires_at =
     and_then (canonicalize_instant ''claim_expires_at'' claim_expires_at) (\<lambda>x.
       Inr \<lparr>ce_tenant_id = tenant_id, ce_row_id = row_id, ce_event = event, ce_attempts = attempts,
            ce_claim_token = claim_token, ce_claimed_by = claimed_by, ce_claim_expires_at = x\<rparr>)"

definition claimed_event_expires_at :: "ClaimedEvent \<Rightarrow> offset_date_time" where
  "claimed_event_expires_at c = to_offset_utc (ce_claim_expires_at c)"

definition paged_event_new ::
  "TenantId \<Rightarrow> RowId \<Rightarrow> StoredEvent \<Rightarrow> offset_date_time \<Rightarrow> DeliverySnapshot
     \<Rightarrow> ValidationError + PagedEvent" where
  "paged_event_new tenant_id row_id event enqueued_at delivery =
     and_then (canonicalize_instant ''enqueued_at'' enqueued_at) (\<lambda>t.
       Inr \<lparr>pe_tenant_id = tenant_id, pe_row_id = row_id, pe_event = event,
            pe_enqueued_at = t, pe_delivery = delivery\<rparr>)"

definition paged_event_enqueued_at :: "PagedEvent \<Rightarrow> offset_date_time" where
  "paged_event_enqueued_at p = to_offset_utc (pe_enqueued_at p)"

section \<open>Canonical instants\<close>

definition canonical_instant :: "offset_date_time \<Rightarrow> bool" where
  "canonical_instant t \<longleftrightarrow> instant_ok t \<and> utc_offset t = 0"

fun snapshot_ok :: "DeliverySnapshot \<Rightarrow> bool" where
  "snapshot_ok (SnapPending a _ _) = canonical_instant a"
| "snapshot_ok (SnapClaimed a _ x _ _) = (canonical_instant a \<and> canonical_instant x)"
| "snapshot_ok (SnapDelivered a d _ _) = (canonical_instant a \<and> canonical_instant d)"
| "snapshot_ok (SnapQuarantined a q _ _ _) = (canonical_instant a \<and> canonical_instant q)"

lemma canonical_instant_utc: "canonical_instant t \<Longrightarrow> to_offset_utc t = t"
  by (simp add: canonical_instant_def to_offset_utc_def)

lemma canonicalize_instant_canonical:
  "canonicalize_instant f t = Inr u \<Longrightarrow> canonical_instant u"
  by (simp add: canonicalize_instant_Inr_iff canonical_instant_def)

lemmas snapshot_new_defs = snapshot_pending_def snapshot_claimed_def snapshot_delivered_def
  snapshot_quarantined_def

lemma snapshot_new_Inr_iff [result_simps]:
  "snapshot_pending a n f = Inr s \<longleftrightarrow> instant_ok a \<and> s = SnapPending (to_offset_utc a) n f"
  "snapshot_claimed a w x n f = Inr s \<longleftrightarrow> instant_ok a \<and> instant_ok x
     \<and> s = SnapClaimed (to_offset_utc a) w (to_offset_utc x) n f"
  "snapshot_delivered a d n f = Inr s \<longleftrightarrow> instant_ok a \<and> instant_ok d
     \<and> s = SnapDelivered (to_offset_utc a) (to_offset_utc d) n f"
  "snapshot_quarantined a q n f r = Inr s \<longleftrightarrow> instant_ok a \<and> instant_ok q
     \<and> s = SnapQuarantined (to_offset_utc a) (to_offset_utc q) n f r"
  by (auto simp: snapshot_new_defs result_simps)

lemma claimed_event_new_Inr_iff [result_simps]:
  "claimed_event_new t r e n k w x = Inr c \<longleftrightarrow> instant_ok x \<and> c =
     \<lparr>ce_tenant_id = t, ce_row_id = r, ce_event = e, ce_attempts = n, ce_claim_token = k,
      ce_claimed_by = w, ce_claim_expires_at = to_offset_utc x\<rparr>"
  by (auto simp: claimed_event_new_def result_simps)

lemma paged_event_new_Inr_iff [result_simps]:
  "paged_event_new t r e q d = Inr p \<longleftrightarrow> instant_ok q \<and> p =
     \<lparr>pe_tenant_id = t, pe_row_id = r, pe_event = e, pe_enqueued_at = to_offset_utc q,
      pe_delivery = d\<rparr>"
  by (auto simp: paged_event_new_def result_simps)

lemma imported_delivered_Inr_iff [result_simps]:
  "imported_delivered t = Inr s \<longleftrightarrow> instant_ok t \<and> s = ImportDelivered (to_offset_utc t)"
  by (auto simp: imported_delivered_def result_simps)

end
