(* ===== verification/Durable_Schema.thy ===== *)
theory Durable_Schema
  imports Core_State
begin

text \<open>
  The durable schema, version 2, that the SQL adapters share: the two domain tables as lists of
  records, the CHECK, UNIQUE and FOREIGN KEY constraints as predicates. The type of stored
  instants is a parameter: SQLite keeps RFC 3339 text, PostgreSQL and MySQL keep instants.
\<close>

record 't event_row =
  er_row_id :: int
  er_tenant_id :: string
  er_stream :: string
  er_specversion :: string
  er_event_id :: string
  er_source :: string
  er_event_type :: string
  er_subject :: "string option"
  er_occurred_at :: "'t option"
  er_datacontenttype :: "string option"
  er_dataschema :: "string option"
  er_partitionkey :: "string option"
  er_extensions :: string
  er_data_kind :: "string option"
  er_data :: "bytes option"
  er_enqueued_at :: 't

record 't delivery_row =
  dr_event_row_id :: int
  dr_tenant_id :: string
  dr_state :: string
  dr_available_at :: 't
  dr_attempts :: int
  dr_claim_token :: "bytes option"
  dr_claimed_by :: "string option"
  dr_claim_expires_at :: "'t option"
  dr_last_failure_code :: "string option"
  dr_last_failure_detail :: "string option"
  dr_delivered_at :: "'t option"
  dr_quarantined_at :: "'t option"
  dr_quarantine_reason :: "string option"

text \<open>\<open>db_last_row_id\<close> is the AUTOINCREMENT sequence: the largest row id ever assigned.\<close>

record 't db =
  db_events :: "'t event_row list"
  db_deliveries :: "'t delivery_row list"
  db_last_row_id :: int

section \<open>Row constraints\<close>

definition opt_within :: "nat \<Rightarrow> string option \<Rightarrow> bool" where
  "opt_within m v = (case v of None \<Rightarrow> True | Some s \<Rightarrow> length s \<le> m)"

definition event_check :: "'t event_row \<Rightarrow> bool" where
  "event_check r \<longleftrightarrow>
     0 < er_row_id r
     \<and> 0 < length (er_tenant_id r) \<and> length (er_tenant_id r) \<le> 255
     \<and> length (er_stream r) \<le> 255
     \<and> er_specversion r = ''1.0''
     \<and> length (er_event_id r) \<le> 1024
     \<and> length (er_source r) \<le> 2048
     \<and> length (er_event_type r) \<le> 1024
     \<and> opt_within 2048 (er_subject r)
     \<and> opt_within 255 (er_datacontenttype r)
     \<and> opt_within 2048 (er_dataschema r)
     \<and> opt_within 255 (er_partitionkey r)
     \<and> (er_data_kind r = None \<or> er_data_kind r = Some ''json'' \<or> er_data_kind r = Some ''binary'')
     \<and> ((er_data_kind r = None) = (er_data r = None))
     \<and> length (er_source r) + length (er_event_id r) \<le> 2048
     \<and> (er_data r = None \<or> er_data r = Some [] \<or> er_datacontenttype r \<noteq> None)"

definition delivery_shape :: "'t delivery_row \<Rightarrow> bool" where
  "delivery_shape d \<longleftrightarrow>
     (dr_state d = ''pending'' \<and> dr_claim_token d = None \<and> dr_claimed_by d = None
        \<and> dr_claim_expires_at d = None \<and> dr_delivered_at d = None \<and> dr_quarantined_at d = None
        \<and> dr_quarantine_reason d = None)
     \<or> (dr_state d = ''claimed'' \<and> dr_claim_token d \<noteq> None \<and> dr_claimed_by d \<noteq> None
        \<and> dr_claim_expires_at d \<noteq> None \<and> dr_delivered_at d = None \<and> dr_quarantined_at d = None
        \<and> dr_quarantine_reason d = None)
     \<or> (dr_state d = ''delivered'' \<and> dr_claim_token d = None \<and> dr_claimed_by d = None
        \<and> dr_claim_expires_at d = None \<and> dr_delivered_at d \<noteq> None \<and> dr_quarantined_at d = None
        \<and> dr_quarantine_reason d = None)
     \<or> (dr_state d = ''quarantined'' \<and> dr_claim_token d = None \<and> dr_claimed_by d = None
        \<and> dr_claim_expires_at d = None \<and> dr_delivered_at d = None \<and> dr_quarantined_at d \<noteq> None
        \<and> dr_quarantine_reason d \<noteq> None)"

definition delivery_check :: "'t delivery_row \<Rightarrow> bool" where
  "delivery_check d \<longleftrightarrow>
     0 < length (dr_tenant_id d) \<and> length (dr_tenant_id d) \<le> 255
     \<and> dr_state d \<in> {''pending'', ''claimed'', ''delivered'', ''quarantined''}
     \<and> 0 \<le> dr_attempts d
     \<and> (case dr_claim_token d of None \<Rightarrow> True | Some k \<Rightarrow> length k = 16)
     \<and> opt_within 255 (dr_claimed_by d)
     \<and> opt_within 128 (dr_last_failure_code d)
     \<and> opt_within 2048 (dr_last_failure_detail d)
     \<and> opt_within 2048 (dr_quarantine_reason d)
     \<and> ((dr_last_failure_code d = None) = (dr_last_failure_detail d = None))
     \<and> delivery_shape d"

definition event_identity :: "'t event_row \<Rightarrow> string \<times> string \<times> string" where
  "event_identity r = (er_tenant_id r, er_source r, er_event_id r)"

text \<open>
  The state every committed transaction leaves: each row satisfies its checks, identities and
  keys are unique, every delivery references an event of its tenant.
\<close>

definition db_ok :: "'t db \<Rightarrow> bool" where
  "db_ok db \<longleftrightarrow>
     list_all event_check (db_events db) \<and> list_all delivery_check (db_deliveries db)
     \<and> distinct (map er_row_id (db_events db)) \<and> distinct (map event_identity (db_events db))
     \<and> list_all (\<lambda>r. er_row_id r \<le> db_last_row_id db) (db_events db) \<and> 0 \<le> db_last_row_id db
     \<and> distinct (map dr_event_row_id (db_deliveries db))
     \<and> list_all (\<lambda>d. \<exists>r \<in> set (db_events db).
          er_row_id r = dr_event_row_id d \<and> er_tenant_id r = dr_tenant_id d) (db_deliveries db)"

definition db_empty :: "'t db" where
  "db_empty = \<lparr>db_events = [], db_deliveries = [], db_last_row_id = 0\<rparr>"

lemma db_ok_empty: "db_ok db_empty"
  by (simp add: db_ok_def db_empty_def)

section \<open>Lookup by key\<close>

definition find_event :: "'t db \<Rightarrow> string \<Rightarrow> int \<Rightarrow> 't event_row option" where
  "find_event db tenant rid =
     find (\<lambda>r. er_tenant_id r = tenant \<and> er_row_id r = rid) (db_events db)"

definition find_delivery :: "'t db \<Rightarrow> int \<Rightarrow> 't delivery_row option" where
  "find_delivery db rid = find (\<lambda>d. dr_event_row_id d = rid) (db_deliveries db)"

definition find_identity :: "'t db \<Rightarrow> string \<Rightarrow> string \<Rightarrow> string \<Rightarrow> 't event_row option" where
  "find_identity db tenant source eid =
     find (\<lambda>r. er_tenant_id r = tenant \<and> er_source r = source \<and> er_event_id r = eid) (db_events db)"

lemma find_Some_in: "find P xs = Some x \<Longrightarrow> x \<in> set xs \<and> P x"
  by (auto simp: find_Some_iff)

lemma find_None_set: "find P xs = None \<longleftrightarrow> (\<forall>x \<in> set xs. \<not> P x)"
  by (auto simp: find_None_iff)

lemma find_key_unique:
  assumes "distinct (map key xs)" "x \<in> set xs"
  shows "find (\<lambda>y. key y = key x) xs = Some x"
  using assms by (induction xs) force+

lemma find_key_weaker:
  assumes "distinct (map key xs)" "x \<in> set xs" "P x" "\<And>y. P y \<Longrightarrow> key y = key x"
  shows "find P xs = Some x"
proof -
  from assms(2,3) obtain y where y: "find P xs = Some y"
    by (cases "find P xs") (auto simp: find_None_iff)
  then have "y \<in> set xs" "key y = key x" using assms(4) by (auto simp: find_Some_iff)
  then have "y = x" using assms(1,2) by (auto simp: distinct_map dest: inj_onD)
  then show ?thesis using y by simp
qed

lemma filter_key_unique:
  assumes "distinct (map key xs)" "x \<in> set xs"
  shows "filter (\<lambda>y. key y = key x) xs = [x]"
  using assms
proof (induction xs)
  case (Cons z zs)
  show ?case
  proof (cases "key z = key x")
    case True
    then have "z = x" using Cons.prems by (auto simp: image_iff)
    then show ?thesis using Cons.prems by (auto simp: filter_empty_conv image_iff)
  qed (use Cons in auto)
qed simp

lemma find_delivery_Some_iff:
  assumes "distinct (map dr_event_row_id (db_deliveries db))"
  shows "find_delivery db rid = Some d \<longleftrightarrow> d \<in> set (db_deliveries db) \<and> dr_event_row_id d = rid"
  using find_key_unique [OF assms] find_Some_in by (fastforce simp: find_delivery_def)

section \<open>Updating one table\<close>

text \<open>
  An UPDATE of the deliveries rewrites the rows its WHERE clause selects. Its result is the new
  table and the number of rows affected.
\<close>

definition update_rows ::
  "('t delivery_row \<Rightarrow> bool) \<Rightarrow> ('t delivery_row \<Rightarrow> 't delivery_row) \<Rightarrow> 't delivery_row list
     \<Rightarrow> 't delivery_row list" where
  "update_rows p f ds = map (\<lambda>d. if p d then f d else d) ds"

lemma update_rows_keys:
  assumes "\<And>d. dr_event_row_id (f d) = dr_event_row_id d"
  shows "map dr_event_row_id (update_rows p f ds) = map dr_event_row_id ds"
  using assms by (simp add: update_rows_def comp_def if_distrib)

lemma find_update_rows:
  assumes "\<And>d. dr_event_row_id (f d) = dr_event_row_id d"
  shows "find (\<lambda>d. dr_event_row_id d = rid) (update_rows p f ds)
     = map_option (\<lambda>d. if p d then f d else d) (find (\<lambda>d. dr_event_row_id d = rid) ds)"
  using assms by (induction ds) (auto simp: update_rows_def)

lemma db_ok_update_rows:
  assumes "db_ok db"
    and key: "\<And>d. dr_event_row_id (f d) = dr_event_row_id d"
    and tenant: "\<And>d. dr_tenant_id (f d) = dr_tenant_id d"
    and check: "\<And>d. d \<in> set (db_deliveries db) \<Longrightarrow> p d \<Longrightarrow> delivery_check (f d)"
  shows "db_ok (db\<lparr>db_deliveries := update_rows p f (db_deliveries db)\<rparr>)"
proof -
  have "list_all delivery_check (update_rows p f (db_deliveries db))"
    using assms(1) check by (auto simp: db_ok_def update_rows_def list_all_iff)
  moreover have "list_all (\<lambda>d. \<exists>r \<in> set (db_events db).
      er_row_id r = dr_event_row_id d \<and> er_tenant_id r = dr_tenant_id d)
      (update_rows p f (db_deliveries db))"
    using assms(1) by (auto simp: db_ok_def update_rows_def list_all_iff key tenant)
  ultimately show ?thesis
    using assms(1) by (simp add: db_ok_def update_rows_keys [of f, OF key])
qed

end
