(* ===== verification/Delivery_Lifecycle.thy ===== *)
theory Delivery_Lifecycle
  imports Durable_Schema
begin

text \<open>
  What the adapters promise about one delivery, free of rows and statements: a labelled
  transition relation on an abstract delivery, an abstraction of a stored row to it, and the
  locale \<open>delivery_store\<close> for a store whose operations all refine that relation. The laws that
  clients rely on (terminal states, the attempt counter, fencing by tokens) are proved once in
  the locale.
\<close>

datatype 't phase =
    PhPending
  | PhClaimed bytes string 't
  | PhDelivered 't
  | PhQuarantined 't string

record 't delivery_spec =
  sp_phase :: "'t phase"
  sp_available_at :: 't
  sp_attempts :: int
  sp_failure :: "(string \<times> string) option"

datatype action =
    ActClaim bytes
  | ActRenew bytes
  | ActAck bytes
  | ActRetry bytes
  | ActRelease bytes
  | ActQuarantine bytes
  | ActFinalize

fun fence :: "action \<Rightarrow> bytes option" where
  "fence (ActRenew k) = Some k"
| "fence (ActAck k) = Some k"
| "fence (ActRetry k) = Some k"
| "fence (ActRelease k) = Some k"
| "fence (ActQuarantine k) = Some k"
| "fence _ = None"

fun claim_holder :: "'t phase \<Rightarrow> bytes option" where
  "claim_holder (PhClaimed k _ _) = Some k"
| "claim_holder _ = None"

fun claimable :: "'t::linorder \<Rightarrow> 't delivery_spec \<Rightarrow> bool" where
  "claimable now d = (case sp_phase d of
      PhPending \<Rightarrow> sp_available_at d \<le> now
    | PhClaimed _ _ expiry \<Rightarrow> expiry \<le> now
    | _ \<Rightarrow> False)"

fun owned :: "'t::linorder \<Rightarrow> bytes \<Rightarrow> 't delivery_spec \<Rightarrow> bool" where
  "owned now k d = (case sp_phase d of PhClaimed k' _ expiry \<Rightarrow> k' = k \<and> now < expiry | _ \<Rightarrow> False)"

inductive spec_step ::
  "'t::linorder \<Rightarrow> action \<Rightarrow> 't delivery_spec \<Rightarrow> 't delivery_spec \<Rightarrow> bool" where
  claim: "claimable now d \<Longrightarrow> claim_holder (sp_phase d) \<noteq> Some k \<Longrightarrow>
    spec_step now (ActClaim k) d
      (d\<lparr>sp_phase := PhClaimed k worker expiry, sp_attempts := sp_attempts d + 1\<rparr>)"
| renew: "owned now k d \<Longrightarrow> sp_phase d = PhClaimed k worker old \<Longrightarrow>
    spec_step now (ActRenew k) d (d\<lparr>sp_phase := PhClaimed k worker expiry\<rparr>)"
| ack: "owned now k d \<Longrightarrow> spec_step now (ActAck k) d (d\<lparr>sp_phase := PhDelivered now\<rparr>)"
| retry: "owned now k d \<Longrightarrow>
    spec_step now (ActRetry k) d
      (d\<lparr>sp_phase := PhPending, sp_available_at := later, sp_failure := Some failure\<rparr>)"
| release: "owned now k d \<Longrightarrow>
    spec_step now (ActRelease k) d (d\<lparr>sp_phase := PhPending, sp_available_at := later\<rparr>)"
| quarantine: "owned now k d \<Longrightarrow>
    spec_step now (ActQuarantine k) d (d\<lparr>sp_phase := PhQuarantined now reason\<rparr>)"
| finalize: "sp_phase d = PhPending \<Longrightarrow> sp_attempts d = 0 \<Longrightarrow> sp_failure d = None \<Longrightarrow>
    spec_step now ActFinalize d (d\<lparr>sp_phase := PhDelivered at\<rparr>)"

inductive_cases spec_stepE: "spec_step now a d d'"

fun terminal :: "'t delivery_spec \<Rightarrow> bool" where
  "terminal d = (case sp_phase d of PhDelivered _ \<Rightarrow> True | PhQuarantined _ _ \<Rightarrow> True | _ \<Rightarrow> False)"

lemma spec_step_terminal: "spec_step now a d d' \<Longrightarrow> \<not> terminal d"
  by (auto elim!: spec_stepE split: phase.splits)

lemma spec_step_attempts:
  "spec_step now a d d' \<Longrightarrow>
     sp_attempts d' = sp_attempts d + (case a of ActClaim _ \<Rightarrow> 1 | _ \<Rightarrow> 0)"
  by (auto elim!: spec_stepE)

lemma spec_step_fenced:
  "spec_step now a d d' \<Longrightarrow> fence a = Some k \<Longrightarrow> owned now k d"
  by (auto elim!: spec_stepE)

text \<open>A claim that has not expired can be changed only by an action that carries its token.\<close>

lemma spec_step_exclusive:
  assumes "spec_step now a d d'" and "sp_phase d = PhClaimed k w x" and "now < x"
  shows "fence a = Some k"
  using assms by (auto elim!: spec_stepE)

text \<open>A token appears on a delivery only through a claim that draws it.\<close>

lemma spec_step_token:
  assumes "spec_step now a d d'" and "claim_holder (sp_phase d') = Some k"
  shows "a = ActClaim k \<or> claim_holder (sp_phase d) = Some k"
  using assms by (auto elim!: spec_stepE)

section \<open>Abstraction of a stored row\<close>

definition abs_phase :: "'t delivery_row \<Rightarrow> 't phase" where
  "abs_phase d =
     (if dr_state d = ''claimed'' then
        PhClaimed (the (dr_claim_token d)) (the (dr_claimed_by d)) (the (dr_claim_expires_at d))
      else if dr_state d = ''delivered'' then PhDelivered (the (dr_delivered_at d))
      else if dr_state d = ''quarantined'' then
        PhQuarantined (the (dr_quarantined_at d)) (the (dr_quarantine_reason d))
      else PhPending)"

definition abs_delivery :: "'t delivery_row \<Rightarrow> 't delivery_spec" where
  "abs_delivery d =
     \<lparr>sp_phase = abs_phase d, sp_available_at = dr_available_at d, sp_attempts = dr_attempts d,
      sp_failure = (case dr_last_failure_code d of None \<Rightarrow> None
        | Some c \<Rightarrow> Some (c, the (dr_last_failure_detail d)))\<rparr>"

definition db_spec :: "'t db \<Rightarrow> int \<Rightarrow> 't delivery_spec option" where
  "db_spec db rid = map_option abs_delivery (find_delivery db rid)"

section \<open>Stores that refine the lifecycle\<close>

locale delivery_store =
  fixes spec_of :: "'s \<Rightarrow> int \<Rightarrow> ('t::linorder) delivery_spec option"
    and inv :: "'s \<Rightarrow> bool"
    and trans :: "'s \<Rightarrow> 's \<Rightarrow> bool"
  assumes trans_inv: "inv s \<Longrightarrow> trans s s' \<Longrightarrow> inv s'"
    and trans_refines: "inv s \<Longrightarrow> trans s s' \<Longrightarrow> spec_of s r = Some d \<Longrightarrow>
      \<exists>d'. spec_of s' r = Some d' \<and> (d' = d \<or> (\<exists>now a. spec_step now a d d'))"
begin

lemma run_inv: "trans\<^sup>*\<^sup>* s s' \<Longrightarrow> inv s \<Longrightarrow> inv s'"
  by (induction rule: rtranclp_induct) (auto intro: trans_inv)

lemma run_keeps_row:
  assumes "trans\<^sup>*\<^sup>* s s'" and "inv s" and "spec_of s r = Some d"
  shows "\<exists>d'. spec_of s' r = Some d' \<and> sp_attempts d \<le> sp_attempts d'
    \<and> (terminal d \<longrightarrow> d' = d)"
  using assms
proof (induction rule: rtranclp_induct)
  case (step u v)
  then obtain d1 where d1: "spec_of u r = Some d1" "sp_attempts d \<le> sp_attempts d1"
    "terminal d \<longrightarrow> d1 = d" by blast
  have "inv u" using step run_inv by blast
  then obtain d2 where d2: "spec_of v r = Some d2" "d2 = d1 \<or> (\<exists>now a. spec_step now a d1 d2)"
    using trans_refines [OF _ step.hyps(2) d1(1)] by blast
  from d2(2) have "sp_attempts d1 \<le> sp_attempts d2 \<and> (terminal d1 \<longrightarrow> d2 = d1)"
    by (auto dest: spec_step_attempts spec_step_terminal split: action.splits)
  then show ?case using d1 d2(1) by auto
qed auto

lemma terminal_forever:
  "trans\<^sup>*\<^sup>* s s' \<Longrightarrow> inv s \<Longrightarrow> spec_of s r = Some d \<Longrightarrow> terminal d \<Longrightarrow> spec_of s' r = Some d"
  using run_keeps_row by blast

lemma attempts_monotone:
  "trans\<^sup>*\<^sup>* s s' \<Longrightarrow> inv s \<Longrightarrow> spec_of s r = Some d \<Longrightarrow> spec_of s' r = Some d'
     \<Longrightarrow> sp_attempts d \<le> sp_attempts d'"
  using run_keeps_row by fastforce

end

end
