(* ===== verification/Adapter_Tables.thy ===== *)
theory Adapter_Tables
  imports Delivery_Lifecycle
begin

text \<open>
  Statements on the two tables as every adapter uses them, and what SQLx reports when one fails.
  SQLx and the servers are outside the repository: each adapter gives the violation of a
  constraint the code its server reports.
\<close>

datatype sqlx_error = SqlxDatabase "string option" | SqlxProtocol string | SqlxOther string

definition run_or :: "'e option \<Rightarrow> 'a \<Rightarrow> 'e + 'a" where
  "run_or fault v = (case fault of None \<Rightarrow> Inr v | Some e \<Rightarrow> Inl e)"

lemma run_or_Inr_iff [result_simps]: "run_or f v = Inr w \<longleftrightarrow> f = None \<and> w = v"
  by (auto simp: run_or_def split: option.splits)

lemma run_or_None [simp]: "run_or None v = Inr v"
  by (simp add: run_or_def)

section \<open>Statements\<close>

datatype violation = NotNullViolation | CheckViolation | UniqueViolation | ForeignKeyViolation

text \<open>INSERT of an event with ON CONFLICT (tenant_id, source, event_id) DO NOTHING.\<close>

definition table_insert_event :: "'t event_row \<Rightarrow> 't db \<Rightarrow> violation + ('t event_row option \<times> 't db)" where
  "table_insert_event row db =
     (if \<not> event_check row then Inl CheckViolation
      else if event_identity row \<in> event_identity ` set (db_events db) then Inr (None, db)
      else if er_row_id row \<in> er_row_id ` set (db_events db) then Inl UniqueViolation
      else Inr (Some row, db\<lparr>db_events := db_events db @ [row],
                             db_last_row_id := max (db_last_row_id db) (er_row_id row)\<rparr>))"

definition table_insert_delivery :: "'t delivery_row \<Rightarrow> 't db \<Rightarrow> violation + 't db" where
  "table_insert_delivery row db =
     (if \<not> delivery_check row then Inl CheckViolation
      else if dr_event_row_id row \<in> dr_event_row_id ` set (db_deliveries db) then Inl UniqueViolation
      else if \<not> list_ex (\<lambda>r. er_tenant_id r = dr_tenant_id row \<and> er_row_id r = dr_event_row_id row) (db_events db)
        then Inl ForeignKeyViolation
      else Inr (db\<lparr>db_deliveries := db_deliveries db @ [row]\<rparr>))"

text \<open>
  UPDATE of the deliveries selected by \<open>p\<close>. \<open>f\<close> yields the new row, \<open>None\<close> when a NOT NULL
  column would become NULL. The result is the updated rows.
\<close>

definition table_update_deliveries ::
  "('t delivery_row \<Rightarrow> bool) \<Rightarrow> ('t delivery_row \<Rightarrow> 't delivery_row option) \<Rightarrow> 't db
     \<Rightarrow> violation + ('t delivery_row list \<times> 't db)" where
  "table_update_deliveries p f db =
     (let hit = filter p (db_deliveries db) in
      if list_ex (\<lambda>d. f d = None) hit then Inl NotNullViolation
      else if list_ex (\<lambda>d. \<not> delivery_check (the (f d))) hit then Inl CheckViolation
      else Inr (map (\<lambda>d. the (f d)) hit,
             db\<lparr>db_deliveries := update_rows p (\<lambda>d. the (f d)) (db_deliveries db)\<rparr>))"

section \<open>What the statements keep\<close>

lemma find_delivery_ok:
  "db_ok db \<Longrightarrow> find_delivery db r = Some d \<longleftrightarrow> d \<in> set (db_deliveries db) \<and> dr_event_row_id d = r"
  by (rule find_delivery_Some_iff) (simp add: db_ok_def)

lemma find_delivery_check: "db_ok db \<Longrightarrow> find_delivery db r = Some d \<Longrightarrow> delivery_check d"
  by (auto simp: db_ok_def list_all_iff find_delivery_def dest!: find_Some_in)

lemma table_insert_event_Some:
  assumes "table_insert_event row db = Inr (Some row', db')"
  shows "row' = row" and "db' = db\<lparr>db_events := db_events db @ [row],
      db_last_row_id := max (db_last_row_id db) (er_row_id row)\<rparr>"
    and "event_check row" and "event_identity row \<notin> event_identity ` set (db_events db)"
    and "er_row_id row \<notin> er_row_id ` set (db_events db)"
  using assms by (auto simp: table_insert_event_def split: if_splits)

lemma table_insert_event_None:
  assumes "table_insert_event row db = Inr (None, db')"
  shows "db' = db" and "event_identity row \<in> event_identity ` set (db_events db)"
  using assms by (auto simp: table_insert_event_def split: if_splits)

lemma table_insert_event_ok:
  assumes "db_ok db" and "table_insert_event row db = Inr (res, db')"
  shows "db_ok db'"
  using assms
  by (auto simp: table_insert_event_def db_ok_def list_all_iff le_max_iff_disj split: if_splits)

lemma table_insert_delivery_Inr:
  assumes "table_insert_delivery row db = Inr db'"
  shows "db' = db\<lparr>db_deliveries := db_deliveries db @ [row]\<rparr>" and "delivery_check row"
    and "dr_event_row_id row \<notin> dr_event_row_id ` set (db_deliveries db)"
  using assms by (auto simp: table_insert_delivery_def split: if_splits)

lemma table_insert_delivery_ok:
  assumes "db_ok db" and "table_insert_delivery row db = Inr db'"
  shows "db_ok db'" and "db' = db\<lparr>db_deliveries := db_deliveries db @ [row]\<rparr>"
    and "dr_event_row_id row \<notin> dr_event_row_id ` set (db_deliveries db)"
  using assms
  by (auto simp: table_insert_delivery_def db_ok_def list_all_iff list_ex_iff split: if_splits)

lemma table_update_defined:
  assumes "table_update_deliveries p f db = Inr (rows, db')"
  shows "db' = db\<lparr>db_deliveries := update_rows p (\<lambda>d. the (f d)) (db_deliveries db)\<rparr>"
    and "rows = map (\<lambda>d. the (f d)) (filter p (db_deliveries db))"
    and "\<And>d. d \<in> set (db_deliveries db) \<Longrightarrow> p d \<Longrightarrow> f d \<noteq> None \<and> delivery_check (the (f d))"
  using assms by (auto simp: table_update_deliveries_def Let_def list_ex_iff split: if_splits)

lemma table_update_deliveries_ok:
  assumes "db_ok db" and upd: "table_update_deliveries p f db = Inr (rows, db')"
    and key: "\<And>d e. f d = Some e \<Longrightarrow> dr_event_row_id e = dr_event_row_id d"
    and tenant: "\<And>d e. f d = Some e \<Longrightarrow> dr_tenant_id e = dr_tenant_id d"
  shows "db_ok db'"
proof -
  let ?p = "\<lambda>d. p d \<and> f d \<noteq> None" and ?f = "\<lambda>d. case f d of None \<Rightarrow> d | Some e \<Rightarrow> e"
  note defined = table_update_defined [OF upd]
  have "\<forall>d \<in> set (db_deliveries db). p d \<longrightarrow> f d \<noteq> None" using defined(3) by blast
  then have "update_rows p (\<lambda>d. the (f d)) (db_deliveries db) = update_rows ?p ?f (db_deliveries db)"
    unfolding update_rows_def by (intro map_cong) auto
  then have "db' = db\<lparr>db_deliveries := update_rows ?p ?f (db_deliveries db)\<rparr>" using defined(1) by simp
  moreover have "dr_event_row_id (?f d) = dr_event_row_id d" "dr_tenant_id (?f d) = dr_tenant_id d" for d
    using key tenant by (auto split: option.splits)
  moreover have "delivery_check (?f d)" if "d \<in> set (db_deliveries db)" "?p d" for d
    using defined(3) [OF that(1)] that(2) by (auto split: option.splits)
  ultimately show ?thesis
    using db_ok_update_rows [OF assms(1), of ?f ?p] by blast
qed

lemma table_update_deliveries_find:
  assumes upd: "table_update_deliveries p f db = Inr (rows, db')"
    and key: "\<And>d e. f d = Some e \<Longrightarrow> dr_event_row_id e = dr_event_row_id d"
  shows "db_events db' = db_events db" and "db_last_row_id db' = db_last_row_id db"
    and "find_delivery db' r = map_option (\<lambda>d. if p d then the (f d) else d) (find_delivery db r)"
proof -
  note defined = table_update_defined [OF upd]
  have "find (\<lambda>d. dr_event_row_id d = r) (update_rows p (\<lambda>d. the (f d)) ds)
      = map_option (\<lambda>d. if p d then the (f d) else d) (find (\<lambda>d. dr_event_row_id d = r) ds)"
    if "\<And>d. d \<in> set ds \<Longrightarrow> p d \<Longrightarrow> f d \<noteq> None" for ds
    using that key by (induction ds) (auto simp: update_rows_def)
  then show "find_delivery db' r = map_option (\<lambda>d. if p d then the (f d) else d) (find_delivery db r)"
    using defined(3) by (simp add: find_delivery_def defined(1))
  show "db_events db' = db_events db" "db_last_row_id db' = db_last_row_id db" by (simp_all add: defined(1))
qed

lemma filter_by_key:
  assumes "db_ok db" and d: "d \<in> set (db_deliveries db)" "p d"
    and p: "\<forall>d. p d \<longrightarrow> dr_event_row_id d = n"
  shows "filter p (db_deliveries db) = [d]"
proof -
  have dist: "distinct (map dr_event_row_id (db_deliveries db))" using assms(1) by (simp add: db_ok_def)
  have "p x \<longleftrightarrow> dr_event_row_id x = dr_event_row_id d" if "x \<in> set (db_deliveries db)" for x
    using that d p dist by (metis distinct_map inj_onD)
  then have "filter p (db_deliveries db) = filter (\<lambda>y. dr_event_row_id y = dr_event_row_id d) (db_deliveries db)"
    by (intro filter_cong) auto
  then show ?thesis using filter_key_unique [OF dist d(1)] by simp
qed

text \<open>An UPDATE whose WHERE clause fixes the key changes one row and keeps the others.\<close>

lemma table_update_one:
  assumes "db_ok db" and upd: "table_update_deliveries p f db = Inr (rows, db')"
    and key: "\<forall>d e. f d = Some e \<longrightarrow>
      dr_event_row_id e = dr_event_row_id d \<and> dr_tenant_id e = dr_tenant_id d"
    and p: "\<forall>d. p d \<longrightarrow> dr_event_row_id d = n" and hit: "rows \<noteq> []"
  shows "db_ok db'" and "db_events db' = db_events db" and "db_last_row_id db' = db_last_row_id db"
    and "\<exists>d d'. find_delivery db n = Some d \<and> p d \<and> f d = Some d' \<and> delivery_check d'
      \<and> find_delivery db' n = Some d' \<and> rows = [d']"
    and "\<And>r. r \<noteq> n \<Longrightarrow> find_delivery db' r = find_delivery db r"
proof -
  have key1: "\<And>d e. f d = Some e \<Longrightarrow> dr_event_row_id e = dr_event_row_id d" using key by blast
  note found = table_update_deliveries_find [OF upd key1] and defined = table_update_defined [OF upd]
  show "db_ok db'" by (rule table_update_deliveries_ok [OF assms(1) upd]) (use key in auto)
  show "db_events db' = db_events db" by (rule found(1))
  show "db_last_row_id db' = db_last_row_id db" by (rule found(2))
  obtain d where d: "d \<in> set (db_deliveries db)" "p d"
    using hit defined(2) by (auto simp: filter_empty_conv)
  then have fd: "find_delivery db n = Some d" using p find_delivery_ok [OF assms(1)] by blast
  have "rows = [the (f d)]" using defined(2) filter_by_key [OF assms(1) d p] by simp
  then show "\<exists>d d'. find_delivery db n = Some d \<and> p d \<and> f d = Some d' \<and> delivery_check d'
      \<and> find_delivery db' n = Some d' \<and> rows = [d']"
    using d fd found(3) [of n] defined(3) [OF d] by auto
  show "find_delivery db' r = find_delivery db r" if "r \<noteq> n" for r
  proof (cases "find_delivery db r")
    case (Some e)
    then have "dr_event_row_id e = r" using find_delivery_ok [OF assms(1)] by simp
    then have "\<not> p e" using p that by auto
    then show ?thesis using found(3) [of r] Some by simp
  qed (simp add: found(3))
qed

text \<open>The converse: the statement succeeds on a row its clause selects and whose new value is legal.\<close>

lemma table_update_hit:
  assumes "db_ok db" and d: "find_delivery db n = Some d" "p d" "f d = Some d'" "delivery_check d'"
    and p: "\<forall>d. p d \<longrightarrow> dr_event_row_id d = n"
  shows "\<exists>db'. table_update_deliveries p f db = Inr ([d'], db')"
proof -
  have "d \<in> set (db_deliveries db)" using d(1) find_delivery_ok [OF assms(1)] by auto
  then have "filter p (db_deliveries db) = [d]" using filter_by_key [OF assms(1) _ d(2) p] by blast
  then show ?thesis using d by (simp add: table_update_deliveries_def)
qed

lemma table_update_miss:
  assumes "\<And>d. d \<in> set (db_deliveries db) \<Longrightarrow> \<not> p d"
  shows "table_update_deliveries p f db = Inr ([], db)"
proof -
  have "filter p (db_deliveries db) = []" using assms by simp
  moreover have "update_rows p (\<lambda>d. the (f d)) (db_deliveries db) = db_deliveries db"
    using assms by (induction "db_deliveries db") (auto simp: update_rows_def map_idI)
  ultimately show ?thesis by (simp add: table_update_deliveries_def)
qed

end
