(* ===== verification/Adapter_Events.thy ===== *)
theory Adapter_Events
  imports Adapter_Tables
begin

text \<open>
  Rows of events as the adapters exchange them with core values. Hydration puts every column
  through its constructor again, so a row that was tampered with is refused instead of being
  repaired. The adapters differ in how they encode and decode an instant: \<open>hydrate_event_with\<close> and
  \<open>event_columns_with\<close> take that as an argument.
\<close>

text \<open>An error detail, or the panic of \<open>to_offset\<close> on an instant outside the calendar.\<close>

datatype hydrate_error = HErr string | HPanic

definition herr :: "ValidationError + 'a \<Rightarrow> hydrate_error + 'a" where
  "herr r = map_err (\<lambda>e. HErr (verror_to_string e)) r"

lemma herr_Inr_iff [result_simps, simp]: "herr r = Inr x \<longleftrightarrow> r = Inr x"
  by (simp add: herr_def)

lemma herr_Inr [simp]: "herr (Inr x) = Inr x"
  by (simp add: herr_def)

section \<open>Events\<close>

text \<open>The result row of the joined SELECTs: the event columns and the nullable delivery ones.\<close>

record 't durable_row =
  du_event :: "'t event_row"
  du_state :: "string option"
  du_available_at :: "'t option"
  du_attempts :: "int option"
  du_claim_token :: "bytes option"
  du_claimed_by :: "string option"
  du_claim_expires_at :: "'t option"
  du_last_failure_code :: "string option"
  du_last_failure_detail :: "string option"
  du_delivered_at :: "'t option"
  du_quarantined_at :: "'t option"
  du_quarantine_reason :: "string option"

definition durable_join :: "'t event_row \<Rightarrow> 't delivery_row option \<Rightarrow> 't durable_row" where
  "durable_join r d =
     \<lparr>du_event = r, du_state = map_option dr_state d, du_available_at = map_option dr_available_at d,
      du_attempts = map_option dr_attempts d, du_claim_token = Option.bind d dr_claim_token,
      du_claimed_by = Option.bind d dr_claimed_by,
      du_claim_expires_at = Option.bind d dr_claim_expires_at,
      du_last_failure_code = Option.bind d dr_last_failure_code,
      du_last_failure_detail = Option.bind d dr_last_failure_detail,
      du_delivered_at = Option.bind d dr_delivered_at,
      du_quarantined_at = Option.bind d dr_quarantined_at,
      du_quarantine_reason = Option.bind d dr_quarantine_reason\<rparr>"

definition set_optional ::
  "'v option \<Rightarrow> ('v \<Rightarrow> NewEventBuilder \<Rightarrow> hydrate_error + NewEventBuilder) \<Rightarrow> NewEventBuilder
     \<Rightarrow> hydrate_error + NewEventBuilder" where
  "set_optional v f b = (case v of None \<Rightarrow> Inr b | Some x \<Rightarrow> f x b)"

definition hydrate_extensions :: "ext_lib \<Rightarrow> string \<Rightarrow> hydrate_error + Extensions" where
  "hydrate_extensions lib text =
     map_err (\<lambda>e. case e of DecodePanic \<Rightarrow> HPanic | _ \<Rightarrow> HErr (decode_error_to_string e))
       (from_canonical_json lib text)"

definition hydrate_data ::
  "ext_lib \<Rightarrow> string option \<Rightarrow> bytes option \<Rightarrow> NewEventBuilder \<Rightarrow> hydrate_error + NewEventBuilder" where
  "hydrate_data lib data_kind data b =
     (case (data_kind, data) of
        (None, None) \<Rightarrow> Inr b
      | (Some kind, Some bs) \<Rightarrow>
          if kind = ''json'' then
            and_then (herr (event_data_json lib bs)) (\<lambda>d. Inr (builder_data d b))
          else if kind = ''binary'' then Inr (builder_data (event_data_binary bs) b)
          else Inl (HErr ''stored data kind and data columns do not agree'')
      | _ \<Rightarrow> Inl (HErr ''stored data kind and data columns do not agree''))"

definition hydrate_event_with ::
  "('t \<Rightarrow> hydrate_error + offset_date_time) \<Rightarrow> ext_lib \<Rightarrow> 't event_row
     \<Rightarrow> hydrate_error + StoredEvent" where
  "hydrate_event_with dec lib row =
     (if er_specversion row \<noteq> SPEC_VERSION
        then Inl (HErr ''stored event has an unsupported specversion'')
      else
      and_then (herr (stream_name_new (er_stream row))) (\<lambda>stream.
      and_then (herr (event_id_new (er_event_id row))) (\<lambda>eid.
      and_then (herr (event_source_new lib (er_source row))) (\<lambda>source.
      and_then (herr (event_type_new (er_event_type row))) (\<lambda>event_type.
      and_then (set_optional (er_subject row) (\<lambda>v b.
          and_then (herr (event_subject_new v)) (\<lambda>x. Inr (builder_subject x b)))
        (builder_new stream eid source event_type)) (\<lambda>b.
      and_then (set_optional (er_occurred_at row) (\<lambda>v b.
          and_then (dec v) (\<lambda>t. ok_or HPanic (builder_time t b))) b) (\<lambda>b.
      and_then (set_optional (er_datacontenttype row) (\<lambda>v b.
          and_then (herr (content_type_new lib v)) (\<lambda>x. Inr (builder_datacontenttype x b))) b) (\<lambda>b.
      and_then (set_optional (er_dataschema row) (\<lambda>v b.
          and_then (herr (schema_uri_new lib v)) (\<lambda>x. Inr (builder_dataschema x b))) b) (\<lambda>b.
      and_then (set_optional (er_partitionkey row) (\<lambda>v b.
          and_then (herr (partition_key_new v)) (\<lambda>x. Inr (builder_partitionkey x b))) b) (\<lambda>b.
      and_then (hydrate_extensions lib (er_extensions row)) (\<lambda>extensions.
      and_then (hydrate_data lib (er_data_kind row) (er_data row) (builder_extensions extensions b)) (\<lambda>b.
      and_then (herr (build_with_limit lib b (EventSizeLimit usize_max))) (\<lambda>event.
        herr (into_stored lib event))))))))))))))"

section \<open>Delivery columns\<close>

definition require_absent :: "string \<Rightarrow> 'a option \<Rightarrow> hydrate_error + unit" where
  "require_absent field value =
     (if value \<noteq> None then Inl (HErr (field @ '' must be NULL for its delivery state'')) else Inr ())"

definition require_token_width :: "bytes option \<Rightarrow> hydrate_error + unit" where
  "require_token_width value =
     (case value of
        Some k \<Rightarrow> if length k = 16 then Inr ()
          else Inl (HErr (''claimed delivery has an invalid claim token width: ''
                 @ nat_to_string (length k)))
      | None \<Rightarrow> Inl (HErr ''claimed delivery has no claim token''))"

definition parse_failure :: "string option \<Rightarrow> string option \<Rightarrow> hydrate_error + Failure option" where
  "parse_failure code detail =
     (case (code, detail) of
        (None, None) \<Rightarrow> Inr None
      | (Some c, Some d) \<Rightarrow> and_then (herr (failure_new c d)) (\<lambda>f. Inr (Some f))
      | _ \<Rightarrow> Inl (HErr ''delivery failure code and detail must be both NULL or non-NULL''))"

section \<open>Rows of validated events\<close>

text \<open>The event columns that an enqueue or an import binds for an event.\<close>

definition event_columns_with ::
  "(offset_date_time \<Rightarrow> 't) \<Rightarrow> ext_lib \<Rightarrow> string \<Rightarrow> EventContent \<Rightarrow> int \<Rightarrow> 't \<Rightarrow> 't event_row" where
  "event_columns_with enc lib tenant c rid enqueued_at =
     \<lparr>er_row_id = rid, er_tenant_id = tenant, er_stream = stream_str (ec_stream c),
      er_specversion = SPEC_VERSION, er_event_id = event_id_str (ec_id c),
      er_source = source_str (ec_source c), er_event_type = event_type_str (ec_event_type c),
      er_subject = map_option subject_str (ec_subject c),
      er_occurred_at = map_option enc (ec_time c),
      er_datacontenttype = map_option content_type_str (ec_datacontenttype c),
      er_dataschema = map_option schema_uri_str (ec_dataschema c),
      er_partitionkey = map_option partition_key_str (ec_partitionkey c),
      er_extensions = canonical_json lib (ec_extensions c),
      er_data_kind = map_option (\<lambda>d. if event_data_is_json d then ''json'' else ''binary'') (ec_data c),
      er_data = map_option event_data_bytes (ec_data c),
      er_enqueued_at = enqueued_at\<rparr>"

text \<open>The comparison that decides whether a stored event is the one at hand.\<close>

definition same_event_with ::
  "(offset_date_time \<Rightarrow> 't) \<Rightarrow> ext_lib \<Rightarrow> NewEvent \<Rightarrow> 't event_row \<Rightarrow> bool" where
  "same_event_with enc lib event existing \<longleftrightarrow> (let c = new_content event in
     stream_str (ec_stream c) = er_stream existing
     \<and> SPEC_VERSION = er_specversion existing
     \<and> event_id_str (ec_id c) = er_event_id existing
     \<and> source_str (ec_source c) = er_source existing
     \<and> event_type_str (ec_event_type c) = er_event_type existing
     \<and> map_option subject_str (ec_subject c) = er_subject existing
     \<and> map_option enc (ec_time c) = er_occurred_at existing
     \<and> map_option content_type_str (ec_datacontenttype c) = er_datacontenttype existing
     \<and> map_option schema_uri_str (ec_dataschema c) = er_dataschema existing
     \<and> map_option partition_key_str (ec_partitionkey c) = er_partitionkey existing
     \<and> canonical_json lib (ec_extensions c) = er_extensions existing
     \<and> map_option (\<lambda>d. if event_data_is_json d then ''json'' else ''binary'') (ec_data c)
         = er_data_kind existing
     \<and> map_option event_data_bytes (ec_data c) = er_data existing)"

text \<open>The delivery that an enqueue inserts.\<close>

definition enqueued_delivery :: "string \<Rightarrow> int \<Rightarrow> 't \<Rightarrow> 't delivery_row" where
  "enqueued_delivery tenant rid available_at =
     \<lparr>dr_event_row_id = rid, dr_tenant_id = tenant, dr_state = ''pending'',
      dr_available_at = available_at, dr_attempts = 0, dr_claim_token = None, dr_claimed_by = None,
      dr_claim_expires_at = None, dr_last_failure_code = None, dr_last_failure_detail = None,
      dr_delivered_at = None, dr_quarantined_at = None, dr_quarantine_reason = None\<rparr>"

text \<open>
  What the round trip relies on in the third-party codecs, at the values the event holds: JSON
  and base64 decode what they encoded.
\<close>

definition extension_codecs :: "ext_lib \<Rightarrow> Extensions \<Rightarrow> bool" where
  "extension_codecs lib es \<longleftrightarrow>
     json_parse lib (canonical_json lib es) = Some (extensions_object lib es)
     \<and> list_all (\<lambda>(n, v). codec_round_trips lib v) es"

lemma event_columns_with_sel [simp]:
  "er_row_id (event_columns_with w lib t c rid q) = rid"
  "er_tenant_id (event_columns_with w lib t c rid q) = t"
  "er_enqueued_at (event_columns_with w lib t c rid q) = q"
  "event_identity (event_columns_with w lib t c rid q)
     = (t, source_str (ec_source c), event_id_str (ec_id c))"
  by (simp_all add: event_columns_with_def event_identity_def)

text \<open>Equality of content is equality of every event column.\<close>

lemma same_event_with_iff:
  "same_event_with enc lib event r \<longleftrightarrow>
     r = event_columns_with enc lib (er_tenant_id r) (new_content event) (er_row_id r) (er_enqueued_at r)"
  by (cases r) (auto simp: same_event_with_def event_columns_with_def Let_def)

lemma find_identity_Some_iff:
  assumes "distinct (map event_identity (db_events db))"
  shows "find_identity db t s i = Some r \<longleftrightarrow> r \<in> set (db_events db) \<and> event_identity r = (t, s, i)"
proof
  assume "find_identity db t s i = Some r"
  then show "r \<in> set (db_events db) \<and> event_identity r = (t, s, i)"
    unfolding find_identity_def by (auto dest!: find_Some_in simp: event_identity_def)
next
  assume r: "r \<in> set (db_events db) \<and> event_identity r = (t, s, i)"
  have eq: "(\<lambda>r. er_tenant_id r = t \<and> er_source r = s \<and> er_event_id r = i)
      = (\<lambda>y. event_identity y = event_identity r)"
    using r by (auto simp: event_identity_def)
  show "find_identity db t s i = Some r"
    unfolding find_identity_def eq by (rule find_key_unique [OF assms]) (use r in simp)
qed

text \<open>Every event has its delivery: the pairing that a committed enqueue keeps.\<close>

definition db_paired :: "'t db \<Rightarrow> bool" where
  "db_paired db \<longleftrightarrow> (\<forall>r \<in> set (db_events db). \<exists>d \<in> set (db_deliveries db).
     dr_event_row_id d = er_row_id r \<and> dr_tenant_id d = er_tenant_id r)"

lemma set_optional_map:
  assumes "\<And>x. v = Some x \<Longrightarrow> g (f x) b = Inr (upd (Some x) b)" and "upd None b = b"
  shows "set_optional (map_option f v) g b = Inr (upd v b)"
  using assms by (cases v) (auto simp: set_optional_def)

lemma validate_content_max_limit:
  assumes "validate_content lib c limit = Inr ()"
  shows "validate_content lib c (EventSizeLimit usize_max) = Inr ()"
  using assms by (auto simp: validate_content_Inr_iff portable_size_Inr_iff)

lemma hydrate_extensions_canonical:
  assumes "event_content_wf lib c" "validate_content lib c limit = Inr ()"
    "extension_codecs lib (ec_extensions c)"
  shows "hydrate_extensions lib (canonical_json lib (ec_extensions c)) = Inr (ec_extensions c)"
  using assms from_canonical_json_complete [of lib "ec_extensions c"]
  by (simp add: hydrate_extensions_def extension_codecs_def event_content_wf_def extensions_ok_def
      validate_content_Inr_iff)

lemma hydrate_data_columns:
  assumes "\<And>d. v = Some d \<Longrightarrow> event_data_ok lib d" and "ec_data (builder_content b) = None"
  shows "hydrate_data lib (map_option (\<lambda>d. if event_data_is_json d then ''json'' else ''binary'') v)
      (map_option event_data_bytes v) b
    = Inr (NewEventBuilder ((builder_content b)\<lparr>ec_data := v\<rparr>))"
proof (cases v)
  case None
  then show ?thesis using assms(2)
    by (cases b) (simp add: hydrate_data_def)
next
  case (Some d)
  have "event_data_json lib (event_data_bytes d) = Inr d" if "event_data_is_json d"
    using assms(1) [OF Some] that by (cases d) (simp_all add: event_data_json_Inr_iff)
  moreover have "d = DataBinary (event_data_bytes d)" if "\<not> event_data_is_json d"
    using that by (cases d) simp_all
  ultimately show ?thesis
    using Some by (auto simp: hydrate_data_def builder_data_def event_data_binary_def)
qed

text \<open>Each optional column restores its attribute, whatever the builder holds of the others.\<close>

lemma hydrate_text_columns:
  assumes "event_content_wf lib c"
  shows "ec_subject k = None \<Longrightarrow>
      set_optional (map_option subject_str (ec_subject c)) (\<lambda>v b.
        and_then (herr (event_subject_new v)) (\<lambda>x. Inr (builder_subject x b))) (NewEventBuilder k)
      = Inr (NewEventBuilder (k\<lparr>ec_subject := ec_subject c\<rparr>))"
    and "ec_datacontenttype k = None \<Longrightarrow>
      set_optional (map_option content_type_str (ec_datacontenttype c)) (\<lambda>v b.
        and_then (herr (content_type_new lib v)) (\<lambda>x. Inr (builder_datacontenttype x b))) (NewEventBuilder k)
      = Inr (NewEventBuilder (k\<lparr>ec_datacontenttype := ec_datacontenttype c\<rparr>))"
    and "ec_dataschema k = None \<Longrightarrow>
      set_optional (map_option schema_uri_str (ec_dataschema c)) (\<lambda>v b.
        and_then (herr (schema_uri_new lib v)) (\<lambda>x. Inr (builder_dataschema x b))) (NewEventBuilder k)
      = Inr (NewEventBuilder (k\<lparr>ec_dataschema := ec_dataschema c\<rparr>))"
    and "ec_partitionkey k = None \<Longrightarrow>
      set_optional (map_option partition_key_str (ec_partitionkey c)) (\<lambda>v b.
        and_then (herr (partition_key_new v)) (\<lambda>x. Inr (builder_partitionkey x b))) (NewEventBuilder k)
      = Inr (NewEventBuilder (k\<lparr>ec_partitionkey := ec_partitionkey c\<rparr>))"
proof -
  note wf = assms [unfolded event_content_wf_def]
  show "ec_subject k = None \<Longrightarrow>
      set_optional (map_option subject_str (ec_subject c)) (\<lambda>v b.
        and_then (herr (event_subject_new v)) (\<lambda>x. Inr (builder_subject x b))) (NewEventBuilder k)
      = Inr (NewEventBuilder (k\<lparr>ec_subject := ec_subject c\<rparr>))"
    using wf by (cases "ec_subject c")
      (auto simp: set_optional_def result_simps bounded_string_defs builder_subject_def)
  show "ec_datacontenttype k = None \<Longrightarrow>
      set_optional (map_option content_type_str (ec_datacontenttype c)) (\<lambda>v b.
        and_then (herr (content_type_new lib v)) (\<lambda>x. Inr (builder_datacontenttype x b))) (NewEventBuilder k)
      = Inr (NewEventBuilder (k\<lparr>ec_datacontenttype := ec_datacontenttype c\<rparr>))"
    using wf by (cases "ec_datacontenttype c")
      (auto simp: set_optional_def result_simps builder_datacontenttype_def)
  show "ec_dataschema k = None \<Longrightarrow>
      set_optional (map_option schema_uri_str (ec_dataschema c)) (\<lambda>v b.
        and_then (herr (schema_uri_new lib v)) (\<lambda>x. Inr (builder_dataschema x b))) (NewEventBuilder k)
      = Inr (NewEventBuilder (k\<lparr>ec_dataschema := ec_dataschema c\<rparr>))"
    using wf by (cases "ec_dataschema c")
      (auto simp: set_optional_def result_simps builder_dataschema_def schema_uri_str_def)
  show "ec_partitionkey k = None \<Longrightarrow>
      set_optional (map_option partition_key_str (ec_partitionkey c)) (\<lambda>v b.
        and_then (herr (partition_key_new v)) (\<lambda>x. Inr (builder_partitionkey x b))) (NewEventBuilder k)
      = Inr (NewEventBuilder (k\<lparr>ec_partitionkey := ec_partitionkey c\<rparr>))"
    using wf by (cases "ec_partitionkey c")
      (auto simp: set_optional_def result_simps bounded_string_defs builder_partitionkey_def)
qed

lemma hydrate_time_column:
  assumes "event_content_wf lib c" "validate_content lib c limit = Inr ()"
    and "\<And>t. ec_time c = Some t \<Longrightarrow> dec (enc t) = Inr t" and "ec_time k = None"
  shows "set_optional (map_option enc (ec_time c)) (\<lambda>v b.
        and_then (dec v) (\<lambda>t. ok_or HPanic (builder_time t b))) (NewEventBuilder k)
      = Inr (NewEventBuilder (k\<lparr>ec_time := ec_time c\<rparr>))"
proof (cases "ec_time c")
  case (Some t)
  have "instant_ok t" using assms(2) Some by (simp add: validate_content_Inr_iff)
  then have "\<not> to_offset_utc_panics t" by (rule instant_ok_no_panic)
  moreover have "to_offset_utc t = t"
    using assms(1) Some by (simp add: event_content_wf_def to_offset_utc_def)
  ultimately show ?thesis using Some assms(3) by (simp add: set_optional_def builder_time_def)
qed (use assms(4) in \<open>simp add: set_optional_def\<close>)

lemma hydrate_event_columns_with:
  assumes wf: "event_content_wf lib c" and valid: "validate_content lib c limit = Inr ()"
    and codecs: "extension_codecs lib (ec_extensions c)"
    and time: "\<And>t. ec_time c = Some t \<Longrightarrow> dec (enc t) = Inr t"
  shows "hydrate_event_with dec lib (event_columns_with enc lib tenant c rid enqueued_at)
    = Inr (StoredEvent c)"
proof -
  note wf' = wf [unfolded event_content_wf_def]
  have fields: "stream_name_new (stream_str (ec_stream c)) = Inr (ec_stream c)"
    "event_id_new (event_id_str (ec_id c)) = Inr (ec_id c)"
    "event_source_new lib (source_str (ec_source c)) = Inr (ec_source c)"
    "event_type_new (event_type_str (ec_event_type c)) = Inr (ec_event_type c)"
    using wf' by (simp_all add: result_simps bounded_string_defs)
  have data: "hydrate_data lib
      (map_option (\<lambda>d. if event_data_is_json d then ''json'' else ''binary'') (ec_data c))
      (map_option event_data_bytes (ec_data c)) (NewEventBuilder k)
      = Inr (NewEventBuilder (k\<lparr>ec_data := ec_data c\<rparr>))" if "ec_data k = None" for k
    using wf' hydrate_data_columns [of "ec_data c" lib "NewEventBuilder k"] that by simp
  have "build_with_limit lib (NewEventBuilder c) (EventSizeLimit usize_max)
      = Inr \<lparr>new_content = c, new_size_limit = EventSizeLimit usize_max\<rparr>"
    using validate_content_max_limit [OF valid] by (simp add: build_with_limit_Inr_iff)
  moreover from build_into_stored [OF this]
  have "into_stored lib \<lparr>new_content = c, new_size_limit = EventSizeLimit usize_max\<rparr>
      = Inr (StoredEvent c)" by simp
  ultimately show ?thesis
    using fields hydrate_text_columns [OF wf] hydrate_time_column [where dec = dec and enc = enc, OF wf valid time] data
      hydrate_extensions_canonical [OF wf valid codecs]
    by (cases c) (simp add: hydrate_event_with_def event_columns_with_def builder_new_def
        builder_extensions_def)
qed

lemma opt_within_map: "opt_within n (map_option f v) \<longleftrightarrow> (\<forall>x. v = Some x \<longrightarrow> length (f x) \<le> n)"
  by (cases v) (simp_all add: opt_within_def)

text \<open>The columns of a validated event satisfy the checks of the table.\<close>

lemma event_columns_with_check:
  assumes wf: "event_content_wf lib c" and valid: "validate_content lib c limit = Inr ()"
    and tenant: "tenant_ok tenant" and "0 < rid"
  shows "event_check (event_columns_with enc lib (tenant_id_str tenant) c rid now)"
proof -
  note len = wf [unfolded event_content_wf_def text_ok_def stream_ok_def limit_defs]
  have ids: "length (source_str (ec_source c)) + length (event_id_str (ec_id c)) \<le> 2048"
    and data: "data_type_ok lib c"
    using valid unfolding validate_content_Inr_iff by blast+
  have "tenant_id_str tenant \<noteq> []" "length (tenant_id_str tenant) \<le> 255"
    using tenant unfolding tenant_ok_def text_ok_def limit_defs by blast+
  moreover have "ec_data c = None \<or> map_option event_data_bytes (ec_data c) = Some [] \<or> ec_datacontenttype c \<noteq> None"
    using data by (cases "ec_data c") (auto simp: data_type_ok_def)
  moreover have "opt_within 2048 (map_option subject_str (ec_subject c))"
    "opt_within 255 (map_option content_type_str (ec_datacontenttype c))"
    "opt_within 2048 (map_option schema_uri_str (ec_dataschema c))"
    "opt_within 255 (map_option partition_key_str (ec_partitionkey c))"
    using len unfolding opt_within_map by blast+
  ultimately show ?thesis
    using len ids \<open>0 < rid\<close>
    by (cases "ec_data c") (simp_all add: event_check_def event_columns_with_def SPEC_VERSION_def)
qed

end
