(* ===== verification/Adapter_Claim.thy ===== *)
theory Adapter_Claim
  imports Adapter_Events
begin

text \<open>
  The parts of a claim that the adapters share: the draw of a fresh token, the selection of
  candidates in row order, the preparation of a batch before anything is written, the row an
  UPDATE of the batch leaves, and what a committed batch means for the deliveries.

  The operating system's entropy is the list of its answers: sixteen octets or an error code.
  \<open>fresh_token\<close> draws until a token differs from the previous one of the row and from those of
  the batch; the list running out (\<open>None\<close>) means that the loop has not returned yet.
\<close>

type_synonym entropy = "(nat + bytes) list"

fun fresh_token :: "bytes option \<Rightarrow> bytes list \<Rightarrow> entropy \<Rightarrow> ((nat + bytes) \<times> entropy) option" where
  "fresh_token previous used [] = None"
| "fresh_token previous used (Inl e # rest) = Some (Inl e, rest)"
| "fresh_token previous used (Inr token # rest) =
     (if previous \<noteq> Some token \<and> list_all (\<lambda>value. value \<noteq> token) used
        then Some (Inr token, rest)
      else fresh_token previous used rest)"

section \<open>Candidates\<close>

definition claim_eligible :: "'t::linorder \<Rightarrow> 't delivery_row \<Rightarrow> bool" where
  "claim_eligible now d \<longleftrightarrow>
     (dr_state d = ''pending'' \<and> dr_available_at d \<le> now)
     \<or> (dr_state d = ''claimed''
        \<and> (case dr_claim_expires_at d of None \<Rightarrow> False | Some x \<Rightarrow> x \<le> now))"

definition claim_scope :: "TenantId option \<Rightarrow> string \<Rightarrow> bool" where
  "claim_scope tenant_id t = (case tenant_id of None \<Rightarrow> True | Some s \<Rightarrow> t = tenant_id_str s)"

definition join_event :: "'t db \<Rightarrow> 't delivery_row \<Rightarrow> 't event_row option" where
  "join_event db d =
     find (\<lambda>e. er_tenant_id e = dr_tenant_id d \<and> er_row_id e = dr_event_row_id d) (db_events db)"

text \<open>The joined rows that satisfy \<open>p\<close>, in row order, up to \<open>limit\<close>.\<close>

definition claim_rows ::
  "('t event_row \<Rightarrow> 't delivery_row \<Rightarrow> bool) \<Rightarrow> nat \<Rightarrow> 't db \<Rightarrow> 't durable_row list" where
  "claim_rows p limit db =
     take limit
       (List.map_filter
         (\<lambda>d. case join_event db d of
            None \<Rightarrow> None
          | Some e \<Rightarrow> if p e d then Some (durable_join e (Some d)) else None)
         (sort_key dr_event_row_id (db_deliveries db)))"

section \<open>Preparation and update\<close>

record prepared_claim =
  pc_row_id :: RowId
  pc_event_row_id :: int
  pc_tenant_id :: TenantId
  pc_event :: StoredEvent
  pc_attempts :: AttemptCount
  pc_token :: bytes

text \<open>
  The first loop. \<open>counter\<close> is what the body computes before it needs entropy, \<open>hydrate\<close> what
  it computes after, \<open>entropy_error\<close> the adapter's error for a failed draw.
\<close>

fun prepare_claims_with ::
  "('t durable_row \<Rightarrow> 'e + (RowId \<times> AttemptCount)) \<Rightarrow> (nat \<Rightarrow> 'e)
     \<Rightarrow> ('t durable_row \<Rightarrow> RowId \<Rightarrow> AttemptCount \<Rightarrow> bytes \<Rightarrow> 'e + prepared_claim)
     \<Rightarrow> bytes list \<Rightarrow> entropy \<Rightarrow> 't durable_row list
     \<Rightarrow> (('e + prepared_claim list) \<times> entropy) option" where
  "prepare_claims_with counter entropy_error hydrate used entropy [] = Some (Inr [], entropy)"
| "prepare_claims_with counter entropy_error hydrate used entropy (candidate # candidates) =
     (case counter candidate of
        Inl e \<Rightarrow> Some (Inl e, entropy)
      | Inr (row_id, attempts) \<Rightarrow>
     (case fresh_token (du_claim_token candidate) used entropy of
        None \<Rightarrow> None
      | Some (Inl source, rest) \<Rightarrow> Some (Inl (entropy_error source), rest)
      | Some (Inr token, rest) \<Rightarrow>
     (case hydrate candidate row_id attempts token of
        Inl e \<Rightarrow> Some (Inl e, rest)
      | Inr p \<Rightarrow>
     (case prepare_claims_with counter entropy_error hydrate (used @ [token]) rest candidates of
        None \<Rightarrow> None
      | Some (Inl e, rest') \<Rightarrow> Some (Inl e, rest')
      | Some (Inr ps, rest') \<Rightarrow> Some (Inr (p # ps), rest')))))"

text \<open>The conditional UPDATE of the second loop, for one prepared claim.\<close>

definition claim_update_row ::
  "'t option \<Rightarrow> WorkerId \<Rightarrow> prepared_claim \<Rightarrow> 't delivery_row \<Rightarrow> 't delivery_row" where
  "claim_update_row expiry worker p d =
     d\<lparr>dr_state := ''claimed'', dr_attempts := attempt_count_get (pc_attempts p),
       dr_claim_token := Some (pc_token p), dr_claimed_by := Some (worker_id_str worker),
       dr_claim_expires_at := expiry\<rparr>"

definition claim_update_where :: "prepared_claim \<Rightarrow> 't delivery_row \<Rightarrow> bool" where
  "claim_update_where p d \<longleftrightarrow>
     dr_tenant_id d = tenant_id_str (pc_tenant_id p) \<and> dr_event_row_id d = pc_event_row_id p
     \<and> (dr_state d = ''pending'' \<or> dr_state d = ''claimed'')"

section \<open>Tokens\<close>

lemma fresh_token_Inr:
  "fresh_token previous used ent = Some (Inr k, rest) \<Longrightarrow>
     previous \<noteq> Some k \<and> k \<notin> set used \<and> Inr k \<in> set ent"
  by (induction previous used ent rule: fresh_token.induct)
    (auto simp: list_all_iff split: if_splits)

text \<open>The loop returns as soon as the answers hold an error or one acceptable token.\<close>

lemma fresh_token_returns:
  assumes "(\<exists>e. Inl e \<in> set ent) \<or> (\<exists>k. Inr k \<in> set ent \<and> previous \<noteq> Some k \<and> k \<notin> set used)"
  shows "\<exists>r. fresh_token previous used ent = Some r"
  using assms
  by (induction previous used ent rule: fresh_token.induct) (auto simp: list_all_iff split: if_splits)

lemma fresh_token_enough:
  assumes "length used + 1 < card {k. Inr k \<in> set ent}"
  shows "\<exists>r. fresh_token previous used ent = Some r"
proof (rule fresh_token_returns)
  let ?S = "{k. Inr k \<in> set ent}" and ?U = "set used \<union> set_option previous"
  have "card ?U \<le> card (set used) + card (set_option previous)" by (rule card_Un_le)
  also have "card (set_option previous) \<le> 1" by (cases previous) auto
  also have "card (set used) \<le> length used" by (rule card_length)
  finally have "card ?U < card ?S" using assms by simp
  moreover have "finite ?U" by (cases previous) auto
  ultimately have "\<not> ?S \<subseteq> ?U" using card_mono [of ?U ?S] by linarith
  then show "(\<exists>e. Inl e \<in> set ent)
      \<or> (\<exists>k. Inr k \<in> set ent \<and> previous \<noteq> Some k \<and> k \<notin> set used)" by auto
qed

lemma fresh_token_two:
  assumes "distinct ent" "2 \<le> length ent" "\<And>t. Inr t \<in> set ent \<Longrightarrow> t \<notin> set used"
  shows "\<exists>v rest pre. fresh_token previous used ent = Some (v, rest) \<and> ent = pre @ rest
    \<and> length pre \<le> 2 \<and> (\<forall>t. v = Inr t \<longrightarrow> Inr t \<notin> set rest)"
proof -
  obtain a b tl where ent: "ent = a # b # tl"
    using assms(2) by (metis Suc_le_length_iff numeral_2_eq_2)
  have one: "\<exists>pre. x # xs = pre @ xs \<and> length pre \<le> 2" for x :: "nat + bytes" and xs
    by (intro exI [of _ "[x]"]) simp
  have two: "\<exists>pre. x # y # xs = pre @ xs \<and> length pre \<le> 2" for x y :: "nat + bytes" and xs
    by (intro exI [of _ "[x, y]"]) simp
  show ?thesis
    using assms(1,3) one [of a "b # tl"] two [of a b tl] unfolding ent
    by (cases a; cases b) (auto simp: list_all_iff)
qed

section \<open>Lists related element by element\<close>

lemma list_all2_right:
  assumes "list_all2 R xs ys" "y \<in> set ys"
  obtains x where "x \<in> set xs" "R x y"
  using assms by (induction rule: list_all2_induct) auto

lemma list_all2_left_mem: "list_all2 R xs ys \<Longrightarrow> list_all2 (\<lambda>x y. x \<in> set xs \<and> R x y) xs ys"
  by (simp add: list_all2_conv_all_nth)

section \<open>Candidates in row order\<close>

lemma map_filter_sorted:
  assumes "sorted_wrt (<) (map key xs)" and "\<And>x y. f x = Some y \<Longrightarrow> key' y = (key x :: int)"
  shows "sorted_wrt (<) (map key' (List.map_filter f xs))"
  using assms
proof (induction xs)
  case (Cons x xs)
  have "\<forall>y \<in> set (List.map_filter f xs). \<exists>z \<in> set xs. key' y = key z"
    using Cons.prems(2) by (fastforce simp: set_map_filter)
  then show ?case using Cons by (auto simp: map_filter_simps split: option.splits)
qed simp

lemma join_event_Some:
  "join_event db d = Some e \<Longrightarrow>
     e \<in> set (db_events db) \<and> er_tenant_id e = dr_tenant_id d \<and> er_row_id e = dr_event_row_id d"
  unfolding join_event_def by (auto dest: find_Some_in)

text \<open>\<open>skipped\<close> are the rows a statement passes over because another session holds their lock.\<close>

definition claim_candidates ::
  "'t::linorder \<Rightarrow> TenantId option \<Rightarrow> (int \<Rightarrow> bool) \<Rightarrow> nat \<Rightarrow> 't db \<Rightarrow> 't durable_row list" where
  "claim_candidates now tenant_id skipped limit db =
     claim_rows (\<lambda>e d. claim_scope tenant_id (dr_tenant_id d) \<and> claim_eligible now d
       \<and> \<not> skipped (dr_event_row_id d)) limit db"

lemma claim_rows_cong:
  assumes "\<And>e d. er_tenant_id e = dr_tenant_id d \<Longrightarrow> er_row_id e = dr_event_row_id d \<Longrightarrow> p e d = q e d"
  shows "claim_rows p limit db = claim_rows q limit db"
proof -
  have "(\<lambda>d. case join_event db d of None \<Rightarrow> None
        | Some e \<Rightarrow> if p e d then Some (durable_join e (Some d)) else None)
      = (\<lambda>d. case join_event db d of None \<Rightarrow> None
        | Some e \<Rightarrow> if q e d then Some (durable_join e (Some d)) else None)"
    using assms by (auto simp: fun_eq_iff dest: join_event_Some split: option.splits)
  then show ?thesis by (simp add: claim_rows_def)
qed

lemma claim_rows_member:
  assumes "c \<in> set (claim_rows p limit db)"
  obtains e d where "c = durable_join e (Some d)" "d \<in> set (db_deliveries db)"
    "join_event db d = Some e" "p e d"
proof -
  from assms have "c \<in> set (List.map_filter (\<lambda>d. case join_event db d of None \<Rightarrow> None
        | Some e \<Rightarrow> if p e d then Some (durable_join e (Some d)) else None)
      (sort_key dr_event_row_id (db_deliveries db)))"
    unfolding claim_rows_def by (rule in_set_takeD)
  then show thesis
    using that by (fastforce simp: set_map_filter split: option.splits if_splits)
qed

lemma claim_rows_sorted:
  assumes "distinct (map dr_event_row_id (db_deliveries db))"
  shows "sorted_wrt (<) (map (\<lambda>c. er_row_id (du_event c)) (claim_rows p limit db))"
proof -
  have "sorted_wrt (<) (map dr_event_row_id (sort_key dr_event_row_id (db_deliveries db)))"
    using assms by (simp add: strict_sorted_iff distinct_map)
  then have "sorted_wrt (<) (map (\<lambda>c. er_row_id (du_event c)) (List.map_filter
        (\<lambda>d. case join_event db d of None \<Rightarrow> None
          | Some e \<Rightarrow> if p e d then Some (durable_join e (Some d)) else None)
        (sort_key dr_event_row_id (db_deliveries db))))"
    by (rule map_filter_sorted)
      (auto simp: durable_join_def dest: join_event_Some split: option.splits if_splits)
  then show ?thesis
    unfolding claim_rows_def by (simp add: take_map [symmetric] sorted_wrt_take)
qed

lemma claim_rows_length: "length (claim_rows p limit db) \<le> limit"
  by (simp add: claim_rows_def)

text \<open>Candidates are taken in row order: an eligible row is left out only by a full batch.\<close>

lemma sorted_take_first:
  assumes "sorted_wrt (<) (map key xs)" and "x \<in> set xs" and "key x \<notin> key ` set (take n xs)"
  shows "length (take n xs) = n \<and> (\<forall>y \<in> set (take n xs). key y < key x)"
proof -
  have x: "x \<in> set (drop n xs)"
    using assms(2,3) by (metis Un_iff append_take_drop_id imageI set_append)
  have "sorted_wrt (<) (map key (take n xs @ drop n xs))" using assms(1) by simp
  then have "\<forall>y \<in> set (take n xs). key y < key x"
    using x by (simp only: map_append sorted_wrt_append) simp
  moreover have "n < length xs" using x by (metis drop_eq_Nil empty_iff empty_set not_le)
  ultimately show ?thesis by simp
qed

lemma claim_rows_first:
  assumes "db_ok db" "d \<in> set (db_deliveries db)"
    and "\<And>e. join_event db d = Some e \<Longrightarrow> p e d"
    and "dr_event_row_id d \<notin> (\<lambda>c. er_row_id (du_event c)) ` set (claim_rows p limit db)"
  shows "length (claim_rows p limit db) = limit
    \<and> (\<forall>c \<in> set (claim_rows p limit db). er_row_id (du_event c) < dr_event_row_id d)"
proof -
  have "\<exists>r \<in> set (db_events db). er_row_id r = dr_event_row_id d \<and> er_tenant_id r = dr_tenant_id d"
    using assms(1,2) by (simp add: db_ok_def list_all_iff)
  then obtain e where e: "join_event db d = Some e"
    by (cases "join_event db d") (auto simp: join_event_def find_None_set)
  let ?f = "\<lambda>d. case join_event db d of None \<Rightarrow> None
          | Some e \<Rightarrow> if p e d then Some (durable_join e (Some d)) else None"
  let ?L = "List.map_filter ?f (sort_key dr_event_row_id (db_deliveries db))"
  let ?x = "durable_join e (Some d)"
  have "?f d = Some ?x" using assms(3) e by simp
  then have mem: "?x \<in> set ?L" using assms(2) by (auto simp: set_map_filter)
  have "distinct (map dr_event_row_id (db_deliveries db))"
    using assms(1) by (simp add: db_ok_def)
  then have "sorted_wrt (<) (map (\<lambda>c. er_row_id (du_event c)) (claim_rows p (length ?L) db))"
    by (rule claim_rows_sorted)
  then have srt: "sorted_wrt (<) (map (\<lambda>c. er_row_id (du_event c)) ?L)" by (simp add: claim_rows_def)
  have id: "er_row_id (du_event ?x) = dr_event_row_id d"
    using join_event_Some [OF e] by (simp add: durable_join_def)
  show ?thesis
    using sorted_take_first [OF srt mem, of limit] assms(4) unfolding claim_rows_def id by blast
qed

section \<open>Effect of a batch\<close>

lemma claim_update_row_sel [simp]:
  "dr_event_row_id (claim_update_row x w p d) = dr_event_row_id d"
  "dr_tenant_id (claim_update_row x w p d) = dr_tenant_id d"
  "dr_claim_expires_at (claim_update_row x w p d) = x"
  by (simp_all add: claim_update_row_def)

text \<open>One UPDATE of the loop: it finds its row, rewrites it and leaves the others.\<close>

lemma claim_update_effect:
  assumes "table_update_deliveries (claim_update_where p)
       (\<lambda>d. Some (claim_update_row x w p d)) work = Inr (rows, work1)"
    and "rows \<noteq> []" and "db_ok work"
  shows "db_ok work1" and "db_events work1 = db_events work"
    and "\<exists>d. find_delivery work (pc_event_row_id p) = Some d \<and> claim_update_where p d
      \<and> find_delivery work1 (pc_event_row_id p) = Some (claim_update_row x w p d)
      \<and> rows = [claim_update_row x w p d]"
    and "\<And>r. r \<noteq> pc_event_row_id p \<Longrightarrow> find_delivery work1 r = find_delivery work r"
proof -
  note one = table_update_one [where n = "pc_event_row_id p", OF assms(3,1) _ _ assms(2)]
  show "db_ok work1" by (rule one(1)) (auto simp: claim_update_where_def)
  show "db_events work1 = db_events work" by (rule one(2)) (auto simp: claim_update_where_def)
  have "\<exists>d d'. find_delivery work (pc_event_row_id p) = Some d \<and> claim_update_where p d
      \<and> Some (claim_update_row x w p d) = Some d' \<and> delivery_check d'
      \<and> find_delivery work1 (pc_event_row_id p) = Some d' \<and> rows = [d']"
    by (rule one(4)) (auto simp: claim_update_where_def)
  then show "\<exists>d. find_delivery work (pc_event_row_id p) = Some d \<and> claim_update_where p d
      \<and> find_delivery work1 (pc_event_row_id p) = Some (claim_update_row x w p d)
      \<and> rows = [claim_update_row x w p d]" by auto
  show "find_delivery work1 r = find_delivery work r" if "r \<noteq> pc_event_row_id p" for r
    by (rule one(5) [OF _ _ that]) (auto simp: claim_update_where_def)
qed

definition claims_effect ::
  "'t option \<Rightarrow> WorkerId \<Rightarrow> prepared_claim list \<Rightarrow> 't db \<Rightarrow> 't db \<Rightarrow> bool" where
  "claims_effect x w ps work work' \<longleftrightarrow>
     (\<forall>rid. find_delivery work' rid = (case find (\<lambda>p. pc_event_row_id p = rid) ps of
        None \<Rightarrow> find_delivery work rid
      | Some p \<Rightarrow> map_option (claim_update_row x w p) (find_delivery work rid)))
     \<and> (\<forall>p \<in> set ps. \<exists>d. find_delivery work (pc_event_row_id p) = Some d \<and> claim_update_where p d)"

lemma claims_effect_Cons:
  assumes rest: "claims_effect x w ps work1 work'" and new: "pc_event_row_id p \<notin> pc_event_row_id ` set ps"
    and here: "find_delivery work (pc_event_row_id p) = Some d" "claim_update_where p d"
      "find_delivery work1 (pc_event_row_id p) = Some (claim_update_row x w p d)"
    and other: "\<And>r. r \<noteq> pc_event_row_id p \<Longrightarrow> find_delivery work1 r = find_delivery work r"
  shows "claims_effect x w (p # ps) work work'"
proof -
  have none: "find (\<lambda>q. pc_event_row_id q = pc_event_row_id p) ps = None"
    unfolding find_None_set using new by (metis imageI)
  have "find_delivery work' rid = (case find (\<lambda>p. pc_event_row_id p = rid) (p # ps) of
      None \<Rightarrow> find_delivery work rid
    | Some p \<Rightarrow> map_option (claim_update_row x w p) (find_delivery work rid))" for rid
    using rest none here other [of rid] by (auto simp: claims_effect_def split: option.split)
  moreover have "\<exists>d. find_delivery work (pc_event_row_id q) = Some d \<and> claim_update_where q d"
    if "q \<in> set (p # ps)" for q
  proof (cases "q = p")
    case False
    then have "q \<in> set ps" using that by simp
    moreover from this have "pc_event_row_id q \<noteq> pc_event_row_id p" using new by (metis imageI)
    ultimately show ?thesis using rest other [of "pc_event_row_id q"] unfolding claims_effect_def by metis
  qed (use here in simp)
  ultimately show ?thesis unfolding claims_effect_def by blast
qed

section \<open>Batches\<close>

text \<open>
  \<open>claim_of\<close> relates a returned claim to the row it was taken from: the row was eligible at the
  database clock and in scope, the token is new for the row, the counter is one higher.
\<close>

definition claim_of ::
  "'t::linorder \<Rightarrow> TenantId option \<Rightarrow> WorkerId \<Rightarrow> 't delivery_row \<Rightarrow> ClaimedEvent \<Rightarrow> bool" where
  "claim_of now tenant_id worker d c \<longleftrightarrow>
     ce_row_id c = RowId (dr_event_row_id d) \<and> ce_tenant_id c = TenantId (dr_tenant_id d)
     \<and> claim_eligible now d \<and> claim_scope tenant_id (dr_tenant_id d)
     \<and> ce_attempts c = AttemptCount (dr_attempts d + 1) \<and> i64_range (dr_attempts d + 1)
     \<and> dr_claim_token d \<noteq> Some (claim_token_bytes (ce_claim_token c))
     \<and> ce_claimed_by c = worker"

definition claimed_row :: "'t option \<Rightarrow> ClaimedEvent \<Rightarrow> 't delivery_row \<Rightarrow> 't delivery_row" where
  "claimed_row expiry c d =
     d\<lparr>dr_state := ''claimed'', dr_attempts := attempt_count_get (ce_attempts c),
       dr_claim_token := Some (claim_token_bytes (ce_claim_token c)),
       dr_claimed_by := Some (worker_id_str (ce_claimed_by c)), dr_claim_expires_at := expiry\<rparr>"

text \<open>
  \<open>claim_taken\<close>: the batch is in row order, under fresh tokens, of rows of \<open>db\<close>. \<open>claim_selected\<close>:
  it is what one selection at \<open>now\<close> may return, the first rows that are eligible and not skipped.
  \<open>claim_applied\<close>: the claimed rows, and only they, are changed.
\<close>

definition claim_taken ::
  "'t::linorder \<Rightarrow> TenantId option \<Rightarrow> WorkerId \<Rightarrow> 't db \<Rightarrow> ClaimedEvent list \<Rightarrow> bool" where
  "claim_taken now tenant worker db claimed \<longleftrightarrow>
     sorted_wrt (<) (map (\<lambda>c. row_id_get (ce_row_id c)) claimed)
     \<and> distinct (map ce_claim_token claimed)
     \<and> (\<forall>c \<in> set claimed. \<exists>d. find_delivery db (row_id_get (ce_row_id c)) = Some d
          \<and> claim_of now tenant worker d c)"

definition claim_selected ::
  "'t::linorder \<Rightarrow> TenantId option \<Rightarrow> WorkerId \<Rightarrow> nat \<Rightarrow> (int \<Rightarrow> bool) \<Rightarrow> 't db
     \<Rightarrow> ClaimedEvent list \<Rightarrow> bool" where
  "claim_selected now tenant worker limit skipped db claimed \<longleftrightarrow>
     length claimed \<le> limit \<and> claim_taken now tenant worker db claimed
     \<and> (\<forall>d \<in> set (db_deliveries db). claim_eligible now d \<and> claim_scope tenant (dr_tenant_id d)
          \<and> \<not> skipped (dr_event_row_id d) \<and> RowId (dr_event_row_id d) \<notin> ce_row_id ` set claimed \<longrightarrow>
            length claimed = limit
            \<and> (\<forall>c \<in> set claimed. row_id_get (ce_row_id c) < dr_event_row_id d))"

lemma claim_selected_taken:
  "claim_selected now tenant worker limit skipped db claimed \<Longrightarrow> claim_taken now tenant worker db claimed"
  by (simp add: claim_selected_def)

definition claim_applied :: "'t option \<Rightarrow> ClaimedEvent list \<Rightarrow> 't db \<Rightarrow> 't db \<Rightarrow> bool" where
  "claim_applied expiry claimed db db' \<longleftrightarrow>
     (\<forall>c \<in> set claimed. find_delivery db' (row_id_get (ce_row_id c))
        = map_option (claimed_row expiry c) (find_delivery db (row_id_get (ce_row_id c))))
     \<and> (\<forall>rid. RowId rid \<notin> ce_row_id ` set claimed \<longrightarrow> find_delivery db' rid = find_delivery db rid)"

definition claimed_from :: "WorkerId \<Rightarrow> prepared_claim \<Rightarrow> ClaimedEvent \<Rightarrow> bool" where
  "claimed_from worker p c \<longleftrightarrow>
     ce_row_id c = pc_row_id p \<and> ce_tenant_id c = pc_tenant_id p \<and> ce_event c = pc_event p
     \<and> ce_attempts c = pc_attempts p \<and> ce_claim_token c = ClaimToken (pc_token p)
     \<and> ce_claimed_by c = worker"

definition prepared_row :: "'t event_row \<Rightarrow> 't delivery_row \<Rightarrow> prepared_claim \<Rightarrow> bool" where
  "prepared_row e d p \<longleftrightarrow>
     pc_row_id p = RowId (er_row_id e) \<and> pc_event_row_id p = er_row_id e
     \<and> pc_tenant_id p = TenantId (er_tenant_id e) \<and> pc_attempts p = AttemptCount (dr_attempts d + 1)
     \<and> i64_range (dr_attempts d + 1) \<and> dr_claim_token d \<noteq> Some (pc_token p)"

lemma claimed_from_row:
  assumes "prepared_row e d p" "er_tenant_id e = dr_tenant_id d" "er_row_id e = dr_event_row_id d"
    and "claim_eligible now d" "claim_scope tenant (dr_tenant_id d)" "claimed_from w p c"
  shows "ce_row_id c = RowId (pc_event_row_id p) \<and> claim_of now tenant w d c
    \<and> claim_update_row x w p d = claimed_row x c d"
  using assms
  by (simp add: prepared_row_def claimed_from_def claim_of_def claimed_row_def claim_update_row_def)

text \<open>
  Candidates a batch may take: joined rows of \<open>db\<close> in row order, eligible at \<open>now\<close> and in scope.
\<close>

definition candidate_row :: "('t::linorder) db \<Rightarrow> 't \<Rightarrow> TenantId option \<Rightarrow> 't event_row \<Rightarrow> 't delivery_row \<Rightarrow> bool" where
  "candidate_row db now tenant e d \<longleftrightarrow> er_tenant_id e = dr_tenant_id d \<and> er_row_id e = dr_event_row_id d
     \<and> find_delivery db (dr_event_row_id d) = Some d
     \<and> claim_eligible now d \<and> claim_scope tenant (dr_tenant_id d)"

definition candidates_of :: "('t::linorder) db \<Rightarrow> 't \<Rightarrow> TenantId option \<Rightarrow> 't durable_row list \<Rightarrow> bool" where
  "candidates_of db now tenant cs \<longleftrightarrow>
     sorted_wrt (<) (map (\<lambda>c. er_row_id (du_event c)) cs)
     \<and> (\<forall>c \<in> set cs. \<exists>e d. c = durable_join e (Some d) \<and> candidate_row db now tenant e d)"

lemma claim_candidates_of:
  assumes "db_ok db"
  shows "candidates_of db now tenant (claim_candidates now tenant skipped limit db)"
proof -
  have "\<exists>e d. c = durable_join e (Some d) \<and> candidate_row db now tenant e d"
    if mem: "c \<in> set (claim_candidates now tenant skipped limit db)" for c
  proof -
    obtain e d where c: "c = durable_join e (Some d)" "d \<in> set (db_deliveries db)" "join_event db d = Some e"
      "claim_eligible now d" "claim_scope tenant (dr_tenant_id d)"
      using claim_rows_member [OF mem [unfolded claim_candidates_def]] by blast
    then have "candidate_row db now tenant e d"
      using find_delivery_ok [OF assms] join_event_Some [OF c(3)] by (simp add: candidate_row_def)
    then show ?thesis using c(1) by blast
  qed
  moreover have "sorted_wrt (<) (map (\<lambda>c. er_row_id (du_event c)) (claim_candidates now tenant skipped limit db))"
    unfolding claim_candidates_def by (rule claim_rows_sorted) (use assms in \<open>simp add: db_ok_def\<close>)
  ultimately show ?thesis unfolding candidates_of_def by blast
qed

text \<open>
  The interface of an adapter's preparation: what its two steps compute of a candidate. The laws
  of a batch follow once and for all.
\<close>

locale claim_preparation =
  fixes counter :: "('t::linorder) durable_row \<Rightarrow> 'e + (RowId \<times> AttemptCount)"
    and entropy_error :: "nat \<Rightarrow> 'e"
    and hydrate :: "'t durable_row \<Rightarrow> RowId \<Rightarrow> AttemptCount \<Rightarrow> bytes \<Rightarrow> 'e + prepared_claim"
  assumes counter_row: "counter (durable_join e (Some d)) = Inr (r, n) \<Longrightarrow>
      r = RowId (er_row_id e) \<and> n = AttemptCount (dr_attempts d + 1) \<and> i64_range (dr_attempts d + 1)"
    and hydrate_row: "hydrate c r n k = Inr p \<Longrightarrow>
      pc_row_id p = r \<and> pc_attempts p = n \<and> pc_token p = k
      \<and> pc_event_row_id p = er_row_id (du_event c) \<and> pc_tenant_id p = TenantId (er_tenant_id (du_event c))"
begin

lemma prepare_Inr:
  assumes "prepare_claims_with counter entropy_error hydrate used ent cs = Some (Inr ps, rest)"
  shows "list_all2 (\<lambda>c p. counter c = Inr (pc_row_id p, pc_attempts p)
        \<and> du_claim_token c \<noteq> Some (pc_token p)
        \<and> hydrate c (pc_row_id p) (pc_attempts p) (pc_token p) = Inr p) cs ps
    \<and> distinct (map pc_token ps) \<and> set (map pc_token ps) \<inter> set used = {}
    \<and> (\<forall>p \<in> set ps. Inr (pc_token p) \<in> set ent)"
  using assms
proof (induction cs arbitrary: used ent ps)
  case (Cons c cs)
  from Cons.prems obtain r n k ent1 p qs where
    cnt: "counter c = Inr (r, n)"
    and tok: "fresh_token (du_claim_token c) used ent = Some (Inr k, ent1)"
    and hyd: "hydrate c r n k = Inr p"
    and tail: "prepare_claims_with counter entropy_error hydrate (used @ [k]) ent1 cs = Some (Inr qs, rest)"
    and ps: "ps = p # qs"
    by (auto split: sum.splits option.splits prod.splits)
  have sub: "set ent1 \<subseteq> set ent"
    using tok by (induction "du_claim_token c" used ent rule: fresh_token.induct) (auto split: if_splits)
  show ?case
    using Cons.IH [OF tail] fresh_token_Inr [OF tok] cnt hyd hydrate_row [OF hyd] sub by (auto simp: ps)
qed simp

lemma prepare_rows:
  assumes cs: "candidates_of db now tenant cs"
    and prep: "prepare_claims_with counter entropy_error hydrate [] ent cs = Some (Inr ps, rest)"
  shows "map pc_event_row_id ps = map (\<lambda>c. er_row_id (du_event c)) cs"
    and "sorted_wrt (<) (map pc_event_row_id ps)" and "length ps = length cs"
    and "\<And>p. p \<in> set ps \<Longrightarrow> \<exists>e d. prepared_row e d p \<and> candidate_row db now tenant e d"
proof -
  let ?R = "\<lambda>c p. counter c = Inr (pc_row_id p, pc_attempts p) \<and> du_claim_token c \<noteq> Some (pc_token p)
        \<and> hydrate c (pc_row_id p) (pc_attempts p) (pc_token p) = Inr p"
  have all2: "list_all2 ?R cs ps" using prepare_Inr [OF prep] by simp
  have row: "\<exists>e d. prepared_row e d p \<and> candidate_row db now tenant e d"
    if mem: "c \<in> set cs" and R: "?R c p" for c p
  proof -
    obtain e d where c: "c = durable_join e (Some d)" "candidate_row db now tenant e d"
      using cs mem unfolding candidates_of_def by blast
    have "prepared_row e d p"
      using R counter_row [of e d "pc_row_id p" "pc_attempts p"]
        hydrate_row [of c "pc_row_id p" "pc_attempts p" "pc_token p" p]
      by (simp add: prepared_row_def c(1) durable_join_def)
    then show ?thesis using c(2) by blast
  qed
  show "map pc_event_row_id ps = map (\<lambda>c. er_row_id (du_event c)) cs"
  proof -
    have "list_all2 (\<lambda>c p. pc_event_row_id p = er_row_id (du_event c)) cs ps"
      using all2 by (rule list_all2_mono) (use hydrate_row in blast)
    then show ?thesis by (induction rule: list_all2_induct) simp_all
  qed
  then show "sorted_wrt (<) (map pc_event_row_id ps)" using cs by (simp add: candidates_of_def)
  show "length ps = length cs" using list_all2_lengthD [OF all2] by simp
  show "\<And>p. p \<in> set ps \<Longrightarrow> \<exists>e d. prepared_row e d p \<and> candidate_row db now tenant e d"
    using list_all2_right [OF all2] row by metis
qed

text \<open>Each prepared row is one that its UPDATE will find.\<close>

lemma prepare_found:
  assumes cs: "candidates_of db now tenant cs"
    and prep: "prepare_claims_with counter entropy_error hydrate [] ent cs = Some (Inr ps, rest)"
    and p: "p \<in> set ps"
  shows "\<exists>d. find_delivery db (pc_event_row_id p) = Some d \<and> claim_update_where p d"
proof -
  obtain e d where "prepared_row e d p" "candidate_row db now tenant e d"
    using prepare_rows(4) [OF cs prep p] by blast
  then show ?thesis
    by (auto simp: prepared_row_def candidate_row_def claim_update_where_def claim_eligible_def)
qed

text \<open>
  The batch: the candidates were selected in \<open>db\<close>, the updates took \<open>base\<close> to \<open>db'\<close>, and the
  claimed rows are the same in both.
\<close>

lemma batch_ids:
  assumes cs: "candidates_of db now tenant cs"
    and prep: "prepare_claims_with counter entropy_error hydrate [] ent cs = Some (Inr ps, rest)"
    and all2: "list_all2 (claimed_from w) ps claimed"
  shows "map ce_row_id claimed = map RowId (map pc_event_row_id ps)"
    and "map ce_claim_token claimed = map ClaimToken (map pc_token ps)"
    and "p \<in> set ps \<Longrightarrow> claimed_from w p c \<Longrightarrow> ce_row_id c = RowId (pc_event_row_id p)
      \<and> (\<exists>d. find_delivery db (pc_event_row_id p) = Some d
         \<and> claim_of now tenant w d c \<and> claim_update_row x w p d = claimed_row x c d)"
proof -
  note rows = prepare_rows [OF cs prep]
  show row: "ce_row_id c = RowId (pc_event_row_id p)
      \<and> (\<exists>d. find_delivery db (pc_event_row_id p) = Some d
         \<and> claim_of now tenant w d c \<and> claim_update_row x w p d = claimed_row x c d)"
    if p: "p \<in> set ps" and by_worker: "claimed_from w p c" for p c x
  proof -
    obtain e d where pr: "prepared_row e d p" and c: "candidate_row db now tenant e d"
      using rows(4) [OF p] by blast
    have "find_delivery db (pc_event_row_id p) = Some d"
      using pr c by (simp add: prepared_row_def candidate_row_def)
    then show ?thesis
      using claimed_from_row [OF pr _ _ _ _ by_worker] c unfolding candidate_row_def by blast
  qed
  have "list_all2 (\<lambda>p c. ce_row_id c = RowId (pc_event_row_id p)
      \<and> ce_claim_token c = ClaimToken (pc_token p)) ps claimed"
    using list_all2_left_mem [OF all2]
    by (rule list_all2_mono) (use row in \<open>auto simp: claimed_from_def\<close>)
  then show "map ce_row_id claimed = map RowId (map pc_event_row_id ps)"
    and "map ce_claim_token claimed = map ClaimToken (map pc_token ps)"
    by (induction rule: list_all2_induct) simp_all
qed

lemma batch_taken:
  assumes cs: "candidates_of db now tenant cs"
    and prep: "prepare_claims_with counter entropy_error hydrate [] ent cs = Some (Inr ps, rest)"
    and all2: "list_all2 (claimed_from w) ps claimed"
  shows "claim_taken now tenant w db claimed"
    and "map (\<lambda>c. row_id_get (ce_row_id c)) claimed = map (\<lambda>c. er_row_id (du_event c)) cs"
proof -
  note rows = prepare_rows [OF cs prep]
  note ids = batch_ids [OF assms]
  have ids': "map (\<lambda>c. row_id_get (ce_row_id c)) claimed = map pc_event_row_id ps"
    using arg_cong [OF ids(1), of "map row_id_get"] by (simp add: comp_def)
  then show "map (\<lambda>c. row_id_get (ce_row_id c)) claimed = map (\<lambda>c. er_row_id (du_event c)) cs"
    using rows(1) by simp
  have each: "\<exists>d. find_delivery db (row_id_get (ce_row_id c)) = Some d \<and> claim_of now tenant w d c"
    if c: "c \<in> set claimed" for c
  proof -
    obtain p where "p \<in> set ps" "claimed_from w p c"
      using list_all2_right [OF all2 c] .
    then show ?thesis using ids(3) by fastforce
  qed
  have "distinct (map ClaimToken (map pc_token ps))"
    using prepare_Inr [OF prep] by (subst distinct_map) (auto simp: inj_on_def)
  then show "claim_taken now tenant w db claimed"
    unfolding claim_taken_def ids ids' using rows(2) each by blast
qed

lemma batch_selected:
  assumes "db_ok db" and prep: "prepare_claims_with counter entropy_error hydrate [] ent
      (claim_candidates now tenant skipped limit db) = Some (Inr ps, rest)"
    and all2: "list_all2 (claimed_from w) ps claimed"
  shows "claim_selected now tenant w limit skipped db claimed"
proof -
  let ?C = "claim_candidates now tenant skipped limit db"
  note taken = batch_taken [OF claim_candidates_of [OF assms(1)] prep all2]
  have sets: "(\<lambda>c. row_id_get (ce_row_id c)) ` set claimed = (\<lambda>c. er_row_id (du_event c)) ` set ?C"
    using arg_cong [OF taken(2), of set] by simp
  have len: "length claimed = length ?C" using map_eq_imp_length_eq [OF taken(2)] .
  have "length claimed = limit \<and> (\<forall>c \<in> set claimed. row_id_get (ce_row_id c) < dr_event_row_id d)"
    if d: "d \<in> set (db_deliveries db)" "claim_eligible now d" "claim_scope tenant (dr_tenant_id d)"
      "\<not> skipped (dr_event_row_id d)" "RowId (dr_event_row_id d) \<notin> ce_row_id ` set claimed" for d
  proof -
    have "dr_event_row_id d \<notin> (\<lambda>c. row_id_get (ce_row_id c)) ` set claimed"
      using d(5) by (metis (no_types, lifting) RowId.collapse imageE imageI)
    then have "dr_event_row_id d \<notin> (\<lambda>c. er_row_id (du_event c)) ` set ?C" using sets by simp
    from claim_rows_first [OF assms(1) d(1) _ this [unfolded claim_candidates_def]] d(2-4)
    have "length ?C = limit \<and> (\<forall>c \<in> set ?C. er_row_id (du_event c) < dr_event_row_id d)"
      by (simp add: claim_candidates_def)
    then show ?thesis using sets len by (metis (no_types, lifting) imageE imageI)
  qed
  moreover have "length claimed \<le> limit" using len claim_rows_length by (simp add: claim_candidates_def)
  ultimately show ?thesis unfolding claim_selected_def using taken(1) by blast
qed

lemma batch_applied:
  assumes cs: "candidates_of db now tenant cs"
    and prep: "prepare_claims_with counter entropy_error hydrate [] ent cs = Some (Inr ps, rest)"
    and all2: "list_all2 (claimed_from w) ps claimed"
    and eff: "claims_effect x w ps base db'"
    and same: "\<And>p. p \<in> set ps \<Longrightarrow>
      find_delivery base (pc_event_row_id p) = find_delivery db (pc_event_row_id p)"
  shows "claim_applied x claimed base db'"
proof -
  note ids = batch_ids [OF cs prep all2]
  have dist: "distinct (map pc_event_row_id ps)"
    using prepare_rows(2) [OF cs prep] by (simp add: strict_sorted_iff)
  have "find_delivery db' (row_id_get (ce_row_id c))
      = map_option (claimed_row x c) (find_delivery base (row_id_get (ce_row_id c)))"
    if c: "c \<in> set claimed" for c
  proof -
    obtain p where p: "p \<in> set ps" "claimed_from w p c"
      using list_all2_right [OF all2 c] .
    obtain d where d: "find_delivery db (pc_event_row_id p) = Some d"
      "claim_update_row x w p d = claimed_row x c d" and id: "ce_row_id c = RowId (pc_event_row_id p)"
      using ids(3) [OF p, of x] by blast
    have "find_delivery db' (pc_event_row_id p) = Some (claim_update_row x w p d)"
      using eff find_key_unique [OF dist p(1)] d(1) same [OF p(1)] by (simp add: claims_effect_def)
    then show ?thesis using d id same [OF p(1)] by simp
  qed
  moreover have "ce_row_id ` set claimed = RowId ` (pc_event_row_id ` set ps)"
    using arg_cong [OF ids(1), of set] by (simp add: image_image)
  then have "find_delivery db' rid = find_delivery base rid"
    if "RowId rid \<notin> ce_row_id ` set claimed" for rid
    using that eff by (auto simp: claims_effect_def find_None_set split: option.splits dest: find_Some_in)
  ultimately show ?thesis unfolding claim_applied_def by blast
qed

text \<open>
  Drawing tokens is the only loop without a counter. It returns when the entropy source keeps
  giving values it has not given before: a candidate rejects at most one of them, its own
  previous token. An error of the source also ends the loop.
\<close>

lemma prepare_returns:
  assumes "distinct ent" "2 * length cs \<le> length ent" "\<And>t. Inr t \<in> set ent \<Longrightarrow> t \<notin> set used"
  shows "\<exists>r rest pre. prepare_claims_with counter entropy_error hydrate used ent cs = Some (r, rest)
    \<and> ent = pre @ rest \<and> length pre \<le> 2 * length cs"
  using assms
proof (induction cs arbitrary: used ent)
  case (Cons c cs)
  let ?prep = "prepare_claims_with counter entropy_error hydrate"
  obtain v rest pre where v: "fresh_token (du_claim_token c) used ent = Some (v, rest)"
    "ent = pre @ rest" "length pre \<le> 2" "\<forall>t. v = Inr t \<longrightarrow> Inr t \<notin> set rest"
    using fresh_token_two [of ent used "du_claim_token c"] Cons.prems by auto
  show ?case
  proof (cases "counter c")
    case (Inr ra)
    obtain row_id attempts where ra: "ra = (row_id, attempts)" by (cases ra)
    show ?thesis
    proof (cases v)
      case tok: (Inr t)
      have "\<exists>r rest' pre'. ?prep (used @ [t]) rest cs = Some (r, rest')
          \<and> rest = pre' @ rest' \<and> length pre' \<le> 2 * length cs"
        using Cons.prems v tok by (intro Cons.IH) auto
      then obtain r rest' pre' where rec: "?prep (used @ [t]) rest cs = Some (r, rest')"
        "rest = pre' @ rest'" "length pre' \<le> 2 * length cs" by blast
      have "\<exists>q. ent = q @ rest \<and> length q \<le> 2 * length (c # cs)"
        using v by (intro exI [of _ pre]) auto
      moreover have "\<exists>q. ent = q @ rest' \<and> length q \<le> 2 * length (c # cs)"
        using v rec by (intro exI [of _ "pre @ pre'"]) auto
      ultimately show ?thesis
        using v(1) rec(1) Inr ra tok by (cases "hydrate c row_id attempts t"; cases r) auto
    qed (use v Inr ra in auto)
  qed simp
qed simp

end

section \<open>A claimed row takes a step of the lifecycle\<close>

lemma claim_refines:
  assumes "delivery_check d" "claim_of now tenant worker d c" "delivery_check (claimed_row x c d)"
  shows "spec_step now (ActClaim (claim_token_bytes (ce_claim_token c)))
    (abs_delivery d) (abs_delivery (claimed_row x c d))"
proof -
  let ?d = "abs_delivery d" and ?k = "claim_token_bytes (ce_claim_token c)"
  have eq: "abs_delivery (claimed_row x c d) = ?d\<lparr>sp_phase := PhClaimed ?k (worker_id_str (ce_claimed_by c)) (the x),
      sp_attempts := sp_attempts ?d + 1\<rparr>"
    using assms(2)
    by (simp add: abs_delivery_def abs_phase_def claimed_row_def claim_of_def split: option.split)
  have "claimable now ?d" "claim_holder (sp_phase ?d) \<noteq> Some ?k"
    using assms(1,2)
    by (auto simp: claim_of_def claim_eligible_def abs_delivery_def abs_phase_def delivery_check_def
        delivery_shape_def split: option.splits)
  then show ?thesis unfolding eq by (rule spec_step.claim)
qed

end
