(* ===== verification/Core_Samples.thy ===== *)
theory Core_Samples
  imports Adapter_Claim
begin

text \<open>
  Concrete core values at which the properties of the other theories are instantiated:
  third-party functions that behave as documented on the texts that occur, a small event, a
  tenant, a claim.
\<close>

section \<open>Third-party functions\<close>

definition sample_instant :: offset_date_time where
  "sample_instant = \<lparr>unix_nanos = 1767225605000000000, utc_offset = 0\<rparr>"

definition sample_extensions :: Extensions where
  "sample_extensions = [(ExtensionName ''comexampleflag'', EBoolean True)]"

definition sample_extensions_json :: json where
  "sample_extensions_json = JObject [(''comexampleflag'',
     JObject [(''type'', JString ''boolean''), (''value'', JBool True)])]"

definition sample_print :: "json \<Rightarrow> string" where
  "sample_print j = (if j = JObject [] then ''{}'' else if j = sample_extensions_json then ''{ext}'' else ''{event}'')"

definition sample_lib :: ext_lib where
  "sample_lib = \<lparr>uri_ref_parses = (\<lambda>_. True), uri_parses = (\<lambda>_. True),
     mime_parse = (\<lambda>s. if s = ''application/json'' then Some \<lparr>mime_subtype = ''json'', mime_suffix = None\<rparr> else None),
     json_parse = (\<lambda>s. if s = ''{}'' then Some (JObject []) else if s = ''{ext}'' then Some sample_extensions_json else None),
     json_print = sample_print, json_to_vec = (\<lambda>j. Some (sample_print j)),
     base64_encode = (\<lambda>s. s), base64_decode = (\<lambda>s. Some s),
     rfc3339_format = (\<lambda>t. ''2026-01-01T00:00:05Z''), rfc3339_parse = (\<lambda>s. Some sample_instant),
     json_error = (\<lambda>_. []), base64_error = (\<lambda>_. []), rfc3339_error = (\<lambda>_. []), debug_str = (\<lambda>s. s)\<rparr>"

lemma sample_lib_sel [simp]:
  "uri_ref_parses sample_lib s" "uri_parses sample_lib s"
  "mime_parse sample_lib s = (if s = ''application/json''
     then Some \<lparr>mime_subtype = ''json'', mime_suffix = None\<rparr> else None)"
  "json_parse sample_lib s = (if s = ''{}'' then Some (JObject [])
     else if s = ''{ext}'' then Some sample_extensions_json else None)"
  "json_print sample_lib = sample_print" "json_to_vec sample_lib j = Some (sample_print j)"
  "base64_encode sample_lib s = s" "base64_decode sample_lib s = Some s"
  "rfc3339_format sample_lib t = ''2026-01-01T00:00:05Z''" "rfc3339_parse sample_lib s = Some sample_instant"
  by (simp_all add: sample_lib_def)

section \<open>An event\<close>

definition sample_content :: EventContent where
  "sample_content = \<lparr>ec_stream = StreamName ''orders'', ec_id = EventId ''e1'', ec_source = EventSource ''src'',
     ec_event_type = EventType ''created'', ec_subject = None, ec_time = Some sample_instant,
     ec_datacontenttype = None, ec_dataschema = None, ec_partitionkey = None,
     ec_extensions = [], ec_data = None\<rparr>"

definition sample_event :: NewEvent where
  "sample_event = \<lparr>new_content = sample_content, new_size_limit = event_size_limit_default\<rparr>"

definition sample_tenant :: TenantId where "sample_tenant = TenantId ''acme''"

section \<open>A claim\<close>

definition sample_token :: bytes where "sample_token = replicate 16 (CHR ''k'')"

definition sample_claim :: ClaimedEvent where
  "sample_claim = \<lparr>ce_tenant_id = sample_tenant, ce_row_id = RowId 1, ce_event = StoredEvent sample_content,
     ce_attempts = AttemptCount 1, ce_claim_token = ClaimToken sample_token,
     ce_claimed_by = WorkerId ''w1'', ce_claim_expires_at = sample_instant\<rparr>"

definition sample_prepared :: prepared_claim where
  "sample_prepared = \<lparr>pc_row_id = RowId 1, pc_event_row_id = 1, pc_tenant_id = sample_tenant,
     pc_event = StoredEvent sample_content, pc_attempts = AttemptCount 1, pc_token = sample_token\<rparr>"

section \<open>Evaluation\<close>

lemma text_ok_printable:
  assumes "s \<noteq> []" "length s \<le> m" "list_all (\<lambda>c. 32 \<le> byte c \<and> byte c < 127) s"
  shows "text_ok m s"
proof -
  have "ascii s" using assms(3) by (auto simp: ascii_def list_all_iff)
  then show ?thesis
    using assms by (fastforce simp: text_ok_def chars_ascii list_all_iff forbidden_char_def is_control_def)
qed

lemma sample_content_wf: "event_content_wf sample_lib sample_content"
  by (simp add: event_content_wf_def sample_content_def sample_instant_def
      stream_ok_def extensions_wf_def limit_defs text_ok_printable std_defs)

lemma sample_structured_bytes: "structured_json_bytes sample_lib sample_content = Inr ''{event}''"
proof -
  have "extensions_wf sample_lib (ec_extensions sample_content)"
    using sample_content_wf by (simp add: event_content_wf_def)
  then show ?thesis
    by (simp add: structured_json_bytes_def structured_json_object_eq context_members_def
        sample_print_def sample_extensions_json_def)
qed

lemma sample_content_valid: "validate_content sample_lib sample_content event_size_limit_default = Inr ()"
proof -
  have "binary_message_bytes (binary_projection sample_lib (StoredEvent sample_content)) \<le> 1000"
    by (simp add: binary_message_bytes_def binary_projection_def binary_attributes_def header_cost_def
        sample_content_def map_filter_simps format_timestamp_def SPEC_VERSION_def)
  moreover have "data_type_ok sample_lib sample_content" "ec_time sample_content = Some sample_instant"
    "validate_trace_context (ec_extensions sample_content) = Inr ()"
    "length (source_str (ec_source sample_content)) + length (event_id_str (ec_id sample_content)) \<le> 2048"
    "instant_ok sample_instant"
    by (simp_all add: data_type_ok_def sample_content_def validate_trace_context_def extensions_get_def
        validate_trace_extension_def sample_instant_def
        instant_ok_def instant_maximum_def)
  ultimately show ?thesis
    unfolding validate_content_Inr_iff portable_size_Inr_iff sample_structured_bytes
    by (simp add: usize_max_def CONTENT_TYPE_BYTES_def STRUCTURED_CONTENT_TYPE_def
        event_size_limit_default_def limit_defs)
qed

lemma sample_tenant_new [simp]: "tenant_id_new ''acme'' = Inr sample_tenant"
  by (simp add: tenant_id_new_Inr_iff sample_tenant_def tenant_ok_def text_ok_printable std_defs limit_defs
      chars_ascii ascii_def is_whitespace_def)

lemma sample_canonical_instant [simp]: "canonicalize_instant field sample_instant = Inr sample_instant"
  by (simp add: canonicalize_instant_Inr_iff sample_instant_def instant_ok_def instant_maximum_def
      to_offset_utc_def)

lemma sample_tenant_ok: "tenant_ok sample_tenant"
  using sample_tenant_new unfolding tenant_id_new_Inr_iff by simp

lemma sample_tenant_str [simp]: "tenant_id_str sample_tenant = ''acme''"
  by (simp add: sample_tenant_def)

lemma sample_extension_codecs: "extension_codecs sample_lib (ec_extensions sample_content)"
  by (simp add: extension_codecs_def sample_content_def sample_print_def canonical_json_def extensions_object_def)

lemma sample_event_content [simp]: "new_content sample_event = sample_content"
  by (simp add: sample_event_def)

end
