(* ===== verification/Core_Properties.thy ===== *)
theory Core_Properties
  imports Core_Samples
begin

text \<open>
  The properties of the core crate beyond the trace-context grammars: extensions and their
  durable text, the structured projection, canonical JSON data, and what an accepted event
  guarantees to its consumers. Each is followed by an instance on the sample values.
\<close>

section \<open>Extensions\<close>

text \<open>C37. The strict decoder of the durable extension text accepts exactly the text that
  \<open>canonical_json\<close> prints for a valid extension set, and returns that set: nothing is lost on the
  way through the database and no second spelling is accepted. The hypotheses are what serde_json,
  base64 and time document on this set: parsing what they printed.\<close>

theorem from_canonical_json_exact:
  assumes "json_parse lib (canonical_json lib e) = Some (extensions_object lib e)"
    and "list_all (\<lambda>(n, v). codec_round_trips lib v) e"
  shows "from_canonical_json lib s = Inr e \<longleftrightarrow> s = canonical_json lib e \<and> extensions_ok lib e"
  using from_canonical_json_complete [OF _ assms] from_canonical_json_sound by metis

lemma sample_extensions_parse:
  "json_parse sample_lib (canonical_json sample_lib sample_extensions)
     = Some (extensions_object sample_lib sample_extensions)"
  "canonical_json sample_lib sample_extensions = ''{ext}''"
  by (code_simp)+

lemma sample_extensions_ok: "extensions_ok sample_lib sample_extensions"
  by code_simp

theorem from_canonical_json_exact_witness:
  "from_canonical_json sample_lib ''{ext}'' = Inr sample_extensions"
proof -
  have "list_all (\<lambda>(n, v). codec_round_trips sample_lib v) sample_extensions"
    by code_simp
  then show ?thesis
    using from_canonical_json_exact [OF sample_extensions_parse(1), of "''{ext}''"]
      sample_extensions_parse(2) sample_extensions_ok by simp
qed

text \<open>\<open>Extensions::insert\<close> adds exactly the new entry: a name is inserted once, every other
  entry is as before, and a well-formed set stays well-formed. An insertion fails exactly on a
  name that is present.\<close>

theorem extensions_insert_exact:
  assumes "extensions_wf lib e" "extension_name_ok n" "extension_value_ok lib v"
  shows "case extensions_insert n v e of
      Inl err \<Rightarrow> extensions_get e n \<noteq> None
    | Inr e' \<Rightarrow> extensions_get e n = None \<and> extensions_wf lib e'
        \<and> extensions_get e' = (extensions_get e)(n \<mapsto> v)"
proof (cases "extensions_insert n v e")
  case (Inl err)
  then show ?thesis by (auto simp: extensions_insert_def extensions_get_def map_of_eq_None_iff image_iff split: if_splits)
next
  case (Inr e')
  then show ?thesis
    using extensions_insert_get [OF Inr] extensions_insert_wf [OF assms Inr] by simp
qed

theorem extensions_insert_exact_witness:
  "\<exists>e'. extensions_insert (ExtensionName ''comexampleflag'') (EBoolean True) [] = Inr e'
     \<and> extensions_get e' (ExtensionName ''comexampleflag'') = Some (EBoolean True)"
proof -
  have ok: "extensions_wf sample_lib []" "extension_name_ok (ExtensionName ''comexampleflag'')"
    "extension_value_ok sample_lib (EBoolean True)"
    by code_simp+
  obtain e' where "extensions_insert (ExtensionName ''comexampleflag'') (EBoolean True) [] = Inr e'"
    by (simp add: extensions_insert_def extensions_get_def)
  then show ?thesis using extensions_insert_exact [OF ok] by auto
qed

section \<open>Projections\<close>

text \<open>The structured projection of an event has its members in a fixed order: the required
  context attributes, the optional ones that are present, the extensions by name, and the data
  under \<open>data\<close> or \<open>data_base64\<close>. No member name occurs twice, so no extension hides an
  attribute.\<close>

theorem structured_members_exact:
  assumes "extensions_wf lib (ec_extensions c)"
  shows "structured_json_object lib c =
      context_members lib c @ extension_members lib c @ data_members lib c
    \<and> distinct (map fst (structured_json_object lib c))"
  using structured_json_object_eq [OF assms] structured_members_distinct [OF assms] by simp

theorem structured_members_exact_witness:
  "map fst (structured_json_object sample_lib sample_content) =
     [''specversion'', ''id'', ''source'', ''type'', ''time'']
   \<and> distinct (map fst (structured_json_object sample_lib sample_content))"
proof -
  have "extensions_wf sample_lib (ec_extensions sample_content)"
    using sample_content_wf by (simp add: event_content_wf_def)
  from structured_members_exact [OF this] show ?thesis
    by (simp add: context_members_def extension_members_def data_members_def sample_content_def optional_member_def)
qed

text \<open>Canonical JSON data does not depend on the order in which an object was written, and
  canonicalizing twice changes nothing.\<close>

theorem canonicalize_json_normal_form:
  assumes "distinct (map fst xs)" and "mset xs = mset ys"
  shows "canonicalize_json (JObject xs) = canonicalize_json (JObject ys)
    \<and> canonicalize_json (canonicalize_json (JObject xs)) = canonicalize_json (JObject xs)"
  using canonicalize_json_order [OF assms]
    canonicalize_json_id [OF canonicalize_json_canonical [of "JObject xs"]] by (rule conjI)

theorem canonicalize_json_normal_form_witness:
  "canonicalize_json (JObject [(''b'', JNull), (''a'', JBool True)])
     = canonicalize_json (JObject [(''a'', JBool True), (''b'', JNull)])"
  using canonicalize_json_normal_form
    [of "[(''b'', JNull), (''a'', JBool True)]" "[(''a'', JBool True), (''b'', JNull)]"]
  by simp

section \<open>Accepted events\<close>

text \<open>C38. An event the builder accepts converts to a stored event with the same content, and both
  its projections fit the size limit it was built with: the structured JSON bytes with their
  content-type line, and the binary message with its headers. The saturating arithmetic of the
  size computation hides nothing below its ceiling.\<close>

theorem accepted_event_fits:
  assumes "build_with_limit lib b limit = Inr e"
    and "event_size_limit_get limit < usize_max"
  shows "into_stored lib e = Inr (StoredEvent (builder_content b))
    \<and> (\<exists>bytes. structured_json_bytes lib (builder_content b) = Inr bytes
         \<and> length bytes + CONTENT_TYPE_BYTES \<le> event_size_limit_get limit)
    \<and> binary_message_bytes (binary_projection lib (StoredEvent (builder_content b)))
        \<le> event_size_limit_get limit"
  using build_into_stored [OF assms(1)] assms
  by (auto simp: result_simps validate_content_Inr_iff portable_size_Inr_iff min_def split: if_splits)

theorem accepted_event_fits_witness:
  "into_stored sample_lib sample_event = Inr (StoredEvent sample_content)
   \<and> binary_message_bytes (binary_projection sample_lib (StoredEvent sample_content)) \<le> 1048576"
proof -
  have "build_with_limit sample_lib (NewEventBuilder sample_content) event_size_limit_default = Inr sample_event"
    using sample_content_valid by (simp add: result_simps sample_event_def)
  from accepted_event_fits [OF this] show ?thesis
    by (simp add: event_size_limit_default_def usize_max_def limit_defs)
qed

end
