(* ===== verification/Sqlite_Base.thy ===== *)
theory Sqlite_Base
  imports Adapter_Tables
begin

text \<open>
  \<open>crates/dovecote-sqlx-sqlite/src/error.rs\<close> and \<open>lib.rs\<close>: the adapter's error types, the busy
  policy, connection setup and the bounded retry of \<open>BEGIN IMMEDIATE\<close>.

  SQLx and SQLite are outside the repository. What they may answer is the record \<open>sqlite_env\<close>,
  one value per attempt of an operation: the outcome of acquiring a connection, of the pragmas
  and of BEGIN and COMMIT, a fault for any statement (by the label the source gives it and a
  row), the database clock as text, and \<open>strftime\<close> adding milliseconds to a time text (\<open>None\<close> is
  NULL). \<open>env_peer\<close> is what other connections commit before the attempt gets the writer lock.
  For an operation inside a transaction of the caller, \<open>env_txn_write\<close> is what the C interface
  says of the transaction and \<open>env_table_present\<close> what the catalog says. AUTOINCREMENT promises
  an identifier above all earlier ones; \<open>env_row_id_gap\<close> is how many it skips.
\<close>

type_synonym sqlite_db = "string db"

record sqlite_env =
  env_acquire :: "sqlx_error option"
  env_fk_execute :: "sqlx_error option"
  env_fk_value :: "sqlx_error + int"
  env_timeout_execute :: "sqlx_error option"
  env_timeout_value :: "int \<Rightarrow> sqlx_error + int"
  env_begin :: "sqlx_error option"
  env_fault :: "string \<Rightarrow> int \<Rightarrow> sqlx_error option"
  env_now :: string
  env_strftime_add :: "string \<Rightarrow> int \<Rightarrow> string option"
  env_commit :: "sqlx_error option"
  env_peer :: "sqlite_db \<Rightarrow> sqlite_db"
  env_txn_write :: "sqlx_error + bool"
  env_table_present :: "string \<Rightarrow> sqlx_error + bool"
  env_row_id_gap :: nat

section \<open>Error classification\<close>

text \<open>\<open>str::parse::<i32>\<close>: an optional sign and at least one decimal digit, in range.\<close>

definition digit_value :: "char \<Rightarrow> int" where
  "digit_value c = of_char c - 48"

definition parse_i32 :: "string \<Rightarrow> int option" where
  "parse_i32 s =
     (let (neg, ds) = (case s of [] \<Rightarrow> (False, [])
            | c # cs \<Rightarrow> if c = CHR ''-'' then (True, cs)
                        else if c = CHR ''+'' then (False, cs) else (False, c # cs)) in
      if ds = [] \<or> \<not> list_all is_ascii_digit ds then None
      else let v = foldl (\<lambda>acc c. acc * 10 + digit_value c) 0 ds;
               v = (if neg then - v else v) in
           if - 2147483648 \<le> v \<and> v \<le> 2147483647 then Some v else None)"

definition is_busy :: "sqlx_error \<Rightarrow> bool" where
  "is_busy source =
     (case source of
        SqlxDatabase (Some code) \<Rightarrow>
          (case parse_i32 code of
             None \<Rightarrow> False
           | Some code \<Rightarrow> code = 5 \<or> code = 6 \<or> code mod 256 = 5 \<or> code mod 256 = 6)
      | _ \<Rightarrow> False)"

text \<open>
  One datatype per error enum. The constructor that ends in \<open>Panic\<close> is not a variant: it stands
  for a panic of the operation, which drops and so rolls back the transaction it owns.
\<close>

datatype SqliteEnqueueError =
    SEnqWriteTransactionRequired
  | SEnqConfiguration string
  | SEnqIdempotencyConflict RowId
  | SEnqMigrationMismatch string
  | SEnqSerialization string
  | SEnqBusyExhausted string sqlx_error
  | SEnqSql string sqlx_error
  | SEnqPanic

datatype SqliteImportError =
    SImpWriteTransactionRequired
  | SImpIdentityConflict RowId
  | SImpImportConflict RowId
  | SImpConfiguration string
  | SImpInvalidState ValidationError
  | SImpMigrationMismatch string
  | SImpSerialization string
  | SImpBusyExhausted string sqlx_error
  | SImpSql string sqlx_error
  | SImpPanic

datatype SqliteFinalizeError =
    SFinWriteTransactionRequired
  | SFinNotFound
  | SFinStateConflict RowId
  | SFinInvalidTimestamp ValidationError
  | SFinMigrationMismatch string
  | SFinSerialization string
  | SFinBusyExhausted string sqlx_error
  | SFinSql string sqlx_error

text \<open>The source of \<open>EntropyUnavailable\<close> is the code of the entropy crate.\<close>

datatype SqliteClaimError =
    SClmCounterOverflow RowId
  | SClmEntropyUnavailable nat
  | SClmSerialization string
  | SClmMigrationMismatch string
  | SClmConfiguration string
  | SClmBusyExhausted string sqlx_error
  | SClmSql string sqlx_error
  | SClmPanic

datatype SqliteMutationError =
    SMutNotFound
  | SMutIllegalTransition DeliveryState
  | SMutLostClaim
  | SMutMigrationMismatch string
  | SMutConfiguration string
  | SMutSerialization string
  | SMutBusyExhausted string sqlx_error
  | SMutSql string sqlx_error
  | SMutPanic

datatype SqlitePageError =
    SPagClosed
  | SPagSerialization string
  | SPagBusyExhausted string sqlx_error
  | SPagSql string sqlx_error
  | SPagPanic

datatype SqliteSchemaError =
    SSchMigrationMismatch string
  | SSchBusyExhausted string sqlx_error
  | SSchSql string sqlx_error

definition enqueue_error_sql :: "string \<Rightarrow> sqlx_error \<Rightarrow> SqliteEnqueueError" where
  "enqueue_error_sql operation source =
     (if is_busy source then SEnqBusyExhausted operation source else SEnqSql operation source)"

definition import_error_sql :: "string \<Rightarrow> sqlx_error \<Rightarrow> SqliteImportError" where
  "import_error_sql operation source =
     (if is_busy source then SImpBusyExhausted operation source else SImpSql operation source)"

definition finalize_error_sql :: "string \<Rightarrow> sqlx_error \<Rightarrow> SqliteFinalizeError" where
  "finalize_error_sql operation source =
     (if is_busy source then SFinBusyExhausted operation source else SFinSql operation source)"

definition page_error_sql :: "string \<Rightarrow> sqlx_error \<Rightarrow> SqlitePageError" where
  "page_error_sql operation source =
     (if is_busy source then SPagBusyExhausted operation source else SPagSql operation source)"

definition schema_error_sql :: "string \<Rightarrow> sqlx_error \<Rightarrow> SqliteSchemaError" where
  "schema_error_sql operation source =
     (if is_busy source then SSchBusyExhausted operation source else SSchSql operation source)"

definition claim_error_sql :: "string \<Rightarrow> sqlx_error \<Rightarrow> SqliteClaimError" where
  "claim_error_sql operation source = SClmSql operation source"

definition mutation_error_sql :: "string \<Rightarrow> sqlx_error \<Rightarrow> SqliteMutationError" where
  "mutation_error_sql operation source = SMutSql operation source"

fun claim_busy_source :: "SqliteClaimError \<Rightarrow> sqlx_error option" where
  "claim_busy_source (SClmSql _ source) = (if is_busy source then Some source else None)"
| "claim_busy_source (SClmBusyExhausted _ source) = (if is_busy source then Some source else None)"
| "claim_busy_source _ = None"

fun claim_into_busy_exhausted :: "SqliteClaimError \<Rightarrow> SqliteClaimError" where
  "claim_into_busy_exhausted (SClmSql operation source) = SClmBusyExhausted operation source"
| "claim_into_busy_exhausted other = other"

fun mutation_is_busy :: "SqliteMutationError \<Rightarrow> bool" where
  "mutation_is_busy (SMutSql _ source) = is_busy source"
| "mutation_is_busy _ = False"

fun mutation_into_busy_exhausted :: "SqliteMutationError \<Rightarrow> SqliteMutationError" where
  "mutation_into_busy_exhausted (SMutSql operation source) = SMutBusyExhausted operation source"
| "mutation_into_busy_exhausted other = other"

section \<open>Busy policy\<close>

record BusyConfig =
  busy_timeout :: duration
  busy_retries :: nat

definition DEFAULT_BUSY_RETRIES :: nat where "DEFAULT_BUSY_RETRIES = 3"

definition DEFAULT_BUSY_TIMEOUT :: duration where
  "DEFAULT_BUSY_TIMEOUT = \<lparr>secs = 5, subsec_nanos = 0\<rparr>"

definition busy_config_new :: "duration \<Rightarrow> nat \<Rightarrow> BusyConfig" where
  "busy_config_new timeout retries = \<lparr>busy_timeout = timeout, busy_retries = retries\<rparr>"

definition busy_config_with_retries :: "nat \<Rightarrow> BusyConfig" where
  "busy_config_with_retries retries = busy_config_new DEFAULT_BUSY_TIMEOUT retries"

definition busy_config_default :: BusyConfig where
  "busy_config_default = busy_config_new DEFAULT_BUSY_TIMEOUT DEFAULT_BUSY_RETRIES"

definition checked_milliseconds :: "duration \<Rightarrow> string + int" where
  "checked_milliseconds value =
     (if \<not> duration_is_zero value \<and> subsec_nanos value mod 1000000 \<noteq> 0
        then Inl ''duration must be an exact whole number of milliseconds''
      else if int (as_millis value) \<le> i64_max then Inr (int (as_millis value))
      else Inl ''duration exceeds SQLite integer range'')"

definition checked_busy_timeout :: "duration \<Rightarrow> string + int" where
  "checked_busy_timeout value =
     and_then (checked_milliseconds value) (\<lambda>milliseconds.
       if 2147483647 < milliseconds
         then Inl ''busy timeout exceeds SQLite's signed 32-bit millisecond range''
       else Inr milliseconds)"

definition validate_busy_config :: "BusyConfig \<Rightarrow> string + unit" where
  "validate_busy_config busy = and_then (checked_busy_timeout (busy_timeout busy)) (\<lambda>_. Inr ())"

section \<open>Connections and transactions\<close>

definition install_foreign_keys :: "sqlite_env \<Rightarrow> sqlx_error + unit" where
  "install_foreign_keys env =
     and_then (run_or (env_fk_execute env) ()) (\<lambda>_.
     and_then (env_fk_value env) (\<lambda>enabled.
       if enabled \<noteq> 1
         then Inl (SqlxProtocol ''SQLite foreign-key enforcement could not be enabled'')
       else Inr ()))"

definition install_busy_timeout :: "sqlite_env \<Rightarrow> BusyConfig \<Rightarrow> sqlx_error + unit" where
  "install_busy_timeout env busy =
     and_then (map_err (\<lambda>detail. SqlxProtocol (''invalid busy configuration: '' @ detail))
       (checked_busy_timeout (busy_timeout busy))) (\<lambda>milliseconds.
     and_then (run_or (env_timeout_execute env) ()) (\<lambda>_.
     and_then (env_timeout_value env milliseconds) (\<lambda>installed.
       if installed \<noteq> milliseconds
         then Inl (SqlxProtocol (''SQLite busy timeout installation mismatch: requested ''
                @ int_to_string milliseconds @ '', installed '' @ int_to_string installed))
       else Inr ())))"

text \<open>\<open>Inr\<close> means that the writer lock is held and a transaction is open on the connection.\<close>

definition begin_immediate :: "sqlite_env \<Rightarrow> BusyConfig \<Rightarrow> sqlx_error + unit" where
  "begin_immediate env busy =
     and_then (run_or (env_acquire env) ()) (\<lambda>_.
     and_then (install_foreign_keys env) (\<lambda>_.
     and_then (install_busy_timeout env busy) (\<lambda>_.
       run_or (env_begin env) ())))"

definition begin_read :: "sqlite_env \<Rightarrow> sqlx_error + unit" where
  "begin_read env =
     and_then (run_or (env_acquire env) ()) (\<lambda>_.
     and_then (install_foreign_keys env) (\<lambda>_.
       run_or (env_begin env) ()))"

text \<open>
  Commit of the working state \<open>work\<close> of a transaction that started from \<open>db\<close>: on failure the
  transaction is rolled back.
\<close>

definition commit_transaction ::
  "sqlite_env \<Rightarrow> sqlite_db \<Rightarrow> sqlite_db \<Rightarrow> (sqlx_error + unit) \<times> sqlite_db" where
  "commit_transaction env db work =
     (case env_commit env of None \<Rightarrow> (Inr (), work) | Some e \<Rightarrow> (Inl e, db))"

text \<open>The retry loop of \<open>begin_write_with_config\<close>; \<open>envs n\<close> is what attempt \<open>n\<close> meets.\<close>

function begin_write_loop ::
  "(nat \<Rightarrow> sqlite_env) \<Rightarrow> BusyConfig \<Rightarrow> nat \<Rightarrow> SqliteEnqueueError + nat" where
  "begin_write_loop envs busy tries =
     (case begin_immediate (envs tries) busy of
        Inr _ \<Rightarrow> Inr tries
      | Inl source \<Rightarrow>
          if is_busy source \<and> tries < busy_retries busy
            then begin_write_loop envs busy (Suc tries)
          else Inl (enqueue_error_sql ''begin write transaction'' source))"
  by pat_completeness auto

termination
  by (relation "measure (\<lambda>(envs, busy, tries). busy_retries busy - tries)") auto

declare begin_write_loop.simps [simp del]

definition begin_write_with_config ::
  "(nat \<Rightarrow> sqlite_env) \<Rightarrow> BusyConfig \<Rightarrow> SqliteEnqueueError + nat" where
  "begin_write_with_config envs busy =
     and_then (map_err SEnqConfiguration (validate_busy_config busy)) (\<lambda>_.
       begin_write_loop envs busy 0)"

section \<open>Statements\<close>

text \<open>
  The result codes are SQLITE_FULL (13), SQLITE_CONSTRAINT_NOTNULL (1299),
  SQLITE_CONSTRAINT_CHECK (275), SQLITE_CONSTRAINT_PRIMARYKEY (1555) and
  SQLITE_CONSTRAINT_FOREIGNKEY (787). A statement that fails leaves the tables as they were. The
  event insert ends in ON CONFLICT(tenant_id, source, event_id) DO NOTHING RETURNING.
\<close>

fun sqlite_violation :: "violation \<Rightarrow> sqlx_error" where
  "sqlite_violation NotNullViolation = SqlxDatabase (Some ''1299'')"
| "sqlite_violation CheckViolation = SqlxDatabase (Some ''275'')"
| "sqlite_violation UniqueViolation = SqlxDatabase (Some ''1555'')"
| "sqlite_violation ForeignKeyViolation = SqlxDatabase (Some ''787'')"

definition sql_insert_event ::
  "sqlite_env \<Rightarrow> string \<Rightarrow> (int \<Rightarrow> string event_row) \<Rightarrow> sqlite_db
     \<Rightarrow> sqlx_error + (string event_row option \<times> sqlite_db)" where
  "sql_insert_event env label mk db =
     (let rid = db_last_row_id db + 1 + int (env_row_id_gap env); row = mk rid in
      case env_fault env label 0 of
        Some e \<Rightarrow> Inl e
      | None \<Rightarrow>
          if i64_max < rid then Inl (SqlxDatabase (Some ''13''))
          else if \<not> event_check row then Inl (SqlxDatabase (Some ''275''))
          else if event_identity row \<in> event_identity ` set (db_events db) then Inr (None, db)
          else Inr (Some row, db\<lparr>db_events := db_events db @ [row], db_last_row_id := rid\<rparr>))"

definition sql_insert_delivery ::
  "sqlite_env \<Rightarrow> string \<Rightarrow> string delivery_row \<Rightarrow> sqlite_db \<Rightarrow> sqlx_error + sqlite_db" where
  "sql_insert_delivery env label row db =
     (case env_fault env label (dr_event_row_id row) of
        Some e \<Rightarrow> Inl e
      | None \<Rightarrow> map_err sqlite_violation (table_insert_delivery row db))"

definition sql_update_deliveries ::
  "sqlite_env \<Rightarrow> string \<Rightarrow> int \<Rightarrow> (string delivery_row \<Rightarrow> bool)
     \<Rightarrow> (string delivery_row \<Rightarrow> string delivery_row option) \<Rightarrow> sqlite_db
     \<Rightarrow> sqlx_error + (string delivery_row list \<times> sqlite_db)" where
  "sql_update_deliveries env label rid p f db =
     (case env_fault env label rid of
        Some e \<Rightarrow> Inl e
      | None \<Rightarrow> map_err sqlite_violation (table_update_deliveries p f db))"

section \<open>Facts\<close>

lemma sql_insert_event_ok:
  assumes "db_ok db" and "sql_insert_event env label mk db = Inr (res, db')"
    and "\<And>rid. er_row_id (mk rid) = rid"
  shows "db_ok db'"
proof -
  let ?rid = "db_last_row_id db + 1 + int (env_row_id_gap env)"
  have fresh: "?rid \<notin> er_row_id ` set (db_events db)"
    using assms(1) by (fastforce simp: db_ok_def list_all_iff)
  have below: "\<forall>r \<in> set (db_events db). er_row_id r \<le> ?rid"
    using assms(1) by (fastforce simp: db_ok_def list_all_iff)
  show ?thesis
    using assms(1,2) fresh below assms(3) [of ?rid]
    by (auto simp: sql_insert_event_def Let_def db_ok_def list_all_iff
        split: option.splits if_splits)
qed

lemma sql_insert_event_Some:
  assumes "sql_insert_event env label mk db = Inr (Some row, db')"
  shows "row = mk (db_last_row_id db + 1 + int (env_row_id_gap env))"
    and "db' = db\<lparr>db_events := db_events db @ [row],
           db_last_row_id := db_last_row_id db + 1 + int (env_row_id_gap env)\<rparr>"
    and "event_check row" and "event_identity row \<notin> event_identity ` set (db_events db)"
  using assms by (auto simp: sql_insert_event_def Let_def split: option.splits if_splits)

lemma sql_insert_event_None:
  assumes "sql_insert_event env label mk db = Inr (None, db')"
  shows "db' = db"
    and "event_identity (mk (db_last_row_id db + 1 + int (env_row_id_gap env)))
      \<in> event_identity ` set (db_events db)"
  using assms by (auto simp: sql_insert_event_def Let_def split: option.splits if_splits)

lemma sql_insert_delivery_Inr:
  "sql_insert_delivery env label row db = Inr db' \<longleftrightarrow>
     env_fault env label (dr_event_row_id row) = None \<and> table_insert_delivery row db = Inr db'"
  by (auto simp: sql_insert_delivery_def split: option.splits)

lemma sql_update_deliveries_Inr:
  "sql_update_deliveries env label rid p f db = Inr r \<longleftrightarrow>
     env_fault env label rid = None \<and> table_update_deliveries p f db = Inr r"
  by (auto simp: sql_update_deliveries_def split: option.splits)

lemmas sql_insert_delivery_row = table_insert_delivery_Inr [OF conjunct2 [OF iffD1 [OF sql_insert_delivery_Inr]]]
lemmas sql_insert_delivery_ok = table_insert_delivery_ok [OF _ conjunct2 [OF iffD1 [OF sql_insert_delivery_Inr]]]
lemmas sql_update_deliveries_ok = table_update_deliveries_ok [OF _ conjunct2 [OF iffD1 [OF sql_update_deliveries_Inr]]]
lemmas sql_update_defined = table_update_defined [OF conjunct2 [OF iffD1 [OF sql_update_deliveries_Inr]]]
lemmas sql_update_deliveries_find = table_update_deliveries_find [OF conjunct2 [OF iffD1 [OF sql_update_deliveries_Inr]]]
lemmas sql_update_one = table_update_one [OF _ conjunct2 [OF iffD1 [OF sql_update_deliveries_Inr]]]

lemma checked_milliseconds_Inr_iff [result_simps]:
  "checked_milliseconds d = Inr ms \<longleftrightarrow>
     as_nanos d mod 1000000 = 0 \<and> ms = int (as_millis d) \<and> ms \<le> i64_max"
  by (auto simp: checked_milliseconds_def subsec_millis_iff duration_is_zero_iff)

lemma as_millis_nanos: "as_millis d = as_nanos d div 1000000"
  by (simp add: as_millis_def as_nanos_def)

lemma lease_ok_milliseconds:
  assumes "lease_ok l"
  shows "checked_milliseconds (lease_get l) = Inr (int (as_millis (lease_get l)))"
    and "as_millis (lease_get l) \<le> 86400000"
proof -
  show bound: "as_millis (lease_get l) \<le> 86400000"
    using assms div_le_mono [of "as_nanos (lease_get l)" "86400 * 1000000000" 1000000]
    by (simp add: lease_ok_def as_millis_nanos)
  show "checked_milliseconds (lease_get l) = Inr (int (as_millis (lease_get l)))"
    using assms bound by (simp add: checked_milliseconds_Inr_iff lease_ok_def i64_max_def)
qed

lemma delay_ok_milliseconds:
  assumes "delay_ok d"
  shows "checked_milliseconds (delay_get d) = Inr (int (as_millis (delay_get d)))"
    and "as_millis (delay_get d) \<le> 2592000000"
proof -
  show bound: "as_millis (delay_get d) \<le> 2592000000"
    using assms div_le_mono [of "as_nanos (delay_get d)" "2592000 * 1000000000" 1000000]
    by (simp add: delay_ok_def as_millis_nanos)
  show "checked_milliseconds (delay_get d) = Inr (int (as_millis (delay_get d)))"
    using assms bound by (simp add: checked_milliseconds_Inr_iff delay_ok_def i64_max_def)
qed

text \<open>The loop stops after at most \<open>retries\<close> further attempts, at the first that is not busy.\<close>

lemma begin_write_loop_Inr:
  assumes "begin_write_loop envs busy tries = Inr n" and "tries \<le> busy_retries busy"
  shows "tries \<le> n \<and> n \<le> busy_retries busy \<and> begin_immediate (envs n) busy = Inr ()
    \<and> (\<forall>m. tries \<le> m \<and> m < n \<longrightarrow>
         (\<exists>e. begin_immediate (envs m) busy = Inl e \<and> is_busy e))"
  using assms
proof (induction envs busy tries rule: begin_write_loop.induct)
  case (1 envs busy tries)
  show ?case
  proof (cases "begin_immediate (envs tries) busy")
    case (Inr u)
    then show ?thesis using "1.prems" by (auto simp: begin_write_loop.simps [of envs busy tries])
  next
    case (Inl e)
    then have retry: "is_busy e" "tries < busy_retries busy"
      and next_try: "begin_write_loop envs busy (Suc tries) = Inr n"
      using "1.prems" by (auto simp: begin_write_loop.simps [of envs busy tries] split: if_splits)
    have IH: "Suc tries \<le> n \<and> n \<le> busy_retries busy \<and> begin_immediate (envs n) busy = Inr ()
        \<and> (\<forall>m. Suc tries \<le> m \<and> m < n \<longrightarrow>
             (\<exists>e. begin_immediate (envs m) busy = Inl e \<and> is_busy e))"
      using "1.IH" [OF Inl _ next_try] retry by simp
    then show ?thesis using Inl retry(1) by (metis Suc_leI le_neq_implies_less less_or_eq_imp_le Suc_leD)
  qed
qed

lemma begin_write_loop_progress:
  assumes "tries \<le> m" "m \<le> busy_retries busy" "begin_immediate (envs m) busy = Inr ()"
    and "\<forall>i. tries \<le> i \<and> i < m \<longrightarrow> (\<exists>e. begin_immediate (envs i) busy = Inl e \<and> is_busy e)"
  shows "begin_write_loop envs busy tries = Inr m"
  using assms
proof (induction "m - tries" arbitrary: tries)
  case 0
  then show ?case by (simp add: begin_write_loop.simps)
next
  case (Suc k)
  then have lt: "tries < m" by simp
  then obtain e where e: "begin_immediate (envs tries) busy = Inl e" "is_busy e"
    using Suc.prems(4) by blast
  have "begin_write_loop envs busy (Suc tries) = Inr m"
    using Suc.hyps(1) [of "Suc tries"] Suc.hyps(2) Suc.prems lt by simp
  then show ?case using e lt Suc.prems(2) by (simp add: begin_write_loop.simps [of envs busy tries])
qed

end
