(* ===== verification/Sqlite_Hydrate.thy ===== *)
theory Sqlite_Hydrate
  imports Sqlite_Base Adapter_Events
begin

text \<open>
  \<open>crates/dovecote-sqlx-sqlite/src/hydrate.rs\<close> and the timestamp helpers of \<open>enqueue.rs\<close>: durable
  rows back into validated core values. Every column goes through its constructor again, so a
  row that was tampered with is refused instead of being repaired.
\<close>

section \<open>Timestamps as text\<close>

definition sqlite_format_timestamp :: "ext_lib \<Rightarrow> offset_date_time \<Rightarrow> string" where
  "sqlite_format_timestamp lib value = rfc3339_format lib (to_offset_utc value)"

definition sqlite_parse_timestamp :: "ext_lib \<Rightarrow> string \<Rightarrow> hydrate_error + offset_date_time" where
  "sqlite_parse_timestamp lib value =
     (case rfc3339_parse lib value of
        None \<Rightarrow> Inl (HErr (''invalid stored timestamp: '' @ rfc3339_error lib value))
      | Some t \<Rightarrow> if to_offset_utc_panics t then Inl HPanic else Inr (to_offset_utc t))"

definition hydrate_event :: "ext_lib \<Rightarrow> string event_row \<Rightarrow> hydrate_error + StoredEvent" where
  "hydrate_event lib row = hydrate_event_with (sqlite_parse_timestamp lib) lib row"

section \<open>Pages\<close>

definition hydrate_snapshot ::
  "ext_lib \<Rightarrow> string durable_row \<Rightarrow> string \<Rightarrow> offset_date_time \<Rightarrow> AttemptCount \<Rightarrow> Failure option
     \<Rightarrow> hydrate_error + DeliverySnapshot" where
  "hydrate_snapshot lib row state available_at attempts failure =
     (if state = ''pending'' then
        and_then (require_absent ''pending claim token'' (du_claim_token row)) (\<lambda>_.
        and_then (require_absent ''pending claimed worker'' (du_claimed_by row)) (\<lambda>_.
        and_then (require_absent ''pending claim expiry'' (du_claim_expires_at row)) (\<lambda>_.
        and_then (require_absent ''pending delivered time'' (du_delivered_at row)) (\<lambda>_.
        and_then (require_absent ''pending quarantine time'' (du_quarantined_at row)) (\<lambda>_.
        and_then (require_absent ''pending quarantine reason'' (du_quarantine_reason row)) (\<lambda>_.
          herr (snapshot_pending available_at attempts failure)))))))
      else if state = ''claimed'' then
        and_then (require_token_width (du_claim_token row)) (\<lambda>_.
        and_then (ok_or (HErr ''claimed delivery has no worker'') (du_claimed_by row)) (\<lambda>w.
        and_then (herr (worker_id_new w)) (\<lambda>worker.
        and_then (ok_or (HErr ''claimed delivery has no claim expiry'') (du_claim_expires_at row)) (\<lambda>x.
        and_then (sqlite_parse_timestamp lib x) (\<lambda>expires_at.
        and_then (require_absent ''claimed delivered time'' (du_delivered_at row)) (\<lambda>_.
        and_then (require_absent ''claimed quarantine time'' (du_quarantined_at row)) (\<lambda>_.
        and_then (require_absent ''claimed quarantine reason'' (du_quarantine_reason row)) (\<lambda>_.
          herr (snapshot_claimed available_at worker expires_at attempts failure)))))))))
      else if state = ''delivered'' then
        and_then (require_absent ''delivered claim token'' (du_claim_token row)) (\<lambda>_.
        and_then (require_absent ''delivered claimed worker'' (du_claimed_by row)) (\<lambda>_.
        and_then (require_absent ''delivered claim expiry'' (du_claim_expires_at row)) (\<lambda>_.
        and_then (ok_or (HErr ''delivered delivery has no delivered time'') (du_delivered_at row)) (\<lambda>t.
        and_then (sqlite_parse_timestamp lib t) (\<lambda>delivered_at.
        and_then (require_absent ''delivered quarantine time'' (du_quarantined_at row)) (\<lambda>_.
        and_then (require_absent ''delivered quarantine reason'' (du_quarantine_reason row)) (\<lambda>_.
          herr (snapshot_delivered available_at delivered_at attempts failure))))))))
      else if state = ''quarantined'' then
        and_then (require_absent ''quarantined claim token'' (du_claim_token row)) (\<lambda>_.
        and_then (require_absent ''quarantined claimed worker'' (du_claimed_by row)) (\<lambda>_.
        and_then (require_absent ''quarantined claim expiry'' (du_claim_expires_at row)) (\<lambda>_.
        and_then (require_absent ''quarantined delivered time'' (du_delivered_at row)) (\<lambda>_.
        and_then (ok_or (HErr ''quarantined delivery has no quarantine time'') (du_quarantined_at row)) (\<lambda>t.
        and_then (sqlite_parse_timestamp lib t) (\<lambda>quarantined_at.
        and_then (require_absent ''quarantined delivered time'' (du_delivered_at row)) (\<lambda>_.
        and_then (ok_or (HErr ''quarantined delivery has no quarantine reason'')
          (du_quarantine_reason row)) (\<lambda>r.
        and_then (herr (quarantine_reason_new r)) (\<lambda>reason.
          herr (snapshot_quarantined available_at quarantined_at attempts failure reason))))))))))
      else Inl (HErr (''unknown delivery state '' @ debug_str lib state)))"

definition hydrate_page :: "ext_lib \<Rightarrow> string durable_row \<Rightarrow> hydrate_error + PagedEvent" where
  "hydrate_page lib row =
     and_then (herr (tenant_id_new (er_tenant_id (du_event row)))) (\<lambda>tenant_id.
     and_then (herr (row_id_new (er_row_id (du_event row)))) (\<lambda>row_id.
     and_then (hydrate_event lib (du_event row)) (\<lambda>event.
     and_then (ok_or (HErr ''event has no required delivery row'') (du_state row)) (\<lambda>state.
     and_then (ok_or (HErr ''delivery row has no available_at'') (du_available_at row)) (\<lambda>available.
     and_then (ok_or (HErr ''delivery row has no attempts'') (du_attempts row)) (\<lambda>n.
     and_then (herr (attempt_count_new n)) (\<lambda>attempts.
     and_then (parse_failure (du_last_failure_code row) (du_last_failure_detail row)) (\<lambda>failure.
     and_then (sqlite_parse_timestamp lib available) (\<lambda>available_at.
     and_then (hydrate_snapshot lib row state available_at attempts failure) (\<lambda>delivery.
     and_then (sqlite_parse_timestamp lib (er_enqueued_at (du_event row))) (\<lambda>enqueued_at.
       herr (paged_event_new tenant_id row_id event enqueued_at delivery))))))))))))"

section \<open>Rows of validated events\<close>

text \<open>The event columns that \<open>enqueue_for_scope\<close> and \<open>import_for_scope\<close> bind for an event.\<close>

definition event_columns ::
  "ext_lib \<Rightarrow> string \<Rightarrow> EventContent \<Rightarrow> int \<Rightarrow> string \<Rightarrow> string event_row" where
  "event_columns lib tenant c rid enqueued_at =
     event_columns_with (sqlite_format_timestamp lib) lib tenant c rid enqueued_at"

text \<open>
  The third-party codecs read back what they wrote at the values the event holds: those of the
  extensions, and the parser of a formatted UTC instant.
\<close>

definition durable_codecs :: "ext_lib \<Rightarrow> EventContent \<Rightarrow> bool" where
  "durable_codecs lib c \<longleftrightarrow> extension_codecs lib (ec_extensions c)
     \<and> (\<forall>t. ec_time c = Some t \<longrightarrow> rfc3339_parse lib (sqlite_format_timestamp lib t) = Some t)"

lemma sqlite_timestamp_round_trip:
  assumes "event_content_wf lib c" "validate_content lib c limit = Inr ()" "durable_codecs lib c"
    and t: "ec_time c = Some t"
  shows "sqlite_parse_timestamp lib (sqlite_format_timestamp lib t) = Inr t"
proof -
  have "instant_ok t" using assms(2) t by (simp add: validate_content_Inr_iff)
  then have "\<not> to_offset_utc_panics t" by (rule instant_ok_no_panic)
  moreover have "to_offset_utc t = t" using assms(1) t by (simp add: event_content_wf_def to_offset_utc_def)
  ultimately show ?thesis using assms(3) t by (simp add: durable_codecs_def sqlite_parse_timestamp_def)
qed

lemma hydrate_event_columns:
  assumes "event_content_wf lib c" "validate_content lib c limit = Inr ()" "durable_codecs lib c"
  shows "hydrate_event lib (event_columns lib tenant c rid enqueued_at) = Inr (StoredEvent c)"
  unfolding hydrate_event_def event_columns_def
  by (rule hydrate_event_columns_with [OF assms(1,2)])
    (use assms(3) sqlite_timestamp_round_trip [OF assms] in \<open>simp_all add: durable_codecs_def\<close>)

end
