(* ===== verification/Adapter_Migration.thy ===== *)
theory Adapter_Migration
  imports Dovecote_Prelude
begin

text \<open>
  \<open>migration.rs\<close> of the adapters: crate versions, compatibility ranges and the migrations an
  adapter ships. The three crates carry the same module; the definitions follow that of
  \<open>crates/dovecote-sqlx-sqlite\<close>. The SQL texts are files of the crate that the compiler includes;
  here they are arguments.
\<close>

record CrateVersion =
  ver_major :: nat
  ver_minor :: nat
  ver_patch :: nat

definition crate_version_new :: "nat \<Rightarrow> nat \<Rightarrow> nat \<Rightarrow> CrateVersion" where
  "crate_version_new major minor patch =
     \<lparr>ver_major = major, ver_minor = minor, ver_patch = patch\<rparr>"

definition version_is_less_than :: "CrateVersion \<Rightarrow> CrateVersion \<Rightarrow> bool" where
  "version_is_less_than a b \<longleftrightarrow>
     ver_major a < ver_major b
     \<or> (ver_major a = ver_major b
        \<and> (ver_minor a < ver_minor b
           \<or> (ver_minor a = ver_minor b \<and> ver_patch a < ver_patch b)))"

datatype MigrationCompatibilityError = MigrationCompatibilityError

record MigrationCompatibility =
  compat_minimum :: CrateVersion
  compat_maximum :: "CrateVersion option"

definition compatibility_try_new ::
  "CrateVersion \<Rightarrow> CrateVersion option \<Rightarrow> MigrationCompatibilityError + MigrationCompatibility" where
  "compatibility_try_new minimum maximum =
     (if (case maximum of None \<Rightarrow> False | Some m \<Rightarrow> version_is_less_than m minimum)
        then Inl MigrationCompatibilityError
      else Inr \<lparr>compat_minimum = minimum, compat_maximum = maximum\<rparr>)"

definition compatibility_contains :: "MigrationCompatibility \<Rightarrow> CrateVersion \<Rightarrow> bool" where
  "compatibility_contains c version \<longleftrightarrow>
     \<not> version_is_less_than version (compat_minimum c)
     \<and> (case compat_maximum c of None \<Rightarrow> True | Some m \<Rightarrow> \<not> version_is_less_than m version)"

record Migration =
  mig_version :: nat
  mig_sql :: string
  mig_compatibility :: MigrationCompatibility
  mig_rolling_compatible :: bool

definition SCHEMA_VERSION :: nat where "SCHEMA_VERSION = 2"

definition MIGRATIONS :: "string \<Rightarrow> Migration list" where
  "MIGRATIONS baseline_sql =
     [\<lparr>mig_version = 2, mig_sql = baseline_sql,
       mig_compatibility =
         \<lparr>compat_minimum = crate_version_new 0 2 0, compat_maximum = None\<rparr>,
       mig_rolling_compatible = False\<rparr>]"

definition LEGACY_MIGRATION :: "string \<Rightarrow> Migration" where
  "LEGACY_MIGRATION sql =
     \<lparr>mig_version = 1, mig_sql = sql,
      mig_compatibility = \<lparr>compat_minimum = crate_version_new 0 1 0, compat_maximum = None\<rparr>,
      mig_rolling_compatible = False\<rparr>"

text \<open>The version components Cargo passes to the compiler are arguments.\<close>

definition current_crate_version :: "nat \<Rightarrow> nat \<Rightarrow> nat \<Rightarrow> CrateVersion" where
  "current_crate_version major minor patch = crate_version_new major minor patch"

definition current_migration :: "Migration list \<Rightarrow> string + Migration" where
  "current_migration migrations =
     ok_or (''adapter does not ship schema version '' @ nat_to_string SCHEMA_VERSION)
       (find (\<lambda>m. mig_version m = SCHEMA_VERSION) migrations)"

definition migration_is_usable :: "CrateVersion \<Rightarrow> Migration \<Rightarrow> string + unit" where
  "migration_is_usable version migration =
     (if \<not> compatibility_contains (mig_compatibility migration) version
        then Inl ''current crate is outside migration compatibility range''
      else Inr ())"

section \<open>Order of versions\<close>

lemma version_less_irrefl [simp]: "\<not> version_is_less_than a a"
  by (simp add: version_is_less_than_def)

lemma version_less_trans:
  "version_is_less_than a b \<Longrightarrow> version_is_less_than b c \<Longrightarrow> version_is_less_than a c"
  by (auto simp: version_is_less_than_def)

lemma version_less_linear:
  "version_is_less_than a b \<or> a = b \<or> version_is_less_than b a"
  by (cases a; cases b) (auto simp: version_is_less_than_def)

lemma current_migration_shipped:
  "current_migration (MIGRATIONS sql) = Inr (hd (MIGRATIONS sql))"
  by (simp add: current_migration_def MIGRATIONS_def SCHEMA_VERSION_def)

lemma compatibility_try_new_contains_minimum:
  assumes "compatibility_try_new lo hi = Inr c"
  shows "compatibility_contains c lo" and "hi = Some m \<Longrightarrow> compatibility_contains c m"
  using assms
  by (auto simp: compatibility_try_new_def compatibility_contains_def split: if_splits option.splits)

end
