(* ===== verification/Sqlite_Enqueue.thy ===== *)
theory Sqlite_Enqueue
  imports Sqlite_Hydrate Adapter_Migration
begin

text \<open>
  \<open>crates/dovecote-sqlx-sqlite/src/enqueue.rs\<close>: the insert of an event and its delivery in a
  transaction of the caller, with idempotency by (tenant, source, event id). The result pairs
  the outcome with the working state of that transaction; on an error the caller rolls back.
\<close>

record sqlite_build =
  build_migrations :: "Migration list"
  build_version :: CrateVersion

definition require_table :: "sqlite_env \<Rightarrow> string \<Rightarrow> SqliteEnqueueError + unit" where
  "require_table env table =
     and_then (map_err (enqueue_error_sql ''validate enqueue domain tables'') (env_table_present env table))
       (\<lambda>present. if present then Inr () else Inl (SEnqMigrationMismatch (table @ '' is missing'')))"

definition validate_enqueue_schema :: "sqlite_build \<Rightarrow> sqlite_env \<Rightarrow> SqliteEnqueueError + unit" where
  "validate_enqueue_schema bld env =
     and_then (map_err (enqueue_error_sql ''check enqueue foreign-key enforcement'') (env_fk_value env))
       (\<lambda>foreign_keys.
     if foreign_keys \<noteq> 1 then Inl (SEnqMigrationMismatch ''foreign-key enforcement is disabled'')
     else
     and_then (require_table env ''dovecote_events'') (\<lambda>_.
     and_then (require_table env ''dovecote_deliveries'') (\<lambda>_.
     and_then (map_err SEnqMigrationMismatch (current_migration (build_migrations bld))) (\<lambda>migration.
       map_err SEnqMigrationMismatch (migration_is_usable (build_version bld) migration)))))"

definition same_event :: "ext_lib \<Rightarrow> NewEvent \<Rightarrow> string event_row \<Rightarrow> bool" where
  "same_event lib event existing \<longleftrightarrow> same_event_with (sqlite_format_timestamp lib) lib event existing"

definition validate_existing_event :: "ext_lib \<Rightarrow> string event_row \<Rightarrow> hydrate_error + unit" where
  "validate_existing_event lib existing = and_then (hydrate_event lib existing) (\<lambda>_. Inr ())"

definition enqueue_hydrate_error :: "hydrate_error \<Rightarrow> SqliteEnqueueError" where
  "enqueue_hydrate_error e = (case e of HErr d \<Rightarrow> SEnqSerialization d | HPanic \<Rightarrow> SEnqPanic)"

text \<open>The branch that finds the identity already stored.\<close>

definition enqueue_duplicate ::
  "ext_lib \<Rightarrow> sqlite_env \<Rightarrow> TenantId \<Rightarrow> NewEvent \<Rightarrow> sqlite_db \<Rightarrow> SqliteEnqueueError + EnqueueOutcome" where
  "enqueue_duplicate lib env tenant event db =
     and_then (map_err (enqueue_error_sql ''find duplicate event'')
       (run_or (env_fault env ''find duplicate event'' 0)
         (find_identity db (tenant_id_str tenant) (source_str (ec_source (new_content event)))
           (event_id_str (ec_id (new_content event)))))) (\<lambda>found.
     and_then (ok_or (enqueue_error_sql ''resolve duplicate event''
         (SqlxProtocol ''identity disappeared after conflict'')) found) (\<lambda>existing.
     and_then (map_err (\<lambda>e. SEnqSerialization (verror_to_string e)) (row_id_new (er_row_id existing)))
       (\<lambda>existing_id.
     and_then (map_err enqueue_hydrate_error (validate_existing_event lib existing)) (\<lambda>_.
     if \<not> same_event lib event existing then Inl (SEnqIdempotencyConflict existing_id)
     else
     and_then (map_err (enqueue_error_sql ''check duplicate delivery'')
       (run_or (env_fault env ''check duplicate delivery'' (er_row_id existing))
         (find (\<lambda>d. dr_tenant_id d = tenant_id_str tenant \<and> dr_event_row_id d = er_row_id existing)
           (db_deliveries db)))) (\<lambda>delivery_exists.
     if delivery_exists = None
       then Inl (SEnqMigrationMismatch ''an existing event has no delivery row'')
     else Inr (AlreadyEnqueued existing_id))))))"

definition enqueue_for_scope ::
  "ext_lib \<Rightarrow> sqlite_build \<Rightarrow> sqlite_env \<Rightarrow> TenantId \<Rightarrow> NewEvent \<Rightarrow> sqlite_db
     \<Rightarrow> (SqliteEnqueueError + EnqueueOutcome) \<times> sqlite_db" where
  "enqueue_for_scope lib bld env tenant event db =
     (case env_txn_write env of
        Inl e \<Rightarrow> (Inl (enqueue_error_sql ''inspect enqueue transaction state'' e), db)
      | Inr is_write \<Rightarrow>
     if \<not> is_write then (Inl SEnqWriteTransactionRequired, db)
     else case validate_enqueue_schema bld env of
        Inl e \<Rightarrow> (Inl e, db)
      | Inr _ \<Rightarrow>
     case sql_insert_event env ''insert event''
         (\<lambda>rid. event_columns lib (tenant_id_str tenant) (new_content event) rid (env_now env)) db of
        Inl e \<Rightarrow> (Inl (enqueue_error_sql ''insert event'' e), db)
      | Inr (None, db1) \<Rightarrow> (enqueue_duplicate lib env tenant event db1, db1)
      | Inr (Some inserted, db1) \<Rightarrow>
     case row_id_new (er_row_id inserted) of
        Inl e \<Rightarrow> (Inl (SEnqSerialization (verror_to_string e)), db1)
      | Inr row_id \<Rightarrow>
     case sql_insert_delivery env ''insert delivery''
         (enqueued_delivery (tenant_id_str tenant) (er_row_id inserted) (er_enqueued_at inserted)) db1 of
        Inl e \<Rightarrow> (Inl (enqueue_error_sql ''insert delivery'' e), db1)
      | Inr db2 \<Rightarrow> (Inr (Enqueued row_id), db2))"

section \<open>What an enqueue does\<close>

lemma event_columns_sel [simp]:
  "er_row_id (event_columns lib t c rid q) = rid"
  "er_tenant_id (event_columns lib t c rid q) = t"
  "er_enqueued_at (event_columns lib t c rid q) = q"
  "event_identity (event_columns lib t c rid q)
     = (t, source_str (ec_source c), event_id_str (ec_id c))"
  by (simp_all add: event_columns_def)

lemma same_event_iff:
  "same_event lib event r \<longleftrightarrow>
     r = event_columns lib (er_tenant_id r) (new_content event) (er_row_id r) (er_enqueued_at r)"
  by (simp add: same_event_def event_columns_def same_event_with_iff)

lemma enqueue_duplicate_Inr:
  assumes "enqueue_duplicate lib env tenant event db = Inr out"
  obtains r where
    "find_identity db (tenant_id_str tenant) (source_str (ec_source (new_content event)))
       (event_id_str (ec_id (new_content event))) = Some r"
    "out = AlreadyEnqueued (RowId (er_row_id r))" "same_event lib event r"
    "find (\<lambda>d. dr_tenant_id d = tenant_id_str tenant \<and> dr_event_row_id d = er_row_id r)
       (db_deliveries db) \<noteq> None"
  using assms unfolding enqueue_duplicate_def and_then_Inr_iff map_err_Inr_iff ok_or_Inr_iff
    run_or_Inr_iff row_id_new_Inr_iff if_Inl_eq_Inr
  by (auto split: if_splits)

lemma enqueue_for_scope_Inr:
  assumes "enqueue_for_scope lib bld env tenant event db = (Inr out, db')"
  obtains
    (duplicate) "sql_insert_event env ''insert event''
         (\<lambda>rid. event_columns lib (tenant_id_str tenant) (new_content event) rid (env_now env)) db
         = Inr (None, db')"
      "enqueue_duplicate lib env tenant event db' = Inr out"
  | (inserted) row db1 rid where "sql_insert_event env ''insert event''
         (\<lambda>rid. event_columns lib (tenant_id_str tenant) (new_content event) rid (env_now env)) db
         = Inr (Some row, db1)"
      "row_id_new (er_row_id row) = Inr rid"
      "sql_insert_delivery env ''insert delivery''
         (enqueued_delivery (tenant_id_str tenant) (er_row_id row) (er_enqueued_at row)) db1 = Inr db'"
      "out = Enqueued rid"
proof -
  let ?ins = "sql_insert_event env ''insert event''
    (\<lambda>rid. event_columns lib (tenant_id_str tenant) (new_content event) rid (env_now env)) db"
  obtain ret db1 where ins: "?ins = Inr (ret, db1)"
    using assms by (cases ?ins) (auto simp: enqueue_for_scope_def split: sum.splits if_splits)
  show thesis
  proof (cases ret)
    case None
    then show thesis
      using assms ins by (intro duplicate) (auto simp: enqueue_for_scope_def split: sum.splits if_splits)
  next
    case (Some row)
    then show thesis
      using assms ins
      by (auto simp: enqueue_for_scope_def split: sum.splits if_splits intro: inserted)
  qed
qed

lemma enqueue_Enqueued:
  assumes "enqueue_for_scope lib bld env tenant event db = (Inr (Enqueued rid), db')"
  shows "\<exists>n. rid = RowId n \<and> db_last_row_id db < n
    \<and> (\<forall>r \<in> set (db_events db). event_identity r \<noteq> (tenant_id_str tenant,
          source_str (ec_source (new_content event)), event_id_str (ec_id (new_content event))))
    \<and> db' = \<lparr>db_events = db_events db @
              [event_columns lib (tenant_id_str tenant) (new_content event) n (env_now env)],
            db_deliveries = db_deliveries db @
              [enqueued_delivery (tenant_id_str tenant) n (env_now env)],
            db_last_row_id = n\<rparr>"
proof -
  from assms obtain inserted db1 where
    ins: "sql_insert_event env ''insert event''
       (\<lambda>rid. event_columns lib (tenant_id_str tenant) (new_content event) rid (env_now env)) db
       = Inr (Some inserted, db1)"
    and rid: "row_id_new (er_row_id inserted) = Inr rid"
    and del: "sql_insert_delivery env ''insert delivery''
       (enqueued_delivery (tenant_id_str tenant) (er_row_id inserted) (er_enqueued_at inserted)) db1
       = Inr db'"
    by (elim enqueue_for_scope_Inr) (auto elim: enqueue_duplicate_Inr)
  let ?n = "db_last_row_id db + 1 + int (env_row_id_gap env)"
  note row = sql_insert_event_Some [OF ins]
  have "db' = db1\<lparr>db_deliveries := db_deliveries db1 @
      [enqueued_delivery (tenant_id_str tenant) ?n (env_now env)]\<rparr>"
    using sql_insert_delivery_row(1) [OF del] row(1) by simp
  moreover have "rid = RowId ?n" using rid row(1) by (simp add: row_id_new_Inr_iff)
  moreover have "\<forall>r \<in> set (db_events db). event_identity r \<noteq> event_identity inserted"
    using row(4) by (metis imageI)
  ultimately show ?thesis using row(1,2)
    by (intro exI [of _ ?n]) (cases db, simp)
qed

lemma enqueue_AlreadyEnqueued:
  assumes "db_ok db"
    and "enqueue_for_scope lib bld env tenant event db = (Inr (AlreadyEnqueued rid), db')"
  shows "db' = db \<and> (\<exists>r \<in> set (db_events db). rid = RowId (er_row_id r)
    \<and> r = event_columns lib (tenant_id_str tenant) (new_content event) (er_row_id r) (er_enqueued_at r)
    \<and> (\<exists>d \<in> set (db_deliveries db). dr_event_row_id d = er_row_id r
         \<and> dr_tenant_id d = tenant_id_str tenant))"
proof -
  let ?i = "(tenant_id_str tenant, source_str (ec_source (new_content event)),
    event_id_str (ec_id (new_content event)))"
  have uniq: "distinct (map event_identity (db_events db))" using assms(1) by (simp add: db_ok_def)
  have same: "db' = db"
    and dup: "enqueue_duplicate lib env tenant event db = Inr (AlreadyEnqueued rid)"
    using assms(2) by (auto elim!: enqueue_for_scope_Inr dest: sql_insert_event_None(1))
  from dup obtain r where
    r: "find_identity db (fst ?i) (fst (snd ?i)) (snd (snd ?i)) = Some r"
    and rid: "rid = RowId (er_row_id r)" and eqv: "same_event lib event r"
    and d: "find (\<lambda>d. dr_tenant_id d = tenant_id_str tenant \<and> dr_event_row_id d = er_row_id r)
        (db_deliveries db) \<noteq> None"
    by (auto elim: enqueue_duplicate_Inr)
  have "r \<in> set (db_events db)" "event_identity r = ?i"
    using r find_identity_Some_iff [OF uniq] by auto
  moreover have "er_tenant_id r = tenant_id_str tenant"
    using calculation(2) by (simp add: event_identity_def)
  ultimately show ?thesis
    using rid eqv d same by (auto simp: same_event_iff dest!: find_Some_in)
qed

lemma enqueue_keeps_ok:
  assumes "db_ok db" and "enqueue_for_scope lib bld env tenant event db = (res, db')"
  shows "db_ok db'"
  using assms(2) sql_insert_event_ok [OF assms(1) _ event_columns_sel(1)] assms(1)
  by (fastforce simp: enqueue_for_scope_def split: sum.splits if_splits option.splits prod.splits
      dest: sql_insert_delivery_ok(1))

lemma enqueue_keeps_paired:
  assumes "db_ok db" "db_paired db"
    and "enqueue_for_scope lib bld env tenant event db = (Inr out, db')"
  shows "db_paired db'"
proof (cases out)
  case (Enqueued rid)
  then show ?thesis
    using enqueue_Enqueued [of lib bld env tenant event db rid db'] assms
    by (fastforce simp: db_paired_def enqueued_delivery_def)
next
  case (AlreadyEnqueued rid)
  then show ?thesis using enqueue_AlreadyEnqueued [of db lib bld env tenant event rid db'] assms by simp
qed

text \<open>
  A second enqueue of stored content, on a connection that reports no fault, finds the row and
  changes nothing, whatever happened to the delivery in between.
\<close>

definition env_quiet :: "sqlite_build \<Rightarrow> sqlite_env \<Rightarrow> bool" where
  "env_quiet bld env \<longleftrightarrow> env_txn_write env = Inr True
     \<and> validate_enqueue_schema bld env = Inr ()
     \<and> (\<forall>label rid. env_fault env label rid = None)"

text \<open>
  What an operation finds when the content it inserts is stored already, shared by the enqueue
  and the import.
\<close>

lemma insert_stored_again:
  assumes "db_ok db" and r: "r \<in> set (db_events db)"
    and row: "r = event_columns lib (tenant_id_str tenant) (new_content event) n q"
    and content: "event_content_wf lib (new_content event)"
      "validate_content lib (new_content event) limit = Inr ()"
      "durable_codecs lib (new_content event)"
    and space: "db_last_row_id db + 1 + int (env_row_id_gap env) \<le> i64_max"
    and quiet: "env_fault env label 0 = None"
  shows "sql_insert_event env label
      (\<lambda>rid. event_columns lib (tenant_id_str tenant) (new_content event) rid now) db = Inr (None, db)"
    and "find_identity db (tenant_id_str tenant) (source_str (ec_source (new_content event)))
      (event_id_str (ec_id (new_content event))) = Some r"
    and "row_id_new (er_row_id r) = Inr (RowId n)"
    and "validate_existing_event lib r = Inr ()" and "same_event lib event r"
proof -
  let ?mk = "\<lambda>rid. event_columns lib (tenant_id_str tenant) (new_content event) rid now"
  let ?rid = "db_last_row_id db + 1 + int (env_row_id_gap env)"
  have check: "event_check r" and uniq: "distinct (map event_identity (db_events db))"
    and pos: "0 \<le> db_last_row_id db"
    using assms(1) r by (auto simp: db_ok_def list_all_iff)
  show "row_id_new (er_row_id r) = Inr (RowId n)"
    using check row by (simp add: row_id_new_Inr_iff event_check_def)
  have "event_check (?mk ?rid)"
    using check pos unfolding row by (simp add: event_check_def event_columns_def event_columns_with_def)
  moreover have "event_identity (?mk ?rid) \<in> event_identity ` set (db_events db)"
    using r row by (metis event_columns_sel(4) imageI)
  ultimately show "sql_insert_event env label ?mk db = Inr (None, db)"
    using quiet space by (simp add: sql_insert_event_def Let_def)
  show "find_identity db (tenant_id_str tenant) (source_str (ec_source (new_content event)))
      (event_id_str (ec_id (new_content event))) = Some r"
    using find_identity_Some_iff [OF uniq] r row by simp
  show "validate_existing_event lib r = Inr ()"
    unfolding row validate_existing_event_def
    using hydrate_event_columns [OF content] by simp
  show "same_event lib event r" unfolding same_event_iff row by simp
qed

lemma enqueue_replay_row:
  assumes "db_ok db" and r: "r \<in> set (db_events db)"
    and row: "r = event_columns lib (tenant_id_str tenant) (new_content event) n q"
    and d: "d \<in> set (db_deliveries db)" "dr_event_row_id d = n" "dr_tenant_id d = tenant_id_str tenant"
    and content: "event_content_wf lib (new_content event)"
      "validate_content lib (new_content event) limit = Inr ()"
      "durable_codecs lib (new_content event)"
    and quiet: "env_quiet bld env"
    and space: "db_last_row_id db + 1 + int (env_row_id_gap env) \<le> i64_max"
  shows "enqueue_for_scope lib bld env tenant event db = (Inr (AlreadyEnqueued (RowId n)), db)"
proof -
  have "env_fault env ''insert event'' 0 = None" using quiet by (simp add: env_quiet_def)
  note again = insert_stored_again [OF assms(1) r row content space this]
  have "find (\<lambda>d. dr_tenant_id d = tenant_id_str tenant \<and> dr_event_row_id d = n)
      (db_deliveries db) \<noteq> None"
    using d by (auto simp: find_None_set)
  moreover have "er_row_id r = n" using row by simp
  ultimately have "enqueue_duplicate lib env tenant event db = Inr (AlreadyEnqueued (RowId n))"
    using quiet again by (simp add: enqueue_duplicate_def env_quiet_def)
  then show ?thesis using quiet again(1) by (simp add: enqueue_for_scope_def env_quiet_def)
qed

end
