(* ===== verification/Sqlite_Schema.thy ===== *)
theory Sqlite_Schema
  imports Sqlite_Base Adapter_Migration
begin

text \<open>
  \<open>crates/dovecote-sqlx-sqlite/src/schema.rs\<close>: verification of an installed schema against the
  shipped migration text. What SQLite answers to the pragmas and catalog queries is the record
  \<open>sqlite_catalog\<close>; a column of a pragma row that \<open>try_get\<close> cannot read is \<open>None\<close>.
\<close>

record SchemaMarker =
  mk_schema_version :: int
  mk_minimum_crate_major :: int
  mk_minimum_crate_minor :: int
  mk_minimum_crate_patch :: int
  mk_rolling_compatible :: int

record column_info =
  ci_name :: "string option"
  ci_type :: "string option"
  ci_pk :: "int option"
  ci_notnull :: "int option"

record ColumnSpec =
  cs_name :: string
  cs_kind :: string
  cs_primary_key :: bool
  cs_not_null :: bool

record sqlite_catalog =
  cat_foreign_keys :: "sqlx_error + int"
  cat_markers :: "sqlx_error + SchemaMarker list"
  cat_table_info :: "string \<Rightarrow> sqlx_error + column_info list"
  cat_tables :: "sqlx_error + (string \<times> string) list"
  cat_extra_objects :: "sqlx_error + (string \<times> string \<times> string) list"
  cat_index_list :: "string \<Rightarrow> sqlx_error + (string option \<times> int option) list"
  cat_index_sql :: "string \<Rightarrow> sqlx_error + string option"
  cat_index_info :: "string \<Rightarrow> sqlx_error + string option list"
  cat_index_xinfo :: "string \<Rightarrow> sqlx_error + (int option \<times> string option) list"
  cat_foreign_key_list :: "sqlx_error + (string option \<times> string option \<times> string option) list"
  cat_fk_violations :: "sqlx_error + nat"

definition mismatch :: "string \<Rightarrow> SqliteSchemaError" where
  "mismatch detail = SSchMigrationMismatch detail"

definition column_required :: "string \<Rightarrow> string \<Rightarrow> bool \<Rightarrow> ColumnSpec" where
  "column_required name kind primary_key =
     \<lparr>cs_name = name, cs_kind = kind, cs_primary_key = primary_key, cs_not_null = \<not> primary_key\<rparr>"

definition column_optional :: "string \<Rightarrow> string \<Rightarrow> bool \<Rightarrow> ColumnSpec" where
  "column_optional name kind primary_key =
     \<lparr>cs_name = name, cs_kind = kind, cs_primary_key = primary_key, cs_not_null = False\<rparr>"

section \<open>Statements of the migration text\<close>

text \<open>\<open>str::find\<close>, as the rest of the text from the first occurrence.\<close>

fun find_suffix :: "string \<Rightarrow> string \<Rightarrow> string option" where
  "find_suffix needle [] = (if needle = [] then Some [] else None)"
| "find_suffix needle (c # cs) =
     (if take (length needle) (c # cs) = needle then Some (c # cs) else find_suffix needle cs)"

definition sat_u32 :: "nat \<Rightarrow> nat" where "sat_u32 n = min 4294967295 n"

text \<open>
  The scan of \<open>expected_table_source\<close> up to the first semicolon outside quotes and
  parentheses. The characters it looks for are ASCII, so octets and characters agree.
\<close>

fun scan_statement :: "nat \<Rightarrow> bool \<Rightarrow> string \<Rightarrow> string option" where
  "scan_statement depth quoted [] = None"
| "scan_statement depth quoted (c # cs) =
     (if byte c = 39 then map_option ((#) c) (scan_statement depth (\<not> quoted) cs)
      else if c = CHR ''('' \<and> \<not> quoted
        then map_option ((#) c) (scan_statement (sat_u32 (depth + 1)) quoted cs)
      else if c = CHR '')'' \<and> \<not> quoted
        then map_option ((#) c) (scan_statement (depth - 1) quoted cs)
      else if c = CHR '';'' \<and> \<not> quoted \<and> depth = 0 then Some []
      else map_option ((#) c) (scan_statement depth quoted cs))"

definition expected_table_source :: "string \<Rightarrow> string \<Rightarrow> string + string" where
  "expected_table_source migration table =
     and_then (ok_or (''migration does not define '' @ table)
       (find_suffix (''CREATE TABLE '' @ table) migration)) (\<lambda>rest.
     ok_or (''migration statement for '' @ table @ '' is unterminated'') (scan_statement 0 False rest))"

definition expected_index_source :: "string \<Rightarrow> string \<Rightarrow> string + string" where
  "expected_index_source migration index =
     (let needle = (if find_suffix (''CREATE UNIQUE INDEX '' @ index) migration \<noteq> None
                    then ''CREATE UNIQUE INDEX '' @ index else ''CREATE INDEX '' @ index) in
      and_then (ok_or (''migration does not define '' @ index) (find_suffix needle migration)) (\<lambda>rest.
      and_then (ok_or (''migration statement for '' @ index @ '' is unterminated'')
        (split_once (CHR '';'') rest)) (\<lambda>(statement, _). Inr statement)))"

text \<open>
  \<open>normalize_sql\<close> on the scalar values of the text. \<open>lower\<close> is \<open>char::to_lowercase\<close> beyond ASCII.
\<close>

definition ascii_whitespace :: "nat \<Rightarrow> bool" where
  "ascii_whitespace c \<longleftrightarrow> c = 9 \<or> c = 10 \<or> c = 12 \<or> c = 13 \<or> c = 32"

definition char_to_lowercase :: "(nat \<Rightarrow> nat list) \<Rightarrow> nat \<Rightarrow> nat list" where
  "char_to_lowercase lower c =
     (if c < 128 then [if 65 \<le> c \<and> c \<le> 90 then c + 32 else c] else lower c)"

fun normalize_chars :: "(nat \<Rightarrow> nat list) \<Rightarrow> bool \<Rightarrow> nat list \<Rightarrow> nat list" where
  "normalize_chars lower in_string [] = []"
| "normalize_chars lower in_string (c # cs) =
     (if c = 39 then c # normalize_chars lower (\<not> in_string) cs
      else if c = 34 \<and> \<not> in_string then normalize_chars lower in_string cs
      else if ascii_whitespace c then normalize_chars lower in_string cs
      else if in_string then c # normalize_chars lower in_string cs
      else char_to_lowercase lower c @ normalize_chars lower in_string cs)"

definition normalize_sql :: "(nat \<Rightarrow> nat list) \<Rightarrow> string \<Rightarrow> nat list" where
  "normalize_sql lower value = normalize_chars lower False (chars value)"

section \<open>Checks\<close>

definition eq_ignore_ascii_case :: "string \<Rightarrow> string \<Rightarrow> bool" where
  "eq_ignore_ascii_case a b \<longleftrightarrow>
     map (char_to_lowercase (\<lambda>c. [c]) \<circ> byte) a = map (char_to_lowercase (\<lambda>c. [c]) \<circ> byte) b"

definition check_schema_marker :: "sqlite_catalog \<Rightarrow> Migration \<Rightarrow> SqliteSchemaError + unit" where
  "check_schema_marker cat migration =
     and_then (map_err (schema_error_sql ''check schema marker'') (cat_markers cat)) (\<lambda>markers.
     case markers of
       [marker] \<Rightarrow>
         let minimum = compat_minimum (mig_compatibility migration) in
         if mk_schema_version marker \<noteq> int (mig_version migration)
            \<or> mk_minimum_crate_major marker \<noteq> int (ver_major minimum)
            \<or> mk_minimum_crate_minor marker \<noteq> int (ver_minor minimum)
            \<or> mk_minimum_crate_patch marker \<noteq> int (ver_patch minimum)
            \<or> mk_rolling_compatible marker \<noteq> (if mig_rolling_compatible migration then 1 else 0)
           then Inl (mismatch ''schema marker is incompatible with this adapter'')
         else Inr ()
     | _ \<Rightarrow> Inl (mismatch (''expected exactly one schema marker row, found ''
              @ nat_to_string (length markers))))"

definition check_column :: "string \<Rightarrow> column_info list \<Rightarrow> ColumnSpec \<Rightarrow> SqliteSchemaError + unit" where
  "check_column table rows spec =
     and_then (ok_or (mismatch (''required column '' @ table @ ''.'' @ cs_name spec @ '' is missing''))
       (find (\<lambda>row. ci_name row = Some (cs_name spec)) rows)) (\<lambda>row.
     and_then (ok_or (mismatch (''column '' @ table @ ''.'' @ cs_name spec @ '' has no type''))
       (ci_type row)) (\<lambda>kind.
     if \<not> eq_ignore_ascii_case kind (cs_kind spec)
       then Inl (mismatch (''column '' @ table @ ''.'' @ cs_name spec @ '' has type '' @ kind
              @ '', expected '' @ cs_kind spec))
     else if cs_primary_key spec \<and> (case ci_pk row of None \<Rightarrow> 0 | Some v \<Rightarrow> v) \<noteq> 1
       then Inl (mismatch (''column '' @ table @ ''.'' @ cs_name spec @ '' is not the primary key''))
     else if cs_not_null spec \<and> (case ci_notnull row of None \<Rightarrow> 0 | Some v \<Rightarrow> v) = 0
       then Inl (mismatch (''column '' @ table @ ''.'' @ cs_name spec @ '' must be NOT NULL''))
     else Inr ()))"

fun check_column_list ::
  "string \<Rightarrow> column_info list \<Rightarrow> ColumnSpec list \<Rightarrow> SqliteSchemaError + unit" where
  "check_column_list table rows [] = Inr ()"
| "check_column_list table rows (spec # specs) =
     and_then (check_column table rows spec) (\<lambda>_. check_column_list table rows specs)"

definition check_columns :: "sqlite_catalog \<Rightarrow> string \<Rightarrow> ColumnSpec list \<Rightarrow> SqliteSchemaError + unit" where
  "check_columns cat table expected =
     and_then (map_err (schema_error_sql ''check table columns'') (cat_table_info cat table)) (\<lambda>rows.
       check_column_list table rows expected)"

text \<open>
  The collations of the key columns: \<open>zip\<close> pairs the key flags that are not zero with the
  readable collations in order.
\<close>

definition key_collations :: "(int option \<times> string option) list \<Rightarrow> string list" where
  "key_collations xinfo =
     map snd (zip (List.map_filter (\<lambda>(key, _). case key of Some k \<Rightarrow> if k \<noteq> 0 then Some k else None
                                                | None \<Rightarrow> None) xinfo)
                  (List.map_filter snd xinfo))"

definition IDENTITY_INDEX :: string where
  "IDENTITY_INDEX = ''dovecote_events_tenant_source_event_id''"

definition check_index ::
  "(nat \<Rightarrow> nat list) \<Rightarrow> sqlite_catalog \<Rightarrow> string \<Rightarrow> string \<Rightarrow> bool \<Rightarrow> string list \<Rightarrow> string
     \<Rightarrow> SqliteSchemaError + unit" where
  "check_index lower cat table expected_name unique columns migration =
     and_then (map_err (schema_error_sql ''check schema indexes'') (cat_index_list cat table)) (\<lambda>indexes.
     and_then (ok_or (mismatch (''required index '' @ expected_name @ '' is missing''))
       (find (\<lambda>(name, _). name = Some expected_name) indexes)) (\<lambda>(_, uniq).
     if ((case uniq of None \<Rightarrow> 0 | Some v \<Rightarrow> v) \<noteq> 0) \<noteq> unique
       then Inl (mismatch (''index '' @ expected_name @ '' uniqueness is incompatible''))
     else
     and_then (map_err (schema_error_sql ''read schema index definition'')
       (cat_index_sql cat expected_name)) (\<lambda>found.
     and_then (ok_or (mismatch (''index '' @ expected_name @ '' has no definition'')) found) (\<lambda>source.
     and_then (map_err mismatch (expected_index_source migration expected_name)) (\<lambda>expected.
     if normalize_sql lower source \<noteq> normalize_sql lower expected
       then Inl (mismatch (''index '' @ expected_name @ '' definition is incompatible''))
     else
     and_then (map_err (schema_error_sql ''read schema index columns'')
       (cat_index_info cat expected_name)) (\<lambda>info.
     if List.map_filter id info \<noteq> columns
       then Inl (mismatch (''index '' @ expected_name @ '' columns are incompatible''))
     else if expected_name = IDENTITY_INDEX then
       and_then (map_err (schema_error_sql ''read identity index collation'')
         (cat_index_xinfo cat expected_name)) (\<lambda>xinfo.
       if key_collations xinfo \<noteq> [''BINARY'', ''BINARY'', ''BINARY'']
         then Inl (mismatch ''identity index collation is not BINARY'')
       else Inr ())
     else Inr ()))))))"

definition check_foreign_key :: "sqlite_catalog \<Rightarrow> SqliteSchemaError + unit" where
  "check_foreign_key cat =
     and_then (map_err (schema_error_sql ''check delivery foreign key'') (cat_foreign_key_list cat)) (\<lambda>rows.
     let matching = filter (\<lambda>(table, _). table = Some ''dovecote_events'') rows;
         columns = map (\<lambda>(_, f, t). (case f of None \<Rightarrow> [] | Some v \<Rightarrow> v,
                                    case t of None \<Rightarrow> [] | Some v \<Rightarrow> v)) matching in
     if length matching \<noteq> 2 then Inl (mismatch ''delivery foreign key is missing'')
     else if (''tenant_id'', ''tenant_id'') \<notin> set columns \<or> (''event_row_id'', ''row_id'') \<notin> set columns
       then Inl (mismatch ''delivery foreign key is incompatible'')
     else Inr ())"

definition event_column_specs :: "ColumnSpec list" where
  "event_column_specs =
     [column_required ''row_id'' ''INTEGER'' True, column_required ''tenant_id'' ''TEXT'' False,
      column_required ''stream'' ''TEXT'' False, column_required ''specversion'' ''TEXT'' False,
      column_required ''event_id'' ''TEXT'' False, column_required ''source'' ''TEXT'' False,
      column_required ''event_type'' ''TEXT'' False, column_optional ''subject'' ''TEXT'' False,
      column_optional ''occurred_at'' ''TEXT'' False, column_optional ''datacontenttype'' ''TEXT'' False,
      column_optional ''dataschema'' ''TEXT'' False, column_optional ''partitionkey'' ''TEXT'' False,
      column_required ''extensions'' ''TEXT'' False, column_optional ''data_kind'' ''TEXT'' False,
      column_optional ''data'' ''BLOB'' False, column_required ''enqueued_at'' ''TEXT'' False]"

definition delivery_column_specs :: "ColumnSpec list" where
  "delivery_column_specs =
     [column_required ''event_row_id'' ''INTEGER'' True, column_required ''tenant_id'' ''TEXT'' False,
      column_required ''state'' ''TEXT'' False, column_required ''available_at'' ''TEXT'' False,
      column_required ''attempts'' ''INTEGER'' False, column_optional ''claim_token'' ''BLOB'' False,
      column_optional ''claimed_by'' ''TEXT'' False, column_optional ''claim_expires_at'' ''TEXT'' False,
      column_optional ''last_failure_code'' ''TEXT'' False,
      column_optional ''last_failure_detail'' ''TEXT'' False,
      column_optional ''delivered_at'' ''TEXT'' False, column_optional ''quarantined_at'' ''TEXT'' False,
      column_optional ''quarantine_reason'' ''TEXT'' False]"

definition domain_tables :: "string list" where
  "domain_tables = [''dovecote_schema'', ''dovecote_events'', ''dovecote_deliveries'']"

fun check_tables_present :: "(string \<times> string) list \<Rightarrow> string list \<Rightarrow> SqliteSchemaError + unit" where
  "check_tables_present sources [] = Inr ()"
| "check_tables_present sources (name # names) =
     (if \<not> list_ex (\<lambda>(n, _). n = name) sources
        then Inl (mismatch (''required table '' @ name @ '' is missing''))
      else check_tables_present sources names)"

text \<open>The \<open>expect\<close> of the second loop cannot fail after the first; the branch is unreachable.\<close>

fun check_table_sources ::
  "(nat \<Rightarrow> nat list) \<Rightarrow> Migration \<Rightarrow> (string \<times> string) list \<Rightarrow> string list
     \<Rightarrow> SqliteSchemaError + unit" where
  "check_table_sources lower migration sources [] = Inr ()"
| "check_table_sources lower migration sources (name # names) =
     (case find (\<lambda>(n, _). n = name) sources of
        None \<Rightarrow> Inl (mismatch (''required table '' @ name @ '' is missing''))
      | Some (_, sql) \<Rightarrow>
          and_then (map_err mismatch (expected_table_source (mig_sql migration) name)) (\<lambda>expected.
          if normalize_sql lower sql \<noteq> normalize_sql lower expected
            then Inl (mismatch (''table '' @ name @ '' definition is incompatible with schema version ''
                   @ nat_to_string (mig_version migration)))
          else check_table_sources lower migration sources names))"

definition check_schema_connection ::
  "(nat \<Rightarrow> nat list) \<Rightarrow> Migration list \<Rightarrow> CrateVersion \<Rightarrow> sqlite_catalog \<Rightarrow> SqliteSchemaError + unit" where
  "check_schema_connection lower migrations version cat =
     and_then (map_err (schema_error_sql ''check foreign-key enforcement'') (cat_foreign_keys cat)) (\<lambda>enabled.
     if enabled \<noteq> 1 then Inl (mismatch ''foreign-key enforcement is disabled'')
     else
     and_then (map_err mismatch (current_migration migrations)) (\<lambda>migration.
     and_then (map_err mismatch (migration_is_usable version migration)) (\<lambda>_.
     and_then (check_schema_marker cat migration) (\<lambda>_.
     and_then (check_columns cat ''dovecote_events'' event_column_specs) (\<lambda>_.
     and_then (check_columns cat ''dovecote_deliveries'' delivery_column_specs) (\<lambda>_.
     and_then (map_err (schema_error_sql ''read schema definitions'') (cat_tables cat)) (\<lambda>sources.
     and_then (check_tables_present sources domain_tables) (\<lambda>_.
     and_then (check_table_sources lower migration sources domain_tables) (\<lambda>_.
     and_then (map_err (schema_error_sql ''check schema object isolation'') (cat_extra_objects cat)) (\<lambda>extra.
     (case extra of
        (object_type, name, table_name) # _ \<Rightarrow>
          Inl (mismatch (''unsupported SQLite schema object '' @ object_type @ '' '' @ name
                 @ '' on '' @ table_name))
      | [] \<Rightarrow>
     and_then (check_index lower cat ''dovecote_events'' IDENTITY_INDEX True
       [''tenant_id'', ''source'', ''event_id''] (mig_sql migration)) (\<lambda>_.
     and_then (check_index lower cat ''dovecote_events'' ''dovecote_events_tenant_row'' False
       [''tenant_id'', ''row_id''] (mig_sql migration)) (\<lambda>_.
     and_then (check_index lower cat ''dovecote_deliveries'' ''dovecote_deliveries_claimable'' False
       [''tenant_id'', ''state'', ''available_at'', ''event_row_id''] (mig_sql migration)) (\<lambda>_.
     and_then (check_index lower cat ''dovecote_deliveries'' ''dovecote_deliveries_expired_claims'' False
       [''tenant_id'', ''state'', ''claim_expires_at'', ''event_row_id''] (mig_sql migration)) (\<lambda>_.
     and_then (check_foreign_key cat) (\<lambda>_.
     and_then (map_err (schema_error_sql ''check foreign-key integrity'') (cat_fk_violations cat)) (\<lambda>violations.
     if violations \<noteq> 0 then Inl (mismatch ''installed schema contains foreign-key violations'')
     else Inr ())))))))))))))))))"

definition check_schema ::
  "(nat \<Rightarrow> nat list) \<Rightarrow> Migration list \<Rightarrow> CrateVersion \<Rightarrow> sqlite_env \<Rightarrow> sqlite_catalog
     \<Rightarrow> SqliteSchemaError + unit" where
  "check_schema lower migrations version env cat =
     and_then (map_err (schema_error_sql ''acquire schema-check connection'') (run_or (env_acquire env) ()))
       (\<lambda>_. check_schema_connection lower migrations version cat)"

section \<open>What an accepted schema is\<close>

lemma scan_statement_prefix:
  "scan_statement depth quoted s = Some p \<Longrightarrow> \<exists>rest. s = p @ CHR '';'' # rest"
  by (induction depth quoted s arbitrary: p rule: scan_statement.induct) (auto split: if_splits)

lemma find_suffix_append: "find_suffix needle s = Some t \<Longrightarrow> \<exists>pre. s = pre @ t \<and> take (length needle) t = needle"
proof (induction needle s rule: find_suffix.induct)
  case (2 needle c cs)
  then show ?case by (auto split: if_splits intro: exI [of _ "c # _"])
qed (auto split: if_splits)

lemma expected_table_source_part:
  assumes "expected_table_source migration table = Inr st"
  shows "\<exists>pre rest. migration = pre @ st @ CHR '';'' # rest"
proof -
  from assms obtain t where t: "find_suffix (''CREATE TABLE '' @ table) migration = Some t"
    and st: "scan_statement 0 False t = Some st"
    by (auto simp: expected_table_source_def and_then_Inr_iff)
  from find_suffix_append [OF t] scan_statement_prefix [OF st] show ?thesis by auto
qed

lemma check_table_sources_Inr:
  assumes "check_table_sources lower migration sources names = Inr ()" and "name \<in> set names"
  shows "\<exists>sql expected. (name, sql) \<in> set sources
    \<and> expected_table_source (mig_sql migration) name = Inr expected
    \<and> normalize_sql lower sql = normalize_sql lower expected"
  using assms
proof (induction names)
  case (Cons n ns)
  then obtain sql expected where
    "find (\<lambda>(m, _). m = n) sources = Some (n, sql)"
    "expected_table_source (mig_sql migration) n = Inr expected"
    "normalize_sql lower sql = normalize_sql lower expected"
    "check_table_sources lower migration sources ns = Inr ()"
    by (auto simp: and_then_Inr_iff split: option.splits if_splits dest: find_Some_in)
  then show ?case using Cons by (auto dest: find_Some_in)
qed simp

lemma no_extra_objects_Inr:
  "(case extra of [] \<Rightarrow> a | (t, n, m) # _ \<Rightarrow> Inl (f t n m)) = Inr r \<longleftrightarrow> extra = [] \<and> a = Inr r"
  by (cases extra) auto

lemma check_schema_connection_Inr:
  assumes "check_schema_connection lower migrations version cat = Inr ()"
  obtains migration sources where
    "current_migration migrations = Inr migration" "migration_is_usable version migration = Inr ()"
    "check_schema_marker cat migration = Inr ()" "cat_tables cat = Inr sources"
    "check_table_sources lower migration sources domain_tables = Inr ()"
    "cat_extra_objects cat = Inr []" "cat_foreign_keys cat = Inr 1" "cat_fk_violations cat = Inr 0"
  using assms unfolding check_schema_connection_def and_then_Inr_iff map_err_Inr_iff if_Inl_eq_Inr
    no_extra_objects_Inr
  by auto

end
