(* ===== verification/Adapter_Delivery.thy ===== *)
theory Adapter_Delivery
  imports Adapter_Claim
begin

text \<open>
  What the adapters' statements do to one delivery row: the five transitions of a claimed
  delivery, fenced by row, tenant, state, token and unexpired lease; the canonical shapes of
  the migration workflow; and that each of them is a step of the abstract lifecycle. The
  database's instants and its addition are arguments.
\<close>

section \<open>Mutations of a claimed delivery\<close>

datatype Mutation =
    MRenew Lease
  | MAck
  | MRetry Failure Delay
  | MRelease Delay
  | MQuarantine QuarantineReason

datatype PreparedMutation =
    PRenew int
  | PAck
  | PRetry Failure int
  | PRelease int
  | PQuarantine QuarantineReason

definition tenant_matches :: "TenantId option \<Rightarrow> 't delivery_row \<Rightarrow> bool" where
  "tenant_matches tenant d = (case tenant of None \<Rightarrow> True | Some t \<Rightarrow> dr_tenant_id d = tenant_id_str t)"

text \<open>The WHERE clause shared by the five statements.\<close>

definition mutation_where ::
  "RowId \<Rightarrow> TenantId option \<Rightarrow> ClaimToken \<Rightarrow> 't::linorder \<Rightarrow> 't delivery_row \<Rightarrow> bool" where
  "mutation_where row_id tenant token operation_time d \<longleftrightarrow>
     dr_event_row_id d = row_id_get row_id \<and> tenant_matches tenant d
     \<and> dr_state d = ''claimed'' \<and> dr_claim_token d = Some (claim_token_bytes token)
     \<and> (case dr_claim_expires_at d of None \<Rightarrow> False | Some x \<Rightarrow> operation_time < x)"

text \<open>
  The SET clauses. \<open>add\<close> is the database's addition of a span to an instant. \<open>None\<close> is an attempt
  to store NULL in \<open>available_at\<close>, when the sum has no value.
\<close>

fun mutation_set ::
  "('t \<Rightarrow> int \<Rightarrow> 't option) \<Rightarrow> 't \<Rightarrow> PreparedMutation \<Rightarrow> 't delivery_row \<Rightarrow> 't delivery_row option" where
  "mutation_set add operation_time (PRenew ms) d =
     Some (d\<lparr>dr_claim_expires_at := add operation_time ms\<rparr>)"
| "mutation_set add operation_time PAck d =
     Some (d\<lparr>dr_state := ''delivered'', dr_claim_token := None, dr_claimed_by := None,
             dr_claim_expires_at := None, dr_delivered_at := Some operation_time\<rparr>)"
| "mutation_set add operation_time (PRetry failure ms) d =
     map_option (\<lambda>t. d\<lparr>dr_state := ''pending'', dr_available_at := t, dr_claim_token := None,
        dr_claimed_by := None, dr_claim_expires_at := None,
        dr_last_failure_code := Some (failure_code failure),
        dr_last_failure_detail := Some (failure_detail failure)\<rparr>)
       (add operation_time ms)"
| "mutation_set add operation_time (PRelease ms) d =
     map_option (\<lambda>t. d\<lparr>dr_state := ''pending'', dr_available_at := t, dr_claim_token := None,
        dr_claimed_by := None, dr_claim_expires_at := None\<rparr>)
       (add operation_time ms)"
| "mutation_set add operation_time (PQuarantine reason) d =
     Some (d\<lparr>dr_state := ''quarantined'', dr_claim_token := None, dr_claimed_by := None,
             dr_claim_expires_at := None, dr_quarantined_at := Some operation_time,
             dr_quarantine_reason := Some (quarantine_reason_str reason)\<rparr>)"

lemma mutation_set_key:
  "mutation_set add t m d = Some e \<Longrightarrow>
     dr_event_row_id e = dr_event_row_id d \<and> dr_tenant_id e = dr_tenant_id d"
  by (cases m) auto

lemma mutation_set_keys:
  "\<forall>d e. mutation_set add t m d = Some e \<longrightarrow>
     dr_event_row_id e = dr_event_row_id d \<and> dr_tenant_id e = dr_tenant_id d"
  by (intro allI impI) (rule mutation_set_key)

lemma mutation_where_key:
  "\<forall>d. mutation_where row_id tenant token t d \<longrightarrow> dr_event_row_id d = row_id_get row_id"
  by (simp add: mutation_where_def)

section \<open>Migration shapes\<close>

definition canonical :: "'t delivery_row \<Rightarrow> 't \<Rightarrow> bool" where
  "canonical row enqueued_at \<longleftrightarrow>
     dr_attempts row = 0
     \<and> dr_claim_token row = None
     \<and> dr_claimed_by row = None
     \<and> dr_claim_expires_at row = None
     \<and> dr_last_failure_code row = None
     \<and> dr_last_failure_detail row = None
     \<and> dr_quarantined_at row = None
     \<and> dr_quarantine_reason row = None
     \<and> dr_available_at row = enqueued_at"

definition canonical_pending :: "'t delivery_row \<Rightarrow> 't \<Rightarrow> bool" where
  "canonical_pending row enqueued_at \<longleftrightarrow>
     canonical row enqueued_at \<and> dr_state row = ''pending'' \<and> dr_delivered_at row = None"

definition matches_import_with ::
  "(offset_date_time \<Rightarrow> 't) \<Rightarrow> 't delivery_row \<Rightarrow> ImportedDeliveryState \<Rightarrow> 't \<Rightarrow> bool" where
  "matches_import_with enc row state enqueued_at =
     (case state of
        ImportPending \<Rightarrow>
          canonical row enqueued_at \<and> dr_state row = ''pending'' \<and> dr_delivered_at row = None
      | ImportDelivered delivered_at \<Rightarrow>
          canonical row enqueued_at \<and> dr_state row = ''delivered''
          \<and> dr_delivered_at row = Some (enc delivered_at))"

text \<open>A delivery row as a driver returns it, its instants decoded.\<close>

definition decode_delivery :: "(int \<Rightarrow> int) \<Rightarrow> int delivery_row \<Rightarrow> int delivery_row" where
  "decode_delivery instant d =
     d\<lparr>dr_available_at := instant (dr_available_at d),
       dr_claim_expires_at := map_option instant (dr_claim_expires_at d),
       dr_delivered_at := map_option instant (dr_delivered_at d),
       dr_quarantined_at := map_option instant (dr_quarantined_at d)\<rparr>"

text \<open>The delivery that an import inserts.\<close>

definition imported_delivery_with ::
  "(offset_date_time \<Rightarrow> 't) \<Rightarrow> string \<Rightarrow> int \<Rightarrow> 't \<Rightarrow> ImportedDeliveryState \<Rightarrow> 't delivery_row" where
  "imported_delivery_with enc tenant rid operation_time state =
     (let (state_name, delivered_at) = (case state of
            ImportPending \<Rightarrow> (''pending'', None)
          | ImportDelivered t \<Rightarrow> (''delivered'', Some (enc t))) in
      \<lparr>dr_event_row_id = rid, dr_tenant_id = tenant, dr_state = state_name,
       dr_available_at = operation_time, dr_attempts = 0, dr_claim_token = None, dr_claimed_by = None,
       dr_claim_expires_at = None, dr_last_failure_code = None, dr_last_failure_detail = None,
       dr_delivered_at = delivered_at, dr_quarantined_at = None, dr_quarantine_reason = None\<rparr>)"

text \<open>The WHERE and SET clauses of a finalisation.\<close>

definition finalize_where :: "string \<Rightarrow> int \<Rightarrow> 't \<Rightarrow> 't delivery_row \<Rightarrow> bool" where
  "finalize_where tenant rid enqueued_at d \<longleftrightarrow>
     dr_tenant_id d = tenant \<and> dr_event_row_id d = rid \<and> dr_state d = ''pending'' \<and> dr_attempts d = 0
     \<and> dr_claim_token d = None \<and> dr_claimed_by d = None \<and> dr_claim_expires_at d = None
     \<and> dr_last_failure_code d = None \<and> dr_last_failure_detail d = None \<and> dr_delivered_at d = None
     \<and> dr_quarantined_at d = None \<and> dr_quarantine_reason d = None \<and> dr_available_at d = enqueued_at"

definition finalize_set :: "'t \<Rightarrow> 't delivery_row \<Rightarrow> 't delivery_row option" where
  "finalize_set delivered_at d =
     Some (d\<lparr>dr_state := ''delivered'', dr_delivered_at := Some delivered_at\<rparr>)"

lemma imported_delivery_with_sel [simp]:
  "dr_event_row_id (imported_delivery_with enc t rid now st) = rid"
  "dr_tenant_id (imported_delivery_with enc t rid now st) = t"
  "dr_available_at (imported_delivery_with enc t rid now st) = now"
  "dr_attempts (imported_delivery_with enc t rid now st) = 0"
  by (auto simp: imported_delivery_with_def split: ImportedDeliveryState.split)

lemma imported_delivery_with_check:
  "delivery_check (imported_delivery_with enc t rid now st) \<longleftrightarrow> t \<noteq> [] \<and> length t \<le> 255"
  by (cases st) (auto simp: imported_delivery_with_def delivery_check_def delivery_shape_def opt_within_def)

lemma imported_delivery_with_matches: "matches_import_with enc (imported_delivery_with enc t rid now st) st now"
  by (cases st) (simp_all add: matches_import_with_def canonical_def imported_delivery_with_def)

lemma finalize_where_iff:
  "finalize_where tenant rid q d \<longleftrightarrow>
     dr_tenant_id d = tenant \<and> dr_event_row_id d = rid \<and> canonical_pending d q"
  by (auto simp: finalize_where_def canonical_pending_def canonical_def)

lemma finalize_set_key:
  "finalize_set t d = Some e \<Longrightarrow> dr_event_row_id e = dr_event_row_id d \<and> dr_tenant_id e = dr_tenant_id d"
  by (auto simp: finalize_set_def)

section \<open>Steps of the lifecycle\<close>

fun mutation_action :: "PreparedMutation \<Rightarrow> bytes \<Rightarrow> action" where
  "mutation_action (PRenew _) k = ActRenew k"
| "mutation_action PAck k = ActAck k"
| "mutation_action (PRetry _ _) k = ActRetry k"
| "mutation_action (PRelease _) k = ActRelease k"
| "mutation_action (PQuarantine _) k = ActQuarantine k"

lemma mutation_refines:
  assumes "mutation_where row_id tenant token now d" "mutation_set add now p d = Some d'"
    and "delivery_check d"
  shows "spec_step now (mutation_action p (claim_token_bytes token)) (abs_delivery d) (abs_delivery d')"
proof -
  let ?d = "abs_delivery d" and ?k = "claim_token_bytes token"
  have own: "owned now ?k ?d" and phase: "sp_phase ?d = PhClaimed ?k (the (dr_claimed_by d)) (the (dr_claim_expires_at d))"
    using assms(1) by (auto simp: mutation_where_def abs_delivery_def abs_phase_def split: option.splits)
  note defs = abs_delivery_def abs_phase_def
  show ?thesis
  proof (cases p)
    case (PRenew ms)
    have "abs_delivery d' = ?d\<lparr>sp_phase := PhClaimed ?k (the (dr_claimed_by d)) (the (dr_claim_expires_at d'))\<rparr>"
      using assms PRenew by (auto simp: defs mutation_where_def split: option.split)
    then show ?thesis using spec_step.renew [OF own phase] PRenew by simp
  next
    case PAck
    have "abs_delivery d' = ?d\<lparr>sp_phase := PhDelivered now\<rparr>"
      using assms PAck by (auto simp: defs split: option.split)
    then show ?thesis using spec_step.ack [OF own] PAck by simp
  next
    case (PRetry f ms)
    have "abs_delivery d' = ?d\<lparr>sp_phase := PhPending, sp_available_at := dr_available_at d',
        sp_failure := Some (failure_code f, failure_detail f)\<rparr>"
      using assms PRetry by (auto simp: defs split: option.split)
    then show ?thesis using spec_step.retry [OF own] PRetry by simp
  next
    case (PRelease ms)
    have "abs_delivery d' = ?d\<lparr>sp_phase := PhPending, sp_available_at := dr_available_at d'\<rparr>"
      using assms PRelease by (auto simp: defs split: option.split)
    then show ?thesis using spec_step.release [OF own] PRelease by simp
  next
    case (PQuarantine r)
    have "abs_delivery d' = ?d\<lparr>sp_phase := PhQuarantined now (quarantine_reason_str r)\<rparr>"
      using assms PQuarantine by (auto simp: defs split: option.split)
    then show ?thesis using spec_step.quarantine [OF own] PQuarantine by simp
  qed
qed

lemma finalize_refines:
  assumes "canonical_pending d q"
  shows "spec_step now ActFinalize (abs_delivery d)
    (abs_delivery (d\<lparr>dr_state := ''delivered'', dr_delivered_at := Some t\<rparr>))"
proof -
  have "abs_delivery (d\<lparr>dr_state := ''delivered'', dr_delivered_at := Some t\<rparr>)
      = (abs_delivery d)\<lparr>sp_phase := PhDelivered t\<rparr>"
    by (simp add: abs_delivery_def abs_phase_def split: option.split)
  moreover have "sp_phase (abs_delivery d) = PhPending" "sp_attempts (abs_delivery d) = 0"
    "sp_failure (abs_delivery d) = None"
    using assms by (simp_all add: canonical_pending_def canonical_def abs_delivery_def abs_phase_def)
  ultimately show ?thesis using spec_step.finalize by metis
qed

section \<open>Rows of a store\<close>

text \<open>Every delivery of \<open>db\<close> is kept or takes one step.\<close>

definition row_steps :: "('t::linorder) db \<Rightarrow> 't db \<Rightarrow> int \<Rightarrow> bool" where
  "row_steps db db' r \<longleftrightarrow> (\<forall>d. db_spec db r = Some d \<longrightarrow>
     (\<exists>d'. db_spec db' r = Some d' \<and> (d' = d \<or> (\<exists>now a. spec_step now a d d'))))"

lemma row_steps_same: "find_delivery db' r = find_delivery db r \<Longrightarrow> row_steps db db' r"
  by (auto simp: row_steps_def db_spec_def)

lemma find_append_Some: "find P xs = Some x \<Longrightarrow> find P (xs @ ys) = Some x"
  by (induction xs) auto

lemma row_steps_append:
  "db_deliveries db' = db_deliveries db @ ds \<Longrightarrow> row_steps db db' r"
  by (auto simp: row_steps_def db_spec_def find_delivery_def dest: find_append_Some)

text \<open>A lookup by key within the scope.\<close>

lemma find_scoped:
  assumes "distinct (map dr_event_row_id (db_deliveries db))"
  shows "find (\<lambda>d. dr_event_row_id d = r \<and> tenant_matches tenant d) (db_deliveries db)
      = (case find_delivery db r of None \<Rightarrow> None
         | Some d \<Rightarrow> if tenant_matches tenant d then Some d else None)"
proof (cases "find_delivery db r")
  case None
  then have "\<forall>d \<in> set (db_deliveries db). dr_event_row_id d \<noteq> r"
    by (simp add: find_delivery_def find_None_set)
  then have "find (\<lambda>d. dr_event_row_id d = r \<and> tenant_matches tenant d) (db_deliveries db) = None"
    by (auto simp: find_None_set)
  then show ?thesis using None by simp
next
  case (Some d)
  then have d: "d \<in> set (db_deliveries db)" "dr_event_row_id d = r"
    using find_delivery_Some_iff [OF assms] by auto
  show ?thesis
  proof (cases "tenant_matches tenant d")
    case True
    then show ?thesis using Some d
      find_key_weaker [OF assms d(1), of "\<lambda>d. dr_event_row_id d = r \<and> tenant_matches tenant d"] by simp
  next
    case False
    then have "find (\<lambda>d. dr_event_row_id d = r \<and> tenant_matches tenant d) (db_deliveries db) = None"
      using d by (auto simp: find_None_set dest: inj_onD [OF distinct_map [THEN iffD1, OF assms, THEN conjunct2]])
    then show ?thesis using Some False by simp
  qed
qed

text \<open>A delivery keeps its key, so in a consistent state it keeps its tenant.\<close>

lemma delivery_tenant:
  assumes "db_ok db" "find_delivery db n = Some d" "r \<in> set (db_events db)" "er_row_id r = n"
  shows "dr_tenant_id d = er_tenant_id r" and "d \<in> set (db_deliveries db)" and "dr_event_row_id d = n"
proof -
  show d: "d \<in> set (db_deliveries db)" "dr_event_row_id d = n"
    using assms(2) by (auto simp: find_delivery_def dest: find_Some_in)
  then obtain r' where "r' \<in> set (db_events db)" "er_row_id r' = n" "er_tenant_id r' = dr_tenant_id d"
    using assms(1) by (auto simp: db_ok_def list_all_iff)
  moreover have "distinct (map er_row_id (db_events db))" using assms(1) by (simp add: db_ok_def)
  ultimately show "dr_tenant_id d = er_tenant_id r"
    using assms(3,4) by (metis find_key_unique option.inject)
qed

lemma db_paired_find:
  assumes "db_ok db"
  shows "db_paired db \<longleftrightarrow> (\<forall>r \<in> set (db_events db). find_delivery db (er_row_id r) \<noteq> None)"
proof -
  have "find_delivery db (er_row_id r) \<noteq> None \<longleftrightarrow>
      (\<exists>d \<in> set (db_deliveries db). dr_event_row_id d = er_row_id r \<and> dr_tenant_id d = er_tenant_id r)"
    if r: "r \<in> set (db_events db)" for r
  proof
    assume "find_delivery db (er_row_id r) \<noteq> None"
    then obtain d where "find_delivery db (er_row_id r) = Some d" by blast
    then show "\<exists>d \<in> set (db_deliveries db). dr_event_row_id d = er_row_id r \<and> dr_tenant_id d = er_tenant_id r"
      using delivery_tenant [OF assms _ r refl] by blast
  qed (auto simp: find_delivery_def find_None_set)
  then show ?thesis by (simp add: db_paired_def)
qed

lemma db_paired_step:
  assumes "db_ok db" "db_ok db'" "db_paired db" and steps: "\<And>r. row_steps db db' r"
    and new: "\<And>r. r \<in> set (db_events db') \<Longrightarrow> r \<notin> set (db_events db) \<Longrightarrow>
      find_delivery db' (er_row_id r) \<noteq> None"
  shows "db_paired db'"
proof -
  have "find_delivery db' (er_row_id r) \<noteq> None" if "r \<in> set (db_events db')" for r
  proof (cases "r \<in> set (db_events db)")
    case True
    then have "find_delivery db (er_row_id r) \<noteq> None" using assms(1,3) db_paired_find by blast
    then show ?thesis using steps [of "er_row_id r"] by (auto simp: row_steps_def db_spec_def)
  qed (use new that in blast)
  then show ?thesis using db_paired_find [OF assms(2)] by blast
qed

section \<open>Rows of other tenants\<close>

definition same_outside :: "string \<Rightarrow> 't db \<Rightarrow> 't db \<Rightarrow> bool" where
  "same_outside t db db' \<longleftrightarrow>
     (\<forall>r. er_tenant_id r \<noteq> t \<longrightarrow> (r \<in> set (db_events db) \<longleftrightarrow> r \<in> set (db_events db')))
     \<and> (\<forall>d. dr_tenant_id d \<noteq> t \<longrightarrow> (d \<in> set (db_deliveries db) \<longleftrightarrow> d \<in> set (db_deliveries db')))"

lemma same_outside_refl [simp]: "same_outside t db db"
  by (simp add: same_outside_def)

text \<open>When the events are unchanged it is enough to look at the deliveries by key.\<close>

lemma same_outside_find:
  assumes "db_ok db" "db_ok db'" "db_events db' = db_events db"
    and "\<And>r. find_delivery db' r = find_delivery db r
      \<or> (\<exists>d d'. find_delivery db r = Some d \<and> find_delivery db' r = Some d'
           \<and> dr_tenant_id d = t \<and> dr_tenant_id d' = t)"
  shows "same_outside t db db'"
proof -
  have key: "d \<in> set (db_deliveries x) \<longleftrightarrow> find_delivery x (dr_event_row_id d) = Some d"
    if "db_ok x" for x :: "'a db" and d
    using that find_delivery_Some_iff [of x] by (simp add: db_ok_def)
  show ?thesis
    unfolding same_outside_def key [OF assms(1)] key [OF assms(2)] assms(3)
    using assms(4) by (metis option.inject)
qed

end
