(* ===== verification/Sqlite_Import.thy ===== *)
theory Sqlite_Import
  imports Sqlite_Enqueue Sqlite_Schema Adapter_Delivery
begin

text \<open>
  \<open>crates/dovecote-sqlx-sqlite/src/delivery_state.rs\<close>, \<open>import.rs\<close> and \<open>finalize.rs\<close>: the
  migration-only operations. An import stores an event with a delivery that is pending or
  already delivered; a finalisation turns the untouched pending delivery of an import into a
  delivered one. Both run in a write transaction of the caller, whose working state is returned
  with the outcome, and both are idempotent.
\<close>

text \<open>What the schema check of \<open>schema.rs\<close> needs: the lower-case table, the build, the catalog.\<close>

record schema_view =
  sv_lower :: "nat \<Rightarrow> nat list"
  sv_build :: sqlite_build
  sv_catalog :: sqlite_catalog

definition check_schema_view :: "schema_view \<Rightarrow> SqliteSchemaError + unit" where
  "check_schema_view sv = check_schema_connection (sv_lower sv) (build_migrations (sv_build sv))
     (build_version (sv_build sv)) (sv_catalog sv)"

section \<open>Canonical delivery shapes\<close>

definition matches_import ::
  "ext_lib \<Rightarrow> string delivery_row \<Rightarrow> ImportedDeliveryState \<Rightarrow> string \<Rightarrow> bool" where
  "matches_import lib row state enqueued_at =
     matches_import_with (sqlite_format_timestamp lib) row state enqueued_at"

section \<open>Import\<close>

fun import_map_schema_error :: "SqliteSchemaError \<Rightarrow> SqliteImportError" where
  "import_map_schema_error (SSchMigrationMismatch detail) = SImpMigrationMismatch detail"
| "import_map_schema_error (SSchBusyExhausted operation source) = SImpBusyExhausted operation source"
| "import_map_schema_error (SSchSql operation source) = SImpSql operation source"

definition import_row_id :: "int \<Rightarrow> SqliteImportError + RowId" where
  "import_row_id value = map_err (\<lambda>e. SImpSerialization (verror_to_string e)) (row_id_new value)"

definition import_hydrate_error :: "hydrate_error \<Rightarrow> SqliteImportError" where
  "import_hydrate_error e = (case e of HErr d \<Rightarrow> SImpSerialization d | HPanic \<Rightarrow> SImpPanic)"

definition imported_delivery ::
  "ext_lib \<Rightarrow> string \<Rightarrow> int \<Rightarrow> string \<Rightarrow> ImportedDeliveryState \<Rightarrow> string delivery_row" where
  "imported_delivery lib tenant rid operation_time state =
     imported_delivery_with (sqlite_format_timestamp lib) tenant rid operation_time state"

definition import_insert_delivery ::
  "ext_lib \<Rightarrow> sqlite_env \<Rightarrow> TenantId \<Rightarrow> int \<Rightarrow> string \<Rightarrow> ImportedDeliveryState \<Rightarrow> sqlite_db
     \<Rightarrow> SqliteImportError + sqlite_db" where
  "import_insert_delivery lib env tenant event_row_id operation_time state db =
     map_err (import_error_sql ''insert imported delivery'')
       (sql_insert_delivery env ''insert imported delivery''
         (imported_delivery lib (tenant_id_str tenant) event_row_id operation_time state) db)"

text \<open>The branch that finds the identity already stored.\<close>

definition import_existing ::
  "ext_lib \<Rightarrow> sqlite_env \<Rightarrow> TenantId \<Rightarrow> NewEvent \<Rightarrow> ImportedDeliveryState \<Rightarrow> sqlite_db
     \<Rightarrow> SqliteImportError + ImportOutcome" where
  "import_existing lib env tenant event state db =
     and_then (map_err (import_error_sql ''find imported event'')
       (run_or (env_fault env ''find imported event'' 0)
         (find_identity db (tenant_id_str tenant) (source_str (ec_source (new_content event)))
           (event_id_str (ec_id (new_content event)))))) (\<lambda>found.
     and_then (ok_or (import_error_sql ''resolve imported event''
         (SqlxProtocol ''identity insert returned no row'')) found) (\<lambda>existing.
     and_then (import_row_id (er_row_id existing)) (\<lambda>existing_id.
     and_then (map_err import_hydrate_error (validate_existing_event lib existing)) (\<lambda>_.
     if \<not> same_event lib event existing then Inl (SImpIdentityConflict existing_id)
     else
     and_then (map_err (import_error_sql ''find imported delivery'')
       (run_or (env_fault env ''find imported delivery'' (er_row_id existing))
         (find (\<lambda>d. dr_tenant_id d = tenant_id_str tenant \<and> dr_event_row_id d = er_row_id existing)
           (db_deliveries db)))) (\<lambda>found.
     and_then (ok_or (SImpMigrationMismatch ''an existing event has no delivery row'') found) (\<lambda>delivery.
     if matches_import lib delivery state (er_enqueued_at existing)
       then Inr (AlreadyImported existing_id)
     else Inl (SImpImportConflict existing_id)))))))"

definition import_operation_time :: "ext_lib \<Rightarrow> sqlite_env \<Rightarrow> SqliteImportError + string" where
  "import_operation_time lib env =
     and_then (map_err (import_error_sql ''read import operation time'')
       (run_or (env_fault env ''read import operation time'' 0) (env_now env))) (\<lambda>text.
     and_then (map_err import_hydrate_error (sqlite_parse_timestamp lib text)) (\<lambda>operation_time.
       Inr (sqlite_format_timestamp lib operation_time)))"

definition import_prepare ::
  "ext_lib \<Rightarrow> schema_view \<Rightarrow> sqlite_env \<Rightarrow> ImportedDeliveryState \<Rightarrow> SqliteImportError + string" where
  "import_prepare lib sv env state =
     and_then (map_err SImpInvalidState (imported_validate state)) (\<lambda>_.
     and_then (map_err (import_error_sql ''inspect import transaction state'') (env_txn_write env))
       (\<lambda>is_write.
     if \<not> is_write then Inl SImpWriteTransactionRequired
     else
     and_then (map_err import_map_schema_error (check_schema_view sv)) (\<lambda>_.
       import_operation_time lib env)))"

definition import_for_scope ::
  "ext_lib \<Rightarrow> schema_view \<Rightarrow> sqlite_env \<Rightarrow> TenantId \<Rightarrow> NewEvent \<Rightarrow> ImportedDeliveryState \<Rightarrow> sqlite_db
     \<Rightarrow> (SqliteImportError + ImportOutcome) \<times> sqlite_db" where
  "import_for_scope lib sv env tenant event state db =
     (case import_prepare lib sv env state of
        Inl e \<Rightarrow> (Inl e, db)
      | Inr operation_time \<Rightarrow>
     case sql_insert_event env ''insert imported event''
         (\<lambda>rid. event_columns lib (tenant_id_str tenant) (new_content event) rid operation_time) db of
        Inl e \<Rightarrow> (Inl (import_error_sql ''insert imported event'' e), db)
      | Inr (None, db1) \<Rightarrow> (import_existing lib env tenant event state db1, db1)
      | Inr (Some inserted, db1) \<Rightarrow>
     case import_row_id (er_row_id inserted) of
        Inl e \<Rightarrow> (Inl e, db1)
      | Inr row_id \<Rightarrow>
     case import_insert_delivery lib env tenant (er_row_id inserted) operation_time state db1 of
        Inl e \<Rightarrow> (Inl e, db1)
      | Inr db2 \<Rightarrow> (Inr (Imported row_id), db2))"

section \<open>Finalisation\<close>

fun finalize_map_schema_error :: "SqliteSchemaError \<Rightarrow> SqliteFinalizeError" where
  "finalize_map_schema_error (SSchMigrationMismatch detail) = SFinMigrationMismatch detail"
| "finalize_map_schema_error (SSchBusyExhausted operation source) = SFinBusyExhausted operation source"
| "finalize_map_schema_error (SSchSql operation source) = SFinSql operation source"

text \<open>The reads before the update: what is found, or the outcome when there is nothing to do.\<close>

definition finalize_prepare ::
  "ext_lib \<Rightarrow> schema_view \<Rightarrow> sqlite_env \<Rightarrow> TenantId \<Rightarrow> RowId \<Rightarrow> offset_date_time \<Rightarrow> sqlite_db
     \<Rightarrow> SqliteFinalizeError + (string event_row \<times> string delivery_row)" where
  "finalize_prepare lib sv env tenant row_id delivered_at db =
     and_then (map_err SFinInvalidTimestamp (imported_delivered delivered_at)) (\<lambda>_.
     and_then (map_err (finalize_error_sql ''inspect finalization transaction state'')
       (env_txn_write env)) (\<lambda>is_write.
     if \<not> is_write then Inl SFinWriteTransactionRequired
     else
     and_then (map_err finalize_map_schema_error (check_schema_view sv)) (\<lambda>_.
     and_then (map_err (finalize_error_sql ''lock migration event'')
       (run_or (env_fault env ''lock migration event'' (row_id_get row_id))
         (find_event db (tenant_id_str tenant) (row_id_get row_id)))) (\<lambda>found.
     and_then (ok_or SFinNotFound found) (\<lambda>event.
     and_then (map_err (finalize_error_sql ''lock migration delivery'')
       (run_or (env_fault env ''lock migration delivery'' (row_id_get row_id))
         (find (\<lambda>d. dr_tenant_id d = tenant_id_str tenant \<and> dr_event_row_id d = row_id_get row_id)
           (db_deliveries db)))) (\<lambda>found.
     and_then (ok_or (SFinMigrationMismatch ''an existing event has no delivery row'') found)
       (\<lambda>delivery. Inr (event, delivery))))))))"

definition finalize_for_scope ::
  "ext_lib \<Rightarrow> schema_view \<Rightarrow> sqlite_env \<Rightarrow> TenantId \<Rightarrow> RowId \<Rightarrow> offset_date_time \<Rightarrow> sqlite_db
     \<Rightarrow> (SqliteFinalizeError + FinalizeOutcome) \<times> sqlite_db" where
  "finalize_for_scope lib sv env tenant row_id delivered_at db =
     (case finalize_prepare lib sv env tenant row_id delivered_at db of
        Inl e \<Rightarrow> (Inl e, db)
      | Inr (event, delivery) \<Rightarrow>
     let delivered_at = sqlite_format_timestamp lib delivered_at in
     if dr_state delivery = ''delivered'' \<and> canonical delivery (er_enqueued_at event)
        \<and> dr_delivered_at delivery = Some delivered_at
       then (Inr (AlreadyFinalized row_id), db)
     else if \<not> canonical_pending delivery (er_enqueued_at event)
       then (Inl (SFinStateConflict row_id), db)
     else case sql_update_deliveries env ''finalize migration delivery'' (row_id_get row_id)
         (finalize_where (tenant_id_str tenant) (row_id_get row_id) (er_enqueued_at event))
         (finalize_set delivered_at) db of
        Inl e \<Rightarrow> (Inl (finalize_error_sql ''finalize migration delivery'' e), db)
      | Inr (rows, db1) \<Rightarrow>
          if length rows \<noteq> 1 then (Inl (SFinStateConflict row_id), db1)
          else (Inr (Finalized row_id), db1))"

section \<open>What an import does\<close>

lemma imported_delivery_sel [simp]:
  "dr_event_row_id (imported_delivery lib t rid now st) = rid"
  "dr_tenant_id (imported_delivery lib t rid now st) = t"
  "dr_available_at (imported_delivery lib t rid now st) = now"
  "dr_attempts (imported_delivery lib t rid now st) = 0"
  by (simp_all add: imported_delivery_def)

lemma imported_delivery_check:
  "delivery_check (imported_delivery lib t rid now st) \<longleftrightarrow> t \<noteq> [] \<and> length t \<le> 255"
  by (simp add: imported_delivery_def imported_delivery_with_check)

lemma imported_delivery_matches: "matches_import lib (imported_delivery lib t rid now st) st now"
  by (simp add: matches_import_def imported_delivery_def imported_delivery_with_matches)

lemma import_existing_Inr:
  assumes "import_existing lib env tenant event state db = Inr out"
  obtains r d where
    "find_identity db (tenant_id_str tenant) (source_str (ec_source (new_content event)))
       (event_id_str (ec_id (new_content event))) = Some r"
    "out = AlreadyImported (RowId (er_row_id r))" "same_event lib event r"
    "find (\<lambda>d. dr_tenant_id d = tenant_id_str tenant \<and> dr_event_row_id d = er_row_id r)
       (db_deliveries db) = Some d"
    "matches_import lib d state (er_enqueued_at r)"
  using assms unfolding import_existing_def and_then_Inr_iff map_err_Inr_iff ok_or_Inr_iff
    run_or_Inr_iff import_row_id_def row_id_new_Inr_iff if_Inl_eq_Inr
  by (auto split: if_splits)

lemma import_for_scope_Inr:
  assumes "import_for_scope lib sv env tenant event state db = (Inr out, db')"
  obtains
    (existing) now where "import_prepare lib sv env state = Inr now" "db' = db"
      "import_existing lib env tenant event state db = Inr out"
  | (inserted) now row where "import_prepare lib sv env state = Inr now"
      "sql_insert_event env ''insert imported event''
         (\<lambda>rid. event_columns lib (tenant_id_str tenant) (new_content event) rid now) db
         = Inr (Some row, db\<lparr>db_events := db_events db @ [row], db_last_row_id := er_row_id row\<rparr>)"
      "0 < er_row_id row" "out = Imported (RowId (er_row_id row))"
      "import_insert_delivery lib env tenant (er_row_id row) now state
         (db\<lparr>db_events := db_events db @ [row], db_last_row_id := er_row_id row\<rparr>) = Inr db'"
proof -
  obtain now where now: "import_prepare lib sv env state = Inr now"
    using assms by (auto simp: import_for_scope_def split: sum.splits)
  let ?ins = "sql_insert_event env ''insert imported event''
    (\<lambda>rid. event_columns lib (tenant_id_str tenant) (new_content event) rid now) db"
  obtain ret db1 where ins: "?ins = Inr (ret, db1)"
    using assms now by (cases ?ins) (auto simp: import_for_scope_def)
  show thesis
  proof (cases ret)
    case None
    with ins have "db1 = db" by (auto dest: sql_insert_event_None)
    then show thesis using assms now ins None by (intro existing) (auto simp: import_for_scope_def)
  next
    case (Some row)
    with ins have "db1 = db\<lparr>db_events := db_events db @ [row], db_last_row_id := er_row_id row\<rparr>"
      using sql_insert_event_Some(1,2) [of env _ _ db row db1] event_columns_sel(1) by metis
    then show thesis
      using assms now ins Some inserted [OF now]
      by (auto simp: import_for_scope_def import_row_id_def row_id_new_Inr_iff split: sum.splits)
  qed
qed

lemma import_insert_delivery_Inr:
  "import_insert_delivery lib env tenant rid now state db = Inr db' \<Longrightarrow>
     db' = db\<lparr>db_deliveries := db_deliveries db @
       [imported_delivery lib (tenant_id_str tenant) rid now state]\<rparr>"
  by (auto simp: import_insert_delivery_def dest: sql_insert_delivery_row(1))

lemma import_Imported:
  assumes "import_for_scope lib sv env tenant event state db = (Inr (Imported rid), db')"
  shows "\<exists>n now. import_operation_time lib env = Inr now \<and> rid = RowId n
    \<and> n = db_last_row_id db + 1 + int (env_row_id_gap env)
    \<and> event_identity (event_columns lib (tenant_id_str tenant) (new_content event) n now)
        \<notin> event_identity ` set (db_events db)
    \<and> db' = \<lparr>db_events = db_events db @
              [event_columns lib (tenant_id_str tenant) (new_content event) n now],
            db_deliveries = db_deliveries db @
              [imported_delivery lib (tenant_id_str tenant) n now state],
            db_last_row_id = n\<rparr>"
  using assms
proof (cases rule: import_for_scope_Inr)
  case (existing now)
  then show ?thesis by (auto elim: import_existing_Inr)
next
  case (inserted now row)
  have "import_operation_time lib env = Inr now"
    using inserted(1) by (auto simp: import_prepare_def and_then_Inr_iff split: if_splits)
  then show ?thesis
    using sql_insert_event_Some [OF inserted(2)] inserted(4) import_insert_delivery_Inr [OF inserted(5)]
    by (intro exI [of _ "er_row_id row"] exI [of _ now]) (cases db, auto)
qed

lemma import_AlreadyImported:
  assumes "db_ok db"
    and "import_for_scope lib sv env tenant event state db = (Inr (AlreadyImported rid), db')"
  shows "db' = db \<and> (\<exists>r \<in> set (db_events db). \<exists>d \<in> set (db_deliveries db).
    rid = RowId (er_row_id r) \<and> dr_event_row_id d = er_row_id r
    \<and> r = event_columns lib (tenant_id_str tenant) (new_content event) (er_row_id r) (er_enqueued_at r)
    \<and> matches_import lib d state (er_enqueued_at r))"
proof -
  have uniq: "distinct (map event_identity (db_events db))" using assms(1) by (simp add: db_ok_def)
  from assms(2) have same: "db' = db"
    and ex: "import_existing lib env tenant event state db = Inr (AlreadyImported rid)"
    by (auto elim: import_for_scope_Inr)
  from ex show ?thesis
  proof (cases rule: import_existing_Inr)
    case (1 r d)
    have "r \<in> set (db_events db)" "er_tenant_id r = tenant_id_str tenant"
      using 1(1) find_identity_Some_iff [OF uniq] by (auto simp: event_identity_def)
    then show ?thesis using 1 same by (auto simp: same_event_iff dest!: find_Some_in)
  qed
qed

lemma import_keeps_ok:
  assumes "db_ok db" and "import_for_scope lib sv env tenant event state db = (Inr out, db')"
  shows "db_ok db'"
  using assms(2)
proof (cases rule: import_for_scope_Inr)
  case (inserted now row)
  note ok1 = sql_insert_event_ok [OF assms(1) inserted(2) event_columns_sel(1)]
  show ?thesis
    using inserted(5) sql_insert_delivery_ok(1) [OF ok1] by (simp add: import_insert_delivery_def)
qed (use assms in auto)

text \<open>A repeated import of the same content and state is answered from the stored rows.\<close>

definition import_quiet :: "sqlite_env \<Rightarrow> bool" where
  "import_quiet env \<longleftrightarrow> (\<forall>label rid. env_fault env label rid = None)"

lemma import_replay_row:
  assumes "db_ok db" and r: "r \<in> set (db_events db)"
    and row: "r = event_columns lib (tenant_id_str tenant) (new_content event) n q"
    and d: "find_delivery db n = Some d" "dr_tenant_id d = tenant_id_str tenant"
      "matches_import lib d state q"
    and content: "event_content_wf lib (new_content event)"
      "validate_content lib (new_content event) limit = Inr ()"
      "durable_codecs lib (new_content event)"
    and quiet: "import_quiet env"
    and prep: "import_prepare lib sv env state = Inr now"
    and space: "db_last_row_id db + 1 + int (env_row_id_gap env) \<le> i64_max"
  shows "import_for_scope lib sv env tenant event state db = (Inr (AlreadyImported (RowId n)), db)"
proof -
  have "env_fault env ''insert imported event'' 0 = None" using quiet by (simp add: import_quiet_def)
  note again = insert_stored_again [OF assms(1) r row content space this]
  have n: "er_row_id r = n" and q: "er_enqueued_at r = q" using row by simp_all
  have key: "distinct (map dr_event_row_id (db_deliveries db))"
    using assms(1) by (simp add: db_ok_def)
  have "d \<in> set (db_deliveries db)" "dr_event_row_id d = n"
    using d(1) find_delivery_Some_iff [OF key] by auto
  then have "find (\<lambda>d. dr_tenant_id d = tenant_id_str tenant \<and> dr_event_row_id d = n)
      (db_deliveries db) = Some d"
    using d(2) key by (intro find_key_weaker [of dr_event_row_id]) auto
  then have "import_existing lib env tenant event state db = Inr (AlreadyImported (RowId n))"
    using quiet again(2-5) d(3)
    by (simp add: import_existing_def import_quiet_def import_row_id_def n q)
  then show ?thesis using prep again(1) by (simp add: import_for_scope_def)
qed

section \<open>What a finalisation does\<close>

lemma finalize_prepare_Inr:
  assumes "finalize_prepare lib sv env tenant row_id t db = Inr (r, d)"
  shows "find_event db (tenant_id_str tenant) (row_id_get row_id) = Some r"
    and "d \<in> set (db_deliveries db)" "dr_tenant_id d = tenant_id_str tenant"
      "dr_event_row_id d = row_id_get row_id"
    and "imported_validate (ImportDelivered t) = Inr ()" "env_txn_write env = Inr True"
      "check_schema_view sv = Inr ()"
proof -
  from assms have found:
    "find_event db (tenant_id_str tenant) (row_id_get row_id) = Some r"
    "find (\<lambda>d. dr_tenant_id d = tenant_id_str tenant \<and> dr_event_row_id d = row_id_get row_id)
      (db_deliveries db) = Some d"
    "imported_validate (ImportDelivered t) = Inr ()" "env_txn_write env = Inr True"
    "check_schema_view sv = Inr ()"
    unfolding finalize_prepare_def and_then_Inr_iff map_err_Inr_iff ok_or_Inr_iff run_or_Inr_iff
      if_Inl_eq_Inr imported_delivered_def canonicalize_instant_def
    by auto
  from found(2) show "d \<in> set (db_deliveries db)" "dr_tenant_id d = tenant_id_str tenant"
      "dr_event_row_id d = row_id_get row_id"
    by (auto dest: find_Some_in)
  show "find_event db (tenant_id_str tenant) (row_id_get row_id) = Some r"
    "imported_validate (ImportDelivered t) = Inr ()" "env_txn_write env = Inr True"
    "check_schema_view sv = Inr ()" by (rule found)+
qed

lemma finalize_for_scope_cases:
  assumes "finalize_for_scope lib sv env tenant row_id t db = (res, db')"
  obtains
    (failed) e where "res = Inl e" "db' = db"
  | (already) r d where "finalize_prepare lib sv env tenant row_id t db = Inr (r, d)"
      "res = Inr (AlreadyFinalized row_id)" "db' = db" "dr_state d = ''delivered''"
      "canonical d (er_enqueued_at r)" "dr_delivered_at d = Some (sqlite_format_timestamp lib t)"
  | (updated) r d rows where "finalize_prepare lib sv env tenant row_id t db = Inr (r, d)"
      "canonical_pending d (er_enqueued_at r)"
      "sql_update_deliveries env ''finalize migration delivery'' (row_id_get row_id)
         (finalize_where (tenant_id_str tenant) (row_id_get row_id) (er_enqueued_at r))
         (finalize_set (sqlite_format_timestamp lib t)) db = Inr (rows, db')"
      "res = (if length rows \<noteq> 1 then Inl (SFinStateConflict row_id) else Inr (Finalized row_id))"
proof (cases "finalize_prepare lib sv env tenant row_id t db")
  case (Inl e)
  then show thesis using assms by (intro failed [of e]) (simp_all add: finalize_for_scope_def)
next
  case (Inr rd)
  obtain r d where rd: "rd = (r, d)" by (cases rd)
  let ?upd = "sql_update_deliveries env ''finalize migration delivery'' (row_id_get row_id)
    (finalize_where (tenant_id_str tenant) (row_id_get row_id) (er_enqueued_at r))
    (finalize_set (sqlite_format_timestamp lib t)) db"
  have pend: "canonical_pending d (er_enqueued_at r) \<Longrightarrow> dr_state d \<noteq> ''delivered''"
    by (simp add: canonical_pending_def)
  consider (already) "dr_state d = ''delivered''" "canonical d (er_enqueued_at r)"
      "dr_delivered_at d = Some (sqlite_format_timestamp lib t)"
    | (pending) "canonical_pending d (er_enqueued_at r)"
      "dr_state d \<noteq> ''delivered''"
    | (conflict) "\<not> canonical_pending d (er_enqueued_at r)"
      "\<not> (dr_state d = ''delivered'' \<and> canonical d (er_enqueued_at r)
          \<and> dr_delivered_at d = Some (sqlite_format_timestamp lib t))"
    using pend by blast
  then show thesis
  proof cases
    case already
    then have "res = Inr (AlreadyFinalized row_id)" "db' = db"
      using assms Inr rd by (simp_all add: finalize_for_scope_def Let_def)
    then show thesis using already Inr rd by (intro that(2) [of r d]) simp_all
  next
    case pending
    then have eq: "(res, db') = (case ?upd of
          Inl e \<Rightarrow> (Inl (finalize_error_sql ''finalize migration delivery'' e), db)
        | Inr (rows, db1) \<Rightarrow> if length rows \<noteq> 1 then (Inl (SFinStateConflict row_id), db1)
            else (Inr (Finalized row_id), db1))"
      unfolding assms [symmetric] using Inr rd by (simp add: finalize_for_scope_def)
    show thesis
    proof (cases ?upd)
      case (Inl e)
      then show thesis using eq that(1) by simp
    next
      case upd: (Inr a)
      then have "a = (fst a, db')" and "res = (if length (fst a) \<noteq> 1
          then Inl (SFinStateConflict row_id) else Inr (Finalized row_id))"
        using eq by (auto simp: case_prod_beta prod_eq_iff split: if_splits)
      then show thesis using Inr rd pending upd by (intro that(3) [of r d "fst a"]) auto
    qed
  next
    case conflict
    then show thesis
      using assms Inr rd by (intro that(1)) (auto simp: finalize_for_scope_def Let_def)
  qed
qed

text \<open>
  The update always hits the one row that was read, so a finalisation either succeeds or leaves
  the tables as they were.
\<close>

lemma finalize_updated:
  assumes "db_ok db" and prep: "finalize_prepare lib sv env tenant row_id t db = Inr (r, d)"
    and pend: "canonical_pending d (er_enqueued_at r)"
    and upd: "sql_update_deliveries env ''finalize migration delivery'' (row_id_get row_id)
         (finalize_where (tenant_id_str tenant) (row_id_get row_id) (er_enqueued_at r))
         (finalize_set (sqlite_format_timestamp lib t)) db = Inr (rows, db')"
  shows "length rows = 1"
    and "db' = db\<lparr>db_deliveries := update_rows (\<lambda>e. dr_event_row_id e = row_id_get row_id)
        (\<lambda>e. e\<lparr>dr_state := ''delivered'', dr_delivered_at := Some (sqlite_format_timestamp lib t)\<rparr>)
        (db_deliveries db)\<rparr>"
proof -
  let ?w = "finalize_where (tenant_id_str tenant) (row_id_get row_id) (er_enqueued_at r)"
  have dist: "distinct (map dr_event_row_id (db_deliveries db))" using assms(1) by (simp add: db_ok_def)
  note d = finalize_prepare_Inr(2-4) [OF prep]
  have only: "?w e \<longleftrightarrow> dr_event_row_id e = row_id_get row_id" if "e \<in> set (db_deliveries db)" for e
  proof -
    have "dr_event_row_id e = row_id_get row_id \<Longrightarrow> e = d"
      using that d dist by (metis find_key_unique option.inject)
    then show ?thesis using d pend by (auto simp: finalize_where_iff)
  qed
  have "filter ?w (db_deliveries db) = [d]"
    by (rule filter_by_key [where n = "row_id_get row_id"]) (use assms(1) d pend only in \<open>auto simp: finalize_where_def\<close>)
  then show "length rows = 1"
    using sql_update_defined(2) [OF upd] by simp
  have "update_rows ?w f (db_deliveries db)
      = update_rows (\<lambda>e. dr_event_row_id e = row_id_get row_id) f (db_deliveries db)" for f
    unfolding update_rows_def by (rule map_cong) (use only in auto)
  then show "db' = db\<lparr>db_deliveries := update_rows (\<lambda>e. dr_event_row_id e = row_id_get row_id)
        (\<lambda>e. e\<lparr>dr_state := ''delivered'', dr_delivered_at := Some (sqlite_format_timestamp lib t)\<rparr>)
        (db_deliveries db)\<rparr>"
    using sql_update_defined(1) [OF upd] by (simp add: finalize_set_def)
qed

lemma finalize_keeps_ok:
  assumes "db_ok db" and "finalize_for_scope lib sv env tenant row_id t db = (res, db')"
  shows "db_ok db'"
  using assms(2)
proof (cases rule: finalize_for_scope_cases)
  case (updated r d rows)
  show ?thesis
    by (rule sql_update_deliveries_ok [OF assms(1) updated(3)]) (auto dest: finalize_set_key)
qed (use assms in auto)

lemma finalize_Inl:
  assumes "db_ok db" and "finalize_for_scope lib sv env tenant row_id t db = (Inl e, db')"
  shows "db' = db"
  using assms(2)
proof (cases rule: finalize_for_scope_cases)
  case (updated r d rows)
  then show ?thesis using finalize_updated(1) [OF assms(1) updated(1-3)] by simp
qed auto

lemma finalize_Finalized:
  assumes "db_ok db" and "finalize_for_scope lib sv env tenant row_id t db = (Inr (Finalized rid), db')"
  obtains r d where "finalize_prepare lib sv env tenant row_id t db = Inr (r, d)" "rid = row_id"
    "canonical_pending d (er_enqueued_at r)"
    "db' = db\<lparr>db_deliveries := update_rows (\<lambda>e. dr_event_row_id e = row_id_get row_id)
        (\<lambda>e. e\<lparr>dr_state := ''delivered'', dr_delivered_at := Some (sqlite_format_timestamp lib t)\<rparr>)
        (db_deliveries db)\<rparr>"
  using assms(2)
proof (cases rule: finalize_for_scope_cases)
  case (updated r d rows)
  then show thesis
    using finalize_updated [OF assms(1) updated(1-3)] by (intro that [of r d]) (auto split: if_splits)
qed auto

lemma finalize_replay_row:
  assumes "db_ok db" and "finalize_for_scope lib sv env tenant row_id t db = (Inr (Finalized rid), db')"
    and "import_quiet env'" "env_txn_write env' = Inr True"
  shows "finalize_for_scope lib sv env' tenant row_id t db' = (Inr (AlreadyFinalized row_id), db')"
proof -
  obtain r d where prep: "finalize_prepare lib sv env tenant row_id t db = Inr (r, d)"
    and pend: "canonical_pending d (er_enqueued_at r)"
    and db': "db' = db\<lparr>db_deliveries := update_rows (\<lambda>e. dr_event_row_id e = row_id_get row_id)
        (\<lambda>e. e\<lparr>dr_state := ''delivered'', dr_delivered_at := Some (sqlite_format_timestamp lib t)\<rparr>)
        (db_deliveries db)\<rparr>"
    using finalize_Finalized [OF assms(1,2)] by metis
  let ?d = "d\<lparr>dr_state := ''delivered'', dr_delivered_at := Some (sqlite_format_timestamp lib t)\<rparr>"
  note pre = finalize_prepare_Inr [OF prep]
  have "distinct (map dr_event_row_id (db_deliveries db'))"
    using finalize_keeps_ok [OF assms(1,2)] by (simp add: db_ok_def)
  moreover have "?d \<in> set (db_deliveries db')"
    using pre(2,4) unfolding db' by (force simp: update_rows_def)
  ultimately have "find (\<lambda>e. dr_tenant_id e = tenant_id_str tenant
      \<and> dr_event_row_id e = row_id_get row_id) (db_deliveries db') = Some ?d"
    using pre(3,4) by (intro find_key_weaker [of dr_event_row_id]) auto
  moreover have "find_event db' (tenant_id_str tenant) (row_id_get row_id) = Some r"
    using pre(1) by (simp add: find_event_def db')
  ultimately have "finalize_prepare lib sv env' tenant row_id t db' = Inr (r, ?d)"
    using assms(3,4) pre(5,7)
    by (simp add: finalize_prepare_def import_quiet_def imported_delivered_def canonicalize_instant_def)
  then show ?thesis
    using pend by (simp add: finalize_for_scope_def canonical_def canonical_pending_def)
qed

text \<open>Importing as pending and finalising is the same as importing as delivered.\<close>

lemma update_rows_fresh: "\<forall>d \<in> set ds. \<not> p d \<Longrightarrow> update_rows p f ds = ds"
  by (auto simp: update_rows_def intro: map_idI)

lemma import_delivered_instead:
  assumes "import_for_scope lib sv env tenant event ImportPending db = (Inr (Imported (RowId n)), db1)"
    and "imported_validate (ImportDelivered t) = Inr ()"
  shows "import_for_scope lib sv env tenant event (ImportDelivered t) db = (Inr (Imported (RowId n)),
    db1\<lparr>db_deliveries := db_deliveries db @ [imported_delivery lib (tenant_id_str tenant) n
      (dr_available_at (last (db_deliveries db1))) (ImportDelivered t)]\<rparr>)"
  using assms(1)
proof (cases rule: import_for_scope_Inr)
  case (existing now)
  then show ?thesis by (auto elim: import_existing_Inr)
next
  case (inserted now row)
  let ?db = "db\<lparr>db_events := db_events db @ [row], db_last_row_id := er_row_id row\<rparr>"
  have n: "er_row_id row = n" using inserted(4) by simp
  have db1: "db1 = ?db\<lparr>db_deliveries := db_deliveries ?db @
      [imported_delivery lib (tenant_id_str tenant) n now ImportPending]\<rparr>"
    using import_insert_delivery_Inr [OF inserted(5)] n by simp
  have "import_prepare lib sv env (ImportDelivered t) = Inr now"
    using inserted(1) assms(2) by (simp add: import_prepare_def)
  moreover have "import_insert_delivery lib env tenant n now (ImportDelivered t) ?db
      = Inr (?db\<lparr>db_deliveries := db_deliveries ?db @
          [imported_delivery lib (tenant_id_str tenant) n now (ImportDelivered t)]\<rparr>)"
    using inserted(5) n
    by (auto simp: import_insert_delivery_def sql_insert_delivery_def imported_delivery_check
        table_insert_delivery_def split: option.splits if_splits)
  ultimately show ?thesis
    using inserted(2,3) n by (simp add: import_for_scope_def import_row_id_def row_id_new_def db1)
qed

lemma import_then_finalize_row:
  assumes "db_ok db"
    and imp: "import_for_scope lib sv env tenant event ImportPending db = (Inr (Imported rid), db1)"
    and fin: "finalize_for_scope lib sv env2 tenant rid t db1 = (Inr (Finalized rid'), db2)"
  shows "import_for_scope lib sv env tenant event (ImportDelivered t) db = (Inr (Imported rid), db2)"
proof -
  obtain n now where n: "rid = RowId n" and db1: "db1 = \<lparr>db_events = db_events db @
        [event_columns lib (tenant_id_str tenant) (new_content event) n now],
      db_deliveries = db_deliveries db @ [imported_delivery lib (tenant_id_str tenant) n now ImportPending],
      db_last_row_id = n\<rparr>"
    using import_Imported [OF imp] by blast
  have ok1: "db_ok db1" by (rule import_keeps_ok [OF assms(1) imp])
  obtain r d where prep: "finalize_prepare lib sv env2 tenant rid t db1 = Inr (r, d)"
    and db2: "db2 = db1\<lparr>db_deliveries := update_rows (\<lambda>e. dr_event_row_id e = row_id_get rid)
        (\<lambda>e. e\<lparr>dr_state := ''delivered'', dr_delivered_at := Some (sqlite_format_timestamp lib t)\<rparr>)
        (db_deliveries db1)\<rparr>"
    using finalize_Finalized [OF ok1 fin] by metis
  have "\<forall>e \<in> set (db_deliveries db). dr_event_row_id e \<noteq> n"
    using ok1 unfolding db1 by (force simp: db_ok_def)
  then have "db_deliveries db2 = db_deliveries db
      @ [imported_delivery lib (tenant_id_str tenant) n now (ImportDelivered t)]"
    unfolding db2 db1 using update_rows_fresh [of "db_deliveries db"]
    by (simp add: n update_rows_def imported_delivery_def imported_delivery_with_def)
  then have "db2 = db1\<lparr>db_deliveries := db_deliveries db
      @ [imported_delivery lib (tenant_id_str tenant) n now (ImportDelivered t)]\<rparr>"
    unfolding db2 db1 by simp
  moreover have "dr_available_at (last (db_deliveries db1)) = now" unfolding db1 by simp
  ultimately show ?thesis
    using import_delivered_instead [OF imp [unfolded n] finalize_prepare_Inr(5) [OF prep]] n by simp
qed

end
