(* ===== verification/Sqlite_Claim.thy ===== *)
theory Sqlite_Claim
  imports Sqlite_Enqueue Adapter_Claim
begin

text \<open>
  \<open>crates/dovecote-sqlx-sqlite/src/lifecycle.rs\<close>: claiming a batch. One attempt takes the writer
  lock, selects eligible deliveries in row order, prepares every candidate (counter, fresh
  token, hydrated event) before it writes, updates the rows, and commits. Any error rolls the
  attempt back. Busy errors repeat the attempt up to the configured number of times.
\<close>

record ClaimRequest =
  cr_tenant_id :: "TenantId option"
  cr_worker :: WorkerId
  cr_lease_for :: Lease
  cr_limit :: PageLimit

text \<open>\<open>CLAIM_SQL\<close> and, with a tenant, \<open>SCOPED_CLAIM_SQL\<close>.\<close>

definition claim_sql :: "TenantId option \<Rightarrow> string \<Rightarrow> nat \<Rightarrow> sqlite_db \<Rightarrow> string durable_row list" where
  "claim_sql tenant_id now limit db =
     claim_rows (\<lambda>e d. claim_scope tenant_id (er_tenant_id e) \<and> claim_eligible now d) limit db"

section \<open>One attempt\<close>

definition claim_hydrate_error :: "hydrate_error \<Rightarrow> SqliteClaimError" where
  "claim_hydrate_error e = (case e of HErr d \<Rightarrow> SClmSerialization d | HPanic \<Rightarrow> SClmPanic)"

definition claim_verror :: "ValidationError \<Rightarrow> SqliteClaimError" where
  "claim_verror e = SClmSerialization (verror_to_string e)"

text \<open>What the body of the first loop computes before it needs entropy.\<close>

definition claim_counter :: "string durable_row \<Rightarrow> SqliteClaimError + (RowId \<times> AttemptCount)" where
  "claim_counter candidate =
     and_then (map_err claim_verror (row_id_new (er_row_id (du_event candidate)))) (\<lambda>row_id.
     and_then (ok_or (SClmMigrationMismatch ''eligible delivery row has no attempts'')
       (du_attempts candidate)) (\<lambda>n.
     and_then (ok_or (SClmCounterOverflow row_id) (checked_add_i64 n 1)) (\<lambda>m.
     and_then (map_err claim_verror (attempt_count_new m)) (\<lambda>attempts. Inr (row_id, attempts)))))"

definition claim_hydrate ::
  "ext_lib \<Rightarrow> string durable_row \<Rightarrow> RowId \<Rightarrow> AttemptCount \<Rightarrow> bytes \<Rightarrow> SqliteClaimError + prepared_claim" where
  "claim_hydrate lib candidate row_id attempts token =
     and_then (map_err claim_hydrate_error (hydrate_event lib (du_event candidate))) (\<lambda>event.
     and_then (map_err claim_verror (tenant_id_new (er_tenant_id (du_event candidate)))) (\<lambda>tenant_id.
       Inr \<lparr>pc_row_id = row_id, pc_event_row_id = er_row_id (du_event candidate),
            pc_tenant_id = tenant_id, pc_event = event, pc_attempts = attempts, pc_token = token\<rparr>))"

definition prepare_claims ::
  "ext_lib \<Rightarrow> bytes list \<Rightarrow> entropy \<Rightarrow> string durable_row list
     \<Rightarrow> ((SqliteClaimError + prepared_claim list) \<times> entropy) option" where
  "prepare_claims lib used entropy candidates =
     prepare_claims_with claim_counter SClmEntropyUnavailable (claim_hydrate lib) used entropy candidates"

text \<open>The second loop: one conditional UPDATE per prepared claim.\<close>

fun apply_claims ::
  "ext_lib \<Rightarrow> sqlite_env \<Rightarrow> string \<Rightarrow> int \<Rightarrow> WorkerId \<Rightarrow> prepared_claim list \<Rightarrow> sqlite_db
     \<Rightarrow> SqliteClaimError + (ClaimedEvent list \<times> sqlite_db)" where
  "apply_claims lib env operation_time lease_ms worker [] work = Inr ([], work)"
| "apply_claims lib env operation_time lease_ms worker (p # ps) work =
     and_then (map_err (claim_error_sql ''update claimed delivery'')
       (sql_update_deliveries env ''update claimed delivery'' (pc_event_row_id p)
         (claim_update_where p)
         (\<lambda>d. Some (claim_update_row (env_strftime_add env operation_time lease_ms) worker p d))
         work)) (\<lambda>(rows, work1).
     and_then (ok_or (claim_error_sql ''update claimed delivery''
         (SqlxProtocol ''claim candidate disappeared while writer lock was held''))
       (case rows of [] \<Rightarrow> None | row # _ \<Rightarrow> dr_claim_expires_at row)) (\<lambda>expiry_text.
     and_then (map_err claim_hydrate_error (sqlite_parse_timestamp lib expiry_text)) (\<lambda>expiry.
     and_then (map_err claim_verror
       (claimed_event_new (pc_tenant_id p) (pc_row_id p) (pc_event p) (pc_attempts p)
         (claim_token_from_bytes (pc_token p)) worker expiry)) (\<lambda>claimed_event.
     and_then (apply_claims lib env operation_time lease_ms worker ps work1) (\<lambda>(claimed, work2).
       Inr (claimed_event # claimed, work2))))))"

text \<open>
  \<open>claim_once\<close>: outcome, remaining entropy and committed state. Every error branch leaves the
  state the attempt started from, which includes what peers committed before the lock.
\<close>

definition claim_once ::
  "ext_lib \<Rightarrow> sqlite_env \<Rightarrow> ClaimRequest \<Rightarrow> BusyConfig \<Rightarrow> entropy \<Rightarrow> sqlite_db
     \<Rightarrow> ((SqliteClaimError + ClaimedEvent list) \<times> entropy \<times> sqlite_db) option" where
  "claim_once lib env request busy entropy db0 =
     (let db = env_peer env db0 in
      case map_err SClmSerialization (checked_milliseconds (lease_get (cr_lease_for request))) of
        Inl e \<Rightarrow> Some (Inl e, entropy, db)
      | Inr lease_ms \<Rightarrow>
      case begin_immediate env busy of
        Inl source \<Rightarrow>
          Some (Inl (claim_error_sql ''begin immediate claim transaction'' source), entropy, db)
      | Inr _ \<Rightarrow>
      case run_or (env_fault env ''read claim operation time'' 0) (env_now env) of
        Inl source \<Rightarrow> Some (Inl (claim_error_sql ''read claim operation time'' source), entropy, db)
      | Inr operation_time \<Rightarrow>
      case run_or (env_fault env ''select claim candidates'' 0)
          (claim_sql (cr_tenant_id request) operation_time (limit_get (cr_limit request)) db) of
        Inl source \<Rightarrow> Some (Inl (claim_error_sql ''select claim candidates'' source), entropy, db)
      | Inr candidates \<Rightarrow>
      case prepare_claims lib [] entropy candidates of
        None \<Rightarrow> None
      | Some (Inl e, rest) \<Rightarrow> Some (Inl e, rest, db)
      | Some (Inr prepared, rest) \<Rightarrow>
      case apply_claims lib env operation_time lease_ms (cr_worker request) prepared db of
        Inl e \<Rightarrow> Some (Inl e, rest, db)
      | Inr (claimed, work) \<Rightarrow>
      case commit_transaction env db work of
        (Inl source, db') \<Rightarrow> Some (Inl (claim_error_sql ''commit claim transaction'' source), rest, db')
      | (Inr _, db') \<Rightarrow> Some (Inr claimed, rest, db'))"

text \<open>The retry loop; \<open>envs n\<close> is what attempt \<open>n\<close> meets.\<close>

function claim_with_entropy_scoped ::
  "ext_lib \<Rightarrow> (nat \<Rightarrow> sqlite_env) \<Rightarrow> ClaimRequest \<Rightarrow> BusyConfig \<Rightarrow> nat \<Rightarrow> entropy \<Rightarrow> sqlite_db
     \<Rightarrow> ((SqliteClaimError + ClaimedEvent list) \<times> entropy \<times> sqlite_db) option" where
  "claim_with_entropy_scoped lib envs request busy tries entropy db =
     (case claim_once lib (envs tries) request busy entropy db of
        None \<Rightarrow> None
      | Some (Inl e, rest, db') \<Rightarrow>
          if claim_busy_source e \<noteq> None \<and> tries < busy_retries busy
            then claim_with_entropy_scoped lib envs request busy (Suc tries) rest db'
          else if claim_busy_source e \<noteq> None then Some (Inl (claim_into_busy_exhausted e), rest, db')
          else Some (Inl e, rest, db')
      | Some (Inr claimed, rest, db') \<Rightarrow> Some (Inr claimed, rest, db'))"
  by pat_completeness auto

termination
  by (relation "measure (\<lambda>(lib, envs, request, busy, tries, entropy, db). busy_retries busy - tries)")
    auto

declare claim_with_entropy_scoped.simps [simp del]

definition claim_for_scope ::
  "ext_lib \<Rightarrow> (nat \<Rightarrow> sqlite_env) \<Rightarrow> ClaimRequest \<Rightarrow> BusyConfig \<Rightarrow> entropy \<Rightarrow> sqlite_db
     \<Rightarrow> ((SqliteClaimError + ClaimedEvent list) \<times> entropy \<times> sqlite_db) option" where
  "claim_for_scope lib envs request busy entropy db =
     (case map_err SClmConfiguration (validate_busy_config busy) of
        Inl e \<Rightarrow> Some (Inl e, entropy, db)
      | Inr _ \<Rightarrow> claim_with_entropy_scoped lib envs request busy 0 entropy db)"

section \<open>The preparation meets the shared interface\<close>

lemma claim_hydrate_sel:
  assumes "claim_hydrate lib c r n k = Inr p"
  shows "pc_row_id p = r \<and> pc_attempts p = n \<and> pc_token p = k
    \<and> pc_event_row_id p = er_row_id (du_event c) \<and> pc_tenant_id p = TenantId (er_tenant_id (du_event c))"
  using assms unfolding claim_hydrate_def and_then_Inr_iff map_err_Inr_iff tenant_id_new_Inr_iff
  by auto

lemma claim_counter_sel:
  assumes "claim_counter (durable_join e (Some d)) = Inr (r, n)"
  shows "r = RowId (er_row_id e) \<and> n = AttemptCount (dr_attempts d + 1) \<and> i64_range (dr_attempts d + 1)"
  using assms unfolding claim_counter_def and_then_Inr_iff map_err_Inr_iff ok_or_Inr_iff
    row_id_new_Inr_iff attempt_count_new_Inr_iff
  by (auto simp: durable_join_def)

interpretation sq_claim: claim_preparation claim_counter SClmEntropyUnavailable "claim_hydrate lib" for lib
  by unfold_locales (rule claim_counter_sel claim_hydrate_sel; assumption)+

lemma claim_sql_candidates:
  "claim_sql tenant_id now limit db = claim_candidates now tenant_id (\<lambda>_. False) limit db"
  unfolding claim_sql_def claim_candidates_def by (rule claim_rows_cong) simp

lemma claim_sql_length: "length (claim_sql tenant_id now limit db) \<le> limit"
  by (simp add: claim_sql_def claim_rows_length)

section \<open>Updates\<close>

definition claimed_as :: "ext_lib \<Rightarrow> string option \<Rightarrow> WorkerId \<Rightarrow> prepared_claim \<Rightarrow> ClaimedEvent \<Rightarrow> bool" where
  "claimed_as lib expiry worker p c \<longleftrightarrow> claimed_from worker p c
     \<and> (\<exists>x t. expiry = Some x \<and> sqlite_parse_timestamp lib x = Inr t \<and> instant_ok t
          \<and> ce_claim_expires_at c = to_offset_utc t)"

lemma apply_claims_Cons:
  assumes "apply_claims lib env t ms w (p # ps) work = Inr (claimed, work')"
  obtains rows work1 c cs where
    "sql_update_deliveries env ''update claimed delivery'' (pc_event_row_id p) (claim_update_where p)
       (\<lambda>d. Some (claim_update_row (env_strftime_add env t ms) w p d)) work = Inr (rows, work1)"
    "rows \<noteq> []" "claimed = c # cs" "claimed_as lib (env_strftime_add env t ms) w p c"
    "apply_claims lib env t ms w ps work1 = Inr (cs, work')"
proof -
  let ?upd = "\<lambda>d. Some (claim_update_row (env_strftime_add env t ms) w p d)"
  from assms obtain rows work1 x u c cs where
    upd: "sql_update_deliveries env ''update claimed delivery'' (pc_event_row_id p)
       (claim_update_where p) ?upd work = Inr (rows, work1)"
    and x: "(case rows of [] \<Rightarrow> None | row # _ \<Rightarrow> dr_claim_expires_at row) = Some x"
    and u: "sqlite_parse_timestamp lib x = Inr u"
    and c: "claimed_event_new (pc_tenant_id p) (pc_row_id p) (pc_event p) (pc_attempts p)
       (claim_token_from_bytes (pc_token p)) w u = Inr c"
    and tail: "apply_claims lib env t ms w ps work1 = Inr (cs, work')" and cl: "claimed = c # cs"
    unfolding apply_claims.simps and_then_Inr_iff map_err_Inr_iff ok_or_Inr_iff
    by (auto simp: and_then_Inr_iff)
  have rows: "rows = map (\<lambda>d. the (?upd d)) (filter (claim_update_where p) (db_deliveries work))"
    by (rule sql_update_defined(2) [OF upd])
  have ne: "rows \<noteq> []" using x by auto
  have "env_strftime_add env t ms = Some x"
    using x ne by (cases "filter (claim_update_where p) (db_deliveries work)") (auto simp: rows)
  then have "claimed_as lib (env_strftime_add env t ms) w p c"
    using u c unfolding claimed_event_new_Inr_iff
    by (simp add: claimed_as_def claimed_from_def claim_token_from_bytes_def)
  then show thesis using that upd ne cl tail by blast
qed

lemma apply_claims_effect:
  assumes "apply_claims lib env t ms w ps work = Inr (claimed, work')"
    and "db_ok work" and "distinct (map pc_event_row_id ps)"
  shows "db_ok work' \<and> db_events work' = db_events work
    \<and> list_all2 (claimed_as lib (env_strftime_add env t ms) w) ps claimed
    \<and> claims_effect (env_strftime_add env t ms) w ps work work'"
  using assms
proof (induction ps arbitrary: work claimed)
  case Nil
  then show ?case by (simp add: claims_effect_def)
next
  case (Cons p ps)
  let ?x = "env_strftime_add env t ms"
  obtain rows work1 c cs where
    upd: "sql_update_deliveries env ''update claimed delivery'' (pc_event_row_id p)
       (claim_update_where p) (\<lambda>d. Some (claim_update_row ?x w p d)) work = Inr (rows, work1)"
    and ne: "rows \<noteq> []" and cl: "claimed = c # cs" "claimed_as lib ?x w p c"
    and tail: "apply_claims lib env t ms w ps work1 = Inr (cs, work')"
    using apply_claims_Cons [OF Cons.prems(1)] by metis
  note one = claim_update_effect [OF conjunct2 [OF upd [unfolded sql_update_deliveries_Inr]] ne Cons.prems(2)]
  from one(3) obtain d where here: "find_delivery work (pc_event_row_id p) = Some d"
    "claim_update_where p d"
    "find_delivery work1 (pc_event_row_id p) = Some (claim_update_row ?x w p d)" by blast
  have IH: "db_ok work' \<and> db_events work' = db_events work1
      \<and> list_all2 (claimed_as lib ?x w) ps cs \<and> claims_effect ?x w ps work1 work'"
    using Cons.IH [OF tail one(1)] Cons.prems(3) by simp
  then have "claims_effect ?x w (p # ps) work work'"
    using claims_effect_Cons [OF _ _ here one(4)] Cons.prems(3) by simp
  then show ?case using IH cl one(2) by simp
qed

section \<open>One committed claim\<close>

lemma claim_once_Inr:
  assumes "claim_once lib env request busy ent db0 = Some (Inr claimed, rest, db')"
  obtains ms ps where
    "prepare_claims lib [] ent (claim_sql (cr_tenant_id request) (env_now env)
       (limit_get (cr_limit request)) (env_peer env db0)) = Some (Inr ps, rest)"
    "checked_milliseconds (lease_get (cr_lease_for request)) = Inr ms"
    "apply_claims lib env (env_now env) ms (cr_worker request) ps (env_peer env db0)
       = Inr (claimed, db')"
proof -
  let ?sql = "claim_sql (cr_tenant_id request) (env_now env) (limit_get (cr_limit request))
    (env_peer env db0)"
  obtain ms where ms: "checked_milliseconds (lease_get (cr_lease_for request)) = Inr ms"
    using assms by (cases "checked_milliseconds (lease_get (cr_lease_for request))")
      (auto simp: claim_once_def)
  obtain r rest' where prep: "prepare_claims lib [] ent ?sql = Some (r, rest')"
    using assms ms
    by (cases "prepare_claims lib [] ent ?sql")
      (auto simp: claim_once_def Let_def run_or_def split: sum.splits option.splits)
  obtain ps where ps: "r = Inr ps"
    using assms ms prep
    by (cases r) (auto simp: claim_once_def Let_def run_or_def split: sum.splits option.splits)
  show thesis
    using assms ms prep ps that
    by (auto simp: claim_once_def Let_def run_or_def commit_transaction_def
        split: sum.splits option.splits)
qed

text \<open>The complete effect of an attempt that succeeds.\<close>

definition claim_batch ::
  "sqlite_env \<Rightarrow> ClaimRequest \<Rightarrow> sqlite_db \<Rightarrow> ClaimedEvent list \<Rightarrow> sqlite_db \<Rightarrow> bool" where
  "claim_batch env request db claimed db' \<longleftrightarrow>
     db_ok db' \<and> db_events db' = db_events db
     \<and> length claimed \<le> limit_get (cr_limit request)
     \<and> sorted_wrt (<) (map (\<lambda>c. row_id_get (ce_row_id c)) claimed)
     \<and> distinct (map ce_claim_token claimed)
     \<and> (\<exists>expiry. \<forall>c \<in> set claimed. \<exists>d. find_delivery db (row_id_get (ce_row_id c)) = Some d
          \<and> claim_of (env_now env) (cr_tenant_id request) (cr_worker request) d c
          \<and> find_delivery db' (row_id_get (ce_row_id c)) = Some (claimed_row expiry c d))
     \<and> (\<forall>d \<in> set (db_deliveries db). claim_eligible (env_now env) d
          \<and> claim_scope (cr_tenant_id request) (dr_tenant_id d)
          \<and> RowId (dr_event_row_id d) \<notin> ce_row_id ` set claimed \<longrightarrow>
            length claimed = limit_get (cr_limit request)
            \<and> (\<forall>c \<in> set claimed. row_id_get (ce_row_id c) < dr_event_row_id d))
     \<and> (\<forall>rid. RowId rid \<notin> ce_row_id ` set claimed \<longrightarrow> find_delivery db' rid = find_delivery db rid)"

lemma claim_once_batch:
  assumes "claim_once lib env request busy ent db0 = Some (Inr claimed, rest, db')"
    and "db_ok (env_peer env db0)"
  shows "claim_batch env request (env_peer env db0) claimed db'"
proof -
  let ?db = "env_peer env db0" and ?w = "cr_worker request" and ?t = "cr_tenant_id request"
  obtain ms ps where prep: "prepare_claims lib [] ent (claim_sql ?t (env_now env)
      (limit_get (cr_limit request)) ?db) = Some (Inr ps, rest)"
    and app: "apply_claims lib env (env_now env) ms ?w ps ?db = Inr (claimed, db')"
    using claim_once_Inr [OF assms(1)] by metis
  note prep' = prep [unfolded prepare_claims_def claim_sql_candidates]
  have "sorted_wrt (<) (map pc_event_row_id ps)"
    by (rule sq_claim.prepare_rows [OF claim_candidates_of [OF assms(2)] prep'])
  then have dist: "distinct (map pc_event_row_id ps)" by (simp add: strict_sorted_iff)
  let ?x = "env_strftime_add env (env_now env) ms"
  note eff = apply_claims_effect [OF app assms(2) dist]
  have all2: "list_all2 (claimed_from ?w) ps claimed"
    using eff list_all2_mono [of "claimed_as lib ?x ?w" ps claimed "claimed_from ?w"]
    by (simp add: claimed_as_def)
  note sel = sq_claim.batch_selected [OF assms(2) prep' all2]
  have "claim_applied ?x claimed ?db db'"
    using sq_claim.batch_applied [OF claim_candidates_of [OF assms(2)] prep' all2, of ?x ?db db'] eff by simp
  then have each: "\<exists>d. find_delivery ?db (row_id_get (ce_row_id c)) = Some d
      \<and> claim_of (env_now env) ?t ?w d c
      \<and> find_delivery db' (row_id_get (ce_row_id c)) = Some (claimed_row ?x c d)"
    if "c \<in> set claimed" for c
    using sel that by (fastforce simp: claim_selected_def claim_taken_def claim_applied_def)
  have "RowId rid \<notin> ce_row_id ` set claimed \<longrightarrow> find_delivery db' rid = find_delivery ?db rid" for rid
    using \<open>claim_applied ?x claimed ?db db'\<close> by (simp add: claim_applied_def)
  then show ?thesis
    unfolding claim_batch_def using eff sel each by (simp add: claim_selected_def claim_taken_def) blast
qed

section \<open>Failure and retry\<close>

text \<open>An attempt that returns an error commits nothing.\<close>

lemma claim_once_Inl:
  assumes "claim_once lib env request busy ent db0 = Some (Inl e, rest, db')"
  shows "db' = env_peer env db0"
proof -
  let ?db = "env_peer env db0"
  let ?prep = "prepare_claims lib [] ent (claim_sql (cr_tenant_id request) (env_now env)
      (limit_get (cr_limit request)) ?db)"
  show ?thesis
  proof (cases ?prep)
    case None
    then show ?thesis using assms
      by (auto simp: claim_once_def Let_def run_or_def split: sum.splits option.splits)
  next
    case (Some pr)
    obtain r rest' where pr: "pr = (r, rest')" by (cases pr)
    show ?thesis
      using assms Some pr
      by (cases r) (auto simp: claim_once_def Let_def run_or_def commit_transaction_def
          split: sum.splits option.splits)
  qed
qed

text \<open>What peers commit before the attempts \<open>i\<close> to \<open>j - 1\<close>.\<close>

definition peers :: "(nat \<Rightarrow> sqlite_env) \<Rightarrow> nat \<Rightarrow> nat \<Rightarrow> sqlite_db \<Rightarrow> sqlite_db" where
  "peers envs i j db = fold (\<lambda>n. env_peer (envs n)) [i..<j] db"

lemma peers_step: "i < j \<Longrightarrow> peers envs i j db = peers envs (Suc i) j (env_peer (envs i) db)"
  by (simp add: peers_def upt_conv_Cons)

lemma peers_self [simp]: "peers envs i i db = db"
  by (simp add: peers_def)

lemma claim_loop_last_attempt:
  assumes "claim_with_entropy_scoped lib envs request busy tries ent db = Some (res, rest, db')"
    and "tries \<le> busy_retries busy"
  shows "\<exists>n ent' res'. tries \<le> n \<and> n \<le> busy_retries busy
    \<and> claim_once lib (envs n) request busy ent' (peers envs tries n db) = Some (res', rest, db')
    \<and> (\<forall>claimed. res = Inr claimed \<longleftrightarrow> res' = Inr claimed)"
  using assms
proof (induction lib envs request busy tries ent db rule: claim_with_entropy_scoped.induct)
  case (1 lib envs request busy tries ent db)
  obtain res1 rest1 db1 where
    once: "claim_once lib (envs tries) request busy ent db = Some (res1, rest1, db1)"
    using "1.prems"(1) by (subst (asm) claim_with_entropy_scoped.simps) (auto split: option.splits)
  note unfolded = "1.prems"(1) [unfolded claim_with_entropy_scoped.simps [of lib envs request busy tries]
      once, simplified]
  show ?case
  proof (cases "\<exists>e. res1 = Inl e \<and> claim_busy_source e \<noteq> None \<and> tries < busy_retries busy")
    case True
    then obtain e where e: "res1 = Inl e" "claim_busy_source e \<noteq> None" "tries < busy_retries busy"
      by blast
    then have "claim_with_entropy_scoped lib envs request busy (Suc tries) rest1 db1
        = Some (res, rest, db')"
      using unfolded by simp
    then have "\<exists>n ent' res'. Suc tries \<le> n \<and> n \<le> busy_retries busy
      \<and> claim_once lib (envs n) request busy ent' (peers envs (Suc tries) n db1) = Some (res', rest, db')
      \<and> (\<forall>claimed. res = Inr claimed \<longleftrightarrow> res' = Inr claimed)"
      using "1.IH" [of "(res1, rest1, db1)" res1 "(rest1, db1)" e rest1 db1] once e by auto
    moreover have "db1 = env_peer (envs tries) db"
      using claim_once_Inl once e(1) by blast
    ultimately show ?thesis using peers_step [of tries _ envs db] by (metis Suc_le_eq less_imp_le)
  next
    case False
    then have "rest = rest1 \<and> db' = db1 \<and> (\<forall>claimed. res = Inr claimed \<longleftrightarrow> res1 = Inr claimed)"
      using unfolded by (auto split: sum.splits if_splits)
    then show ?thesis using once "1.prems"(2) by (intro exI [of _ tries]) auto
  qed
qed

lemma claim_for_scope_Inr:
  assumes "claim_for_scope lib envs request busy ent db = Some (Inr claimed, rest, db')"
    and "\<And>n. db_ok (peers envs 0 n db)"
  shows "\<exists>n \<le> busy_retries busy.
    claim_batch (envs n) request (peers envs 0 (Suc n) db) claimed db'"
proof -
  have "claim_with_entropy_scoped lib envs request busy 0 ent db = Some (Inr claimed, rest, db')"
    using assms(1) by (auto simp: claim_for_scope_def split: sum.splits)
  from claim_loop_last_attempt [OF this] obtain n ent' res' where n: "n \<le> busy_retries busy"
    and last: "claim_once lib (envs n) request busy ent' (peers envs 0 n db) = Some (res', rest, db')"
    and res: "\<forall>cs. Inr claimed = Inr cs \<longleftrightarrow> res' = Inr cs" by auto
  have once: "claim_once lib (envs n) request busy ent' (peers envs 0 n db)
      = Some (Inr claimed, rest, db')"
    using last res [rule_format, of claimed] by simp
  have step: "env_peer (envs n) (peers envs 0 n db) = peers envs 0 (Suc n) db"
    by (simp add: peers_def)
  show ?thesis
    using claim_once_batch [OF once] assms(2) [of "Suc n"] n step by auto
qed

lemma claim_for_scope_Inl:
  assumes "claim_for_scope lib envs request busy ent db = Some (Inl e, rest, db')"
  shows "\<exists>n \<le> Suc (busy_retries busy). db' = peers envs 0 n db"
proof (cases "validate_busy_config busy")
  case (Inl d)
  then show ?thesis using assms by (intro exI [of _ 0]) (simp add: claim_for_scope_def)
next
  case (Inr u)
  then have "claim_with_entropy_scoped lib envs request busy 0 ent db = Some (Inl e, rest, db')"
    using assms by (simp add: claim_for_scope_def)
  from claim_loop_last_attempt [OF this] obtain n ent' res' where n: "n \<le> busy_retries busy"
    and once: "claim_once lib (envs n) request busy ent' (peers envs 0 n db) = Some (res', rest, db')"
    and "\<forall>claimed. res' \<noteq> Inr claimed" by auto
  then obtain e' where "res' = Inl e'" by (cases res') auto
  then have "db' = peers envs 0 (Suc n) db" using claim_once_Inl once by (simp add: peers_def)
  then show ?thesis using n by (intro exI [of _ "Suc n"]) simp
qed

section \<open>A claim returns\<close>

lemma claim_once_returns:
  assumes "distinct ent" "2 * limit_get (cr_limit request) \<le> length ent"
  shows "\<exists>r rest db' pre. claim_once lib env request busy ent db = Some (r, rest, db')
    \<and> ent = pre @ rest \<and> length pre \<le> 2 * limit_get (cr_limit request)"
proof -
  let ?sql = "claim_sql (cr_tenant_id request) (env_now env) (limit_get (cr_limit request)) (env_peer env db)"
  have len: "length ?sql \<le> limit_get (cr_limit request)" by (rule claim_sql_length)
  obtain r rest pre where prep: "prepare_claims lib [] ent ?sql = Some (r, rest)"
    "ent = pre @ rest" "length pre \<le> 2 * length ?sql"
    using sq_claim.prepare_returns [of ent ?sql "[]" lib] assms len by (auto simp: prepare_claims_def)
  have some: "\<exists>p. ent = p @ rest \<and> length p \<le> 2 * limit_get (cr_limit request)"
    using prep len by (intro exI [of _ pre]) auto
  have none: "\<exists>p. ent = p @ ent \<and> length p \<le> 2 * limit_get (cr_limit request)"
    by (intro exI [of _ "[]"]) simp
  show ?thesis
    using prep(1) some none
    by (cases r) (auto simp: claim_once_def Let_def run_or_def commit_transaction_def
        split: sum.splits option.splits)
qed

lemma claim_loop_returns:
  assumes "distinct ent"
    and "2 * limit_get (cr_limit request) * (Suc (busy_retries busy) - tries) \<le> length ent"
    and "tries \<le> busy_retries busy"
  shows "claim_with_entropy_scoped lib envs request busy tries ent db \<noteq> None"
  using assms
proof (induction "busy_retries busy - tries" arbitrary: tries ent db)
  case 0
  then have "2 * limit_get (cr_limit request) \<le> length ent" by (simp add: Suc_diff_le)
  then obtain r rest db' where "claim_once lib (envs tries) request busy ent db = Some (r, rest, db')"
    using claim_once_returns [OF 0(2)] by metis
  then show ?case
    using 0 by (cases r) (simp_all add: claim_with_entropy_scoped.simps [of lib envs request busy tries])
next
  case (Suc k)
  let ?l = "2 * limit_get (cr_limit request)"
  have tries: "tries < busy_retries busy" using Suc.hyps(2) by simp
  then have split: "?l * (Suc (busy_retries busy) - tries) = ?l + ?l * (Suc (busy_retries busy) - Suc tries)"
    by (simp add: Suc_diff_le)
  then obtain r rest db' pre where
    once: "claim_once lib (envs tries) request busy ent db = Some (r, rest, db')"
    and pre: "ent = pre @ rest" "length pre \<le> ?l"
    using claim_once_returns [OF Suc.prems(1), of request] Suc.prems(2) by (metis add_leD1)
  have "claim_with_entropy_scoped lib envs request busy (Suc tries) rest db' \<noteq> None"
    using Suc.prems split pre tries Suc.hyps(2) by (intro Suc.hyps(1)) auto
  then show ?case
    using once by (cases r) (simp_all add: claim_with_entropy_scoped.simps [of lib envs request busy tries])
qed

lemma claim_for_scope_returns:
  assumes "distinct ent"
    and "2 * limit_get (cr_limit request) * Suc (busy_retries busy) \<le> length ent"
  shows "claim_for_scope lib envs request busy ent db \<noteq> None"
  using claim_loop_returns [of ent request busy 0 lib envs db] assms
  by (simp add: claim_for_scope_def split: sum.split)

end
