(* ===== verification/Sqlite_Mutation.thy ===== *)
theory Sqlite_Mutation
  imports Sqlite_Claim Adapter_Delivery
begin

text \<open>
  \<open>crates/dovecote-sqlx-sqlite/src/lifecycle_mutation.rs\<close>: the five transitions of a claimed
  delivery. Each is one conditional UPDATE fenced by row, tenant, state, token and unexpired
  lease; when it changes no row, a second read classifies why.
\<close>

fun prepare_mutation :: "Mutation \<Rightarrow> SqliteMutationError + PreparedMutation" where
  "prepare_mutation (MRenew lease_for) =
     and_then (map_err SMutSerialization (checked_milliseconds (lease_get lease_for)))
       (\<lambda>ms. Inr (PRenew ms))"
| "prepare_mutation MAck = Inr PAck"
| "prepare_mutation (MRetry failure backoff) =
     and_then (map_err SMutSerialization (checked_milliseconds (delay_get backoff)))
       (\<lambda>ms. Inr (PRetry failure ms))"
| "prepare_mutation (MRelease delay) =
     and_then (map_err SMutSerialization (checked_milliseconds (delay_get delay)))
       (\<lambda>ms. Inr (PRelease ms))"
| "prepare_mutation (MQuarantine reason) = Inr (PQuarantine reason)"

definition parse_state :: "ext_lib \<Rightarrow> string \<Rightarrow> SqliteMutationError + DeliveryState" where
  "parse_state lib value =
     (if value = ''pending'' then Inr Pending
      else if value = ''claimed'' then Inr Claimed
      else if value = ''delivered'' then Inr Delivered
      else if value = ''quarantined'' then Inr Quarantined
      else Inl (SMutSerialization (''unknown delivery state '' @ debug_str lib value)))"

definition mutation_hydrate_error :: "hydrate_error \<Rightarrow> SqliteMutationError" where
  "mutation_hydrate_error e = (case e of HErr d \<Rightarrow> SMutSerialization d | HPanic \<Rightarrow> SMutPanic)"

text \<open>The columns \<open>state\<close>, \<open>claim_token\<close> and \<open>claim_expires_at\<close> of the row are read.\<close>

definition classify_delivery ::
  "ext_lib \<Rightarrow> string delivery_row \<Rightarrow> ClaimToken \<Rightarrow> string \<Rightarrow> SqliteMutationError + unit" where
  "classify_delivery lib delivery token operation_time =
     and_then (parse_state lib (dr_state delivery)) (\<lambda>state.
     if state \<noteq> Claimed then Inl (SMutIllegalTransition state)
     else
     and_then (ok_or (SMutSerialization ''claimed delivery has no claim token'')
       (dr_claim_token delivery)) (\<lambda>stored.
     if length stored \<noteq> 16
       then Inl (SMutSerialization ''claimed delivery has an invalid claim token width'')
     else
     and_then (ok_or (SMutSerialization ''claimed delivery has no claim expiry'')
       (dr_claim_expires_at delivery)) (\<lambda>expiry_text.
     and_then (map_err mutation_hydrate_error (sqlite_parse_timestamp lib expiry_text)) (\<lambda>expiry.
     and_then (map_err mutation_hydrate_error (sqlite_parse_timestamp lib operation_time)) (\<lambda>now.
     if stored \<noteq> claim_token_bytes token \<or> unix_nanos expiry \<le> unix_nanos now
       then Inl SMutLostClaim
     else Inr ())))))"

text \<open>The read that follows an UPDATE of no row.\<close>

definition classify_mutation ::
  "ext_lib \<Rightarrow> sqlite_env \<Rightarrow> TenantId option \<Rightarrow> RowId \<Rightarrow> ClaimToken \<Rightarrow> string \<Rightarrow> sqlite_db
     \<Rightarrow> SqliteMutationError" where
  "classify_mutation lib env tenant row_id token operation_time db =
     (case run_or (env_fault env ''classify delivery mutation'' (row_id_get row_id))
         (find (\<lambda>d. dr_event_row_id d = row_id_get row_id \<and> tenant_matches tenant d) (db_deliveries db)) of
        Inl source \<Rightarrow> mutation_error_sql ''classify delivery mutation'' source
      | Inr None \<Rightarrow> SMutNotFound
      | Inr (Some delivery) \<Rightarrow>
          (case classify_delivery lib delivery token operation_time of
             Inl e \<Rightarrow> e
           | Inr _ \<Rightarrow> mutation_error_sql ''conditional delivery mutation''
               (SqlxProtocol ''claimed delivery did not satisfy mutation'')))"

definition mutate_once ::
  "ext_lib \<Rightarrow> sqlite_env \<Rightarrow> TenantId option \<Rightarrow> RowId \<Rightarrow> ClaimToken \<Rightarrow> Mutation \<Rightarrow> BusyConfig
     \<Rightarrow> sqlite_db \<Rightarrow> (SqliteMutationError + unit) \<times> sqlite_db" where
  "mutate_once lib env tenant row_id token mutation busy db0 =
     (let db = env_peer env db0 in
      case prepare_mutation mutation of
        Inl e \<Rightarrow> (Inl e, db)
      | Inr prepared \<Rightarrow>
      case begin_immediate env busy of
        Inl source \<Rightarrow> (Inl (mutation_error_sql ''begin immediate mutation transaction'' source), db)
      | Inr _ \<Rightarrow>
      case run_or (env_fault env ''read mutation operation time'' 0) (env_now env) of
        Inl source \<Rightarrow> (Inl (mutation_error_sql ''read mutation operation time'' source), db)
      | Inr operation_time \<Rightarrow>
      case sql_update_deliveries env ''execute conditional delivery mutation'' (row_id_get row_id)
          (mutation_where row_id tenant token operation_time)
          (mutation_set (env_strftime_add env) operation_time prepared) db of
        Inl source \<Rightarrow> (Inl (mutation_error_sql ''execute conditional delivery mutation'' source), db)
      | Inr (changed, work) \<Rightarrow>
      if length changed \<noteq> 1
        then (Inl (classify_mutation lib env tenant row_id token operation_time work), db)
      else
      case commit_transaction env db work of
        (Inl source, db') \<Rightarrow> (Inl (mutation_error_sql ''commit mutation transaction'' source), db')
      | (Inr _, db') \<Rightarrow> (Inr (), db'))"

function mutate_loop ::
  "ext_lib \<Rightarrow> (nat \<Rightarrow> sqlite_env) \<Rightarrow> TenantId option \<Rightarrow> RowId \<Rightarrow> ClaimToken \<Rightarrow> Mutation \<Rightarrow> BusyConfig
     \<Rightarrow> nat \<Rightarrow> sqlite_db \<Rightarrow> (SqliteMutationError + unit) \<times> sqlite_db" where
  "mutate_loop lib envs tenant row_id token mutation busy tries db =
     (case mutate_once lib (envs tries) tenant row_id token mutation busy db of
        (Inl e, db') \<Rightarrow>
          if mutation_is_busy e \<and> tries < busy_retries busy
            then mutate_loop lib envs tenant row_id token mutation busy (Suc tries) db'
          else if mutation_is_busy e then (Inl (mutation_into_busy_exhausted e), db')
          else (Inl e, db')
      | (Inr u, db') \<Rightarrow> (Inr u, db'))"
  by pat_completeness auto

termination
  by (relation "measure (\<lambda>(lib, envs, tenant, row_id, token, mutation, busy, tries, db).
        busy_retries busy - tries)") auto

declare mutate_loop.simps [simp del]

definition mutate_with_config ::
  "ext_lib \<Rightarrow> (nat \<Rightarrow> sqlite_env) \<Rightarrow> TenantId option \<Rightarrow> RowId \<Rightarrow> ClaimToken \<Rightarrow> Mutation \<Rightarrow> BusyConfig
     \<Rightarrow> sqlite_db \<Rightarrow> (SqliteMutationError + unit) \<times> sqlite_db" where
  "mutate_with_config lib envs tenant row_id token mutation busy db =
     (case map_err SMutConfiguration (validate_busy_config busy) of
        Inl e \<Rightarrow> (Inl e, db)
      | Inr _ \<Rightarrow> mutate_loop lib envs tenant row_id token mutation busy 0 db)"

definition renew_for_scope where
  "renew_for_scope lib envs tenant row_id token lease busy db =
     mutate_with_config lib envs tenant row_id token (MRenew lease) busy db"

definition ack_for_scope where
  "ack_for_scope lib envs tenant row_id token busy db =
     mutate_with_config lib envs tenant row_id token MAck busy db"

definition retry_for_scope where
  "retry_for_scope lib envs tenant row_id token failure delay busy db =
     mutate_with_config lib envs tenant row_id token (MRetry failure delay) busy db"

definition release_for_scope where
  "release_for_scope lib envs tenant row_id token delay busy db =
     mutate_with_config lib envs tenant row_id token (MRelease delay) busy db"

definition quarantine_for_scope where
  "quarantine_for_scope lib envs tenant row_id token reason busy db =
     mutate_with_config lib envs tenant row_id token (MQuarantine reason) busy db"

section \<open>Effect of one attempt\<close>

text \<open>
  \<open>mutated\<close>: exactly one delivery changes, the one the token owns at the database clock, and it
  changes as the mutation says.
\<close>

definition mutated ::
  "sqlite_env \<Rightarrow> TenantId option \<Rightarrow> RowId \<Rightarrow> ClaimToken \<Rightarrow> Mutation \<Rightarrow> sqlite_db \<Rightarrow> sqlite_db \<Rightarrow> bool" where
  "mutated env tenant row_id token mutation db db' \<longleftrightarrow>
     db_ok db' \<and> db_events db' = db_events db
     \<and> (\<exists>d d' prepared. find_delivery db (row_id_get row_id) = Some d
          \<and> mutation_where row_id tenant token (env_now env) d
          \<and> prepare_mutation mutation = Inr prepared
          \<and> mutation_set (env_strftime_add env) (env_now env) prepared d = Some d' \<and> delivery_check d'
          \<and> find_delivery db' (row_id_get row_id) = Some d')
     \<and> (\<forall>r. r \<noteq> row_id_get row_id \<longrightarrow> find_delivery db' r = find_delivery db r)"

lemma mutate_once_Inr:
  assumes "mutate_once lib env tenant row_id token mutation busy db0 = (Inr u, db')"
  obtains prepared changed where "prepare_mutation mutation = Inr prepared"
    "sql_update_deliveries env ''execute conditional delivery mutation'' (row_id_get row_id)
       (mutation_where row_id tenant token (env_now env))
       (mutation_set (env_strftime_add env) (env_now env) prepared) (env_peer env db0) = Inr (changed, db')"
    "length changed = 1"
proof -
  obtain prepared where p: "prepare_mutation mutation = Inr prepared"
    using assms by (cases "prepare_mutation mutation") (auto simp: mutate_once_def)
  let ?upd = "sql_update_deliveries env ''execute conditional delivery mutation'' (row_id_get row_id)
    (mutation_where row_id tenant token (env_now env))
    (mutation_set (env_strftime_add env) (env_now env) prepared) (env_peer env db0)"
  obtain r where "?upd = Inr r"
    using assms p
    by (cases ?upd) (auto simp: mutate_once_def Let_def run_or_def split: sum.splits option.splits)
  moreover obtain changed work where "r = (changed, work)" by (cases r)
  ultimately show thesis
    using assms p that
    by (auto simp: mutate_once_def Let_def run_or_def commit_transaction_def
        split: sum.splits option.splits if_splits)
qed

lemma mutate_once_Inl:
  assumes "mutate_once lib env tenant row_id token mutation busy db0 = (Inl e, db')"
  shows "db' = env_peer env db0"
proof (cases "prepare_mutation mutation")
  case (Inl e')
  then show ?thesis using assms by (simp add: mutate_once_def)
next
  case (Inr prepared)
  let ?upd = "sql_update_deliveries env ''execute conditional delivery mutation'' (row_id_get row_id)
    (mutation_where row_id tenant token (env_now env))
    (mutation_set (env_strftime_add env) (env_now env) prepared) (env_peer env db0)"
  show ?thesis
    using assms Inr
    by (cases ?upd) (auto simp: mutate_once_def Let_def run_or_def commit_transaction_def
        split: sum.splits option.splits if_splits)
qed

lemma mutate_once_mutated:
  assumes "mutate_once lib env tenant row_id token mutation busy db0 = (Inr u, db')"
    and "db_ok (env_peer env db0)"
  shows "mutated env tenant row_id token mutation (env_peer env db0) db'"
proof -
  obtain prepared changed where p: "prepare_mutation mutation = Inr prepared"
    and upd: "sql_update_deliveries env ''execute conditional delivery mutation'' (row_id_get row_id)
       (mutation_where row_id tenant token (env_now env))
       (mutation_set (env_strftime_add env) (env_now env) prepared) (env_peer env db0) = Inr (changed, db')"
    and one: "length changed = 1"
    using mutate_once_Inr [OF assms(1)] by metis
  have ne: "changed \<noteq> []" using one by auto
  note eff = sql_update_one [OF assms(2) upd mutation_set_keys mutation_where_key ne]
  show ?thesis unfolding mutated_def using eff p by blast
qed

section \<open>Retries\<close>

lemma mutate_loop_last_attempt:
  assumes "mutate_loop lib envs tenant row_id token mutation busy tries db = (res, db')"
    and "tries \<le> busy_retries busy"
  shows "\<exists>n res'. tries \<le> n \<and> n \<le> busy_retries busy
    \<and> mutate_once lib (envs n) tenant row_id token mutation busy (peers envs tries n db) = (res', db')
    \<and> (res = Inr () \<longleftrightarrow> res' = Inr ())"
  using assms
proof (induction lib envs tenant row_id token mutation busy tries db rule: mutate_loop.induct)
  case (1 lib envs tenant row_id token mutation busy tries db)
  obtain res1 db1 where
    once: "mutate_once lib (envs tries) tenant row_id token mutation busy db = (res1, db1)"
    by (cases "mutate_once lib (envs tries) tenant row_id token mutation busy db")
  note unfolded = "1.prems"(1) [unfolded mutate_loop.simps [of lib envs tenant row_id token mutation busy tries]
      once, simplified]
  show ?case
  proof (cases "\<exists>e. res1 = Inl e \<and> mutation_is_busy e \<and> tries < busy_retries busy")
    case True
    then obtain e where e: "res1 = Inl e" "mutation_is_busy e" "tries < busy_retries busy" by blast
    then have "mutate_loop lib envs tenant row_id token mutation busy (Suc tries) db1 = (res, db')"
      using unfolded by simp
    then have "\<exists>n res'. Suc tries \<le> n \<and> n \<le> busy_retries busy
      \<and> mutate_once lib (envs n) tenant row_id token mutation busy (peers envs (Suc tries) n db1)
          = (res', db')
      \<and> (res = Inr () \<longleftrightarrow> res' = Inr ())"
      using "1.IH" [OF once [symmetric] e(1)] e by (auto simp: Suc_le_eq)
    moreover have "db1 = env_peer (envs tries) db" using mutate_once_Inl once e(1) by blast
    ultimately show ?thesis using peers_step [of tries _ envs db] by (metis Suc_le_eq less_imp_le)
  next
    case False
    then have "db' = db1 \<and> (res = Inr () \<longleftrightarrow> res1 = Inr ())"
      using unfolded by (auto split: sum.splits if_splits)
    then show ?thesis using once "1.prems"(2) by (intro exI [of _ tries]) auto
  qed
qed

lemma mutate_with_config_Inr:
  assumes "mutate_with_config lib envs tenant row_id token mutation busy db = (Inr u, db')"
    and "\<And>n. db_ok (peers envs 0 n db)"
  shows "\<exists>n \<le> busy_retries busy.
    mutated (envs n) tenant row_id token mutation (peers envs 0 (Suc n) db) db'"
proof -
  have "mutate_loop lib envs tenant row_id token mutation busy 0 db = (Inr (), db')"
    using assms(1) by (auto simp: mutate_with_config_def split: sum.splits)
  from mutate_loop_last_attempt [OF this] obtain n where n: "n \<le> busy_retries busy"
    and once: "mutate_once lib (envs n) tenant row_id token mutation busy (peers envs 0 n db)
      = (Inr (), db')" by auto
  have step: "env_peer (envs n) (peers envs 0 n db) = peers envs 0 (Suc n) db"
    by (simp add: peers_def)
  show ?thesis using mutate_once_mutated [OF once] assms(2) [of "Suc n"] n step by auto
qed

lemma mutate_with_config_Inl:
  assumes "mutate_with_config lib envs tenant row_id token mutation busy db = (Inl e, db')"
  shows "\<exists>n \<le> Suc (busy_retries busy). db' = peers envs 0 n db"
proof (cases "validate_busy_config busy")
  case (Inl d)
  then show ?thesis using assms by (intro exI [of _ 0]) (simp add: mutate_with_config_def)
next
  case (Inr u)
  then have "mutate_loop lib envs tenant row_id token mutation busy 0 db = (Inl e, db')"
    using assms by (simp add: mutate_with_config_def)
  from mutate_loop_last_attempt [OF this] obtain n res' where n: "n \<le> busy_retries busy"
    and once: "mutate_once lib (envs n) tenant row_id token mutation busy (peers envs 0 n db)
      = (res', db')"
    and "res' \<noteq> Inr ()" by auto
  then obtain e' where "res' = Inl e'" by (cases res') auto
  then have "db' = peers envs 0 (Suc n) db" using mutate_once_Inl once by (simp add: peers_def)
  then show ?thesis using n by (intro exI [of _ "Suc n"]) simp
qed

section \<open>A holder of the claim succeeds\<close>

text \<open>An attempt in which SQLite reports no fault.\<close>

definition attempt_quiet :: "sqlite_env \<Rightarrow> BusyConfig \<Rightarrow> bool" where
  "attempt_quiet env busy \<longleftrightarrow> begin_immediate env busy = Inr () \<and> env_commit env = None
     \<and> (\<forall>label rid. env_fault env label rid = None)"

lemma mutate_once_owned:
  assumes "db_ok (env_peer env db0)" and "attempt_quiet env busy"
    and p: "prepare_mutation mutation = Inr prepared"
    and d: "find_delivery (env_peer env db0) (row_id_get row_id) = Some d"
    and own: "mutation_where row_id tenant token (env_now env) d"
    and d': "mutation_set (env_strftime_add env) (env_now env) prepared d = Some d'" "delivery_check d'"
  shows "\<exists>db'. mutate_once lib env tenant row_id token mutation busy db0 = (Inr (), db')
    \<and> find_delivery db' (row_id_get row_id) = Some d'"
proof -
  let ?db = "env_peer env db0" and ?w = "mutation_where row_id tenant token (env_now env)"
  obtain db' where upd: "table_update_deliveries ?w (mutation_set (env_strftime_add env) (env_now env) prepared) ?db
      = Inr ([d'], db')"
    using table_update_hit [where p = ?w and f = "mutation_set (env_strftime_add env) (env_now env) prepared",
        OF assms(1) d own d' mutation_where_key] by blast
  have "mutate_once lib env tenant row_id token mutation busy db0 = (Inr (), db')"
    using assms(2,3) upd
    by (simp add: mutate_once_def Let_def attempt_quiet_def commit_transaction_def sql_update_deliveries_def)
  moreover have "find_delivery db' (row_id_get row_id) = Some d'"
    using table_update_deliveries_find(3) [OF upd, of "row_id_get row_id"] mutation_set_key d own d'(1)
    by fastforce
  ultimately show ?thesis by blast
qed

section \<open>Why a mutation is refused\<close>

text \<open>
  On a quiet connection an attempt that owns nothing is refused by the first reason that
  applies: no such delivery in the scope, a state other than claimed, another token.
\<close>

lemma mutate_once_refused:
  assumes "attempt_quiet env busy" and p: "prepare_mutation mutation = Inr prepared"
    and none: "\<And>d. d \<in> set (db_deliveries (env_peer env db0)) \<Longrightarrow>
      \<not> mutation_where row_id tenant token (env_now env) d"
  shows "mutate_once lib env tenant row_id token mutation busy db0
    = (Inl (classify_mutation lib env tenant row_id token (env_now env) (env_peer env db0)),
       env_peer env db0)"
proof -
  let ?db = "env_peer env db0" and ?w = "mutation_where row_id tenant token (env_now env)"
  have "sql_update_deliveries env ''execute conditional delivery mutation''
      (row_id_get row_id) ?w (mutation_set (env_strftime_add env) (env_now env) prepared) ?db = Inr ([], ?db)"
    using assms(1) table_update_miss [of ?db ?w] none
    by (simp add: sql_update_deliveries_def attempt_quiet_def)
  then show ?thesis using assms(1) p by (simp add: mutate_once_def Let_def attempt_quiet_def)
qed

end
