(* ===== verification/Adapter_Page.thy ===== *)
theory Adapter_Page
  imports Adapter_Delivery
begin

text \<open>
  Pages as the adapters read them: the joined rows of a scope after a cursor, in row order. A
  page is a slice of the scope, and the calls of a snapshot pager return consecutive slices.
\<close>

section \<open>Statements\<close>

definition page_scope :: "TenantId option \<Rightarrow> 't event_row \<Rightarrow> bool" where
  "page_scope tenant r = (case tenant of None \<Rightarrow> True | Some t \<Rightarrow> er_tenant_id r = tenant_id_str t)"

definition page_join :: "'t db \<Rightarrow> 't event_row \<Rightarrow> 't durable_row" where
  "page_join db r = durable_join r
     (find (\<lambda>d. dr_tenant_id d = er_tenant_id r \<and> dr_event_row_id d = er_row_id r) (db_deliveries db))"

text \<open>
  The statements of an adapter differ in two optional conditions: the tenant and the upper bound
  of a snapshot.
\<close>

definition page_sql ::
  "TenantId option \<Rightarrow> int \<Rightarrow> int option \<Rightarrow> nat \<Rightarrow> 't db \<Rightarrow> 't durable_row list" where
  "page_sql tenant after_row_id upper_bound limit db =
     map (page_join db) (take limit (sort_key er_row_id (filter (\<lambda>r.
       after_row_id < er_row_id r
       \<and> (case upper_bound of None \<Rightarrow> True | Some upper \<Rightarrow> er_row_id r \<le> upper)
       \<and> page_scope tenant r) (db_events db))))"

definition cursor_value :: "RowId option \<Rightarrow> int" where
  "cursor_value c = (case c of None \<Rightarrow> 0 | Some r \<Rightarrow> row_id_get r)"

text \<open>\<open>SELECT MAX(row_id)\<close>; NULL on no rows.\<close>

definition sql_max_row_id :: "TenantId option \<Rightarrow> 't db \<Rightarrow> int option" where
  "sql_max_row_id tenant db =
     (case map er_row_id (filter (page_scope tenant) (db_events db)) of
        [] \<Rightarrow> None | r # rs \<Rightarrow> Some (foldl max r rs))"

section \<open>Pages are consecutive slices of the scope\<close>

text \<open>The rows of a scope in row order: what a full read of the table would return.\<close>

definition scope_rows :: "TenantId option \<Rightarrow> 't db \<Rightarrow> 't event_row list" where
  "scope_rows tenant db = sort_key er_row_id (filter (page_scope tenant) (db_events db))"

lemma sort_key_filter: "sort_key f (filter P xs) = filter P (sort_key f xs)"
  by (rule filter_sort [symmetric])

lemma page_sql_scope_rows:
  "page_sql tenant a upper limit db = map (page_join db) (take limit (filter (\<lambda>r. a < er_row_id r
     \<and> (case upper of None \<Rightarrow> True | Some u \<Rightarrow> er_row_id r \<le> u)) (scope_rows tenant db)))"
proof -
  have "filter (\<lambda>r. a < er_row_id r
      \<and> (case upper of None \<Rightarrow> True | Some u \<Rightarrow> er_row_id r \<le> u) \<and> page_scope tenant r) (db_events db)
    = filter (\<lambda>r. a < er_row_id r \<and> (case upper of None \<Rightarrow> True | Some u \<Rightarrow> er_row_id r \<le> u))
        (filter (page_scope tenant) (db_events db))"
    by (simp add: conj_ac)
  then show ?thesis unfolding page_sql_def scope_rows_def by (simp only: sort_key_filter)
qed

lemma scope_rows_ok:
  assumes "db_ok db"
  shows "sorted_wrt (<) (map er_row_id (scope_rows tenant db))"
    and "\<And>r. r \<in> set (scope_rows tenant db) \<Longrightarrow> 0 < er_row_id r"
    and "set (scope_rows tenant db) = {r \<in> set (db_events db). page_scope tenant r}"
proof -
  have "distinct (map er_row_id (db_events db))" using assms by (simp add: db_ok_def)
  then show "sorted_wrt (<) (map er_row_id (scope_rows tenant db))"
    unfolding scope_rows_def by (simp add: strict_sorted_iff distinct_map inj_on_def)
  show "set (scope_rows tenant db) = {r \<in> set (db_events db). page_scope tenant r}"
    by (auto simp: scope_rows_def)
  then show "\<And>r. r \<in> set (scope_rows tenant db) \<Longrightarrow> 0 < er_row_id r"
    using assms by (auto simp: db_ok_def list_all_iff event_check_def)
qed

text \<open>\<open>position k xs\<close>: the cursor after the first \<open>k\<close> rows.\<close>

definition position :: "nat \<Rightarrow> 't event_row list \<Rightarrow> int" where
  "position k xs = (if k = 0 \<or> xs = [] then 0 else er_row_id (last (take k xs)))"

lemma filter_after_prefix:
  fixes key :: "'a \<Rightarrow> int"
  assumes "sorted_wrt (<) (map key ((us @ [u]) @ zs))"
  shows "filter (\<lambda>r. key u < key r) ((us @ [u]) @ zs) = zs"
proof -
  have "filter (\<lambda>r. key u < key r) us = []" "filter (\<lambda>r. key u < key r) zs = zs"
    using assms by (force simp: sorted_wrt_append filter_empty_conv filter_id_conv)+
  then show ?thesis by simp
qed

lemma filter_after_position:
  assumes "sorted_wrt (<) (map er_row_id xs)" and "\<And>r. r \<in> set xs \<Longrightarrow> 0 < er_row_id r"
  shows "filter (\<lambda>r. position k xs < er_row_id r) xs = drop k xs"
proof (cases "k = 0 \<or> xs = []")
  case True
  then show ?thesis using assms(2) by (auto simp: position_def)
next
  case False
  then obtain us u where take: "take k xs = us @ [u]" by (cases "take k xs" rule: rev_cases) auto
  then have xs: "xs = (us @ [u]) @ drop k xs" by (metis append_take_drop_id)
  have "filter (\<lambda>r. er_row_id u < er_row_id r) xs = drop k xs"
    using filter_after_prefix [of er_row_id us u "drop k xs"] assms(1) xs by metis
  then show ?thesis using False take by (simp add: position_def)
qed

lemma page_join_event [simp]: "du_event (page_join db r) = r"
  by (simp add: page_join_def durable_join_def)

lemma collect_results_take_drop:
  assumes "collect_results f xs = Inr ys"
  shows "collect_results f (take l (drop k xs)) = Inr (take l (drop k ys))"
  using assms by (simp add: collect_results_Inr_iff list_all2_takeI list_all2_dropI)

lemma sql_max_row_id_eq:
  assumes "db_ok db"
  shows "sql_max_row_id tenant db = (if scope_rows tenant db = [] then None
    else Some (er_row_id (last (scope_rows tenant db))))"
proof -
  let ?xs = "map er_row_id (filter (page_scope tenant) (db_events db))"
  let ?rows = "scope_rows tenant db"
  have empty: "?xs = [] \<longleftrightarrow> ?rows = []"
    by (simp add: scope_rows_def) (metis length_0_conv length_sort)
  have set: "set ?xs = er_row_id ` set ?rows" by (simp add: scope_rows_def)
  have fold: "foldl max r rs = Max (set (r # rs))" for r :: int and rs
    by (metis Max.set_eq_fold foldl_conv_fold max.commute fun_eq_iff)
  show ?thesis
  proof (cases "?rows = []")
    case False
    obtain us u where u: "?rows = us @ [u]" using False by (cases ?rows rule: rev_cases) auto
    have "Max (er_row_id ` set ?rows) = er_row_id u"
      using scope_rows_ok(1) [OF assms, of tenant] unfolding u
      by (intro Max_eqI) (auto simp: sorted_wrt_append)
    moreover obtain r rs where "?xs = r # rs" using False empty by (cases ?xs) auto
    ultimately show ?thesis using False set fold u by (simp add: sql_max_row_id_def)
  qed (use empty in \<open>simp add: sql_max_row_id_def\<close>)
qed

lemma position_add:
  assumes "k < length xs" "0 < l"
  shows "position (k + l) xs = er_row_id (last (take l (drop k xs)))"
  using assms by (auto simp: position_def take_add)

lemma position_end: "length xs \<le> k \<Longrightarrow> position (k + l) xs = position k xs"
  by (auto simp: position_def)

lemma position_last:
  assumes "sorted_wrt (<) (map er_row_id xs)" "xs \<noteq> []" "0 < m"
  shows "position m xs = er_row_id (last xs) \<longleftrightarrow> length xs \<le> m"
proof (cases "length xs \<le> m")
  case False
  then have "last (take m xs) = xs ! (m - 1)" using assms(2,3) by (subst last_conv_nth) auto
  moreover have "er_row_id (xs ! (m - 1)) < er_row_id (xs ! (length xs - 1))"
    using sorted_wrt_nth_less [OF assms(1), of "m - 1" "length xs - 1"] False assms(3) by simp
  ultimately show ?thesis using False assms(2,3) by (simp add: position_def last_conv_nth)
qed (use assms in \<open>simp add: position_def\<close>)

text \<open>
  \<open>hyd\<close> is an adapter's hydration of a joined row; all that paging needs of it is that the event
  keeps its row id.
\<close>

lemma page_row_ids:
  assumes "\<And>row e. hyd row = Inr e \<Longrightarrow> pe_row_id e = RowId (er_row_id (du_event row))"
    and "collect_results hyd (map (page_join db) rows) = Inr evs"
  shows "map pe_row_id evs = map (\<lambda>r. RowId (er_row_id r)) rows"
proof -
  have "list_all2 (\<lambda>r e. hyd (page_join db r) = Inr e) rows evs"
    using assms(2) by (simp add: collect_results_Inr_iff list_all2_map1)
  then show ?thesis by (induction rule: list_all2_induct) (auto dest: assms(1))
qed

lemma last_page_row:
  assumes "map pe_row_id evs = map (\<lambda>r. RowId (er_row_id r)) rows" and "k < length rows" "0 < n"
  shows "pe_row_id (last (take n (drop k evs))) = RowId (position (k + n) rows)"
proof -
  have "map pe_row_id (take n (drop k evs)) = map (\<lambda>r. RowId (er_row_id r)) (take n (drop k rows))"
    using assms(1) by (simp flip: take_map drop_map)
  moreover have "take n (drop k rows) \<noteq> []" "take n (drop k evs) \<noteq> []"
    using assms map_eq_imp_length_eq [OF assms(1)] by auto
  ultimately show ?thesis
    using position_add [OF assms(2,3)] by (metis (no_types, lifting) last_map)
qed

text \<open>The page after the first \<open>k\<close> rows of a snapshot is the next slice of the scope.\<close>

lemma page_sql_slice:
  assumes "db_ok db"
  shows "page_sql tenant (position k (scope_rows tenant db)) (Some (er_row_id (last (scope_rows tenant db)))) n db
    = take n (drop k (map (page_join db) (scope_rows tenant db)))"
proof -
  let ?rows = "scope_rows tenant db"
  note ok = scope_rows_ok(1) [OF assms, of tenant] scope_rows_ok(2) [OF assms, where tenant = tenant]
  have below: "er_row_id r \<le> er_row_id (last ?rows)" if "r \<in> set ?rows" for r
    using that ok(1) by (cases ?rows rule: rev_cases) (auto simp: sorted_wrt_append)
  have "filter (\<lambda>r. position k ?rows < er_row_id r \<and> er_row_id r \<le> er_row_id (last ?rows)) ?rows
      = filter (\<lambda>r. position k ?rows < er_row_id r) ?rows"
    by (rule filter_cong) (use below in auto)
  also have "\<dots> = drop k ?rows" by (rule filter_after_position [OF ok])
  finally show ?thesis by (simp add: page_sql_scope_rows take_map drop_map)
qed

text \<open>
  What the pagers check after a page that is not empty: it was the last one exactly when the
  rows are used up.
\<close>

lemma page_finished:
  assumes "db_ok db" and "k < length (scope_rows tenant db)" "0 < n"
    and "collect_results hyd (map (page_join db) (scope_rows tenant db)) = Inr evs"
  shows "length (take n (drop k evs)) < n
      \<or> position (k + n) (scope_rows tenant db) = er_row_id (last (scope_rows tenant db))
    \<longleftrightarrow> length (scope_rows tenant db) \<le> k + n"
    and "take n (drop k evs) \<noteq> []"
proof -
  let ?rows = "scope_rows tenant db"
  have len: "length evs = length ?rows" using collect_results_length [OF assms(4)] by simp
  have "?rows \<noteq> []" using assms(2) by auto
  then have "position (k + n) ?rows = er_row_id (last ?rows) \<longleftrightarrow> length ?rows \<le> k + n"
    using position_last [OF scope_rows_ok(1) [OF assms(1)]] assms(3) by simp
  then show "length (take n (drop k evs)) < n
      \<or> position (k + n) ?rows = er_row_id (last ?rows) \<longleftrightarrow> length ?rows \<le> k + n"
    using len by auto
  show "take n (drop k evs) \<noteq> []" using assms(2,3) len by auto
qed

section \<open>A sequence of calls\<close>

text \<open>A sequence of calls of a pager, up to the first error.\<close>

fun run_calls :: "('c \<Rightarrow> 'p \<Rightarrow> ('x + 'a list) \<times> 'p) \<Rightarrow> 'c list \<Rightarrow> 'p \<Rightarrow> ('x + 'a list) \<times> 'p" where
  "run_calls next [] p = (Inr [], p)"
| "run_calls next (c # calls) p =
     (case next c p of
        (Inl e, p') \<Rightarrow> (Inl e, p')
      | (Inr page, p') \<Rightarrow>
          (case run_calls next calls p' of
             (Inl e, p'') \<Rightarrow> (Inl e, p'')
           | (Inr rest, p'') \<Rightarrow> (Inr (page @ rest), p'')))"

text \<open>
  The contract of a snapshot pager: \<open>stands p k\<close> says that \<open>p\<close> has returned the first \<open>k\<close> events
  of \<open>evs\<close>, and a call returns the next ones.
\<close>

locale snapshot_paging =
  fixes stands :: "'p \<Rightarrow> nat \<Rightarrow> bool"
    and next_call :: "'c \<Rightarrow> 'p \<Rightarrow> ('x + 'a list) \<times> 'p"
    and size_of :: "'c \<Rightarrow> nat"
    and quiet :: "'c \<Rightarrow> bool"
    and evs :: "'a list"
  assumes call: "stands p k \<Longrightarrow> quiet c \<Longrightarrow>
    \<exists>p'. next_call c p = (Inr (take (size_of c) (drop k evs)), p') \<and> stands p' (k + size_of c)"
begin

lemma calls:
  assumes "stands p k" "list_all quiet cs"
  shows "\<exists>p'. run_calls next_call cs p = (Inr (take (sum_list (map size_of cs)) (drop k evs)), p')
    \<and> stands p' (k + sum_list (map size_of cs))"
  using assms
proof (induction cs arbitrary: p k)
  case (Cons c cs)
  then obtain p' where one: "next_call c p = (Inr (take (size_of c) (drop k evs)), p')"
    "stands p' (k + size_of c)" using call by fastforce
  then obtain p'' where "run_calls next_call cs p'
      = (Inr (take (sum_list (map size_of cs)) (drop (k + size_of c) evs)), p'')"
    "stands p'' (k + size_of c + sum_list (map size_of cs))" using Cons by fastforce
  then show ?case using one(1) by (simp add: take_add add.assoc add.commute [of k])
qed simp

end

section \<open>The pager of a server\<close>

text \<open>
  \<open>SnapshotPager\<close> of the adapters on servers. Its transaction reads only, and sees the state it
  was opened on. \<open>query\<close> reads one page and \<open>panic\<close> stands for the expectation that a pager which is
  not exhausted has a bound.
\<close>

record 't snapshot_pager =
  pgr_transaction :: "'t db"
  pgr_upper_bound :: "RowId option"
  pgr_cursor :: "RowId option"
  pgr_exhausted :: bool
  pgr_tenant_id :: "TenantId option"

definition next_page_with ::
  "(TenantId option \<Rightarrow> int \<Rightarrow> int option \<Rightarrow> PageLimit \<Rightarrow> 't db \<Rightarrow> 'e + PagedEvent list) \<Rightarrow> 'e \<Rightarrow> PageLimit
     \<Rightarrow> 't snapshot_pager \<Rightarrow> ('e + PagedEvent list) \<times> 't snapshot_pager" where
  "next_page_with query panic limit p =
     (if pgr_exhausted p then (Inr [], p)
      else case pgr_upper_bound p of
        None \<Rightarrow> (Inl panic, p)
      | Some upper \<Rightarrow>
      case query (pgr_tenant_id p) (cursor_value (pgr_cursor p)) (Some (row_id_get upper)) limit (pgr_transaction p) of
        Inl e \<Rightarrow> (Inl e, p)
      | Inr rows \<Rightarrow>
      if rows = [] then (Inr rows, p\<lparr>pgr_exhausted := True\<rparr>)
      else let p = p\<lparr>pgr_cursor := Some (pe_row_id (last rows))\<rparr> in
        (Inr rows,
         if length rows < limit_get limit \<or> pgr_cursor p = pgr_upper_bound p
           then p\<lparr>pgr_exhausted := True\<rparr> else p))"

text \<open>The pager has returned the first \<open>k\<close> rows of its scope.\<close>

definition pgr_at :: "'t snapshot_pager \<Rightarrow> TenantId option \<Rightarrow> 't db \<Rightarrow> nat \<Rightarrow> bool" where
  "pgr_at p tenant db k \<longleftrightarrow> (let rows = scope_rows tenant db in
     pgr_transaction p = db \<and> pgr_tenant_id p = tenant
     \<and> pgr_upper_bound p = (if rows = [] then None else Some (RowId (er_row_id (last rows))))
     \<and> cursor_value (pgr_cursor p) = position k rows
     \<and> (pgr_exhausted p \<longleftrightarrow> length rows \<le> k))"

lemma next_page_with_at:
  assumes "db_ok db" and at: "pgr_at p tenant db k" and l: "0 < limit_get l"
    and hyd: "\<And>row e. hyd row = Inr e \<Longrightarrow> pe_row_id e = RowId (er_row_id (du_event row))"
    and query: "\<And>a u. query tenant a u l db
      = map_err wrap (collect_results hyd (page_sql tenant a u (limit_get l) db))"
    and evs: "collect_results hyd (map (page_join db) (scope_rows tenant db)) = Inr evs"
  obtains p' where "next_page_with query panic l p = (Inr (take (limit_get l) (drop k evs)), p')"
    "pgr_at p' tenant db (k + limit_get l)"
proof (cases "length (scope_rows tenant db) \<le> k")
  case True
  then have "next_page_with query panic l p = (Inr [], p)" "drop k evs = []"
    using at collect_results_length [OF evs] by (simp_all add: next_page_with_def pgr_at_def Let_def)
  moreover have "pgr_at p tenant db (k + limit_get l)"
    using at True by (simp add: pgr_at_def Let_def position_end)
  ultimately show thesis using that by simp
next
  case False
  let ?rows = "scope_rows tenant db" and ?n = "limit_get l"
  let ?page = "take ?n (drop k evs)"
  have some: "k < length ?rows" and rows: "?rows \<noteq> []" using False by auto
  note page = page_finished [OF assms(1) some l evs]
  have read: "query tenant (position k ?rows) (Some (er_row_id (last ?rows))) l db = Inr ?page"
    using collect_results_take_drop [OF evs, of ?n k] page_sql_slice [OF assms(1), of tenant k ?n]
    by (simp add: query)
  have last: "pe_row_id (last ?page) = RowId (position (k + ?n) ?rows)"
    by (rule last_page_row [OF page_row_ids [OF hyd evs] some l])
  let ?p = "p\<lparr>pgr_cursor := Some (RowId (position (k + ?n) ?rows)),
    pgr_exhausted := (length ?rows \<le> k + ?n)\<rparr>"
  have "next_page_with query panic l p = (Inr ?page, ?p)"
    using at read False page last rows
    by (auto simp: next_page_with_def pgr_at_def Let_def)
  moreover have "pgr_at ?p tenant db (k + ?n)"
    using at by (simp add: pgr_at_def Let_def cursor_value_def)
  ultimately show thesis by (rule that)
qed

text \<open>
  A server whose quiet calls read a page of the rows; then its pager meets the contract, on a
  consistent state whose rows all hydrate.
\<close>

locale page_server =
  fixes query :: "'c \<Rightarrow> TenantId option \<Rightarrow> int \<Rightarrow> int option \<Rightarrow> PageLimit \<Rightarrow> 't db \<Rightarrow> 'e + PagedEvent list"
    and limit_of :: "'c \<Rightarrow> PageLimit"
    and panic :: 'e
    and hyd :: "'t durable_row \<Rightarrow> 'h + PagedEvent"
    and wrap :: "'h \<Rightarrow> 'e"
    and quiet :: "'c \<Rightarrow> bool"
  assumes reads: "quiet c \<Longrightarrow>
      query c tenant a u (limit_of c) db = map_err wrap (collect_results hyd (page_sql tenant a u (limit_get (limit_of c)) db))"
    and sized: "quiet c \<Longrightarrow> 0 < limit_get (limit_of c)"
    and row_kept: "hyd row = Inr e \<Longrightarrow> pe_row_id e = RowId (er_row_id (du_event row))"
begin

lemma next_at:
  assumes "db_ok db" "pgr_at p tenant db k" "quiet c"
    and "collect_results hyd (map (page_join db) (scope_rows tenant db)) = Inr evs"
  shows "\<exists>p'. next_page_with (query c) panic (limit_of c) p = (Inr (take (limit_get (limit_of c)) (drop k evs)), p')
    \<and> pgr_at p' tenant db (k + limit_get (limit_of c))"
  by (rule next_page_with_at [where query = "query c" and hyd = hyd and wrap = wrap, OF assms(1,2) sized [OF assms(3)] row_kept
        reads [OF assms(3)] assms(4)]) auto

end

sublocale page_server \<subseteq> slices: snapshot_paging
  "\<lambda>p k. db_ok db \<and> collect_results hyd (map (page_join db) (scope_rows tenant db)) = Inr evs \<and> pgr_at p tenant db k"
  "\<lambda>c. next_page_with (query c) panic (limit_of c)" "\<lambda>c. limit_get (limit_of c)" quiet evs for db tenant evs
  by unfold_locales (use next_at in blast)

end
