(* ===== verification/Sqlite_Page.thy ===== *)
theory Sqlite_Page
  imports Sqlite_Hydrate Adapter_Page
begin

text \<open>
  \<open>crates/dovecote-sqlx-sqlite/src/page.rs\<close>: live pages and the finite snapshot pager. The pager
  keeps a read transaction open; its field \<open>pager_transaction\<close> is the state that transaction sees.
\<close>

section \<open>One page\<close>

definition page_hydrate_error :: "hydrate_error \<Rightarrow> SqlitePageError" where
  "page_hydrate_error e = (case e of HErr d \<Rightarrow> SPagSerialization d | HPanic \<Rightarrow> SPagPanic)"

definition read_page_scoped ::
  "ext_lib \<Rightarrow> sqlite_env \<Rightarrow> TenantId option \<Rightarrow> int \<Rightarrow> int option \<Rightarrow> PageLimit \<Rightarrow> sqlite_db
     \<Rightarrow> SqlitePageError + PagedEvent list" where
  "read_page_scoped lib env tenant after_row_id upper_bound limit db =
     and_then (map_err (page_error_sql ''read event page'')
       (run_or (env_fault env ''read event page'' after_row_id)
         (page_sql tenant after_row_id upper_bound (limit_get limit) db))) (\<lambda>rows.
     map_err page_hydrate_error (collect_results (hydrate_page lib) rows))"

definition page_for_scope ::
  "ext_lib \<Rightarrow> sqlite_env \<Rightarrow> TenantId option \<Rightarrow> RowId option \<Rightarrow> PageLimit \<Rightarrow> sqlite_db
     \<Rightarrow> SqlitePageError + PagedEvent list" where
  "page_for_scope lib env tenant after_row_id limit db =
     and_then (map_err (page_error_sql ''acquire live page connection'') (run_or (env_acquire env) ()))
       (\<lambda>_.
     and_then (map_err (page_error_sql ''enable live-page foreign keys'') (install_foreign_keys env))
       (\<lambda>_.
     read_page_scoped lib env tenant (cursor_value after_row_id) None limit db))"

section \<open>The snapshot pager\<close>

record SnapshotPager =
  pager_transaction :: "sqlite_db option"
  pager_upper_bound :: "RowId option"
  pager_cursor :: "RowId option"
  pager_exhausted :: bool
  pager_tenant_id :: "TenantId option"

definition begin_snapshot_for_scope ::
  "sqlite_env \<Rightarrow> TenantId option \<Rightarrow> sqlite_db \<Rightarrow> SqlitePageError + SnapshotPager" where
  "begin_snapshot_for_scope env tenant db =
     and_then (map_err (page_error_sql ''begin snapshot transaction'') (begin_read env)) (\<lambda>_.
     and_then (map_err (page_error_sql ''read snapshot upper row ID'')
       (run_or (env_fault env ''read snapshot upper row ID'' 0) (sql_max_row_id tenant db))) (\<lambda>upper.
     and_then (case upper of
         None \<Rightarrow> Inr None
       | Some v \<Rightarrow> map_err (\<lambda>e. SPagSerialization (verror_to_string e))
           (and_then (row_id_new v) (\<lambda>r. Inr (Some r)))) (\<lambda>upper_bound.
     Inr \<lparr>pager_transaction = Some db, pager_upper_bound = upper_bound, pager_cursor = None,
          pager_exhausted = (upper_bound = None), pager_tenant_id = tenant\<rparr>)))"

definition next_page ::
  "ext_lib \<Rightarrow> sqlite_env \<Rightarrow> PageLimit \<Rightarrow> SnapshotPager \<Rightarrow> (SqlitePageError + PagedEvent list) \<times> SnapshotPager" where
  "next_page lib env limit p =
     (if pager_exhausted p then (Inr [], p)
      else case pager_transaction p of
        None \<Rightarrow> (Inl SPagClosed, p)
      | Some db \<Rightarrow>
      case pager_upper_bound p of
        None \<Rightarrow> (Inl SPagPanic, p)
      | Some upper \<Rightarrow>
      case read_page_scoped lib env (pager_tenant_id p) (cursor_value (pager_cursor p))
          (Some (row_id_get upper)) limit db of
        Inl e \<Rightarrow> (Inl e, p\<lparr>pager_transaction := None\<rparr>)
      | Inr rows \<Rightarrow>
      if rows = [] then (Inr rows, p\<lparr>pager_exhausted := True\<rparr>)
      else let p = p\<lparr>pager_cursor := Some (pe_row_id (last rows))\<rparr> in
        (Inr rows,
         if length rows < limit_get limit \<or> pager_cursor p = pager_upper_bound p
           then p\<lparr>pager_exhausted := True\<rparr> else p))"

definition pager_finish :: "sqlite_env \<Rightarrow> SnapshotPager \<Rightarrow> SqlitePageError + unit" where
  "pager_finish env p =
     (case pager_transaction p of
        None \<Rightarrow> Inr ()
      | Some db \<Rightarrow> map_err (page_error_sql ''finish snapshot transaction'')
          (fst (commit_transaction env db db)))"

definition pager_rollback :: "sqlite_env \<Rightarrow> SnapshotPager \<Rightarrow> SqlitePageError + unit" where
  "pager_rollback env p =
     (case pager_transaction p of
        None \<Rightarrow> Inr ()
      | Some db \<Rightarrow> map_err (page_error_sql ''rollback snapshot transaction'')
          (run_or (env_fault env ''rollback snapshot transaction'' 0) ()))"

definition pager_close :: "sqlite_env \<Rightarrow> SnapshotPager \<Rightarrow> SqlitePageError + unit" where
  "pager_close env p = pager_rollback env p"

lemma hydrate_page_sel:
  assumes "hydrate_page lib row = Inr p"
  shows "pe_row_id p = RowId (er_row_id (du_event row))"
    and "tenant_id_str (pe_tenant_id p) = er_tenant_id (du_event row)"
proof -
  from assms obtain tid rid ev q s where new: "tenant_id_new (er_tenant_id (du_event row)) = Inr tid"
    "row_id_new (er_row_id (du_event row)) = Inr rid" "paged_event_new tid rid ev q s = Inr p"
    unfolding hydrate_page_def and_then_Inr_iff herr_Inr_iff by blast
  from new(2,3) show "pe_row_id p = RowId (er_row_id (du_event row))"
    by (auto simp: paged_event_new_def and_then_Inr_iff row_id_new_Inr_iff)
  from new(1,3) show "tenant_id_str (pe_tenant_id p) = er_tenant_id (du_event row)"
    by (auto simp: paged_event_new_def and_then_Inr_iff tenant_id_new_Inr_iff)
qed

section \<open>The pager reads its snapshot once\<close>

definition pager_at :: "SnapshotPager \<Rightarrow> TenantId option \<Rightarrow> sqlite_db \<Rightarrow> nat \<Rightarrow> bool" where
  "pager_at p tenant db k \<longleftrightarrow> (let rows = scope_rows tenant db in
     pager_transaction p = Some db \<and> pager_tenant_id p = tenant
     \<and> pager_upper_bound p = (if rows = [] then None else Some (RowId (er_row_id (last rows))))
     \<and> cursor_value (pager_cursor p) = position k rows
     \<and> (pager_exhausted p \<longleftrightarrow> length rows \<le> k))"

lemma begin_snapshot_at:
  assumes "db_ok db" and "begin_snapshot_for_scope env tenant db = Inr p"
  shows "pager_at p tenant db 0"
  using assms(2) sql_max_row_id_eq [OF assms(1), of tenant]
  by (auto simp: begin_snapshot_for_scope_def and_then_Inr_iff run_or_Inr_iff row_id_new_Inr_iff
      pager_at_def position_def cursor_value_def split: if_splits)

lemma next_page_at:
  assumes "db_ok db" and at: "pager_at p tenant db k" and l: "0 < limit_get l"
    and quiet: "\<And>a. env_fault env ''read event page'' a = None"
    and evs: "collect_results (hydrate_page lib) (map (page_join db) (scope_rows tenant db)) = Inr evs"
  obtains p' where "next_page lib env l p = (Inr (take (limit_get l) (drop k evs)), p')"
    "pager_at p' tenant db (k + limit_get l)"
proof (cases "length (scope_rows tenant db) \<le> k")
  case True
  then have "next_page lib env l p = (Inr [], p)" "drop k evs = []"
    using at collect_results_length [OF evs] by (simp_all add: next_page_def pager_at_def Let_def)
  moreover have "pager_at p tenant db (k + limit_get l)"
    using at True by (simp add: pager_at_def Let_def position_end)
  ultimately show thesis using that by simp
next
  case False
  let ?rows = "scope_rows tenant db" and ?n = "limit_get l"
  let ?page = "take ?n (drop k evs)"
  have some: "k < length ?rows" and rows: "?rows \<noteq> []" using False by auto
  note page = page_finished [OF assms(1) some l evs]
  have read: "read_page_scoped lib env tenant (position k ?rows)
      (Some (er_row_id (last ?rows))) l db = Inr ?page"
    using collect_results_take_drop [OF evs, of ?n k] quiet page_sql_slice [OF assms(1), of tenant k ?n]
    by (simp add: read_page_scoped_def)
  have last: "pe_row_id (last ?page) = RowId (position (k + ?n) ?rows)"
    by (rule last_page_row [OF page_row_ids [OF hydrate_page_sel(1) evs] some l])
  let ?p = "p\<lparr>pager_cursor := Some (RowId (position (k + ?n) ?rows)),
    pager_exhausted := (length ?rows \<le> k + ?n)\<rparr>"
  have "next_page lib env l p = (Inr ?page, ?p)"
    using at read False page last rows
    by (auto simp: next_page_def pager_at_def Let_def)
  moreover have "pager_at ?p tenant db (k + ?n)"
    using at by (simp add: pager_at_def Let_def cursor_value_def)
  ultimately show thesis by (rule that)
qed

text \<open>A sequence of calls, each with its own connection answers and limit.\<close>

definition run_pager ::
  "ext_lib \<Rightarrow> (sqlite_env \<times> PageLimit) list \<Rightarrow> SnapshotPager
     \<Rightarrow> (SqlitePageError + PagedEvent list) \<times> SnapshotPager" where
  "run_pager lib calls p = run_calls (\<lambda>(env, l). next_page lib env l) calls p"

definition total_limit :: "(sqlite_env \<times> PageLimit) list \<Rightarrow> nat" where
  "total_limit calls = sum_list (map (\<lambda>(env, l). limit_get l) calls)"

definition quiet_calls :: "(sqlite_env \<times> PageLimit) list \<Rightarrow> bool" where
  "quiet_calls calls \<longleftrightarrow> (\<forall>(env, l) \<in> set calls.
     0 < limit_get l \<and> (\<forall>a. env_fault env ''read event page'' a = None))"

text \<open>
  The pager of a consistent state whose rows all hydrate meets the contract; any other state
  gives it no events to return.
\<close>

definition snapshot_events :: "ext_lib \<Rightarrow> TenantId option \<Rightarrow> sqlite_db \<Rightarrow> PagedEvent list option" where
  "snapshot_events lib tenant db =
     (case collect_results (hydrate_page lib) (map (page_join db) (scope_rows tenant db)) of
        Inr evs \<Rightarrow> Some evs | Inl _ \<Rightarrow> None)"

interpretation sq_pager: snapshot_paging
  "\<lambda>p k. db_ok db \<and> snapshot_events lib tenant db \<noteq> None \<and> pager_at p tenant db k"
  "\<lambda>(env, l). next_page lib env l" "\<lambda>(env, l). limit_get l"
  "\<lambda>(env :: sqlite_env, l). 0 < limit_get l \<and> (\<forall>a. env_fault env ''read event page'' a = None)"
  "the (snapshot_events lib tenant db)" for lib tenant db
proof
  fix p k and c :: "sqlite_env \<times> PageLimit"
  assume at: "db_ok db \<and> snapshot_events lib tenant db \<noteq> None \<and> pager_at p tenant db k"
    and quiet: "case c of (env, l) \<Rightarrow> 0 < limit_get l \<and> (\<forall>a. env_fault env ''read event page'' a = None)"
  obtain env l where c: "c = (env, l)" by (cases c)
  obtain evs where evs: "collect_results (hydrate_page lib) (map (page_join db) (scope_rows tenant db)) = Inr evs"
    using at by (auto simp: snapshot_events_def split: sum.splits)
  obtain p' where "next_page lib env l p = (Inr (take (limit_get l) (drop k evs)), p')"
    "pager_at p' tenant db (k + limit_get l)"
    using next_page_at [OF _ _ _ _ evs, of p k l env] at quiet by (auto simp: c)
  then show "\<exists>p'. (case c of (env, l) \<Rightarrow> next_page lib env l) p
        = (Inr (take (case c of (env, l) \<Rightarrow> limit_get l) (drop k (the (snapshot_events lib tenant db)))), p')
      \<and> db_ok db \<and> snapshot_events lib tenant db \<noteq> None
      \<and> pager_at p' tenant db (k + (case c of (env, l) \<Rightarrow> limit_get l))"
    using at by (simp add: c snapshot_events_def evs)
qed

lemma run_pager_at:
  assumes "db_ok db"
    and evs: "collect_results (hydrate_page lib) (map (page_join db) (scope_rows tenant db)) = Inr evs"
    and "quiet_calls calls" and "pager_at p tenant db k"
  shows "\<exists>p'. run_pager lib calls p = (Inr (take (total_limit calls) (drop k evs)), p')
    \<and> pager_at p' tenant db (k + total_limit calls)"
  using sq_pager.calls [of db lib tenant p k calls] assms
  by (auto simp: run_pager_def total_limit_def quiet_calls_def snapshot_events_def list_all_iff)

end
