(* ===== verification/Sqlite_Scope.thy ===== *)
theory Sqlite_Scope
  imports Sqlite_Import Sqlite_Mutation Sqlite_Page
begin

text \<open>
  The handles of \<open>crates/dovecote-sqlx-sqlite/src/lib.rs\<close> and \<open>scope.rs\<close>: \<open>SqliteDovecote\<close>, the
  handle of one tenant and the administrative one. A handle holds the pool, which is the
  environment argument here, the busy policy and, for a tenant, the tenant it is restricted to.
  Operations inside a transaction of the caller return its working state.
\<close>

record SqliteDovecote =
  sd_busy :: BusyConfig

record TenantDovecote =
  th_tenant_id :: TenantId
  th_busy :: BusyConfig

record AdminDovecote =
  ah_busy :: BusyConfig

definition sqlite_dovecote_new :: SqliteDovecote where
  "sqlite_dovecote_new = \<lparr>sd_busy = busy_config_default\<rparr>"

definition with_busy_config :: "BusyConfig \<Rightarrow> SqliteDovecote" where
  "with_busy_config busy = \<lparr>sd_busy = busy\<rparr>"

definition begin_write :: "(nat \<Rightarrow> sqlite_env) \<Rightarrow> SqliteEnqueueError + nat" where
  "begin_write envs = begin_write_with_config envs busy_config_default"

definition begin_enqueue :: "(nat \<Rightarrow> sqlite_env) \<Rightarrow> SqliteEnqueueError + nat" where
  "begin_enqueue envs = begin_write envs"

definition sqlite_begin_write :: "SqliteDovecote \<Rightarrow> (nat \<Rightarrow> sqlite_env) \<Rightarrow> SqliteEnqueueError + nat" where
  "sqlite_begin_write self envs = begin_write_with_config envs (sd_busy self)"

definition sqlite_begin_enqueue :: "SqliteDovecote \<Rightarrow> (nat \<Rightarrow> sqlite_env) \<Rightarrow> SqliteEnqueueError + nat" where
  "sqlite_begin_enqueue self envs = sqlite_begin_write self envs"

definition for_tenant :: "SqliteDovecote \<Rightarrow> TenantId \<Rightarrow> TenantDovecote" where
  "for_tenant self tenant_id = \<lparr>th_tenant_id = tenant_id, th_busy = sd_busy self\<rparr>"

definition admin :: "SqliteDovecote \<Rightarrow> AdminDovecote" where
  "admin self = \<lparr>ah_busy = sd_busy self\<rparr>"

definition sqlite_check_schema :: "SqliteDovecote \<Rightarrow> schema_view \<Rightarrow> sqlite_env \<Rightarrow> SqliteSchemaError + unit" where
  "sqlite_check_schema self sv env = check_schema (sv_lower sv) (build_migrations (sv_build sv))
     (build_version (sv_build sv)) env (sv_catalog sv)"

section \<open>The tenant handle\<close>

definition tenant_check_schema :: "TenantDovecote \<Rightarrow> schema_view \<Rightarrow> sqlite_env \<Rightarrow> SqliteSchemaError + unit" where
  "tenant_check_schema self sv env = check_schema (sv_lower sv) (build_migrations (sv_build sv))
     (build_version (sv_build sv)) env (sv_catalog sv)"

definition tenant_begin_write :: "TenantDovecote \<Rightarrow> (nat \<Rightarrow> sqlite_env) \<Rightarrow> SqliteEnqueueError + nat" where
  "tenant_begin_write self envs = begin_write_with_config envs (th_busy self)"

definition tenant_begin_enqueue :: "TenantDovecote \<Rightarrow> (nat \<Rightarrow> sqlite_env) \<Rightarrow> SqliteEnqueueError + nat" where
  "tenant_begin_enqueue self envs = tenant_begin_write self envs"

definition tenant_enqueue where
  "tenant_enqueue lib bld env self event db =
     enqueue_for_scope lib bld env (th_tenant_id self) event db"

definition tenant_import_for_migration where
  "tenant_import_for_migration lib sv env self event state db =
     import_for_scope lib sv env (th_tenant_id self) event state db"

definition tenant_finalize_pending_delivery_for_migration where
  "tenant_finalize_pending_delivery_for_migration lib sv env self row_id delivered_at db =
     finalize_for_scope lib sv env (th_tenant_id self) row_id delivered_at db"

definition tenant_page where
  "tenant_page lib env self after limit db =
     page_for_scope lib env (Some (th_tenant_id self)) after limit db"

definition tenant_begin_snapshot where
  "tenant_begin_snapshot env self db =
     begin_snapshot_for_scope env (Some (th_tenant_id self)) db"

definition tenant_claim where
  "tenant_claim lib envs self worker lease limit entropy db =
     claim_for_scope lib envs
       \<lparr>cr_tenant_id = Some (th_tenant_id self), cr_worker = worker, cr_lease_for = lease, cr_limit = limit\<rparr>
       (th_busy self) entropy db"

definition tenant_renew where
  "tenant_renew lib envs self row_id token lease db =
     renew_for_scope lib envs (Some (th_tenant_id self)) row_id token lease (th_busy self) db"

definition tenant_ack where
  "tenant_ack lib envs self row_id token db =
     ack_for_scope lib envs (Some (th_tenant_id self)) row_id token (th_busy self) db"

definition tenant_retry where
  "tenant_retry lib envs self row_id token failure delay db =
     retry_for_scope lib envs (Some (th_tenant_id self)) row_id token failure delay (th_busy self) db"

definition tenant_release where
  "tenant_release lib envs self row_id token delay db =
     release_for_scope lib envs (Some (th_tenant_id self)) row_id token delay (th_busy self) db"

definition tenant_quarantine where
  "tenant_quarantine lib envs self row_id token reason db =
     quarantine_for_scope lib envs (Some (th_tenant_id self)) row_id token reason (th_busy self) db"

section \<open>The administrative handle\<close>

definition admin_enqueue where
  "admin_enqueue lib bld env (self :: AdminDovecote) tenant event db =
     enqueue_for_scope lib bld env tenant event db"

definition admin_import_for_migration where
  "admin_import_for_migration lib sv env (self :: AdminDovecote) tenant event state db =
     import_for_scope lib sv env tenant event state db"

definition admin_finalize_pending_delivery_for_migration where
  "admin_finalize_pending_delivery_for_migration lib sv env (self :: AdminDovecote) tenant row_id delivered_at db =
     finalize_for_scope lib sv env tenant row_id delivered_at db"

definition admin_page where
  "admin_page lib env (self :: AdminDovecote) after limit db =
     page_for_scope lib env None after limit db"

definition admin_begin_snapshot where
  "admin_begin_snapshot env (self :: AdminDovecote) db =
     begin_snapshot_for_scope env None db"

definition admin_claim where
  "admin_claim lib envs self worker lease limit entropy db =
     claim_for_scope lib envs
       \<lparr>cr_tenant_id = None, cr_worker = worker, cr_lease_for = lease, cr_limit = limit\<rparr>
       (ah_busy self) entropy db"

definition admin_renew where
  "admin_renew lib envs self tenant row_id token lease db =
     renew_for_scope lib envs (Some tenant) row_id token lease (ah_busy self) db"

definition admin_ack where
  "admin_ack lib envs self tenant row_id token db =
     ack_for_scope lib envs (Some tenant) row_id token (ah_busy self) db"

definition admin_retry where
  "admin_retry lib envs self tenant row_id token failure delay db =
     retry_for_scope lib envs (Some tenant) row_id token failure delay (ah_busy self) db"

definition admin_release where
  "admin_release lib envs self tenant row_id token delay db =
     release_for_scope lib envs (Some tenant) row_id token delay (ah_busy self) db"

definition admin_quarantine where
  "admin_quarantine lib envs self tenant row_id token reason db =
     quarantine_for_scope lib envs (Some tenant) row_id token reason (ah_busy self) db"

end
