(* ===== verification/Sqlite_Lifecycle.thy ===== *)
theory Sqlite_Lifecycle
  imports Sqlite_Scope
begin

text \<open>
  The SQLite adapter refines the delivery lifecycle. A committed operation is a step of
  \<open>sqlite_step\<close>; rows it does not name stay as they are and rows it changes take a step of the
  abstract lifecycle. The claim and the mutation loops, whose attempts interleave with what
  peers commit, are sequences of such steps. The interpretation of \<open>delivery_store\<close> gives the
  laws of the lifecycle for every run of the adapter.
\<close>

section \<open>Committed operations\<close>

text \<open>
  One committed operation. Statements inside a transaction of the caller hold the writer lock,
  so its operations are consecutive steps, and the caller rolls back after an error. A claim or
  a mutation is the attempt that commits, from the state it finds when it gets the lock; what
  peers committed before that are steps of their own.
\<close>

inductive sqlite_step :: "ext_lib \<Rightarrow> sqlite_db \<Rightarrow> sqlite_db \<Rightarrow> bool" for lib where
  enqueue: "enqueue_for_scope lib bld env tenant event db = (Inr enqueued, db') \<Longrightarrow>
    sqlite_step lib db db'"
| imported: "import_for_scope lib sv env tenant event state db = (Inr outcome, db') \<Longrightarrow>
    sqlite_step lib db db'"
| finalize: "finalize_for_scope lib sv env tenant row_id t db = (Inr finalized, db') \<Longrightarrow>
    sqlite_step lib db db'"
| claim: "claim_once lib env request busy entropy db0 = Some (Inr claimed, rest, db') \<Longrightarrow>
    db = env_peer env db0 \<Longrightarrow> sqlite_step lib db db'"
| mutate: "mutate_once lib env scope row_id token mutation busy db0 = (Inr (), db') \<Longrightarrow>
    db = env_peer env db0 \<Longrightarrow> sqlite_step lib db db'"

inductive_cases sqlite_stepE: "sqlite_step lib db db'"

section \<open>Every step refines the lifecycle\<close>

lemma claim_batch_steps:
  assumes "db_ok db" "claim_batch env request db claimed db'"
  shows "row_steps db db' r"
proof (cases "RowId r \<in> ce_row_id ` set claimed")
  case True
  then obtain c where c: "c \<in> set claimed" "row_id_get (ce_row_id c) = r" by (metis imageE RowId.sel)
  then obtain d x where d: "find_delivery db r = Some d"
    "claim_of (env_now env) (cr_tenant_id request) (cr_worker request) d c"
    "find_delivery db' r = Some (claimed_row x c d)"
    using assms(2) unfolding claim_batch_def by metis
  have "delivery_check d" "delivery_check (claimed_row x c d)"
    using find_delivery_check d assms unfolding claim_batch_def by blast+
  then show ?thesis
    using claim_refines d unfolding row_steps_def db_spec_def by fastforce
next
  case False
  then show ?thesis using assms(2) row_steps_same unfolding claim_batch_def by blast
qed

lemma mutated_steps:
  assumes "db_ok db" "mutated env tenant row_id token mutation db db'"
  shows "row_steps db db' r"
proof (cases "r = row_id_get row_id")
  case True
  obtain d d' p where d: "find_delivery db r = Some d" "find_delivery db' r = Some d'"
    "mutation_where row_id tenant token (env_now env) d"
    "mutation_set (env_strftime_add env) (env_now env) p d = Some d'"
    using assms(2) True unfolding mutated_def by blast
  then show ?thesis
    using mutation_refines [OF d(3,4)] find_delivery_check [OF assms(1) d(1)]
    unfolding row_steps_def db_spec_def by auto
next
  case False
  then show ?thesis using assms(2) row_steps_same unfolding mutated_def by blast
qed

lemma finalized_steps:
  assumes "db_ok db" "finalize_for_scope lib sv env tenant row_id t db = (Inr out, db')"
  shows "row_steps db db' r"
  using assms(2)
proof (cases rule: finalize_for_scope_cases)
  case (updated ev d rows)
  let ?f = "\<lambda>e. e\<lparr>dr_state := ''delivered'', dr_delivered_at := Some (sqlite_format_timestamp lib t)\<rparr>"
  have db': "db' = db\<lparr>db_deliveries := update_rows (\<lambda>e. dr_event_row_id e = row_id_get row_id) ?f
      (db_deliveries db)\<rparr>"
    by (rule finalize_updated(2) [OF assms(1) updated(1-3)])
  have find: "find_delivery db' r = map_option (\<lambda>e. if dr_event_row_id e = row_id_get row_id
      then ?f e else e) (find_delivery db r)" for r
    unfolding db' find_delivery_def by (simp add: find_update_rows)
  have "distinct (map dr_event_row_id (db_deliveries db))" using assms(1) by (simp add: db_ok_def)
  then have d: "find_delivery db (row_id_get row_id) = Some d"
    using finalize_prepare_Inr(2,4) [OF updated(1)] find_delivery_Some_iff by blast
  show ?thesis
  proof (cases "r = row_id_get row_id")
    case True
    have "spec_step now ActFinalize (abs_delivery d) (abs_delivery (?f d))" for now :: string
      by (rule finalize_refines [OF updated(2)])
    moreover have "find_delivery db' r = Some (?f d)"
      using find [of r] d True finalize_prepare_Inr(4) [OF updated(1)] by simp
    ultimately show ?thesis using d True unfolding row_steps_def db_spec_def by auto
  next
    case False
    then have "find_delivery db' r = find_delivery db r"
      using find [of r] by (cases "find_delivery db r") (auto simp: find_delivery_def dest!: find_Some_in)
    then show ?thesis by (rule row_steps_same)
  qed
qed (simp_all add: row_steps_same)

lemma sqlite_step_ok:
  assumes "db_ok db" "sqlite_step lib db db'"
  shows "db_ok db'"
  using assms(2)
proof cases
  case (enqueue bld env tenant event out)
  then show ?thesis using enqueue_keeps_ok assms(1) by blast
next
  case (imported sv env tenant event state out)
  then show ?thesis using import_keeps_ok assms(1) by blast
next
  case (finalize sv env tenant row_id t out)
  then show ?thesis using finalize_keeps_ok assms(1) by blast
next
  case (claim env request busy entropy db0 claimed rest)
  then show ?thesis using claim_once_batch assms(1) unfolding claim_batch_def by metis
next
  case (mutate env scope row_id token mutation busy db0)
  then show ?thesis using mutate_once_mutated assms(1) unfolding mutated_def by metis
qed

lemma sqlite_step_refines:
  assumes "db_ok db" "sqlite_step lib db db'"
  shows "row_steps db db' r"
  using assms(2)
proof cases
  case (enqueue bld env tenant event out)
  show ?thesis
  proof (cases out)
    case (Enqueued rid)
    then have "\<exists>ds. db_deliveries db' = db_deliveries db @ ds"
      using enqueue_Enqueued [of lib bld env tenant event db rid db'] enqueue by auto
    then show ?thesis using row_steps_append by blast
  next
    case (AlreadyEnqueued rid)
    then have "db' = db" using enqueue_AlreadyEnqueued [OF assms(1)] enqueue by blast
    then show ?thesis using row_steps_same by blast
  qed
next
  case (imported sv env tenant event state out)
  show ?thesis
  proof (cases out)
    case (Imported rid)
    then have "\<exists>ds. db_deliveries db' = db_deliveries db @ ds"
      using import_Imported [of lib sv env tenant event state db rid db'] imported by auto
    then show ?thesis using row_steps_append by blast
  next
    case (AlreadyImported rid)
    then have "db' = db" using import_AlreadyImported [OF assms(1)] imported by blast
    then show ?thesis using row_steps_same by blast
  qed
next
  case (finalize sv env tenant row_id t out)
  then show ?thesis using finalized_steps assms(1) by blast
next
  case (claim env request busy entropy db0 claimed rest)
  then show ?thesis using claim_once_batch claim_batch_steps assms(1) by metis
next
  case (mutate env scope row_id token mutation busy db0)
  then show ?thesis using mutate_once_mutated mutated_steps assms(1) by metis
qed

interpretation sq: delivery_store db_spec db_ok "sqlite_step lib" for lib
proof
  show "db_ok db \<Longrightarrow> sqlite_step lib db db' \<Longrightarrow> db_ok db'" for db db'
    by (rule sqlite_step_ok)
  show "db_ok db \<Longrightarrow> sqlite_step lib db db' \<Longrightarrow> db_spec db r = Some d \<Longrightarrow>
      \<exists>d'. db_spec db' r = Some d' \<and> (d' = d \<or> (\<exists>now a. spec_step now a d d'))" for db db' r d
    using sqlite_step_refines unfolding row_steps_def by blast
qed

section \<open>Operations with retries are runs\<close>

text \<open>Peers run operations of the same adapter.\<close>

definition peers_run :: "ext_lib \<Rightarrow> (nat \<Rightarrow> sqlite_env) \<Rightarrow> bool" where
  "peers_run lib envs \<longleftrightarrow> (\<forall>n db. (sqlite_step lib)\<^sup>*\<^sup>* db (env_peer (envs n) db))"

lemma peers_reach:
  assumes "peers_run lib envs"
  shows "(sqlite_step lib)\<^sup>*\<^sup>* db (peers envs 0 n db)"
proof (induction n)
  case (Suc n)
  have "(sqlite_step lib)\<^sup>*\<^sup>* (peers envs 0 n db) (env_peer (envs n) (peers envs 0 n db))"
    using assms by (simp add: peers_run_def)
  then show ?case using Suc by (simp add: peers_def)
qed simp

lemma claim_for_scope_run:
  assumes "peers_run lib envs"
    and "claim_for_scope lib envs request busy ent db = Some (res, rest, db')"
  shows "(sqlite_step lib)\<^sup>*\<^sup>* db db'"
proof (cases res)
  case (Inl e)
  then show ?thesis using claim_for_scope_Inl assms peers_reach by metis
next
  case (Inr claimed)
  then have "claim_with_entropy_scoped lib envs request busy 0 ent db = Some (Inr claimed, rest, db')"
    using assms(2) by (auto simp: claim_for_scope_def split: sum.splits)
  from claim_loop_last_attempt [OF this le0] obtain n ent' res' where
    once: "claim_once lib (envs n) request busy ent' (peers envs 0 n db) = Some (res', rest, db')"
    and res: "\<forall>cs. Inr claimed = Inr cs \<longleftrightarrow> res' = Inr cs"
    by auto
  have "res' = Inr claimed" using res [rule_format, of claimed] by simp
  then have "sqlite_step lib (env_peer (envs n) (peers envs 0 n db)) db'"
    using sqlite_step.claim once by blast
  moreover have "(sqlite_step lib)\<^sup>*\<^sup>* db (env_peer (envs n) (peers envs 0 n db))"
    using peers_reach [OF assms(1), of db "Suc n"] by (simp add: peers_def)
  ultimately show ?thesis by (rule rtranclp.rtrancl_into_rtrancl [rotated])
qed

lemma mutate_with_config_run:
  assumes "peers_run lib envs"
    and "mutate_with_config lib envs tenant row_id token mutation busy db = (res, db')"
  shows "(sqlite_step lib)\<^sup>*\<^sup>* db db'"
proof (cases res)
  case (Inl e)
  then show ?thesis using mutate_with_config_Inl assms peers_reach by metis
next
  case (Inr u)
  then have "mutate_loop lib envs tenant row_id token mutation busy 0 db = (Inr (), db')"
    using assms(2) by (auto simp: mutate_with_config_def split: sum.splits)
  from mutate_loop_last_attempt [OF this] obtain n where
    "mutate_once lib (envs n) tenant row_id token mutation busy (peers envs 0 n db) = (Inr (), db')"
    by auto
  then have "sqlite_step lib (env_peer (envs n) (peers envs 0 n db)) db'"
    using sqlite_step.mutate by blast
  moreover have "(sqlite_step lib)\<^sup>*\<^sup>* db (env_peer (envs n) (peers envs 0 n db))"
    using peers_reach [OF assms(1), of db "Suc n"] by (simp add: peers_def)
  ultimately show ?thesis by (rule rtranclp.rtrancl_into_rtrancl [rotated])
qed

section \<open>Tenants are isolated\<close>

lemma claim_batch_outside:
  assumes "db_ok db" "claim_batch env request db claimed db'" "cr_tenant_id request = Some tenant"
  shows "same_outside (tenant_id_str tenant) db db'"
proof (rule same_outside_find [OF assms(1)])
  show "db_ok db'" "db_events db' = db_events db" using assms(2) by (auto simp: claim_batch_def)
  fix r
  show "find_delivery db' r = find_delivery db r
      \<or> (\<exists>d d'. find_delivery db r = Some d \<and> find_delivery db' r = Some d'
           \<and> dr_tenant_id d = tenant_id_str tenant \<and> dr_tenant_id d' = tenant_id_str tenant)"
  proof (cases "RowId r \<in> ce_row_id ` set claimed")
    case True
    then obtain c where c: "c \<in> set claimed" "row_id_get (ce_row_id c) = r" by (metis imageE RowId.sel)
    then obtain d x where d: "find_delivery db r = Some d"
      "claim_of (env_now env) (Some tenant) (cr_worker request) d c"
      "find_delivery db' r = Some (claimed_row x c d)"
      using assms(2,3) unfolding claim_batch_def by metis
    then have "dr_tenant_id d = tenant_id_str tenant" by (simp add: claim_of_def claim_scope_def)
    then show ?thesis using d by (simp add: claimed_row_def)
  next
    case False
    then show ?thesis using assms(2) by (simp add: claim_batch_def)
  qed
qed

lemma mutated_outside:
  assumes "db_ok db" "mutated env (Some tenant) row_id token mutation db db'"
  shows "same_outside (tenant_id_str tenant) db db'"
proof (rule same_outside_find [OF assms(1)])
  show "db_ok db'" "db_events db' = db_events db" using assms(2) by (auto simp: mutated_def)
  fix r
  show "find_delivery db' r = find_delivery db r
      \<or> (\<exists>d d'. find_delivery db r = Some d \<and> find_delivery db' r = Some d'
           \<and> dr_tenant_id d = tenant_id_str tenant \<and> dr_tenant_id d' = tenant_id_str tenant)"
  proof (cases "r = row_id_get row_id")
    case True
    obtain d d' p where d: "find_delivery db r = Some d" "find_delivery db' r = Some d'"
      "mutation_where row_id (Some tenant) token (env_now env) d"
      "mutation_set (env_strftime_add env) (env_now env) p d = Some d'"
      using assms(2) True unfolding mutated_def by blast
    then have "dr_tenant_id d = tenant_id_str tenant" "dr_tenant_id d' = dr_tenant_id d"
      by (auto simp: mutation_where_def tenant_matches_def dest: mutation_set_key)
    then show ?thesis using d by simp
  next
    case False
    then show ?thesis using assms(2) by (simp add: mutated_def)
  qed
qed

section \<open>Events are permanent and keep their delivery\<close>

lemma finalize_events:
  assumes "finalize_for_scope lib sv env tenant row_id t db = (res, db')"
  shows "db_events db' = db_events db"
  using assms
proof (cases rule: finalize_for_scope_cases)
  case (updated r d rows)
  show ?thesis
    by (rule sql_update_deliveries_find(1) [OF updated(3)]) (auto dest: finalize_set_key)
qed auto

text \<open>A step keeps the events or adds one, with its delivery.\<close>

lemma step_shape:
  assumes "db_ok db" "sqlite_step lib db db'"
  shows "db_events db' = db_events db
    \<or> (\<exists>r d. db_events db' = db_events db @ [r] \<and> db_deliveries db' = db_deliveries db @ [d]
         \<and> dr_event_row_id d = er_row_id r)"
  using assms(2)
proof cases
  case (enqueue bld env tenant event out)
  show ?thesis
  proof (cases out)
    case (Enqueued rid)
    then show ?thesis
      using enqueue_Enqueued [of lib bld env tenant event db rid db'] enqueue
      by (auto simp: enqueued_delivery_def)
  next
    case (AlreadyEnqueued rid)
    then show ?thesis using enqueue_AlreadyEnqueued [OF assms(1)] enqueue by blast
  qed
next
  case (imported sv env tenant event state out)
  show ?thesis
  proof (cases out)
    case (Imported rid)
    then show ?thesis using import_Imported [of lib sv env tenant event state db rid db'] imported by auto
  next
    case (AlreadyImported rid)
    then show ?thesis using import_AlreadyImported [OF assms(1)] imported by blast
  qed
next
  case (finalize sv env tenant row_id t out)
  then show ?thesis using finalize_events by blast
next
  case (claim env request busy entropy db0 claimed rest)
  then show ?thesis using claim_once_batch assms(1) unfolding claim_batch_def by blast
next
  case (mutate env scope row_id token mutation busy db0)
  then show ?thesis using mutate_once_mutated assms(1) unfolding mutated_def by blast
qed

lemma step_events:
  "db_ok db \<Longrightarrow> sqlite_step lib db db' \<Longrightarrow> set (db_events db) \<subseteq> set (db_events db')"
  using step_shape by fastforce

lemma run_events:
  assumes "(sqlite_step lib)\<^sup>*\<^sup>* db db'" "db_ok db"
  shows "set (db_events db) \<subseteq> set (db_events db')"
  using assms by (induction rule: rtranclp_induct) (use step_events sq.run_inv in blast)+

lemma run_keeps_delivery:
  assumes "(sqlite_step lib)\<^sup>*\<^sup>* db db'" "db_ok db"
    and "r \<in> set (db_events db)" "find_delivery db (er_row_id r) \<noteq> None"
  obtains d' where "d' \<in> set (db_deliveries db')" "dr_event_row_id d' = er_row_id r"
    "dr_tenant_id d' = er_tenant_id r"
proof -
  obtain s where "db_spec db (er_row_id r) = Some s" using assms(4) by (auto simp: db_spec_def)
  then obtain s' where "db_spec db' (er_row_id r) = Some s'"
    using sq.run_keeps_row assms(1,2) by blast
  then obtain d' where "find_delivery db' (er_row_id r) = Some d'" by (auto simp: db_spec_def)
  moreover have "db_ok db'" using sq.run_inv assms(1,2) by blast
  moreover have "r \<in> set (db_events db')" using run_events assms(1-3) by blast
  ultimately show thesis using delivery_tenant [of db' "er_row_id r" d' r] that by blast
qed

lemma new_events_paired:
  assumes "db_ok db" "sqlite_step lib db db'" "r \<in> set (db_events db')" "r \<notin> set (db_events db)"
  shows "find_delivery db' (er_row_id r) \<noteq> None"
  using step_shape [OF assms(1,2)] assms(3,4) by (auto simp: find_delivery_def find_None_set)

lemma sqlite_step_paired:
  assumes "db_ok db" "db_paired db" "sqlite_step lib db db'"
  shows "db_paired db'"
  using db_paired_step [OF assms(1) sqlite_step_ok [OF assms(1,3)] assms(2)]
    sqlite_step_refines [OF assms(1,3)] new_events_paired [OF assms(1,3)] by blast

end
