(* ===== verification/Dovecote_Samples.thy ===== *)
theory Dovecote_Samples
  imports Sqlite_Lifecycle Core_Samples
begin

text \<open>
  Concrete values at which the properties of the SQLite adapter are instantiated: a connection
  without faults and the states that a small event goes through.
\<close>

section \<open>Connections\<close>

definition sample_env :: sqlite_env where
  "sample_env = \<lparr>env_acquire = None, env_fk_execute = None, env_fk_value = Inr 1, env_timeout_execute = None,
     env_timeout_value = Inr, env_begin = None, env_fault = (\<lambda>_ _. None),
     env_now = ''2026-01-01T00:00:05.000000Z'',
     env_strftime_add = (\<lambda>t ms. Some ''2026-01-01T00:01:05.000000Z''), env_commit = None, env_peer = (\<lambda>db. db),
     env_txn_write = Inr True, env_table_present = (\<lambda>_. Inr True), env_row_id_gap = 0\<rparr>"

definition sample_build :: sqlite_build where
  "sample_build = \<lparr>build_migrations = MIGRATIONS [], build_version = crate_version_new 0 2 3\<rparr>"

section \<open>States\<close>

definition sample_row :: "string event_row" where
  "sample_row = event_columns sample_lib ''acme'' sample_content 1 ''2026-01-01T00:00:05.000000Z''"

definition sample_delivery :: "string delivery_row" where
  "sample_delivery = enqueued_delivery ''acme'' 1 ''2026-01-01T00:00:05.000000Z''"

definition sample_db :: sqlite_db where
  "sample_db = \<lparr>db_events = [sample_row], db_deliveries = [sample_delivery], db_last_row_id = 1\<rparr>"

definition sample_request :: ClaimRequest where
  "sample_request = \<lparr>cr_tenant_id = Some sample_tenant, cr_worker = WorkerId ''w1'',
     cr_lease_for = Lease \<lparr>secs = 60, subsec_nanos = 0\<rparr>, cr_limit = PageLimit 10\<rparr>"

definition sample_claimed_delivery :: "string delivery_row" where
  "sample_claimed_delivery = sample_delivery\<lparr>dr_state := ''claimed'', dr_attempts := 1,
     dr_claim_token := Some sample_token, dr_claimed_by := Some ''w1'',
     dr_claim_expires_at := Some ''2026-01-01T00:01:05.000000Z''\<rparr>"

definition sample_claimed_db :: sqlite_db where
  "sample_claimed_db = sample_db\<lparr>db_deliveries := [sample_claimed_delivery]\<rparr>"

definition sample_delivered_db :: sqlite_db where
  "sample_delivered_db = sample_db\<lparr>db_deliveries := [sample_delivery\<lparr>dr_state := ''delivered'',
     dr_attempts := 1, dr_delivered_at := Some ''2026-01-01T00:00:05.000000Z''\<rparr>]\<rparr>"

section \<open>Evaluation\<close>

lemma sample_env_sel [simp]:
  "env_acquire sample_env = None" "env_fault sample_env label rid = None" "env_commit sample_env = None"
  "env_now sample_env = ''2026-01-01T00:00:05.000000Z''" "env_peer sample_env db = db"
  "env_strftime_add sample_env t ms = Some ''2026-01-01T00:01:05.000000Z''"
  "env_txn_write sample_env = Inr True" "env_row_id_gap sample_env = 0"
  by (simp_all add: sample_env_def)

lemma sample_begin [simp]:
  "begin_immediate sample_env busy_config_default = Inr ()" "begin_read sample_env = Inr ()"
  "install_foreign_keys sample_env = Inr ()" "validate_busy_config busy_config_default = Inr ()"
  by (simp_all add: begin_immediate_def begin_read_def install_foreign_keys_def install_busy_timeout_def
      validate_busy_config_def checked_busy_timeout_def checked_milliseconds_def duration_is_zero_def
      as_millis_def i64_max_def busy_config_default_def busy_config_new_def DEFAULT_BUSY_TIMEOUT_def
      sample_env_def)

lemma sample_enqueue_schema [simp]: "validate_enqueue_schema sample_build sample_env = Inr ()"
  by code_simp

lemma sample_row_eq [simp]:
  "event_columns sample_lib (tenant_id_str sample_tenant) (new_content sample_event) 1
     ''2026-01-01T00:00:05.000000Z'' = sample_row"
  by (simp add: sample_row_def sample_tenant_def sample_event_def)

lemma sample_row_sel [simp]:
  "er_row_id sample_row = 1" "er_enqueued_at sample_row = ''2026-01-01T00:00:05.000000Z''"
  "er_tenant_id sample_row = ''acme''" "tenant_id_str sample_tenant = ''acme''"
  by (simp_all add: sample_row_def sample_tenant_def)

lemma sample_row_check [simp]: "event_check sample_row"
  by code_simp

lemma sample_delivery_check [simp]: "delivery_check sample_delivery" "delivery_check sample_claimed_delivery"
  by code_simp+

lemma sample_db_ok [simp]: "db_ok sample_db" "db_ok sample_claimed_db" "db_ok sample_delivered_db"
  by code_simp+

lemma sample_codecs: "durable_codecs sample_lib sample_content"
  by (simp add: durable_codecs_def extension_codecs_def sample_content_def sample_instant_def sample_print_def
      canonical_json_def extensions_object_def)

lemmas sample_content_ok = sample_content_wf sample_content_valid sample_codecs

lemma sample_hydrate [simp]: "hydrate_event sample_lib sample_row = Inr (StoredEvent sample_content)"
  unfolding sample_row_def
  using hydrate_event_columns [OF sample_content_ok] by simp

lemma sample_enqueue:
  "enqueue_for_scope sample_lib sample_build sample_env sample_tenant sample_event db_empty
     = (Inr (Enqueued (RowId 1)), sample_db)"
proof -
  have "sql_insert_event sample_env ''insert event'' (\<lambda>rid. event_columns sample_lib
      (tenant_id_str sample_tenant) (new_content sample_event) rid (env_now sample_env)) db_empty
    = Inr (Some sample_row, \<lparr>db_events = [sample_row], db_deliveries = [], db_last_row_id = 1\<rparr>)"
    using sample_row_eq by (simp add: sql_insert_event_def db_empty_def i64_max_def Let_def)
  then show ?thesis
    using sample_delivery_check(1)
    by (simp add: enqueue_for_scope_def row_id_new_def sql_insert_delivery_def table_insert_delivery_def sample_delivery_def
        enqueued_delivery_def sample_db_def)
qed

lemma sample_parse [simp]: "sqlite_parse_timestamp sample_lib s = Inr sample_instant"
  by (simp add: sqlite_parse_timestamp_def sample_instant_def to_offset_utc_panics_def to_offset_utc_def
      odt_min_nanos_def odt_max_nanos_def)

lemma sample_prepare:
  "prepare_claims sample_lib [] [Inr sample_token] [durable_join sample_row (Some sample_delivery)]
     = Some (Inr [sample_prepared], [])"
  by (simp add: prepare_claims_def claim_counter_def claim_hydrate_def durable_join_def sample_delivery_def
      enqueued_delivery_def row_id_new_def attempt_count_new_def checked_add_i64_def i64_range_def i64_min_def
      i64_max_def sample_prepared_def)

lemma sample_claim_update:
  "sql_update_deliveries sample_env ''update claimed delivery'' 1 (claim_update_where sample_prepared)
     (\<lambda>d. Some (claim_update_row (Some ''2026-01-01T00:01:05.000000Z'') (WorkerId ''w1'') sample_prepared d))
     sample_db = Inr ([sample_claimed_delivery], sample_claimed_db)"
proof -
  have "claim_update_where sample_prepared sample_delivery"
    by (simp add: claim_update_where_def sample_prepared_def sample_delivery_def enqueued_delivery_def)
  moreover have "claim_update_row (Some ''2026-01-01T00:01:05.000000Z'') (WorkerId ''w1'') sample_prepared
      sample_delivery = sample_claimed_delivery"
    by (simp add: claim_update_row_def sample_prepared_def sample_claimed_delivery_def)
  ultimately show ?thesis
    by (simp add: sql_update_deliveries_def table_update_deliveries_def sample_db_def sample_claimed_db_def update_rows_def)
qed

lemma sample_apply:
  "apply_claims sample_lib sample_env ''2026-01-01T00:00:05.000000Z'' 60000 (WorkerId ''w1'')
     [sample_prepared] sample_db = Inr ([sample_claim], sample_claimed_db)"
  using sample_claim_update
  by (simp add: sample_prepared_def sample_claim_def sample_claimed_delivery_def claimed_event_new_def
      claim_token_from_bytes_def)

lemma sample_claim_once:
  "claim_once sample_lib sample_env sample_request busy_config_default [Inr sample_token] sample_db
     = Some (Inr [sample_claim], [], sample_claimed_db)"
proof -
  have sql: "claim_sql (Some sample_tenant) ''2026-01-01T00:00:05.000000Z'' 10 sample_db
      = [durable_join sample_row (Some sample_delivery)]"
    by (simp add: claim_sql_def claim_rows_def claim_scope_def sample_db_def sample_delivery_def enqueued_delivery_def join_event_def
        map_filter_simps claim_eligible_def)
  have ms: "checked_milliseconds \<lparr>secs = 60, subsec_nanos = 0\<rparr> = Inr 60000"
    by (simp add: checked_milliseconds_def duration_is_zero_def as_millis_def i64_max_def)
  show ?thesis
    by (simp add: claim_once_def Let_def sample_request_def sql ms sample_prepare sample_apply
        commit_transaction_def del: apply_claims.simps)
qed

lemma sample_ack_once:
  "mutate_once sample_lib sample_env (Some sample_tenant) (RowId 1) (ClaimToken sample_token) MAck
     busy_config_default sample_claimed_db = (Inr (), sample_delivered_db)"
proof -
  have w: "mutation_where (RowId 1) (Some sample_tenant) (ClaimToken sample_token)
      ''2026-01-01T00:00:05.000000Z'' sample_claimed_delivery"
    by (simp add: mutation_where_def tenant_matches_def sample_claimed_delivery_def sample_delivery_def
        enqueued_delivery_def)
  let ?d = "sample_delivery\<lparr>dr_state := ''delivered'', dr_attempts := 1,
    dr_delivered_at := Some ''2026-01-01T00:00:05.000000Z''\<rparr>"
  have s: "mutation_set (env_strftime_add sample_env) ''2026-01-01T00:00:05.000000Z'' PAck sample_claimed_delivery = Some ?d"
    by (simp add: sample_claimed_delivery_def sample_delivery_def enqueued_delivery_def)
  have c: "delivery_check ?d" by code_simp
  have "sql_update_deliveries sample_env ''execute conditional delivery mutation'' 1
      (mutation_where (RowId 1) (Some sample_tenant) (ClaimToken sample_token) ''2026-01-01T00:00:05.000000Z'')
      (mutation_set (env_strftime_add sample_env) ''2026-01-01T00:00:05.000000Z'' PAck) sample_claimed_db
    = Inr ([?d], sample_delivered_db)"
    using w s c by (simp add: sql_update_deliveries_def table_update_deliveries_def sample_claimed_db_def sample_delivered_db_def
        update_rows_def)
  then show ?thesis by (simp add: mutate_once_def Let_def commit_transaction_def)
qed

end
