(* ===== verification/Sqlite_Properties.thy ===== *)
theory Sqlite_Properties
  imports Dovecote_Samples
begin

text \<open>
  The properties of the SQLite adapter: the lifecycle of a delivery under every operation, claims,
  fenced mutations, tenants, and idempotent enqueueing. Each is followed by an instance on the
  sample database, where one event is stored, claimed and acknowledged.
\<close>

lemma sample_peers [simp]: "peers (\<lambda>_. sample_env) i n db = db"
proof -
  have "fold (\<lambda>n. env_peer sample_env) ns db = db" for ns :: "nat list"
    by (induction ns) simp_all
  then show ?thesis by (simp add: peers_def)
qed

definition sample_handle :: TenantDovecote where
  "sample_handle = for_tenant sqlite_dovecote_new sample_tenant"

lemma sample_handle_sel [simp]:
  "th_tenant_id sample_handle = sample_tenant" "th_busy sample_handle = busy_config_default"
  by (simp_all add: sample_handle_def for_tenant_def sqlite_dovecote_new_def)

lemma sample_db_sel: "db_events sample_db = [sample_row]" "db_last_row_id sample_db = 1"
  by (simp_all add: sample_db_def)

lemma sample_tenant_claim:
  "tenant_claim sample_lib (\<lambda>_. sample_env) sample_handle (cr_worker sample_request)
     (cr_lease_for sample_request) (cr_limit sample_request) [Inr sample_token] sample_db
   = Some (Inr [sample_claim], [], sample_claimed_db)"
proof -
  have "\<lparr>cr_tenant_id = Some sample_tenant, cr_worker = cr_worker sample_request,
      cr_lease_for = cr_lease_for sample_request, cr_limit = cr_limit sample_request\<rparr> = sample_request"
    by (simp add: sample_request_def)
  then show ?thesis
    using sample_claim_once
    by (simp add: tenant_claim_def claim_for_scope_def claim_with_entropy_scoped.simps)
qed

lemma sample_tenant_ack:
  "tenant_ack sample_lib (\<lambda>_. sample_env) sample_handle (RowId 1) (ClaimToken sample_token) sample_claimed_db
   = (Inr (), sample_delivered_db)"
  using sample_ack_once
  by (simp add: tenant_ack_def ack_for_scope_def mutate_with_config_def mutate_loop.simps)

lemma sample_steps:
  "sqlite_step sample_lib db_empty sample_db" "sqlite_step sample_lib sample_db sample_claimed_db"
  "sqlite_step sample_lib sample_claimed_db sample_delivered_db"
  using sqlite_step.enqueue [OF sample_enqueue] sqlite_step.claim [OF sample_claim_once]
    sqlite_step.mutate [OF sample_ack_once] by simp_all

lemma sample_runs:
  "(sqlite_step sample_lib)\<^sup>*\<^sup>* sample_db sample_delivered_db"
  "(sqlite_step sample_lib)\<^sup>*\<^sup>* db_empty sample_delivered_db"
proof -
  show "(sqlite_step sample_lib)\<^sup>*\<^sup>* sample_db sample_delivered_db"
    using sample_steps(2,3) by (rule converse_rtranclp_into_rtranclp [OF _ r_into_rtranclp])
  with sample_steps(1) show "(sqlite_step sample_lib)\<^sup>*\<^sup>* db_empty sample_delivered_db"
    by (rule converse_rtranclp_into_rtranclp)
qed

section \<open>The lifecycle\<close>

text \<open>C1. Every committed operation of the adapter refines the abstract delivery lifecycle: a
  delivery that exists stays, and it is unchanged or makes one step of the specification, which
  fixes who may change it, from which phase, and what the step may touch.\<close>

theorem operations_refine_lifecycle:
  assumes "db_ok db" and "sqlite_step lib db db'" and "db_spec db r = Some d"
  shows "\<exists>d'. db_spec db' r = Some d' \<and> (d' = d \<or> (\<exists>now a. spec_step now a d d'))"
  using sq.trans_refines [OF assms] .

theorem operations_refine_lifecycle_witness:
  "\<exists>d'. db_spec sample_claimed_db 1 = Some d'
     \<and> (d' = abs_delivery sample_delivery \<or> (\<exists>now a. spec_step now a (abs_delivery sample_delivery) d'))"
proof -
  have "db_spec sample_db 1 = Some (abs_delivery sample_delivery)"
    by (simp add: db_spec_def find_delivery_def sample_db_def sample_delivery_def enqueued_delivery_def)
  from operations_refine_lifecycle [OF _ sample_steps(2) this] show ?thesis by simp
qed

text \<open>C2. Whatever sequence of operations commits, the tables keep every constraint of the schema
  and every event keeps exactly one delivery of its tenant.\<close>

theorem operations_keep_invariants:
  assumes "(sqlite_step lib)\<^sup>*\<^sup>* db db'" and "db_ok db" and "db_paired db"
  shows "db_ok db' \<and> db_paired db'"
  using assms by (induction rule: rtranclp_induct) (use sqlite_step_ok sqlite_step_paired in blast)+

theorem operations_keep_invariants_witness: "db_ok sample_delivered_db \<and> db_paired sample_delivered_db"
  using operations_keep_invariants [OF sample_runs(2) db_ok_empty] by (simp add: db_paired_def db_empty_def)

text \<open>C25. Along any run, deliveries are never lost, attempt counters never decrease, and a
  delivered or quarantined delivery never changes again.\<close>

theorem run_keeps_deliveries:
  assumes "(sqlite_step lib)\<^sup>*\<^sup>* db db'" and "db_ok db" and "db_spec db r = Some d"
  shows "\<exists>d'. db_spec db' r = Some d' \<and> sp_attempts d \<le> sp_attempts d' \<and> (terminal d \<longrightarrow> d' = d)"
  using sq.run_keeps_row [OF assms] .

theorem run_keeps_deliveries_witness:
  "\<exists>d'. db_spec sample_delivered_db 1 = Some d' \<and> 0 \<le> sp_attempts d'"
proof -
  have d: "db_spec sample_db 1 = Some (abs_delivery sample_delivery)" "sp_attempts (abs_delivery sample_delivery) = 0"
    by (simp_all add: db_spec_def find_delivery_def sample_db_def sample_delivery_def
        enqueued_delivery_def abs_delivery_def)
  show ?thesis using run_keeps_deliveries [OF sample_runs(1) _ d(1)] d(2) by auto
qed

section \<open>Claims\<close>

text \<open>C3. A claim that returns events took them in one attempt from the state that attempt found:
  at most the requested number, in row order, under distinct tokens that are new for their rows,
  each eligible at the database clock and in the tenant's scope, with a counter one higher and the
  worker recorded. An eligible row is left out only by a full batch of smaller rows, and no other
  row changes.\<close>

theorem claim_returns_batch:
  assumes "tenant_claim lib envs h worker lease limit entropy db = Some (Inr claimed, rest, db')"
    and "\<And>n. db_ok (peers envs 0 n db)"
  shows "\<exists>n \<le> busy_retries (th_busy h). claim_batch (envs n)
    \<lparr>cr_tenant_id = Some (th_tenant_id h), cr_worker = worker, cr_lease_for = lease, cr_limit = limit\<rparr>
    (peers envs 0 (Suc n) db) claimed db'"
  using claim_for_scope_Inr [OF assms(1) [unfolded tenant_claim_def] assms(2)] .

theorem claim_returns_batch_witness:
  "\<exists>n \<le> busy_retries busy_config_default. claim_batch sample_env
    \<lparr>cr_tenant_id = Some sample_tenant, cr_worker = cr_worker sample_request,
     cr_lease_for = cr_lease_for sample_request, cr_limit = cr_limit sample_request\<rparr>
    sample_db [sample_claim] sample_claimed_db"
  using claim_returns_batch [OF sample_tenant_claim] by simp


text \<open>A connection whose \<open>BEGIN IMMEDIATE\<close> finds another writer.\<close>

definition busy_env :: sqlite_env where
  "busy_env = sample_env\<lparr>env_begin := Some (SqlxDatabase (Some ''5''))\<rparr>"

definition busy_handle :: TenantDovecote where
  "busy_handle = for_tenant (with_busy_config (busy_config_with_retries 0)) sample_tenant"

lemma busy_begin:
  "validate_busy_config (busy_config_with_retries 0) = Inr ()"
  "begin_immediate busy_env (busy_config_with_retries 0) = Inl (SqlxDatabase (Some ''5''))"
  "begin_immediate busy_env busy_config_default = Inl (SqlxDatabase (Some ''5''))"
  "busy_retries (busy_config_with_retries 0) = 0" "env_peer busy_env db = db"
  by (simp_all add: begin_immediate_def install_foreign_keys_def install_busy_timeout_def
      validate_busy_config_def checked_busy_timeout_def checked_milliseconds_def duration_is_zero_def
      as_millis_def i64_max_def busy_config_with_retries_def busy_config_default_def busy_config_new_def DEFAULT_BUSY_TIMEOUT_def
      busy_env_def sample_env_def run_or_def)


text \<open>C32. A claim returns. The token loop draws again while a draw repeats a token of the batch
  or the old token of the row; with pairwise different draws, two for every row of every attempt
  are enough, whatever the database answers.\<close>

theorem claim_terminates:
  assumes "distinct entropy"
    and "2 * limit_get limit * Suc (busy_retries (th_busy h)) \<le> length entropy"
  shows "\<exists>res rest db'. tenant_claim lib envs h worker lease limit entropy db = Some (res, rest, db')"
  using claim_for_scope_returns [OF assms(1)] assms(2) by (fastforce simp: tenant_claim_def)

theorem claim_terminates_witness:
  "\<exists>res rest db'. tenant_claim sample_lib (\<lambda>_. sample_env) busy_handle (WorkerId ''w1'')
     (Lease \<lparr>secs = 60, subsec_nanos = 0\<rparr>) (PageLimit 1) [Inr sample_token, Inr (replicate 16 (CHR ''m''))] sample_db
       = Some (res, rest, db')"
proof -
  have "distinct [Inr sample_token, Inr (replicate 16 (CHR ''m'')) :: nat + bytes]"
    by (simp add: sample_token_def)
  then show ?thesis
    using claim_terminates [of "[Inr sample_token, Inr (replicate 16 (CHR ''m''))]" "PageLimit 1" busy_handle]
    by (simp add: busy_handle_def for_tenant_def with_busy_config_def busy_begin)
qed

text \<open>C24. While a claim has not expired at the database clock, no other claim takes its row, and
  no mutation under another token changes it.\<close>

theorem unexpired_claim_is_exclusive:
  assumes "db_ok (env_peer env db0)" and "find_delivery (env_peer env db0) r = Some d"
    and "dr_state d = ''claimed''" and "dr_claim_expires_at d = Some x" and "env_now env < x"
  shows "(\<forall>request busy entropy claimed rest db'.
        claim_once lib env request busy entropy db0 = Some (Inr claimed, rest, db') \<longrightarrow>
        RowId r \<notin> ce_row_id ` set claimed \<and> find_delivery db' r = Some d)
    \<and> (\<forall>tenant row_id token mutation busy db'.
        dr_claim_token d \<noteq> Some (claim_token_bytes token)
        \<and> mutate_once lib env tenant row_id token mutation busy db0 = (Inr (), db') \<longrightarrow>
        find_delivery db' r = Some d)"
proof (intro conjI allI impI)
  fix request busy entropy claimed rest db'
  assume "claim_once lib env request busy entropy db0 = Some (Inr claimed, rest, db')"
  note batch = claim_once_batch [OF this assms(1)]
  show new: "RowId r \<notin> ce_row_id ` set claimed"
    using batch assms(2-5) by (force simp: claim_batch_def claim_of_def claim_eligible_def)
  then show "find_delivery db' r = Some d"
    using batch assms(2) by (simp add: claim_batch_def)
next
  fix tenant row_id token mutation busy db'
  assume "dr_claim_token d \<noteq> Some (claim_token_bytes token)
    \<and> mutate_once lib env tenant row_id token mutation busy db0 = (Inr (), db')"
  then have "mutated env tenant row_id token mutation (env_peer env db0) db'"
    "dr_claim_token d \<noteq> Some (claim_token_bytes token)"
    using mutate_once_mutated assms(1) by blast+
  then show "find_delivery db' r = Some d"
    using assms(2) by (cases "r = row_id_get row_id") (auto simp: mutated_def mutation_where_def)
qed

lemma sample_claimed_find:
  "find_delivery sample_claimed_db 1 = Some sample_claimed_delivery"
  "dr_state sample_claimed_delivery = ''claimed''" "dr_claim_token sample_claimed_delivery = Some sample_token"
  "dr_claim_expires_at sample_claimed_delivery = Some ''2026-01-01T00:01:05.000000Z''"
  "dr_event_row_id sample_claimed_delivery = 1" "dr_tenant_id sample_claimed_delivery = ''acme''"
  by (simp_all add: find_delivery_def sample_claimed_db_def sample_claimed_delivery_def
      sample_delivery_def enqueued_delivery_def)

lemma sample_now_before: "env_now sample_env < ''2026-01-01T00:01:05.000000Z''"
  by (simp add: less_char_def)

lemma sample_second_claim:
  "claim_once sample_lib sample_env sample_request busy_config_default [] sample_claimed_db
     = Some (Inr [], [], sample_claimed_db)"
proof -
  have "claim_sql tenant ''2026-01-01T00:00:05.000000Z'' n sample_claimed_db = []" for tenant n
    using sample_now_before sample_claimed_find
    by (simp add: claim_sql_def claim_rows_def claim_scope_def sample_claimed_db_def claim_eligible_def map_filter_simps split: option.split)
  moreover have "checked_milliseconds \<lparr>secs = 60, subsec_nanos = 0\<rparr> = Inr 60000"
    by (simp add: checked_milliseconds_def as_millis_def i64_max_def)
  ultimately show ?thesis
    by (simp add: claim_once_def sample_request_def prepare_claims_def commit_transaction_def)
qed

theorem unexpired_claim_is_exclusive_witness:
  "\<exists>claimed rest db'. claim_once sample_lib sample_env sample_request busy_config_default [] sample_claimed_db
     = Some (Inr claimed, rest, db') \<and> RowId 1 \<notin> ce_row_id ` set claimed
     \<and> find_delivery db' 1 = Some sample_claimed_delivery"
proof -
  have "db_ok (env_peer sample_env sample_claimed_db)"
    "find_delivery (env_peer sample_env sample_claimed_db) 1 = Some sample_claimed_delivery"
    using sample_claimed_find by simp_all
  from unexpired_claim_is_exclusive [OF this sample_claimed_find(2,4) sample_now_before]
  show ?thesis using sample_second_claim by metis
qed

section \<open>Fenced mutations\<close>

text \<open>C4. A mutation that succeeds is the step of the lifecycle it is named after, made by the
  holder of the unexpired token at the clock of the attempt that committed; no other delivery and
  no event changes.\<close>

theorem mutation_is_fenced_step:
  assumes "mutate_with_config lib envs tenant row_id token mutation busy db = (Inr (), db')"
    and "\<And>n. db_ok (peers envs 0 n db)"
  shows "\<exists>n p d d'. n \<le> busy_retries busy \<and> prepare_mutation mutation = Inr p
    \<and> find_delivery (peers envs 0 (Suc n) db) (row_id_get row_id) = Some d
    \<and> find_delivery db' (row_id_get row_id) = Some d'
    \<and> spec_step (env_now (envs n)) (mutation_action p (claim_token_bytes token)) (abs_delivery d) (abs_delivery d')
    \<and> db_events db' = db_events (peers envs 0 (Suc n) db)
    \<and> (\<forall>r. r \<noteq> row_id_get row_id \<longrightarrow> find_delivery db' r = find_delivery (peers envs 0 (Suc n) db) r)"
proof -
  obtain n where n: "n \<le> busy_retries busy"
    and mut: "mutated (envs n) tenant row_id token mutation (peers envs 0 (Suc n) db) db'"
    using mutate_with_config_Inr [OF assms] by blast
  then obtain d d' p where d: "find_delivery (peers envs 0 (Suc n) db) (row_id_get row_id) = Some d"
    "mutation_where row_id tenant token (env_now (envs n)) d" "prepare_mutation mutation = Inr p"
    "mutation_set (env_strftime_add (envs n)) (env_now (envs n)) p d = Some d'" "find_delivery db' (row_id_get row_id) = Some d'"
    unfolding mutated_def by blast
  have "spec_step (env_now (envs n)) (mutation_action p (claim_token_bytes token)) (abs_delivery d) (abs_delivery d')"
    using mutation_refines [OF d(2,4) find_delivery_check [OF assms(2) d(1)]] .
  then show ?thesis using n d mut unfolding mutated_def by blast
qed

lemma sample_ack:
  "mutate_with_config sample_lib (\<lambda>_. sample_env) (Some sample_tenant) (RowId 1) (ClaimToken sample_token) MAck
     busy_config_default sample_claimed_db = (Inr (), sample_delivered_db)"
  using sample_tenant_ack by (simp add: tenant_ack_def ack_for_scope_def)

theorem mutation_is_fenced_step_witness:
  "\<exists>d'. find_delivery sample_delivered_db 1 = Some d' \<and> spec_step ''2026-01-01T00:00:05.000000Z'' (ActAck sample_token)
     (abs_delivery sample_claimed_delivery) (abs_delivery d')"
  using mutation_is_fenced_step [OF sample_ack] sample_claimed_find(1) by auto

lemma sample_second_ack:
  "mutate_once sample_lib sample_env (Some sample_tenant) (RowId 1) (ClaimToken sample_token) MAck
     busy_config_default sample_delivered_db = (Inl (SMutIllegalTransition Delivered), sample_delivered_db)"
proof -
  have row: "db_deliveries sample_delivered_db = [sample_delivery\<lparr>dr_state := ''delivered'',
      dr_attempts := 1, dr_delivered_at := Some ''2026-01-01T00:00:05.000000Z''\<rparr>]"
    by (simp add: sample_delivered_db_def)
  have quiet: "attempt_quiet sample_env busy_config_default" by (simp add: attempt_quiet_def)
  have "classify_mutation sample_lib sample_env (Some sample_tenant) (RowId 1) (ClaimToken sample_token)
      (env_now sample_env) sample_delivered_db = SMutIllegalTransition Delivered"
    by (simp add: classify_mutation_def row classify_delivery_def parse_state_def tenant_matches_def
        sample_delivery_def enqueued_delivery_def)
  then show ?thesis
    using mutate_once_refused [OF quiet, of MAck PAck sample_delivered_db "RowId 1"] row
    by (simp add: mutation_where_def)
qed

lemma ack_check:
  "delivery_check d \<Longrightarrow> dr_state d = ''claimed'' \<Longrightarrow>
     mutation_set add now PAck d = Some d' \<Longrightarrow> delivery_check d'"
  by (clarsimp simp: delivery_check_def delivery_shape_def opt_within_def)

lemma claimed_row_where:
  assumes "claim_of now tenant worker d c" "delivery_check (claimed_row expiry c d)"
  obtains x where "expiry = Some x"
    "\<And>later. later < x \<Longrightarrow> mutation_where (ce_row_id c) (Some (ce_tenant_id c)) (ce_claim_token c) later
       (claimed_row expiry c d)"
proof -
  obtain x where "expiry = Some x"
    using assms(2) by (auto simp: delivery_check_def delivery_shape_def claimed_row_def)
  then show thesis
    using that assms(1) by (simp add: claim_of_def mutation_where_def tenant_matches_def claimed_row_def)
qed

text \<open>C27. Whoever received an event from a claim can acknowledge it until the lease runs out: as
  long as the row is as the claim left it and the database clock is before the stored expiry, the
  acknowledgement with the returned tenant, row and token succeeds on a connection without faults
  and leaves the delivery delivered.\<close>

theorem claimed_event_can_be_acknowledged:
  assumes "claim_once lib env request busy entropy db0 = Some (Inr claimed, rest, db1)"
    and "db_ok (env_peer env db0)" and "c \<in> set claimed"
    and "db_ok (env_peer env2 db2)"
    and "find_delivery (env_peer env2 db2) (row_id_get (ce_row_id c)) = find_delivery db1 (row_id_get (ce_row_id c))"
    and "find_delivery db1 (row_id_get (ce_row_id c)) = Some d" "dr_claim_expires_at d = Some x"
    and "env_now env2 < x" and "attempt_quiet env2 busy2"
  shows "\<exists>db3 d3. mutate_once lib env2 (Some (ce_tenant_id c)) (ce_row_id c) (ce_claim_token c) MAck busy2 db2
      = (Inr (), db3)
    \<and> find_delivery db3 (row_id_get (ce_row_id c)) = Some d3
    \<and> dr_state d3 = ''delivered'' \<and> dr_delivered_at d3 = Some (env_now env2)"
proof -
  note batch = claim_once_batch [OF assms(1,2)]
  obtain expiry d0 where d0: "claim_of (env_now env) (cr_tenant_id request) (cr_worker request) d0 c"
    "find_delivery db1 (row_id_get (ce_row_id c)) = Some (claimed_row expiry c d0)" and ok: "db_ok db1"
    using batch assms(3) unfolding claim_batch_def by blast
  have d: "d = claimed_row expiry c d0" using d0(2) assms(6) by simp
  have check: "delivery_check (claimed_row expiry c d0)" using find_delivery_check [OF ok d0(2)] .
  obtain x' where "expiry = Some x'" and own: "\<And>later. later < x' \<Longrightarrow>
      mutation_where (ce_row_id c) (Some (ce_tenant_id c)) (ce_claim_token c) later (claimed_row expiry c d0)"
    using claimed_row_where [OF d0(1) check] by blast
  then have own: "mutation_where (ce_row_id c) (Some (ce_tenant_id c)) (ce_claim_token c) (env_now env2) d"
    using assms(7,8) d by (simp add: claimed_row_def)
  obtain d3 where d3: "mutation_set (env_strftime_add env2) (env_now env2) PAck d = Some d3" by simp
  have "delivery_check d3"
    using ack_check [OF check [folded d] _ d3] own by (simp add: mutation_where_def)
  from mutate_once_owned [OF assms(4,9) _ _ own d3 this, of MAck lib] assms(5,6) d3
  show ?thesis by fastforce
qed

theorem claimed_event_can_be_acknowledged_witness:
  "\<exists>db3 d3. mutate_once sample_lib sample_env (Some sample_tenant) (RowId 1) (ClaimToken sample_token) MAck
      busy_config_default sample_claimed_db = (Inr (), db3)
    \<and> find_delivery db3 1 = Some d3
    \<and> dr_state d3 = ''delivered'' \<and> dr_delivered_at d3 = Some ''2026-01-01T00:00:05.000000Z''"
proof -
  have "sample_claim \<in> set [sample_claim]" "attempt_quiet sample_env busy_config_default"
    "ce_row_id sample_claim = RowId 1" "ce_tenant_id sample_claim = sample_tenant"
    "ce_claim_token sample_claim = ClaimToken sample_token"
    by (simp_all add: attempt_quiet_def sample_claim_def)
  then show ?thesis
    using claimed_event_can_be_acknowledged [OF sample_claim_once _ _ _ _ _ sample_claimed_find(4) sample_now_before,
      of sample_claim sample_claimed_db busy_config_default] sample_claimed_find(1) by simp
qed

text \<open>What the classification of a refused mutation reads: the two timestamps parse, and compare
  as instants the way they compare as texts.\<close>

definition clock_texts_agree :: "ext_lib \<Rightarrow> string \<Rightarrow> string \<Rightarrow> bool" where
  "clock_texts_agree lib expiry now \<longleftrightarrow>
     (\<exists>x t. sqlite_parse_timestamp lib expiry = Inr x \<and> sqlite_parse_timestamp lib now = Inr t
        \<and> (unix_nanos x \<le> unix_nanos t \<longleftrightarrow> expiry \<le> now))"

lemma refused_delivery:
  assumes "delivery_check d" and "\<not> mutation_where row_id tenant token now d"
    and "\<And>x. dr_claim_expires_at d = Some x \<Longrightarrow> clock_texts_agree lib x now"
    and "dr_event_row_id d = row_id_get row_id" "tenant_matches tenant d"
  shows "if dr_state d = ''claimed'' then classify_delivery lib d token now = Inl SMutLostClaim
    else \<exists>st. parse_state lib (dr_state d) = Inr st
      \<and> classify_delivery lib d token now = Inl (SMutIllegalTransition st)"
proof (cases "dr_state d = ''claimed''")
  case True
  then obtain k x where d: "dr_claim_token d = Some k" "length k = 16" "dr_claim_expires_at d = Some x"
    using assms(1) by (auto simp: delivery_check_def delivery_shape_def)
  obtain u v where uv: "sqlite_parse_timestamp lib x = Inr u" "sqlite_parse_timestamp lib now = Inr v"
    "unix_nanos u \<le> unix_nanos v \<longleftrightarrow> x \<le> now"
    using assms(3) [OF d(3)] unfolding clock_texts_agree_def by blast
  have "k \<noteq> claim_token_bytes token \<or> x \<le> now"
    using assms(2,4,5) True d by (auto simp: mutation_where_def)
  then show ?thesis using True d uv by (auto simp: classify_delivery_def parse_state_def)
next
  case False
  then have "dr_state d \<in> {''pending'', ''delivered'', ''quarantined''}"
    using assms(1) by (auto simp: delivery_check_def delivery_shape_def)
  then show ?thesis using False by (auto simp: classify_delivery_def parse_state_def)
qed



section \<open>Tenants and interleaving\<close>

lemma enqueue_outside:
  assumes "db_ok db" and "enqueue_for_scope lib bld env tenant event db = (Inr out, db')"
  shows "same_outside (tenant_id_str tenant) db db'"
proof (cases out)
  case (Enqueued rid)
  from enqueue_Enqueued [OF assms(2) [unfolded Enqueued]] show ?thesis
    by (auto simp: same_outside_def enqueued_delivery_def)
next
  case (AlreadyEnqueued rid)
  then have "db' = db" using enqueue_AlreadyEnqueued [OF assms(1)] assms(2) by blast
  then show ?thesis by simp
qed



text \<open>A claim and a mutation, with their retries and whatever the peers commit between the
  attempts, are sequences of committed operations: the properties of runs hold of them.\<close>

theorem calls_are_runs:
  assumes "peers_run lib envs"
  shows "(\<forall>h worker lease limit entropy res rest db db'.
        tenant_claim lib envs h worker lease limit entropy db = Some (res, rest, db') \<longrightarrow>
        (sqlite_step lib)\<^sup>*\<^sup>* db db')
    \<and> (\<forall>tenant row_id token mutation busy res db db'.
        mutate_with_config lib envs tenant row_id token mutation busy db = (res, db') \<longrightarrow>
        (sqlite_step lib)\<^sup>*\<^sup>* db db')"
  using claim_for_scope_run [OF assms] mutate_with_config_run [OF assms] unfolding tenant_claim_def by blast

theorem calls_are_runs_witness: "(sqlite_step sample_lib)\<^sup>*\<^sup>* sample_db sample_claimed_db"
proof -
  have "peers_run sample_lib (\<lambda>_. sample_env)" by (simp add: peers_run_def)
  from calls_are_runs [OF this] show ?thesis using sample_tenant_claim by blast
qed

text \<open>C33. \<open>begin_write\<close> retries exactly while \<open>BEGIN IMMEDIATE\<close> reports a busy database, and at
  most the configured number of times: it succeeds with the first attempt that gets the writer
  lock, provided every attempt before it was busy.\<close>

theorem begin_write_retries_exactly:
  assumes "validate_busy_config (sd_busy h) = Inr ()"
  shows "sqlite_begin_write h envs = Inr n \<longleftrightarrow>
    n \<le> busy_retries (sd_busy h) \<and> begin_immediate (envs n) (sd_busy h) = Inr ()
    \<and> (\<forall>m. m < n \<longrightarrow> (\<exists>e. begin_immediate (envs m) (sd_busy h) = Inl e \<and> is_busy e))"
  using assms begin_write_loop_Inr [of envs "sd_busy h" 0 n] begin_write_loop_progress [of 0 n "sd_busy h" envs]
  by (auto simp: sqlite_begin_write_def begin_write_with_config_def)

theorem begin_write_retries_exactly_witness:
  "sqlite_begin_write sqlite_dovecote_new (\<lambda>n. if n = 2 then sample_env else busy_env) = Inr 2"
proof -
  have "is_busy (SqlxDatabase (Some ''5''))" by code_simp
  then show ?thesis
    by (subst begin_write_retries_exactly)
      (simp_all add: sqlite_dovecote_new_def busy_begin, simp add: busy_config_default_def busy_config_new_def
        DEFAULT_BUSY_RETRIES_def)
qed

section \<open>Enqueueing\<close>

lemma event_columns_check:
  assumes "event_content_wf lib c" "validate_content lib c limit = Inr ()" "tenant_ok tenant" "0 < rid"
  shows "event_check (event_columns lib (tenant_id_str tenant) c rid now)"
  unfolding event_columns_def by (rule event_columns_with_check [OF assms])

lemma fresh_enqueue:
  assumes "db_ok db" and content: "event_content_wf lib (new_content event)"
      "validate_content lib (new_content event) limit = Inr ()"
    and "tenant_ok tenant" and quiet: "env_quiet bld env"
    and space: "db_last_row_id db + 1 + int (env_row_id_gap env) \<le> i64_max"
    and fresh: "(tenant_id_str tenant, source_str (ec_source (new_content event)),
        event_id_str (ec_id (new_content event))) \<notin> event_identity ` set (db_events db)"
  defines "n \<equiv> db_last_row_id db + 1 + int (env_row_id_gap env)"
  shows "enqueue_for_scope lib bld env tenant event db = (Inr (Enqueued (RowId n)),
    \<lparr>db_events = db_events db @
       [event_columns lib (tenant_id_str tenant) (new_content event) n (env_now env)],
     db_deliveries = db_deliveries db @ [enqueued_delivery (tenant_id_str tenant) n (env_now env)],
     db_last_row_id = n\<rparr>)"
proof -
  let ?row = "event_columns lib (tenant_id_str tenant) (new_content event) n (env_now env)"
  have n: "0 < n" "n \<le> i64_max" and last: "list_all (\<lambda>r. er_row_id r \<le> db_last_row_id db) (db_events db)"
    using assms(1) space by (auto simp: n_def db_ok_def)
  have new: "n \<notin> dr_event_row_id ` set (db_deliveries db)"
    using assms(1) last by (force simp: db_ok_def list_all_iff n_def)
  have check: "event_check ?row" by (rule event_columns_check [OF content assms(4) n(1)])
  then have "delivery_check (enqueued_delivery (tenant_id_str tenant) n (env_now env))"
    by (simp add: event_check_def delivery_check_def delivery_shape_def enqueued_delivery_def opt_within_def
        event_columns_def event_columns_with_def)
  then have del: "sql_insert_delivery env ''insert delivery'' (enqueued_delivery (tenant_id_str tenant) n (env_now env))
      (db\<lparr>db_events := db_events db @ [?row], db_last_row_id := n\<rparr>)
    = Inr \<lparr>db_events = db_events db @ [?row],
        db_deliveries = db_deliveries db @ [enqueued_delivery (tenant_id_str tenant) n (env_now env)],
        db_last_row_id = n\<rparr>"
    using quiet new by (cases db) (simp add: sql_insert_delivery_def table_insert_delivery_def env_quiet_def enqueued_delivery_def)
  have ins: "sql_insert_event env ''insert event''
      (\<lambda>rid. event_columns lib (tenant_id_str tenant) (new_content event) rid (env_now env)) db
    = Inr (Some ?row, db\<lparr>db_events := db_events db @ [?row], db_last_row_id := n\<rparr>)"
    using quiet check n fresh by (simp add: sql_insert_event_def env_quiet_def n_def [symmetric] Let_def)
  show ?thesis
    using quiet ins del n by (simp add: enqueue_for_scope_def env_quiet_def row_id_new_def)
qed

text \<open>C26. Enqueueing a valid event whose identity is new stores it: one event row with a row
  identifier above every earlier one and one pending delivery, available at once, and hydrating
  the stored row gives the event back. No hypothesis is about the event beyond what its
  constructors and the builder accepted.\<close>

theorem enqueue_stores_new_event:
  assumes "db_ok db" and "event_content_wf lib (new_content event)"
    and "validate_content lib (new_content event) limit = Inr ()" and "durable_codecs lib (new_content event)"
    and "tenant_ok (th_tenant_id h)" and "env_quiet bld env"
    and "db_last_row_id db + 1 + int (env_row_id_gap env) \<le> i64_max"
    and "(tenant_id_str (th_tenant_id h), source_str (ec_source (new_content event)),
        event_id_str (ec_id (new_content event))) \<notin> event_identity ` set (db_events db)"
  shows "\<exists>n row d. tenant_enqueue lib bld env h event db = (Inr (Enqueued (RowId n)),
      \<lparr>db_events = db_events db @ [row], db_deliveries = db_deliveries db @ [d], db_last_row_id = n\<rparr>)
    \<and> db_last_row_id db < n \<and> er_row_id row = n \<and> er_tenant_id row = tenant_id_str (th_tenant_id h)
    \<and> hydrate_event lib row = Inr (StoredEvent (new_content event))
    \<and> dr_event_row_id d = n \<and> dr_tenant_id d = tenant_id_str (th_tenant_id h)
    \<and> canonical_pending d (er_enqueued_at row) \<and> er_enqueued_at row = env_now env"
  using fresh_enqueue [OF assms(1-3,5-8)] hydrate_event_columns [OF assms(2-4)]
  by (intro exI conjI) (auto simp: tenant_enqueue_def enqueued_delivery_def canonical_pending_def canonical_def)

theorem enqueue_stores_new_event_witness:
  "\<exists>n row d. tenant_enqueue sample_lib sample_build sample_env sample_handle sample_event db_empty
      = (Inr (Enqueued (RowId n)), \<lparr>db_events = [row], db_deliveries = [d], db_last_row_id = n\<rparr>)
    \<and> hydrate_event sample_lib row = Inr (StoredEvent sample_content)
    \<and> canonical_pending d ''2026-01-01T00:00:05.000000Z''"
  using enqueue_stores_new_event [OF db_ok_empty, of sample_lib sample_event event_size_limit_default sample_handle
      sample_build sample_env] sample_content_ok sample_tenant_ok
  by (auto simp: sample_event_def env_quiet_def db_empty_def i64_max_def)

text \<open>C5. Enqueueing is idempotent for as long as the tables live: after an enqueue that stored an
  event, and after any further operations by anyone, enqueueing the same content again reports the
  row it was stored in and changes nothing.\<close>

theorem enqueue_again_finds_the_row:
  assumes "db_ok db" and "tenant_enqueue lib bld env h event db = (Inr (Enqueued (RowId n)), db1)"
    and "(sqlite_step lib)\<^sup>*\<^sup>* db1 db2"
    and "event_content_wf lib (new_content event)"
    and "validate_content lib (new_content event) limit = Inr ()" and "durable_codecs lib (new_content event)"
    and "env_quiet bld2 env2" and "db_last_row_id db2 + 1 + int (env_row_id_gap env2) \<le> i64_max"
  shows "tenant_enqueue lib bld2 env2 h event db2 = (Inr (AlreadyEnqueued (RowId n)), db2)"
proof -
  let ?t = "tenant_id_str (th_tenant_id h)"
  let ?r = "event_columns lib ?t (new_content event) n (env_now env)"
  note enq = assms(2) [unfolded tenant_enqueue_def]
  have db1: "db_events db1 = db_events db @ [?r]"
    "db_deliveries db1 = db_deliveries db @ [enqueued_delivery ?t n (env_now env)]"
    using enqueue_Enqueued [OF enq] by auto
  have ok1: "db_ok db1" by (rule enqueue_keeps_ok [OF assms(1) enq])
  have r: "?r \<in> set (db_events db1)" using db1 by simp
  have "find_delivery db1 (er_row_id ?r) \<noteq> None"
    using db1(2) by (auto simp: find_delivery_def find_None_set enqueued_delivery_def)
  then obtain d where "d \<in> set (db_deliveries db2)" "dr_event_row_id d = n" "dr_tenant_id d = ?t"
    using run_keeps_delivery [OF assms(3) ok1 r] by auto
  moreover have "?r \<in> set (db_events db2)" using run_events [OF assms(3) ok1] r by blast
  ultimately show ?thesis
    using enqueue_replay_row [OF sq.run_inv [OF assms(3) ok1] _ refl _ _ _ assms(4-8)]
    by (simp add: tenant_enqueue_def)
qed

lemma sample_tenant_enqueue:
  "tenant_enqueue sample_lib sample_build sample_env sample_handle sample_event db_empty
     = (Inr (Enqueued (RowId 1)), sample_db)"
  using sample_enqueue by (simp add: tenant_enqueue_def)

lemma sample_quiet: "env_quiet sample_build sample_env"
  by (simp add: env_quiet_def)

theorem enqueue_again_finds_the_row_witness:
  "tenant_enqueue sample_lib sample_build sample_env sample_handle sample_event sample_delivered_db
     = (Inr (AlreadyEnqueued (RowId 1)), sample_delivered_db)"
  by (rule enqueue_again_finds_the_row [OF db_ok_empty sample_tenant_enqueue sample_runs(1)])
    (use sample_content_ok sample_quiet in
      \<open>simp_all add: sample_event_def sample_delivered_db_def sample_db_def i64_max_def\<close>)


definition sample_other :: NewEvent where
  "sample_other = \<lparr>new_content = sample_content\<lparr>ec_event_type := EventType ''changed''\<rparr>,
     new_size_limit = event_size_limit_default\<rparr>"

lemma sample_other_wf: "event_content_wf sample_lib (new_content sample_other)"
  using sample_content_wf
  by (simp add: event_content_wf_def sample_other_def text_ok_printable limit_defs std_defs)

lemma sample_other_valid:
  "validate_content sample_lib (new_content sample_other) event_size_limit_default = Inr ()"
proof -
  let ?c = "new_content sample_other"
  have "structured_json_bytes sample_lib ?c = Inr ''{event}''"
    using sample_other_wf by (simp add: structured_json_bytes_def structured_json_object_eq context_members_def
        event_content_wf_def sample_print_def sample_extensions_json_def)
  moreover have "binary_message_bytes (binary_projection sample_lib (StoredEvent ?c)) \<le> 1000"
    by (simp add: binary_message_bytes_def binary_projection_def binary_attributes_def header_cost_def
        sample_other_def sample_content_def map_filter_simps format_timestamp_def SPEC_VERSION_def)
  ultimately show ?thesis
    using sample_content_valid
    by (auto simp: validate_content_Inr_iff portable_size_Inr_iff sample_other_def data_type_ok_def
        sample_content_def event_size_limit_default_def limit_defs CONTENT_TYPE_BYTES_def usize_max_def
        STRUCTURED_CONTENT_TYPE_def min_def)
qed


end
