(* ===== verification/Migration_Samples.thy ===== *)
theory Migration_Samples
  imports Dovecote_Samples
begin

text \<open>
  Concrete values for the schema check and the migration-only operations: a catalog that matches
  a small migration text with the required tables and indexes, an import and its finalisation.
\<close>

section \<open>An installed schema\<close>

definition sample_tables :: "(string \<times> string) list" where
  "sample_tables = map (\<lambda>name. (name, ''CREATE TABLE '' @ name)) domain_tables"

definition sample_indexes :: "(string \<times> bool \<times> string \<times> string list) list" where
  "sample_indexes =
     [(IDENTITY_INDEX, True, ''dovecote_events'', [''tenant_id'', ''source'', ''event_id'']),
      (''dovecote_events_tenant_row'', False, ''dovecote_events'', [''tenant_id'', ''row_id'']),
      (''dovecote_deliveries_claimable'', False, ''dovecote_deliveries'',
        [''tenant_id'', ''state'', ''available_at'', ''event_row_id'']),
      (''dovecote_deliveries_expired_claims'', False, ''dovecote_deliveries'',
        [''tenant_id'', ''state'', ''claim_expires_at'', ''event_row_id''])]"

definition sample_index_sql :: "string \<Rightarrow> bool \<Rightarrow> string" where
  "sample_index_sql name unique = (if unique then ''CREATE UNIQUE INDEX '' else ''CREATE INDEX '') @ name"

definition sample_sql :: string where
  "sample_sql = concat (map (\<lambda>(_, sql). sql @ '';'') sample_tables)
     @ concat (map (\<lambda>(name, unique, _). sample_index_sql name unique @ '';'') sample_indexes)"

definition sample_columns :: "ColumnSpec list \<Rightarrow> column_info list" where
  "sample_columns specs = map (\<lambda>s. \<lparr>ci_name = Some (cs_name s), ci_type = Some (cs_kind s),
     ci_pk = Some (if cs_primary_key s then 1 else 0), ci_notnull = Some (if cs_not_null s then 1 else 0)\<rparr>) specs"

definition sample_catalog :: sqlite_catalog where
  "sample_catalog = \<lparr>cat_foreign_keys = Inr 1,
     cat_markers = Inr [\<lparr>mk_schema_version = 2, mk_minimum_crate_major = 0, mk_minimum_crate_minor = 2,
       mk_minimum_crate_patch = 0, mk_rolling_compatible = 0\<rparr>],
     cat_table_info = (\<lambda>t. Inr (sample_columns (if t = ''dovecote_events'' then event_column_specs
       else delivery_column_specs))),
     cat_tables = Inr sample_tables, cat_extra_objects = Inr [],
     cat_index_list = (\<lambda>t. Inr (map (\<lambda>(name, unique, _). (Some name, Some (if unique then 1 else 0)))
       (filter (\<lambda>(_, _, table, _). table = t) sample_indexes))),
     cat_index_sql = (\<lambda>n. Inr (map_option (\<lambda>(name, unique, _). sample_index_sql name unique)
       (find (\<lambda>(name, _). name = n) sample_indexes))),
     cat_index_info = (\<lambda>n. Inr (case find (\<lambda>(name, _). name = n) sample_indexes of
       None \<Rightarrow> [] | Some (_, _, _, columns) \<Rightarrow> map Some columns)),
     cat_index_xinfo = (\<lambda>n. Inr [(Some 1, Some ''BINARY''), (Some 1, Some ''BINARY''), (Some 1, Some ''BINARY'')]),
     cat_foreign_key_list = Inr [(Some ''dovecote_events'', Some ''tenant_id'', Some ''tenant_id''),
       (Some ''dovecote_events'', Some ''event_row_id'', Some ''row_id'')],
     cat_fk_violations = Inr 0\<rparr>"

definition sample_view :: schema_view where
  "sample_view = \<lparr>sv_lower = (\<lambda>c. [c]), sv_build = sample_build\<lparr>build_migrations := MIGRATIONS sample_sql\<rparr>,
     sv_catalog = sample_catalog\<rparr>"

fun starts_with :: "string \<Rightarrow> string \<Rightarrow> bool" where
  "starts_with [] s = True"
| "starts_with (a # n) [] = False"
| "starts_with (a # n) (b # s) = (if a = b then starts_with n s else False)"

lemma starts_with_take: "starts_with n s \<longleftrightarrow> take (length n) s = n"
  by (induction n s rule: starts_with.induct) auto

lemma find_suffix_starts_with:
  "find_suffix needle (c # cs) = (if starts_with needle (c # cs) then Some (c # cs) else find_suffix needle cs)"
  by (simp add: starts_with_take)

lemma sample_sql_eq:
  "sample_sql = ''CREATE TABLE dovecote_schema;CREATE TABLE dovecote_events;'' @
     ''CREATE TABLE dovecote_deliveries;CREATE UNIQUE INDEX dovecote_events_tenant_source_event_id;'' @
     ''CREATE INDEX dovecote_events_tenant_row;CREATE INDEX dovecote_deliveries_claimable;'' @
     ''CREATE INDEX dovecote_deliveries_expired_claims;''"
  by (simp add: sample_sql_def sample_tables_def domain_tables_def sample_indexes_def
      sample_index_sql_def IDENTITY_INDEX_def)

lemma sample_table_sources:
  "expected_table_source sample_sql ''dovecote_schema'' = Inr ''CREATE TABLE dovecote_schema''"
  "expected_table_source sample_sql ''dovecote_events'' = Inr ''CREATE TABLE dovecote_events''"
  "expected_table_source sample_sql ''dovecote_deliveries'' = Inr ''CREATE TABLE dovecote_deliveries''"
  by (simp_all add: expected_table_source_def sample_sql_eq byte_def find_suffix_starts_with
      del: find_suffix.simps(2))

lemma sample_index_sources:
  "expected_index_source sample_sql IDENTITY_INDEX = Inr (sample_index_sql IDENTITY_INDEX True)"
  "expected_index_source sample_sql ''dovecote_events_tenant_row''
     = Inr (sample_index_sql ''dovecote_events_tenant_row'' False)"
  "expected_index_source sample_sql ''dovecote_deliveries_claimable''
     = Inr (sample_index_sql ''dovecote_deliveries_claimable'' False)"
  "expected_index_source sample_sql ''dovecote_deliveries_expired_claims''
     = Inr (sample_index_sql ''dovecote_deliveries_expired_claims'' False)"
  by (simp_all add: expected_index_source_def sample_sql_eq sample_index_sql_def IDENTITY_INDEX_def
      find_suffix_starts_with del: find_suffix.simps(2))

lemma sample_check_columns:
  "check_columns sample_catalog ''dovecote_events'' event_column_specs = Inr ()"
  "check_columns sample_catalog ''dovecote_deliveries'' delivery_column_specs = Inr ()"
  by (simp_all add: check_columns_def sample_catalog_def sample_columns_def event_column_specs_def
      delivery_column_specs_def column_required_def column_optional_def check_column_def eq_ignore_ascii_case_def)

lemma sample_check_tables:
  "check_tables_present sample_tables domain_tables = Inr ()"
  "mig_sql m = sample_sql \<Longrightarrow> check_table_sources lower m sample_tables domain_tables = Inr ()"
  by (simp_all add: sample_tables_def domain_tables_def sample_table_sources)

lemma sample_check_indexes:
  "check_index lower sample_catalog ''dovecote_events'' IDENTITY_INDEX True
     [''tenant_id'', ''source'', ''event_id''] sample_sql = Inr ()"
  "check_index lower sample_catalog ''dovecote_events'' ''dovecote_events_tenant_row'' False
     [''tenant_id'', ''row_id''] sample_sql = Inr ()"
  "check_index lower sample_catalog ''dovecote_deliveries'' ''dovecote_deliveries_claimable'' False
     [''tenant_id'', ''state'', ''available_at'', ''event_row_id''] sample_sql = Inr ()"
  "check_index lower sample_catalog ''dovecote_deliveries'' ''dovecote_deliveries_expired_claims'' False
     [''tenant_id'', ''state'', ''claim_expires_at'', ''event_row_id''] sample_sql = Inr ()"
  using sample_index_sources
  by (simp_all add: check_index_def sample_catalog_def sample_indexes_def IDENTITY_INDEX_def
      key_collations_def map_filter_simps)

lemma sample_catalog_sel:
  "cat_foreign_keys sample_catalog = Inr 1" "cat_tables sample_catalog = Inr sample_tables"
  "cat_extra_objects sample_catalog = Inr []" "cat_fk_violations sample_catalog = Inr 0"
  "check_foreign_key sample_catalog = Inr ()"
  by (simp_all add: sample_catalog_def check_foreign_key_def)

lemma sample_marker: "check_schema_marker sample_catalog (hd (MIGRATIONS sample_sql)) = Inr ()"
  by (simp add: check_schema_marker_def sample_catalog_def MIGRATIONS_def crate_version_new_def)

lemma sample_migration:
  "current_migration (MIGRATIONS sample_sql) = Inr (hd (MIGRATIONS sample_sql))"
  "migration_is_usable (crate_version_new 0 2 3) (hd (MIGRATIONS sample_sql)) = Inr ()"
  "mig_sql (hd (MIGRATIONS sample_sql)) = sample_sql"
  by (simp_all add: current_migration_def MIGRATIONS_def SCHEMA_VERSION_def migration_is_usable_def
      compatibility_contains_def crate_version_new_def version_is_less_than_def)

lemma sample_schema: "check_schema_view sample_view = Inr ()"
  by (simp add: check_schema_view_def check_schema_connection_def sample_view_def sample_build_def
      sample_check_tables sample_check_columns sample_check_indexes sample_catalog_sel sample_marker
      sample_migration del: check_tables_present.simps check_table_sources.simps)

section \<open>An import and its finalisation\<close>

definition sample_import_row :: "string event_row" where
  "sample_import_row = event_columns sample_lib ''acme'' sample_content 1 ''2026-01-01T00:00:05Z''"

definition sample_import_db :: "ImportedDeliveryState \<Rightarrow> sqlite_db" where
  "sample_import_db state = \<lparr>db_events = [sample_import_row],
     db_deliveries = [imported_delivery sample_lib ''acme'' 1 ''2026-01-01T00:00:05Z'' state],
     db_last_row_id = 1\<rparr>"

lemma sample_import_row_ok [simp]: "event_check sample_import_row" "er_row_id sample_import_row = 1"
proof -
  show "event_check sample_import_row"
    using sample_row_check by (simp add: event_check_def event_columns_def event_columns_with_def sample_row_def sample_import_row_def)
  show "er_row_id sample_import_row = 1" by (simp add: sample_import_row_def)
qed

lemma sample_prepare_import:
  "import_prepare sample_lib sample_view sample_env ImportPending = Inr ''2026-01-01T00:00:05Z''"
  by (simp add: import_prepare_def import_operation_time_def sample_schema sqlite_format_timestamp_def)

lemma sample_import:
  "import_for_scope sample_lib sample_view sample_env sample_tenant sample_event ImportPending db_empty
     = (Inr (Imported (RowId 1)), sample_import_db ImportPending)"
proof -
  have "sql_insert_event sample_env ''insert imported event'' (\<lambda>rid. event_columns sample_lib
      (tenant_id_str sample_tenant) (new_content sample_event) rid ''2026-01-01T00:00:05Z'') db_empty
    = Inr (Some sample_import_row, \<lparr>db_events = [sample_import_row], db_deliveries = [], db_last_row_id = 1\<rparr>)"
    using sample_import_row_ok(1) unfolding sample_import_row_def
    by (simp add: sql_insert_event_def db_empty_def i64_max_def Let_def sample_event_def)
  then show ?thesis
    by (simp add: import_for_scope_def sample_prepare_import import_row_id_def row_id_new_def
        import_insert_delivery_def sql_insert_delivery_def table_insert_delivery_def imported_delivery_check sample_import_db_def
        sample_import_row_def)
qed

lemma sample_import_ok: "db_ok (sample_import_db ImportPending)"
  by (rule import_keeps_ok [OF db_ok_empty sample_import])

lemma sample_finalize:
  "finalize_for_scope sample_lib sample_view sample_env sample_tenant (RowId 1) sample_instant
     (sample_import_db ImportPending) = (Inr (Finalized (RowId 1)), sample_import_db (ImportDelivered sample_instant))"
proof -
  let ?db = "sample_import_db ImportPending"
  let ?d = "imported_delivery sample_lib ''acme'' 1 ''2026-01-01T00:00:05Z'' ImportPending"
  let ?d' = "imported_delivery sample_lib ''acme'' 1 ''2026-01-01T00:00:05Z'' (ImportDelivered sample_instant)"
  have prep: "finalize_prepare sample_lib sample_view sample_env sample_tenant (RowId 1) sample_instant ?db
      = Inr (sample_import_row, ?d)"
    by (simp add: finalize_prepare_def imported_delivered_def sample_schema find_event_def
        sample_import_db_def sample_import_row_def)
  have pend: "canonical_pending ?d (er_enqueued_at sample_import_row)"
    by (simp add: canonical_pending_def canonical_def imported_delivery_def imported_delivery_with_def sample_import_row_def)
  have set: "finalize_set (sqlite_format_timestamp sample_lib sample_instant) ?d = Some ?d'"
    by (simp add: finalize_set_def imported_delivery_def imported_delivery_with_def)
  have hit: "finalize_where ''acme'' 1 (er_enqueued_at sample_import_row) ?d"
    using pend by (simp add: finalize_where_iff)
  have "sql_update_deliveries sample_env ''finalize migration delivery'' 1
      (finalize_where ''acme'' 1 (er_enqueued_at sample_import_row))
      (finalize_set (sqlite_format_timestamp sample_lib sample_instant)) ?db
    = Inr ([?d'], sample_import_db (ImportDelivered sample_instant))"
    using hit set by (simp add: sql_update_deliveries_def table_update_deliveries_def sample_import_db_def imported_delivery_check
        update_rows_def)
  then show ?thesis
    using prep pend by (simp add: finalize_for_scope_def canonical_pending_def)
qed

end
