(* ===== verification/Migration_Properties.thy ===== *)
theory Migration_Properties
  imports Migration_Samples Sqlite_Properties
begin

text \<open>
  The properties of the SQLite adapter around the delivery lifecycle: durations, imports from a
  legacy publisher, paging, and the schema check.
\<close>

section \<open>Imports\<close>

text \<open>Importing is idempotent: repeating an import that stored a row, with the same content
  and the same delivery state, reports that row and changes nothing.\<close>

theorem import_again_finds_the_row:
  assumes "db_ok db"
    and "tenant_import_for_migration lib sv env h event state db = (Inr (Imported (RowId n)), db1)"
    and "event_content_wf lib (new_content event)"
    and "validate_content lib (new_content event) limit = Inr ()" and "durable_codecs lib (new_content event)"
    and "import_quiet env2" and "import_prepare lib sv2 env2 state = Inr now2"
    and "db_last_row_id db1 + 1 + int (env_row_id_gap env2) \<le> i64_max"
  shows "tenant_import_for_migration lib sv2 env2 h event state db1 = (Inr (AlreadyImported (RowId n)), db1)"
proof -
  let ?t = "tenant_id_str (th_tenant_id h)"
  note imp = assms(2) [unfolded tenant_import_for_migration_def]
  obtain now where db1: "db_events db1 = db_events db @ [event_columns lib ?t (new_content event) n now]"
    "db_deliveries db1 = db_deliveries db @ [imported_delivery lib ?t n now state]"
    using import_Imported [OF imp] by auto
  have ok: "db_ok db1" by (rule import_keeps_ok [OF assms(1) imp])
  then have d: "find_delivery db1 n = Some (imported_delivery lib ?t n now state)"
    using db1 by (simp add: find_delivery_ok)
  have "event_columns lib ?t (new_content event) n now \<in> set (db_events db1)" using db1 by simp
  from import_replay_row [OF ok this refl d _ imported_delivery_matches assms(3-8)]
  show ?thesis by (simp add: tenant_import_for_migration_def)
qed

lemma sample_tenant_import:
  "tenant_import_for_migration sample_lib sample_view sample_env sample_handle sample_event ImportPending db_empty
     = (Inr (Imported (RowId 1)), sample_import_db ImportPending)"
  using sample_import by (simp add: tenant_import_for_migration_def)

lemma sample_import_quiet: "import_quiet sample_env"
  by (simp add: import_quiet_def)

theorem import_again_finds_the_row_witness:
  "tenant_import_for_migration sample_lib sample_view sample_env sample_handle sample_event ImportPending
     (sample_import_db ImportPending) = (Inr (AlreadyImported (RowId 1)), sample_import_db ImportPending)"
  by (rule import_again_finds_the_row [OF db_ok_empty sample_tenant_import _ _ _ sample_import_quiet sample_prepare_import])
    (use sample_content_ok in \<open>simp_all add: sample_event_def sample_import_db_def i64_max_def\<close>)

text \<open>C34. Importing an event as pending and finalising it stores exactly what importing it as
  delivered stores: the two migration workflows agree on every column.\<close>

theorem import_then_finalize_is_import_delivered:
  assumes "db_ok db"
    and "tenant_import_for_migration lib sv env h event ImportPending db = (Inr (Imported row_id), db1)"
    and "tenant_finalize_pending_delivery_for_migration lib sv env2 h row_id t db1 = (Inr (Finalized row_id2), db2)"
  shows "tenant_import_for_migration lib sv env h event (ImportDelivered t) db = (Inr (Imported row_id), db2)"
  using import_then_finalize_row [OF assms(1) assms(2,3) [unfolded tenant_import_for_migration_def
      tenant_finalize_pending_delivery_for_migration_def]]
  by (simp add: tenant_import_for_migration_def)

lemma sample_tenant_finalize:
  "tenant_finalize_pending_delivery_for_migration sample_lib sample_view sample_env sample_handle (RowId 1)
     sample_instant (sample_import_db ImportPending)
   = (Inr (Finalized (RowId 1)), sample_import_db (ImportDelivered sample_instant))"
  using sample_finalize by (simp add: tenant_finalize_pending_delivery_for_migration_def)

theorem import_then_finalize_is_import_delivered_witness:
  "tenant_import_for_migration sample_lib sample_view sample_env sample_handle sample_event
     (ImportDelivered sample_instant) db_empty
   = (Inr (Imported (RowId 1)), sample_import_db (ImportDelivered sample_instant))"
  by (rule import_then_finalize_is_import_delivered [OF db_ok_empty sample_tenant_import sample_tenant_finalize])

text \<open>C35. A finalisation changes a delivery only from the untouched pending shape of an import:
  it then becomes delivered at the given instant, nothing else changes, and repeating the call is
  answered without a change. Every error, and the answer that it was done before, leaves the
  tables alone.\<close>

theorem finalize_only_untouched_imports:
  assumes "db_ok db"
    and "tenant_finalize_pending_delivery_for_migration lib sv env h row_id t db = (res, db')"
  shows "case res of
      Inr (Finalized rid) \<Rightarrow> rid = row_id
        \<and> (\<exists>r d. find_event db (tenant_id_str (th_tenant_id h)) (row_id_get row_id) = Some r
             \<and> find_delivery db (row_id_get row_id) = Some d \<and> canonical_pending d (er_enqueued_at r)
             \<and> db' = db\<lparr>db_deliveries := update_rows (\<lambda>e. dr_event_row_id e = row_id_get row_id)
                 (\<lambda>e. e\<lparr>dr_state := ''delivered'', dr_delivered_at := Some (sqlite_format_timestamp lib t)\<rparr>)
                 (db_deliveries db)\<rparr>)
        \<and> (import_quiet env \<longrightarrow>
             tenant_finalize_pending_delivery_for_migration lib sv env h row_id t db'
               = (Inr (AlreadyFinalized row_id), db'))
    | _ \<Rightarrow> db' = db"
proof -
  note fin = assms(2) [unfolded tenant_finalize_pending_delivery_for_migration_def]
  have "db' = db" if "\<nexists>rid. res = Inr (Finalized rid)"
    using fin that by (cases rule: finalize_for_scope_cases)
      (use finalize_Inl [OF assms(1)] fin in \<open>auto split: if_splits\<close>)
  moreover have ?thesis if res: "res = Inr (Finalized rid)" for rid
  proof -
    obtain r d where rd: "finalize_prepare lib sv env (th_tenant_id h) row_id t db = Inr (r, d)" "rid = row_id"
      "canonical_pending d (er_enqueued_at r)"
      "db' = db\<lparr>db_deliveries := update_rows (\<lambda>e. dr_event_row_id e = row_id_get row_id)
          (\<lambda>e. e\<lparr>dr_state := ''delivered'', dr_delivered_at := Some (sqlite_format_timestamp lib t)\<rparr>)
          (db_deliveries db)\<rparr>"
      using finalize_Finalized [OF assms(1) fin [unfolded res]] by metis
    note prep = finalize_prepare_Inr [OF rd(1)]
    have "find_delivery db (row_id_get row_id) = Some d"
      using prep by (simp add: find_delivery_ok [OF assms(1)])
    moreover have "import_quiet env \<Longrightarrow> finalize_for_scope lib sv env (th_tenant_id h) row_id t db'
        = (Inr (AlreadyFinalized row_id), db')"
      using finalize_replay_row [OF assms(1) fin [unfolded res]] prep(6) by blast
    ultimately show ?thesis
      using res rd prep(1) by (simp add: tenant_finalize_pending_delivery_for_migration_def)
  qed
  ultimately show ?thesis by (cases res) (auto split: FinalizeOutcome.split)
qed

theorem finalize_only_untouched_imports_witness:
  "tenant_finalize_pending_delivery_for_migration sample_lib sample_view sample_env sample_handle (RowId 1)
     sample_instant (sample_import_db (ImportDelivered sample_instant))
   = (Inr (AlreadyFinalized (RowId 1)), sample_import_db (ImportDelivered sample_instant))"
  using finalize_only_untouched_imports [OF sample_import_ok sample_tenant_finalize] sample_import_quiet by simp



section \<open>Paging\<close>

text \<open>C36. A snapshot pager reads its snapshot exactly once: whatever limits the calls use and
  whatever is committed meanwhile, the pages put together are the rows of the scope in row order,
  up to the sum of the limits, without a gap or a repetition, and once the sum covers the scope
  the pager is exhausted.\<close>

theorem snapshot_pages_are_the_scope:
  assumes "db_ok db" and "tenant_begin_snapshot env h db = Inr pager"
    and "collect_results (hydrate_page lib) (map (page_join db) (scope_rows (Some (th_tenant_id h)) db)) = Inr events"
    and "quiet_calls calls"
  shows "\<exists>pager'. run_pager lib calls pager = (Inr (take (total_limit calls) events), pager')
    \<and> map pe_row_id events = map (\<lambda>r. RowId (er_row_id r)) (scope_rows (Some (th_tenant_id h)) db)
    \<and> (pager_exhausted pager' \<longleftrightarrow> length (scope_rows (Some (th_tenant_id h)) db) \<le> total_limit calls)"
proof -
  have "pager_at pager (Some (th_tenant_id h)) db 0"
    using begin_snapshot_at [OF assms(1)] assms(2) by (simp add: tenant_begin_snapshot_def)
  from run_pager_at [OF assms(1,3,4) this] page_row_ids [OF hydrate_page_sel(1) assms(3)] show ?thesis
    by (auto simp: pager_at_def Let_def)
qed

lemma sample_page:
  "\<exists>event. collect_results (hydrate_page sample_lib)
     (map (page_join sample_db) (scope_rows (Some sample_tenant) sample_db)) = Inr [event]"
proof -
  have "scope_rows (Some sample_tenant) sample_db = [sample_row]"
    by (simp add: scope_rows_def sample_db_sel page_scope_def)
  moreover have "\<exists>event. hydrate_page sample_lib (page_join sample_db sample_row) = Inr event"
    by (simp add: hydrate_page_def page_join_def durable_join_def sample_db_def sample_delivery_def enqueued_delivery_def
        hydrate_snapshot_def require_absent_def require_token_width_def parse_failure_def attempt_count_new_def
        row_id_new_def paged_event_new_def snapshot_pending_def)
  ultimately show ?thesis by auto
qed

theorem snapshot_pages_are_the_scope_witness:
  "\<exists>pager pager' events. tenant_begin_snapshot sample_env sample_handle sample_db = Inr pager
     \<and> run_pager sample_lib [(sample_env, PageLimit 10)] pager = (Inr events, pager')
     \<and> map pe_row_id events = [RowId 1] \<and> pager_exhausted pager'"
proof -
  have scope: "scope_rows (Some sample_tenant) sample_db = [sample_row]"
    by (simp add: scope_rows_def sample_db_sel page_scope_def)
  obtain pager where p: "tenant_begin_snapshot sample_env sample_handle sample_db = Inr pager"
    by (simp add: tenant_begin_snapshot_def begin_snapshot_for_scope_def sql_max_row_id_eq scope row_id_new_def)
  obtain event where "collect_results (hydrate_page sample_lib)
      (map (page_join sample_db) (scope_rows (Some (th_tenant_id sample_handle)) sample_db)) = Inr [event]"
    using sample_page by auto
  from snapshot_pages_are_the_scope [OF _ p this, of "[(sample_env, PageLimit 10)]"] scope p
  show ?thesis by (force simp: quiet_calls_def total_limit_def)
qed

lemma collect_results_origin:
  "collect_results f xs = Inr ys \<Longrightarrow> y \<in> set ys \<Longrightarrow> \<exists>x \<in> set xs. f x = Inr y"
  by (induction xs arbitrary: ys) (auto simp: and_then_Inr_iff)

text \<open>A live page holds the next rows of its scope after the cursor: at most the limit, in row
  order, none of another tenant, and none skipped.\<close>

theorem live_page_is_next_slice:
  assumes "tenant_page lib env h after limit db = Inr events"
  shows "map pe_row_id events = map (\<lambda>r. RowId (er_row_id r))
      (take (limit_get limit) (filter (\<lambda>r. cursor_value after < er_row_id r) (scope_rows (Some (th_tenant_id h)) db)))
    \<and> (\<forall>e \<in> set events. pe_tenant_id e = th_tenant_id h)"
proof -
  let ?rows = "take (limit_get limit) (filter (\<lambda>r. cursor_value after < er_row_id r) (scope_rows (Some (th_tenant_id h)) db))"
  have hyd: "collect_results (hydrate_page lib) (map (page_join db) ?rows) = Inr events"
    using assms by (auto simp: tenant_page_def page_for_scope_def read_page_scoped_def page_sql_scope_rows
        and_then_Inr_iff map_err_Inr_iff run_or_Inr_iff)
  have scope: "er_tenant_id r = tenant_id_str (th_tenant_id h)" if "r \<in> set ?rows" for r
    using that by (auto simp: scope_rows_def page_scope_def dest!: in_set_takeD)
  have "pe_tenant_id e = th_tenant_id h" if e: "e \<in> set events" for e
  proof -
    obtain r where "r \<in> set ?rows" "hydrate_page lib (page_join db r) = Inr e"
      using collect_results_origin [OF hyd e] by auto
    then show ?thesis using hydrate_page_sel(2) [of lib] scope by (simp add: TenantId.expand)
  qed
  then show ?thesis using page_row_ids [OF hydrate_page_sel(1) hyd] by simp
qed

theorem live_page_is_next_slice_witness:
  "\<exists>events. tenant_page sample_lib sample_env sample_handle None (PageLimit 10) sample_db = Inr events
     \<and> map pe_row_id events = [RowId 1]"
proof -
  have scope: "scope_rows (Some sample_tenant) sample_db = [sample_row]"
    by (simp add: scope_rows_def sample_db_sel page_scope_def)
  obtain events where p: "tenant_page sample_lib sample_env sample_handle None (PageLimit 10) sample_db = Inr events"
    using sample_page by (auto simp: tenant_page_def page_for_scope_def read_page_scoped_def page_sql_scope_rows
        scope cursor_value_def)
  from live_page_is_next_slice [OF p] p scope show ?thesis by (simp add: cursor_value_def)
qed

section \<open>The schema check\<close>

text \<open>A database that passes the schema check has, for each of the three tables, the statement
  of the current migration, character for character up to the normalization of spaces, quotes and
  case; the marker of that migration; foreign keys enforced and not violated; and no trigger, view
  or further index.\<close>

theorem schema_check_is_sound:
  assumes "check_schema_connection lower migrations version cat = Inr ()" and "name \<in> set domain_tables"
  shows "\<exists>migration sources sql statement before after.
      current_migration migrations = Inr migration \<and> check_schema_marker cat migration = Inr ()
    \<and> cat_tables cat = Inr sources \<and> (name, sql) \<in> set sources
    \<and> mig_sql migration = before @ statement @ CHR '';'' # after
    \<and> normalize_sql lower sql = normalize_sql lower statement
    \<and> cat_extra_objects cat = Inr [] \<and> cat_foreign_keys cat = Inr 1 \<and> cat_fk_violations cat = Inr 0"
proof -
  obtain migration sources where m: "current_migration migrations = Inr migration"
    "check_schema_marker cat migration = Inr ()" "cat_tables cat = Inr sources"
    "check_table_sources lower migration sources domain_tables = Inr ()"
    "cat_extra_objects cat = Inr []" "cat_foreign_keys cat = Inr 1" "cat_fk_violations cat = Inr 0"
    using check_schema_connection_Inr [OF assms(1)] by metis
  obtain sql statement where "(name, sql) \<in> set sources"
    "expected_table_source (mig_sql migration) name = Inr statement"
    "normalize_sql lower sql = normalize_sql lower statement"
    using check_table_sources_Inr [OF m(4) assms(2)] by blast
  then show ?thesis using m expected_table_source_part by metis
qed

theorem schema_check_is_sound_witness:
  "\<exists>migration sql. current_migration (MIGRATIONS sample_sql) = Inr migration
     \<and> (''dovecote_events'', sql) \<in> set sample_tables \<and> cat_extra_objects sample_catalog = Inr []"
proof -
  have "check_schema_connection (sv_lower sample_view) (build_migrations (sv_build sample_view))
      (build_version (sv_build sample_view)) (sv_catalog sample_view) = Inr ()"
    using sample_schema by (simp add: check_schema_view_def)
  from schema_check_is_sound [OF this, of "''dovecote_events''"] show ?thesis
    by (auto simp: domain_tables_def sample_view_def sample_catalog_sel)
qed

end
