(* ===== verification/Adapter_Transaction.thy ===== *)
theory Adapter_Transaction
  imports Adapter_Delivery
begin

text \<open>
  A transaction that runs beside others. \<open>tx_db\<close> is what is committed, \<open>tx_events\<close> and
  \<open>tx_deliveries\<close> are the rows this transaction has inserted or rewritten, \<open>tx_locked\<close> the
  deliveries whose row it has locked, by a locking read or by writing it. A statement sees
  \<open>tx_view\<close>: the committed rows with the transaction's own on top. Between two statements other
  sessions may commit; \<open>peers_ok\<close> states what row locks and unique indexes exclude. A commit
  makes the view the committed state, a rollback leaves what is committed.

  \<open>tx_snapshot\<close> is for transactions whose plain reads are repeatable: the state that was
  committed at the first of them. Such reads see \<open>tx_seen\<close>, the snapshot with the transaction's
  own rows on top, while locking reads and writes see \<open>tx_view\<close>.
\<close>

record 't txn =
  tx_db :: "'t db"
  tx_events :: "'t event_row list"
  tx_deliveries :: "'t delivery_row list"
  tx_locked :: "int list"
  tx_snapshot :: "'t db option"

definition tx_begin :: "'t db \<Rightarrow> 't txn" where
  "tx_begin db = \<lparr>tx_db = db, tx_events = [], tx_deliveries = [], tx_locked = [],
     tx_snapshot = None\<rparr>"

definition row_in :: "'t delivery_row list \<Rightarrow> int \<Rightarrow> 't delivery_row option" where
  "row_in ds r = find (\<lambda>d. dr_event_row_id d = r) ds"

definition tx_view :: "'t txn \<Rightarrow> 't db" where
  "tx_view t =
     \<lparr>db_events = db_events (tx_db t) @ tx_events t,
      db_deliveries =
        map (\<lambda>d. case row_in (tx_deliveries t) (dr_event_row_id d) of None \<Rightarrow> d | Some e \<Rightarrow> e)
          (db_deliveries (tx_db t))
        @ filter (\<lambda>d. row_in (db_deliveries (tx_db t)) (dr_event_row_id d) = None) (tx_deliveries t),
      db_last_row_id = foldl max (db_last_row_id (tx_db t)) (map er_row_id (tx_events t))\<rparr>"

definition tx_open :: "'t txn \<Rightarrow> 't txn" where
  "tx_open t = (case tx_snapshot t of None \<Rightarrow> t\<lparr>tx_snapshot := Some (tx_db t)\<rparr> | Some _ \<Rightarrow> t)"

definition tx_seen :: "'t txn \<Rightarrow> 't db" where
  "tx_seen t = tx_view (case tx_snapshot t of None \<Rightarrow> t | Some s \<Rightarrow> t\<lparr>tx_db := s\<rparr>)"

definition tx_lock :: "int list \<Rightarrow> 't txn \<Rightarrow> 't txn" where
  "tx_lock rs t = t\<lparr>tx_locked := rs @ tx_locked t\<rparr>"

text \<open>Writing a delivery locks its row.\<close>

definition tx_put :: "'t delivery_row \<Rightarrow> 't txn \<Rightarrow> 't txn" where
  "tx_put d t = tx_lock [dr_event_row_id d]
     (t\<lparr>tx_deliveries :=
        (if row_in (tx_deliveries t) (dr_event_row_id d) = None then tx_deliveries t @ [d]
         else map (\<lambda>e. if dr_event_row_id e = dr_event_row_id d then d else e) (tx_deliveries t))\<rparr>)"

definition tx_insert_event :: "'t event_row \<Rightarrow> 't txn \<Rightarrow> 't txn" where
  "tx_insert_event e t = t\<lparr>tx_events := tx_events t @ [e]\<rparr>"

section \<open>What others may commit\<close>

text \<open>
  \<open>peer\<close> gives the committed state after the others, for the transaction as it stands. Others
  leave a consistent state, delete no event, do not touch a delivery whose row is locked here
  (nor insert one under a key that is being inserted here), and insert no event under a row id or
  an identity that this transaction has inserted.
\<close>

definition peers_ok :: "('t txn \<Rightarrow> 't db) \<Rightarrow> bool" where
  "peers_ok peer \<longleftrightarrow> (\<forall>t.
     (db_ok (tx_db t) \<longrightarrow> db_ok (peer t))
     \<and> set (db_events (tx_db t)) \<subseteq> set (db_events (peer t))
     \<and> (\<forall>r \<in> set (tx_locked t). find_delivery (peer t) r = find_delivery (tx_db t) r)
     \<and> (\<forall>e \<in> set (tx_events t). \<forall>e' \<in> set (db_events (peer t)) - set (db_events (tx_db t)).
          er_row_id e' \<noteq> er_row_id e \<and> event_identity e' \<noteq> event_identity e))"

text \<open>A snapshot is an earlier committed state.\<close>

definition snapshot_ok :: "'t db option \<Rightarrow> 't db \<Rightarrow> bool" where
  "snapshot_ok snapshot db \<longleftrightarrow>
     (case snapshot of None \<Rightarrow> True | Some s \<Rightarrow> db_ok s \<and> set (db_events s) \<subseteq> set (db_events db))"

definition tx_ok :: "'t txn \<Rightarrow> bool" where
  "tx_ok t \<longleftrightarrow> db_ok (tx_db t) \<and> db_ok (tx_view t) \<and> snapshot_ok (tx_snapshot t) (tx_db t)
     \<and> distinct (map dr_event_row_id (tx_deliveries t))
     \<and> dr_event_row_id ` set (tx_deliveries t) \<subseteq> set (tx_locked t)"

lemma snapshot_ok_None [simp]: "snapshot_ok None db"
  by (simp add: snapshot_ok_def)

lemma snapshot_ok_mono:
  "snapshot_ok s db \<Longrightarrow> set (db_events db) \<subseteq> set (db_events db') \<Longrightarrow> snapshot_ok s db'"
  by (auto simp: snapshot_ok_def split: option.splits)

section \<open>The view by key\<close>

lemma find_delivery_row_in: "find_delivery db r = row_in (db_deliveries db) r"
  by (simp add: find_delivery_def row_in_def)

lemma row_in_append: "row_in (xs @ ys) r = (case row_in xs r of None \<Rightarrow> row_in ys r | Some d \<Rightarrow> Some d)"
  by (induction xs) (auto simp: row_in_def)

lemma row_in_Some: "row_in ds r = Some d \<Longrightarrow> d \<in> set ds \<and> dr_event_row_id d = r"
  unfolding row_in_def by (drule find_Some_in) simp

lemma row_in_None: "row_in ds r = None \<longleftrightarrow> r \<notin> dr_event_row_id ` set ds"
  by (auto simp: row_in_def find_None_set)

lemma row_in_absent: "row_in ds r = None \<longleftrightarrow> (\<forall>d \<in> set ds. dr_event_row_id d \<noteq> r)"
  by (simp add: row_in_def find_None_set)

lemma row_in_over:
  "row_in (map (\<lambda>d. case row_in ws (dr_event_row_id d) of None \<Rightarrow> d | Some e \<Rightarrow> e) ds) r
     = (case row_in ds r of None \<Rightarrow> None | Some d \<Rightarrow> (case row_in ws r of None \<Rightarrow> Some d | Some e \<Rightarrow> Some e))"
proof (induction ds)
  case (Cons d ds)
  have "dr_event_row_id (case row_in ws (dr_event_row_id d) of None \<Rightarrow> d | Some e \<Rightarrow> e) = dr_event_row_id d"
    by (auto dest: row_in_Some split: option.splits)
  then show ?case using Cons by (auto simp: row_in_def split: option.splits)
qed (simp add: row_in_def)

lemma row_in_filter:
  assumes "\<And>d. dr_event_row_id d = r \<Longrightarrow> p d"
  shows "row_in (filter p ds) r = row_in ds r"
  using assms by (induction ds) (auto simp: row_in_def)

lemma find_view:
  "find_delivery (tx_view t) r = (case row_in (tx_deliveries t) r of
     None \<Rightarrow> find_delivery (tx_db t) r | Some d \<Rightarrow> Some d)"
proof (cases "row_in (db_deliveries (tx_db t)) r")
  case None
  then have "row_in (filter (\<lambda>d. row_in (db_deliveries (tx_db t)) (dr_event_row_id d) = None) (tx_deliveries t)) r
      = row_in (tx_deliveries t) r" by (intro row_in_filter) auto
  then show ?thesis
    using None by (simp add: find_delivery_row_in tx_view_def row_in_append row_in_over split: option.splits)
qed (simp add: find_delivery_row_in tx_view_def row_in_append row_in_over split: option.splits)

lemma find_view_unwritten:
  "r \<notin> dr_event_row_id ` set (tx_deliveries t) \<Longrightarrow> find_delivery (tx_view t) r = find_delivery (tx_db t) r"
  by (simp add: find_view row_in_None split: option.splits)
     (metis row_in_None option.distinct(1))

lemma view_begin [simp]: "tx_view (tx_begin db) = db"
  by (cases db) (simp add: tx_view_def tx_begin_def row_in_def)

lemma view_events: "db_events (tx_view t) = db_events (tx_db t) @ tx_events t"
  by (simp add: tx_view_def)

lemma tx_begin_sel [simp]:
  "tx_db (tx_begin db) = db" "tx_events (tx_begin db) = []" "tx_deliveries (tx_begin db) = []"
  "tx_locked (tx_begin db) = []" "tx_snapshot (tx_begin db) = None"
  by (simp_all add: tx_begin_def)

lemma tx_ok_begin: "db_ok db \<Longrightarrow> tx_ok (tx_begin db)"
  by (simp add: tx_ok_def)

section \<open>Others commit\<close>

lemma view_deliveries:
  assumes "distinct (map dr_event_row_id (tx_deliveries t))"
  shows "set (db_deliveries (tx_view t)) = set (tx_deliveries t)
    \<union> {d \<in> set (db_deliveries (tx_db t)). dr_event_row_id d \<notin> dr_event_row_id ` set (tx_deliveries t)}"
proof -
  have own: "row_in (tx_deliveries t) (dr_event_row_id d) = Some d" if "d \<in> set (tx_deliveries t)" for d
    unfolding row_in_def by (rule find_key_unique [OF assms that])
  let ?ws = "tx_deliveries t" and ?cs = "db_deliveries (tx_db t)"
  let ?over = "\<lambda>d. case row_in ?ws (dr_event_row_id d) of None \<Rightarrow> d | Some e \<Rightarrow> e"
  have view: "set (db_deliveries (tx_view t))
      = ?over ` set ?cs \<union> {d \<in> set ?ws. row_in ?cs (dr_event_row_id d) = None}"
    by (simp add: tx_view_def)
  have 1: "?over d \<in> set ?ws \<union> {d \<in> set ?cs. dr_event_row_id d \<notin> dr_event_row_id ` set ?ws}"
    if "d \<in> set ?cs" for d
  proof (cases "row_in ?ws (dr_event_row_id d)")
    case None
    then show ?thesis using that row_in_None [of ?ws "dr_event_row_id d"] by simp
  qed (simp add: row_in_Some)
  have 2: "d \<in> ?over ` set ?cs" if own_row: "d \<in> set ?ws" and hit: "row_in ?cs (dr_event_row_id d) \<noteq> None" for d
  proof -
    obtain e where e: "e \<in> set ?cs" "dr_event_row_id e = dr_event_row_id d"
      using hit by (auto dest: row_in_Some)
    then have "?over e = d" using own [OF own_row] by simp
    then show ?thesis using e(1) by (intro image_eqI [where x = e]) auto
  qed
  have 3: "d \<in> ?over ` set ?cs" if "d \<in> set ?cs" "dr_event_row_id d \<notin> dr_event_row_id ` set ?ws" for d
  proof -
    have "?over d = d" using that(2) by (simp add: row_in_None [symmetric])
    then show ?thesis using that(1) by (intro image_eqI [where x = d]) auto
  qed
  show ?thesis unfolding view using 1 2 3 by blast
qed

lemma fresh_keys:
  fixes cs ws :: "'t delivery_row list"
  shows "dr_event_row_id ` set cs \<inter> dr_event_row_id ` {d \<in> set ws. row_in cs (dr_event_row_id d) = None} = {}"
proof -
  have "r \<notin> dr_event_row_id ` set cs"
    if "r \<in> dr_event_row_id ` {d \<in> set ws. row_in cs (dr_event_row_id d) = None}" for r
  proof -
    from that obtain d :: "'t delivery_row" where "r = dr_event_row_id d" "row_in cs (dr_event_row_id d) = None" by blast
    then show ?thesis by (simp add: row_in_None)
  qed
  then show ?thesis by blast
qed

lemma view_keys:
  "map dr_event_row_id (db_deliveries (tx_view t)) = map dr_event_row_id (db_deliveries (tx_db t))
     @ map dr_event_row_id (filter (\<lambda>d. row_in (db_deliveries (tx_db t)) (dr_event_row_id d) = None) (tx_deliveries t))"
  by (auto simp: tx_view_def dest: row_in_Some split: option.splits)

lemma foldl_max_ge: "(x :: int) \<le> foldl max x xs \<and> (\<forall>y \<in> set xs. y \<le> foldl max x xs)"
proof (induction xs arbitrary: x)
  case (Cons y ys)
  have "max x y \<le> foldl max (max x y) ys" "\<forall>z \<in> set ys. z \<le> foldl max (max x y) ys"
    using Cons [of "max x y"] by auto
  then show ?case by auto
qed simp

lemma view_last_ge:
  assumes "db_ok (tx_db t)" "r \<in> set (db_events (tx_view t))"
  shows "er_row_id r \<le> db_last_row_id (tx_view t)"
  using assms foldl_max_ge [where x = "db_last_row_id (tx_db t)" and xs = "map er_row_id (tx_events t)"]
  by (fastforce simp: tx_view_def db_ok_def list_all_iff)

definition tx_peer :: "('t txn \<Rightarrow> 't db) \<Rightarrow> 't txn \<Rightarrow> 't txn" where
  "tx_peer peer t = t\<lparr>tx_db := peer t\<rparr>"

lemma tx_peer_sel [simp]:
  "tx_db (tx_peer peer t) = peer t" "tx_events (tx_peer peer t) = tx_events t"
  "tx_deliveries (tx_peer peer t) = tx_deliveries t" "tx_locked (tx_peer peer t) = tx_locked t"
  "tx_snapshot (tx_peer peer t) = tx_snapshot t"
  by (simp_all add: tx_peer_def)

lemma peers_okD:
  assumes "peers_ok peer"
  shows "db_ok (tx_db t) \<Longrightarrow> db_ok (peer t)" and "e \<in> set (db_events (tx_db t)) \<Longrightarrow> e \<in> set (db_events (peer t))"
    and "r \<in> set (tx_locked t) \<Longrightarrow> find_delivery (peer t) r = find_delivery (tx_db t) r"
    and "e \<in> set (tx_events t) \<Longrightarrow> e' \<in> set (db_events (peer t)) \<Longrightarrow> e' \<notin> set (db_events (tx_db t)) \<Longrightarrow>
      er_row_id e' \<noteq> er_row_id e \<and> event_identity e' \<noteq> event_identity e"
  using assms unfolding peers_ok_def by blast+

text \<open>Keys of events stay apart: each new one of the others differs from those inserted here.\<close>

lemma peer_event_keys:
  assumes "peers_ok peer" "tx_ok t"
  shows "distinct (map er_row_id (db_events (peer t) @ tx_events t))"
    and "distinct (map event_identity (db_events (peer t) @ tx_events t))"
proof -
  have c': "db_ok (peer t)" using peers_okD(1) [OF assms(1)] assms(2) by (simp add: tx_ok_def)
  have v: "distinct (map er_row_id (db_events (tx_db t) @ tx_events t))"
    "distinct (map event_identity (db_events (tx_db t) @ tx_events t))"
    using assms(2) by (simp_all add: tx_ok_def db_ok_def tx_view_def)
  have cross: "er_row_id e \<noteq> er_row_id e' \<and> event_identity e \<noteq> event_identity e'"
    if "e' \<in> set (tx_events t)" "e \<in> set (db_events (peer t))" for e e'
  proof (cases "e \<in> set (db_events (tx_db t))")
    case True
    then show ?thesis using v that(1) by (auto simp: image_iff)
  qed (use peers_okD(4) [OF assms(1) that] in simp)
  have "er_row_id ` set (db_events (peer t)) \<inter> er_row_id ` set (tx_events t) = {}"
    "event_identity ` set (db_events (peer t)) \<inter> event_identity ` set (tx_events t) = {}"
    using cross by blast+
  then show "distinct (map er_row_id (db_events (peer t) @ tx_events t))"
    "distinct (map event_identity (db_events (peer t) @ tx_events t))"
    using c' v by (simp_all add: db_ok_def)
qed

lemma tx_ok_peer:
  assumes "peers_ok peer" "tx_ok t"
  shows "tx_ok (tx_peer peer t)"
proof -
  let ?t = "tx_peer peer t"
  have c': "db_ok (peer t)" using peers_okD(1) [OF assms(1)] assms(2) by (simp add: tx_ok_def)
  have ds: "distinct (map dr_event_row_id (tx_deliveries t))" using assms(2) by (simp add: tx_ok_def)
  have vok: "db_ok (tx_view t)" using assms(2) by (simp add: tx_ok_def)
  have rows: "set (db_deliveries (tx_view ?t)) \<subseteq> set (tx_deliveries t) \<union> set (db_deliveries (peer t))"
    using view_deliveries [of ?t] ds by auto
  have own: "set (tx_deliveries t) \<subseteq> set (db_deliveries (tx_view t))" using view_deliveries [OF ds] by auto
  have events: "set (db_events (tx_view t)) \<subseteq> set (db_events (tx_view ?t))"
    using peers_okD(2) [OF assms(1)] by (auto simp: tx_view_def)
  have "delivery_check d" if "d \<in> set (db_deliveries (tx_view ?t))" for d
    using that rows own vok c' unfolding db_ok_def list_all_iff by blast
  moreover have "\<exists>r \<in> set (db_events (tx_view ?t)). er_row_id r = dr_event_row_id d \<and> er_tenant_id r = dr_tenant_id d"
    if "d \<in> set (db_deliveries (tx_view ?t))" for d
  proof (cases "d \<in> set (tx_deliveries t)")
    case True
    then show ?thesis using own events vok unfolding db_ok_def list_all_iff by blast
  next
    case False
    then have "d \<in> set (db_deliveries (peer t))" using that rows by auto
    then show ?thesis using c' by (auto simp: db_ok_def list_all_iff tx_view_def)
  qed
  moreover have "distinct (map dr_event_row_id (db_deliveries (tx_view ?t)))"
    using c' ds fresh_keys unfolding view_keys by (simp add: db_ok_def distinct_map_filter)
  moreover have "list_all event_check (db_events (tx_view ?t))"
    using c' vok by (auto simp: tx_view_def db_ok_def)
  moreover have "0 \<le> db_last_row_id (tx_view ?t)"
    using c' foldl_max_ge [where x = "db_last_row_id (peer t)" and xs = "map er_row_id (tx_events t)"]
    by (auto simp: tx_view_def db_ok_def intro: order_trans)
  ultimately have "db_ok (tx_view ?t)"
    using peer_event_keys [OF assms] view_last_ge [of ?t] c'
    by (simp add: db_ok_def list_all_iff) (simp add: tx_view_def)
  moreover have "snapshot_ok (tx_snapshot t) (peer t)"
    using assms(2) peers_okD(2) [OF assms(1)] by (auto simp: tx_ok_def intro: snapshot_ok_mono)
  ultimately show ?thesis using c' assms(2) by (simp add: tx_ok_def)
qed

section \<open>Own writes\<close>

lemma tx_lock_sel [simp]:
  "tx_db (tx_lock rs t) = tx_db t" "tx_events (tx_lock rs t) = tx_events t"
  "tx_deliveries (tx_lock rs t) = tx_deliveries t" "tx_locked (tx_lock rs t) = rs @ tx_locked t"
  "tx_view (tx_lock rs t) = tx_view t" "tx_snapshot (tx_lock rs t) = tx_snapshot t"
  by (simp_all add: tx_lock_def tx_view_def)

lemma tx_put_sel [simp]:
  "tx_db (tx_put d t) = tx_db t" "tx_events (tx_put d t) = tx_events t"
  "tx_locked (tx_put d t) = dr_event_row_id d # tx_locked t" "tx_snapshot (tx_put d t) = tx_snapshot t"
  by (simp_all add: tx_put_def)

lemma tx_insert_event_sel [simp]:
  "tx_db (tx_insert_event e t) = tx_db t" "tx_events (tx_insert_event e t) = tx_events t @ [e]"
  "tx_deliveries (tx_insert_event e t) = tx_deliveries t" "tx_locked (tx_insert_event e t) = tx_locked t"
  "tx_snapshot (tx_insert_event e t) = tx_snapshot t"
  by (simp_all add: tx_insert_event_def)

lemma row_in_replace:
  "row_in (map (\<lambda>e. if dr_event_row_id e = dr_event_row_id d then d else e) ds) r
     = (if r = dr_event_row_id d \<and> row_in ds r \<noteq> None then Some d else row_in ds r)"
  by (induction ds) (auto simp: row_in_def)

lemma row_in_put:
  "row_in (tx_deliveries (tx_put d t)) r
     = (if r = dr_event_row_id d then Some d else row_in (tx_deliveries t) r)"
  by (auto simp: tx_put_def row_in_replace row_in_append split: option.splits) (auto simp: row_in_def)

lemma put_keys:
  "map dr_event_row_id (tx_deliveries (tx_put d t)) =
     (if row_in (tx_deliveries t) (dr_event_row_id d) = None
      then map dr_event_row_id (tx_deliveries t) @ [dr_event_row_id d]
      else map dr_event_row_id (tx_deliveries t))"
  by (simp add: tx_put_def)

lemma find_view_put:
  "find_delivery (tx_view (tx_put d t)) r
     = (if r = dr_event_row_id d then Some d else find_delivery (tx_view t) r)"
  by (auto simp: find_view row_in_put split: option.split)

text \<open>On the view a write is an update of its row, or an insert of a new one.\<close>

lemma view_put_update:
  assumes "find_delivery (tx_view t) (dr_event_row_id d) \<noteq> None"
  shows "tx_view (tx_put d t) = (tx_view t)\<lparr>db_deliveries :=
    update_rows (\<lambda>e. dr_event_row_id e = dr_event_row_id d) (\<lambda>_. d) (db_deliveries (tx_view t))\<rparr>"
proof -
  let ?ws = "tx_deliveries t" and ?cs = "db_deliveries (tx_db t)"
  let ?rep = "\<lambda>e. if dr_event_row_id e = dr_event_row_id d then d else e"
  let ?fresh = "\<lambda>e. row_in ?cs (dr_event_row_id e) = None"
  have over: "(case row_in (tx_deliveries (tx_put d t)) (dr_event_row_id e) of None \<Rightarrow> e | Some e \<Rightarrow> e)
      = ?rep (case row_in ?ws (dr_event_row_id e) of None \<Rightarrow> e | Some e \<Rightarrow> e)" for e
    by (auto simp: row_in_put dest: row_in_Some split: option.splits)
  have "filter ?fresh (tx_deliveries (tx_put d t)) = map ?rep (filter ?fresh ?ws)"
  proof (cases "row_in ?ws (dr_event_row_id d)")
    case None
    then have "row_in ?cs (dr_event_row_id d) \<noteq> None"
      using assms by (auto simp: find_view find_delivery_row_in [of "tx_db t"])
    moreover have "map ?rep (filter ?fresh ?ws) = filter ?fresh ?ws"
      using None unfolding row_in_absent by (intro map_idI) auto
    ultimately show ?thesis using None by (simp add: tx_put_def)
  next
    case (Some e)
    have "filter ?fresh (map ?rep xs) = map ?rep (filter ?fresh xs)" for xs
      by (induction xs) auto
    then show ?thesis using Some by (simp add: tx_put_def)
  qed
  then show ?thesis by (simp add: tx_view_def over update_rows_def)
qed

lemma view_put_insert:
  assumes "find_delivery (tx_view t) (dr_event_row_id d) = None"
  shows "tx_view (tx_put d t) = (tx_view t)\<lparr>db_deliveries := db_deliveries (tx_view t) @ [d]\<rparr>"
proof -
  let ?ws = "tx_deliveries t" and ?cs = "db_deliveries (tx_db t)"
  have none: "row_in ?ws (dr_event_row_id d) = None" "row_in ?cs (dr_event_row_id d) = None"
    using assms by (auto simp: find_view find_delivery_row_in [of "tx_db t"] split: option.splits)
  have "(case row_in (tx_deliveries (tx_put d t)) (dr_event_row_id e) of None \<Rightarrow> e | Some e \<Rightarrow> e)
      = (case row_in ?ws (dr_event_row_id e) of None \<Rightarrow> e | Some e \<Rightarrow> e)" if "e \<in> set ?cs" for e
    using that none(2) by (auto simp: row_in_put row_in_absent)
  then show ?thesis using none by (simp add: tx_view_def tx_put_def cong: map_cong)
qed

lemma view_insert_event:
  "tx_view (tx_insert_event e t) = (tx_view t)\<lparr>db_events := db_events (tx_view t) @ [e],
     db_last_row_id := max (db_last_row_id (tx_view t)) (er_row_id e)\<rparr>"
  by (simp add: tx_view_def)

lemma tx_ok_lock: "tx_ok t \<Longrightarrow> tx_ok (tx_lock rs t)"
  by (auto simp: tx_ok_def)

lemma tx_ok_put:
  assumes "tx_ok t" "db_ok (tx_view (tx_put d t))"
  shows "tx_ok (tx_put d t)"
proof -
  have "distinct (map dr_event_row_id (tx_deliveries (tx_put d t)))"
    using assms(1) by (simp add: put_keys tx_ok_def row_in_None)
  moreover have "dr_event_row_id ` set (tx_deliveries (tx_put d t)) \<subseteq> insert (dr_event_row_id d) (set (tx_locked t))"
    using assms(1) arg_cong [OF put_keys [of d t], of set] by (auto simp: tx_ok_def split: if_splits)
  ultimately show ?thesis using assms by (simp add: tx_ok_def)
qed

section \<open>Statements of a transaction\<close>

definition tx_update ::
  "('t delivery_row \<Rightarrow> bool) \<Rightarrow> ('t delivery_row \<Rightarrow> 't delivery_row option) \<Rightarrow> 't txn
     \<Rightarrow> (violation + 't delivery_row list) \<times> 't txn" where
  "tx_update p f t =
     (case table_update_deliveries p f (tx_view t) of
        Inl v \<Rightarrow> (Inl v, t)
      | Inr (rows, _) \<Rightarrow> (Inr rows, foldl (\<lambda>t d. tx_put d t) t rows))"

definition tx_add_event :: "'t event_row \<Rightarrow> 't txn \<Rightarrow> (violation + 't event_row option) \<times> 't txn" where
  "tx_add_event row t =
     (case table_insert_event row (tx_view t) of
        Inl v \<Rightarrow> (Inl v, t)
      | Inr (None, _) \<Rightarrow> (Inr None, t)
      | Inr (Some r, _) \<Rightarrow> (Inr (Some r), tx_insert_event r t))"

definition tx_add_delivery :: "'t delivery_row \<Rightarrow> 't txn \<Rightarrow> (violation + unit) \<times> 't txn" where
  "tx_add_delivery row t =
     (case table_insert_delivery row (tx_view t) of
        Inl v \<Rightarrow> (Inl v, t)
      | Inr _ \<Rightarrow> (Inr (), tx_put row t))"

text \<open>An UPDATE of one row by its key.\<close>

lemma tx_update_one:
  assumes "tx_ok t" and upd: "tx_update p f t = (Inr rows, t')" and hit: "rows \<noteq> []"
    and key: "\<forall>d e. f d = Some e \<longrightarrow> dr_event_row_id e = dr_event_row_id d \<and> dr_tenant_id e = dr_tenant_id d"
    and p: "\<forall>d. p d \<longrightarrow> dr_event_row_id d = n"
  shows "\<exists>d d'. find_delivery (tx_view t) n = Some d \<and> p d \<and> f d = Some d' \<and> rows = [d']
      \<and> t' = tx_put d' t \<and> dr_event_row_id d' = n"
    and "tx_ok t'"
proof -
  have ok: "db_ok (tx_view t)" using assms(1) by (simp add: tx_ok_def)
  obtain v where tab: "table_update_deliveries p f (tx_view t) = Inr (rows, v)"
    and t': "t' = foldl (\<lambda>t d. tx_put d t) t rows"
    using upd by (auto simp: tx_update_def split: sum.splits)
  note one = table_update_one [OF ok tab key p hit]
  from one(4) obtain d d' where d: "find_delivery (tx_view t) n = Some d" "p d" "f d = Some d'"
    "delivery_check d'" "rows = [d']" by blast
  have id: "dr_event_row_id d' = n" "dr_tenant_id d' = dr_tenant_id d" using key p d(2,3) by auto
  then show "\<exists>d d'. find_delivery (tx_view t) n = Some d \<and> p d \<and> f d = Some d' \<and> rows = [d']
      \<and> t' = tx_put d' t \<and> dr_event_row_id d' = n"
    using d t' by auto
  have view: "tx_view (tx_put d' t) = (tx_view t)\<lparr>db_deliveries :=
      update_rows (\<lambda>e. dr_event_row_id e = n) (\<lambda>_. d') (db_deliveries (tx_view t))\<rparr>"
    using view_put_update [of t d'] d(1) id(1) by simp
  have "update_rows (\<lambda>e. dr_event_row_id e = n) (\<lambda>_. d') (db_deliveries (tx_view t))
      = update_rows p (\<lambda>e. the (f e)) (db_deliveries (tx_view t))"
  proof (unfold update_rows_def, rule map_cong [OF refl])
    fix e assume e: "e \<in> set (db_deliveries (tx_view t))"
    show "(if dr_event_row_id e = n then d' else e) = (if p e then the (f e) else e)"
    proof (cases "dr_event_row_id e = n")
      case True
      then have "e = d" using d(1) e find_delivery_ok [OF ok, of n] by (metis option.inject)
      then show ?thesis using True d by simp
    qed (use p in auto)
  qed
  then have "tx_view (tx_put d' t) = v" using view table_update_defined(1) [OF tab] by simp
  then show "tx_ok t'" using tx_ok_put [OF assms(1)] one(1) t' d(5) by simp
qed

lemma tx_add_event_cases:
  assumes "tx_ok t" and "tx_add_event row t = (res, t')"
  obtains (failed) v where "res = Inl v" "t' = t"
  | (duplicate) "res = Inr None" "t' = t" "event_identity row \<in> event_identity ` set (db_events (tx_view t))"
  | (inserted) "res = Inr (Some row)" "t' = tx_insert_event row t" "tx_ok t'"
      "event_identity row \<notin> event_identity ` set (db_events (tx_view t))"
      "er_row_id row \<notin> er_row_id ` set (db_events (tx_view t))" "event_check row"
proof (cases "table_insert_event row (tx_view t)")
  case (Inl v)
  then show thesis using assms(2) failed by (auto simp: tx_add_event_def)
next
  case (Inr r)
  obtain out v where r: "r = (out, v)" by (cases r)
  note tab = Inr [unfolded r]
  show thesis
  proof (cases out)
    case None
    then show thesis
      using assms(2) tab table_insert_event_None [of row "tx_view t" v] duplicate by (simp add: tx_add_event_def)
  next
    case (Some row')
    note some = table_insert_event_Some [OF tab [unfolded Some]]
    have "tx_view (tx_insert_event row t) = v" using some(2) by (simp add: view_insert_event)
    then have "db_ok (tx_view (tx_insert_event row t))"
      using table_insert_event_ok [OF _ tab] assms(1) by (simp add: tx_ok_def)
    then have "tx_ok (tx_insert_event row t)" using assms(1) by (simp add: tx_ok_def)
    then show thesis
      using assms(2) tab Some some inserted by (simp add: tx_add_event_def)
  qed
qed

lemma tx_add_delivery_cases:
  assumes "tx_ok t" and "tx_add_delivery row t = (res, t')"
  obtains (failed) v where "res = Inl v" "t' = t"
  | (inserted) "res = Inr ()" "t' = tx_put row t" "tx_ok t'" "delivery_check row"
      "find_delivery (tx_view t) (dr_event_row_id row) = None"
proof (cases "table_insert_delivery row (tx_view t)")
  case (Inl v)
  then show thesis using assms(2) failed by (auto simp: tx_add_delivery_def)
next
  case (Inr v)
  note row = table_insert_delivery_Inr [OF Inr]
  have none: "find_delivery (tx_view t) (dr_event_row_id row) = None"
    using row(3) by (simp add: find_delivery_row_in row_in_None)
  have "db_ok (tx_view t)" using assms(1) by (simp add: tx_ok_def)
  then have "db_ok v" using table_insert_delivery_ok(1) [OF _ Inr] by blast
  then have "tx_ok (tx_put row t)"
    using tx_ok_put [OF assms(1)] view_put_insert [OF none] row(1) by simp
  then show thesis using assms(2) Inr row none inserted by (simp add: tx_add_delivery_def)
qed

section \<open>Actions\<close>

text \<open>
  An action of a transaction returns a result and the transaction after it; an error ends the
  rest of a sequence.
\<close>

type_synonym ('t, 'e, 'a) action_of = "'t txn \<Rightarrow> ('e + 'a) \<times> 't txn"

definition tx_return :: "'e + 'a \<Rightarrow> ('t, 'e, 'a) action_of" where
  "tx_return r t = (r, t)"

definition tx_then ::
  "('t, 'e, 'a) action_of \<Rightarrow> ('a \<Rightarrow> ('t, 'e, 'b) action_of) \<Rightarrow> ('t, 'e, 'b) action_of" where
  "tx_then m k t = (case m t of (Inl e, t') \<Rightarrow> (Inl e, t') | (Inr a, t') \<Rightarrow> k a t')"

definition tx_map_err :: "('e \<Rightarrow> 'f) \<Rightarrow> ('t, 'e, 'a) action_of \<Rightarrow> ('t, 'f, 'a) action_of" where
  "tx_map_err f m t = (case m t of (r, t') \<Rightarrow> (map_err f r, t'))"

lemma tx_then_Inr_iff:
  "tx_then m k t = (Inr b, t') \<longleftrightarrow> (\<exists>a t1. m t = (Inr a, t1) \<and> k a t1 = (Inr b, t'))"
  by (auto simp: tx_then_def split: prod.splits sum.splits)

lemma tx_map_err_Inr_iff: "tx_map_err f m t = (Inr a, t') \<longleftrightarrow> m t = (Inr a, t')"
  by (auto simp: tx_map_err_def split: prod.splits)

lemma tx_return_iff [simp]: "tx_return r t = (r', t') \<longleftrightarrow> r = r' \<and> t' = t"
  by (auto simp: tx_return_def)

lemma tx_then_return: "tx_then (tx_return r) k t = (Inr b, t') \<longleftrightarrow> (\<exists>a. r = Inr a \<and> k a t = (Inr b, t'))"
  by (auto simp: tx_then_Inr_iff)

lemmas action_simps = tx_then_Inr_iff tx_map_err_Inr_iff tx_return_iff

text \<open>
  \<open>tx_extends t t'\<close>: the transaction went on from \<open>t\<close> to \<open>t'\<close>. It stays consistent, keeps its
  locks, and what is committed of the rows it has locked has not changed.
\<close>

definition tx_extends :: "'t txn \<Rightarrow> 't txn \<Rightarrow> bool" where
  "tx_extends t t' \<longleftrightarrow> (tx_ok t \<longrightarrow> tx_ok t')
     \<and> set (tx_locked t) \<subseteq> set (tx_locked t')
     \<and> set (db_events (tx_view t)) \<subseteq> set (db_events (tx_view t'))
     \<and> (\<forall>r \<in> set (tx_locked t). find_delivery (tx_db t') r = find_delivery (tx_db t) r)"

lemma tx_extends_refl [simp]: "tx_extends t t"
  by (simp add: tx_extends_def)

lemma tx_extends_trans: "tx_extends t u \<Longrightarrow> tx_extends u v \<Longrightarrow> tx_extends t v"
  by (simp add: tx_extends_def subset_iff)

lemma tx_extends_ok: "tx_extends t t' \<Longrightarrow> tx_ok t \<Longrightarrow> tx_ok t'"
  by (simp add: tx_extends_def)

lemma tx_extends_peer: "peers_ok peer \<Longrightarrow> tx_extends t (tx_peer peer t)"
  using tx_ok_peer peers_okD(2,3) [where peer = peer and t = t] by (auto simp: tx_extends_def view_events)

lemma tx_extends_lock: "tx_extends t (tx_lock rs t)"
  by (auto simp: tx_extends_def tx_ok_lock)

text \<open>A consistent transaction that goes on stays one.\<close>

definition tx_runs :: "('t, 'e, 'a) action_of \<Rightarrow> bool" where
  "tx_runs m \<longleftrightarrow> (\<forall>t. tx_ok t \<longrightarrow> tx_extends t (snd (m t)))"

lemma tx_runsD: "tx_runs m \<Longrightarrow> tx_ok t \<Longrightarrow> m t = (r, t') \<Longrightarrow> tx_extends t t'"
  by (auto simp: tx_runs_def dest!: spec [of _ t])

lemma tx_runsI: "(\<And>t r t'. tx_ok t \<Longrightarrow> m t = (r, t') \<Longrightarrow> tx_extends t t') \<Longrightarrow> tx_runs m"
  unfolding tx_runs_def by (metis prod.collapse)

lemma tx_runs_return [simp]: "tx_runs (tx_return r)"
  by (simp add: tx_runs_def tx_return_def)

lemma tx_runs_then:
  assumes "tx_runs m" "\<And>a. tx_runs (k a)"
  shows "tx_runs (tx_then m k)"
  unfolding tx_runs_def
proof (intro allI impI)
  fix t :: "'a txn"
  assume ok: "tx_ok t"
  obtain r t1 where m: "m t = (r, t1)" by (cases "m t")
  note ext = tx_runsD [OF assms(1) ok m]
  show "tx_extends t (snd (tx_then m k t))"
  proof (cases r)
    case (Inr a)
    have "tx_extends t1 (snd (k a t1))"
      using assms(2) tx_extends_ok [OF ext ok] by (simp add: tx_runs_def)
    then show ?thesis using m Inr ext tx_extends_trans by (auto simp: tx_then_def)
  qed (use m ext in \<open>simp add: tx_then_def\<close>)
qed

lemma tx_runs_map_err: "tx_runs m \<Longrightarrow> tx_runs (tx_map_err f m)"
  by (auto simp: tx_runs_def tx_map_err_def split: prod.splits)

lemma tx_runs_if: "tx_runs m \<Longrightarrow> tx_runs m' \<Longrightarrow> tx_runs (if c then m else m')"
  by simp

lemma tx_runs_add_event: "tx_runs (tx_add_event row)"
proof -
  have "tx_extends t t'" if "tx_ok t" "tx_add_event row t = (r, t')" for t t' r
    using that
    by (cases rule: tx_add_event_cases) (auto simp: tx_extends_def view_insert_event)
  then show ?thesis by (rule tx_runsI)
qed

lemma tx_runs_add_delivery: "tx_runs (tx_add_delivery row)"
proof -
  have "tx_extends t t'" if "tx_ok t" "tx_add_delivery row t = (r, t')" for t t' r
    using that
    by (cases rule: tx_add_delivery_cases) (auto simp: tx_extends_def view_events)
  then show ?thesis by (rule tx_runsI)
qed

lemma tx_runs_update:
  assumes key: "\<forall>d e. f d = Some e \<longrightarrow> dr_event_row_id e = dr_event_row_id d \<and> dr_tenant_id e = dr_tenant_id d"
    and p: "\<forall>d. p d \<longrightarrow> dr_event_row_id d = n"
  shows "tx_runs (tx_update p f)"
proof -
  have "tx_extends t t'" if ok: "tx_ok t" and upd: "tx_update p f t = (r, t')" for t t' r
  proof (cases "\<exists>rows. r = Inr rows \<and> rows \<noteq> []")
    case True
    then obtain rows where r: "r = Inr rows" "rows \<noteq> []" by blast
    note one = tx_update_one [where p = p and f = f and n = n, OF ok upd [unfolded r(1)] r(2) key p]
    obtain d' where t': "t' = tx_put d' t" using one(1) by (elim exE conjE)
    show ?thesis unfolding tx_extends_def using one(2) by (simp add: t' view_events subset_insertI)
  next
    case False
    then have "(\<exists>v. r = Inl v) \<or> r = Inr []" by (cases r) auto
    then have "t' = t" using upd by (fastforce simp: tx_update_def split: sum.splits prod.splits)
    then show ?thesis by simp
  qed
  then show ?thesis by (rule tx_runsI)
qed

text \<open>The UPDATE of a finalisation.\<close>

lemma tx_runs_finalize_update: "tx_runs (tx_update (finalize_where tenant rid q) (finalize_set x))"
  by (rule tx_runs_update [where n = rid]) (auto simp: finalize_where_def finalize_set_def)

lemma tx_update_finalize:
  assumes "tx_ok s" "tx_update (finalize_where tenant rid q) (finalize_set x) s = (Inr rows, t')" "rows \<noteq> []"
  obtains d where "find_delivery (tx_view s) rid = Some d" "dr_tenant_id d = tenant" "canonical_pending d q"
    "t' = tx_put (d\<lparr>dr_state := ''delivered'', dr_delivered_at := Some x\<rparr>) s"
proof -
  have keys: "\<forall>d e. finalize_set x d = Some e \<longrightarrow> dr_event_row_id e = dr_event_row_id d \<and> dr_tenant_id e = dr_tenant_id d"
    "\<forall>d. finalize_where tenant rid q d \<longrightarrow> dr_event_row_id d = rid"
    by (auto simp: finalize_set_def finalize_where_def)
  show thesis
    using tx_update_one(1) [OF assms keys] that by (auto simp: finalize_set_def finalize_where_iff)
qed

section \<open>Server statements\<close>

text \<open>
  A statement runs after what the others committed before it; \<open>fault\<close> is the error it ends with
  when the connection or the server fails it.
\<close>

definition tx_statement ::
  "('t txn \<Rightarrow> 't db) \<Rightarrow> 'e option \<Rightarrow> ('t, 'e, 'a) action_of \<Rightarrow> ('t, 'e, 'a) action_of" where
  "tx_statement peer fault body t =
     (let t = tx_peer peer t in case fault of Some e \<Rightarrow> (Inl e, t) | None \<Rightarrow> body t)"

lemma tx_statement_Inr:
  "tx_statement peer fault body t = (Inr a, t') \<longleftrightarrow> fault = None \<and> body (tx_peer peer t) = (Inr a, t')"
  by (auto simp: tx_statement_def Let_def split: option.splits)

lemma tx_runs_tx_statement:
  assumes "peers_ok peer" "tx_runs body"
  shows "tx_runs (tx_statement peer fault body)"
proof (rule tx_runsI)
  fix t r t'
  assume ok: "tx_ok t" and run: "tx_statement peer fault body t = (r, t')"
  have ext: "tx_extends t (tx_peer peer t)" by (rule tx_extends_peer [OF assms(1)])
  show "tx_extends t t'"
  proof (cases fault)
    case None
    then have "tx_extends (tx_peer peer t) t'"
      using run tx_runsD [OF assms(2) tx_extends_ok [OF ext ok]] by (simp add: tx_statement_def Let_def)
    then show ?thesis using ext tx_extends_trans by blast
  qed (use run ext in \<open>simp add: tx_statement_def Let_def\<close>)
qed

text \<open>The first repeatable read takes the snapshot.\<close>

definition tx_read_seen :: "('t db \<Rightarrow> 'a) \<Rightarrow> ('t, 'e, 'a) action_of" where
  "tx_read_seen f t = (Inr (f (tx_seen (tx_open t))), tx_open t)"

lemma tx_open_sel [simp]:
  "tx_db (tx_open t) = tx_db t" "tx_events (tx_open t) = tx_events t"
  "tx_deliveries (tx_open t) = tx_deliveries t" "tx_locked (tx_open t) = tx_locked t"
  "tx_view (tx_open t) = tx_view t" "tx_snapshot (tx_open t) \<noteq> None"
  "tx_snapshot t = Some s \<Longrightarrow> tx_open t = t"
  by (simp_all add: tx_open_def tx_view_def split: option.split)

lemma snapshot_ok_open: "tx_ok t \<Longrightarrow> snapshot_ok (tx_snapshot (tx_open t)) (tx_db t)"
  by (auto simp: tx_open_def tx_ok_def snapshot_ok_def split: option.split)

lemma tx_extends_open: "tx_extends t (tx_open t)"
  using snapshot_ok_open [of t] by (auto simp: tx_extends_def tx_ok_def)

text \<open>What plain reads see: events that are committed or the transaction's own.\<close>

lemma seen_events:
  "db_events (tx_seen t) = (case tx_snapshot t of None \<Rightarrow> db_events (tx_db t) | Some s \<Rightarrow> db_events s) @ tx_events t"
  by (simp add: tx_seen_def tx_view_def split: option.split)

lemma seen_events_view: "tx_ok t \<Longrightarrow> set (db_events (tx_seen t)) \<subseteq> set (db_events (tx_view t))"
  by (auto simp: seen_events view_events tx_ok_def snapshot_ok_def split: option.splits)

lemma find_seen_own: "row_in (tx_deliveries t) r = Some d \<Longrightarrow> find_delivery (tx_seen t) r = Some d"
  by (simp add: tx_seen_def find_view split: option.split)

lemma tx_runs_read_seen: "tx_runs (tx_read_seen f)"
  by (simp add: tx_runs_def tx_read_seen_def tx_extends_open)

section \<open>Own writes\<close>

text \<open>
  Reads leave what the transaction has written; \<open>own_writes\<close> is what they leave.
\<close>

definition own_writes :: "'t txn \<Rightarrow> 't event_row list \<times> 't delivery_row list" where
  "own_writes t = (tx_events t, tx_deliveries t)"

definition reads_only :: "('t, 'e, 'a) action_of \<Rightarrow> bool" where
  "reads_only m \<longleftrightarrow> (\<forall>t. own_writes (snd (m t)) = own_writes t)"

lemma own_writes_peer [simp]: "own_writes (tx_peer peer t) = own_writes t"
  by (simp add: own_writes_def)

lemma reads_onlyD: "reads_only m \<Longrightarrow> m t = (r, t') \<Longrightarrow> own_writes t' = own_writes t"
  by (auto simp: reads_only_def dest!: spec [of _ t])

lemma reads_only_return [simp]: "reads_only (tx_return r)"
  by (simp add: reads_only_def tx_return_def)

lemma reads_only_map_err: "reads_only m \<Longrightarrow> reads_only (tx_map_err f m)"
  by (simp add: reads_only_def tx_map_err_def split_beta)

lemma reads_only_then: "reads_only m \<Longrightarrow> (\<And>a. reads_only (k a)) \<Longrightarrow> reads_only (tx_then m k)"
  unfolding reads_only_def tx_then_def
  by (auto split: prod.splits sum.splits) (metis snd_conv)+

lemma reads_only_tx_statement: "reads_only body \<Longrightarrow> reads_only (tx_statement peer fault body)"
  by (simp add: reads_only_def tx_statement_def Let_def split: option.splits)

lemma reads_only_read_seen: "reads_only (tx_read_seen f)"
  by (simp add: reads_only_def tx_read_seen_def own_writes_def)

lemma reads_only_if: "reads_only m \<Longrightarrow> reads_only m' \<Longrightarrow> reads_only (if c then m else m')"
  by simp

text \<open>A transaction without writes sees what is committed.\<close>

lemma view_no_writes:
  assumes "own_writes t = ([], [])"
  shows "tx_view t = tx_db t"
  using assms by (cases "tx_db t") (simp add: own_writes_def tx_view_def row_in_def)

section \<open>Commit\<close>

text \<open>
  A commit either succeeds, fails and rolls back, or fails to report: the error reaches the
  client although the server has committed.
\<close>

datatype 'e commit_outcome = Committed | CommitFailed 'e | CommitUnreported 'e

definition tx_finish :: "'e commit_outcome \<Rightarrow> 't txn \<Rightarrow> ('e + unit) \<times> 't db" where
  "tx_finish outcome t =
     (case outcome of
        Committed \<Rightarrow> (Inr (), tx_view t)
      | CommitFailed e \<Rightarrow> (Inl e, tx_db t)
      | CommitUnreported e \<Rightarrow> (Inl e, tx_view t))"

end
