(* ===== verification/Postgres_Base.thy ===== *)
theory Postgres_Base
  imports Adapter_Transaction Adapter_Page Adapter_Migration
begin

text \<open>
  \<open>crates/dovecote-sqlx-postgres/src/error.rs\<close>, \<open>hydrate.rs\<close>, \<open>rls.rs\<close>, the marker check of
  \<open>migration.rs\<close>, and the statements the adapter runs. Stored instants are microseconds of the
  Unix epoch.

  SQLx and PostgreSQL are outside the repository. What they may answer is the record \<open>pg_env\<close>,
  one value per call of an operation. Statements are numbered in the order the operation may
  issue them. \<open>pg_peer env n\<close> is what other sessions commit before statement \<open>n\<close> (the isolation
  level is READ COMMITTED, so every statement sees it), \<open>pg_clock env n\<close> what
  \<open>clock_timestamp()\<close> reads in it, \<open>pg_txn_time\<close> is \<open>CURRENT_TIMESTAMP\<close>, \<open>pg_locked\<close> are the
  deliveries other sessions hold locked when candidates are selected. An UPDATE that had to wait
  for a row lock evaluates its condition on the row as it was before the wait; \<open>pg_stale env n\<close>
  says that it therefore missed its row. \<open>pg_row_id\<close> is the identifier the identity column hands
  out, \<open>pg_interval\<close> SQLx's encoding of a span in microseconds, \<open>pg_plus\<close> the database's sum
  (\<open>None\<close> is out of range), \<open>pg_encode\<close> and \<open>pg_decode\<close> SQLx's conversion of instants.
\<close>

type_synonym pg_db = "int db"
type_synonym pg_txn = "int txn"
type_synonym ('e, 'a) pg_action = "(int, 'e, 'a) action_of"

section \<open>Errors\<close>

datatype TransientKind = SerializationFailure | DeadlockDetected | StatementOrLockTimeout

fun transient_kind_to_string :: "TransientKind \<Rightarrow> string" where
  "transient_kind_to_string SerializationFailure = ''serialization failure''"
| "transient_kind_to_string DeadlockDetected = ''deadlock detected''"
| "transient_kind_to_string StatementOrLockTimeout = ''statement or lock timeout''"

definition from_sqlstate :: "string \<Rightarrow> TransientKind option" where
  "from_sqlstate code =
     (if code = ''40001'' then Some SerializationFailure
      else if code = ''40P01'' then Some DeadlockDetected
      else if code = ''57014'' \<or> code = ''55P03'' then Some StatementOrLockTimeout
      else None)"

definition from_sqlx :: "sqlx_error \<Rightarrow> TransientKind option" where
  "from_sqlx source =
     (case source of SqlxDatabase (Some code) \<Rightarrow> from_sqlstate code | _ \<Rightarrow> None)"

text \<open>
  One datatype per error enum. The constructor that ends in \<open>Panic\<close> is not a variant: it stands
  for a panic of the operation, which drops and so rolls back the transaction it owns.
\<close>

datatype PgEnqueueError =
    PEnqIdempotencyConflict RowId
  | PEnqMigrationMismatch string
  | PEnqSerialization string
  | PEnqSql string sqlx_error
  | PEnqTransient string TransientKind sqlx_error
  | PEnqPanic

datatype PgImportError =
    PImpIdentityConflict RowId
  | PImpImportConflict RowId
  | PImpInvalidState ValidationError
  | PImpMigrationMismatch string
  | PImpSerialization string
  | PImpSql string sqlx_error
  | PImpTransient string TransientKind sqlx_error
  | PImpPanic

datatype PgFinalizeError =
    PFinNotFound
  | PFinStateConflict RowId
  | PFinInvalidTimestamp ValidationError
  | PFinMigrationMismatch string
  | PFinSerialization string
  | PFinSql string sqlx_error
  | PFinTransient string TransientKind sqlx_error

datatype PgClaimError =
    PClmCounterOverflow RowId
  | PClmEntropyUnavailable nat
  | PClmSerialization string
  | PClmMigrationMismatch string
  | PClmSql string sqlx_error
  | PClmTransient string TransientKind sqlx_error
  | PClmPanic

datatype PgMutationError =
    PMutNotFound
  | PMutIllegalTransition DeliveryState
  | PMutLostClaim
  | PMutMigrationMismatch string
  | PMutSerialization string
  | PMutSql string sqlx_error
  | PMutTransient string TransientKind sqlx_error

datatype PgPageError =
    PPagSerialization string
  | PPagSql string sqlx_error
  | PPagTransient string TransientKind sqlx_error
  | PPagPanic

datatype PgSchemaError =
    PSchMigrationMismatch string
  | PSchSql string sqlx_error
  | PSchTransient string TransientKind sqlx_error

definition pg_enqueue_error_sql :: "string \<Rightarrow> sqlx_error \<Rightarrow> PgEnqueueError" where
  "pg_enqueue_error_sql operation source =
     (case from_sqlx source of
        Some kind \<Rightarrow> PEnqTransient operation kind source | None \<Rightarrow> PEnqSql operation source)"

definition pg_import_error_sql :: "string \<Rightarrow> sqlx_error \<Rightarrow> PgImportError" where
  "pg_import_error_sql operation source =
     (case from_sqlx source of
        Some kind \<Rightarrow> PImpTransient operation kind source | None \<Rightarrow> PImpSql operation source)"

definition pg_finalize_error_sql :: "string \<Rightarrow> sqlx_error \<Rightarrow> PgFinalizeError" where
  "pg_finalize_error_sql operation source =
     (case from_sqlx source of
        Some kind \<Rightarrow> PFinTransient operation kind source | None \<Rightarrow> PFinSql operation source)"

definition pg_claim_error_sql :: "string \<Rightarrow> sqlx_error \<Rightarrow> PgClaimError" where
  "pg_claim_error_sql operation source =
     (case from_sqlx source of
        Some kind \<Rightarrow> PClmTransient operation kind source | None \<Rightarrow> PClmSql operation source)"

definition pg_mutation_error_sql :: "string \<Rightarrow> sqlx_error \<Rightarrow> PgMutationError" where
  "pg_mutation_error_sql operation source =
     (case from_sqlx source of
        Some kind \<Rightarrow> PMutTransient operation kind source | None \<Rightarrow> PMutSql operation source)"

definition pg_page_error_sql :: "string \<Rightarrow> sqlx_error \<Rightarrow> PgPageError" where
  "pg_page_error_sql operation source =
     (case from_sqlx source of
        Some kind \<Rightarrow> PPagTransient operation kind source | None \<Rightarrow> PPagSql operation source)"

definition pg_schema_error_sql :: "string \<Rightarrow> sqlx_error \<Rightarrow> PgSchemaError" where
  "pg_schema_error_sql operation source =
     (case from_sqlx source of
        Some kind \<Rightarrow> PSchTransient operation kind source | None \<Rightarrow> PSchSql operation source)"

section \<open>Schema marker\<close>

record PgSchemaMarker =
  pgm_schema_version :: int
  pgm_minimum_crate_major :: int
  pgm_minimum_crate_minor :: int
  pgm_minimum_crate_patch :: int
  pgm_rolling_compatible :: bool

definition marker_compatibility :: "PgSchemaMarker \<Rightarrow> string + MigrationCompatibility" where
  "marker_compatibility marker =
     (if pgm_minimum_crate_major marker < 0
        then Inl ''schema marker minimum major version is negative''
      else if pgm_minimum_crate_minor marker < 0
        then Inl ''schema marker minimum minor version is negative''
      else if pgm_minimum_crate_patch marker < 0
        then Inl ''schema marker minimum patch version is negative''
      else map_err (\<lambda>_. ''schema marker compatibility is invalid: ''
             @ ''migration compatibility maximum precedes minimum'')
        (compatibility_try_new (crate_version_new (nat (pgm_minimum_crate_major marker))
          (nat (pgm_minimum_crate_minor marker)) (nat (pgm_minimum_crate_patch marker))) None))"

definition marker_matches_migration ::
  "CrateVersion \<Rightarrow> PgSchemaMarker \<Rightarrow> Migration \<Rightarrow> string + unit" where
  "marker_matches_migration version marker migration =
     (if pgm_schema_version marker < 0 then Inl ''schema marker version is negative''
      else let marker_version = nat (pgm_schema_version marker) in
      and_then (marker_compatibility marker) (\<lambda>compatibility.
      if marker_version \<noteq> mig_version migration
        then Inl (''schema marker version '' @ nat_to_string marker_version
               @ '' does not match installed version '' @ nat_to_string (mig_version migration))
      else if compatibility \<noteq> mig_compatibility migration
        then Inl ''schema marker compatibility range is incompatible''
      else if pgm_rolling_compatible marker \<noteq> mig_rolling_compatible migration
        then Inl ''schema marker rolling compatibility is incompatible''
      else if \<not> compatibility_contains (mig_compatibility migration) version
        then Inl ''current crate is outside the migration compatibility range''
      else Inr ()))"

section \<open>What the server may answer\<close>

record EnqueueSchemaSelection =
  sel_schema_name :: string
  sel_marker_table :: bool
  sel_events_table :: bool
  sel_deliveries_table :: bool

record pg_env =
  pg_fault :: "string \<Rightarrow> nat \<Rightarrow> sqlx_error option"
  pg_peer :: "nat \<Rightarrow> pg_txn \<Rightarrow> pg_db"
  pg_clock :: "nat \<Rightarrow> int"
  pg_txn_time :: int
  pg_locked :: "int \<Rightarrow> bool"
  pg_stale :: "nat \<Rightarrow> bool"
  pg_row_id :: int
  pg_interval :: "duration \<Rightarrow> sqlx_error + int"
  pg_plus :: "int \<Rightarrow> int \<Rightarrow> int option"
  pg_encode :: "offset_date_time \<Rightarrow> int"
  pg_decode :: "int \<Rightarrow> offset_date_time"
  pg_commit :: "sqlx_error commit_outcome"
  pg_selection :: "EnqueueSchemaSelection option"
  pg_markers :: "PgSchemaMarker list"

text \<open>The migrations the crate ships and its version.\<close>

record pg_build =
  pb_migrations :: "Migration list"
  pb_version :: CrateVersion

definition pg_peers_ok :: "pg_env \<Rightarrow> bool" where
  "pg_peers_ok env \<longleftrightarrow> (\<forall>n. peers_ok (pg_peer env n))"

text \<open>The SQLSTATEs of the constraint violations.\<close>

fun pg_violation :: "violation \<Rightarrow> sqlx_error" where
  "pg_violation NotNullViolation = SqlxDatabase (Some ''23502'')"
| "pg_violation CheckViolation = SqlxDatabase (Some ''23514'')"
| "pg_violation UniqueViolation = SqlxDatabase (Some ''23505'')"
| "pg_violation ForeignKeyViolation = SqlxDatabase (Some ''23503'')"

section \<open>Statements\<close>

definition pg_statement ::
  "pg_env \<Rightarrow> string \<Rightarrow> nat \<Rightarrow> (sqlx_error, 'a) pg_action \<Rightarrow> (sqlx_error, 'a) pg_action" where
  "pg_statement env label n body = tx_statement (pg_peer env n) (pg_fault env label n) body"

text \<open>A statement that reads the view.\<close>

definition pg_query ::
  "pg_env \<Rightarrow> string \<Rightarrow> nat \<Rightarrow> (pg_db \<Rightarrow> 'a) \<Rightarrow> (sqlx_error, 'a) pg_action" where
  "pg_query env label n f = pg_statement env label n (\<lambda>t. (Inr (f (tx_view t)), t))"

definition pg_insert_event ::
  "pg_env \<Rightarrow> string \<Rightarrow> nat \<Rightarrow> int event_row \<Rightarrow> (sqlx_error, int event_row option) pg_action" where
  "pg_insert_event env label n row =
     pg_statement env label n (tx_map_err pg_violation (tx_add_event row))"

definition pg_insert_delivery ::
  "pg_env \<Rightarrow> string \<Rightarrow> nat \<Rightarrow> int delivery_row \<Rightarrow> (sqlx_error, unit) pg_action" where
  "pg_insert_delivery env label n row =
     pg_statement env label n (tx_map_err pg_violation (tx_add_delivery row))"

text \<open>
  An UPDATE of deliveries. \<open>overflow\<close> says that a sum in its SET clause is out of range, which
  the server reports when a row needs it.
\<close>

definition pg_update ::
  "bool \<Rightarrow> (int delivery_row \<Rightarrow> bool) \<Rightarrow> (int delivery_row \<Rightarrow> int delivery_row option)
     \<Rightarrow> (sqlx_error, int delivery_row list) pg_action" where
  "pg_update overflow p f t =
     (if overflow \<and> list_ex p (db_deliveries (tx_view t)) then (Inl (SqlxDatabase (Some ''22008'')), t)
      else tx_map_err pg_violation (tx_update p f) t)"

text \<open>The transaction-local setting of the row-level-security profile.\<close>

definition bind_tenant :: "pg_env \<Rightarrow> string \<Rightarrow> nat \<Rightarrow> TenantId \<Rightarrow> (sqlx_error, unit) pg_action" where
  "bind_tenant env label n tenant_id = pg_query env label n (\<lambda>_. ())"

definition pg_finish :: "pg_env \<Rightarrow> pg_txn \<Rightarrow> (sqlx_error + unit) \<times> pg_db" where
  "pg_finish env t = tx_finish (pg_commit env) t"

section \<open>Hydration\<close>

definition pg_hydrate_event :: "ext_lib \<Rightarrow> pg_env \<Rightarrow> int event_row \<Rightarrow> hydrate_error + StoredEvent" where
  "pg_hydrate_event lib env row = hydrate_event_with (\<lambda>t. Inr (pg_decode env t)) lib row"

text \<open>The columns bound for an event, and the delivery inserted with it.\<close>

definition pg_event_columns ::
  "ext_lib \<Rightarrow> pg_env \<Rightarrow> TenantId \<Rightarrow> NewEvent \<Rightarrow> int \<Rightarrow> int event_row" where
  "pg_event_columns lib env tenant event enqueued_at =
     event_columns_with (pg_encode env) lib (tenant_id_str tenant) (new_content event)
       (pg_row_id env) enqueued_at"

section \<open>Statements keep a transaction consistent\<close>

lemma pg_statement_Inr:
  "pg_statement env label n body t = (Inr a, t') \<longleftrightarrow>
     pg_fault env label n = None \<and> body (tx_peer (pg_peer env n) t) = (Inr a, t')"
  by (simp add: pg_statement_def tx_statement_Inr)

lemma pg_query_Inr:
  "pg_query env label n f t = (Inr a, t') \<longleftrightarrow>
     pg_fault env label n = None \<and> t' = tx_peer (pg_peer env n) t \<and> a = f (tx_view t')"
  by (auto simp: pg_query_def pg_statement_Inr)

lemma pg_extends_peer: "pg_peers_ok env \<Longrightarrow> tx_extends t (tx_peer (pg_peer env n) t)"
  by (simp add: pg_peers_ok_def tx_extends_peer)

lemma pg_ok_peer: "pg_peers_ok env \<Longrightarrow> tx_ok t \<Longrightarrow> tx_ok (tx_peer (pg_peer env n) t)"
  by (rule tx_extends_ok [OF pg_extends_peer])

lemma tx_runs_statement:
  assumes "pg_peers_ok env" "tx_runs body"
  shows "tx_runs (pg_statement env label n body)"
  using assms unfolding pg_statement_def by (simp add: pg_peers_ok_def tx_runs_tx_statement)

lemma tx_runs_query: "pg_peers_ok env \<Longrightarrow> tx_runs (pg_query env label n f)"
  unfolding pg_query_def by (rule tx_runs_statement) (simp_all add: tx_runs_def)

lemma tx_runs_bind_tenant: "pg_peers_ok env \<Longrightarrow> tx_runs (bind_tenant env label n t)"
  unfolding bind_tenant_def by (rule tx_runs_query)

lemma tx_runs_insert_event: "pg_peers_ok env \<Longrightarrow> tx_runs (pg_insert_event env label n row)"
  unfolding pg_insert_event_def
  by (intro tx_runs_statement tx_runs_map_err tx_runs_add_event)

lemma tx_runs_insert_delivery: "pg_peers_ok env \<Longrightarrow> tx_runs (pg_insert_delivery env label n row)"
  unfolding pg_insert_delivery_def
  by (intro tx_runs_statement tx_runs_map_err tx_runs_add_delivery)

lemma pg_update_Inr:
  "pg_update ovf p f t = (Inr rows, t') \<longleftrightarrow>
     \<not> (ovf \<and> list_ex p (db_deliveries (tx_view t))) \<and> tx_update p f t = (Inr rows, t')"
  by (simp add: pg_update_def tx_map_err_Inr_iff)

lemma tx_runs_pg_update:
  assumes "\<forall>d e. f d = Some e \<longrightarrow> dr_event_row_id e = dr_event_row_id d \<and> dr_tenant_id e = dr_tenant_id d"
    and "\<forall>d. p d \<longrightarrow> dr_event_row_id d = n"
  shows "tx_runs (pg_update ovf p f)"
proof (rule tx_runsI)
  fix t r t'
  assume "tx_ok t" "pg_update ovf p f t = (r, t')"
  then show "tx_extends t t'"
    using tx_runsD [OF tx_runs_map_err [OF tx_runs_update [OF assms], of pg_violation]]
    by (auto simp: pg_update_def split: if_splits)
qed

lemmas pg_runs = tx_runs_then tx_runs_map_err tx_runs_return tx_runs_query tx_runs_bind_tenant
  tx_runs_insert_event tx_runs_insert_delivery

lemma reads_only_query [simp]: "reads_only (pg_query env label n f)"
  unfolding pg_query_def pg_statement_def by (rule reads_only_tx_statement) (simp add: reads_only_def)

lemmas reads_only_intros = reads_only_then reads_only_map_err reads_only_return reads_only_query
  reads_only_if

end
