(* ===== verification/Postgres_Enqueue.thy ===== *)
theory Postgres_Enqueue
  imports Postgres_Base
begin

text \<open>
  \<open>crates/dovecote-sqlx-postgres/src/enqueue.rs\<close>: the insert of an event and its delivery in a
  transaction of the caller, whose statements interleave with the commits of other sessions.
  Statement 0 is the tenant binding of the scoped handle; the operation's own start at 1.
\<close>

section \<open>Schema of the caller's transaction\<close>

text \<open>\<open>ORDER BY schema_version DESC LIMIT 1\<close>.\<close>

fun latest_marker :: "PgSchemaMarker list \<Rightarrow> PgSchemaMarker option" where
  "latest_marker [] = None"
| "latest_marker (m # ms) =
     (case latest_marker ms of
        None \<Rightarrow> Some m
      | Some m' \<Rightarrow> if pgm_schema_version m < pgm_schema_version m' then Some m' else Some m)"

definition pg_validate_enqueue_schema :: "pg_build \<Rightarrow> pg_env \<Rightarrow> (PgEnqueueError, unit) pg_action" where
  "pg_validate_enqueue_schema bld env =
     tx_then (tx_map_err (pg_enqueue_error_sql ''validate enqueue schema selection'')
       (pg_query env ''validate enqueue schema selection'' 1 (\<lambda>_. pg_selection env))) (\<lambda>found.
     tx_then (tx_return (ok_or (PEnqMigrationMismatch ''the caller transaction has no current schema'') found))
       (\<lambda>selection.
     if \<not> sel_marker_table selection \<or> \<not> sel_events_table selection \<or> \<not> sel_deliveries_table selection
       then tx_return (Inl (PEnqMigrationMismatch (''current schema '' @ sel_schema_name selection
              @ '' does not contain the Dovecote tables'')))
     else
     tx_then (tx_map_err (pg_enqueue_error_sql ''check enqueue schema marker'')
       (pg_query env ''check enqueue schema marker'' 2 (\<lambda>_. latest_marker (pg_markers env)))) (\<lambda>found.
     tx_return
       (and_then (ok_or (PEnqMigrationMismatch ''schema marker is missing'') found) (\<lambda>marker.
        and_then (map_err PEnqMigrationMismatch (current_migration (pb_migrations bld))) (\<lambda>migration.
        map_err PEnqMigrationMismatch
          (marker_matches_migration (pb_version bld) marker migration)))))))"

section \<open>Stored events\<close>

text \<open>
  A stored row as SQLx returns it. \<open>OffsetDateTime\<close> values compare by instant, so the decoded
  columns hold instants.
\<close>

definition pg_instant :: "pg_env \<Rightarrow> int \<Rightarrow> int" where
  "pg_instant env v = unix_nanos (pg_decode env v)"

definition existing_event :: "pg_env \<Rightarrow> int event_row \<Rightarrow> int event_row" where
  "existing_event env r =
     r\<lparr>er_occurred_at := map_option (pg_instant env) (er_occurred_at r),
       er_enqueued_at := pg_instant env (er_enqueued_at r)\<rparr>"

definition pg_same_event :: "ext_lib \<Rightarrow> pg_env \<Rightarrow> NewEvent \<Rightarrow> int event_row \<Rightarrow> bool" where
  "pg_same_event lib env event existing \<longleftrightarrow>
     same_event_with unix_nanos lib event (existing_event env existing)"

definition pg_validate_existing_event ::
  "ext_lib \<Rightarrow> pg_env \<Rightarrow> int event_row \<Rightarrow> hydrate_error + unit" where
  "pg_validate_existing_event lib env existing =
     and_then (pg_hydrate_event lib env existing) (\<lambda>_. Inr ())"

definition pg_enqueue_hydrate_error :: "hydrate_error \<Rightarrow> PgEnqueueError" where
  "pg_enqueue_hydrate_error e = (case e of HErr d \<Rightarrow> PEnqSerialization d | HPanic \<Rightarrow> PEnqPanic)"

section \<open>The operation\<close>

definition pg_find_event :: "TenantId \<Rightarrow> NewEvent \<Rightarrow> pg_db \<Rightarrow> int event_row option" where
  "pg_find_event tenant event db =
     find_identity db (tenant_id_str tenant) (source_str (ec_source (new_content event)))
       (event_id_str (ec_id (new_content event)))"

definition pg_find_delivery :: "TenantId \<Rightarrow> int \<Rightarrow> pg_db \<Rightarrow> int delivery_row option" where
  "pg_find_delivery tenant rid db =
     find (\<lambda>d. dr_tenant_id d = tenant_id_str tenant \<and> dr_event_row_id d = rid) (db_deliveries db)"

definition pg_enqueue_duplicate ::
  "ext_lib \<Rightarrow> pg_env \<Rightarrow> TenantId \<Rightarrow> NewEvent \<Rightarrow> (PgEnqueueError, EnqueueOutcome) pg_action" where
  "pg_enqueue_duplicate lib env tenant event =
     tx_then (tx_map_err (pg_enqueue_error_sql ''find duplicate event'')
       (pg_query env ''find duplicate event'' 4 (pg_find_event tenant event))) (\<lambda>found.
     tx_then (tx_return (ok_or (pg_enqueue_error_sql ''resolve duplicate event''
         (SqlxProtocol ''expected a row after a successful identity lookup'')) found)) (\<lambda>existing.
     tx_then (tx_return (map_err (\<lambda>e. PEnqSerialization (verror_to_string e))
         (row_id_new (er_row_id existing)))) (\<lambda>existing_id.
     tx_then (tx_return (map_err pg_enqueue_hydrate_error
         (pg_validate_existing_event lib env existing))) (\<lambda>_.
     if \<not> pg_same_event lib env event existing
       then tx_return (Inl (PEnqIdempotencyConflict existing_id))
     else
     tx_then (tx_map_err (pg_enqueue_error_sql ''check duplicate delivery'')
       (pg_query env ''check duplicate delivery'' 5 (pg_find_delivery tenant (er_row_id existing))))
       (\<lambda>delivery_exists.
     tx_return (if delivery_exists = None
       then Inl (PEnqMigrationMismatch ''an existing event has no delivery row'')
       else Inr (AlreadyEnqueued existing_id)))))))"

definition pg_enqueue_for_scope ::
  "ext_lib \<Rightarrow> pg_build \<Rightarrow> pg_env \<Rightarrow> TenantId \<Rightarrow> NewEvent \<Rightarrow> (PgEnqueueError, EnqueueOutcome) pg_action" where
  "pg_enqueue_for_scope lib bld env tenant event =
     tx_then (pg_validate_enqueue_schema bld env) (\<lambda>_.
     tx_then (tx_map_err (pg_enqueue_error_sql ''insert event'')
       (pg_insert_event env ''insert event'' 3
         (pg_event_columns lib env tenant event (pg_txn_time env)))) (\<lambda>inserted.
     case inserted of
       None \<Rightarrow> pg_enqueue_duplicate lib env tenant event
     | Some row \<Rightarrow>
     tx_then (tx_return (map_err (\<lambda>e. PEnqSerialization (verror_to_string e))
         (row_id_new (er_row_id row)))) (\<lambda>row_id.
     tx_then (tx_map_err (pg_enqueue_error_sql ''insert delivery'')
       (pg_insert_delivery env ''insert delivery'' 6
         (enqueued_delivery (tenant_id_str tenant) (er_row_id row) (er_enqueued_at row)))) (\<lambda>_.
     tx_return (Inr (Enqueued row_id))))))"

section \<open>What an enqueue does\<close>

lemma reads_only_validate: "reads_only (pg_validate_enqueue_schema bld env)"
  unfolding pg_validate_enqueue_schema_def by (intro reads_only_intros)

lemma reads_only_duplicate: "reads_only (pg_enqueue_duplicate lib env tenant event)"
  unfolding pg_enqueue_duplicate_def by (intro reads_only_intros)

lemma tx_runs_validate: "pg_peers_ok env \<Longrightarrow> tx_runs (pg_validate_enqueue_schema bld env)"
  unfolding pg_validate_enqueue_schema_def by (intro pg_runs tx_runs_if)

lemma tx_runs_duplicate: "pg_peers_ok env \<Longrightarrow> tx_runs (pg_enqueue_duplicate lib env tenant event)"
  unfolding pg_enqueue_duplicate_def by (intro pg_runs tx_runs_if)

lemma tx_runs_enqueue: "pg_peers_ok env \<Longrightarrow> tx_runs (pg_enqueue_for_scope lib bld env tenant event)"
  unfolding pg_enqueue_for_scope_def
  by (intro tx_runs_then tx_runs_validate tx_runs_map_err tx_runs_insert_event)
    (auto split: option.split intro!: tx_runs_duplicate pg_runs)

lemma pg_event_columns_sel [simp]:
  "er_row_id (pg_event_columns lib env t ev q) = pg_row_id env"
  "er_tenant_id (pg_event_columns lib env t ev q) = tenant_id_str t"
  "er_enqueued_at (pg_event_columns lib env t ev q) = q"
  "event_identity (pg_event_columns lib env t ev q) = (tenant_id_str t,
     source_str (ec_source (new_content ev)), event_id_str (ec_id (new_content ev)))"
  by (simp_all add: pg_event_columns_def)

text \<open>
  What is documented of SQLx's conversion: a \<open>timestamptz\<close> is a count of microseconds, decoded
  in UTC in the order of the counts, and an instant of microsecond precision survives.
\<close>

definition pg_codec :: "pg_env \<Rightarrow> bool" where
  "pg_codec env \<longleftrightarrow> strict_mono (pg_instant env)
     \<and> (\<forall>t. instant_ok t \<longrightarrow> pg_instant env (pg_encode env t) = unix_nanos t)
     \<and> (\<forall>v. utc_offset (pg_decode env v) = 0)"

lemma pg_codec_eq:
  assumes "pg_codec env" "instant_ok t"
  shows "unix_nanos t = pg_instant env v \<longleftrightarrow> v = pg_encode env t"
  using assms unfolding pg_codec_def by (metis strict_mono_eq)

lemma pg_codec_inj: "pg_codec env \<Longrightarrow> pg_instant env a = pg_instant env b \<longleftrightarrow> a = b"
  by (simp add: pg_codec_def strict_mono_eq)

lemma pg_codec_le: "pg_codec env \<Longrightarrow> pg_instant env a \<le> pg_instant env b \<longleftrightarrow> a \<le> b"
  by (simp add: pg_codec_def strict_mono_less_eq)

lemma pg_same_event_iff:
  assumes "pg_codec env" "\<And>t. ec_time (new_content event) = Some t \<Longrightarrow> instant_ok t"
  shows "pg_same_event lib env event r \<longleftrightarrow>
    r = event_columns_with (pg_encode env) lib (er_tenant_id r) (new_content event) (er_row_id r) (er_enqueued_at r)"
proof -
  have time: "map_option unix_nanos (ec_time (new_content event)) = map_option (pg_instant env) v
      \<longleftrightarrow> map_option (pg_encode env) (ec_time (new_content event)) = v" for v
    using pg_codec_eq [OF assms(1)] assms(2) by (cases "ec_time (new_content event)"; cases v) auto
  show ?thesis
    unfolding pg_same_event_def same_event_with_iff [symmetric]
    by (simp add: same_event_with_def existing_event_def Let_def time)
qed

text \<open>The columns bound for a validated event are read back as that event.\<close>

lemma pg_hydrate_columns_with:
  assumes "pg_codec env" and "event_content_wf lib c" and "validate_content lib c limit = Inr ()"
    and "extension_codecs lib (ec_extensions c)"
  shows "pg_hydrate_event lib env (event_columns_with (pg_encode env) lib tenant c rid q) = Inr (StoredEvent c)"
  unfolding pg_hydrate_event_def
proof (rule hydrate_event_columns_with [OF assms(2-4)])
  fix t
  assume t: "ec_time c = Some t"
  have "instant_ok t" using assms(3) t by (simp add: validate_content_Inr_iff)
  then have "unix_nanos (pg_decode env (pg_encode env t)) = unix_nanos t"
    "utc_offset (pg_decode env (pg_encode env t)) = 0"
    using assms(1) by (simp_all add: pg_codec_def pg_instant_def)
  moreover have "utc_offset t = 0" using assms(2) t by (simp add: event_content_wf_def)
  ultimately have "pg_decode env (pg_encode env t) = t" by simp
  then show "(Inr (pg_decode env (pg_encode env t)) :: hydrate_error + offset_date_time) = Inr t" by simp
qed

lemma pg_hydrate_columns:
  assumes "pg_codec env" and "event_content_wf lib (new_content event)"
    and "validate_content lib (new_content event) limit = Inr ()"
    and "extension_codecs lib (ec_extensions (new_content event))"
  shows "pg_hydrate_event lib env (pg_event_columns lib env tenant event q) = Inr (StoredEvent (new_content event))"
  unfolding pg_event_columns_def by (rule pg_hydrate_columns_with [OF assms])

text \<open>The two ways an enqueue succeeds.\<close>

lemma pg_enqueue_Inr:
  assumes "pg_enqueue_for_scope lib bld env tenant event t = (Inr out, t')"
  obtains
    (duplicate) t1 t2 where "pg_validate_enqueue_schema bld env t = (Inr (), t1)"
      "pg_insert_event env ''insert event'' 3
         (pg_event_columns lib env tenant event (pg_txn_time env)) t1 = (Inr None, t2)"
      "pg_enqueue_duplicate lib env tenant event t2 = (Inr out, t')"
  | (inserted) t1 t2 row rid where "pg_validate_enqueue_schema bld env t = (Inr (), t1)"
      "pg_insert_event env ''insert event'' 3
         (pg_event_columns lib env tenant event (pg_txn_time env)) t1 = (Inr (Some row), t2)"
      "row_id_new (er_row_id row) = Inr rid"
      "pg_insert_delivery env ''insert delivery'' 6
         (enqueued_delivery (tenant_id_str tenant) (er_row_id row) (er_enqueued_at row)) t2 = (Inr (), t')"
      "out = Enqueued rid"
proof -
  from assms obtain t1 t2 ins where 1: "pg_validate_enqueue_schema bld env t = (Inr (), t1)"
    and 2: "pg_insert_event env ''insert event'' 3
         (pg_event_columns lib env tenant event (pg_txn_time env)) t1 = (Inr ins, t2)"
    and 3: "(case ins of None \<Rightarrow> pg_enqueue_duplicate lib env tenant event
       | Some row \<Rightarrow> tx_then (tx_return (map_err (\<lambda>e. PEnqSerialization (verror_to_string e))
           (row_id_new (er_row_id row)))) (\<lambda>row_id.
         tx_then (tx_map_err (pg_enqueue_error_sql ''insert delivery'')
           (pg_insert_delivery env ''insert delivery'' 6
             (enqueued_delivery (tenant_id_str tenant) (er_row_id row) (er_enqueued_at row)))) (\<lambda>_.
         tx_return (Inr (Enqueued row_id))))) t2 = (Inr out, t')"
    unfolding pg_enqueue_for_scope_def tx_then_Inr_iff [of "pg_validate_enqueue_schema bld env"]
      tx_then_Inr_iff [of "tx_map_err f m" for f m] tx_map_err_Inr_iff by auto
  show thesis
  proof (cases ins)
    case None
    then show thesis using 1 2 3 duplicate by simp
  next
    case (Some row)
    with 3 obtain rid t4 where "row_id_new (er_row_id row) = Inr rid"
      "pg_insert_delivery env ''insert delivery'' 6
         (enqueued_delivery (tenant_id_str tenant) (er_row_id row) (er_enqueued_at row)) t2 = (Inr (), t4)"
      "out = Enqueued rid" "t4 = t'"
      by (auto simp: action_simps map_err_Inr_iff)
    then show thesis using 1 2 Some inserted by simp
  qed
qed

lemma pg_enqueue_duplicate_Inr:
  assumes "pg_enqueue_duplicate lib env tenant event t = (Inr out, t')"
  obtains r t1 where "t1 = tx_peer (pg_peer env 4) t" "t' = tx_peer (pg_peer env 5) t1"
    "pg_find_event tenant event (tx_view t1) = Some r" "out = AlreadyEnqueued (RowId (er_row_id r))"
    "pg_same_event lib env event r" "pg_find_delivery tenant (er_row_id r) (tx_view t') \<noteq> None"
  using assms unfolding pg_enqueue_duplicate_def tx_then_return tx_then_Inr_iff tx_map_err_Inr_iff
    pg_query_Inr
  by (auto simp: ok_or_Inr_iff map_err_Inr_iff row_id_new_Inr_iff tx_then_Inr_iff tx_map_err_Inr_iff
      pg_query_Inr split: if_splits intro: that)

lemma find_delivery_tenant:
  assumes "pg_find_delivery tenant rid db \<noteq> None"
  shows "\<exists>d \<in> set (db_deliveries db). dr_event_row_id d = rid \<and> dr_tenant_id d = tenant_id_str tenant"
  using assms unfolding pg_find_delivery_def by (auto dest!: find_Some_in)

text \<open>Statements that insert one row.\<close>

lemma pg_insert_event_cases:
  assumes "pg_peers_ok env" "tx_ok t" and "pg_insert_event env label n row t = (Inr out, t')"
  obtains (duplicate) "out = None" "t' = tx_peer (pg_peer env n) t"
      "event_identity row \<in> event_identity ` set (db_events (tx_view t'))"
  | (inserted) "out = Some row" "t' = tx_insert_event row (tx_peer (pg_peer env n) t)"
      "event_identity row \<notin> event_identity ` set (db_events (tx_view (tx_peer (pg_peer env n) t)))"
      "event_check row"
proof -
  let ?t = "tx_peer (pg_peer env n) t"
  have ok: "tx_ok ?t" by (rule pg_ok_peer [OF assms(1,2)])
  have "tx_add_event row ?t = (Inr out, t')"
    using assms(3) by (simp add: pg_insert_event_def pg_statement_Inr tx_map_err_Inr_iff)
  from ok this show thesis
    by (cases rule: tx_add_event_cases) (use that in auto)
qed

lemma pg_insert_delivery_Inr:
  assumes "pg_peers_ok env" "tx_ok t" and "pg_insert_delivery env label n row t = (Inr (), t')"
  shows "t' = tx_put row (tx_peer (pg_peer env n) t)"
    and "tx_deliveries t' = tx_deliveries t @ [row]" and "delivery_check row"
    and "find_delivery (tx_view (tx_peer (pg_peer env n) t)) (dr_event_row_id row) = None"
proof -
  let ?t = "tx_peer (pg_peer env n) t"
  have ok: "tx_ok ?t" by (rule pg_ok_peer [OF assms(1,2)])
  have add: "tx_add_delivery row ?t = (Inr (), t')"
    using assms(3) by (simp add: pg_insert_delivery_def pg_statement_Inr tx_map_err_Inr_iff)
  from ok this have *: "t' = tx_put row ?t \<and> delivery_check row
      \<and> find_delivery (tx_view ?t) (dr_event_row_id row) = None"
    by (cases rule: tx_add_delivery_cases) auto
  then show "t' = tx_put row ?t" "delivery_check row"
    and none: "find_delivery (tx_view ?t) (dr_event_row_id row) = None" by auto
  have "row_in (tx_deliveries t) (dr_event_row_id row) = None"
    using none by (simp add: find_view split: option.splits)
  then show "tx_deliveries t' = tx_deliveries t @ [row]" using * by (simp add: tx_put_def tx_lock_def)
qed

text \<open>
  An event inserted with its delivery: the transaction has written both on top of what it had,
  no event of that identity was visible, and no delivery of that row is committed.
\<close>

lemma pg_insert_pair:
  assumes "pg_peers_ok env" "tx_ok t"
    and i: "pg_insert_event env l n row t = (Inr (Some r), t1)"
    and d: "pg_insert_delivery env l' m del t1 = (Inr (), t')"
  shows "r = row" and "tx_events t' = tx_events t @ [row]" and "tx_deliveries t' = tx_deliveries t @ [del]"
    and "find_delivery (tx_db t') (dr_event_row_id del) = None"
    and "e \<in> set (db_events (tx_view t)) \<Longrightarrow> event_identity e \<noteq> event_identity row"
proof -
  let ?t = "tx_peer (pg_peer env n) t" and ?t1 = "tx_peer (pg_peer env m) t1"
  have ok1: "tx_ok t1"
    using tx_extends_ok [OF tx_runsD [OF tx_runs_insert_event [OF assms(1)] assms(2) i] assms(2)] .
  from assms(1,2) i have ins: "r = row \<and> t1 = tx_insert_event row ?t
      \<and> event_identity row \<notin> event_identity ` set (db_events (tx_view ?t))"
    by (cases rule: pg_insert_event_cases) auto
  note put = pg_insert_delivery_Inr [OF assms(1) ok1 d]
  show "r = row" using ins by blast
  show "tx_deliveries t' = tx_deliveries t @ [del]" using put(2) ins by (simp add: tx_insert_event_def)
  have "tx_events t' = tx_events t1" by (simp add: put(1) tx_put_def tx_lock_def)
  then show "tx_events t' = tx_events t @ [row]" using ins by (simp add: tx_insert_event_def)
  have "tx_db t' = tx_db ?t1" by (simp add: put(1) tx_put_def tx_lock_def)
  then show "find_delivery (tx_db t') (dr_event_row_id del) = None"
    using put(4) by (simp add: find_view split: option.splits)
  have "set (db_events (tx_view t)) \<subseteq> set (db_events (tx_view ?t))"
    using pg_extends_peer [OF assms(1)] by (simp add: tx_extends_def)
  then show "event_identity e \<noteq> event_identity row" if "e \<in> set (db_events (tx_view t))"
    using ins that by (metis image_eqI subsetD)
qed

lemma pg_enqueue_Enqueued:
  assumes "pg_peers_ok env" "tx_ok t"
    and run: "pg_enqueue_for_scope lib bld env tenant event t = (Inr (Enqueued rid), t')"
  shows "rid = RowId (pg_row_id env)"
    and "tx_events t' = tx_events t @ [pg_event_columns lib env tenant event (pg_txn_time env)]"
    and "tx_deliveries t' = tx_deliveries t @
      [enqueued_delivery (tenant_id_str tenant) (pg_row_id env) (pg_txn_time env)]"
    and "find_delivery (tx_db t') (pg_row_id env) = None"
    and "\<forall>r \<in> set (db_events (tx_view t)). event_identity r \<noteq> (tenant_id_str tenant,
      source_str (ec_source (new_content event)), event_id_str (ec_id (new_content event)))"
proof -
  let ?row = "pg_event_columns lib env tenant event (pg_txn_time env)"
  from run obtain t1 t2 row where
    v: "pg_validate_enqueue_schema bld env t = (Inr (), t1)"
    and i: "pg_insert_event env ''insert event'' 3 ?row t1 = (Inr (Some row), t2)"
    and rid: "row_id_new (er_row_id row) = Inr rid"
    and d: "pg_insert_delivery env ''insert delivery'' 6
         (enqueued_delivery (tenant_id_str tenant) (er_row_id row) (er_enqueued_at row)) t2 = (Inr (), t')"
    by (elim pg_enqueue_Inr) (auto elim: pg_enqueue_duplicate_Inr)
  have ext: "tx_extends t t1" by (rule tx_runsD [OF tx_runs_validate [OF assms(1)] assms(2) v])
  have own: "own_writes t1 = own_writes t" by (rule reads_onlyD [OF reads_only_validate v])
  note pair = pg_insert_pair [OF assms(1) tx_extends_ok [OF ext assms(2)] i d]
  have sel: "dr_event_row_id (enqueued_delivery x n q) = n" for x n q by (simp add: enqueued_delivery_def)
  show "rid = RowId (pg_row_id env)" using rid pair(1) by (simp add: row_id_new_Inr_iff)
  show "tx_events t' = tx_events t @ [?row]" using pair(2) own by (simp add: own_writes_def)
  show "tx_deliveries t' = tx_deliveries t @
      [enqueued_delivery (tenant_id_str tenant) (pg_row_id env) (pg_txn_time env)]"
    using pair(1,3) own by (simp add: own_writes_def)
  show "find_delivery (tx_db t') (pg_row_id env) = None" using pair(1,4) by (simp add: sel)
  have "set (db_events (tx_view t)) \<subseteq> set (db_events (tx_view t1))" using ext by (simp add: tx_extends_def)
  then show "\<forall>r \<in> set (db_events (tx_view t)). event_identity r \<noteq> (tenant_id_str tenant,
      source_str (ec_source (new_content event)), event_id_str (ec_id (new_content event)))"
    using pair(5) by (metis pg_event_columns_sel(4) subsetD)
qed

lemma pg_enqueue_AlreadyEnqueued:
  assumes "pg_peers_ok env" "tx_ok t"
    and run: "pg_enqueue_for_scope lib bld env tenant event t = (Inr (AlreadyEnqueued rid), t')"
  shows "own_writes t' = own_writes t"
    and "\<exists>r \<in> set (db_events (tx_view t')). rid = RowId (er_row_id r)
      \<and> er_tenant_id r = tenant_id_str tenant \<and> pg_same_event lib env event r
      \<and> (\<exists>d \<in> set (db_deliveries (tx_view t')). dr_event_row_id d = er_row_id r
           \<and> dr_tenant_id d = tenant_id_str tenant)"
proof -
  from run obtain t1 t2 where v: "pg_validate_enqueue_schema bld env t = (Inr (), t1)"
    and i: "pg_insert_event env ''insert event'' 3
         (pg_event_columns lib env tenant event (pg_txn_time env)) t1 = (Inr None, t2)"
    and dup: "pg_enqueue_duplicate lib env tenant event t2 = (Inr (AlreadyEnqueued rid), t')"
    by (elim pg_enqueue_Inr) auto
  note ok1 = tx_extends_ok [OF tx_runsD [OF tx_runs_validate [OF assms(1)] assms(2) v] assms(2)]
  note ok2 = tx_extends_ok [OF tx_runsD [OF tx_runs_insert_event [OF assms(1)] ok1 i] ok1]
  from assms(1) ok1 i have "own_writes t2 = own_writes t1"
    by (cases rule: pg_insert_event_cases) auto
  then show "own_writes t' = own_writes t"
    using reads_onlyD [OF reads_only_validate v] reads_onlyD [OF reads_only_duplicate dup] by simp
  from dup obtain r t3 where t3: "t3 = tx_peer (pg_peer env 4) t2" "t' = tx_peer (pg_peer env 5) t3"
    and r: "pg_find_event tenant event (tx_view t3) = Some r" "rid = RowId (er_row_id r)"
      "pg_same_event lib env event r" "pg_find_delivery tenant (er_row_id r) (tx_view t') \<noteq> None"
    by (auto elim: pg_enqueue_duplicate_Inr)
  have ext: "tx_extends t2 t3" "tx_extends t3 t'"
    unfolding t3 by (rule pg_extends_peer [OF assms(1)])+
  then have "distinct (map event_identity (db_events (tx_view t3)))"
    using tx_extends_ok [OF ext(1) ok2] by (simp add: tx_ok_def db_ok_def)
  then have "r \<in> set (db_events (tx_view t3))" "er_tenant_id r = tenant_id_str tenant"
    using r(1) by (simp_all add: pg_find_event_def find_identity_Some_iff event_identity_def)
  moreover have "set (db_events (tx_view t3)) \<subseteq> set (db_events (tx_view t'))"
    using ext(2) by (simp add: tx_extends_def)
  ultimately show "\<exists>r \<in> set (db_events (tx_view t')). rid = RowId (er_row_id r)
      \<and> er_tenant_id r = tenant_id_str tenant \<and> pg_same_event lib env event r
      \<and> (\<exists>d \<in> set (db_deliveries (tx_view t')). dr_event_row_id d = er_row_id r
           \<and> dr_tenant_id d = tenant_id_str tenant)"
    using r(2,3) find_delivery_tenant [OF r(4)] by blast
qed

end
