(* ===== verification/Adapter_Catalog.thy ===== *)
theory Adapter_Catalog
  imports Adapter_Tables
begin

text \<open>
  What the schema checks of the adapters share: functions of Rust's \<open>str\<close> on octets, and the
  comparison of a list of catalog entries with a list of contracts.
\<close>

section \<open>Text\<close>

definition ascii_lower :: "char \<Rightarrow> char" where
  "ascii_lower c = (if 65 \<le> byte c \<and> byte c \<le> 90 then char_of (byte c + 32) else c)"

definition ascii_space :: "char \<Rightarrow> bool" where
  "ascii_space c \<longleftrightarrow> byte c = 9 \<or> byte c = 10 \<or> byte c = 12 \<or> byte c = 13 \<or> byte c = 32"

text \<open>\<open>eq_ignore_ascii_case\<close>, \<open>starts_with\<close>, \<open>ends_with\<close> and \<open>contains\<close>.\<close>

definition same_ascii_case :: "string \<Rightarrow> string \<Rightarrow> bool" where
  "same_ascii_case a b \<longleftrightarrow> map ascii_lower a = map ascii_lower b"

definition starts_with :: "string \<Rightarrow> string \<Rightarrow> bool" where
  "starts_with p s \<longleftrightarrow> take (length p) s = p"

definition ends_with :: "string \<Rightarrow> string \<Rightarrow> bool" where
  "ends_with p s \<longleftrightarrow> starts_with (rev p) (rev s)"

fun str_contains :: "string \<Rightarrow> string \<Rightarrow> bool" where
  "str_contains needle [] \<longleftrightarrow> needle = []"
| "str_contains needle (c # cs) \<longleftrightarrow> starts_with needle (c # cs) \<or> str_contains needle cs"

text \<open>\<open>split_once\<close> and \<open>rsplit_once\<close> at a text: the first and the last occurrence.\<close>

fun split_once_at :: "string \<Rightarrow> string \<Rightarrow> (string \<times> string) option" where
  "split_once_at needle [] = (if needle = [] then Some ([], []) else None)"
| "split_once_at needle (c # cs) =
     (if starts_with needle (c # cs) then Some ([], drop (length needle) (c # cs))
      else map_option (\<lambda>(a, b). (c # a, b)) (split_once_at needle cs))"

definition rsplit_once_at :: "string \<Rightarrow> string \<Rightarrow> (string \<times> string) option" where
  "rsplit_once_at needle s =
     map_option (\<lambda>(a, b). (rev b, rev a)) (split_once_at (rev needle) (rev s))"

text \<open>\<open>replace\<close>, for a text that is not empty.\<close>

function str_replace :: "string \<Rightarrow> string \<Rightarrow> string \<Rightarrow> string" where
  "str_replace needle to [] = []"
| "str_replace needle to (c # cs) =
     (if starts_with needle (c # cs) \<and> needle \<noteq> []
        then to @ str_replace needle to (drop (length needle - 1) cs)
      else c # str_replace needle to cs)"
  by pat_completeness auto

termination by (relation "measure (\<lambda>(needle, to, s). length s)") auto

text \<open>\<open>value.replace(cast, "")\<close>.\<close>

function str_remove :: "string \<Rightarrow> string \<Rightarrow> string" where
  "str_remove needle [] = []"
| "str_remove needle (c # cs) =
     (if take (length needle) (c # cs) = needle \<and> needle \<noteq> []
        then str_remove needle (drop (length needle - 1) cs)
      else c # str_remove needle cs)"
  by pat_completeness auto

termination by (relation "measure (\<lambda>(needle, s). length s)") auto

text \<open>\<open>trim\<close>: the white space of Unicode, by its encodings.\<close>

definition white_space :: "string list" where
  "white_space = map (\<lambda>n. [char_of n]) [9, 10, 11, 12, 13, 32 :: nat]
     @ map (\<lambda>ns. map char_of ns) ([[194, 133], [194, 160], [225, 154, 128]]
     @ map (\<lambda>n. [226, 128, n]) ([128..<139] @ [168, 169, 175])
     @ [[226, 129, 159], [227, 128, 128 :: nat]])"

function trim_with :: "string list \<Rightarrow> string \<Rightarrow> string" where
  "trim_with ws s =
     (case find (\<lambda>w. w \<noteq> [] \<and> s \<noteq> [] \<and> starts_with w s) ws of
        None \<Rightarrow> s | Some w \<Rightarrow> trim_with ws (drop (length w) s))"
  by pat_completeness auto

termination
  by (relation "measure (\<lambda>(ws, s). length s)") (auto dest!: find_Some_in)

declare trim_with.simps [simp del]

definition str_trim :: "string \<Rightarrow> string" where
  "str_trim s = rev (trim_with (map rev white_space) (rev (trim_with white_space s)))"

lemma same_ascii_case_refl [simp]: "same_ascii_case s s"
  by (simp add: same_ascii_case_def)

lemma trim_with_none:
  assumes "\<forall>w \<in> set ws. hd w \<noteq> hd s"
  shows "trim_with ws s = s"
proof -
  have "find (\<lambda>w. w \<noteq> [] \<and> s \<noteq> [] \<and> starts_with w s) ws = None"
    using assms by (auto simp: find_None_set starts_with_def take_Cons' neq_Nil_conv split: if_splits)
  then show ?thesis by (simp add: trim_with.simps)
qed

lemma str_trim_visible:
  assumes "byte (hd s) \<in> {33..<128}" "byte (last s) \<in> {33..<128}"
  shows "str_trim s = s"
proof -
  have "hd w \<noteq> c" "last w \<noteq> c" if "w \<in> set white_space" "byte c \<in> {33..<128}" for w c
    using that by (auto simp: white_space_def byte_def upt_conv_Cons)
  then show ?thesis using assms by (simp add: str_trim_def trim_with_none hd_rev)
qed

lemma starts_with_append: "starts_with p (p @ s)"
  by (simp add: starts_with_def)

lemma starts_with_iff: "starts_with p s \<longleftrightarrow> (\<exists>r. s = p @ r)"
  unfolding starts_with_def by (metis append_take_drop_id append_eq_conv_conj)

lemma split_once_at_Some:
  "split_once_at needle s = Some (a, b) \<Longrightarrow> s = a @ needle @ b"
  by (induction s arbitrary: a) (auto simp: starts_with_iff split: if_splits)

section \<open>Contracts\<close>

text \<open>A loop that stops at the first error.\<close>

fun check_each :: "('a \<Rightarrow> 'e + unit) \<Rightarrow> 'a list \<Rightarrow> 'e + unit" where
  "check_each f [] = Inr ()"
| "check_each f (x # xs) = and_then (f x) (\<lambda>_. check_each f xs)"

text \<open>
  \<open>meets key name fits found expected\<close>: \<open>found\<close> has the names of \<open>expected\<close> and no other, and each
  expectation is met by an entry of its name.
\<close>

definition meets ::
  "('a \<Rightarrow> string) \<Rightarrow> ('b \<Rightarrow> string) \<Rightarrow> ('a \<Rightarrow> 'b \<Rightarrow> bool) \<Rightarrow> 'a list \<Rightarrow> 'b list \<Rightarrow> bool" where
  "meets key name fits found expected \<longleftrightarrow> key ` set found = name ` set expected
     \<and> (\<forall>e \<in> set expected. \<exists>c \<in> set found. key c = name e \<and> fits c e)"

lemma check_each_Inr: "check_each f xs = Inr u \<longleftrightarrow> (\<forall>x \<in> set xs. f x = Inr ())"
  by (induction xs) (auto simp: and_then_Inr_iff)

lemma find_or_Inl: "(case find p xs of Some x \<Rightarrow> Inl (e x) | None \<Rightarrow> Inr ()) = Inr u \<longleftrightarrow> (\<forall>x \<in> set xs. \<not> p x)"
  by (auto simp: find_None_iff find_None_set dest: find_Some_in split: option.splits)

lemma check_found_iff:
  assumes "distinct (map key found)"
  shows "(case find (\<lambda>c. key c = name e) found of None \<Rightarrow> Inl x
      | Some a \<Rightarrow> if \<not> fits a e then Inl y else Inr ()) = Inr () \<longleftrightarrow> (\<exists>c \<in> set found. key c = name e \<and> fits c e)"
    (is "?l \<longleftrightarrow> ?r")
proof
  show "?l \<Longrightarrow> ?r" by (auto dest: find_Some_in split: option.splits if_splits)
  assume ?r
  then obtain c where c: "c \<in> set found" "key c = name e" "fits c e" by blast
  then have "find (\<lambda>d. key d = name e) found = Some c" using find_key_unique [OF assms c(1)] by simp
  then show ?l using c(3) by simp
qed

lemma meets_iff:
  "meets key name fits found expected \<longleftrightarrow> (\<forall>c \<in> set found. \<exists>e \<in> set expected. name e = key c)
     \<and> (\<forall>e \<in> set expected. \<exists>c \<in> set found. key c = name e \<and> fits c e)"
  unfolding meets_def by (auto simp: image_iff set_eq_iff) metis+

lemma meets_names_iff:
  "meets key name fits found expected \<longleftrightarrow> (\<forall>c \<in> set found. key c \<in> name ` set expected)
     \<and> (\<forall>e \<in> set expected. \<exists>c \<in> set found. key c = name e \<and> fits c e)"
  unfolding meets_iff by (auto simp: image_iff) metis+

text \<open>Without duplicates it is enough to count the entries.\<close>

lemma meets_by_length:
  assumes "distinct (map key found)" "distinct (map name expected)"
  shows "meets key name fits found expected \<longleftrightarrow> length found = length expected
    \<and> (\<forall>e \<in> set expected. \<exists>c \<in> set found. key c = name e \<and> fits c e)"
proof -
  have cards: "card (key ` set found) = length found" "card (name ` set expected) = length expected"
    using assms distinct_card [OF assms(1)] distinct_card [OF assms(2)] by simp_all
  show ?thesis
  proof
    assume "meets key name fits found expected"
    then show "length found = length expected \<and> (\<forall>e \<in> set expected. \<exists>c \<in> set found. key c = name e \<and> fits c e)"
      using cards by (simp add: meets_def)
  next
    assume r: "length found = length expected \<and> (\<forall>e \<in> set expected. \<exists>c \<in> set found. key c = name e \<and> fits c e)"
    then have sub: "name ` set expected \<subseteq> key ` set found" by (metis image_eqI image_subsetI)
    then have "name ` set expected = key ` set found" using r cards by (intro card_subset_eq) auto
    then show "meets key name fits found expected" using r by (simp add: meets_def)
  qed
qed

lemma meets_self: "(\<And>e. key (f e) = name e) \<Longrightarrow> (\<And>e. e \<in> set expected \<Longrightarrow> fits (f e) e)
    \<Longrightarrow> meets key name fits (map f expected) expected"
  unfolding meets_iff by auto

lemmas check_iffs = and_then_Inr_iff map_err_Inr_iff check_each_Inr find_or_Inl

end
