(* ===== verification/Postgres_Schema.thy ===== *)
theory Postgres_Schema
  imports Postgres_Base Adapter_Catalog
begin

text \<open>
  \<open>crates/dovecote-sqlx-postgres/src/schema\<close>: verification of an installed schema against the
  contracts of version 2. What the server answers to the catalog queries is the record
  \<open>pg_catalog\<close>; the queries themselves filter by the namespace and the three tables.
\<close>

section \<open>Normalization\<close>

definition sql_casts :: "string list" where
  "sql_casts = [''::character varying[]'', ''::character varying'', ''::timestamp with time zone'',
     ''::timestamp without time zone'', ''::double precision'', ''::numeric'', ''::bigint'',
     ''::integer'', ''::smallint'', ''::boolean'', ''::text[]'', ''::text'']"

definition pg_normalize_sql :: "string \<Rightarrow> string" where
  "pg_normalize_sql value =
     filter (\<lambda>c. \<not> ascii_space c) (foldl (\<lambda>value cast. str_remove cast value) (map ascii_lower value) sql_casts)"

section \<open>Columns\<close>

record NamespaceInfo =
  ns_oid :: int
  ns_name :: string

record pg_ColumnSpec =
  cs_name :: string
  cs_data_type :: string
  cs_maximum_length :: "int option"
  cs_nullable :: bool
  cs_identity :: bool
  cs_default_fragment :: "string option"

definition spec_required :: "string \<Rightarrow> string \<Rightarrow> int option \<Rightarrow> pg_ColumnSpec" where
  "spec_required name data_type maximum_length =
     \<lparr>cs_name = name, cs_data_type = data_type, cs_maximum_length = maximum_length,
      cs_nullable = False, cs_identity = False, cs_default_fragment = None\<rparr>"

definition spec_required_identity :: "string \<Rightarrow> string \<Rightarrow> int option \<Rightarrow> pg_ColumnSpec" where
  "spec_required_identity name data_type maximum_length =
     (spec_required name data_type maximum_length)\<lparr>cs_identity := True\<rparr>"

definition spec_optional :: "string \<Rightarrow> string \<Rightarrow> int option \<Rightarrow> pg_ColumnSpec" where
  "spec_optional name data_type maximum_length =
     (spec_required name data_type maximum_length)\<lparr>cs_nullable := True\<rparr>"

definition spec_required_with_default :: "string \<Rightarrow> string \<Rightarrow> int option \<Rightarrow> string \<Rightarrow> pg_ColumnSpec" where
  "spec_required_with_default name data_type maximum_length default_fragment =
     (spec_required name data_type maximum_length)\<lparr>cs_default_fragment := Some default_fragment\<rparr>"

record ColumnInfo =
  ci_column_name :: string
  ci_data_type :: string
  ci_character_maximum_length :: "int option"
  ci_is_nullable :: string
  ci_column_default :: "string option"
  ci_is_identity :: string
  ci_identity_generation :: "string option"

record ConstraintInfo =
  co_table_name :: string
  co_name :: string
  co_kind :: string
  co_columns :: "string list"
  co_referenced_table :: "string option"
  co_referenced_columns :: "string list"
  co_delete_action :: "string option"
  co_validated :: bool
  co_deferrable :: bool
  co_deferred :: bool
  co_definition :: string

record IndexInfo =
  ix_table_name :: string
  ix_name :: string
  ix_access_method :: string
  ix_is_unique :: bool
  ix_is_valid :: bool
  ix_is_ready :: bool
  ix_has_predicate :: bool
  ix_key_columns :: int
  ix_total_columns :: int
  ix_options :: "int list"
  ix_columns :: "string list"
  ix_collations :: "string list"

record pg_catalog =
  cat_acquire :: "sqlx_error option"
  cat_namespace :: "sqlx_error + NamespaceInfo option"
  cat_columns :: "string \<Rightarrow> string \<Rightarrow> sqlx_error + ColumnInfo list"
  cat_markers :: "sqlx_error + PgSchemaMarker list"
  cat_constraints :: "int \<Rightarrow> sqlx_error + ConstraintInfo list"
  cat_indexes :: "int \<Rightarrow> sqlx_error + IndexInfo list"

definition resolve_namespace :: "pg_catalog \<Rightarrow> PgSchemaError + NamespaceInfo" where
  "resolve_namespace cat =
     and_then (map_err (pg_schema_error_sql ''resolve current schema'') (cat_namespace cat)) (\<lambda>found.
     ok_or (PSchMigrationMismatch ''the transaction has no resolvable current schema'') found)"

text \<open>The tests of one specification against its column.\<close>

definition column_compatible :: "pg_ColumnSpec \<Rightarrow> ColumnInfo \<Rightarrow> bool" where
  "column_compatible specification column \<longleftrightarrow>
     (let default_matches = (case cs_default_fragment specification of
            None \<Rightarrow> True
          | Some fragment \<Rightarrow> (case ci_column_default column of
              None \<Rightarrow> False
            | Some value \<Rightarrow> pg_normalize_sql value = pg_normalize_sql fragment));
        identity_matches = (if cs_identity specification
          then ci_is_identity column = ''YES'' \<and> ci_identity_generation column = Some ''ALWAYS''
          else ci_is_identity column = ''NO'') in
      \<not> (ci_data_type column \<noteq> cs_data_type specification
        \<or> ci_character_maximum_length column \<noteq> cs_maximum_length specification
        \<or> (ci_is_nullable column = ''YES'') \<noteq> cs_nullable specification
        \<or> \<not> default_matches
        \<or> \<not> identity_matches))"

definition pg_check_columns ::
  "pg_catalog \<Rightarrow> string \<Rightarrow> string \<Rightarrow> pg_ColumnSpec list \<Rightarrow> PgSchemaError + unit" where
  "pg_check_columns cat schema_name table expected =
     and_then (map_err (pg_schema_error_sql ''check columns'') (cat_columns cat schema_name table)) (\<lambda>columns.
     and_then (case find (\<lambda>column. \<not> list_ex (\<lambda>s. cs_name s = ci_column_name column) expected) columns of
         Some column \<Rightarrow> Inl (PSchMigrationMismatch
           (''unexpected column '' @ table @ ''.'' @ ci_column_name column))
       | None \<Rightarrow> Inr ()) (\<lambda>_.
     check_each (\<lambda>specification.
       case find (\<lambda>column. ci_column_name column = cs_name specification) columns of
         None \<Rightarrow> Inl (PSchMigrationMismatch
           (''required column '' @ table @ ''.'' @ cs_name specification @ '' is missing''))
       | Some column \<Rightarrow>
           if \<not> column_compatible specification column
             then Inl (PSchMigrationMismatch
               (''column '' @ table @ ''.'' @ cs_name specification @ '' is incompatible''))
           else Inr ()) expected))"

definition marker_columns :: "pg_ColumnSpec list" where
  "marker_columns =
     [spec_required ''schema_version'' ''integer'' None,
      spec_required ''minimum_crate_major'' ''smallint'' None,
      spec_required ''minimum_crate_minor'' ''smallint'' None,
      spec_required ''minimum_crate_patch'' ''smallint'' None,
      spec_required ''rolling_compatible'' ''boolean'' None]"

definition pg_event_column_specs :: "pg_ColumnSpec list" where
  "pg_event_column_specs =
     [spec_required_identity ''row_id'' ''bigint'' None,
      spec_required ''tenant_id'' ''character varying'' (Some 255),
      spec_required ''stream'' ''character varying'' (Some 255),
      spec_required ''specversion'' ''character varying'' (Some 8),
      spec_required ''event_id'' ''character varying'' (Some 1024),
      spec_required ''source'' ''character varying'' (Some 2048),
      spec_required ''event_type'' ''character varying'' (Some 1024),
      spec_optional ''subject'' ''character varying'' (Some 2048),
      spec_optional ''occurred_at'' ''timestamp with time zone'' None,
      spec_optional ''datacontenttype'' ''character varying'' (Some 255),
      spec_optional ''dataschema'' ''character varying'' (Some 2048),
      spec_optional ''partitionkey'' ''character varying'' (Some 255),
      spec_required_with_default ''extensions'' ''text'' None (CHR 39 # ''{}'::text''),
      spec_optional ''data_kind'' ''character varying'' (Some 6),
      spec_optional ''data'' ''bytea'' None,
      spec_required_with_default ''enqueued_at'' ''timestamp with time zone'' None ''current_timestamp'']"

definition pg_delivery_column_specs :: "pg_ColumnSpec list" where
  "pg_delivery_column_specs =
     [spec_required ''event_row_id'' ''bigint'' None,
      spec_required ''tenant_id'' ''character varying'' (Some 255),
      spec_required ''state'' ''character varying'' (Some 12),
      spec_required_with_default ''available_at'' ''timestamp with time zone'' None ''current_timestamp'',
      spec_required_with_default ''attempts'' ''bigint'' None ''0'',
      spec_optional ''claim_token'' ''bytea'' None,
      spec_optional ''claimed_by'' ''character varying'' (Some 255),
      spec_optional ''claim_expires_at'' ''timestamp with time zone'' None,
      spec_optional ''last_failure_code'' ''character varying'' (Some 128),
      spec_optional ''last_failure_detail'' ''character varying'' (Some 2048),
      spec_optional ''delivered_at'' ''timestamp with time zone'' None,
      spec_optional ''quarantined_at'' ''timestamp with time zone'' None,
      spec_optional ''quarantine_reason'' ''character varying'' (Some 2048)]"

section \<open>Contracts\<close>

record ConstraintContract =
  cc_name :: string
  cc_table_name :: string
  cc_kind :: string
  cc_columns :: "string list"
  cc_referenced_table :: "string option"
  cc_referenced_columns :: "string list"
  cc_delete_action :: "string option"
  cc_definition_variants :: "string list"

definition contract_check :: "string \<Rightarrow> string \<Rightarrow> string list \<Rightarrow> ConstraintContract" where
  "contract_check name table_name definition_variants =
     \<lparr>cc_name = name, cc_table_name = table_name, cc_kind = ''c'', cc_columns = [],
      cc_referenced_table = None, cc_referenced_columns = [], cc_delete_action = None,
      cc_definition_variants = definition_variants\<rparr>"

definition contract_primary_key ::
  "string \<Rightarrow> string \<Rightarrow> string list \<Rightarrow> string list \<Rightarrow> ConstraintContract" where
  "contract_primary_key name table_name columns definition_variants =
     \<lparr>cc_name = name, cc_table_name = table_name, cc_kind = ''p'', cc_columns = columns,
      cc_referenced_table = None, cc_referenced_columns = [], cc_delete_action = None,
      cc_definition_variants = definition_variants\<rparr>"

definition contract_unique ::
  "string \<Rightarrow> string \<Rightarrow> string list \<Rightarrow> string list \<Rightarrow> ConstraintContract" where
  "contract_unique name table_name columns definition_variants =
     \<lparr>cc_name = name, cc_table_name = table_name, cc_kind = ''u'', cc_columns = columns,
      cc_referenced_table = None, cc_referenced_columns = [], cc_delete_action = None,
      cc_definition_variants = definition_variants\<rparr>"

definition contract_foreign_key ::
  "string \<Rightarrow> string \<Rightarrow> string list \<Rightarrow> string \<Rightarrow> string list \<Rightarrow> string \<Rightarrow> string list \<Rightarrow> ConstraintContract" where
  "contract_foreign_key name table_name columns referenced_table referenced_columns delete_action
       definition_variants =
     \<lparr>cc_name = name, cc_table_name = table_name, cc_kind = ''f'', cc_columns = columns,
      cc_referenced_table = Some referenced_table, cc_referenced_columns = referenced_columns,
      cc_delete_action = Some delete_action, cc_definition_variants = definition_variants\<rparr>"

definition constraint_matches :: "ConstraintInfo \<Rightarrow> ConstraintContract \<Rightarrow> bool" where
  "constraint_matches actual expected \<longleftrightarrow>
     (let definition_text = pg_normalize_sql (co_definition actual);
        columns_match = (co_kind actual = ''c'' \<or> co_columns actual = cc_columns expected) in
      co_table_name actual = cc_table_name expected
      \<and> co_kind actual = cc_kind expected
      \<and> columns_match
      \<and> co_referenced_table actual = cc_referenced_table expected
      \<and> co_referenced_columns actual = cc_referenced_columns expected
      \<and> co_delete_action actual = cc_delete_action expected
      \<and> co_validated actual
      \<and> \<not> co_deferrable actual
      \<and> \<not> co_deferred actual
      \<and> list_ex (\<lambda>variant. definition_text = pg_normalize_sql variant) (cc_definition_variants expected))"

record IndexContract =
  ic_name :: string
  ic_table_name :: string
  ic_is_unique :: bool
  ic_columns :: "string list"
  ic_collations :: "string list option"

definition index_contract_new ::
  "string \<Rightarrow> string \<Rightarrow> bool \<Rightarrow> string list \<Rightarrow> string list option \<Rightarrow> IndexContract" where
  "index_contract_new name table_name is_unique columns collations =
     \<lparr>ic_name = name, ic_table_name = table_name, ic_is_unique = is_unique, ic_columns = columns,
      ic_collations = collations\<rparr>"

text \<open>\<open>i16::try_from(len).unwrap_or(i16::MAX)\<close>.\<close>

definition i16_length :: "'a list \<Rightarrow> int" where
  "i16_length xs = (if length xs \<le> 32767 then int (length xs) else 32767)"

definition index_matches :: "IndexInfo \<Rightarrow> IndexContract \<Rightarrow> bool" where
  "index_matches actual expected \<longleftrightarrow>
     ix_table_name actual = ic_table_name expected
     \<and> ix_access_method actual = ''btree''
     \<and> ix_is_unique actual = ic_is_unique expected
     \<and> ix_is_valid actual
     \<and> ix_is_ready actual
     \<and> \<not> ix_has_predicate actual
     \<and> ix_key_columns actual = i16_length (ic_columns expected)
     \<and> ix_total_columns actual = ix_key_columns actual
     \<and> ix_options actual = replicate (length (ic_columns expected)) 0
     \<and> ix_columns actual = ic_columns expected
     \<and> (case ic_collations expected of None \<Rightarrow> True | Some collations \<Rightarrow> ix_collations actual = collations)"

definition schema_constraints :: "ConstraintContract list" where
  "schema_constraints =
     [contract_check ''dovecote_schema_version_supported'' ''dovecote_schema'' [''CHECK ((schema_version = 2))''],
      contract_check ''dovecote_schema_minimum_nonnegative'' ''dovecote_schema'' [''CHECK (((minimum_crate_major >= 0) AND (minimum_crate_minor >= 0) AND (minimum_crate_patch >= 0)))''],
      contract_primary_key ''dovecote_schema_pkey'' ''dovecote_schema'' [''schema_version''] [''PRIMARY KEY (schema_version)'']]"

definition event_constraints :: "ConstraintContract list" where
  "event_constraints =
     [contract_check ''dovecote_events_row_id_positive'' ''dovecote_events'' [''CHECK ((row_id > 0))''],
      contract_check ''dovecote_events_tenant_size'' ''dovecote_events'' [''CHECK ((octet_length((tenant_id)) <= 255))''],
      contract_check ''dovecote_events_tenant_nonempty'' ''dovecote_events'' [''CHECK ((octet_length((tenant_id)) > 0))''],
      contract_primary_key ''dovecote_events_pkey'' ''dovecote_events'' [''row_id''] [''PRIMARY KEY (row_id)''],
      contract_unique ''dovecote_events_tenant_row_unique'' ''dovecote_events'' [''tenant_id'', ''row_id''] [''UNIQUE (tenant_id, row_id)''],
      contract_check ''dovecote_events_specversion'' ''dovecote_events'' [''CHECK (((specversion) = '1.0'))''],
      contract_check ''dovecote_events_stream_size'' ''dovecote_events'' [''CHECK ((octet_length((stream)) <= 255))''],
      contract_check ''dovecote_events_event_id_size'' ''dovecote_events'' [''CHECK ((octet_length((event_id)) <= 1024))''],
      contract_check ''dovecote_events_source_size'' ''dovecote_events'' [''CHECK ((octet_length((source)) <= 2048))''],
      contract_check ''dovecote_events_event_type_size'' ''dovecote_events'' [''CHECK ((octet_length((event_type)) <= 1024))''],
      contract_check ''dovecote_events_subject_size'' ''dovecote_events'' [''CHECK (((subject IS NULL) OR (octet_length((subject)) <= 2048)))''],
      contract_check ''dovecote_events_content_type_size'' ''dovecote_events'' [''CHECK (((datacontenttype IS NULL) OR (octet_length((datacontenttype)) <= 255)))''],
      contract_check ''dovecote_events_schema_size'' ''dovecote_events'' [''CHECK (((dataschema IS NULL) OR (octet_length((dataschema)) <= 2048)))''],
      contract_check ''dovecote_events_partition_size'' ''dovecote_events'' [''CHECK (((partitionkey IS NULL) OR (octet_length((partitionkey)) <= 255)))''],
      contract_check ''dovecote_events_identity_size'' ''dovecote_events'' [''CHECK (((octet_length((source)) + octet_length((event_id))) <= 2048))''],
      contract_check ''dovecote_events_data_kind'' ''dovecote_events'' [''CHECK (((data_kind IS NULL) OR ((data_kind) = ANY ((ARRAY['json', 'binary'])))))''],
      contract_check ''dovecote_events_data_pair'' ''dovecote_events'' [''CHECK (((data_kind IS NULL) = (data IS NULL)))''],
      contract_check ''dovecote_events_content_type'' ''dovecote_events'' [''CHECK (((data IS NULL) OR (octet_length(data) = 0) OR (datacontenttype IS NOT NULL)))'']]"

definition delivery_constraints :: "ConstraintContract list" where
  "delivery_constraints =
     [contract_check ''dovecote_deliveries_state'' ''dovecote_deliveries'' [''CHECK (((state) = ANY ((ARRAY['pending', 'claimed', 'delivered', 'quarantined']))))''],
      contract_check ''dovecote_deliveries_tenant_size'' ''dovecote_deliveries'' [''CHECK ((octet_length((tenant_id)) <= 255))''],
      contract_check ''dovecote_deliveries_tenant_nonempty'' ''dovecote_deliveries'' [''CHECK ((octet_length((tenant_id)) > 0))''],
      contract_primary_key ''dovecote_deliveries_pkey'' ''dovecote_deliveries'' [''event_row_id''] [''PRIMARY KEY (event_row_id)''],
      contract_check ''dovecote_deliveries_attempts'' ''dovecote_deliveries'' [''CHECK ((attempts >= 0))''],
      contract_check ''dovecote_deliveries_token_size'' ''dovecote_deliveries'' [''CHECK (((claim_token IS NULL) OR (octet_length(claim_token) = 16)))''],
      contract_check ''dovecote_deliveries_worker_size'' ''dovecote_deliveries'' [''CHECK (((claimed_by IS NULL) OR (octet_length((claimed_by)) <= 255)))''],
      contract_check ''dovecote_deliveries_failure_code_size'' ''dovecote_deliveries'' [''CHECK (((last_failure_code IS NULL) OR (octet_length((last_failure_code)) <= 128)))''],
      contract_check ''dovecote_deliveries_failure_detail_size'' ''dovecote_deliveries'' [''CHECK (((last_failure_detail IS NULL) OR (octet_length((last_failure_detail)) <= 2048)))''],
      contract_check ''dovecote_deliveries_quarantine_size'' ''dovecote_deliveries'' [''CHECK (((quarantine_reason IS NULL) OR (octet_length((quarantine_reason)) <= 2048)))''],
      contract_check ''dovecote_deliveries_failure_pair'' ''dovecote_deliveries'' [''CHECK (((last_failure_code IS NULL) = (last_failure_detail IS NULL)))''],
      contract_check ''dovecote_deliveries_state_shape'' ''dovecote_deliveries'' [''CHECK (((((state) = 'pending') AND (claim_token IS NULL) AND (claimed_by IS NULL) AND (claim_expires_at IS NULL) AND (delivered_at IS NULL) AND (quarantined_at IS NULL) AND (quarantine_reason IS NULL)) OR (((state) = 'claimed') AND (claim_token IS NOT NULL) AND (claimed_by IS NOT NULL) AND (claim_expires_at IS NOT NULL) AND (delivered_at IS NULL) AND (quarantined_at IS NULL) AND (quarantine_reason IS NULL)) OR (((state) = 'delivered') AND (claim_token IS NULL) AND (claimed_by IS NULL) AND (claim_expires_at IS NULL) AND (delivered_at IS NOT NULL) AND (quarantined_at IS NULL) AND (quarantine_reason IS NULL)) OR (((state) = 'quarantined') AND (claim_token IS NULL) AND (claimed_by IS NULL) AND (claim_expires_at IS NULL) AND (delivered_at IS NULL) AND (quarantined_at IS NOT NULL) AND (quarantine_reason IS NOT NULL))))''],
      contract_foreign_key ''dovecote_deliveries_event_fk'' ''dovecote_deliveries'' [''tenant_id'', ''event_row_id''] ''dovecote_events'' [''tenant_id'', ''row_id''] ''r'' [''FOREIGN KEY (tenant_id, event_row_id) REFERENCES dovecote_events (tenant_id, row_id) ON DELETE RESTRICT'']]"

definition expected_constraints :: "ConstraintContract list" where
  "expected_constraints = schema_constraints @ event_constraints @ delivery_constraints"

definition expected_indexes :: "IndexContract list" where
  "expected_indexes =
     [index_contract_new ''dovecote_events_tenant_source_event_id'' ''dovecote_events'' True
        [''tenant_id'', ''source'', ''event_id''] (Some [''C'', ''C'', ''C'']),
      index_contract_new ''dovecote_deliveries_claimable'' ''dovecote_deliveries'' False
        [''tenant_id'', ''state'', ''available_at'', ''event_row_id'']
        (Some [''C'', ''default'', ''default'', ''default'']),
      index_contract_new ''dovecote_deliveries_expired_claims'' ''dovecote_deliveries'' False
        [''tenant_id'', ''state'', ''claim_expires_at'', ''event_row_id'']
        (Some [''C'', ''default'', ''default'', ''default''])]"

section \<open>The check\<close>

definition is_expected_name :: "string \<Rightarrow> string list \<Rightarrow> bool" where
  "is_expected_name name expected \<longleftrightarrow> name \<in> set expected"

definition check_marker :: "pg_build \<Rightarrow> pg_catalog \<Rightarrow> PgSchemaError + unit" where
  "check_marker bld cat =
     and_then (map_err (pg_schema_error_sql ''check schema marker'') (cat_markers cat)) (\<lambda>markers.
     case markers of
       [marker] \<Rightarrow>
         and_then (map_err PSchMigrationMismatch (current_migration (pb_migrations bld))) (\<lambda>migration.
         map_err PSchMigrationMismatch (marker_matches_migration (pb_version bld) marker migration))
     | _ \<Rightarrow> Inl (PSchMigrationMismatch (''expected exactly one schema marker row, found ''
             @ nat_to_string (length markers))))"

definition check_constraints :: "pg_catalog \<Rightarrow> int \<Rightarrow> PgSchemaError + unit" where
  "check_constraints cat namespace_oid =
     and_then (map_err (pg_schema_error_sql ''check constraints'') (cat_constraints cat namespace_oid))
       (\<lambda>constraints.
     and_then (check_each (\<lambda>expected.
       case find (\<lambda>c. co_name c = cc_name expected) constraints of
         None \<Rightarrow> Inl (PSchMigrationMismatch (''required constraint '' @ cc_name expected @ '' is missing''))
       | Some actual \<Rightarrow>
           if \<not> constraint_matches actual expected
             then Inl (PSchMigrationMismatch
               (''required constraint '' @ cc_name expected @ '' is incompatible''))
           else Inr ()) expected_constraints) (\<lambda>_.
     case find (\<lambda>c. \<not> is_expected_name (co_name c) (map cc_name expected_constraints)) constraints of
       Some unexpected \<Rightarrow> Inl (PSchMigrationMismatch (''unexpected constraint '' @ co_name unexpected))
     | None \<Rightarrow> Inr ()))"

definition check_indexes :: "pg_catalog \<Rightarrow> int \<Rightarrow> PgSchemaError + unit" where
  "check_indexes cat namespace_oid =
     and_then (map_err (pg_schema_error_sql ''check indexes'') (cat_indexes cat namespace_oid))
       (\<lambda>indexes.
     and_then (check_each (\<lambda>expected.
       case find (\<lambda>i. ix_name i = ic_name expected) indexes of
         None \<Rightarrow> Inl (PSchMigrationMismatch (''required index '' @ ic_name expected @ '' is missing''))
       | Some actual \<Rightarrow>
           if \<not> index_matches actual expected
             then Inl (PSchMigrationMismatch (''required index '' @ ic_name expected @ '' is incompatible''))
           else Inr ()) expected_indexes) (\<lambda>_.
     case find (\<lambda>i. \<not> is_expected_name (ix_name i) (map ic_name expected_indexes)) indexes of
       Some unexpected \<Rightarrow> Inl (PSchMigrationMismatch (''unexpected index '' @ ix_name unexpected))
     | None \<Rightarrow> Inr ()))"

definition pg_check_schema_connection :: "pg_build \<Rightarrow> pg_catalog \<Rightarrow> PgSchemaError + unit" where
  "pg_check_schema_connection bld cat =
     and_then (resolve_namespace cat) (\<lambda>namespace.
     and_then (pg_check_columns cat (ns_name namespace) ''dovecote_schema'' marker_columns) (\<lambda>_.
     and_then (check_marker bld cat) (\<lambda>_.
     and_then (pg_check_columns cat (ns_name namespace) ''dovecote_events'' pg_event_column_specs) (\<lambda>_.
     and_then (pg_check_columns cat (ns_name namespace) ''dovecote_deliveries'' pg_delivery_column_specs) (\<lambda>_.
     and_then (check_constraints cat (ns_oid namespace)) (\<lambda>_.
     check_indexes cat (ns_oid namespace)))))))"

definition pg_check_schema :: "pg_build \<Rightarrow> pg_catalog \<Rightarrow> PgSchemaError + unit" where
  "pg_check_schema bld cat =
     and_then (map_err (pg_schema_error_sql ''acquire schema-check connection'') (run_or (cat_acquire cat) ()))
       (\<lambda>_. pg_check_schema_connection bld cat)"

section \<open>What an accepted catalog has\<close>

definition columns_accepted :: "pg_ColumnSpec list \<Rightarrow> ColumnInfo list \<Rightarrow> bool" where
  "columns_accepted expected columns =
     meets ci_column_name cs_name (\<lambda>c s. column_compatible s c) columns expected"

definition constraints_accepted :: "ConstraintInfo list \<Rightarrow> bool" where
  "constraints_accepted constraints = meets co_name cc_name constraint_matches constraints expected_constraints"

definition indexes_accepted :: "IndexInfo list \<Rightarrow> bool" where
  "indexes_accepted indexes = meets ix_name ic_name index_matches indexes expected_indexes"

definition marker_accepted :: "pg_build \<Rightarrow> PgSchemaMarker \<Rightarrow> bool" where
  "marker_accepted bld marker \<longleftrightarrow> (\<exists>migration. current_migration (pb_migrations bld) = Inr migration
     \<and> marker_matches_migration (pb_version bld) marker migration = Inr ())"

definition domain_columns :: "(string \<times> pg_ColumnSpec list) list" where
  "domain_columns = [(''dovecote_schema'', marker_columns), (''dovecote_events'', pg_event_column_specs),
     (''dovecote_deliveries'', pg_delivery_column_specs)]"

definition schema_accepted :: "pg_build \<Rightarrow> pg_catalog \<Rightarrow> bool" where
  "schema_accepted bld cat \<longleftrightarrow> (\<exists>ns markers constraints indexes. cat_namespace cat = Inr (Some ns)
     \<and> (\<forall>(table, specs) \<in> set domain_columns. \<exists>columns.
          cat_columns cat (ns_name ns) table = Inr columns \<and> columns_accepted specs columns)
     \<and> cat_markers cat = Inr [markers] \<and> marker_accepted bld markers
     \<and> cat_constraints cat (ns_oid ns) = Inr constraints \<and> constraints_accepted constraints
     \<and> cat_indexes cat (ns_oid ns) = Inr indexes \<and> indexes_accepted indexes)"

text \<open>The answers list no name twice.\<close>

definition catalog_distinct :: "pg_catalog \<Rightarrow> bool" where
  "catalog_distinct cat \<longleftrightarrow>
     (\<forall>name table columns. cat_columns cat name table = Inr columns \<longrightarrow> distinct (map ci_column_name columns))
     \<and> (\<forall>oid constraints. cat_constraints cat oid = Inr constraints \<longrightarrow> distinct (map co_name constraints))
     \<and> (\<forall>oid indexes. cat_indexes cat oid = Inr indexes \<longrightarrow> distinct (map ix_name indexes))"

lemma pg_check_columns_iff:
  assumes "catalog_distinct cat"
  shows "pg_check_columns cat name table expected = Inr u \<longleftrightarrow>
    (\<exists>columns. cat_columns cat name table = Inr columns \<and> columns_accepted expected columns)"
proof (cases "cat_columns cat name table")
  case (Inr columns)
  then have d: "distinct (map ci_column_name columns)" using assms by (auto simp: catalog_distinct_def)
  show ?thesis
    unfolding pg_check_columns_def check_iffs columns_accepted_def meets_iff
    by (simp add: Inr list_ex_iff check_found_iff [OF d, where name = cs_name and fits = "\<lambda>c s. column_compatible s c"])
qed (simp add: pg_check_columns_def)

lemma check_constraints_iff:
  assumes "catalog_distinct cat"
  shows "check_constraints cat oid = Inr u \<longleftrightarrow>
    (\<exists>constraints. cat_constraints cat oid = Inr constraints \<and> constraints_accepted constraints)"
proof (cases "cat_constraints cat oid")
  case (Inr cs)
  then have d: "distinct (map co_name cs)" using assms by (auto simp: catalog_distinct_def)
  show ?thesis
    unfolding check_constraints_def check_iffs constraints_accepted_def meets_names_iff
    by (simp add: Inr is_expected_name_def conj_commute
        check_found_iff [OF d, where name = cc_name and fits = constraint_matches])
qed (simp add: check_constraints_def)

lemma check_indexes_iff:
  assumes "catalog_distinct cat"
  shows "check_indexes cat oid = Inr u \<longleftrightarrow>
    (\<exists>indexes. cat_indexes cat oid = Inr indexes \<and> indexes_accepted indexes)"
proof (cases "cat_indexes cat oid")
  case (Inr xs)
  then have d: "distinct (map ix_name xs)" using assms by (auto simp: catalog_distinct_def)
  show ?thesis
    unfolding check_indexes_def check_iffs indexes_accepted_def meets_names_iff
    by (simp add: Inr is_expected_name_def conj_commute
        check_found_iff [OF d, where name = ic_name and fits = index_matches])
qed (simp add: check_indexes_def)

lemma check_marker_iff:
  "check_marker bld cat = Inr u \<longleftrightarrow>
    (\<exists>marker. cat_markers cat = Inr [marker] \<and> marker_accepted bld marker)"
proof (cases "cat_markers cat")
  case (Inr ms)
  then show ?thesis
    by (cases ms; cases "tl ms") (auto simp: check_marker_def marker_accepted_def check_iffs)
qed (simp add: check_marker_def)

lemma pg_check_schema_connection_iff:
  assumes "catalog_distinct cat"
  shows "pg_check_schema_connection bld cat = Inr () \<longleftrightarrow> schema_accepted bld cat"
  unfolding pg_check_schema_connection_def and_then_Inr_iff resolve_namespace_def map_err_Inr_iff ok_or_Inr_iff
    pg_check_columns_iff [OF assms] check_constraints_iff [OF assms] check_indexes_iff [OF assms] check_marker_iff
    schema_accepted_def domain_columns_def
  by auto

end
