(* ===== verification/Postgres_Import.thy ===== *)
theory Postgres_Import
  imports Postgres_Enqueue Postgres_Schema
begin

text \<open>
  \<open>crates/dovecote-sqlx-postgres/src/import.rs\<close>, \<open>finalize.rs\<close> and \<open>delivery_state.rs\<close>: the
  migration workflow in a transaction of the caller. Statement 0 is the tenant binding of the
  scoped handle. The schema check reads only the catalog.
\<close>

section \<open>Stored deliveries\<close>

definition existing_delivery :: "pg_env \<Rightarrow> int delivery_row \<Rightarrow> int delivery_row" where
  "existing_delivery env = decode_delivery (pg_instant env)"

definition pg_matches_import :: "pg_env \<Rightarrow> int delivery_row \<Rightarrow> ImportedDeliveryState \<Rightarrow> int \<Rightarrow> bool" where
  "pg_matches_import env row state enqueued_at =
     matches_import_with unix_nanos (existing_delivery env row) state (pg_instant env enqueued_at)"

section \<open>Import\<close>

fun pg_import_schema_error :: "PgSchemaError \<Rightarrow> PgImportError" where
  "pg_import_schema_error (PSchMigrationMismatch detail) = PImpMigrationMismatch detail"
| "pg_import_schema_error (PSchSql operation source) = PImpSql operation source"
| "pg_import_schema_error (PSchTransient operation kind source) = PImpTransient operation kind source"

definition pg_import_hydrate_error :: "hydrate_error \<Rightarrow> PgImportError" where
  "pg_import_hydrate_error e = (case e of HErr d \<Rightarrow> PImpSerialization d | HPanic \<Rightarrow> PImpPanic)"

definition pg_import_row_id :: "int \<Rightarrow> PgImportError + RowId" where
  "pg_import_row_id v = map_err (\<lambda>e. PImpSerialization (verror_to_string e)) (row_id_new v)"

text \<open>The checks and reads before the insert, which yield the operation time as it is bound.\<close>

definition pg_import_prepare ::
  "pg_build \<Rightarrow> pg_catalog \<Rightarrow> pg_env \<Rightarrow> ImportedDeliveryState \<Rightarrow> (PgImportError, int) pg_action" where
  "pg_import_prepare bld cat env state =
     tx_then (tx_return (map_err PImpInvalidState (imported_validate state))) (\<lambda>_.
     tx_then (tx_return (map_err pg_import_schema_error (pg_check_schema_connection bld cat))) (\<lambda>_.
     tx_then (tx_map_err (pg_import_error_sql ''read import operation time'')
       (pg_query env ''read import operation time'' 1 (\<lambda>_. pg_clock env 1))) (\<lambda>time.
     tx_then (tx_return (map_err PImpInvalidState (imported_delivered (pg_decode env time)))) (\<lambda>_.
     tx_return (Inr (pg_encode env (pg_decode env time)))))))"

definition pg_insert_imported ::
  "pg_env \<Rightarrow> TenantId \<Rightarrow> int \<Rightarrow> int \<Rightarrow> ImportedDeliveryState \<Rightarrow> (PgImportError, unit) pg_action" where
  "pg_insert_imported env tenant event_row_id operation_time state =
     tx_map_err (pg_import_error_sql ''insert imported delivery'')
       (pg_insert_delivery env ''insert imported delivery'' 3
         (imported_delivery_with (pg_encode env) (tenant_id_str tenant) event_row_id operation_time state))"

definition pg_import_existing ::
  "ext_lib \<Rightarrow> pg_env \<Rightarrow> TenantId \<Rightarrow> NewEvent \<Rightarrow> ImportedDeliveryState \<Rightarrow> (PgImportError, ImportOutcome) pg_action" where
  "pg_import_existing lib env tenant event state =
     tx_then (tx_map_err (pg_import_error_sql ''find imported event'')
       (pg_query env ''find imported event'' 4 (pg_find_event tenant event))) (\<lambda>found.
     tx_then (tx_return (ok_or (pg_import_error_sql ''resolve imported event''
         (SqlxProtocol ''identity insert returned no row'')) found)) (\<lambda>existing.
     tx_then (tx_return (pg_import_row_id (er_row_id existing))) (\<lambda>existing_id.
     tx_then (tx_return (map_err pg_import_hydrate_error
         (pg_validate_existing_event lib env existing))) (\<lambda>_.
     if \<not> pg_same_event lib env event existing
       then tx_return (Inl (PImpIdentityConflict existing_id))
     else
     tx_then (tx_map_err (pg_import_error_sql ''find imported delivery'')
       (pg_query env ''find imported delivery'' 5 (pg_find_delivery tenant (er_row_id existing)))) (\<lambda>found.
     tx_then (tx_return (ok_or (PImpMigrationMismatch ''an existing event has no delivery row'') found))
       (\<lambda>delivery.
     tx_return (if pg_matches_import env delivery state (er_enqueued_at existing)
       then Inr (AlreadyImported existing_id) else Inl (PImpImportConflict existing_id))))))))"

definition pg_import_for_scope ::
  "ext_lib \<Rightarrow> pg_build \<Rightarrow> pg_catalog \<Rightarrow> pg_env \<Rightarrow> TenantId \<Rightarrow> NewEvent \<Rightarrow> ImportedDeliveryState
     \<Rightarrow> (PgImportError, ImportOutcome) pg_action" where
  "pg_import_for_scope lib bld cat env tenant event state =
     tx_then (pg_import_prepare bld cat env state) (\<lambda>operation_time.
     tx_then (tx_map_err (pg_import_error_sql ''insert imported event'')
       (pg_insert_event env ''insert imported event'' 2
         (pg_event_columns lib env tenant event operation_time))) (\<lambda>inserted.
     case inserted of
       Some row \<Rightarrow>
         tx_then (tx_return (pg_import_row_id (er_row_id row))) (\<lambda>row_id.
         tx_then (pg_insert_imported env tenant (er_row_id row) operation_time state) (\<lambda>_.
         tx_return (Inr (Imported row_id))))
     | None \<Rightarrow> pg_import_existing lib env tenant event state))"

section \<open>Finalisation\<close>

fun pg_finalize_schema_error :: "PgSchemaError \<Rightarrow> PgFinalizeError" where
  "pg_finalize_schema_error (PSchMigrationMismatch detail) = PFinMigrationMismatch detail"
| "pg_finalize_schema_error (PSchSql operation source) = PFinSql operation source"
| "pg_finalize_schema_error (PSchTransient operation kind source) = PFinTransient operation kind source"

text \<open>\<open>SELECT ... FOR UPDATE\<close> of the delivery.\<close>

definition pg_lock_finalized ::
  "pg_env \<Rightarrow> TenantId \<Rightarrow> RowId \<Rightarrow> (PgFinalizeError, int delivery_row) pg_action" where
  "pg_lock_finalized env tenant row_id =
     tx_then (tx_map_err (pg_finalize_error_sql ''lock migration delivery'')
       (pg_statement env ''lock migration delivery'' 2 (\<lambda>t.
         let found = pg_find_delivery tenant (row_id_get row_id) (tx_view t) in
         (Inr found, tx_lock (case found of None \<Rightarrow> [] | Some d \<Rightarrow> [dr_event_row_id d]) t)))) (\<lambda>found.
     tx_return (ok_or (PFinMigrationMismatch ''an existing event has no delivery row'') found))"

text \<open>The verdict on the locked delivery, and its update.\<close>

definition pg_finalize_row ::
  "pg_env \<Rightarrow> TenantId \<Rightarrow> RowId \<Rightarrow> offset_date_time \<Rightarrow> int event_row \<Rightarrow> int delivery_row
     \<Rightarrow> (PgFinalizeError, FinalizeOutcome) pg_action" where
  "pg_finalize_row env tenant row_id delivered_at event delivery =
     (let row = existing_delivery env delivery; enqueued_at = pg_instant env (er_enqueued_at event) in
     if dr_state row = ''delivered'' \<and> canonical row enqueued_at
       \<and> dr_delivered_at row = Some (unix_nanos delivered_at)
       then tx_return (Inr (AlreadyFinalized row_id))
     else if \<not> canonical_pending row enqueued_at then tx_return (Inl (PFinStateConflict row_id))
     else
     tx_then (tx_map_err (pg_finalize_error_sql ''finalize migration delivery'')
       (pg_statement env ''finalize migration delivery'' 3
         (pg_update False
           (finalize_where (tenant_id_str tenant) (row_id_get row_id)
             (pg_encode env (pg_decode env (er_enqueued_at event))))
           (finalize_set (pg_encode env delivered_at))))) (\<lambda>changed.
     tx_return (if length changed \<noteq> 1 then Inl (PFinStateConflict row_id)
       else Inr (Finalized row_id))))"

definition pg_finalize_for_scope ::
  "pg_build \<Rightarrow> pg_catalog \<Rightarrow> pg_env \<Rightarrow> TenantId \<Rightarrow> RowId \<Rightarrow> offset_date_time
     \<Rightarrow> (PgFinalizeError, FinalizeOutcome) pg_action" where
  "pg_finalize_for_scope bld cat env tenant row_id delivered_at =
     tx_then (tx_return (map_err PFinInvalidTimestamp (imported_delivered delivered_at))) (\<lambda>_.
     tx_then (tx_return (map_err pg_finalize_schema_error (pg_check_schema_connection bld cat))) (\<lambda>_.
     tx_then (tx_map_err (pg_finalize_error_sql ''lock migration event'')
       (pg_query env ''lock migration event'' 1 (\<lambda>db. find_event db (tenant_id_str tenant) (row_id_get row_id))))
       (\<lambda>found.
     tx_then (tx_return (ok_or PFinNotFound found)) (\<lambda>event.
     tx_then (pg_lock_finalized env tenant row_id) (\<lambda>delivery.
     pg_finalize_row env tenant row_id delivered_at event delivery)))))"

section \<open>Consistent transactions\<close>

lemma reads_only_import_prepare: "reads_only (pg_import_prepare bld cat env state)"
  unfolding pg_import_prepare_def by (intro reads_only_intros)

lemma reads_only_import_existing: "reads_only (pg_import_existing lib env tenant event state)"
  unfolding pg_import_existing_def by (intro reads_only_intros)

lemma tx_runs_import_prepare: "pg_peers_ok env \<Longrightarrow> tx_runs (pg_import_prepare bld cat env state)"
  unfolding pg_import_prepare_def by (intro pg_runs)

lemma tx_runs_import_existing: "pg_peers_ok env \<Longrightarrow> tx_runs (pg_import_existing lib env tenant event state)"
  unfolding pg_import_existing_def by (intro pg_runs tx_runs_if)

lemma tx_runs_import: "pg_peers_ok env \<Longrightarrow> tx_runs (pg_import_for_scope lib bld cat env tenant event state)"
  unfolding pg_import_for_scope_def pg_insert_imported_def
  by (intro tx_runs_then tx_runs_import_prepare tx_runs_map_err tx_runs_insert_event)
    (auto split: option.split intro!: tx_runs_import_existing pg_runs)

lemma tx_runs_lock_finalized: "pg_peers_ok env \<Longrightarrow> tx_runs (pg_lock_finalized env tenant row_id)"
  unfolding pg_lock_finalized_def
  by (intro tx_runs_then tx_runs_map_err tx_runs_return tx_runs_statement)
    (auto simp: tx_runs_def Let_def tx_extends_lock)

lemma tx_runs_pg_finalize_update:
  "tx_runs (pg_update ovf (finalize_where tenant rid q) (finalize_set x))"
  by (rule tx_runs_pg_update [where n = rid]) (auto simp: finalize_where_def finalize_set_def)

lemma tx_runs_finalize:
  assumes "pg_peers_ok env"
  shows "tx_runs (pg_finalize_for_scope bld cat env tenant row_id delivered_at)"
  unfolding pg_finalize_for_scope_def pg_finalize_row_def Let_def
  by (intro pg_runs tx_runs_if tx_runs_lock_finalized tx_runs_statement tx_runs_pg_finalize_update assms)

section \<open>What an import writes\<close>

lemma pg_import_Inr:
  assumes "pg_import_for_scope lib bld cat env tenant event state t = (Inr out, t')"
  obtains
    (existing) now t1 t2 where "pg_import_prepare bld cat env state t = (Inr now, t1)"
      "pg_insert_event env ''insert imported event'' 2 (pg_event_columns lib env tenant event now) t1 = (Inr None, t2)"
      "pg_import_existing lib env tenant event state t2 = (Inr out, t')"
  | (inserted) now t1 t2 row rid where "pg_import_prepare bld cat env state t = (Inr now, t1)"
      "pg_insert_event env ''insert imported event'' 2 (pg_event_columns lib env tenant event now) t1
         = (Inr (Some row), t2)"
      "row_id_new (er_row_id row) = Inr rid"
      "pg_insert_delivery env ''insert imported delivery'' 3 (imported_delivery_with (pg_encode env)
         (tenant_id_str tenant) (er_row_id row) now state) t2 = (Inr (), t')"
      "out = Imported rid"
proof -
  from assms obtain now t1 t2 ins where 1: "pg_import_prepare bld cat env state t = (Inr now, t1)"
    and 2: "pg_insert_event env ''insert imported event'' 2 (pg_event_columns lib env tenant event now) t1
       = (Inr ins, t2)"
    and 3: "(case ins of Some row \<Rightarrow>
         tx_then (tx_return (pg_import_row_id (er_row_id row))) (\<lambda>row_id.
         tx_then (pg_insert_imported env tenant (er_row_id row) now state) (\<lambda>_.
         tx_return (Inr (Imported row_id))))
     | None \<Rightarrow> pg_import_existing lib env tenant event state) t2 = (Inr out, t')"
    unfolding pg_import_for_scope_def tx_then_Inr_iff [of "pg_import_prepare bld cat env state"]
      tx_then_Inr_iff [of "tx_map_err f m" for f m] tx_map_err_Inr_iff by auto
  show thesis
  proof (cases ins)
    case None
    then show thesis using 1 2 3 existing by simp
  next
    case (Some row)
    then show thesis
      using 1 2 3 inserted
      by (auto simp: action_simps pg_import_row_id_def map_err_Inr_iff pg_insert_imported_def)
  qed
qed

lemma pg_import_existing_Inr:
  assumes "pg_import_existing lib env tenant event state t = (Inr out, t')"
  obtains r d t1 where "t1 = tx_peer (pg_peer env 4) t" "t' = tx_peer (pg_peer env 5) t1"
    "pg_find_event tenant event (tx_view t1) = Some r" "out = AlreadyImported (RowId (er_row_id r))"
    "pg_same_event lib env event r" "pg_find_delivery tenant (er_row_id r) (tx_view t') = Some d"
    "pg_matches_import env d state (er_enqueued_at r)"
  using assms unfolding pg_import_existing_def tx_then_return tx_then_Inr_iff tx_map_err_Inr_iff pg_query_Inr
  by (auto simp: ok_or_Inr_iff map_err_Inr_iff row_id_new_Inr_iff tx_then_Inr_iff tx_map_err_Inr_iff
      pg_import_row_id_def pg_query_Inr split: if_splits intro: that)

lemma pg_import_Imported:
  assumes "pg_peers_ok env" "tx_ok t"
    and run: "pg_import_for_scope lib bld cat env tenant event state t = (Inr (Imported rid), t')"
  shows "\<exists>now. rid = RowId (pg_row_id env)
    \<and> tx_events t' = tx_events t @ [pg_event_columns lib env tenant event now]
    \<and> tx_deliveries t' = tx_deliveries t
        @ [imported_delivery_with (pg_encode env) (tenant_id_str tenant) (pg_row_id env) now state]
    \<and> find_delivery (tx_db t') (pg_row_id env) = None"
proof -
  from run obtain now t1 t2 row where
    v: "pg_import_prepare bld cat env state t = (Inr now, t1)"
    and i: "pg_insert_event env ''insert imported event'' 2 (pg_event_columns lib env tenant event now) t1
         = (Inr (Some row), t2)"
    and rid: "row_id_new (er_row_id row) = Inr rid"
    and d: "pg_insert_delivery env ''insert imported delivery'' 3 (imported_delivery_with (pg_encode env)
         (tenant_id_str tenant) (er_row_id row) now state) t2 = (Inr (), t')"
    by (elim pg_import_Inr) (auto elim: pg_import_existing_Inr)
  have ext: "tx_extends t t1" by (rule tx_runsD [OF tx_runs_import_prepare [OF assms(1)] assms(2) v])
  have own: "own_writes t1 = own_writes t" by (rule reads_onlyD [OF reads_only_import_prepare v])
  note pair = pg_insert_pair [OF assms(1) tx_extends_ok [OF ext assms(2)] i d]
  have "rid = RowId (pg_row_id env)" using rid pair(1) by (simp add: row_id_new_Inr_iff)
  then show ?thesis using pair own by (intro exI [of _ now]) (simp add: own_writes_def)
qed

lemma pg_import_AlreadyImported:
  assumes "pg_peers_ok env" "tx_ok t"
    and run: "pg_import_for_scope lib bld cat env tenant event state t = (Inr (AlreadyImported rid), t')"
  shows "own_writes t' = own_writes t"
proof -
  from run obtain now t1 t2 where v: "pg_import_prepare bld cat env state t = (Inr now, t1)"
    and i: "pg_insert_event env ''insert imported event'' 2 (pg_event_columns lib env tenant event now) t1
       = (Inr None, t2)"
    and ex: "pg_import_existing lib env tenant event state t2 = (Inr (AlreadyImported rid), t')"
    by (elim pg_import_Inr) auto
  note ok1 = tx_extends_ok [OF tx_runsD [OF tx_runs_import_prepare [OF assms(1)] assms(2) v] assms(2)]
  from assms(1) ok1 i have "own_writes t2 = own_writes t1"
    by (cases rule: pg_insert_event_cases) auto
  then show ?thesis
    using reads_onlyD [OF reads_only_import_prepare v] reads_onlyD [OF reads_only_import_existing ex] by simp
qed

section \<open>What a finalisation writes\<close>

text \<open>
  \<open>s\<close> is the transaction as the UPDATE saw it; the delivery is the untouched pending one and only
  its state and delivery time change.
\<close>

lemma pg_finalize_Inr:
  assumes "pg_peers_ok env" "tx_ok t"
    and run: "pg_finalize_for_scope bld cat env tenant row_id delivered_at t = (Inr out, t')"
  obtains (already) "out = AlreadyFinalized row_id" "own_writes t' = own_writes t"
  | (finalized) s d q where "out = Finalized row_id" "tx_extends t s" "own_writes s = own_writes t"
      "find_delivery (tx_view s) (row_id_get row_id) = Some d" "dr_tenant_id d = tenant_id_str tenant"
      "canonical_pending d q"
      "t' = tx_put (d\<lparr>dr_state := ''delivered'', dr_delivered_at := Some (pg_encode env delivered_at)\<rparr>) s"
proof -
  from run obtain event delivery t2 where
    lock: "pg_lock_finalized env tenant row_id (tx_peer (pg_peer env 1) t) = (Inr delivery, t2)"
    and rest: "pg_finalize_row env tenant row_id delivered_at event delivery t2 = (Inr out, t')"
    unfolding pg_finalize_for_scope_def tx_then_Inr_iff tx_map_err_Inr_iff pg_query_Inr tx_return_iff
    by auto
  have ok1: "tx_ok (tx_peer (pg_peer env 1) t)" by (rule pg_ok_peer [OF assms(1,2)])
  have ext: "tx_extends t t2"
    using tx_runsD [OF tx_runs_lock_finalized [OF assms(1)] ok1 lock] tx_extends_trans
      [OF pg_extends_peer [OF assms(1)]] by blast
  have own: "own_writes t2 = own_writes t"
    using lock by (auto simp: pg_lock_finalized_def tx_then_Inr_iff tx_map_err_Inr_iff pg_statement_Inr Let_def
        own_writes_def tx_lock_def)
  let ?s = "tx_peer (pg_peer env 3) t2" and ?x = "pg_encode env delivered_at"
  have ok3: "tx_ok ?s" by (rule pg_ok_peer [OF assms(1) tx_extends_ok [OF ext assms(2)]])
  from rest consider (already) "out = AlreadyFinalized row_id" "t' = t2"
    | (changed) rows q where "tx_update (finalize_where (tenant_id_str tenant) (row_id_get row_id) q) (finalize_set ?x) ?s
        = (Inr rows, t')" "length rows = 1" "out = Finalized row_id"
    by (auto simp: pg_finalize_row_def Let_def tx_then_Inr_iff tx_map_err_Inr_iff pg_statement_Inr pg_update_Inr
        split: if_splits)
  then show thesis
  proof cases
    case already
    then show thesis using that(1) own by simp
  next
    case changed
    have "rows \<noteq> []" using changed(2) by auto
    with ok3 changed(1) obtain d where
      "find_delivery (tx_view ?s) (row_id_get row_id) = Some d" "dr_tenant_id d = tenant_id_str tenant"
      "canonical_pending d q" "t' = tx_put (d\<lparr>dr_state := ''delivered'', dr_delivered_at := Some ?x\<rparr>) ?s"
      by (rule tx_update_finalize)
    then show thesis
      using that(2) [of ?s d q] changed(3) tx_extends_trans [OF ext pg_extends_peer [OF assms(1)]] own
      by simp
  qed
qed

end
