(* ===== verification/Adapter_Batch.thy ===== *)
theory Adapter_Batch
  imports Adapter_Transaction
begin

text \<open>
  The second loop of a claim on a server: one write per prepared claim, each in a statement of its
  own, in a transaction that runs beside others. \<open>step n p\<close> is the adapter's body for claim \<open>p\<close>, the
  \<open>n\<close>-th. The interface \<open>claim_writer\<close> says what it does to a row that is locked; the effect of the
  whole loop follows for every adapter that meets it.
\<close>

fun apply_claims_with ::
  "(nat \<Rightarrow> prepared_claim \<Rightarrow> ('t, 'e, ClaimedEvent) action_of) \<Rightarrow> nat \<Rightarrow> prepared_claim list
     \<Rightarrow> ('t, 'e, ClaimedEvent list) action_of" where
  "apply_claims_with step n [] = tx_return (Inr [])"
| "apply_claims_with step n (p # ps) =
     tx_then (step n p) (\<lambda>claimed_event.
     tx_then (apply_claims_with step (Suc n) ps) (\<lambda>claimed.
     tx_return (Inr (claimed_event # claimed))))"

text \<open>Each row of the batch is committed, and its UPDATE would find it.\<close>

definition batch_found :: "'t db \<Rightarrow> prepared_claim list \<Rightarrow> bool" where
  "batch_found db ps \<longleftrightarrow>
     (\<forall>p \<in> set ps. \<exists>d. find_delivery db (pc_event_row_id p) = Some d \<and> claim_update_where p d)"

text \<open>\<open>honest\<close> is what the adapter assumes of the other sessions.\<close>

locale claim_writer =
  fixes honest :: bool
    and step :: "nat \<Rightarrow> prepared_claim \<Rightarrow> ('t, 'e, ClaimedEvent) action_of"
    and expiry :: "'t option"
    and worker :: WorkerId
  assumes step_runs: "honest \<Longrightarrow> tx_runs (step n p)"
    and step_Inr: "honest \<Longrightarrow> tx_ok t \<Longrightarrow> step n p t = (Inr c, t') \<Longrightarrow>
      pc_event_row_id p \<in> set (tx_locked t) \<Longrightarrow> row_in (tx_deliveries t) (pc_event_row_id p) = None \<Longrightarrow>
      find_delivery (tx_db t) (pc_event_row_id p) = Some d \<Longrightarrow> claim_update_where p d \<Longrightarrow>
      claimed_from worker p c \<and> tx_events t' = tx_events t
      \<and> (\<forall>r. row_in (tx_deliveries t') r = (if r = pc_event_row_id p
           then Some (claim_update_row expiry worker p d) else row_in (tx_deliveries t) r))"
begin

lemma apply_runs: "honest \<Longrightarrow> tx_runs (apply_claims_with step n ps)"
  by (induction ps arbitrary: n) (auto intro!: tx_runs_then step_runs)

text \<open>
  All writes: each claimed row is the committed one rewritten, and what is committed of it has
  not changed since it was locked.
\<close>

lemma apply_Inr:
  assumes honest "tx_ok t" "apply_claims_with step n ps t = (Inr claimed, t')"
    and "pc_event_row_id ` set ps \<subseteq> set (tx_locked t)"
    and "\<forall>p \<in> set ps. row_in (tx_deliveries t) (pc_event_row_id p) = None"
    and "distinct (map pc_event_row_id ps)" "batch_found (tx_db t) ps"
  shows "list_all2 (claimed_from worker) ps claimed \<and> tx_events t' = tx_events t
    \<and> (\<forall>r. row_in (tx_deliveries t') r = (case find (\<lambda>p. pc_event_row_id p = r) ps of
         None \<Rightarrow> row_in (tx_deliveries t) r
       | Some p \<Rightarrow> map_option (claim_update_row expiry worker p) (find_delivery (tx_db t) r)))"
  using assms(2-)
proof (induction ps arbitrary: n t claimed)
  case Nil
  then show ?case by simp
next
  case (Cons p ps)
  let ?id = "pc_event_row_id p"
  from Cons.prems(2) obtain t1 c cs where u: "step n p t = (Inr c, t1)"
    and tail: "apply_claims_with step (Suc n) ps t1 = (Inr cs, t')" and cl: "claimed = c # cs"
    unfolding apply_claims_with.simps action_simps by auto
  obtain d where d: "find_delivery (tx_db t) ?id = Some d" "claim_update_where p d"
    using Cons.prems(6) unfolding batch_found_def by (metis list.set_intros(1))
  have one: "claimed_from worker p c \<and> tx_events t1 = tx_events t
      \<and> (\<forall>r. row_in (tx_deliveries t1) r = (if r = ?id
           then Some (claim_update_row expiry worker p d) else row_in (tx_deliveries t) r))"
    by (rule step_Inr [OF assms(1) Cons.prems(1) u _ _ d]) (use Cons.prems in auto)
  have ext: "tx_extends t t1" by (rule tx_runsD [OF step_runs [OF assms(1)] Cons.prems(1) u])
  have others: "pc_event_row_id q \<noteq> ?id" if "q \<in> set ps" for q
    using Cons.prems(5) that by (metis distinct.simps(2) image_eqI list.set_map list.simps(9))
  have same: "find_delivery (tx_db t1) r = find_delivery (tx_db t) r" if "r \<in> set (tx_locked t)" for r
    using ext that by (simp add: tx_extends_def)
  have IH: "list_all2 (claimed_from worker) ps cs \<and> tx_events t' = tx_events t1
    \<and> (\<forall>r. row_in (tx_deliveries t') r = (case find (\<lambda>p. pc_event_row_id p = r) ps of
         None \<Rightarrow> row_in (tx_deliveries t1) r
       | Some p \<Rightarrow> map_option (claim_update_row expiry worker p) (find_delivery (tx_db t1) r)))"
  proof (rule Cons.IH [OF tx_extends_ok [OF ext Cons.prems(1)] tail])
    show "pc_event_row_id ` set ps \<subseteq> set (tx_locked t1)"
      using Cons.prems(3) ext by (auto simp: tx_extends_def)
    show "\<forall>p \<in> set ps. row_in (tx_deliveries t1) (pc_event_row_id p) = None"
      using Cons.prems(4) others one by simp
    show "distinct (map pc_event_row_id ps)" using Cons.prems(5) by simp
    show "batch_found (tx_db t1) ps"
      using Cons.prems(3,6) same by (auto simp: batch_found_def)
  qed
  have "row_in (tx_deliveries t') r = (case find (\<lambda>p. pc_event_row_id p = r) (p # ps) of
         None \<Rightarrow> row_in (tx_deliveries t) r
       | Some p \<Rightarrow> map_option (claim_update_row expiry worker p) (find_delivery (tx_db t) r))" for r
  proof (cases "find (\<lambda>p. pc_event_row_id p = r) ps")
    case None
    then have "row_in (tx_deliveries t') r = row_in (tx_deliveries t1) r" using IH by simp
    then show ?thesis using None d(1) one by auto
  next
    case (Some q)
    have q: "q \<in> set ps" "pc_event_row_id q = r" using find_Some_in [OF Some] by auto
    then have "row_in (tx_deliveries t') r = map_option (claim_update_row expiry worker q)
        (find_delivery (tx_db t1) r)" using IH Some by simp
    then show ?thesis using Some q others [of q] same [of r] Cons.prems(3) by auto
  qed
  then show ?case using IH cl one by simp
qed

text \<open>
  In a transaction that has only read before, the loop takes what is committed at its end to the
  view, and the rows it writes have been kept from others since they were locked.
\<close>

lemma apply_effect:
  assumes honest "tx_ok t" and run: "apply_claims_with step n ps t = (Inr claimed, t')"
    and own: "own_writes t = ([], [])" and lock: "pc_event_row_id ` set ps \<subseteq> set (tx_locked t)"
    and dist: "distinct (map pc_event_row_id ps)" and found: "batch_found (tx_db t) ps"
  shows "list_all2 (claimed_from worker) ps claimed" and "tx_events t' = []"
    and "claims_effect expiry worker ps (tx_db t') (tx_view t')"
    and "\<And>p. p \<in> set ps \<Longrightarrow>
      find_delivery (tx_db t') (pc_event_row_id p) = find_delivery (tx_db t) (pc_event_row_id p)"
proof -
  have nil: "row_in (tx_deliveries t) r = None" "tx_events t = []" for r
    using own by (simp_all add: own_writes_def row_in_def)
  have ext: "tx_extends t t'" by (rule tx_runsD [OF apply_runs [OF assms(1)] assms(2) run])
  then show same: "find_delivery (tx_db t') (pc_event_row_id p) = find_delivery (tx_db t) (pc_event_row_id p)"
    if "p \<in> set ps" for p
    using lock that by (auto simp: tx_extends_def)
  have eff: "list_all2 (claimed_from worker) ps claimed \<and> tx_events t' = tx_events t
    \<and> (\<forall>r. row_in (tx_deliveries t') r = (case find (\<lambda>p. pc_event_row_id p = r) ps of
         None \<Rightarrow> row_in (tx_deliveries t) r
       | Some p \<Rightarrow> map_option (claim_update_row expiry worker p) (find_delivery (tx_db t) r)))"
    by (rule apply_Inr [OF assms(1,2) run lock _ dist found]) (simp add: nil)
  then show "list_all2 (claimed_from worker) ps claimed" "tx_events t' = []" by (simp_all add: nil)
  have "find_delivery (tx_view t') r = (case find (\<lambda>p. pc_event_row_id p = r) ps of
        None \<Rightarrow> find_delivery (tx_db t') r
      | Some p \<Rightarrow> map_option (claim_update_row expiry worker p) (find_delivery (tx_db t') r))" for r
  proof (cases "find (\<lambda>p. pc_event_row_id p = r) ps")
    case (Some p)
    then have p: "p \<in> set ps" "pc_event_row_id p = r" by (auto dest: find_Some_in)
    then obtain d where "find_delivery (tx_db t) r = Some d" using found by (auto simp: batch_found_def)
    then show ?thesis using Some p eff same [of p] by (simp add: find_view)
  qed (use eff in \<open>simp add: find_view nil\<close>)
  moreover have "\<exists>d. find_delivery (tx_db t') (pc_event_row_id p) = Some d \<and> claim_update_where p d"
    if "p \<in> set ps" for p using that found same by (simp add: batch_found_def)
  ultimately show "claims_effect expiry worker ps (tx_db t') (tx_view t')"
    unfolding claims_effect_def by blast
qed

end

end
