(* ===== verification/Postgres_Claim.thy ===== *)
theory Postgres_Claim
  imports Postgres_Enqueue Adapter_Batch
begin

text \<open>
  \<open>crates/dovecote-sqlx-postgres/src/lifecycle.rs\<close>: claiming a batch. The candidates are selected
  \<open>FOR UPDATE OF d SKIP LOCKED\<close>, so their rows stay locked until the transaction ends; every
  candidate is prepared before anything is written; then each row is updated and the
  transaction commits. Statement 0 opens the transaction, 1 binds the tenant, 2 reads the
  clock, 3 selects, and the update of the \<open>i\<close>-th prepared claim is statement \<open>4 + i\<close>.
\<close>

section \<open>Selection\<close>

text \<open>An instant that is read from the server and bound again.\<close>

definition pg_rebind :: "pg_env \<Rightarrow> int \<Rightarrow> int" where
  "pg_rebind env v = pg_encode env (pg_decode env v)"

definition pg_database_time :: "pg_env \<Rightarrow> string \<Rightarrow> nat \<Rightarrow> (sqlx_error, int) pg_action" where
  "pg_database_time env label n = pg_query env label n (\<lambda>_. pg_clock env n)"

definition pg_select_candidates ::
  "pg_env \<Rightarrow> TenantId option \<Rightarrow> int \<Rightarrow> nat \<Rightarrow> (sqlx_error, int durable_row list) pg_action" where
  "pg_select_candidates env tenant_id now limit =
     pg_statement env ''select claim candidates'' 3 (\<lambda>t.
       let candidates = claim_candidates now tenant_id (pg_locked env) limit (tx_view t) in
       (Inr candidates, tx_lock (map (\<lambda>c. er_row_id (du_event c)) candidates) t))"

text \<open>The statements before the first loop: the operation time and the candidates.\<close>

definition pg_claim_select ::
  "pg_env \<Rightarrow> TenantId option \<Rightarrow> nat \<Rightarrow> (PgClaimError, int \<times> int durable_row list) pg_action" where
  "pg_claim_select env tenant_id limit =
     tx_then (case tenant_id of
         None \<Rightarrow> tx_return (Inr ())
       | Some tenant \<Rightarrow> tx_map_err (pg_claim_error_sql ''bind claim tenant'')
           (bind_tenant env ''bind claim tenant'' 1 tenant)) (\<lambda>_.
     tx_then (tx_map_err (pg_claim_error_sql ''read claim operation time'')
       (pg_database_time env ''read claim operation time'' 2)) (\<lambda>time.
     let operation_time = pg_rebind env time in
     tx_then (tx_map_err (pg_claim_error_sql ''select claim candidates'')
       (pg_select_candidates env tenant_id operation_time limit)) (\<lambda>candidates.
     tx_return (Inr (operation_time, candidates)))))"

section \<open>Preparation\<close>

definition pg_claim_hydrate_error :: "hydrate_error \<Rightarrow> PgClaimError" where
  "pg_claim_hydrate_error e = (case e of HErr d \<Rightarrow> PClmSerialization d | HPanic \<Rightarrow> PClmPanic)"

definition pg_claim_verror :: "ValidationError \<Rightarrow> PgClaimError" where
  "pg_claim_verror e = PClmSerialization (verror_to_string e)"

text \<open>The body of the first loop, before and after it needs entropy.\<close>

definition pg_claim_counter :: "int durable_row \<Rightarrow> PgClaimError + (RowId \<times> AttemptCount)" where
  "pg_claim_counter candidate =
     and_then (map_err pg_claim_verror (row_id_new (er_row_id (du_event candidate)))) (\<lambda>row_id.
     and_then (ok_or (PClmCounterOverflow row_id) (checked_add_i64 (the (du_attempts candidate)) 1)) (\<lambda>m.
     and_then (map_err pg_claim_verror (attempt_count_new m)) (\<lambda>attempts. Inr (row_id, attempts))))"

definition pg_claim_hydrate ::
  "ext_lib \<Rightarrow> pg_env \<Rightarrow> int durable_row \<Rightarrow> RowId \<Rightarrow> AttemptCount \<Rightarrow> bytes \<Rightarrow> PgClaimError + prepared_claim" where
  "pg_claim_hydrate lib env candidate row_id attempts token =
     (if du_state candidate \<noteq> Some ''pending'' \<and> du_state candidate \<noteq> Some ''claimed''
        then Inl (PClmSerialization ''claim candidate has an ineligible state'')
      else
     and_then (map_err pg_claim_hydrate_error (pg_hydrate_event lib env (du_event candidate))) (\<lambda>event.
     and_then (map_err pg_claim_verror (tenant_id_new (er_tenant_id (du_event candidate)))) (\<lambda>tenant_id.
       Inr \<lparr>pc_row_id = row_id, pc_event_row_id = er_row_id (du_event candidate),
            pc_tenant_id = tenant_id, pc_event = event, pc_attempts = attempts, pc_token = token\<rparr>)))"

definition pg_prepare_claims ::
  "ext_lib \<Rightarrow> pg_env \<Rightarrow> bytes list \<Rightarrow> entropy \<Rightarrow> int durable_row list
     \<Rightarrow> ((PgClaimError + prepared_claim list) \<times> entropy) option" where
  "pg_prepare_claims lib env used entropy candidates =
     prepare_claims_with pg_claim_counter PClmEntropyUnavailable (pg_claim_hydrate lib env)
       used entropy candidates"

section \<open>Updates\<close>

text \<open>One UPDATE of the second loop, and the claim assembled from what it returns.\<close>

definition pg_update_claimed ::
  "pg_env \<Rightarrow> int \<Rightarrow> int \<Rightarrow> WorkerId \<Rightarrow> nat \<Rightarrow> prepared_claim \<Rightarrow> (PgClaimError, int) pg_action" where
  "pg_update_claimed env operation_time span worker n p =
     tx_then (tx_map_err (pg_claim_error_sql ''update claimed delivery'')
       (pg_statement env ''update claimed delivery'' n
         (let expiry = pg_plus env operation_time span in
          pg_update (expiry = None) (claim_update_where p)
            (\<lambda>d. Some (claim_update_row expiry worker p d))))) (\<lambda>rows.
     tx_return (ok_or (pg_claim_error_sql ''update claimed delivery''
         (SqlxProtocol ''claim candidate disappeared while locked''))
       (case rows of [] \<Rightarrow> None | row # _ \<Rightarrow> dr_claim_expires_at row)))"

definition pg_claim_row ::
  "pg_env \<Rightarrow> int \<Rightarrow> int \<Rightarrow> WorkerId \<Rightarrow> nat \<Rightarrow> prepared_claim \<Rightarrow> (PgClaimError, ClaimedEvent) pg_action" where
  "pg_claim_row env operation_time span worker n p =
     tx_then (pg_update_claimed env operation_time span worker n p) (\<lambda>expiry.
     tx_return (map_err pg_claim_verror
       (claimed_event_new (pc_tenant_id p) (pc_row_id p) (pc_event p) (pc_attempts p)
         (claim_token_from_bytes (pc_token p)) worker (pg_decode env expiry))))"

text \<open>
  The second loop with the encoding of the lease, which SQLx does as it binds it: no update, no
  encoding.
\<close>

definition pg_write_claims ::
  "pg_env \<Rightarrow> int \<Rightarrow> Lease \<Rightarrow> WorkerId \<Rightarrow> prepared_claim list \<Rightarrow> (PgClaimError, ClaimedEvent list) pg_action" where
  "pg_write_claims env operation_time lease_for worker ps =
     (if ps = [] then tx_return (Inr [])
      else tx_then (tx_return (map_err (pg_claim_error_sql ''update claimed delivery'')
             (pg_interval env (lease_get lease_for)))) (\<lambda>span.
           apply_claims_with (pg_claim_row env operation_time span worker) 4 ps))"

text \<open>The transaction up to its commit, with what it has read of the entropy.\<close>

definition pg_claim_body ::
  "ext_lib \<Rightarrow> pg_env \<Rightarrow> TenantId option \<Rightarrow> WorkerId \<Rightarrow> Lease \<Rightarrow> PageLimit \<Rightarrow> entropy \<Rightarrow> pg_txn
     \<Rightarrow> ((PgClaimError + ClaimedEvent list) \<times> entropy \<times> pg_txn) option" where
  "pg_claim_body lib env tenant_id worker lease_for limit entropy t =
     (case pg_claim_select env tenant_id (limit_get limit) t of
        (Inl e, t) \<Rightarrow> Some (Inl e, entropy, t)
      | (Inr (operation_time, candidates), t) \<Rightarrow>
     case pg_prepare_claims lib env [] entropy candidates of
        None \<Rightarrow> None
      | Some (Inl e, rest) \<Rightarrow> Some (Inl e, rest, t)
      | Some (Inr prepared, rest) \<Rightarrow>
     case pg_write_claims env operation_time lease_for worker prepared t of
        (r, t) \<Rightarrow> Some (r, rest, t))"

text \<open>Outcome, remaining entropy and committed state; an error before the commit rolls back.\<close>

definition pg_claim_with_entropy ::
  "ext_lib \<Rightarrow> pg_env \<Rightarrow> TenantId option \<Rightarrow> WorkerId \<Rightarrow> Lease \<Rightarrow> PageLimit \<Rightarrow> entropy \<Rightarrow> pg_db
     \<Rightarrow> ((PgClaimError + ClaimedEvent list) \<times> entropy \<times> pg_db) option" where
  "pg_claim_with_entropy lib env tenant_id worker lease_for limit entropy db =
     (case pg_fault env ''begin claim transaction'' 0 of
        Some source \<Rightarrow> Some (Inl (pg_claim_error_sql ''begin claim transaction'' source), entropy, db)
      | None \<Rightarrow>
     case pg_claim_body lib env tenant_id worker lease_for limit entropy (tx_begin db) of
        None \<Rightarrow> None
      | Some (Inl e, rest, t) \<Rightarrow> Some (Inl e, rest, tx_db t)
      | Some (Inr claimed, rest, t) \<Rightarrow>
     case pg_finish env t of
        (Inl source, db') \<Rightarrow> Some (Inl (pg_claim_error_sql ''commit claim transaction'' source), rest, db')
      | (Inr _, db') \<Rightarrow> Some (Inr claimed, rest, db'))"

text \<open>\<open>OsEntropy\<close> is the list of the operating system's answers.\<close>

definition pg_claim_for_scope ::
  "ext_lib \<Rightarrow> pg_env \<Rightarrow> TenantId option \<Rightarrow> WorkerId \<Rightarrow> Lease \<Rightarrow> PageLimit \<Rightarrow> entropy \<Rightarrow> pg_db
     \<Rightarrow> ((PgClaimError + ClaimedEvent list) \<times> entropy \<times> pg_db) option" where
  "pg_claim_for_scope = pg_claim_with_entropy"

section \<open>The preparation meets the shared interface\<close>

lemma pg_claim_hydrate_sel:
  assumes "pg_claim_hydrate lib env c r n k = Inr p"
  shows "pc_row_id p = r \<and> pc_attempts p = n \<and> pc_token p = k
    \<and> pc_event_row_id p = er_row_id (du_event c) \<and> pc_tenant_id p = TenantId (er_tenant_id (du_event c))"
  using assms unfolding pg_claim_hydrate_def and_then_Inr_iff map_err_Inr_iff tenant_id_new_Inr_iff
    if_Inl_eq_Inr
  by auto

lemma pg_claim_counter_sel:
  assumes "pg_claim_counter (durable_join e (Some d)) = Inr (r, n)"
  shows "r = RowId (er_row_id e) \<and> n = AttemptCount (dr_attempts d + 1) \<and> i64_range (dr_attempts d + 1)"
  using assms unfolding pg_claim_counter_def and_then_Inr_iff map_err_Inr_iff ok_or_Inr_iff
    row_id_new_Inr_iff attempt_count_new_Inr_iff
  by (auto simp: durable_join_def)

interpretation pg_claim: claim_preparation pg_claim_counter PClmEntropyUnavailable "pg_claim_hydrate lib env"
  for lib env
  by unfold_locales (rule pg_claim_counter_sel pg_claim_hydrate_sel; assumption)+

section \<open>Transactions of a claim\<close>

lemma tx_runs_select: "pg_peers_ok env \<Longrightarrow> tx_runs (pg_select_candidates env tenant now limit)"
  unfolding pg_select_candidates_def
  by (rule tx_runs_statement) (auto simp: tx_runs_def Let_def tx_extends_lock)

lemma tx_runs_claim_select: "pg_peers_ok env \<Longrightarrow> tx_runs (pg_claim_select env tenant limit)"
  unfolding pg_claim_select_def pg_database_time_def Let_def
  by (intro tx_runs_then tx_runs_map_err tx_runs_select tx_runs_query tx_runs_return)
    (auto split: option.split intro!: tx_runs_map_err tx_runs_bind_tenant)

text \<open>
  \<open>s\<close> is the transaction as the selection saw it: nothing of its own written, and the candidates
  locked by it.
\<close>

lemma pg_claim_select_Inr:
  assumes "pg_peers_ok env" "db_ok db"
    and "pg_claim_select env tenant limit (tx_begin db) = (Inr (now, candidates), t)"
  obtains s where "now = pg_rebind env (pg_clock env 2)" "tx_extends (tx_begin db) s"
    "own_writes s = ([], [])"
    "candidates = claim_candidates now tenant (pg_locked env) limit (tx_db s)"
    "t = tx_lock (map (\<lambda>c. er_row_id (du_event c)) candidates) s"
proof -
  let ?bind = "case tenant of None \<Rightarrow> tx_return (Inr ())
       | Some tenant \<Rightarrow> tx_map_err (pg_claim_error_sql ''bind claim tenant'')
           (bind_tenant env ''bind claim tenant'' 1 tenant)"
  from assms(3) obtain t1 where b: "?bind (tx_begin db) = (Inr (), t1)"
    and now: "now = pg_rebind env (pg_clock env 2)"
    and sel: "pg_select_candidates env tenant now limit (tx_peer (pg_peer env 2) t1) = (Inr candidates, t)"
    unfolding pg_claim_select_def pg_database_time_def tx_then_Inr_iff tx_map_err_Inr_iff pg_query_Inr
      Let_def tx_return_iff by auto
  let ?s = "tx_peer (pg_peer env 3) (tx_peer (pg_peer env 2) t1)"
  have runs: "tx_runs ?bind"
    using assms(1) by (auto split: option.split intro!: tx_runs_map_err tx_runs_bind_tenant)
  have ro: "reads_only ?bind"
    by (auto simp: bind_tenant_def split: option.split intro!: reads_only_map_err)
  have own: "own_writes ?s = ([], [])"
    using reads_onlyD [where m = ?bind, OF ro b] by (simp add: own_writes_def)
  have "tx_extends (tx_begin db) t1"
    by (rule tx_runsD [where m = ?bind, OF runs tx_ok_begin [OF assms(2)] b])
  then have ext: "tx_extends (tx_begin db) ?s"
    using tx_extends_trans pg_extends_peer [OF assms(1)] by blast
  show thesis
    using that [OF now ext own] sel view_no_writes [OF own]
    by (auto simp: pg_select_candidates_def pg_statement_Inr Let_def)
qed

lemma tx_runs_update_claimed:
  assumes "pg_peers_ok env"
  shows "tx_runs (pg_update_claimed env now span worker n p)"
proof -
  have upd: "tx_runs (pg_update ovf (claim_update_where p) (\<lambda>d. Some (claim_update_row x worker p d)))"
    for ovf x
    by (rule tx_runs_pg_update [where n = "pc_event_row_id p"]) (auto simp: claim_update_where_def)
  show ?thesis
    unfolding pg_update_claimed_def Let_def
    by (intro tx_runs_then tx_runs_map_err tx_runs_statement [OF assms] upd tx_runs_return)
qed

lemma tx_runs_claim_row: "pg_peers_ok env \<Longrightarrow> tx_runs (pg_claim_row env now span worker n p)"
  unfolding pg_claim_row_def by (intro tx_runs_then tx_runs_update_claimed tx_runs_return)

text \<open>One update: the row that is written is the committed one, for it has been locked.\<close>

lemma pg_claim_row_Inr:
  assumes "pg_peers_ok env" "tx_ok t"
    and run: "pg_claim_row env now span worker n p t = (Inr c, t')"
    and locked: "pc_event_row_id p \<in> set (tx_locked t)"
    and fresh: "row_in (tx_deliveries t) (pc_event_row_id p) = None"
    and found: "find_delivery (tx_db t) (pc_event_row_id p) = Some d" "claim_update_where p d"
  shows "claimed_from worker p c \<and> tx_events t' = tx_events t
    \<and> (\<forall>r. row_in (tx_deliveries t') r = (if r = pc_event_row_id p
         then Some (claim_update_row (pg_plus env now span) worker p d) else row_in (tx_deliveries t) r))"
proof -
  let ?x = "pg_plus env now span" and ?t = "tx_peer (pg_peer env n) t"
  let ?f = "\<lambda>d. Some (claim_update_row ?x worker p d)"
  from run obtain rows x where upd: "tx_update (claim_update_where p) ?f ?t = (Inr rows, t')"
    and x: "(case rows of [] \<Rightarrow> None | row # _ \<Rightarrow> dr_claim_expires_at row) = Some x"
    and c: "claimed_event_new (pc_tenant_id p) (pc_row_id p) (pc_event p) (pc_attempts p)
         (claim_token_from_bytes (pc_token p)) worker (pg_decode env x) = Inr c"
    unfolding pg_claim_row_def pg_update_claimed_def Let_def action_simps pg_statement_Inr pg_update_Inr
      ok_or_Inr_iff map_err_Inr_iff by auto
  have ok: "tx_ok ?t" by (rule pg_ok_peer [OF assms(1,2)])
  have ne: "rows \<noteq> []" using x by auto
  have keys: "\<forall>d e. ?f d = Some e \<longrightarrow> dr_event_row_id e = dr_event_row_id d \<and> dr_tenant_id e = dr_tenant_id d"
    "\<forall>d. claim_update_where p d \<longrightarrow> dr_event_row_id d = pc_event_row_id p"
    by (auto simp: claim_update_where_def)
  have "find_delivery (tx_view ?t) (pc_event_row_id p) = Some d"
    using found(1) fresh peers_okD(3) [of "pg_peer env n" _ t] locked assms(1)
    by (simp add: find_view pg_peers_ok_def)
  then have t': "t' = tx_put (claim_update_row ?x worker p d) ?t"
    using tx_update_one(1) [where f = ?f, OF ok upd ne keys] by auto
  have "dr_event_row_id d = pc_event_row_id p" using keys(2) found(2) by blast
  moreover have "claimed_from worker p c"
    using c unfolding claimed_event_new_Inr_iff by (simp add: claimed_from_def claim_token_from_bytes_def)
  ultimately show ?thesis unfolding t' by (simp add: row_in_put)
qed

interpretation pg_writer: claim_writer "pg_peers_ok env" "pg_claim_row env now span worker"
    "pg_plus env now span" worker
  for env now span worker
  by unfold_locales (rule tx_runs_claim_row pg_claim_row_Inr; assumption)+

lemma tx_runs_write_claims: "pg_peers_ok env \<Longrightarrow> tx_runs (pg_write_claims env now lease worker ps)"
  unfolding pg_write_claims_def by (auto intro!: tx_runs_then pg_writer.apply_runs)

section \<open>A claim as one transition\<close>

lemma pg_claim_body_Inr:
  assumes "pg_claim_body lib env tenant worker lease limit ent t0 = Some (Inr claimed, rest, t)"
  obtains now cs t1 ps where "pg_claim_select env tenant (limit_get limit) t0 = (Inr (now, cs), t1)"
    "pg_prepare_claims lib env [] ent cs = Some (Inr ps, rest)"
    "pg_write_claims env now lease worker ps t1 = (Inr claimed, t)"
proof -
  obtain r t1 where sel: "pg_claim_select env tenant (limit_get limit) t0 = (r, t1)" by fastforce
  obtain now cs where r: "r = Inr (now, cs)"
    using assms sel by (cases r) (auto simp: pg_claim_body_def)
  obtain q rest' where prep: "pg_prepare_claims lib env [] ent cs = Some (q, rest')"
    using assms sel r by (cases "pg_prepare_claims lib env [] ent cs") (auto simp: pg_claim_body_def)
  obtain ps where q: "q = Inr ps"
    using assms sel r prep by (cases q) (auto simp: pg_claim_body_def)
  show thesis
    using that [of now cs t1 ps] assms sel r prep q by (auto simp: pg_claim_body_def split: prod.splits)
qed

lemma tx_extends_claim_body:
  assumes "pg_peers_ok env" "tx_ok t0"
    and "pg_claim_body lib env tenant worker lease limit ent t0 = Some (res, rest, t)"
  shows "tx_extends t0 t"
proof -
  obtain r t1 where sel: "pg_claim_select env tenant (limit_get limit) t0 = (r, t1)" by fastforce
  have ext: "tx_extends t0 t1" by (rule tx_runsD [OF tx_runs_claim_select [OF assms(1)] assms(2) sel])
  have "tx_extends t1 t2" if "pg_write_claims env now lease worker ps t1 = (w, t2)" for now ps w t2
    by (rule tx_runsD [OF tx_runs_write_claims [OF assms(1)] tx_extends_ok [OF ext assms(2)] that])
  then show ?thesis
    using assms(3) sel ext tx_extends_trans [OF ext]
    by (auto simp: pg_claim_body_def split: sum.splits prod.splits option.splits)
qed

lemma pg_write_claims_Inr:
  assumes "pg_peers_ok env" "tx_ok t" and wr: "pg_write_claims env now lease worker ps t = (Inr claimed, t')"
    and own: "own_writes t = ([], [])" and lock: "pc_event_row_id ` set ps \<subseteq> set (tx_locked t)"
    and dist: "distinct (map pc_event_row_id ps)" and found: "batch_found (tx_db t) ps"
  shows "list_all2 (claimed_from worker) ps claimed" and "tx_events t' = []"
    and "\<exists>x. claims_effect x worker ps (tx_db t') (tx_view t')"
    and "\<And>p. p \<in> set ps \<Longrightarrow>
      find_delivery (tx_db t') (pc_event_row_id p) = find_delivery (tx_db t) (pc_event_row_id p)"
proof -
  have "\<exists>span. apply_claims_with (pg_claim_row env now span worker) 4 ps t = (Inr claimed, t')"
    using wr by (auto simp: pg_write_claims_def tx_then_return split: if_splits)
  then obtain span where app: "apply_claims_with (pg_claim_row env now span worker) 4 ps t = (Inr claimed, t')" ..
  note eff = pg_writer.apply_effect [OF assms(1,2) app own lock dist found]
  show "list_all2 (claimed_from worker) ps claimed" "tx_events t' = []" by (rule eff)+
  show "\<exists>x. claims_effect x worker ps (tx_db t') (tx_view t')" using eff(3) by blast
  show "find_delivery (tx_db t') (pc_event_row_id p) = find_delivery (tx_db t) (pc_event_row_id p)"
    if "p \<in> set ps" for p by (rule eff(4) [OF that])
qed

text \<open>
  \<open>s\<close> is the committed state the candidates were selected in, \<open>tx_db t\<close> the one the batch commits
  on. Others may have committed in between, but not to the claimed deliveries.
\<close>

lemma pg_claim_transition:
  assumes "pg_peers_ok env" "db_ok db"
    and body: "pg_claim_body lib env tenant worker lease limit ent (tx_begin db) = Some (Inr claimed, rest, t)"
  shows "\<exists>s x. (\<exists>now cs ps t1. pg_claim_select env tenant (limit_get limit) (tx_begin db) = (Inr (now, cs), t1)
       \<and> pg_write_claims env now lease worker ps t1 = (Inr claimed, t) \<and> s = tx_db t1)
    \<and> db_ok s \<and> tx_ok t \<and> set (db_events db) \<subseteq> set (db_events s)
    \<and> claim_selected (pg_rebind env (pg_clock env 2)) tenant worker (limit_get limit) (pg_locked env) s claimed
    \<and> claim_applied x claimed (tx_db t) (tx_view t) \<and> tx_events t = []
    \<and> (\<forall>c \<in> set claimed. find_delivery (tx_db t) (row_id_get (ce_row_id c))
         = find_delivery s (row_id_get (ce_row_id c)))"
proof -
  let ?now = "pg_rebind env (pg_clock env 2)" and ?n = "limit_get limit"
  from body obtain now cs t1 ps where sel: "pg_claim_select env tenant ?n (tx_begin db) = (Inr (now, cs), t1)"
    and prep: "pg_prepare_claims lib env [] ent cs = Some (Inr ps, rest)"
    and wr: "pg_write_claims env now lease worker ps t1 = (Inr claimed, t)"
    by (rule pg_claim_body_Inr)
  from assms(1,2) sel obtain s where now: "now = ?now" and exts: "tx_extends (tx_begin db) s"
    and own: "own_writes s = ([], [])"
    and cs: "cs = claim_candidates now tenant (pg_locked env) ?n (tx_db s)"
    and t1: "t1 = tx_lock (map (\<lambda>c. er_row_id (du_event c)) cs) s"
    by (rule pg_claim_select_Inr)
  have oks: "tx_ok s" "db_ok (tx_db s)"
    using tx_extends_ok [OF exts tx_ok_begin [OF assms(2)]] by (auto simp: tx_ok_def)
  note prep' = prep [unfolded pg_prepare_claims_def cs now]
  note of = claim_candidates_of [OF oks(2), of now tenant "pg_locked env" ?n, folded cs]
  note prep'' = prep [unfolded pg_prepare_claims_def]
  note rows = pg_claim.prepare_rows [OF of prep'']
  have ok1: "tx_ok t1" using oks(1) by (simp add: t1 tx_ok_lock)
  have lock: "pc_event_row_id ` set ps \<subseteq> set (tx_locked t1)"
    using arg_cong [OF rows(1), of set] by (auto simp: t1)
  have own1: "own_writes t1 = ([], [])" using own by (simp add: t1 tx_lock_def own_writes_def)
  have dist: "distinct (map pc_event_row_id ps)" using rows(2) by (simp add: strict_sorted_iff)
  have found: "batch_found (tx_db t1) ps"
    using pg_claim.prepare_found [OF of prep''] by (simp add: batch_found_def t1)
  note eff = pg_write_claims_Inr [OF assms(1) ok1 wr own1 lock dist found]
  obtain x where x: "claims_effect x worker ps (tx_db t) (tx_view t)" using eff(3) by blast
  have same: "find_delivery (tx_db t) (pc_event_row_id p) = find_delivery (tx_db s) (pc_event_row_id p)"
    if "p \<in> set ps" for p
    using eff(4) [OF that] by (simp add: t1 tx_lock_def)
  have ids: "ce_row_id ` set claimed = RowId ` pc_event_row_id ` set ps"
    using arg_cong [OF pg_claim.batch_ids(1) [OF of prep'' eff(1)], of set] by (simp add: image_image)
  have "find_delivery (tx_db t) (row_id_get (ce_row_id c)) = find_delivery (tx_db s) (row_id_get (ce_row_id c))"
    if "c \<in> set claimed" for c
  proof -
    have "ce_row_id c \<in> RowId ` pc_event_row_id ` set ps" using that ids by blast
    then show ?thesis using same by auto
  qed
  moreover have "set (db_events db) \<subseteq> set (db_events (tx_db s))"
    using exts view_no_writes [OF own] by (simp add: tx_extends_def)
  moreover have "tx_ok t" by (rule tx_extends_ok [OF tx_runsD [OF tx_runs_write_claims [OF assms(1)] ok1 wr] ok1])
  moreover have "\<exists>now cs ps t1. pg_claim_select env tenant ?n (tx_begin db) = (Inr (now, cs), t1)
      \<and> pg_write_claims env now lease worker ps t1 = (Inr claimed, t) \<and> tx_db s = tx_db t1"
    using sel wr by (intro exI [of _ now] exI [of _ cs] exI [of _ ps] exI [of _ t1]) (simp add: t1)
  ultimately show ?thesis
    using oks(2) pg_claim.batch_selected [OF oks(2) prep' eff(1)]
      pg_claim.batch_applied [OF of prep'' eff(1) x same] eff(2)
    by (intro exI [of _ "tx_db s"] exI [of _ x] conjI ballI) assumption+
qed

text \<open>What the caller of a claim sees, and what is committed.\<close>

lemma pg_claim_cases:
  assumes "pg_claim_for_scope lib env tenant worker lease limit ent db = Some (res, rest, db')"
  obtains (unopened) e where "res = Inl e" "db' = db"
  | (rolled_back) e t where "pg_claim_body lib env tenant worker lease limit ent (tx_begin db) = Some (Inl e, rest, t)"
      "res = Inl e" "db' = tx_db t"
  | (finished) claimed t where
      "pg_claim_body lib env tenant worker lease limit ent (tx_begin db) = Some (Inr claimed, rest, t)"
      "(pg_commit env = Committed \<and> res = Inr claimed \<and> db' = tx_view t)
       \<or> (\<exists>e. pg_commit env = CommitFailed e \<and> res = Inl (pg_claim_error_sql ''commit claim transaction'' e) \<and> db' = tx_db t)
       \<or> (\<exists>e. pg_commit env = CommitUnreported e \<and> res = Inl (pg_claim_error_sql ''commit claim transaction'' e) \<and> db' = tx_view t)"
proof (cases "pg_fault env ''begin claim transaction'' 0")
  case None
  let ?b = "pg_claim_body lib env tenant worker lease limit ent (tx_begin db)"
  note run = assms [unfolded pg_claim_for_scope_def pg_claim_with_entropy_def None, simplified]
  obtain r rest' t where b: "?b = Some (r, rest', t)"
    using run by (cases ?b) auto
  show thesis
    using run b rolled_back finished
    by (cases r) (auto simp: pg_finish_def tx_finish_def split: commit_outcome.splits)
qed (use assms unopened in \<open>auto simp: pg_claim_for_scope_def pg_claim_with_entropy_def\<close>)

lemma pg_claim_returns:
  assumes "distinct ent" "2 * limit_get limit \<le> length ent"
  shows "pg_claim_for_scope lib env tenant worker lease limit ent db \<noteq> None"
proof -
  have "pg_claim_body lib env tenant worker lease limit ent t \<noteq> None" for t
  proof (cases "pg_claim_select env tenant (limit_get limit) t")
    case (Pair r t1)
    show ?thesis
    proof (cases r)
      case (Inr b)
      obtain now cs where b: "b = (now, cs)" by (cases b)
      have "length cs \<le> limit_get limit"
        using Pair Inr b claim_rows_length
        by (auto simp: pg_claim_select_def tx_then_Inr_iff tx_map_err_Inr_iff Let_def
            pg_select_candidates_def pg_statement_Inr claim_candidates_def)
      then obtain q rest where "pg_prepare_claims lib env [] ent cs = Some (q, rest)"
        using pg_claim.prepare_returns [of ent cs "[]" lib env] assms by (auto simp: pg_prepare_claims_def)
      then show ?thesis using Pair Inr b by (cases q) (auto simp: pg_claim_body_def split: prod.split)
    qed (use Pair in \<open>simp add: pg_claim_body_def\<close>)
  qed
  from this [of "tx_begin db"] show ?thesis
    by (auto simp: pg_claim_for_scope_def pg_claim_with_entropy_def split: option.split sum.split prod.split)
qed

end
