(* ===== verification/Adapter_Mutation.thy ===== *)
theory Adapter_Mutation
  imports Adapter_Transaction
begin

text \<open>
  The parts of a fenced mutation that the adapters on servers share: the payload with its span
  encoded, the lookup that locks the row, when a consistent row can be rewritten, and what one
  conditional UPDATE does in a transaction that has only read.
\<close>

section \<open>Payloads\<close>

text \<open>\<open>spans\<close> encodes a duration for the server.\<close>

fun prepare_mutation_with :: "(duration \<Rightarrow> 'e + int) \<Rightarrow> Mutation \<Rightarrow> 'e + PreparedMutation" where
  "prepare_mutation_with spans (MRenew lease_for) =
     and_then (spans (lease_get lease_for)) (\<lambda>span. Inr (PRenew span))"
| "prepare_mutation_with spans MAck = Inr PAck"
| "prepare_mutation_with spans (MRetry failure backoff) =
     and_then (spans (delay_get backoff)) (\<lambda>span. Inr (PRetry failure span))"
| "prepare_mutation_with spans (MRelease delay) =
     and_then (spans (delay_get delay)) (\<lambda>span. Inr (PRelease span))"
| "prepare_mutation_with spans (MQuarantine reason) = Inr (PQuarantine reason)"

text \<open>The sum of the SET clause is out of range.\<close>

fun mutation_overflows :: "('t \<Rightarrow> int \<Rightarrow> 't option) \<Rightarrow> 't \<Rightarrow> PreparedMutation \<Rightarrow> bool" where
  "mutation_overflows add now (PRenew span) = (add now span = None)"
| "mutation_overflows add now (PRetry failure span) = (add now span = None)"
| "mutation_overflows add now (PRelease span) = (add now span = None)"
| "mutation_overflows add now _ = False"

text \<open>The lookup of a delivery by row within the scope.\<close>

definition lock_where :: "TenantId option \<Rightarrow> RowId \<Rightarrow> 't delivery_row \<Rightarrow> bool" where
  "lock_where tenant row_id d \<longleftrightarrow> tenant_matches tenant d \<and> dr_event_row_id d = row_id_get row_id"

fun mutation_payload_ok :: "Mutation \<Rightarrow> bool" where
  "mutation_payload_ok (MRetry failure backoff) = failure_ok failure"
| "mutation_payload_ok (MQuarantine reason) = quarantine_reason_ok reason"
| "mutation_payload_ok _ = True"

lemma find_lock_where:
  assumes "db_ok db"
  shows "find (lock_where tenant row_id) (db_deliveries db) = (case find_delivery db (row_id_get row_id) of
    None \<Rightarrow> None | Some d \<Rightarrow> if tenant_matches tenant d then Some d else None)"
proof -
  have eq: "lock_where tenant row_id = (\<lambda>d. dr_event_row_id d = row_id_get row_id \<and> tenant_matches tenant d)"
    by (auto simp: lock_where_def)
  show ?thesis unfolding eq using assms by (intro find_scoped) (simp add: db_ok_def)
qed

lemma mutation_set_check:
  assumes "delivery_check d" "mutation_where row_id tenant token now d" "mutation_payload_ok mutation"
    and "prepare_mutation_with spans mutation = Inr p" "\<not> mutation_overflows add now p"
  shows "\<exists>d'. mutation_set add now p d = Some d' \<and> delivery_check d'"
proof -
  note shape = delivery_check_def delivery_shape_def
  have st: "dr_state d = ''claimed''" using assms(2) by (simp add: mutation_where_def)
  obtain k x where base: "0 < length (dr_tenant_id d)" "length (dr_tenant_id d) \<le> 255" "0 \<le> dr_attempts d"
    "dr_claim_token d = Some k" "length k = 16" "dr_claim_expires_at d = Some x" "dr_claimed_by d \<noteq> None"
    "opt_within 255 (dr_claimed_by d)" "opt_within 128 (dr_last_failure_code d)"
    "opt_within 2048 (dr_last_failure_detail d)"
    "(dr_last_failure_code d = None) = (dr_last_failure_detail d = None)"
    "dr_delivered_at d = None" "dr_quarantined_at d = None" "dr_quarantine_reason d = None"
    using assms(1) unfolding shape st by (auto split: option.splits)
  show ?thesis
  proof (cases mutation)
    case (MRetry f w)
    then have "length (failure_code f) \<le> 128" "length (failure_detail f) \<le> 2048"
      using assms(3) by (simp_all add: failure_ok_def text_ok_def MAX_FAILURE_CODE_BYTES_def MAX_FAILURE_DETAIL_BYTES_def)
    then show ?thesis using MRetry assms(4,5) base by (auto simp: and_then_Inr_iff shape opt_within_def)
  next
    case (MQuarantine r)
    then have "length (quarantine_reason_str r) \<le> 2048"
      using assms(3) by (simp add: quarantine_reason_ok_def text_ok_def MAX_QUARANTINE_REASON_BYTES_def)
    then show ?thesis using MQuarantine assms(4) base by (auto simp: shape opt_within_def)
  next
    case (MRenew l)
    then show ?thesis using assms(4,5) base st by (auto simp: and_then_Inr_iff shape opt_within_def)
  next
    case MAck
    then show ?thesis using assms(4) base by (auto simp: shape opt_within_def)
  next
    case (MRelease w)
    then show ?thesis using assms(4,5) base by (auto simp: and_then_Inr_iff shape opt_within_def)
  qed
qed

section \<open>One UPDATE\<close>

lemma tx_update_none:
  assumes "tx_update p f t = (Inr [], t')"
  shows "t' = t" and "d \<in> set (db_deliveries (tx_view t)) \<Longrightarrow> \<not> p d"
proof -
  from assms obtain v where tab: "table_update_deliveries p f (tx_view t) = Inr ([], v)" and "t' = t"
    by (auto simp: tx_update_def split: sum.splits prod.splits)
  then show "t' = t" "d \<in> set (db_deliveries (tx_view t)) \<Longrightarrow> \<not> p d"
    by (auto simp: table_update_deliveries_def Let_def filter_empty_conv split: if_splits)
qed

lemma tx_update_defined:
  assumes "\<And>d. d \<in> set (db_deliveries (tx_view t)) \<Longrightarrow> p d \<Longrightarrow> \<exists>d'. f d = Some d' \<and> delivery_check d'"
  shows "\<exists>rows t'. tx_update p f t = (Inr rows, t')"
  using assms by (fastforce simp: tx_update_def table_update_deliveries_def Let_def list_ex_iff)

text \<open>
  \<open>mutation_hit\<close>: the UPDATE has rewritten the one delivery the token owned at its clock, and the
  transaction has written nothing else.
\<close>

definition mutation_hit ::
  "('t::linorder \<Rightarrow> int \<Rightarrow> 't option) \<Rightarrow> 't \<Rightarrow> PreparedMutation \<Rightarrow> TenantId option \<Rightarrow> RowId \<Rightarrow> ClaimToken \<Rightarrow> 't txn \<Rightarrow> bool" where
  "mutation_hit add now prepared tenant row_id token t \<longleftrightarrow>
     (\<exists>d d'. find_delivery (tx_db t) (row_id_get row_id) = Some d
        \<and> mutation_where row_id tenant token now d
        \<and> mutation_set add now prepared d = Some d'
        \<and> own_writes t = ([], [d']))"

lemma mutation_update_Inr:
  fixes u t' :: "('t::linorder) txn"
  assumes "tx_ok u" "own_writes u = ([], [])"
    and upd: "tx_update (mutation_where row_id tenant token now) (mutation_set add now p) u = (Inr rows, t')"
  shows "(length rows = 1 \<and> mutation_hit add now p tenant row_id token t')
    \<or> (rows = [] \<and> t' = u \<and> (\<forall>d. find_delivery (tx_db u) (row_id_get row_id) = Some d \<longrightarrow>
         \<not> mutation_where row_id tenant token now d))"
proof (cases "rows = []")
  case True
  have view: "tx_view u = tx_db u" by (rule view_no_writes [OF assms(2)])
  note none = tx_update_none [OF upd [unfolded True]]
  have "\<not> mutation_where row_id tenant token now d" if "find_delivery (tx_db u) (row_id_get row_id) = Some d" for d
    using none(2) [unfolded view, of d] that unfolding find_delivery_def by (blast dest: find_Some_in)
  then show ?thesis using True none(1) by simp
next
  case False
  from tx_update_one(1) [OF assms(1) upd False mutation_set_keys mutation_where_key] obtain d d' where
    d: "find_delivery (tx_view u) (row_id_get row_id) = Some d" "mutation_where row_id tenant token now d"
      "mutation_set add now p d = Some d'" "rows = [d']" "t' = tx_put d' u" by blast
  have "own_writes t' = ([], [d'])" "tx_db t' = tx_db u"
    using assms(2) by (simp_all add: d(5) tx_put_def tx_lock_def own_writes_def row_in_def)
  then show ?thesis using d view_no_writes [OF assms(2)] by (auto simp: mutation_hit_def)
qed

end
