(* ===== verification/Postgres_Mutation.thy ===== *)
theory Postgres_Mutation
  imports Postgres_Claim Adapter_Mutation
begin

text \<open>
  \<open>crates/dovecote-sqlx-postgres/src/lifecycle_mutation.rs\<close> and the five entry points of
  \<open>lifecycle.rs\<close>. A mutation is one conditional UPDATE that locks its row before it reads the
  clock. When it changes no row the delivery is locked and classified, the UPDATE is repeated,
  and a second classification explains a second miss. Statement 0 opens the transaction, 1 binds
  the tenant, 2 and 4 are the UPDATEs, 3 and 5 the locking reads.
\<close>

section \<open>Statements\<close>

text \<open>SQLx encodes the span of a mutation as it binds it.\<close>

definition pg_prepare_mutation :: "pg_env \<Rightarrow> Mutation \<Rightarrow> sqlx_error + PreparedMutation" where
  "pg_prepare_mutation env = prepare_mutation_with (pg_interval env)"

lemma pg_prepare_ack [simp]: "pg_prepare_mutation env MAck = Inr PAck"
  by (simp add: pg_prepare_mutation_def)

text \<open>The materialized \<open>SELECT ... FOR UPDATE\<close> that both kinds of statement start with.\<close>

definition pg_lock_target :: "TenantId option \<Rightarrow> RowId \<Rightarrow> pg_txn \<Rightarrow> pg_txn" where
  "pg_lock_target tenant row_id t =
     tx_lock (map dr_event_row_id (filter (lock_where tenant row_id) (db_deliveries (tx_view t)))) t"

text \<open>
  The UPDATE sees its row as it was when the statement began. If it had to wait for the lock, the
  row may not have satisfied the condition then; it is found only by a later statement.
\<close>

definition pg_execute_mutation ::
  "pg_env \<Rightarrow> TenantId option \<Rightarrow> RowId \<Rightarrow> ClaimToken \<Rightarrow> Mutation \<Rightarrow> nat \<Rightarrow> (PgMutationError, nat) pg_action" where
  "pg_execute_mutation env tenant row_id token mutation n =
     tx_then (tx_map_err (pg_mutation_error_sql ''execute conditional delivery mutation'')
       (tx_then (tx_return (pg_prepare_mutation env mutation)) (\<lambda>prepared.
        pg_statement env ''execute conditional delivery mutation'' n (\<lambda>t.
          let operation_time = pg_clock env n; held = row_id_get row_id \<in> set (tx_locked t);
            t = pg_lock_target tenant row_id t in
          if pg_stale env n \<and> \<not> held then (Inr [], t)
          else pg_update (mutation_overflows (pg_plus env) operation_time prepared)
            (mutation_where row_id tenant token operation_time)
            (mutation_set (pg_plus env) operation_time prepared) t)))) (\<lambda>rows.
     tx_return (Inr (length rows)))"

definition pg_lock_delivery ::
  "pg_env \<Rightarrow> TenantId option \<Rightarrow> RowId \<Rightarrow> nat \<Rightarrow> (PgMutationError, int delivery_row \<times> int) pg_action" where
  "pg_lock_delivery env tenant row_id n =
     tx_then (tx_map_err (pg_mutation_error_sql ''lock delivery for mutation'')
       (pg_statement env ''lock delivery for mutation'' n (\<lambda>t.
         (Inr (find (lock_where tenant row_id) (db_deliveries (tx_view t))),
          pg_lock_target tenant row_id t)))) (\<lambda>found.
     tx_return (and_then (ok_or PMutNotFound found) (\<lambda>delivery. Inr (delivery, pg_clock env n))))"

section \<open>Classification\<close>

definition pg_parse_state :: "ext_lib \<Rightarrow> string \<Rightarrow> PgMutationError + DeliveryState" where
  "pg_parse_state lib value =
     (if value = ''pending'' then Inr Pending
      else if value = ''claimed'' then Inr Claimed
      else if value = ''delivered'' then Inr Delivered
      else if value = ''quarantined'' then Inr Quarantined
      else Inl (PMutSerialization (''unknown delivery state '' @ debug_str lib value)))"

text \<open>The columns \<open>state\<close>, \<open>claim_token\<close> and \<open>claim_expires_at\<close>, and the operation time read with them.\<close>

definition pg_classify_delivery ::
  "ext_lib \<Rightarrow> pg_env \<Rightarrow> int delivery_row \<times> int \<Rightarrow> ClaimToken \<Rightarrow> PgMutationError + unit" where
  "pg_classify_delivery lib env = (\<lambda>(delivery, operation_time) token.
     and_then (pg_parse_state lib (dr_state delivery)) (\<lambda>state.
     if state \<noteq> Claimed then Inl (PMutIllegalTransition state)
     else
     and_then (ok_or (PMutSerialization ''claimed delivery has no claim token'')
       (dr_claim_token delivery)) (\<lambda>stored_token.
     if length stored_token \<noteq> 16
       then Inl (PMutSerialization ''claimed delivery has an invalid claim token width'')
     else
     and_then (ok_or (PMutSerialization ''claimed delivery has no claim expiry'')
       (dr_claim_expires_at delivery)) (\<lambda>expires_at.
     if stored_token \<noteq> claim_token_bytes token
       \<or> pg_instant env expires_at \<le> pg_instant env operation_time
       then Inl PMutLostClaim
     else Inr ()))))"

section \<open>The operation\<close>

definition pg_mutate_retry ::
  "ext_lib \<Rightarrow> pg_env \<Rightarrow> TenantId option \<Rightarrow> RowId \<Rightarrow> ClaimToken \<Rightarrow> Mutation \<Rightarrow> (PgMutationError, unit) pg_action" where
  "pg_mutate_retry lib env tenant row_id token mutation =
     tx_then (pg_lock_delivery env tenant row_id 3) (\<lambda>delivery.
     tx_then (tx_return (pg_classify_delivery lib env delivery token)) (\<lambda>_.
     tx_then (pg_execute_mutation env tenant row_id token mutation 4) (\<lambda>affected.
     if affected \<noteq> 1 then
       tx_then (pg_lock_delivery env tenant row_id 5) (\<lambda>latest.
       tx_then (tx_return (pg_classify_delivery lib env latest token)) (\<lambda>_.
       tx_return (Inl (pg_mutation_error_sql ''conditional delivery mutation''
         (SqlxProtocol ''locked claimed delivery did not satisfy mutation'')))))
     else tx_return (Inr ()))))"

definition pg_mutate_body ::
  "ext_lib \<Rightarrow> pg_env \<Rightarrow> TenantId option \<Rightarrow> RowId \<Rightarrow> ClaimToken \<Rightarrow> Mutation \<Rightarrow> (PgMutationError, unit) pg_action" where
  "pg_mutate_body lib env tenant row_id token mutation =
     tx_then (case tenant of
         None \<Rightarrow> tx_return (Inr ())
       | Some tenant \<Rightarrow> tx_map_err (pg_mutation_error_sql ''bind mutation tenant'')
           (bind_tenant env ''bind mutation tenant'' 1 tenant)) (\<lambda>_.
     tx_then (pg_execute_mutation env tenant row_id token mutation 2) (\<lambda>affected.
     if affected = 1 then tx_return (Inr ())
     else pg_mutate_retry lib env tenant row_id token mutation))"

text \<open>Outcome and committed state.\<close>

definition pg_mutate ::
  "ext_lib \<Rightarrow> pg_env \<Rightarrow> TenantId option \<Rightarrow> RowId \<Rightarrow> ClaimToken \<Rightarrow> Mutation \<Rightarrow> pg_db
     \<Rightarrow> (PgMutationError + unit) \<times> pg_db" where
  "pg_mutate lib env tenant row_id token mutation db =
     (case pg_fault env ''begin mutation transaction'' 0 of
        Some source \<Rightarrow> (Inl (pg_mutation_error_sql ''begin mutation transaction'' source), db)
      | None \<Rightarrow>
     case pg_mutate_body lib env tenant row_id token mutation (tx_begin db) of
        (Inl e, t) \<Rightarrow> (Inl e, tx_db t)
      | (Inr _, t) \<Rightarrow>
     case pg_finish env t of
        (Inl source, db') \<Rightarrow> (Inl (pg_mutation_error_sql ''commit mutation transaction'' source), db')
      | (Inr _, db') \<Rightarrow> (Inr (), db'))"

definition pg_renew_for_scope where
  "pg_renew_for_scope lib env tenant row_id token lease_for db =
     pg_mutate lib env tenant row_id token (MRenew lease_for) db"

definition pg_ack_for_scope where
  "pg_ack_for_scope lib env tenant row_id token db = pg_mutate lib env tenant row_id token MAck db"

definition pg_retry_for_scope where
  "pg_retry_for_scope lib env tenant row_id token failure backoff db =
     pg_mutate lib env tenant row_id token (MRetry failure backoff) db"

definition pg_release_for_scope where
  "pg_release_for_scope lib env tenant row_id token delay db =
     pg_mutate lib env tenant row_id token (MRelease delay) db"

definition pg_quarantine_for_scope where
  "pg_quarantine_for_scope lib env tenant row_id token reason db =
     pg_mutate lib env tenant row_id token (MQuarantine reason) db"

section \<open>Transactions of a mutation\<close>

lemma tx_extends_lock_target: "tx_extends t (pg_lock_target tenant row_id t)"
  by (simp add: pg_lock_target_def tx_extends_lock)

lemma lock_target_sel [simp]:
  "tx_db (pg_lock_target tenant row_id t) = tx_db t" "tx_view (pg_lock_target tenant row_id t) = tx_view t"
  "own_writes (pg_lock_target tenant row_id t) = own_writes t"
  by (simp_all add: pg_lock_target_def tx_lock_def tx_view_def own_writes_def)

lemma tx_runs_mutation_update:
  "tx_runs (pg_update ovf (mutation_where row_id tenant token now) (mutation_set (pg_plus env) now p))"
  by (rule tx_runs_pg_update [OF mutation_set_keys mutation_where_key])

lemma tx_runs_execute:
  assumes "pg_peers_ok env"
  shows "tx_runs (pg_execute_mutation env tenant row_id token mutation n)"
proof -
  let ?body = "\<lambda>prepared t. let operation_time = pg_clock env n; held = row_id_get row_id \<in> set (tx_locked t);
            t = pg_lock_target tenant row_id t in
          if pg_stale env n \<and> \<not> held then (Inr [], t)
          else pg_update (mutation_overflows (pg_plus env) operation_time prepared)
            (mutation_where row_id tenant token operation_time)
            (mutation_set (pg_plus env) operation_time prepared) t"
  have "tx_runs (?body p)" for p
  proof (rule tx_runsI)
    fix t r t' assume ok: "tx_ok t" and run: "?body p t = (r, t')"
    let ?t = "pg_lock_target tenant row_id t"
    have ext: "tx_extends t ?t" by (rule tx_extends_lock_target)
    note upd = tx_runsD [OF tx_runs_mutation_update tx_extends_ok [OF ext ok]]
    from run consider "t' = ?t" | "pg_update (mutation_overflows (pg_plus env) (pg_clock env n) p)
        (mutation_where row_id tenant token (pg_clock env n))
        (mutation_set (pg_plus env) (pg_clock env n) p) ?t = (r, t')"
      by (auto simp: Let_def split: if_splits)
    then show "tx_extends t t'" using ext upd tx_extends_trans by cases blast+
  qed
  then show ?thesis
    unfolding pg_execute_mutation_def
    by (intro tx_runs_then tx_runs_map_err tx_runs_return tx_runs_statement [OF assms])
qed

lemma tx_runs_lock_delivery: "pg_peers_ok env \<Longrightarrow> tx_runs (pg_lock_delivery env tenant row_id n)"
  unfolding pg_lock_delivery_def
  by (intro tx_runs_then tx_runs_map_err tx_runs_return tx_runs_statement)
    (auto simp: tx_runs_def tx_extends_lock_target)

lemma tx_runs_mutate:
  assumes "pg_peers_ok env"
  shows "tx_runs (pg_mutate_body lib env tenant row_id token mutation)"
proof -
  have "tx_runs (case tenant of None \<Rightarrow> tx_return (Inr ())
       | Some tenant \<Rightarrow> tx_map_err (pg_mutation_error_sql ''bind mutation tenant'')
           (bind_tenant env ''bind mutation tenant'' 1 tenant))"
    by (auto split: option.split intro!: tx_runs_map_err tx_runs_bind_tenant [OF assms])
  moreover have "tx_runs (pg_mutate_retry lib env tenant row_id token mutation)"
    unfolding pg_mutate_retry_def
    by (intro tx_runs_then tx_runs_lock_delivery [OF assms] tx_runs_return tx_runs_execute [OF assms] tx_runs_if)
  ultimately show ?thesis
    unfolding pg_mutate_body_def by (intro tx_runs_then tx_runs_execute [OF assms] tx_runs_if tx_runs_return)
qed

section \<open>Effect of a mutation\<close>

text \<open>
  \<open>pg_hit env tenant row_id token mutation n t\<close>: the UPDATE that is statement \<open>n\<close> has rewritten
  the one delivery the token owned at its clock, and the transaction has written nothing else.
\<close>

definition pg_hit ::
  "pg_env \<Rightarrow> TenantId option \<Rightarrow> RowId \<Rightarrow> ClaimToken \<Rightarrow> Mutation \<Rightarrow> nat \<Rightarrow> pg_txn \<Rightarrow> bool" where
  "pg_hit env tenant row_id token mutation n t \<longleftrightarrow>
     (\<exists>prepared. pg_prepare_mutation env mutation = Inr prepared
        \<and> mutation_hit (pg_plus env) (pg_clock env n) prepared tenant row_id token t)"

text \<open>The UPDATE found nothing to change.\<close>

definition pg_miss ::
  "pg_env \<Rightarrow> TenantId option \<Rightarrow> RowId \<Rightarrow> ClaimToken \<Rightarrow> nat \<Rightarrow> pg_txn \<Rightarrow> pg_txn \<Rightarrow> bool" where
  "pg_miss env tenant row_id token n t t' \<longleftrightarrow> own_writes t' = ([], [])
     \<and> ((pg_stale env n \<and> row_id_get row_id \<notin> set (tx_locked t))
        \<or> (\<forall>d. find_delivery (tx_db t') (row_id_get row_id) = Some d \<longrightarrow>
             \<not> mutation_where row_id tenant token (pg_clock env n) d))"

lemma pg_execute_Inr:
  assumes "pg_peers_ok env" "tx_ok t" "own_writes t = ([], [])"
    and run: "pg_execute_mutation env tenant row_id token mutation n t = (Inr a, t')"
  shows "(a = 1 \<and> pg_hit env tenant row_id token mutation n t')
    \<or> (a = 0 \<and> pg_miss env tenant row_id token n t t')"
proof -
  let ?now = "pg_clock env n" and ?rid = "row_id_get row_id"
  let ?u = "pg_lock_target tenant row_id (tx_peer (pg_peer env n) t)"
  let ?w = "mutation_where row_id tenant token ?now"
  have own: "own_writes ?u = ([], [])" "tx_view ?u = tx_db ?u"
    using assms(3) view_no_writes [of ?u] by simp_all
  have ok: "tx_ok ?u" by (rule tx_extends_ok [OF tx_extends_lock_target pg_ok_peer [OF assms(1,2)]])
  from run obtain p rows where p: "pg_prepare_mutation env mutation = Inr p" and a: "a = length rows"
    and st: "(if pg_stale env n \<and> ?rid \<notin> set (tx_locked t) then (Inr [], ?u)
       else pg_update (mutation_overflows (pg_plus env) ?now p) ?w (mutation_set (pg_plus env) ?now p) ?u)
       = (Inr rows, t')"
    unfolding pg_execute_mutation_def tx_then_Inr_iff tx_map_err_Inr_iff tx_return_iff pg_statement_Inr
      Let_def by (auto simp only: tx_peer_sel sum.inject)
  show ?thesis
  proof (cases "pg_stale env n \<and> ?rid \<notin> set (tx_locked t)")
    case True
    then show ?thesis using st a own(1) by (auto simp: pg_miss_def)
  next
    case False
    then have upd: "tx_update ?w (mutation_set (pg_plus env) ?now p) ?u = (Inr rows, t')"
      using st unfolding if_not_P [OF False] pg_update_Inr by blast
    from mutation_update_Inr [OF ok own(1) upd] show ?thesis
      using a p assms(3) by (auto simp: pg_hit_def mutation_hit_def pg_miss_def)
  qed
qed

lemma reads_only_lock_delivery: "reads_only (pg_lock_delivery env tenant row_id n)"
proof -
  have "reads_only (pg_statement env ''lock delivery for mutation'' n (\<lambda>t.
         (Inr (find (lock_where tenant row_id) (db_deliveries (tx_view t))),
          pg_lock_target tenant row_id t)))"
    by (auto simp: reads_only_def pg_statement_def tx_statement_def Let_def split: option.split)
  then show ?thesis
    unfolding pg_lock_delivery_def by (intro reads_only_then reads_only_map_err reads_only_return)
qed

lemma pg_retry_Inr:
  assumes "pg_peers_ok env" "tx_ok t" "own_writes t = ([], [])"
    and run: "pg_mutate_retry lib env tenant row_id token mutation t = (Inr (), t')"
  shows "pg_hit env tenant row_id token mutation 4 t'"
proof -
  from run obtain del t1 a where lock: "pg_lock_delivery env tenant row_id 3 t = (Inr del, t1)"
    and ex: "pg_execute_mutation env tenant row_id token mutation 4 t1 = (Inr a, t')" and a: "a = 1"
    unfolding pg_mutate_retry_def tx_then_return tx_then_Inr_iff
    by (auto simp: tx_then_Inr_iff tx_then_return split: if_splits)
  have own: "own_writes t1 = ([], [])" using reads_onlyD [OF reads_only_lock_delivery lock] assms(3) by simp
  have "tx_ok t1" by (rule tx_extends_ok [OF tx_runsD [OF tx_runs_lock_delivery [OF assms(1)] assms(2) lock] assms(2)])
  from pg_execute_Inr [OF assms(1) this own ex] a show ?thesis by simp
qed

lemma pg_mutate_body_Inr:
  assumes "pg_peers_ok env" "db_ok db"
    and run: "pg_mutate_body lib env tenant row_id token mutation (tx_begin db) = (Inr (), t)"
  shows "tx_ok t \<and> (\<exists>n. pg_hit env tenant row_id token mutation n t)"
proof -
  let ?bind = "case tenant of None \<Rightarrow> tx_return (Inr ())
       | Some tenant \<Rightarrow> tx_map_err (pg_mutation_error_sql ''bind mutation tenant'')
           (bind_tenant env ''bind mutation tenant'' 1 tenant)"
  note ok0 = tx_ok_begin [OF assms(2)]
  have ok: "tx_ok t" by (rule tx_extends_ok [OF tx_runsD [OF tx_runs_mutate [OF assms(1)] ok0 run] ok0])
  from run obtain t1 t2 a where b: "?bind (tx_begin db) = (Inr (), t1)"
    and ex: "pg_execute_mutation env tenant row_id token mutation 2 t1 = (Inr a, t2)"
    and rest: "(if a = 1 then tx_return (Inr ()) else pg_mutate_retry lib env tenant row_id token mutation) t2
      = (Inr (), t)"
    unfolding pg_mutate_body_def tx_then_Inr_iff by auto
  have "reads_only ?bind" "tx_runs ?bind"
    by (auto simp: bind_tenant_def split: option.split
        intro!: reads_only_map_err tx_runs_map_err tx_runs_query [OF assms(1)])
  then have t1: "own_writes t1 = ([], [])" "tx_ok t1"
    using reads_onlyD [where m = ?bind, OF _ b] tx_extends_ok [OF tx_runsD [where m = ?bind, OF _ ok0 b] ok0]
    by (simp_all add: own_writes_def)
  have t2: "tx_ok t2" by (rule tx_extends_ok [OF tx_runsD [OF tx_runs_execute [OF assms(1)] t1(2) ex] t1(2)])
  show ?thesis
    using pg_execute_Inr [OF assms(1) t1(2,1) ex] rest ok pg_retry_Inr [OF assms(1) t2]
    by (fastforce simp: pg_miss_def)
qed

lemma pg_mutate_cases:
  assumes "pg_mutate lib env tenant row_id token mutation db = (res, db')"
  obtains (unopened) e where "res = Inl e" "db' = db"
  | (rolled_back) e t where "pg_mutate_body lib env tenant row_id token mutation (tx_begin db) = (Inl e, t)"
      "res = Inl e" "db' = tx_db t"
  | (finished) t where "pg_mutate_body lib env tenant row_id token mutation (tx_begin db) = (Inr (), t)"
      "(pg_commit env = Committed \<and> res = Inr () \<and> db' = tx_view t)
       \<or> (\<exists>e. pg_commit env = CommitFailed e \<and> res = Inl (pg_mutation_error_sql ''commit mutation transaction'' e)
            \<and> db' = tx_db t)
       \<or> (\<exists>e. pg_commit env = CommitUnreported e \<and> res = Inl (pg_mutation_error_sql ''commit mutation transaction'' e)
            \<and> db' = tx_view t)"
proof (cases "pg_fault env ''begin mutation transaction'' 0")
  case None
  obtain r t where b: "pg_mutate_body lib env tenant row_id token mutation (tx_begin db) = (r, t)" by fastforce
  show thesis
    using assms b None rolled_back finished
    by (cases r) (auto simp: pg_mutate_def pg_finish_def tx_finish_def split: commit_outcome.splits)
qed (use assms unopened in \<open>auto simp: pg_mutate_def\<close>)

section \<open>Why a mutation is refused\<close>

text \<open>
  The server reports no fault, its clock does not run backwards, the span of the mutation can be
  encoded and its sums are in range.
\<close>

definition pg_mutation_quiet :: "pg_env \<Rightarrow> Mutation \<Rightarrow> bool" where
  "pg_mutation_quiet env mutation \<longleftrightarrow> (\<forall>label n. pg_fault env label n = None)
     \<and> pg_commit env = Committed \<and> (\<forall>m n. m \<le> n \<longrightarrow> pg_clock env m \<le> pg_clock env n)
     \<and> (\<exists>prepared. pg_prepare_mutation env mutation = Inr prepared
          \<and> (\<forall>now. \<not> mutation_overflows (pg_plus env) now prepared))"

lemma pg_execute_quiet:
  assumes "pg_peers_ok env" "tx_ok t" "pg_mutation_quiet env mutation" "mutation_payload_ok mutation"
  shows "\<exists>a t'. pg_execute_mutation env tenant row_id token mutation n t = (Inr a, t')"
proof -
  obtain p where p: "pg_prepare_mutation env mutation = Inr p" "\<And>now. \<not> mutation_overflows (pg_plus env) now p"
    and quiet: "pg_fault env label k = None" for label k
    using assms(3) by (auto simp: pg_mutation_quiet_def)
  let ?now = "pg_clock env n" and ?u = "pg_lock_target tenant row_id (tx_peer (pg_peer env n) t)"
  have "tx_ok ?u" by (rule tx_extends_ok [OF tx_extends_lock_target pg_ok_peer [OF assms(1,2)]])
  then have "delivery_check d" if "d \<in> set (db_deliveries (tx_view ?u))" for d
    using that by (auto simp: tx_ok_def db_ok_def list_all_iff)
  then obtain rows u where "tx_update (mutation_where row_id tenant token ?now)
      (mutation_set (pg_plus env) ?now p) ?u = (Inr rows, u)"
    using tx_update_defined [of ?u "mutation_where row_id tenant token ?now" "mutation_set (pg_plus env) ?now p"]
      mutation_set_check [OF _ _ assms(4) p(1) [unfolded pg_prepare_mutation_def] p(2)] by blast
  then show ?thesis
    using p quiet by (simp add: pg_execute_mutation_def tx_then_def tx_map_err_def tx_return_def
        pg_statement_def tx_statement_def pg_update_def Let_def)
qed

text \<open>The verdict on a consistent row.\<close>

lemma pg_classify_cases:
  assumes "pg_codec env" "delivery_check d"
  shows "if dr_state d \<noteq> ''claimed''
      then \<exists>st. pg_parse_state lib (dr_state d) = Inr st \<and> pg_classify_delivery lib env (d, now) token = Inl (PMutIllegalTransition st)
    else \<exists>k x. dr_claim_token d = Some k \<and> dr_claim_expires_at d = Some x
      \<and> pg_classify_delivery lib env (d, now) token
          = (if k \<noteq> claim_token_bytes token \<or> x \<le> now then Inl PMutLostClaim else Inr ())"
proof (cases "dr_state d = ''claimed''")
  case True
  then obtain k x where "dr_claim_token d = Some k" "dr_claim_expires_at d = Some x" "length k = 16"
    using assms(2) by (auto simp: delivery_check_def delivery_shape_def)
  then show ?thesis
    using True by (simp add: pg_classify_delivery_def pg_parse_state_def pg_codec_le [OF assms(1)])
next
  case False
  then have "dr_state d \<in> {''pending'', ''delivered'', ''quarantined''}"
    using assms(2) by (auto simp: delivery_check_def delivery_shape_def)
  then show ?thesis using False by (auto simp: pg_classify_delivery_def pg_parse_state_def)
qed

text \<open>
  A refusal of a quiet mutation, and the committed state it is about: no such delivery in the
  scope, a state other than claimed, another token or a lease that has run out. The delivery is
  locked while it is judged, so no other error is possible.
\<close>

definition pg_refusal ::
  "ext_lib \<Rightarrow> pg_env \<Rightarrow> TenantId option \<Rightarrow> RowId \<Rightarrow> ClaimToken \<Rightarrow> PgMutationError \<Rightarrow> pg_db \<Rightarrow> bool" where
  "pg_refusal lib env tenant row_id token e db \<longleftrightarrow>
     (case find_delivery db (row_id_get row_id) of
        None \<Rightarrow> e = PMutNotFound
      | Some d \<Rightarrow>
          if \<not> tenant_matches tenant d then e = PMutNotFound
          else if dr_state d \<noteq> ''claimed''
            then \<exists>st. pg_parse_state lib (dr_state d) = Inr st \<and> e = PMutIllegalTransition st
          else e = PMutLostClaim \<and> (dr_claim_token d \<noteq> Some (claim_token_bytes token)
            \<or> (\<exists>n x. dr_claim_expires_at d = Some x \<and> x \<le> pg_clock env n)))"

text \<open>A locking read either finds no row or leaves it locked.\<close>

lemma pg_lock_delivery_quiet:
  assumes "pg_peers_ok env" "tx_ok t" "own_writes t = ([], [])" "\<And>label n. pg_fault env label n = None"
  obtains (missing) t' where "pg_lock_delivery env tenant row_id n t = (Inl PMutNotFound, t')"
      "\<And>lib token. pg_refusal lib env tenant row_id token PMutNotFound (tx_db t')" "tx_ok t'"
  | (found) d t' where "pg_lock_delivery env tenant row_id n t = (Inr (d, pg_clock env n), t')"
      "find_delivery (tx_db t') (row_id_get row_id) = Some d" "tenant_matches tenant d" "delivery_check d"
      "row_id_get row_id \<in> set (tx_locked t')" "tx_extends t t'" "tx_ok t'" "own_writes t' = ([], [])"
proof -
  let ?u = "tx_peer (pg_peer env n) t"
  let ?t = "pg_lock_target tenant row_id ?u"
  have own: "own_writes ?t = ([], [])" "tx_view ?u = tx_db ?u"
    using assms(3) view_no_writes [of ?u] by simp_all
  have ext: "tx_extends t ?t" by (rule tx_extends_trans [OF pg_extends_peer [OF assms(1)] tx_extends_lock_target])
  have ok: "tx_ok ?t" by (rule tx_extends_ok [OF ext assms(2)])
  then have dbok: "db_ok (tx_db ?u)" by (simp add: tx_ok_def)
  have run: "pg_lock_delivery env tenant row_id n t = (and_then (ok_or PMutNotFound
      (find (lock_where tenant row_id) (db_deliveries (tx_db ?u)))) (\<lambda>d. Inr (d, pg_clock env n)), ?t)"
    using assms(4) own(2) by (simp add: pg_lock_delivery_def tx_then_def tx_map_err_def tx_return_def pg_statement_def tx_statement_def)
  show thesis
  proof (cases "find (lock_where tenant row_id) (db_deliveries (tx_db ?u))")
    case None
    then have "pg_refusal lib env tenant row_id token PMutNotFound (tx_db ?t)" for lib token
      using find_lock_where [OF dbok, of tenant row_id] by (auto simp: pg_refusal_def split: option.splits if_splits)
    then show thesis using missing [of ?t] None run ok by simp
  next
    case (Some d)
    have d: "find_delivery (tx_db ?u) (row_id_get row_id) = Some d" "tenant_matches tenant d"
      using Some find_lock_where [OF dbok, of tenant row_id] by (auto split: option.splits if_splits)
    have "d \<in> set (db_deliveries (tx_db ?u))" "lock_where tenant row_id d" using find_Some_in [OF Some] by auto
    then have "row_id_get row_id \<in> set (tx_locked ?t)"
      unfolding pg_lock_target_def own(2) by (auto simp: tx_lock_def lock_where_def)
    then show thesis
      using found [of d ?t] Some d run ok ext own(1) find_delivery_check [OF dbok d(1)] by simp
  qed
qed

text \<open>The verdict on a delivery that is locked, at the clock of its locking read.\<close>

lemma pg_verdict:
  assumes "pg_codec env" "delivery_check d" "tenant_matches tenant d"
    and "find_delivery db (row_id_get row_id) = Some d"
  shows "pg_classify_delivery lib env (d, pg_clock env n) token = Inl e \<Longrightarrow>
      pg_refusal lib env tenant row_id token e db"
    and "pg_classify_delivery lib env (d, pg_clock env n) token = Inr () \<Longrightarrow>
      \<exists>x. dr_claim_expires_at d = Some x \<and> pg_clock env n < x
        \<and> (\<forall>now. mutation_where row_id tenant token now d \<longleftrightarrow> now < x)"
proof -
  note verdict = pg_classify_cases [OF assms(1,2), of lib "pg_clock env n" token]
  show "pg_refusal lib env tenant row_id token e db"
    if "pg_classify_delivery lib env (d, pg_clock env n) token = Inl e"
    using that verdict assms(3,4) by (auto simp: pg_refusal_def split: if_splits)
  have "dr_event_row_id d = row_id_get row_id" using assms(4) by (auto simp: find_delivery_def dest: find_Some_in)
  then show "\<exists>x. dr_claim_expires_at d = Some x \<and> pg_clock env n < x
        \<and> (\<forall>now. mutation_where row_id tenant token now d \<longleftrightarrow> now < x)"
    if "pg_classify_delivery lib env (d, pg_clock env n) token = Inr ()"
    using that verdict assms(3) by (auto simp: mutation_where_def split: if_splits)
qed

lemma pg_retry_refused:
  assumes "pg_peers_ok env" "tx_ok t" "own_writes t = ([], [])" "pg_codec env"
    and quiet: "pg_mutation_quiet env mutation" and "mutation_payload_ok mutation"
    and run: "pg_mutate_retry lib env tenant row_id token mutation t = (Inl e, t')"
  shows "pg_refusal lib env tenant row_id token e (tx_db t')"
proof -
  have nofault: "pg_fault env label n = None" for label n using quiet by (simp add: pg_mutation_quiet_def)
  note eval = run [unfolded pg_mutate_retry_def tx_then_def]
  from assms(1-3) nofault show ?thesis
  proof (cases rule: pg_lock_delivery_quiet [where tenant = tenant and row_id = row_id and n = 3])
    case (missing t1)
    then show ?thesis using eval by simp
  next
    case (found d t1)
    note verdict = pg_verdict [OF assms(4) found(4,3,2), of lib 3 token]
    show ?thesis
    proof (cases "pg_classify_delivery lib env (d, pg_clock env 3) token")
      case (Inl e')
      then show ?thesis using verdict(1) eval found(1) by (simp add: tx_return_def)
    next
      case (Inr u)
      then obtain x where x: "\<And>now. mutation_where row_id tenant token now d \<longleftrightarrow> now < x"
        "dr_claim_expires_at d = Some x" using verdict(2) by auto
      obtain a t2 where ex: "pg_execute_mutation env tenant row_id token mutation 4 t1 = (Inr a, t2)"
        using pg_execute_quiet [OF assms(1) found(7) quiet assms(6)] by blast
      have ext: "tx_extends t1 t2" by (rule tx_runsD [OF tx_runs_execute [OF assms(1)] found(7) ex])
      have d2: "find_delivery (tx_db t2) (row_id_get row_id) = Some d"
        using ext found(2,5) by (simp add: tx_extends_def)
      have miss: "a \<noteq> 1" using eval found(1) Inr ex by (auto simp: tx_return_def)
      then have "pg_miss env tenant row_id token 4 t1 t2"
        using pg_execute_Inr [OF assms(1) found(7,8) ex] by simp
      then have own2: "own_writes t2 = ([], [])" and late: "x \<le> pg_clock env 4"
        using found(5) d2 x(1) by (auto simp: pg_miss_def not_less)
      have ok2: "tx_ok t2" by (rule tx_extends_ok [OF ext found(7)])
      from assms(1) ok2 own2 nofault show ?thesis
      proof (cases rule: pg_lock_delivery_quiet [where tenant = tenant and row_id = row_id and n = 5])
        case (missing t3)
        then show ?thesis using eval found(1) Inr ex miss by (simp add: tx_return_def)
      next
        case lock: (found d3 t3)
        have "find_delivery (tx_db t3) (row_id_get row_id) = Some d"
          using lock(6) ext found(5) d2 by (auto simp: tx_extends_def)
        then have d3: "d3 = d" using lock(2) by simp
        have "pg_clock env 4 \<le> pg_clock env 5" using quiet by (simp add: pg_mutation_quiet_def)
        then have "pg_classify_delivery lib env (d3, pg_clock env 5) token \<noteq> Inr ()"
          using pg_verdict(2) [OF assms(4) lock(4,3,2), of lib 5 token] x(2) late d3 by auto
        then obtain e' where e': "pg_classify_delivery lib env (d3, pg_clock env 5) token = Inl e'"
          by (cases "pg_classify_delivery lib env (d3, pg_clock env 5) token") auto
        then show ?thesis
          using eval found(1) Inr ex miss lock(1) pg_verdict(1) [OF assms(4) lock(4,3,2)] by (simp add: tx_return_def)
      qed
    qed
  qed
qed

lemma pg_mutate_refused:
  assumes "pg_peers_ok env" "db_ok db" "pg_codec env" "pg_mutation_quiet env mutation"
    "mutation_payload_ok mutation"
    and run: "pg_mutate lib env tenant row_id token mutation db = (Inl e, db')"
  shows "pg_refusal lib env tenant row_id token e db'"
proof -
  have nofault: "pg_fault env label n = None" for label n using assms(4) by (simp add: pg_mutation_quiet_def)
  obtain t where body: "pg_mutate_body lib env tenant row_id token mutation (tx_begin db) = (Inl e, t)"
    and db': "db' = tx_db t"
    using run assms(4) by (auto simp: pg_mutate_def pg_mutation_quiet_def pg_finish_def tx_finish_def split: sum.splits prod.splits)
  obtain t1 where bind: "(case tenant of None \<Rightarrow> tx_return (Inr ())
       | Some tenant \<Rightarrow> tx_map_err (pg_mutation_error_sql ''bind mutation tenant'')
           (bind_tenant env ''bind mutation tenant'' 1 tenant)) (tx_begin db) = (Inr (), t1)"
    and own1: "own_writes t1 = ([], [])" and ok1: "tx_ok t1"
    using tx_ok_begin [OF assms(2)] pg_ok_peer [OF assms(1) tx_ok_begin [OF assms(2)]] nofault
    by (cases tenant) (auto simp: bind_tenant_def pg_query_def pg_statement_def tx_statement_def tx_map_err_def own_writes_def)
  obtain a t2 where ex: "pg_execute_mutation env tenant row_id token mutation 2 t1 = (Inr a, t2)"
    using pg_execute_quiet [OF assms(1) ok1 assms(4,5)] by blast
  have ok2: "tx_ok t2" by (rule tx_extends_ok [OF tx_runsD [OF tx_runs_execute [OF assms(1)] ok1 ex] ok1])
  have miss: "a \<noteq> 1" and retry: "pg_mutate_retry lib env tenant row_id token mutation t2 = (Inl e, t)"
    using body bind ex by (auto simp: pg_mutate_body_def tx_then_def split: if_splits)
  then have "own_writes t2 = ([], [])" using pg_execute_Inr [OF assms(1) ok1 own1 ex] by (auto simp: pg_miss_def)
  from pg_retry_refused [OF assms(1) ok2 this assms(3-5) retry] show ?thesis by (simp add: db')
qed

end
