(* ===== verification/Postgres_Page.thy ===== *)
theory Postgres_Page
  imports Postgres_Enqueue
begin

text \<open>
  \<open>crates/dovecote-sqlx-postgres/src/page.rs\<close>: live pages and the finite snapshot pager. A live
  page reads what is committed when its statement runs. The pager keeps a read-only transaction
  at REPEATABLE READ, in which every statement sees what was committed at the first one; the
  field \<open>pgr_transaction\<close> is that state.
\<close>

section \<open>Hydration of a joined row\<close>

definition pg_hydrate_snapshot ::
  "ext_lib \<Rightarrow> pg_env \<Rightarrow> int durable_row \<Rightarrow> string \<Rightarrow> int \<Rightarrow> AttemptCount \<Rightarrow> Failure option
     \<Rightarrow> hydrate_error + DeliverySnapshot" where
  "pg_hydrate_snapshot lib env row state available_at attempts failure =
     (if state = ''pending'' then
        and_then (require_absent ''pending claim token'' (du_claim_token row)) (\<lambda>_.
        and_then (require_absent ''pending claimed worker'' (du_claimed_by row)) (\<lambda>_.
        and_then (require_absent ''pending claim expiry'' (du_claim_expires_at row)) (\<lambda>_.
        and_then (require_absent ''pending delivered time'' (du_delivered_at row)) (\<lambda>_.
        and_then (require_absent ''pending quarantine time'' (du_quarantined_at row)) (\<lambda>_.
        and_then (require_absent ''pending quarantine reason'' (du_quarantine_reason row)) (\<lambda>_.
          herr (snapshot_pending (pg_decode env available_at) attempts failure)))))))
      else if state = ''claimed'' then
        and_then (require_token_width (du_claim_token row)) (\<lambda>_.
        and_then (ok_or (HErr ''claimed delivery has no worker'') (du_claimed_by row)) (\<lambda>worker.
        and_then (ok_or (HErr ''claimed delivery has no claim expiry'') (du_claim_expires_at row)) (\<lambda>expires_at.
        and_then (require_absent ''claimed delivered time'' (du_delivered_at row)) (\<lambda>_.
        and_then (require_absent ''claimed quarantine time'' (du_quarantined_at row)) (\<lambda>_.
        and_then (require_absent ''claimed quarantine reason'' (du_quarantine_reason row)) (\<lambda>_.
        and_then (herr (worker_id_new worker)) (\<lambda>w.
          herr (snapshot_claimed (pg_decode env available_at) w (pg_decode env expires_at) attempts
            failure))))))))
      else if state = ''delivered'' then
        and_then (require_absent ''delivered claim token'' (du_claim_token row)) (\<lambda>_.
        and_then (require_absent ''delivered claimed worker'' (du_claimed_by row)) (\<lambda>_.
        and_then (require_absent ''delivered claim expiry'' (du_claim_expires_at row)) (\<lambda>_.
        and_then (ok_or (HErr ''delivered delivery has no delivered time'') (du_delivered_at row)) (\<lambda>delivered_at.
        and_then (require_absent ''delivered quarantine time'' (du_quarantined_at row)) (\<lambda>_.
        and_then (require_absent ''delivered quarantine reason'' (du_quarantine_reason row)) (\<lambda>_.
          herr (snapshot_delivered (pg_decode env available_at) (pg_decode env delivered_at) attempts
            failure)))))))
      else if state = ''quarantined'' then
        and_then (require_absent ''quarantined claim token'' (du_claim_token row)) (\<lambda>_.
        and_then (require_absent ''quarantined claimed worker'' (du_claimed_by row)) (\<lambda>_.
        and_then (require_absent ''quarantined claim expiry'' (du_claim_expires_at row)) (\<lambda>_.
        and_then (require_absent ''quarantined delivered time'' (du_delivered_at row)) (\<lambda>_.
        and_then (ok_or (HErr ''quarantined delivery has no quarantine time'')
          (du_quarantined_at row)) (\<lambda>quarantined_at.
        and_then (ok_or (HErr ''quarantined delivery has no quarantine reason'')
          (du_quarantine_reason row)) (\<lambda>reason.
        and_then (herr (quarantine_reason_new reason)) (\<lambda>q.
          herr (snapshot_quarantined (pg_decode env available_at) (pg_decode env quarantined_at)
            attempts failure q))))))))
      else Inl (HErr (''unknown delivery state '' @ debug_str lib state)))"

definition pg_hydrate_page :: "ext_lib \<Rightarrow> pg_env \<Rightarrow> int durable_row \<Rightarrow> hydrate_error + PagedEvent" where
  "pg_hydrate_page lib env row =
     and_then (herr (row_id_new (er_row_id (du_event row)))) (\<lambda>row_id.
     and_then (herr (tenant_id_new (er_tenant_id (du_event row)))) (\<lambda>tenant_id.
     and_then (pg_hydrate_event lib env (du_event row)) (\<lambda>event.
     and_then (ok_or (HErr (''event row '' @ int_to_string (er_row_id (du_event row))
       @ '' has no required delivery row'')) (du_state row)) (\<lambda>state.
     and_then (ok_or (HErr ''delivery row has no available_at'') (du_available_at row)) (\<lambda>available_at.
     and_then (ok_or (HErr ''delivery row has no attempts'') (du_attempts row)) (\<lambda>n.
     and_then (herr (attempt_count_new n)) (\<lambda>attempts.
     and_then (parse_failure (du_last_failure_code row) (du_last_failure_detail row)) (\<lambda>failure.
     and_then (pg_hydrate_snapshot lib env row state available_at attempts failure) (\<lambda>delivery.
       herr (paged_event_new tenant_id row_id event (pg_decode env (er_enqueued_at (du_event row)))
         delivery))))))))))"

section \<open>One page\<close>

definition pg_page_hydrate_error :: "hydrate_error \<Rightarrow> PgPageError" where
  "pg_page_hydrate_error e = (case e of HErr d \<Rightarrow> PPagSerialization d | HPanic \<Rightarrow> PPagPanic)"

definition query_page_on_connection ::
  "ext_lib \<Rightarrow> pg_env \<Rightarrow> TenantId option \<Rightarrow> int \<Rightarrow> int option \<Rightarrow> PageLimit \<Rightarrow> pg_db
     \<Rightarrow> PgPageError + PagedEvent list" where
  "query_page_on_connection lib env tenant_id after_row_id upper_bound limit db =
     and_then (map_err (pg_page_error_sql ''read event page'')
       (run_or (pg_fault env ''read event page'' 1)
         (page_sql tenant_id after_row_id upper_bound (limit_get limit) db))) (\<lambda>rows.
     map_err pg_page_hydrate_error (collect_results (pg_hydrate_page lib env) rows))"

text \<open>What is committed when statement \<open>n\<close> of a transaction without writes runs.\<close>

definition pg_committed :: "pg_env \<Rightarrow> nat \<Rightarrow> pg_db \<Rightarrow> pg_db" where
  "pg_committed env n db = pg_peer env n (tx_begin db)"

definition pg_page_for_scope ::
  "ext_lib \<Rightarrow> pg_env \<Rightarrow> TenantId option \<Rightarrow> RowId option \<Rightarrow> PageLimit \<Rightarrow> pg_db
     \<Rightarrow> PgPageError + PagedEvent list" where
  "pg_page_for_scope lib env tenant after_row_id limit db =
     (case tenant of
        Some tenant_id \<Rightarrow>
          and_then (map_err (pg_page_error_sql ''begin scoped live page transaction'')
            (run_or (pg_fault env ''begin scoped live page transaction'' 0) ())) (\<lambda>_.
          and_then (map_err (pg_page_error_sql ''bind live page tenant'')
            (fst (bind_tenant env ''bind live page tenant'' 0 tenant_id (tx_begin db)))) (\<lambda>_.
          let db = pg_committed env 1 (pg_committed env 0 db) in
          case query_page_on_connection lib env (Some tenant_id) (cursor_value after_row_id) None limit db of
            Inr rows \<Rightarrow>
              and_then (map_err (pg_page_error_sql ''finish scoped live page transaction'')
                (fst (pg_finish env (tx_begin db)))) (\<lambda>_. Inr rows)
          | Inl error \<Rightarrow> Inl error))
      | None \<Rightarrow>
          and_then (map_err (pg_page_error_sql ''acquire live page connection'')
            (run_or (pg_fault env ''acquire live page connection'' 0) ())) (\<lambda>_.
          query_page_on_connection lib env None (cursor_value after_row_id) None limit
            (pg_committed env 1 db)))"

section \<open>The snapshot pager\<close>

type_synonym pg_SnapshotPager = "int snapshot_pager"

text \<open>The binding of the tenant or, without one, the read of the bound is the first statement.\<close>

definition pg_begin_snapshot_for_scope ::
  "pg_env \<Rightarrow> TenantId option \<Rightarrow> pg_db \<Rightarrow> PgPageError + pg_SnapshotPager" where
  "pg_begin_snapshot_for_scope env tenant_id db =
     and_then (map_err (pg_page_error_sql ''begin snapshot transaction'')
       (run_or (pg_fault env ''begin snapshot transaction'' 0) ())) (\<lambda>_.
     and_then (case tenant_id of
         None \<Rightarrow> Inr ()
       | Some tenant_id \<Rightarrow> map_err (pg_page_error_sql ''bind snapshot tenant'')
           (fst (bind_tenant env ''bind snapshot tenant'' 0 tenant_id (tx_begin db)))) (\<lambda>_.
     let snapshot = pg_committed env 0 db in
     and_then (map_err (pg_page_error_sql ''read snapshot upper row ID'')
       (run_or (pg_fault env ''read snapshot upper row ID'' 1) (sql_max_row_id tenant_id snapshot)))
       (\<lambda>value.
     and_then (case value of
         None \<Rightarrow> Inr None
       | Some v \<Rightarrow> map_err (\<lambda>e. PPagSerialization (verror_to_string e))
           (and_then (row_id_new v) (\<lambda>r. Inr (Some r)))) (\<lambda>upper_bound.
     Inr \<lparr>pgr_transaction = snapshot, pgr_upper_bound = upper_bound, pgr_cursor = None,
          pgr_exhausted = (upper_bound = None), pgr_tenant_id = tenant_id\<rparr>))))"

definition pg_next_page ::
  "ext_lib \<Rightarrow> pg_env \<Rightarrow> PageLimit \<Rightarrow> pg_SnapshotPager
     \<Rightarrow> (PgPageError + PagedEvent list) \<times> pg_SnapshotPager" where
  "pg_next_page lib env = next_page_with (query_page_on_connection lib env) PPagPanic"

definition pg_pager_finish :: "pg_env \<Rightarrow> pg_SnapshotPager \<Rightarrow> PgPageError + unit" where
  "pg_pager_finish env p = map_err (pg_page_error_sql ''finish snapshot transaction'')
     (fst (pg_finish env (tx_begin (pgr_transaction p))))"

definition pg_pager_rollback :: "pg_env \<Rightarrow> pg_SnapshotPager \<Rightarrow> PgPageError + unit" where
  "pg_pager_rollback env p = map_err (pg_page_error_sql ''rollback snapshot transaction'')
     (run_or (pg_fault env ''rollback snapshot transaction'' 0) ())"

definition pg_pager_close :: "pg_env \<Rightarrow> pg_SnapshotPager \<Rightarrow> PgPageError + unit" where
  "pg_pager_close env p = pg_pager_rollback env p"

section \<open>The pager reads its snapshot once\<close>

lemma pg_hydrate_page_sel:
  assumes "pg_hydrate_page lib env row = Inr p"
  shows "pe_row_id p = RowId (er_row_id (du_event row))"
    and "tenant_id_str (pe_tenant_id p) = er_tenant_id (du_event row)"
proof -
  from assms obtain tid rid ev q s where new: "tenant_id_new (er_tenant_id (du_event row)) = Inr tid"
    "row_id_new (er_row_id (du_event row)) = Inr rid" "paged_event_new tid rid ev q s = Inr p"
    unfolding pg_hydrate_page_def and_then_Inr_iff herr_Inr_iff by blast
  from new(2,3) show "pe_row_id p = RowId (er_row_id (du_event row))"
    by (auto simp: paged_event_new_def and_then_Inr_iff row_id_new_Inr_iff)
  from new(1,3) show "tenant_id_str (pe_tenant_id p) = er_tenant_id (du_event row)"
    by (auto simp: paged_event_new_def and_then_Inr_iff tenant_id_new_Inr_iff)
qed

lemma pg_begin_snapshot_at:
  assumes "db_ok (pg_committed env 0 db)" and "pg_begin_snapshot_for_scope env tenant db = Inr p"
  shows "pgr_at p tenant (pg_committed env 0 db) 0"
  using assms(2) sql_max_row_id_eq [OF assms(1), of tenant]
  by (auto simp: pg_begin_snapshot_for_scope_def and_then_Inr_iff run_or_Inr_iff row_id_new_Inr_iff
      Let_def pgr_at_def position_def cursor_value_def split: if_splits)

text \<open>
  A call on a connection that reads its page. SQLx decodes with one conversion, that of the
  environment \<open>env0\<close> in which the snapshot was opened.
\<close>

definition pg_quiet_call :: "pg_env \<Rightarrow> pg_env \<times> PageLimit \<Rightarrow> bool" where
  "pg_quiet_call env0 = (\<lambda>(env, l). 0 < limit_get l \<and> pg_decode env = pg_decode env0
     \<and> pg_fault env ''read event page'' 1 = None)"

lemma pg_hydrate_page_cong:
  assumes "pg_decode env = pg_decode env'"
  shows "pg_hydrate_page lib env = pg_hydrate_page lib env'"
  by (rule ext) (simp only: pg_hydrate_page_def pg_hydrate_snapshot_def pg_hydrate_event_def assms)

lemma query_page_quiet:
  assumes "pg_quiet_call env0 (env, l)"
  shows "query_page_on_connection lib env tenant a upper l db
    = map_err pg_page_hydrate_error
        (collect_results (pg_hydrate_page lib env0) (page_sql tenant a upper (limit_get l) db))"
  using assms pg_hydrate_page_cong [of env env0 lib]
  by (simp add: query_page_on_connection_def pg_quiet_call_def)

interpretation pg_pages: page_server
  "\<lambda>(env, l). query_page_on_connection lib env" "\<lambda>(env, l). l" PPagPanic "pg_hydrate_page lib env0"
  pg_page_hydrate_error "pg_quiet_call env0" for lib env0
  by unfold_locales (auto simp: query_page_quiet pg_quiet_call_def intro: pg_hydrate_page_sel(1))

definition pg_run_pager ::
  "ext_lib \<Rightarrow> (pg_env \<times> PageLimit) list \<Rightarrow> pg_SnapshotPager
     \<Rightarrow> (PgPageError + PagedEvent list) \<times> pg_SnapshotPager" where
  "pg_run_pager lib calls p = run_calls (\<lambda>(env, l). pg_next_page lib env l) calls p"

definition pg_total_limit :: "(pg_env \<times> PageLimit) list \<Rightarrow> nat" where
  "pg_total_limit calls = sum_list (map (\<lambda>(env, l). limit_get l) calls)"

lemma pg_run_pager_at:
  assumes "db_ok db"
    and evs: "collect_results (pg_hydrate_page lib env0) (map (page_join db) (scope_rows tenant db)) = Inr evs"
    and "list_all (pg_quiet_call env0) calls" and "pgr_at p tenant db k"
  shows "\<exists>p'. pg_run_pager lib calls p = (Inr (take (pg_total_limit calls) (drop k evs)), p')
    \<and> pgr_at p' tenant db (k + pg_total_limit calls)"
  using pg_pages.slices.calls [of db lib env0 tenant evs p k calls] assms
  by (simp add: pg_run_pager_def pg_total_limit_def pg_next_page_def split_beta' cong: if_cong)

text \<open>A live page is the next slice of what is committed when it is read.\<close>

lemma pg_page_for_scope_Inr:
  assumes "pg_page_for_scope lib env tenant after_row_id limit db = Inr rows"
  obtains db1 where "db1 = pg_committed env 1 (if tenant = None then db else pg_committed env 0 db)"
    "collect_results (pg_hydrate_page lib env)
       (page_sql tenant (cursor_value after_row_id) None (limit_get limit) db1) = Inr rows"
  using assms that
  by (auto simp: pg_page_for_scope_def query_page_on_connection_def Let_def and_then_Inr_iff
      map_err_Inr_iff run_or_Inr_iff split: option.splits sum.splits)

end
