(* ===== verification/Postgres_Scope.thy ===== *)
theory Postgres_Scope
  imports Postgres_Import Postgres_Mutation Postgres_Page
begin

text \<open>
  The handles of \<open>crates/dovecote-sqlx-postgres/src/lib.rs\<close> and \<open>scope.rs\<close>. A handle holds the
  pool, which is the environment argument here, and for a tenant the tenant it is restricted to.
  The tenant handle binds its tenant in the caller's transaction before it enqueues, imports or
  finalises; the administrative one takes the tenant as an argument and binds none.
\<close>

datatype PgTenantDovecote = PgTenantDovecote (ph_tenant_id: TenantId)

datatype PgAdminDovecote = PgAdminDovecote

definition pg_for_tenant :: "TenantId \<Rightarrow> PgTenantDovecote" where
  "pg_for_tenant tenant = PgTenantDovecote tenant"

definition pg_admin :: PgAdminDovecote where
  "pg_admin = PgAdminDovecote"

definition postgres_check_schema :: "pg_build \<Rightarrow> pg_catalog \<Rightarrow> PgSchemaError + unit" where
  "postgres_check_schema bld cat = pg_check_schema bld cat"

section \<open>The tenant handle\<close>

definition pg_tenant_bind_tenant where
  "pg_tenant_bind_tenant env self = bind_tenant env ''bind tenant'' 0 (ph_tenant_id self)"

definition pg_tenant_enqueue where
  "pg_tenant_enqueue lib bld env self event =
     tx_then (tx_map_err (pg_enqueue_error_sql ''bind tenant'') (pg_tenant_bind_tenant env self))
       (\<lambda>_. pg_enqueue_for_scope lib bld env (ph_tenant_id self) event)"

definition pg_tenant_import_for_migration where
  "pg_tenant_import_for_migration lib bld cat env self event state =
     tx_then (tx_map_err (pg_import_error_sql ''bind tenant'') (pg_tenant_bind_tenant env self))
       (\<lambda>_. pg_import_for_scope lib bld cat env (ph_tenant_id self) event state)"

definition pg_tenant_finalize_pending_delivery_for_migration where
  "pg_tenant_finalize_pending_delivery_for_migration bld cat env self row_id delivered_at =
     tx_then (tx_map_err (pg_finalize_error_sql ''bind tenant'') (pg_tenant_bind_tenant env self))
       (\<lambda>_. pg_finalize_for_scope bld cat env (ph_tenant_id self) row_id delivered_at)"

definition pg_tenant_page where
  "pg_tenant_page lib env self after_row_id limit db =
     pg_page_for_scope lib env (Some (ph_tenant_id self)) after_row_id limit db"

definition pg_tenant_begin_snapshot where
  "pg_tenant_begin_snapshot env self db = pg_begin_snapshot_for_scope env (Some (ph_tenant_id self)) db"

definition pg_tenant_claim where
  "pg_tenant_claim lib env self worker lease_for limit entropy db =
     pg_claim_for_scope lib env (Some (ph_tenant_id self)) worker lease_for limit entropy db"

definition pg_tenant_renew where
  "pg_tenant_renew lib env self row_id claim_token lease_for db =
     pg_renew_for_scope lib env (Some (ph_tenant_id self)) row_id claim_token lease_for db"

definition pg_tenant_ack where
  "pg_tenant_ack lib env self row_id claim_token db =
     pg_ack_for_scope lib env (Some (ph_tenant_id self)) row_id claim_token db"

definition pg_tenant_retry where
  "pg_tenant_retry lib env self row_id claim_token failure backoff db =
     pg_retry_for_scope lib env (Some (ph_tenant_id self)) row_id claim_token failure backoff db"

definition pg_tenant_release where
  "pg_tenant_release lib env self row_id claim_token delay db =
     pg_release_for_scope lib env (Some (ph_tenant_id self)) row_id claim_token delay db"

definition pg_tenant_quarantine where
  "pg_tenant_quarantine lib env self row_id claim_token reason db =
     pg_quarantine_for_scope lib env (Some (ph_tenant_id self)) row_id claim_token reason db"

section \<open>The administrative handle\<close>

definition pg_admin_enqueue where
  "pg_admin_enqueue lib bld env (self :: PgAdminDovecote) tenant_id event =
     pg_enqueue_for_scope lib bld env tenant_id event"

definition pg_admin_import_for_migration where
  "pg_admin_import_for_migration lib bld cat env (self :: PgAdminDovecote) tenant_id event state =
     pg_import_for_scope lib bld cat env tenant_id event state"

definition pg_admin_finalize_pending_delivery_for_migration where
  "pg_admin_finalize_pending_delivery_for_migration bld cat env (self :: PgAdminDovecote) tenant_id
     row_id delivered_at = pg_finalize_for_scope bld cat env tenant_id row_id delivered_at"

definition pg_admin_page where
  "pg_admin_page lib env (self :: PgAdminDovecote) after_row_id limit db =
     pg_page_for_scope lib env None after_row_id limit db"

definition pg_admin_begin_snapshot where
  "pg_admin_begin_snapshot env (self :: PgAdminDovecote) db = pg_begin_snapshot_for_scope env None db"

definition pg_admin_claim where
  "pg_admin_claim lib env (self :: PgAdminDovecote) worker lease_for limit entropy db =
     pg_claim_for_scope lib env None worker lease_for limit entropy db"

definition pg_admin_renew where
  "pg_admin_renew lib env (self :: PgAdminDovecote) tenant_id row_id claim_token lease_for db =
     pg_renew_for_scope lib env (Some tenant_id) row_id claim_token lease_for db"

definition pg_admin_ack where
  "pg_admin_ack lib env (self :: PgAdminDovecote) tenant_id row_id claim_token db =
     pg_ack_for_scope lib env (Some tenant_id) row_id claim_token db"

definition pg_admin_retry where
  "pg_admin_retry lib env (self :: PgAdminDovecote) tenant_id row_id claim_token failure backoff db =
     pg_retry_for_scope lib env (Some tenant_id) row_id claim_token failure backoff db"

definition pg_admin_release where
  "pg_admin_release lib env (self :: PgAdminDovecote) tenant_id row_id claim_token delay db =
     pg_release_for_scope lib env (Some tenant_id) row_id claim_token delay db"

definition pg_admin_quarantine where
  "pg_admin_quarantine lib env (self :: PgAdminDovecote) tenant_id row_id claim_token reason db =
     pg_quarantine_for_scope lib env (Some tenant_id) row_id claim_token reason db"

end
