(* ===== verification/Adapter_Session.thy ===== *)
theory Adapter_Session
  imports Adapter_Mutation
begin

text \<open>
  Transactions that commit beside others. The commit of a transaction takes what is committed to
  its view; this theory has the facts about that step which the adapters with concurrent
  transactions share: every committed delivery is kept or takes one step of the lifecycle, every
  event has its delivery, and what is committed meanwhile is the work of the others alone.
\<close>

section \<open>Transactions of the caller\<close>

text \<open>
  What a transaction of enqueues, imports and finalisations has written: rows under keys of its
  own, and finalised forms of committed rows; each new event comes with its delivery.
\<close>

definition own_finalizes :: "'t txn \<Rightarrow> bool" where
  "own_finalizes t \<longleftrightarrow> (\<forall>r d e. find_delivery (tx_db t) r = Some d \<longrightarrow> row_in (tx_deliveries t) r = Some e \<longrightarrow>
     (\<exists>q x. canonical_pending d q \<and> e = d\<lparr>dr_state := ''delivered'', dr_delivered_at := Some x\<rparr>))"

definition own_paired :: "'t txn \<Rightarrow> bool" where
  "own_paired t \<longleftrightarrow> (\<forall>e \<in> set (tx_events t). row_in (tx_deliveries t) (er_row_id e) \<noteq> None)"

definition caller_ok :: "'t txn \<Rightarrow> bool" where
  "caller_ok t \<longleftrightarrow> tx_ok t \<and> own_finalizes t \<and> own_paired t"

lemma caller_ok_begin: "db_ok db \<Longrightarrow> caller_ok (tx_begin db)"
  by (simp add: caller_ok_def tx_ok_begin own_finalizes_def own_paired_def row_in_def)

lemma own_row_committed:
  assumes "tx_ok t" "tx_extends t t'" "row_in (tx_deliveries t) r = Some e"
  shows "find_delivery (tx_db t') r = find_delivery (tx_db t) r"
proof -
  have "r \<in> set (tx_locked t)" using assms(1,3) row_in_Some by (fastforce simp: tx_ok_def)
  then show ?thesis using assms(2) by (simp add: tx_extends_def)
qed

lemma caller_ok_same:
  assumes "caller_ok t" "tx_extends t t'" "own_writes t' = own_writes t"
  shows "caller_ok t'"
proof -
  have own: "tx_deliveries t' = tx_deliveries t" "tx_events t' = tx_events t"
    using assms(3) by (simp_all add: own_writes_def)
  have "own_finalizes t'"
    unfolding own_finalizes_def own
  proof (intro allI impI)
    fix r d e
    assume "find_delivery (tx_db t') r = Some d" and e: "row_in (tx_deliveries t) r = Some e"
    then have "find_delivery (tx_db t) r = Some d"
      using own_row_committed [OF _ assms(2) e] assms(1) by (simp add: caller_ok_def)
    then show "\<exists>q x. canonical_pending d q \<and> e = d\<lparr>dr_state := ''delivered'', dr_delivered_at := Some x\<rparr>"
      using assms(1) e unfolding caller_ok_def own_finalizes_def by blast
  qed
  moreover have "tx_ok t'" using tx_extends_ok [OF assms(2)] assms(1) by (simp add: caller_ok_def)
  ultimately show ?thesis using assms(1) by (simp add: caller_ok_def own_paired_def own)
qed

lemma caller_ok_insert:
  assumes "caller_ok t" "tx_extends t t'" "tx_events t' = tx_events t @ [e]"
    and ds: "tx_deliveries t' = tx_deliveries t @ [d]" "dr_event_row_id d = er_row_id e"
    and none: "find_delivery (tx_db t') (er_row_id e) = None"
  shows "caller_ok t'"
proof -
  have in': "row_in (tx_deliveries t') r = (case row_in (tx_deliveries t) r of
      None \<Rightarrow> if r = er_row_id e then Some d else None | Some x \<Rightarrow> Some x)" for r
    using ds(2) by (auto simp: ds(1) row_in_append split: option.split) (auto simp: row_in_def)
  have "own_finalizes t'"
    unfolding own_finalizes_def
  proof (intro allI impI)
    fix r c w
    assume c: "find_delivery (tx_db t') r = Some c" and w: "row_in (tx_deliveries t') r = Some w"
    have "r \<noteq> er_row_id e" using c none by auto
    then have own: "row_in (tx_deliveries t) r = Some w" using w in' [of r] by (auto split: option.splits)
    then have "find_delivery (tx_db t) r = Some c"
      using own_row_committed [OF _ assms(2) own] assms(1) c by (simp add: caller_ok_def)
    then show "\<exists>q x. canonical_pending c q \<and> w = c\<lparr>dr_state := ''delivered'', dr_delivered_at := Some x\<rparr>"
      using assms(1) own unfolding caller_ok_def own_finalizes_def by blast
  qed
  moreover have "own_paired t'"
    using assms(1) unfolding own_paired_def caller_ok_def assms(3) in'
    by (fastforce split: option.split)
  moreover have "tx_ok t'" using tx_extends_ok [OF assms(2)] assms(1) by (simp add: caller_ok_def)
  ultimately show ?thesis by (simp add: caller_ok_def)
qed

lemma caller_ok_finalize:
  assumes "caller_ok s" "find_delivery (tx_view s) n = Some d" "canonical_pending d q"
    and t': "t' = tx_put (d\<lparr>dr_state := ''delivered'', dr_delivered_at := Some x\<rparr>) s" and "tx_ok t'"
  shows "caller_ok t'"
proof -
  let ?e = "d\<lparr>dr_state := ''delivered'', dr_delivered_at := Some x\<rparr>"
  have key: "dr_event_row_id d = n" using assms(2) by (auto simp: find_delivery_def dest: find_Some_in)
  have in': "row_in (tx_deliveries t') r = (if r = n then Some ?e else row_in (tx_deliveries s) r)" for r
    by (simp add: t' row_in_put key)
  have pending: "dr_state d = ''pending''" using assms(3) by (simp add: canonical_pending_def)
  have "own_finalizes t'"
    unfolding own_finalizes_def
  proof (intro allI impI)
    fix r c w
    assume c: "find_delivery (tx_db t') r = Some c" and w: "row_in (tx_deliveries t') r = Some w"
    have c': "find_delivery (tx_db s) r = Some c" using c by (simp add: t')
    show "\<exists>q x. canonical_pending c q \<and> w = c\<lparr>dr_state := ''delivered'', dr_delivered_at := Some x\<rparr>"
    proof (cases "r = n")
      case True
      have "row_in (tx_deliveries s) n = None"
      proof (rule ccontr)
        assume "row_in (tx_deliveries s) n \<noteq> None"
        then have own: "row_in (tx_deliveries s) n = Some d"
          using assms(2) by (auto simp: find_view split: option.splits)
        then obtain q' x' where "d = c\<lparr>dr_state := ''delivered'', dr_delivered_at := Some x'\<rparr>"
          using assms(1) c' True unfolding caller_ok_def own_finalizes_def by blast
        then have "dr_state d = ''delivered''" by simp
        then show False using pending by simp
      qed
      then have "c = d" using assms(2) c' True by (simp add: find_view)
      then show ?thesis using assms(3) w in' True by auto
    next
      case False
      then show ?thesis using assms(1) c' w in' [of r] unfolding caller_ok_def own_finalizes_def by auto
    qed
  qed
  moreover have "own_paired t'" using assms(1) in' by (auto simp: caller_ok_def own_paired_def t')
  ultimately show ?thesis using assms(5) by (simp add: caller_ok_def)
qed

section \<open>A commit and the lifecycle\<close>

lemma caller_steps:
  assumes "caller_ok t"
  shows "row_steps (tx_db t) (tx_view t) r"
proof (cases "row_in (tx_deliveries t) r")
  case None
  then show ?thesis by (intro row_steps_same) (simp add: find_view)
next
  case (Some e)
  show ?thesis
    unfolding row_steps_def db_spec_def
  proof (intro allI impI)
    fix s
    assume "map_option abs_delivery (find_delivery (tx_db t) r) = Some s"
    then obtain d where d: "find_delivery (tx_db t) r = Some d" "s = abs_delivery d" by auto
    then obtain q x where e: "canonical_pending d q" "e = d\<lparr>dr_state := ''delivered'', dr_delivered_at := Some x\<rparr>"
      using assms Some unfolding caller_ok_def own_finalizes_def by blast
    then have "spec_step now ActFinalize s (abs_delivery e)" for now
      using finalize_refines d(2) by simp
    then show "\<exists>d'. map_option abs_delivery (find_delivery (tx_view t) r) = Some d'
        \<and> (d' = s \<or> (\<exists>now a. spec_step now a s d'))"
      using Some by (auto simp: find_view)
  qed
qed

lemma caller_paired:
  fixes t :: "('t::linorder) txn"
  assumes "caller_ok t" "db_paired (tx_db t)"
  shows "db_paired (tx_view t)"
proof (rule db_paired_step [OF _ _ assms(2) caller_steps [OF assms(1)]])
  show "db_ok (tx_db t)" "db_ok (tx_view t)" using assms(1) by (simp_all add: caller_ok_def tx_ok_def)
  fix r
  assume "r \<in> set (db_events (tx_view t))" "r \<notin> set (db_events (tx_db t))"
  then have "r \<in> set (tx_events t)" by (simp add: view_events)
  then show "find_delivery (tx_view t) (er_row_id r) \<noteq> None"
    using assms(1) by (auto simp: caller_ok_def own_paired_def find_view split: option.split)
qed

text \<open>
  The commit of a batch: \<open>s\<close> is the state it was selected in, and the claimed rows have not
  changed since.
\<close>

lemma claim_commit_steps:
  assumes "db_ok db" "db_ok db'" "claim_taken now tenant worker s claimed"
    and "claim_applied x claimed db db'"
    and same: "\<forall>c \<in> set claimed. find_delivery db (row_id_get (ce_row_id c))
      = find_delivery s (row_id_get (ce_row_id c))"
  shows "row_steps db db' r"
proof (cases "RowId r \<in> ce_row_id ` set claimed")
  case True
  then obtain c where c: "c \<in> set claimed" "row_id_get (ce_row_id c) = r" by (metis imageE RowId.sel)
  then obtain d where d: "find_delivery db r = Some d" "claim_of now tenant worker d c"
    using assms(3) same unfolding claim_taken_def by metis
  have d': "find_delivery db' r = Some (claimed_row x c d)"
    using assms(4) c d(1) unfolding claim_applied_def by force
  have "delivery_check d" "delivery_check (claimed_row x c d)"
    using find_delivery_check d(1) d' assms(1,2) by blast+
  then show ?thesis
    using claim_refines d d' unfolding row_steps_def db_spec_def by fastforce
next
  case False
  then show ?thesis using assms(4) row_steps_same unfolding claim_applied_def by blast
qed

text \<open>The commit of one written row.\<close>

lemma view_one_write:
  assumes "own_writes t = ([], [d])"
  shows "find_delivery (tx_view t) r = (if r = dr_event_row_id d then Some d else find_delivery (tx_db t) r)"
    and "db_events (tx_view t) = db_events (tx_db t)"
  using assms by (simp_all add: own_writes_def find_view view_events row_in_def)

lemma mutation_commit_steps:
  assumes "tx_ok t" "own_writes t = ([], [d'])" "find_delivery (tx_db t) (row_id_get row_id) = Some d"
    and "mutation_where row_id tenant token now d" "mutation_set add now p d = Some d'"
    and "dr_event_row_id d' = row_id_get row_id"
  shows "row_steps (tx_db t) (tx_view t) r"
proof (cases "r = row_id_get row_id")
  case True
  have "delivery_check d" using find_delivery_check assms(1,3) by (auto simp: tx_ok_def)
  then show ?thesis
    using mutation_refines [OF assms(4,5)] assms(3,6) True view_one_write(1) [OF assms(2)]
    unfolding row_steps_def db_spec_def by auto
next
  case False
  then show ?thesis
    using view_one_write(1) [OF assms(2)] assms(6) by (intro row_steps_same) simp
qed

section \<open>Commits\<close>

text \<open>
  The three kinds of transactions an adapter commits: a caller's, a claim and a mutation.
\<close>

definition claim_commit :: "('t::linorder) txn \<Rightarrow> bool" where
  "claim_commit t \<longleftrightarrow> tx_ok t \<and> tx_events t = []
     \<and> (\<exists>now tenant worker s x claimed. claim_taken now tenant worker s claimed
          \<and> claim_applied x claimed (tx_db t) (tx_view t)
          \<and> (\<forall>c \<in> set claimed. find_delivery (tx_db t) (row_id_get (ce_row_id c))
               = find_delivery s (row_id_get (ce_row_id c))))"

definition mutation_commit :: "('t::linorder) txn \<Rightarrow> bool" where
  "mutation_commit t \<longleftrightarrow> tx_ok t
     \<and> (\<exists>add now p tenant row_id token. mutation_hit add now p tenant row_id token t)"

definition commit_ok :: "('t::linorder) txn \<Rightarrow> bool" where
  "commit_ok t \<longleftrightarrow> caller_ok t \<or> claim_commit t \<or> mutation_commit t"

lemma mutation_hitE:
  assumes "mutation_hit add now p tenant row_id token t"
  obtains d d' where "own_writes t = ([], [d'])" "find_delivery (tx_db t) (row_id_get row_id) = Some d"
    "dr_event_row_id d' = row_id_get row_id" "dr_tenant_id d' = dr_tenant_id d"
    "mutation_where row_id tenant token now d" "mutation_set add now p d = Some d'"
proof -
  from assms obtain d d' where d: "find_delivery (tx_db t) (row_id_get row_id) = Some d"
    "mutation_where row_id tenant token now d" "mutation_set add now p d = Some d'" "own_writes t = ([], [d'])"
    unfolding mutation_hit_def by blast
  then show thesis using that mutation_set_key [OF d(3)] by (simp add: mutation_where_def)
qed

text \<open>The commit of a mutation is one fenced step of one delivery.\<close>

lemma mutation_committed:
  assumes "tx_ok t" "mutation_hit add now p tenant row_id token t"
  shows "\<exists>d d'. find_delivery (tx_db t) (row_id_get row_id) = Some d \<and> tenant_matches tenant d
    \<and> find_delivery (tx_view t) (row_id_get row_id) = Some d'
    \<and> spec_step now (mutation_action p (claim_token_bytes token)) (abs_delivery d) (abs_delivery d')
    \<and> db_events (tx_view t) = db_events (tx_db t)
    \<and> (\<forall>r. r \<noteq> row_id_get row_id \<longrightarrow> find_delivery (tx_view t) r = find_delivery (tx_db t) r)"
proof -
  from assms(2) obtain d d' where hit: "own_writes t = ([], [d'])"
    "find_delivery (tx_db t) (row_id_get row_id) = Some d" "dr_event_row_id d' = row_id_get row_id"
    "mutation_where row_id tenant token now d" "mutation_set add now p d = Some d'" by (rule mutation_hitE)
  have "delivery_check d" using find_delivery_check hit(2) assms(1) by (auto simp: tx_ok_def)
  note mutation_refines [OF hit(4,5) this]
  moreover have "tenant_matches tenant d" using hit(4) by (simp add: mutation_where_def)
  ultimately show ?thesis
    using hit(2,3) view_one_write [OF hit(1)] by (intro exI [of _ d] exI [of _ d']) simp
qed

lemma commit_db_ok: "commit_ok t \<Longrightarrow> db_ok (tx_db t) \<and> db_ok (tx_view t)"
  by (auto simp: commit_ok_def caller_ok_def claim_commit_def mutation_commit_def tx_ok_def)

lemma commit_steps:
  assumes "commit_ok t"
  shows "row_steps (tx_db t) (tx_view t) r"
  using assms unfolding commit_ok_def
proof (elim disjE)
  assume "caller_ok t"
  then show ?thesis by (rule caller_steps)
next
  assume "claim_commit t"
  then show ?thesis
    using claim_commit_steps [of "tx_db t" "tx_view t"] commit_db_ok [OF assms] unfolding claim_commit_def by blast
next
  assume "mutation_commit t"
  then obtain add now p tenant row_id token where ok: "tx_ok t" and "mutation_hit add now p tenant row_id token t"
    unfolding mutation_commit_def by blast
  then show ?thesis by (elim mutation_hitE) (rule mutation_commit_steps)
qed

lemma commit_paired:
  assumes "commit_ok t" "db_paired (tx_db t)"
  shows "db_paired (tx_view t)"
proof (cases "caller_ok t")
  case False
  then have "tx_events t = []"
    using assms(1) by (auto simp: commit_ok_def claim_commit_def mutation_commit_def own_writes_def elim: mutation_hitE)
  then show ?thesis
    using db_paired_step [OF _ _ assms(2) commit_steps [OF assms(1)]] commit_db_ok [OF assms(1)]
    by (simp add: view_events)
qed (rule caller_paired [OF _ assms(2)])

text \<open>
  An adapter whose steps are such commits refines the lifecycle.
\<close>

locale server_commits =
  fixes step :: "('t::linorder) db \<Rightarrow> 't db \<Rightarrow> bool"
  assumes commits: "step db db' \<Longrightarrow> \<exists>t. db = tx_db t \<and> db' = tx_view t \<and> commit_ok t"
begin

lemma step_ok: "step db db' \<Longrightarrow> db_ok db \<and> db_ok db'"
  using commits commit_db_ok by blast

lemma step_refines: "step db db' \<Longrightarrow> row_steps db db' r"
  using commits commit_steps by blast

lemma step_paired: "step db db' \<Longrightarrow> db_paired db \<Longrightarrow> db_paired db'"
  using commits commit_paired by blast

end

sublocale server_commits \<subseteq> delivery_store db_spec "\<lambda>db. db_ok db \<and> db_paired db" step
proof
  show "db_ok db \<and> db_paired db \<Longrightarrow> step db db' \<Longrightarrow> db_ok db' \<and> db_paired db'" for db db'
    using step_ok step_paired by blast
  show "db_ok db \<and> db_paired db \<Longrightarrow> step db db' \<Longrightarrow> db_spec db r = Some d \<Longrightarrow>
      \<exists>d'. db_spec db' r = Some d' \<and> (d' = d \<or> (\<exists>now a. spec_step now a d d'))" for db db' r d
    using step_refines unfolding row_steps_def by blast
qed

section \<open>What is committed meanwhile\<close>

text \<open>
  \<open>keeps_db m\<close>: the action commits nothing. \<open>reaches R m\<close>: what is committed when it ends was
  reached by steps of \<open>R\<close>.
\<close>

definition keeps_db :: "('t, 'e, 'a) action_of \<Rightarrow> bool" where
  "keeps_db m \<longleftrightarrow> (\<forall>t. tx_db (snd (m t)) = tx_db t)"

definition reaches :: "('t db \<Rightarrow> 't db \<Rightarrow> bool) \<Rightarrow> ('t, 'e, 'a) action_of \<Rightarrow> bool" where
  "reaches R m \<longleftrightarrow> (\<forall>t. R\<^sup>*\<^sup>* (tx_db t) (tx_db (snd (m t))))"

lemma reachesD: "reaches R m \<Longrightarrow> m t = (r, t') \<Longrightarrow> R\<^sup>*\<^sup>* (tx_db t) (tx_db t')"
  by (metis reaches_def snd_conv)

lemma reaches_return [simp]: "reaches R (tx_return r)"
  by (simp add: reaches_def tx_return_def)

lemma reaches_map_err: "reaches R m \<Longrightarrow> reaches R (tx_map_err f m)"
  by (simp add: reaches_def tx_map_err_def split_beta)

lemma reaches_then:
  assumes "reaches R m" "\<And>a. reaches R (k a)"
  shows "reaches R (tx_then m k)"
  unfolding reaches_def
proof
  fix t
  obtain r t1 where m: "m t = (r, t1)" by fastforce
  have 1: "R\<^sup>*\<^sup>* (tx_db t) (tx_db t1)" by (rule reachesD [OF assms(1) m])
  show "R\<^sup>*\<^sup>* (tx_db t) (tx_db (snd (tx_then m k t)))"
  proof (cases r)
    case (Inr a)
    have "R\<^sup>*\<^sup>* (tx_db t1) (tx_db (snd (k a t1)))" using assms(2) by (simp add: reaches_def)
    then show ?thesis using 1 m Inr by (simp add: tx_then_def)
  qed (use 1 m in \<open>simp add: tx_then_def\<close>)
qed

lemma reaches_if: "reaches R m \<Longrightarrow> reaches R m' \<Longrightarrow> reaches R (if c then m else m')"
  by simp

lemma keeps_db_map_err: "keeps_db m \<Longrightarrow> keeps_db (tx_map_err f m)"
  by (simp add: keeps_db_def tx_map_err_def split_beta)

lemma keeps_db_add_event: "keeps_db (tx_add_event row)"
  by (auto simp: keeps_db_def tx_add_event_def split: sum.split prod.split option.split)

lemma keeps_db_add_delivery: "keeps_db (tx_add_delivery row)"
  by (auto simp: keeps_db_def tx_add_delivery_def split: sum.split)

lemma keeps_db_update: "keeps_db (tx_update p f)"
proof -
  have "tx_db (foldl (\<lambda>t d. tx_put d t) t rows) = tx_db t" for t :: "'a txn" and rows
    by (induction rows arbitrary: t) simp_all
  then show ?thesis by (auto simp: keeps_db_def tx_update_def split: sum.split prod.split)
qed

lemma reaches_tx_statement:
  assumes "\<And>t. R\<^sup>*\<^sup>* (tx_db t) (peer t)" "keeps_db body"
  shows "reaches R (tx_statement peer fault body)"
  unfolding reaches_def
proof
  fix t
  have "tx_db (snd (tx_statement peer fault body t)) = peer t"
    using assms(2) by (simp add: tx_statement_def Let_def keeps_db_def split: option.split)
  then show "R\<^sup>*\<^sup>* (tx_db t) (tx_db (snd (tx_statement peer fault body t)))" using assms(1) by simp
qed

lemmas reaches_intros = reaches_then reaches_map_err reaches_return reaches_if

end
