(* ===== verification/Postgres_Lifecycle.thy ===== *)
theory Postgres_Lifecycle
  imports Postgres_Scope Adapter_Session
begin

text \<open>
  The PostgreSQL adapter refines the delivery lifecycle. Its transactions interleave statement by
  statement, so a step of \<open>pg_step\<close> is a commit: from what is committed at that moment to the view
  of the transaction. A claim and a mutation are transactions of the adapter, and \<open>pg_caller\<close> is a
  transaction in which a caller enqueues, imports and finalises. The interpretation of
  \<open>delivery_store\<close> gives the laws of the lifecycle for every history of commits.
\<close>

section \<open>Commits\<close>

text \<open>
  A transaction of a caller that started on \<open>db\<close>. Between its calls others may commit (\<open>wait\<close>),
  its statements on other tables do not matter here, and it is rolled back after an error.
\<close>

inductive pg_caller :: "ext_lib \<Rightarrow> pg_db \<Rightarrow> pg_txn \<Rightarrow> bool" for lib db where
  opened: "pg_caller lib db (tx_begin db)"
| wait: "pg_caller lib db t \<Longrightarrow> peers_ok peer \<Longrightarrow> pg_caller lib db (tx_peer peer t)"
| enqueue: "pg_caller lib db t \<Longrightarrow> pg_peers_ok env \<Longrightarrow>
    pg_enqueue_for_scope lib bld env tenant event t = (Inr enqueued, t') \<Longrightarrow> pg_caller lib db t'"
| imported: "pg_caller lib db t \<Longrightarrow> pg_peers_ok env \<Longrightarrow>
    pg_import_for_scope lib bld cat env tenant event state t = (Inr outcome, t') \<Longrightarrow> pg_caller lib db t'"
| finalize: "pg_caller lib db t \<Longrightarrow> pg_peers_ok env \<Longrightarrow>
    pg_finalize_for_scope bld cat env tenant row_id delivered_at t = (Inr finalized, t') \<Longrightarrow>
    pg_caller lib db t'"

inductive pg_step :: "ext_lib \<Rightarrow> pg_db \<Rightarrow> pg_db \<Rightarrow> bool" for lib where
  caller: "pg_caller lib db t \<Longrightarrow> db_ok db \<Longrightarrow> pg_step lib (tx_db t) (tx_view t)"
| claim: "pg_claim_body lib env tenant worker lease limit ent (tx_begin db) = Some (Inr claimed, rest, t) \<Longrightarrow>
    pg_peers_ok env \<Longrightarrow> db_ok db \<Longrightarrow> pg_step lib (tx_db t) (tx_view t)"
| mutate: "pg_mutate_body lib env tenant row_id token mutation (tx_begin db) = (Inr (), t) \<Longrightarrow>
    pg_peers_ok env \<Longrightarrow> db_ok db \<Longrightarrow> pg_step lib (tx_db t) (tx_view t)"

inductive_cases pg_stepE: "pg_step lib db db'"

section \<open>Every commit refines the lifecycle\<close>

lemma pg_caller_ok:
  assumes "pg_caller lib db t" "db_ok db"
  shows "caller_ok t"
  using assms(1)
proof induction
  case opened
  then show ?case using assms(2) by (rule caller_ok_begin)
next
  case (wait t peer)
  show ?case by (rule caller_ok_same [OF wait.IH tx_extends_peer [OF wait(2)]]) simp
next
  case (enqueue t env bld tenant event out t')
  then have ok: "tx_ok t" by (simp add: caller_ok_def)
  note ext = tx_runsD [OF tx_runs_enqueue [OF enqueue(2)] ok enqueue(3)]
  show ?case
  proof (cases out)
    case (Enqueued rid)
    note e = pg_enqueue_Enqueued [OF enqueue(2) ok enqueue(3) [unfolded Enqueued]]
    show ?thesis
      by (rule caller_ok_insert [OF enqueue.IH ext e(2,3)]) (simp_all add: enqueued_delivery_def e(4))
  next
    case (AlreadyEnqueued rid)
    then show ?thesis
      using pg_enqueue_AlreadyEnqueued(1) [OF enqueue(2) ok] enqueue(3) caller_ok_same [OF enqueue.IH ext] by blast
  qed
next
  case (imported t env bld cat tenant event state out t')
  then have ok: "tx_ok t" by (simp add: caller_ok_def)
  note ext = tx_runsD [OF tx_runs_import [OF imported(2)] ok imported(3)]
  show ?case
  proof (cases out)
    case (Imported rid)
    obtain now where e: "tx_events t' = tx_events t @ [pg_event_columns lib env tenant event now]"
      "tx_deliveries t' = tx_deliveries t
        @ [imported_delivery_with (pg_encode env) (tenant_id_str tenant) (pg_row_id env) now state]"
      "find_delivery (tx_db t') (pg_row_id env) = None"
      using pg_import_Imported [OF imported(2) ok imported(3) [unfolded Imported]] by blast
    show ?thesis
      by (rule caller_ok_insert [OF imported.IH ext e(1,2)])
        (simp_all add: imported_delivery_with_def e(3) Let_def split: ImportedDeliveryState.split)
  next
    case (AlreadyImported rid)
    then show ?thesis
      using pg_import_AlreadyImported [OF imported(2) ok] imported(3) caller_ok_same [OF imported.IH ext] by blast
  qed
next
  case (finalize t env bld cat tenant row_id delivered_at out t')
  then have ok: "tx_ok t" by (simp add: caller_ok_def)
  note ext = tx_runsD [OF tx_runs_finalize [OF finalize(2)] ok finalize(3)]
  from finalize(2) ok finalize(3) show ?case
  proof (cases rule: pg_finalize_Inr)
    case already
    then show ?thesis using caller_ok_same [OF finalize.IH ext] by blast
  next
    case (finalized s d q)
    have "caller_ok s" by (rule caller_ok_same [OF finalize.IH finalized(2,3)])
    then show ?thesis
      by (rule caller_ok_finalize [OF _ finalized(4,6,7) tx_extends_ok [OF ext ok]])
  qed
qed

lemma pg_step_commits:
  assumes "pg_step lib db db'"
  shows "\<exists>t. db = tx_db t \<and> db' = tx_view t \<and> commit_ok t"
  using assms
proof cases
  case (caller db0 t)
  then show ?thesis using pg_caller_ok commit_ok_def by blast
next
  case (claim env tenant worker lease limit ent db0 claimed rest t)
  have "tx_ok t"
    by (rule tx_extends_ok [OF tx_extends_claim_body [OF claim(4) tx_ok_begin [OF claim(5)] claim(3)]
          tx_ok_begin [OF claim(5)]])
  moreover obtain s x where "tx_events t = []"
    "claim_selected (pg_rebind env (pg_clock env 2)) tenant worker (limit_get limit) (pg_locked env) s claimed"
    "claim_applied x claimed (tx_db t) (tx_view t)"
    "\<forall>c \<in> set claimed. find_delivery (tx_db t) (row_id_get (ce_row_id c))
         = find_delivery s (row_id_get (ce_row_id c))"
    using pg_claim_transition [OF claim(4,5,3)] by blast
  ultimately have "claim_commit t" unfolding claim_commit_def using claim_selected_taken by blast
  then show ?thesis using claim(1,2) commit_ok_def by blast
next
  case (mutate env tenant row_id token mutation db0 t)
  then have "mutation_commit t"
    using pg_mutate_body_Inr [OF mutate(4,5,3)] unfolding mutation_commit_def pg_hit_def by blast
  then show ?thesis using mutate(1,2) commit_ok_def by blast
qed

interpretation pg: server_commits "pg_step lib" for lib
  by unfold_locales (rule pg_step_commits)

section \<open>Calls are histories of commits\<close>

text \<open>The others run the same adapter.\<close>

definition pg_peers_run :: "ext_lib \<Rightarrow> pg_env \<Rightarrow> bool" where
  "pg_peers_run lib env \<longleftrightarrow> pg_peers_ok env \<and> (\<forall>n t. (pg_step lib)\<^sup>*\<^sup>* (tx_db t) (pg_peer env n t))"

lemma reaches_statement:
  assumes "pg_peers_run lib env" "keeps_db body"
  shows "reaches (pg_step lib) (pg_statement env label n body)"
  unfolding pg_statement_def by (rule reaches_tx_statement) (use assms in \<open>simp_all add: pg_peers_run_def\<close>)

lemma keeps_db_pg_update: "keeps_db (pg_update ovf p f)"
  using keeps_db_map_err [OF keeps_db_update, of pg_violation p f]
  by (auto simp: keeps_db_def pg_update_def)

lemma reaches_query: "pg_peers_run lib env \<Longrightarrow> reaches (pg_step lib) (pg_query env label n f)"
  unfolding pg_query_def by (rule reaches_statement) (simp_all add: keeps_db_def)

lemma reaches_bind_optional:
  "pg_peers_run lib env \<Longrightarrow> reaches (pg_step lib) (case tenant of None \<Rightarrow> tx_return (Inr ())
     | Some tenant \<Rightarrow> tx_map_err e (bind_tenant env label n tenant))"
  by (auto split: option.split intro!: reaches_map_err reaches_query simp: bind_tenant_def)

lemma reaches_claim_select:
  assumes "pg_peers_run lib env"
  shows "reaches (pg_step lib) (pg_claim_select env tenant limit)"
  unfolding pg_claim_select_def pg_database_time_def Let_def pg_select_candidates_def
  by (intro reaches_intros reaches_bind_optional reaches_query reaches_statement assms)
    (simp add: keeps_db_def)

lemma reaches_write_claims:
  assumes "pg_peers_run lib env"
  shows "reaches (pg_step lib) (pg_write_claims env now lease worker ps)"
proof -
  have "reaches (pg_step lib) (apply_claims_with (pg_claim_row env now span worker) n ps)" for span n
    by (induction ps arbitrary: n)
      (auto simp: pg_claim_row_def pg_update_claimed_def Let_def
        intro!: reaches_intros reaches_statement assms keeps_db_pg_update)
  then show ?thesis unfolding pg_write_claims_def by (intro reaches_intros) auto
qed

lemma reaches_claim_body:
  assumes "pg_peers_run lib env"
    and "pg_claim_body lib env tenant worker lease limit ent t0 = Some (res, rest, t)"
  shows "(pg_step lib)\<^sup>*\<^sup>* (tx_db t0) (tx_db t)"
proof -
  obtain r t1 where sel: "pg_claim_select env tenant (limit_get limit) t0 = (r, t1)" by fastforce
  have 1: "(pg_step lib)\<^sup>*\<^sup>* (tx_db t0) (tx_db t1)" by (rule reachesD [OF reaches_claim_select [OF assms(1)] sel])
  have "(pg_step lib)\<^sup>*\<^sup>* (tx_db t1) (tx_db t2)" if "pg_write_claims env now lease worker ps t1 = (w, t2)" for now ps w t2
    by (rule reachesD [OF reaches_write_claims [OF assms(1)] that])
  then show ?thesis
    using assms(2) sel 1 rtranclp_trans [OF 1]
    by (auto simp: pg_claim_body_def split: sum.splits prod.splits option.splits)
qed

lemma reaches_mutate_body:
  assumes "pg_peers_run lib env"
  shows "reaches (pg_step lib) (pg_mutate_body lib env tenant row_id token mutation)"
proof -
  have ex: "reaches (pg_step lib) (pg_execute_mutation env tenant row_id token mutation n)" for n
    unfolding pg_execute_mutation_def
    by (intro reaches_intros reaches_statement assms)
      (use keeps_db_pg_update in \<open>auto simp: keeps_db_def Let_def\<close>)
  have lock: "reaches (pg_step lib) (pg_lock_delivery env tenant row_id n)" for n
    unfolding pg_lock_delivery_def
    by (intro reaches_intros reaches_statement assms) (simp add: keeps_db_def)
  show ?thesis
    unfolding pg_mutate_body_def pg_mutate_retry_def
    by (intro reaches_intros reaches_bind_optional ex lock assms)
qed

lemma pg_claim_run:
  assumes "pg_peers_run lib env" "db_ok db"
    and "pg_claim_for_scope lib env tenant worker lease limit ent db = Some (res, rest, db')"
  shows "(pg_step lib)\<^sup>*\<^sup>* db db'"
  using assms(3)
proof (cases rule: pg_claim_cases)
  case (rolled_back e t)
  then show ?thesis using reaches_claim_body [OF assms(1) rolled_back(1)] by simp
next
  case (finished claimed t)
  have 1: "(pg_step lib)\<^sup>*\<^sup>* db (tx_db t)" using reaches_claim_body [OF assms(1) finished(1)] by simp
  have "pg_step lib (tx_db t) (tx_view t)"
    using pg_step.claim [OF finished(1) _ assms(2)] assms(1) by (simp add: pg_peers_run_def)
  then show ?thesis using 1 finished(2) by (auto intro: rtranclp.rtrancl_into_rtrancl)
qed simp

lemma pg_mutate_run:
  assumes "pg_peers_run lib env" "db_ok db"
    and "pg_mutate lib env tenant row_id token mutation db = (res, db')"
  shows "(pg_step lib)\<^sup>*\<^sup>* db db'"
  using assms(3)
proof (cases rule: pg_mutate_cases)
  case (rolled_back e t)
  then show ?thesis using reachesD [OF reaches_mutate_body [OF assms(1)] rolled_back(1)] by simp
next
  case (finished t)
  have 1: "(pg_step lib)\<^sup>*\<^sup>* db (tx_db t)"
    using reachesD [OF reaches_mutate_body [OF assms(1)] finished(1)] by simp
  have "pg_step lib (tx_db t) (tx_view t)"
    using pg_step.mutate [OF finished(1) _ assms(2)] assms(1) by (simp add: pg_peers_run_def)
  then show ?thesis using 1 finished(2) by (auto intro: rtranclp.rtrancl_into_rtrancl)
qed simp

end
