(* ===== verification/Server_Samples.thy ===== *)
theory Server_Samples
  imports Core_Samples Adapter_Transaction
begin

text \<open>
  Concrete values that the instances of the PostgreSQL and the MySQL properties share: an instant,
  a conversion of instants to microseconds, and the rows and tables that the sample event goes
  through when it is enqueued, claimed and acknowledged.
\<close>

section \<open>Instants\<close>

definition server_now :: int where "server_now = 1767225605000000"

definition server_encode :: "offset_date_time \<Rightarrow> int" where
  "server_encode t = unix_nanos t div 1000"

definition server_decode :: "int \<Rightarrow> offset_date_time" where
  "server_decode v = \<lparr>unix_nanos = v * 1000, utc_offset = 0\<rparr>"

lemma server_decode_sel [simp]: "unix_nanos (server_decode v) = v * 1000" "utc_offset (server_decode v) = 0"
  by (simp_all add: server_decode_def)

lemma server_encode_decode [simp]: "server_encode (server_decode v) = v"
  by (simp add: server_encode_def)

lemma server_instants:
  assumes "v = server_now \<or> v = server_now + 60000000"
  shows "canonicalize_instant field (server_decode v) = Inr (server_decode v)"
  using assms by (auto simp: canonicalize_instant_Inr_iff instant_ok_def instant_maximum_def server_now_def
      to_offset_utc_def server_decode_def)

section \<open>States\<close>

definition server_row :: "int event_row" where
  "server_row = event_columns_with server_encode sample_lib ''acme'' sample_content 1 server_now"

definition server_delivery :: "int delivery_row" where
  "server_delivery = enqueued_delivery ''acme'' 1 server_now"

definition server_db :: "int db" where
  "server_db = \<lparr>db_events = [server_row], db_deliveries = [server_delivery], db_last_row_id = 1\<rparr>"

definition server_claimed_delivery :: "int delivery_row" where
  "server_claimed_delivery = server_delivery\<lparr>dr_state := ''claimed'', dr_attempts := 1,
     dr_claim_token := Some sample_token, dr_claimed_by := Some ''w1'',
     dr_claim_expires_at := Some (server_now + 60000000)\<rparr>"

definition server_claimed_db :: "int db" where
  "server_claimed_db = server_db\<lparr>db_deliveries := [server_claimed_delivery]\<rparr>"

definition server_acked_delivery :: "int delivery_row" where
  "server_acked_delivery = server_delivery\<lparr>dr_state := ''delivered'', dr_attempts := 1, dr_delivered_at := Some server_now\<rparr>"

definition server_delivered_db :: "int db" where
  "server_delivered_db = server_db\<lparr>db_deliveries := [server_acked_delivery]\<rparr>"

definition server_claim :: ClaimedEvent where
  "server_claim = sample_claim\<lparr>ce_claim_expires_at := server_decode (server_now + 60000000)\<rparr>"

lemma server_row_sel [simp]:
  "er_row_id server_row = 1" "er_tenant_id server_row = ''acme''" "er_enqueued_at server_row = server_now"
  by (simp_all add: server_row_def event_columns_with_def)

lemma server_row_check [simp]: "event_check server_row"
  unfolding server_row_def sample_tenant_str [symmetric]
  by (rule event_columns_with_check [where limit = event_size_limit_default])
    (simp_all add: sample_content_wf sample_content_valid sample_tenant_ok)

lemma server_delivery_sel [simp]:
  "dr_event_row_id server_delivery = 1" "dr_tenant_id server_delivery = ''acme''"
  "dr_state server_delivery = ''pending''" "dr_available_at server_delivery = server_now"
  "dr_attempts server_delivery = 0" "dr_claim_token server_delivery = None"
  "dr_claimed_by server_delivery = None" "dr_claim_expires_at server_delivery = None"
  "dr_delivered_at server_delivery = None" "dr_quarantined_at server_delivery = None"
  "dr_quarantine_reason server_delivery = None" "dr_last_failure_code server_delivery = None"
  "dr_last_failure_detail server_delivery = None"
  by (simp_all add: server_delivery_def enqueued_delivery_def)

lemma server_claimed_sel [simp]:
  "dr_event_row_id server_claimed_delivery = 1" "dr_tenant_id server_claimed_delivery = ''acme''"
  "dr_state server_claimed_delivery = ''claimed''" "dr_claim_token server_claimed_delivery = Some sample_token"
  "dr_claim_expires_at server_claimed_delivery = Some (server_now + 60000000)"
  by (simp_all add: server_claimed_delivery_def)

lemma server_acked_sel [simp]:
  "dr_event_row_id server_acked_delivery = 1" "dr_tenant_id server_acked_delivery = ''acme''"
  "dr_state server_acked_delivery = ''delivered''"
  by (simp_all add: server_acked_delivery_def)

lemma server_checks [simp]:
  "delivery_check server_delivery" "delivery_check server_claimed_delivery"
  "delivery_check server_acked_delivery"
  by (simp_all add: delivery_check_def delivery_shape_def opt_within_def server_claimed_delivery_def
      server_acked_delivery_def sample_token_def)

lemma server_db_ok [simp]: "db_ok server_db" "db_ok server_claimed_db" "db_ok server_delivered_db"
  by (simp_all add: db_ok_def server_db_def server_claimed_db_def server_delivered_db_def)

lemma server_candidates:
  "claim_candidates server_now (Some sample_tenant) (\<lambda>_. False) 10 server_db
     = [durable_join server_row (Some server_delivery)]"
  by (simp add: claim_candidates_def claim_rows_def claim_scope_def server_db_def server_delivery_def
      enqueued_delivery_def join_event_def map_filter_simps claim_eligible_def)

end
