(* ===== verification/Postgres_Samples.thy ===== *)
theory Postgres_Samples
  imports Postgres_Lifecycle Server_Samples
begin

text \<open>
  Concrete values at which the properties of the PostgreSQL adapter are instantiated: a server
  without faults whose clock stands still, a catalog that answers what the contracts ask for, and
  the states that the sample event goes through.
\<close>

section \<open>A server\<close>

definition pg_marker :: PgSchemaMarker where
  "pg_marker = \<lparr>pgm_schema_version = 2, pgm_minimum_crate_major = 0, pgm_minimum_crate_minor = 2,
     pgm_minimum_crate_patch = 0, pgm_rolling_compatible = False\<rparr>"

definition pg_sample_build :: pg_build where
  "pg_sample_build = \<lparr>pb_migrations = MIGRATIONS [], pb_version = crate_version_new 0 2 3\<rparr>"

definition pg_sample_env :: pg_env where
  "pg_sample_env = \<lparr>pg_fault = (\<lambda>_ _. None), pg_peer = (\<lambda>_ t. tx_db t), pg_clock = (\<lambda>_. server_now),
     pg_txn_time = server_now, pg_locked = (\<lambda>_. False), pg_stale = (\<lambda>_. False), pg_row_id = 1,
     pg_interval = (\<lambda>d. Inr (int (secs d) * 1000000)), pg_plus = (\<lambda>a b. Some (a + b)),
     pg_encode = server_encode, pg_decode = server_decode,
     pg_commit = Committed,
     pg_selection = Some \<lparr>sel_schema_name = ''public'', sel_marker_table = True, sel_events_table = True,
       sel_deliveries_table = True\<rparr>,
     pg_markers = [pg_marker]\<rparr>"

lemma pg_sample_env_sel [simp]:
  "pg_fault pg_sample_env label n = None" "pg_peer pg_sample_env n t = tx_db t"
  "pg_clock pg_sample_env n = server_now" "pg_txn_time pg_sample_env = server_now" "pg_locked pg_sample_env r = False"
  "pg_stale pg_sample_env n = False" "pg_row_id pg_sample_env = 1"
  "pg_interval pg_sample_env d = Inr (int (secs d) * 1000000)" "pg_plus pg_sample_env a b = Some (a + b)"
  "pg_encode pg_sample_env = server_encode"
  "pg_decode pg_sample_env = server_decode" "pg_commit pg_sample_env = Committed"
  by (simp_all add: pg_sample_env_def)

lemma pg_sample_peer [simp]: "tx_peer (pg_peer pg_sample_env n) t = t"
  by (simp add: tx_peer_def)

lemma pg_sample_peers_ok [simp]: "pg_peers_ok pg_sample_env"
  by (simp add: pg_peers_ok_def peers_ok_def)

lemma pg_sample_peers_run [simp]: "pg_peers_run lib pg_sample_env"
  by (simp add: pg_peers_run_def)

lemma pg_sample_codec [simp]: "pg_codec pg_sample_env"
  by (auto simp: pg_codec_def pg_instant_def strict_mono_def instant_ok_def server_encode_def)

lemma pg_sample_statement [simp]: "pg_statement pg_sample_env label n body t = body t"
  by (simp add: pg_statement_def tx_statement_def)

lemma pg_sample_query [simp]: "pg_query pg_sample_env label n f t = (Inr (f (tx_view t)), t)"
  by (simp add: pg_query_def)

lemma pg_sample_columns [simp]:
  "pg_event_columns sample_lib pg_sample_env sample_tenant sample_event server_now = server_row"
  by (simp add: pg_event_columns_def server_row_def)

lemma pg_sample_hydrate [simp]:
  "pg_hydrate_event sample_lib pg_sample_env server_row = Inr (StoredEvent sample_content)"
  using pg_hydrate_columns [OF pg_sample_codec, of sample_lib sample_event event_size_limit_default sample_tenant server_now]
    sample_content_wf sample_content_valid sample_extension_codecs by simp

section \<open>Operations\<close>

definition pg_handle :: PgTenantDovecote where "pg_handle = pg_for_tenant sample_tenant"

lemma pg_handle_sel [simp]: "ph_tenant_id pg_handle = sample_tenant"
  by (simp add: pg_handle_def pg_for_tenant_def)

lemma pg_sample_validate: "pg_validate_enqueue_schema pg_sample_build pg_sample_env t = (Inr (), t)"
proof -
  have "pg_selection pg_sample_env = Some \<lparr>sel_schema_name = ''public'', sel_marker_table = True,
      sel_events_table = True, sel_deliveries_table = True\<rparr>" "pg_markers pg_sample_env = [pg_marker]"
    by (simp_all add: pg_sample_env_def)
  moreover have "and_then (map_err PEnqMigrationMismatch (current_migration (pb_migrations pg_sample_build)))
      (\<lambda>migration. map_err PEnqMigrationMismatch
        (marker_matches_migration (pb_version pg_sample_build) pg_marker migration)) = Inr ()"
    by code_simp
  ultimately show ?thesis
    by (simp add: pg_validate_enqueue_schema_def tx_then_def tx_map_err_def tx_return_def)
qed

definition pg_sample_txn :: pg_txn where
  "pg_sample_txn = tx_put server_delivery (tx_insert_event server_row (tx_begin db_empty))"

lemma pg_sample_enqueue:
  "pg_tenant_enqueue sample_lib pg_sample_build pg_sample_env pg_handle sample_event (tx_begin db_empty)
     = (Inr (Enqueued (RowId 1)), pg_sample_txn)"
proof -
  let ?t = "tx_insert_event server_row (tx_begin db_empty)"
  have ins: "tx_add_event server_row (tx_begin db_empty) = (Inr (Some server_row), ?t)"
    by (simp add: tx_add_event_def table_insert_event_def db_empty_def)
  have "table_insert_delivery server_delivery (tx_view ?t) \<noteq> Inl v" for v
    by (simp add: table_insert_delivery_def view_insert_event db_empty_def)
  then have add: "tx_add_delivery server_delivery ?t = (Inr (), pg_sample_txn)"
    by (auto simp: tx_add_delivery_def pg_sample_txn_def split: sum.split)
  show ?thesis
    using ins add
    by (simp add: pg_tenant_enqueue_def pg_tenant_bind_tenant_def bind_tenant_def pg_enqueue_for_scope_def
        tx_then_def tx_map_err_def tx_return_def pg_sample_validate pg_insert_event_def pg_insert_delivery_def
        row_id_new_def server_delivery_def [symmetric])
qed

lemma pg_sample_txn_view: "tx_view pg_sample_txn = server_db"
  by (simp add: pg_sample_txn_def tx_view_def server_db_def tx_put_def tx_lock_def row_in_def db_empty_def)

lemma pg_sample_prepare:
  "pg_prepare_claims sample_lib pg_sample_env [] [Inr sample_token] [durable_join server_row (Some server_delivery)]
     = Some (Inr [sample_prepared], [])"
  by (simp add: pg_prepare_claims_def pg_claim_counter_def pg_claim_hydrate_def durable_join_def
      server_delivery_def enqueued_delivery_def row_id_new_def attempt_count_new_def checked_add_i64_def
      i64_range_def i64_min_def i64_max_def sample_prepared_def)

definition pg_claim_txn :: pg_txn where
  "pg_claim_txn = tx_put server_claimed_delivery (tx_lock [1] (tx_begin server_db))"

lemma pg_sample_update_one:
  assumes "p d" "f d = Some e" "delivery_check e" "db_deliveries (tx_view t) = [d]"
  shows "pg_update False p f t = (Inr [e], tx_put e t)"
  using assms by (simp add: pg_update_def tx_map_err_def tx_update_def table_update_deliveries_def)

lemma pg_sample_apply:
  "pg_write_claims pg_sample_env server_now (Lease \<lparr>secs = 60, subsec_nanos = 0\<rparr>) (WorkerId ''w1'') [sample_prepared]
     (tx_lock [1] (tx_begin server_db)) = (Inr [server_claim], pg_claim_txn)"
proof -
  let ?t = "tx_lock [1] (tx_begin server_db)" and ?x = "Some (server_now + 60000000)"
  have "claim_update_where sample_prepared server_delivery"
    "claim_update_row ?x (WorkerId ''w1'') sample_prepared server_delivery = server_claimed_delivery"
    by (simp_all add: claim_update_where_def claim_update_row_def sample_prepared_def server_claimed_delivery_def)
  then have upd: "pg_update False (claim_update_where sample_prepared)
      (\<lambda>d. Some (claim_update_row ?x (WorkerId ''w1'') sample_prepared d)) ?t
    = (Inr [server_claimed_delivery], pg_claim_txn)"
    unfolding pg_claim_txn_def by (intro pg_sample_update_one [of _ server_delivery]) (simp_all add: server_db_def)
  have exp: "dr_claim_expires_at server_claimed_delivery = ?x" by (simp add: server_claimed_delivery_def)
  have new: "claimed_event_new (pc_tenant_id sample_prepared) (pc_row_id sample_prepared) (pc_event sample_prepared)
      (pc_attempts sample_prepared) (claim_token_from_bytes (pc_token sample_prepared)) (WorkerId ''w1'')
      (pg_decode pg_sample_env (server_now + 60000000)) = Inr server_claim"
    by (simp add: claimed_event_new_def server_instants and_then_Inr_iff server_claim_def sample_claim_def sample_prepared_def
        claim_token_from_bytes_def)
  show ?thesis
    using upd new exp
    by (simp add: pg_write_claims_def pg_claim_row_def pg_update_claimed_def tx_then_def tx_map_err_def tx_return_def)
qed

lemma pg_sample_claim_body:
  "pg_claim_body sample_lib pg_sample_env (Some sample_tenant) (WorkerId ''w1'') (Lease \<lparr>secs = 60, subsec_nanos = 0\<rparr>)
     (PageLimit 10) [Inr sample_token] (tx_begin server_db) = Some (Inr [server_claim], [], pg_claim_txn)"
proof -
  have skip: "pg_locked pg_sample_env = (\<lambda>_. False)" by (rule ext) simp
  have rebind: "pg_rebind pg_sample_env server_now = server_now" by (simp add: pg_rebind_def)
  have "pg_claim_select pg_sample_env (Some sample_tenant) 10 (tx_begin server_db)
      = (Inr (server_now, [durable_join server_row (Some server_delivery)]), tx_lock [1] (tx_begin server_db))"
    by (simp add: pg_claim_select_def pg_select_candidates_def pg_database_time_def bind_tenant_def tx_then_def
        tx_map_err_def tx_return_def rebind skip server_candidates durable_join_def)
  then show ?thesis using pg_sample_prepare pg_sample_apply by (simp add: pg_claim_body_def)
qed

lemma pg_sample_views: "tx_view pg_claim_txn = server_claimed_db" "tx_db pg_claim_txn = server_db"
  by (simp_all add: pg_claim_txn_def tx_view_def server_claimed_db_def server_db_def tx_put_def tx_lock_def row_in_def
      server_claimed_delivery_def)

lemma pg_sample_tenant_claim:
  "pg_tenant_claim sample_lib pg_sample_env pg_handle (WorkerId ''w1'') (Lease \<lparr>secs = 60, subsec_nanos = 0\<rparr>)
     (PageLimit 10) [Inr sample_token] server_db = Some (Inr [server_claim], [], server_claimed_db)"
  using pg_sample_claim_body
  by (simp add: pg_tenant_claim_def pg_claim_for_scope_def pg_claim_with_entropy_def pg_finish_def tx_finish_def pg_sample_views)

definition pg_ack_txn :: pg_txn where
  "pg_ack_txn = tx_put server_acked_delivery (tx_lock [1] (tx_begin server_claimed_db))"

lemma pg_sample_ack_body:
  "pg_mutate_body sample_lib pg_sample_env (Some sample_tenant) (RowId 1) (ClaimToken sample_token) MAck
     (tx_begin server_claimed_db) = (Inr (), pg_ack_txn)"
proof -
  let ?t = "tx_lock [1] (tx_begin server_claimed_db)"
  have lock: "pg_lock_target (Some sample_tenant) (RowId 1) (tx_begin server_claimed_db) = ?t"
    by (simp add: pg_lock_target_def lock_where_def tenant_matches_def server_claimed_db_def)
  have "pg_update False (mutation_where (RowId 1) (Some sample_tenant) (ClaimToken sample_token) server_now)
      (mutation_set (pg_plus pg_sample_env) server_now PAck) ?t = (Inr [server_acked_delivery], pg_ack_txn)"
    unfolding pg_ack_txn_def
    by (intro pg_sample_update_one [of _ server_claimed_delivery])
      (simp_all add: mutation_where_def tenant_matches_def server_acked_delivery_def server_claimed_delivery_def server_claimed_db_def
        server_checks(3) [unfolded server_acked_delivery_def])
  then show ?thesis
    using lock
    by (simp add: pg_mutate_body_def pg_execute_mutation_def pg_prepare_mutation_def bind_tenant_def tx_then_def
        tx_map_err_def tx_return_def)
qed

lemma pg_ack_views: "tx_view pg_ack_txn = server_delivered_db" "tx_db pg_ack_txn = server_claimed_db"
  by (simp_all add: pg_ack_txn_def tx_view_def server_claimed_db_def server_delivered_db_def server_db_def tx_put_def
      tx_lock_def row_in_def server_acked_delivery_def)

lemma pg_sample_ack:
  "pg_mutate sample_lib pg_sample_env (Some sample_tenant) (RowId 1) (ClaimToken sample_token) MAck server_claimed_db
     = (Inr (), server_delivered_db)"
  using pg_sample_ack_body by (simp add: pg_mutate_def pg_finish_def tx_finish_def pg_ack_views)

lemma pg_sample_steps:
  "pg_step sample_lib db_empty server_db" "pg_step sample_lib server_db server_claimed_db"
  "pg_step sample_lib server_claimed_db server_delivered_db"
proof -
  have "pg_enqueue_for_scope sample_lib pg_sample_build pg_sample_env sample_tenant sample_event (tx_begin db_empty)
      = (Inr (Enqueued (RowId 1)), pg_sample_txn)"
    using pg_sample_enqueue
    by (simp add: pg_tenant_enqueue_def pg_tenant_bind_tenant_def bind_tenant_def tx_then_def tx_map_err_def)
  from pg_caller.enqueue [OF pg_caller.opened pg_sample_peers_ok this]
  have "pg_caller sample_lib db_empty pg_sample_txn" .
  from pg_step.caller [OF this db_ok_empty] show "pg_step sample_lib db_empty server_db"
    by (simp add: pg_sample_txn_view) (simp add: pg_sample_txn_def)
  show "pg_step sample_lib server_db server_claimed_db"
    using pg_step.claim [OF pg_sample_claim_body] by (simp add: pg_sample_views)
  show "pg_step sample_lib server_claimed_db server_delivered_db"
    using pg_step.mutate [OF pg_sample_ack_body] by (simp add: pg_ack_views)
qed

section \<open>A catalog\<close>

text \<open>The catalog of a database in which exactly what the contracts ask for is installed.\<close>

definition column_of :: "pg_ColumnSpec \<Rightarrow> ColumnInfo" where
  "column_of s = \<lparr>ci_column_name = cs_name s, ci_data_type = cs_data_type s,
     ci_character_maximum_length = cs_maximum_length s, ci_is_nullable = (if cs_nullable s then ''YES'' else ''NO''),
     ci_column_default = cs_default_fragment s, ci_is_identity = (if cs_identity s then ''YES'' else ''NO''),
     ci_identity_generation = (if cs_identity s then Some ''ALWAYS'' else None)\<rparr>"

definition constraint_of :: "ConstraintContract \<Rightarrow> ConstraintInfo" where
  "constraint_of e = \<lparr>co_table_name = cc_table_name e, co_name = cc_name e, co_kind = cc_kind e,
     co_columns = cc_columns e, co_referenced_table = cc_referenced_table e,
     co_referenced_columns = cc_referenced_columns e, co_delete_action = cc_delete_action e, co_validated = True,
     co_deferrable = False, co_deferred = False, co_definition = hd (cc_definition_variants e)\<rparr>"

definition index_of :: "IndexContract \<Rightarrow> IndexInfo" where
  "index_of e = \<lparr>ix_table_name = ic_table_name e, ix_name = ic_name e, ix_access_method = ''btree'',
     ix_is_unique = ic_is_unique e, ix_is_valid = True, ix_is_ready = True, ix_has_predicate = False,
     ix_key_columns = i16_length (ic_columns e), ix_total_columns = i16_length (ic_columns e),
     ix_options = replicate (length (ic_columns e)) 0, ix_columns = ic_columns e,
     ix_collations = (case ic_collations e of None \<Rightarrow> [] | Some cs \<Rightarrow> cs)\<rparr>"

definition reference_catalog :: pg_catalog where
  "reference_catalog = \<lparr>cat_acquire = None, cat_namespace = Inr (Some \<lparr>ns_oid = 2200, ns_name = ''public''\<rparr>),
     cat_columns = (\<lambda>_ table. Inr (map column_of (case map_of domain_columns table of None \<Rightarrow> [] | Some specs \<Rightarrow> specs))),
     cat_markers = Inr [pg_marker], cat_constraints = (\<lambda>_. Inr (map constraint_of expected_constraints)),
     cat_indexes = (\<lambda>_. Inr (map index_of expected_indexes))\<rparr>"

lemma reference_names:
  "list_all (\<lambda>(table, specs). distinct (map cs_name specs)) domain_columns"
  "distinct (map cc_name expected_constraints)" "distinct (map ic_name expected_indexes)"
  "list_all (\<lambda>e. cc_definition_variants e \<noteq> []) expected_constraints"
  by code_simp+

lemma reference_distinct: "catalog_distinct reference_catalog"
proof -
  have names: "map ci_column_name (map column_of specs) = map cs_name specs"
    "map co_name (map constraint_of cs) = map cc_name cs" "map ix_name (map index_of xs) = map ic_name xs" for specs cs xs
    by (simp_all add: column_of_def constraint_of_def index_of_def)
  have "distinct (map cs_name (case map_of domain_columns table of None \<Rightarrow> [] | Some specs \<Rightarrow> specs))" for table
    using reference_names(1) by (auto simp: list_all_iff dest!: map_of_SomeD split: option.split)
  then show ?thesis
    using reference_names(2,3) names by (auto simp: catalog_distinct_def reference_catalog_def simp del: map_map)
qed

lemma reference_accepted: "schema_accepted pg_sample_build reference_catalog"
proof -
  have "columns_accepted specs (map column_of specs)" for specs
    unfolding columns_accepted_def
    by (rule meets_self) (auto simp: column_of_def column_compatible_def Let_def split: option.split)
  moreover have "constraints_accepted (map constraint_of expected_constraints)"
    unfolding constraints_accepted_def
  proof (rule meets_self)
    fix e
    assume "e \<in> set expected_constraints"
    then have "hd (cc_definition_variants e) \<in> set (cc_definition_variants e)"
      using reference_names(4) by (simp add: list_all_iff)
    then show "constraint_matches (constraint_of e) e"
      by (auto simp: constraint_matches_def constraint_of_def Let_def list_ex_iff)
  qed (simp add: constraint_of_def)
  moreover have "indexes_accepted (map index_of expected_indexes)"
    unfolding indexes_accepted_def
    by (rule meets_self) (auto simp: index_of_def index_matches_def split: option.split)
  moreover have "marker_accepted pg_sample_build pg_marker"
  proof -
    have "marker_matches_migration (pb_version pg_sample_build) pg_marker (hd (MIGRATIONS [])) = Inr ()" by code_simp
    then show ?thesis by (auto simp: marker_accepted_def pg_sample_build_def current_migration_shipped)
  qed
  moreover have "map_of domain_columns table = Some specs" if "(table, specs) \<in> set domain_columns" for table specs
    using that by (auto simp: domain_columns_def)
  ultimately show ?thesis by (auto simp: schema_accepted_def reference_catalog_def)
qed

end
