(* ===== verification/Postgres_Properties.thy ===== *)
theory Postgres_Properties
  imports Postgres_Samples
begin

text \<open>
  The properties of the PostgreSQL adapter, whose transactions interleave with those of other
  sessions statement by statement. Each is followed by an instance on the sample server.
\<close>

section \<open>The lifecycle\<close>

text \<open>C6. Every commit of the PostgreSQL adapter refines the abstract delivery lifecycle, whatever
  other sessions committed between the statements of the transaction: from what is committed at
  that moment each delivery stays, unchanged or with one step of the specification. The commits
  are those of claims, of mutations and of caller transactions that enqueue, import and finalise.\<close>

theorem pg_commits_refine_lifecycle:
  assumes "pg_step lib db db'" and "db_spec db r = Some d"
  shows "\<exists>d'. db_spec db' r = Some d' \<and> (d' = d \<or> (\<exists>now a. spec_step now a d d'))"
  using pg.step_refines [OF assms(1), of r] assms(2) by (simp add: row_steps_def)

theorem pg_commits_refine_lifecycle_witness:
  "\<exists>d'. db_spec server_claimed_db 1 = Some d'
     \<and> (d' = abs_delivery server_delivery \<or> (\<exists>now a. spec_step now a (abs_delivery server_delivery) d'))"
proof -
  have "db_spec server_db 1 = Some (abs_delivery server_delivery)"
    by (simp add: db_spec_def find_delivery_def server_db_def)
  from pg_commits_refine_lifecycle [OF pg_sample_steps(2) this] show ?thesis .
qed

text \<open>C11. Along any history of commits the tables keep their constraints, every event has a delivery of
  its tenant, no delivery is lost, attempt counters never decrease and a delivered or quarantined
  delivery never changes again.\<close>

theorem pg_histories_keep_deliveries:
  assumes "(pg_step lib)\<^sup>*\<^sup>* db db'" and "db_ok db" and "db_paired db"
  shows "db_ok db' \<and> db_paired db' \<and> (\<forall>r d. db_spec db r = Some d \<longrightarrow>
    (\<exists>d'. db_spec db' r = Some d' \<and> sp_attempts d \<le> sp_attempts d' \<and> (terminal d \<longrightarrow> d' = d)))"
proof -
  have inv: "db_ok db \<and> db_paired db" using assms(2,3) by simp
  show ?thesis using pg.run_inv [OF assms(1) inv] pg.run_keeps_row [OF assms(1) inv] by blast
qed

theorem pg_histories_keep_deliveries_witness: "db_ok server_delivered_db \<and> db_paired server_delivered_db"
proof -
  have "(pg_step sample_lib)\<^sup>*\<^sup>* db_empty server_delivered_db"
    using pg_sample_steps by (meson converse_rtranclp_into_rtranclp rtranclp.rtrancl_refl)
  from pg_histories_keep_deliveries [OF this db_ok_empty] show ?thesis by (simp add: db_paired_def db_empty_def)
qed

text \<open>A claim or a mutation, successful or not, is a history of commits: those of the others and at
  most its own. An error before the commit leaves only what the others committed, and an error of
  the commit itself leaves either outcome, which is what the server may have done.\<close>

theorem pg_calls_are_histories:
  assumes "pg_peers_run lib env" and "db_ok db"
  shows "(\<forall>h worker lease limit ent res rest db'.
        pg_tenant_claim lib env h worker lease limit ent db = Some (res, rest, db') \<longrightarrow> (pg_step lib)\<^sup>*\<^sup>* db db')
    \<and> (\<forall>tenant row_id token mutation res db'.
        pg_mutate lib env tenant row_id token mutation db = (res, db') \<longrightarrow> (pg_step lib)\<^sup>*\<^sup>* db db')"
  using pg_claim_run [OF assms] pg_mutate_run [OF assms] unfolding pg_tenant_claim_def by blast

theorem pg_calls_are_histories_witness: "(pg_step sample_lib)\<^sup>*\<^sup>* server_db server_claimed_db"
  using pg_calls_are_histories [OF pg_sample_peers_run server_db_ok(1), of sample_lib] pg_sample_tenant_claim by blast

section \<open>Claims\<close>

text \<open>C7. A claim that returns events selected them in a committed state that others reached: at most
  the requested number, in row order, under distinct tokens that are new for their rows, each
  eligible at the operation time and in the tenant's scope, with a counter one higher. An eligible
  row is left out only by a lock of another session or by a full batch of smaller rows. Others may
  commit until the claim does, but no other session touches a claimed row in between, and the
  commit changes the claimed rows and nothing else.\<close>

theorem pg_claim_returns_batch:
  assumes "pg_peers_run lib env" and "db_ok db"
    and "pg_tenant_claim lib env h worker lease limit ent db = Some (Inr claimed, rest, db')"
  shows "\<exists>selected base x. (pg_step lib)\<^sup>*\<^sup>* db selected \<and> (pg_step lib)\<^sup>*\<^sup>* selected base
    \<and> claim_selected (pg_rebind env (pg_clock env 2)) (Some (ph_tenant_id h)) worker (limit_get limit)
        (pg_locked env) selected claimed
    \<and> (\<forall>c \<in> set claimed. find_delivery base (row_id_get (ce_row_id c))
         = find_delivery selected (row_id_get (ce_row_id c)))
    \<and> claim_applied x claimed base db' \<and> db_events db' = db_events base"
proof -
  have peers: "pg_peers_ok env" using assms(1) by (simp add: pg_peers_run_def)
  from assms(3) obtain t where
    body: "pg_claim_body lib env (Some (ph_tenant_id h)) worker lease limit ent (tx_begin db) = Some (Inr claimed, rest, t)"
    and db': "db' = tx_view t"
    unfolding pg_tenant_claim_def by (elim pg_claim_cases) auto
  from pg_claim_transition [OF peers assms(2) body] obtain s x now cs ps t1 where
    sel: "pg_claim_select env (Some (ph_tenant_id h)) (limit_get limit) (tx_begin db) = (Inr (now, cs), t1)"
    and wr: "pg_write_claims env now lease worker ps t1 = (Inr claimed, t)" and s: "s = tx_db t1"
    and batch: "claim_selected (pg_rebind env (pg_clock env 2)) (Some (ph_tenant_id h)) worker (limit_get limit)
        (pg_locked env) s claimed"
      "claim_applied x claimed (tx_db t) (tx_view t)" "tx_events t = []"
      "\<forall>c \<in> set claimed. find_delivery (tx_db t) (row_id_get (ce_row_id c)) = find_delivery s (row_id_get (ce_row_id c))"
    by blast
  have "(pg_step lib)\<^sup>*\<^sup>* db s" "(pg_step lib)\<^sup>*\<^sup>* s (tx_db t)"
    using reachesD [OF reaches_claim_select [OF assms(1)] sel] reachesD [OF reaches_write_claims [OF assms(1)] wr]
    by (simp_all add: s)
  moreover have "db_events (tx_view t) = db_events (tx_db t)" using batch(3) by (simp add: view_events)
  ultimately show ?thesis
    using batch unfolding db' by (intro exI [of _ s] exI [of _ "tx_db t"] exI [of _ x]) simp
qed

theorem pg_claim_returns_batch_witness:
  "\<exists>selected base x. (pg_step sample_lib)\<^sup>*\<^sup>* server_db selected
    \<and> claim_selected server_now (Some sample_tenant) (WorkerId ''w1'') 10 (\<lambda>_. False) selected [server_claim]
    \<and> claim_applied x [server_claim] base server_claimed_db"
proof -
  have "pg_locked pg_sample_env = (\<lambda>_. False)" "pg_rebind pg_sample_env server_now = server_now"
    by (simp_all add: fun_eq_iff pg_rebind_def)
  then show ?thesis
    using pg_claim_returns_batch [OF pg_sample_peers_run server_db_ok(1) pg_sample_tenant_claim] by auto
qed

text \<open>A claim returns: with pairwise different draws, two for every requested row are enough for the
  loop that draws tokens, whatever the server answers.\<close>

theorem pg_claim_terminates:
  assumes "distinct ent" and "2 * limit_get limit \<le> length ent"
  shows "\<exists>res rest db'. pg_tenant_claim lib env h worker lease limit ent db = Some (res, rest, db')"
  using pg_claim_returns [OF assms, of lib env "Some (ph_tenant_id h)" worker lease db]
  by (auto simp: pg_tenant_claim_def)

theorem pg_claim_terminates_witness:
  "\<exists>res rest db'. pg_tenant_claim sample_lib pg_sample_env pg_handle (WorkerId ''w1'')
     (Lease \<lparr>secs = 60, subsec_nanos = 0\<rparr>) (PageLimit 1) [Inr sample_token, Inr (replicate 16 (CHR ''m''))] server_db
       = Some (res, rest, db')"
proof -
  have "distinct [Inr sample_token, Inr (replicate 16 (CHR ''m'')) :: nat + bytes]"
    by (simp add: sample_token_def)
  then show ?thesis using pg_claim_terminates [of _ "PageLimit 1"] by simp
qed

section \<open>Fenced mutations\<close>




lemma pg_sample_quiet: "pg_mutation_quiet pg_sample_env MAck"
  by (simp add: pg_mutation_quiet_def)

lemma pg_sample_second_ack:
  "pg_mutate sample_lib pg_sample_env (Some sample_tenant) (RowId 1) (ClaimToken sample_token) MAck server_delivered_db
     = (Inl (PMutIllegalTransition Delivered), server_delivered_db)"
proof -
  let ?t = "tx_lock [1] (tx_begin server_delivered_db)"
  have rows: "db_deliveries server_delivered_db = [server_acked_delivery]" "dr_state server_acked_delivery = ''delivered''"
    "dr_event_row_id server_acked_delivery = 1" "dr_tenant_id server_acked_delivery = ''acme''"
    by (simp_all add: server_delivered_db_def server_acked_delivery_def)
  then have lock: "lock_where (Some sample_tenant) (RowId 1) server_acked_delivery"
    by (simp add: lock_where_def tenant_matches_def)
  have miss: "pg_update ovf (mutation_where (RowId 1) (Some sample_tenant) (ClaimToken sample_token) server_now) f t
      = (Inr [], t)" if "tx_view t = server_delivered_db" for t f ovf
    using that rows by (simp add: pg_update_def tx_map_err_def tx_update_def table_update_deliveries_def
        mutation_where_def)
  have "pg_classify_delivery sample_lib pg_sample_env (server_acked_delivery, server_now) (ClaimToken sample_token)
      = Inl (PMutIllegalTransition Delivered)"
    using rows by (simp add: pg_classify_delivery_def pg_parse_state_def)
  then show ?thesis
    using lock rows
    by (simp add: pg_mutate_def pg_mutate_body_def pg_mutate_retry_def pg_execute_mutation_def pg_lock_delivery_def
        pg_lock_target_def bind_tenant_def tx_then_def tx_map_err_def tx_return_def miss)
qed


section \<open>Enqueueing\<close>

text \<open>C10. In a transaction of the caller an enqueue that succeeds either stores the event once or finds
  it. A new event is written with one pending delivery under an identity that no visible event has,
  and the row reads back as the event; an event that is already there has the same content, keeps
  its row and its delivery, and nothing is written.\<close>

theorem pg_enqueue_stores_once:
  assumes "pg_peers_ok env" and "tx_ok t" and "pg_codec env"
    and "event_content_wf lib (new_content event)" and "validate_content lib (new_content event) limit = Inr ()"
    and "extension_codecs lib (ec_extensions (new_content event))"
    and "pg_tenant_enqueue lib bld env h event t = (Inr out, t')"
  shows "case out of
      Enqueued rid \<Rightarrow> \<exists>row. tx_events t' = tx_events t @ [row] \<and> rid = RowId (er_row_id row)
        \<and> er_tenant_id row = tenant_id_str (ph_tenant_id h)
        \<and> pg_hydrate_event lib env row = Inr (StoredEvent (new_content event))
        \<and> tx_deliveries t' = tx_deliveries t
            @ [enqueued_delivery (tenant_id_str (ph_tenant_id h)) (er_row_id row) (er_enqueued_at row)]
        \<and> event_identity row \<notin> event_identity ` set (db_events (tx_view t))
    | AlreadyEnqueued rid \<Rightarrow> own_writes t' = own_writes t
        \<and> (\<exists>row \<in> set (db_events (tx_view t')). rid = RowId (er_row_id row)
            \<and> er_tenant_id row = tenant_id_str (ph_tenant_id h)
            \<and> pg_hydrate_event lib env row = Inr (StoredEvent (new_content event))
            \<and> (\<exists>d \<in> set (db_deliveries (tx_view t')). dr_event_row_id d = er_row_id row
                 \<and> dr_tenant_id d = tenant_id_str (ph_tenant_id h)))"
proof -
  let ?t = "tx_peer (pg_peer env 0) t"
  have run: "pg_enqueue_for_scope lib bld env (ph_tenant_id h) event ?t = (Inr out, t')"
    using assms(7) unfolding pg_tenant_enqueue_def pg_tenant_bind_tenant_def bind_tenant_def tx_then_Inr_iff
      tx_map_err_Inr_iff pg_query_Inr by auto
  have ext: "tx_extends t ?t" and ok: "tx_ok ?t"
    using pg_extends_peer [OF assms(1)] pg_ok_peer [OF assms(1,2)] by auto
  note read = pg_hydrate_columns [OF assms(3-6)]
  show ?thesis
  proof (cases out)
    case (Enqueued rid)
    note new = pg_enqueue_Enqueued [OF assms(1) ok run [unfolded Enqueued]]
    let ?row = "pg_event_columns lib env (ph_tenant_id h) event (pg_txn_time env)"
    have "set (db_events (tx_view t)) \<subseteq> set (db_events (tx_view ?t))" using ext by (simp add: tx_extends_def)
    then have "event_identity ?row \<notin> event_identity ` set (db_events (tx_view t))" using new(5) by fastforce
    then show ?thesis
      unfolding Enqueued EnqueueOutcome.case using new(1-3) read by (intro exI [of _ ?row]) simp
  next
    case (AlreadyEnqueued rid)
    note old = pg_enqueue_AlreadyEnqueued [OF assms(1) ok run [unfolded AlreadyEnqueued]]
    have time: "instant_ok x" if "ec_time (new_content event) = Some x" for x
      using assms(5) that by (simp add: validate_content_Inr_iff)
    have "pg_hydrate_event lib env r = Inr (StoredEvent (new_content event))" if "pg_same_event lib env event r" for r
    proof -
      have r: "r = event_columns_with (pg_encode env) lib (er_tenant_id r) (new_content event) (er_row_id r) (er_enqueued_at r)"
        using that pg_same_event_iff [OF assms(3) time] by blast
      show ?thesis
        unfolding pg_hydrate_event_def by (subst r) (rule pg_hydrate_columns_with [OF assms(3-6), unfolded pg_hydrate_event_def])
    qed
    then show ?thesis using AlreadyEnqueued old by auto
  qed
qed

theorem pg_enqueue_stores_once_witness:
  "\<exists>row. tx_events pg_sample_txn = [row] \<and> pg_hydrate_event sample_lib pg_sample_env row = Inr (StoredEvent sample_content)"
  using pg_enqueue_stores_once [OF pg_sample_peers_ok tx_ok_begin [OF db_ok_empty] pg_sample_codec _ _ _ pg_sample_enqueue,
      of event_size_limit_default] sample_content_wf sample_content_valid sample_extension_codecs by auto

section \<open>Schema\<close>



section \<open>Pages\<close>

text \<open>The pages of a snapshot pager are the scope as it was committed when the snapshot began, cut
  in consecutive pieces: put together they are its rows in order, without gap or repetition, up to
  the sum of the limits, whatever others commit meanwhile; and the pager is exhausted exactly when
  the sum covers the scope.\<close>

theorem pg_snapshot_pages_are_the_scope:
  assumes "db_ok (pg_committed env 0 db)" and "pg_tenant_begin_snapshot env h db = Inr p"
    and "collect_results (pg_hydrate_page lib env) (map (page_join (pg_committed env 0 db))
      (scope_rows (Some (ph_tenant_id h)) (pg_committed env 0 db))) = Inr evs"
    and "list_all (pg_quiet_call env) calls"
  shows "\<exists>p'. pg_run_pager lib calls p = (Inr (take (pg_total_limit calls) evs), p')
    \<and> (pgr_exhausted p' \<longleftrightarrow> length evs \<le> pg_total_limit calls)"
proof -
  let ?db = "pg_committed env 0 db" and ?tenant = "Some (ph_tenant_id h)"
  have "pgr_at p ?tenant ?db 0"
    by (rule pg_begin_snapshot_at [OF assms(1) assms(2) [unfolded pg_tenant_begin_snapshot_def]])
  from pg_run_pager_at [OF assms(1,3,4) this] obtain p' where
    "pg_run_pager lib calls p = (Inr (take (pg_total_limit calls) evs), p')"
    "pgr_at p' ?tenant ?db (pg_total_limit calls)" by auto
  then show ?thesis using collect_results_length [OF assms(3)] by (auto simp: pgr_at_def Let_def)
qed

lemma pg_sample_committed [simp]: "pg_committed pg_sample_env n db = db"
  by (simp add: pg_committed_def)

theorem pg_snapshot_pages_are_the_scope_witness:
  "\<exists>p evs p'. pg_tenant_begin_snapshot pg_sample_env pg_handle server_db = Inr p
     \<and> pg_run_pager sample_lib [(pg_sample_env, PageLimit 1), (pg_sample_env, PageLimit 1)] p = (Inr evs, p')
     \<and> length evs = 1 \<and> pgr_exhausted p'"
proof -
  have rows: "scope_rows (Some sample_tenant) server_db = [server_row]"
    by (simp add: scope_rows_def page_scope_def server_db_def)
  have join: "page_join server_db server_row = durable_join server_row (Some server_delivery)"
    by (simp add: page_join_def server_db_def)
  have "\<exists>e. pg_hydrate_page sample_lib pg_sample_env (page_join server_db server_row) = Inr e"
    by (simp add: join pg_hydrate_page_def durable_join_def row_id_new_def herr_def attempt_count_new_def
        parse_failure_def pg_hydrate_snapshot_def require_absent_def snapshot_pending_def paged_event_new_def server_instants)
  then obtain e where e: "pg_hydrate_page sample_lib pg_sample_env (page_join server_db server_row) = Inr e" ..
  have "\<exists>p. pg_tenant_begin_snapshot pg_sample_env pg_handle server_db = Inr p"
    using sql_max_row_id_eq [OF server_db_ok(1), of "Some sample_tenant"] rows
    by (simp add: pg_tenant_begin_snapshot_def pg_begin_snapshot_for_scope_def bind_tenant_def row_id_new_def Let_def)
  then obtain p where p: "pg_tenant_begin_snapshot pg_sample_env pg_handle server_db = Inr p" ..
  have evs: "collect_results (pg_hydrate_page sample_lib pg_sample_env)
      (map (page_join server_db) (scope_rows (Some sample_tenant) server_db)) = Inr [e]"
    using rows e by simp
  show ?thesis
    using pg_snapshot_pages_are_the_scope [OF _ p, of sample_lib "[e]"
        "[(pg_sample_env, PageLimit 1), (pg_sample_env, PageLimit 1)]"] evs p
    by (auto simp: pg_quiet_call_def pg_total_limit_def)
qed

end
