(* ===== verification/Mysql_Backend.thy ===== *)
theory Mysql_Backend
  imports Adapter_Catalog
begin

text \<open>
  \<open>crates/dovecote-sqlx-mysql/src/backend.rs\<close>: which servers and sessions the adapter accepts; and
  of \<open>error.rs\<close> the classification of database errors and the recognition of a duplicate
  identity from the message of the server.
\<close>

section \<open>Errors\<close>

text \<open>
  The parts of \<open>sqlx::Error\<close> the adapter looks at: of a database error its SQLSTATE, its number
  and its message.
\<close>

datatype my_error = MyDatabase "string option" nat string | MyProtocol string | MyRowNotFound | MyOther string

datatype MyTransientKind = MySerializationFailure | MyDeadlockDetected | MyStatementOrLockTimeout

fun my_transient_kind_to_string :: "MyTransientKind \<Rightarrow> string" where
  "my_transient_kind_to_string MySerializationFailure = ''serialization failure''"
| "my_transient_kind_to_string MyDeadlockDetected = ''deadlock detected''"
| "my_transient_kind_to_string MyStatementOrLockTimeout = ''statement or lock timeout''"

definition my_from_code :: "string \<Rightarrow> nat option \<Rightarrow> MyTransientKind option" where
  "my_from_code code number =
     (if number = Some 1213 then Some MyDeadlockDetected
      else if number = Some 1205 then Some MyStatementOrLockTimeout
      else if number = Some 1020 then Some MySerializationFailure
      else if code = ''40001'' then Some MySerializationFailure
      else None)"

definition my_from_sqlx :: "my_error \<Rightarrow> MyTransientKind option" where
  "my_from_sqlx source =
     (case source of MyDatabase (Some code) number _ \<Rightarrow> my_from_code code (Some number) | _ \<Rightarrow> None)"

definition TENANT_SOURCE_EVENT_ID_KEY :: string where
  "TENANT_SOURCE_EVENT_ID_KEY = ''dovecote_events_tenant_source_event_id''"

definition duplicate_key_name :: "string \<Rightarrow> string option" where
  "duplicate_key_name message =
     (case rsplit_once_at '' for key '' message of
        None \<Rightarrow> None
      | Some (_, suffix) \<Rightarrow>
     (case suffix of
        [] \<Rightarrow> None
      | c # key \<Rightarrow>
     if c \<noteq> CHR 39 then None
     else case strip_suffix (CHR 39) key of
        None \<Rightarrow> None
      | Some key \<Rightarrow>
          if key = [] \<or> CHR 39 \<in> set key then None
          else Some (last (split_str (CHR ''.'') key))))"

definition is_tenant_source_event_id_duplicate :: "my_error \<Rightarrow> bool" where
  "is_tenant_source_event_id_duplicate source \<longleftrightarrow>
     (case source of
        MyDatabase code number message \<Rightarrow> number = 1062 \<and> code = Some ''23000''
          \<and> duplicate_key_name message = Some TENANT_SOURCE_EVENT_ID_KEY
      | _ \<Rightarrow> False)"

section \<open>Backend\<close>

datatype BackendKind = MySql | MariaDb

fun backend_kind_to_string :: "BackendKind \<Rightarrow> string" where
  "backend_kind_to_string MySql = ''MySQL''"
| "backend_kind_to_string MariaDb = ''MariaDB''"

record ServerVersion =
  sv_major :: nat
  sv_minor :: nat
  sv_patch :: nat

record Capabilities =
  skip_locked :: bool
  enforced_checks :: bool
  repeatable_read_snapshot :: bool

record BackendInfo =
  bi_kind :: BackendKind
  bi_version :: ServerVersion
  bi_capabilities :: Capabilities
  bi_transaction_isolation :: string

record ServerProbe =
  probe_version :: string
  probe_version_comment :: string
  probe_time_zone :: string
  probe_transaction_isolation :: string
  probe_sql_mode :: string
  probe_character_set_client :: string
  probe_character_set_connection :: string
  probe_character_set_results :: string
  probe_collation_connection :: string

text \<open>
  The details of a backend mismatch, by what they report: the texts quote the settings with Rust's
  debug formatting.
\<close>

datatype backend_detail =
    UnidentifiedServer string
  | UnparsedVersion BackendKind string
  | UnsupportedRelease BackendKind ServerVersion
  | SessionTimeZone string
  | LacksCapabilities
  | SqlModeNotStrict string
  | NoAutoValueOnZero
  | IsolationLevel string
  | CharacterSet string string
  | ConnectionCollation string
  | ChecksNotEnforced
  | SkipLockedMissing
  | SnapshotsMissing
  | SnapshotIsolation string

text \<open>
  \<open>split\<close> at the octets that satisfy a predicate, and \<open>parse::<u32>\<close> of a text of digits (a sign
  never reaches it).
\<close>

fun split_where :: "(char \<Rightarrow> bool) \<Rightarrow> string \<Rightarrow> string list" where
  "split_where p [] = [[]]"
| "split_where p (c # cs) =
     (if p c then [] # split_where p cs
      else (case split_where p cs of [] \<Rightarrow> [[c]] | w # ws \<Rightarrow> (c # w) # ws))"

definition parse_u32 :: "string \<Rightarrow> nat option" where
  "parse_u32 s =
     (if s = [] \<or> \<not> list_all is_ascii_digit s then None
      else let v = foldl (\<lambda>v c. 10 * v + (byte c - 48)) 0 s in
        if v < 4294967296 then Some v else None)"

definition parse_server_version :: "string \<Rightarrow> ServerVersion option" where
  "parse_server_version value =
     (case find (\<lambda>part. part \<noteq> []) (split_where (\<lambda>c. \<not> is_ascii_digit c \<and> c \<noteq> CHR ''.'') value) of
        None \<Rightarrow> None
      | Some numeric \<Rightarrow>
     (case map parse_u32 (split_str (CHR ''.'') numeric) of
        Some major # Some minor # [] \<Rightarrow> Some \<lparr>sv_major = major, sv_minor = minor, sv_patch = 0\<rparr>
      | Some major # Some minor # Some patch # _ \<Rightarrow>
          Some \<lparr>sv_major = major, sv_minor = minor, sv_patch = patch\<rparr>
      | _ \<Rightarrow> None))"

fun supported :: "BackendKind \<Rightarrow> ServerVersion \<Rightarrow> bool" where
  "supported MySql version \<longleftrightarrow> sv_major version > 8 \<or> (sv_major version = 8 \<and> sv_minor version \<ge> 4)"
| "supported MariaDb version \<longleftrightarrow> sv_major version > 11 \<or> (sv_major version = 11 \<and> sv_minor version \<ge> 8)"

definition capabilities :: "BackendKind \<Rightarrow> ServerVersion \<Rightarrow> Capabilities" where
  "capabilities kind version =
     (let locked = (case kind of
            MySql \<Rightarrow> sv_major version \<ge> 8
          | MariaDb \<Rightarrow> sv_major version > 10 \<or> (sv_major version = 10 \<and> sv_minor version \<ge> 6));
        checks = (case kind of
            MySql \<Rightarrow> sv_major version \<ge> 8
          | MariaDb \<Rightarrow> sv_major version > 10 \<or> (sv_major version = 10 \<and> sv_minor version \<ge> 2)) in
      \<lparr>skip_locked = locked, enforced_checks = checks, repeatable_read_snapshot = True\<rparr>)"

definition server_kind :: "ServerProbe \<Rightarrow> BackendKind option" where
  "server_kind probe =
     (let version_lower = map ascii_lower (probe_version probe);
        comment_lower = map ascii_lower (probe_version_comment probe) in
      if str_contains ''mariadb'' version_lower \<or> str_contains ''mariadb'' comment_lower then Some MariaDb
      else if str_contains ''mysql'' comment_lower \<and> \<not> str_contains ''percona'' comment_lower
        \<and> \<not> str_contains ''tidb'' comment_lower \<and> \<not> str_contains ''vitess'' comment_lower
        then Some MySql
      else None)"

definition has_sql_mode :: "ServerProbe \<Rightarrow> string \<Rightarrow> bool" where
  "has_sql_mode probe mode \<longleftrightarrow>
     list_ex (\<lambda>m. same_ascii_case m mode) (split_str (CHR '','') (probe_sql_mode probe))"

definition session_charsets :: "ServerProbe \<Rightarrow> (string \<times> string) list" where
  "session_charsets probe =
     [(''character_set_client'', probe_character_set_client probe),
      (''character_set_connection'', probe_character_set_connection probe),
      (''character_set_results'', probe_character_set_results probe)]"

definition detect_probe :: "ServerProbe \<Rightarrow> backend_detail + BackendInfo" where
  "detect_probe probe =
     and_then (ok_or (UnidentifiedServer (probe_version_comment probe)) (server_kind probe)) (\<lambda>kind.
     and_then (ok_or (UnparsedVersion kind (probe_version probe)) (parse_server_version (probe_version probe)))
       (\<lambda>version.
     if \<not> supported kind version then Inl (UnsupportedRelease kind version)
     else if \<not> same_ascii_case (str_trim (probe_time_zone probe)) ''+00:00''
        \<and> \<not> same_ascii_case (str_trim (probe_time_zone probe)) ''UTC''
       then Inl (SessionTimeZone (probe_time_zone probe))
     else let caps = capabilities kind version in
     if \<not> skip_locked caps \<or> \<not> enforced_checks caps then Inl LacksCapabilities
     else if \<not> (has_sql_mode probe ''STRICT_TRANS_TABLES'' \<or> has_sql_mode probe ''STRICT_ALL_TABLES'')
       then Inl (SqlModeNotStrict (probe_sql_mode probe))
     else if has_sql_mode probe ''NO_AUTO_VALUE_ON_ZERO'' then Inl NoAutoValueOnZero
     else if \<not> same_ascii_case (probe_transaction_isolation probe) ''REPEATABLE-READ''
       then Inl (IsolationLevel (probe_transaction_isolation probe))
     else case find (\<lambda>(_, value). \<not> same_ascii_case value ''utf8mb4'') (session_charsets probe) of
       Some (name, value) \<Rightarrow> Inl (CharacterSet name value)
     | None \<Rightarrow>
     if \<not> starts_with ''utf8mb4_'' (map ascii_lower (probe_collation_connection probe))
       then Inl (ConnectionCollation (probe_collation_connection probe))
     else Inr \<lparr>bi_kind = kind, bi_version = version, bi_capabilities = caps,
               bi_transaction_isolation = probe_transaction_isolation probe\<rparr>))"

section \<open>Accepted sessions\<close>

text \<open>
  An accepted session: a MySQL of at least 8.4 or a MariaDB of at least 11.8 in UTC, strict mode,
  REPEATABLE READ and utf8mb4.
\<close>

lemma supported_capable:
  "supported kind version \<Longrightarrow> skip_locked (capabilities kind version) \<and> enforced_checks (capabilities kind version)"
  by (cases kind) (auto simp: capabilities_def Let_def)

lemma detect_probe_iff:
  "detect_probe probe = Inr info \<longleftrightarrow>
     server_kind probe = Some (bi_kind info)
     \<and> parse_server_version (probe_version probe) = Some (bi_version info)
     \<and> supported (bi_kind info) (bi_version info)
     \<and> (same_ascii_case (str_trim (probe_time_zone probe)) ''+00:00''
        \<or> same_ascii_case (str_trim (probe_time_zone probe)) ''UTC'')
     \<and> (has_sql_mode probe ''STRICT_TRANS_TABLES'' \<or> has_sql_mode probe ''STRICT_ALL_TABLES'')
     \<and> \<not> has_sql_mode probe ''NO_AUTO_VALUE_ON_ZERO''
     \<and> same_ascii_case (probe_transaction_isolation probe) ''REPEATABLE-READ''
     \<and> (\<forall>(_, value) \<in> set (session_charsets probe). same_ascii_case value ''utf8mb4'')
     \<and> starts_with ''utf8mb4_'' (map ascii_lower (probe_collation_connection probe))
     \<and> info = \<lparr>bi_kind = bi_kind info, bi_version = bi_version info,
         bi_capabilities = capabilities (bi_kind info) (bi_version info),
         bi_transaction_isolation = probe_transaction_isolation probe\<rparr>"
proof (cases "find (\<lambda>(_, value). \<not> same_ascii_case value ''utf8mb4'') (session_charsets probe)")
  case None
  then have "\<forall>(_, value) \<in> set (session_charsets probe). same_ascii_case value ''utf8mb4''"
    by (auto simp: find_None_set)
  then show ?thesis
    using None supported_capable unfolding detect_probe_def and_then_Inr_iff ok_or_Inr_iff Let_def if_Inl_eq_Inr
    by (cases info) auto
next
  case (Some c)
  then have "\<not> (\<forall>(_, value) \<in> set (session_charsets probe). same_ascii_case value ''utf8mb4'')"
    using find_Some_in [OF Some] by (cases c) force
  then show ?thesis
    using Some unfolding detect_probe_def and_then_Inr_iff ok_or_Inr_iff Let_def if_Inl_eq_Inr
    by (auto split: prod.splits)
qed

section \<open>Duplicate identities\<close>

text \<open>
  The message of error 1062. The entry is a part of the row as text, so it may hold anything, quotes
  and the words of the message included; MySQL qualifies the key with its table, MariaDB does not.
\<close>

definition duplicate_message :: "string \<Rightarrow> string \<Rightarrow> string \<Rightarrow> string" where
  "duplicate_message entry prefix key =
     ''Duplicate entry '' @ [CHR 39] @ entry @ [CHR 39] @ '' for key '' @ [CHR 39] @ prefix @ key @ [CHR 39]"

lemma duplicate_key_name_identity:
  "duplicate_key_name (duplicate_message entry [] TENANT_SOURCE_EVENT_ID_KEY) = Some TENANT_SOURCE_EVENT_ID_KEY"
  "duplicate_key_name (duplicate_message entry ''dovecote_events.'' TENANT_SOURCE_EVENT_ID_KEY)
     = Some TENANT_SOURCE_EVENT_ID_KEY"
  by (simp_all add: duplicate_key_name_def duplicate_message_def TENANT_SOURCE_EVENT_ID_KEY_def rsplit_once_at_def
      starts_with_def strip_suffix_def)

lemma duplicate_key_name_primary:
  "duplicate_key_name (duplicate_message entry [] ''PRIMARY'') = Some ''PRIMARY''"
  "duplicate_key_name (duplicate_message entry ''dovecote_events.'' ''PRIMARY'') = Some ''PRIMARY''"
  by (simp_all add: duplicate_key_name_def duplicate_message_def rsplit_once_at_def
      starts_with_def strip_suffix_def)

end
