(* ===== verification/Mysql_Base.thy ===== *)
theory Mysql_Base
  imports Mysql_Backend Adapter_Transaction Adapter_Page Adapter_Migration
begin

text \<open>
  \<open>crates/dovecote-sqlx-mysql/src/error.rs\<close>, \<open>hydrate.rs\<close>, and the statements the adapter runs on
  MySQL and MariaDB. Stored instants are microseconds of the Unix epoch.

  SQLx and the servers are outside the repository. What they may answer is the record \<open>my_env\<close>,
  one value per call of an operation. Statements are numbered in the order the operation may
  issue them. \<open>my_peer env n\<close> is what other sessions commit before statement \<open>n\<close>. The isolation
  level is REPEATABLE READ: plain reads see the snapshot of the transaction, locking reads and
  writes see what is committed. \<open>my_clock env n\<close> is \<open>UTC_TIMESTAMP(6)\<close> of statement \<open>n\<close>, which is
  constant while the statement runs; \<open>my_locked env n\<close> are the rows others hold locked when
  statement \<open>n\<close> skips them. \<open>my_row_id\<close> is the AUTO_INCREMENT value, \<open>my_plus\<close> is
  \<open>TIMESTAMPADD\<close> (\<open>None\<close> is NULL, out of range), \<open>my_encode\<close> and \<open>my_decode\<close> are SQLx's conversions
  between instants and DATETIME(6). A server that reports an overflow as an error does so through
  \<open>my_fault\<close>. \<open>my_entry\<close> is the text of the entry in a duplicate-key message, \<open>my_message\<close> that of
  other violations.
\<close>

type_synonym my_db = "int db"
type_synonym my_txn = "int txn"
type_synonym ('e, 'a) my_action = "(int, 'e, 'a) action_of"

section \<open>Errors\<close>

text \<open>
  One datatype per error enum. The constructor that ends in \<open>Panic\<close> is not a variant: it stands
  for a panic of the operation, which drops and so rolls back the transaction it owns.
\<close>

datatype MyEnqueueError =
    MEnqIdempotencyConflict RowId
  | MEnqMigrationMismatch string
  | MEnqBackendMismatch backend_detail
  | MEnqSerialization string
  | MEnqSql string my_error
  | MEnqTransient string MyTransientKind my_error
  | MEnqPanic

datatype MyImportError =
    MImpIdentityConflict RowId
  | MImpImportConflict RowId
  | MImpInvalidState ValidationError
  | MImpMigrationMismatch string
  | MImpBackendMismatch backend_detail
  | MImpSerialization string
  | MImpSql string my_error
  | MImpTransient string MyTransientKind my_error
  | MImpPanic

datatype MyFinalizeError =
    MFinNotFound
  | MFinStateConflict RowId
  | MFinInvalidTimestamp ValidationError
  | MFinMigrationMismatch string
  | MFinBackendMismatch backend_detail
  | MFinSerialization string
  | MFinSql string my_error
  | MFinTransient string MyTransientKind my_error

datatype MyClaimError =
    MClmCounterOverflow RowId
  | MClmEntropyUnavailable nat
  | MClmSerialization string
  | MClmMigrationMismatch string
  | MClmBackendMismatch backend_detail
  | MClmSql string my_error
  | MClmTransient string MyTransientKind my_error
  | MClmPanic

datatype MyMutationError =
    MMutNotFound
  | MMutIllegalTransition DeliveryState
  | MMutLostClaim
  | MMutMigrationMismatch string
  | MMutBackendMismatch backend_detail
  | MMutSerialization string
  | MMutSql string my_error
  | MMutTransient string MyTransientKind my_error

datatype MyPageError =
    MPagSerialization string
  | MPagBackendMismatch backend_detail
  | MPagSql string my_error
  | MPagTransient string MyTransientKind my_error
  | MPagPanic

datatype MySchemaError =
    MSchMigrationMismatch string
  | MSchBackendMismatch backend_detail
  | MSchSql string my_error
  | MSchTransient string MyTransientKind my_error

definition my_enqueue_error_sql :: "string \<Rightarrow> my_error \<Rightarrow> MyEnqueueError" where
  "my_enqueue_error_sql operation source =
     (case my_from_sqlx source of
        Some kind \<Rightarrow> MEnqTransient operation kind source | None \<Rightarrow> MEnqSql operation source)"

definition my_import_error_sql :: "string \<Rightarrow> my_error \<Rightarrow> MyImportError" where
  "my_import_error_sql operation source =
     (case my_from_sqlx source of
        Some kind \<Rightarrow> MImpTransient operation kind source | None \<Rightarrow> MImpSql operation source)"

definition my_finalize_error_sql :: "string \<Rightarrow> my_error \<Rightarrow> MyFinalizeError" where
  "my_finalize_error_sql operation source =
     (case my_from_sqlx source of
        Some kind \<Rightarrow> MFinTransient operation kind source | None \<Rightarrow> MFinSql operation source)"

definition my_claim_error_sql :: "string \<Rightarrow> my_error \<Rightarrow> MyClaimError" where
  "my_claim_error_sql operation source =
     (case my_from_sqlx source of
        Some kind \<Rightarrow> MClmTransient operation kind source | None \<Rightarrow> MClmSql operation source)"

definition my_mutation_error_sql :: "string \<Rightarrow> my_error \<Rightarrow> MyMutationError" where
  "my_mutation_error_sql operation source =
     (case my_from_sqlx source of
        Some kind \<Rightarrow> MMutTransient operation kind source | None \<Rightarrow> MMutSql operation source)"

definition my_page_error_sql :: "string \<Rightarrow> my_error \<Rightarrow> MyPageError" where
  "my_page_error_sql operation source =
     (case my_from_sqlx source of
        Some kind \<Rightarrow> MPagTransient operation kind source | None \<Rightarrow> MPagSql operation source)"

definition my_schema_error_sql :: "string \<Rightarrow> my_error \<Rightarrow> MySchemaError" where
  "my_schema_error_sql operation source =
     (case my_from_sqlx source of
        Some kind \<Rightarrow> MSchTransient operation kind source | None \<Rightarrow> MSchSql operation source)"

section \<open>What the server may answer\<close>

record my_env =
  my_fault :: "string \<Rightarrow> nat \<Rightarrow> my_error option"
  my_peer :: "nat \<Rightarrow> my_txn \<Rightarrow> my_db"
  my_clock :: "nat \<Rightarrow> int"
  my_locked :: "nat \<Rightarrow> int \<Rightarrow> bool"
  my_row_id :: int
  my_plus :: "int \<Rightarrow> int \<Rightarrow> int option"
  my_encode :: "offset_date_time \<Rightarrow> int"
  my_decode :: "int \<Rightarrow> offset_date_time"
  my_commit :: "my_error commit_outcome"
  my_probe :: ServerProbe
  my_selection :: "int \<times> int"
  my_entry :: string
  my_message :: string

definition my_peers_ok :: "my_env \<Rightarrow> bool" where
  "my_peers_ok env \<longleftrightarrow> (\<forall>n. peers_ok (my_peer env n))"

text \<open>The error packets of the constraint violations.\<close>

definition my_duplicate :: "my_env \<Rightarrow> string \<Rightarrow> string \<Rightarrow> my_error" where
  "my_duplicate env table key =
     MyDatabase (Some ''23000'') 1062
       (duplicate_message (my_entry env)
         (if server_kind (my_probe env) = Some MariaDb then [] else table @ ''.'') key)"

fun my_violation :: "my_env \<Rightarrow> string \<Rightarrow> violation \<Rightarrow> my_error" where
  "my_violation env table NotNullViolation = MyDatabase (Some ''23000'') 1048 (my_message env)"
| "my_violation env table CheckViolation =
     (if server_kind (my_probe env) = Some MariaDb then MyDatabase (Some ''23000'') 4025 (my_message env)
      else MyDatabase (Some ''HY000'') 3819 (my_message env))"
| "my_violation env table UniqueViolation = my_duplicate env table ''PRIMARY''"
| "my_violation env table ForeignKeyViolation = MyDatabase (Some ''23000'') 1452 (my_message env)"

section \<open>Identity key\<close>

text \<open>
  The generated column of the unique index: the lengths of tenant and source are prefixed with a
  fixed number of digits, so the concatenation can be taken apart again.
\<close>

definition lpad :: "nat \<Rightarrow> nat \<Rightarrow> string" where
  "lpad n width =
     (let s = nat_to_string n in
      if width \<le> length s then take width s else replicate (width - length s) (CHR ''0'') @ s)"

definition identity_key :: "'t event_row \<Rightarrow> string" where
  "identity_key r =
     lpad (length (er_tenant_id r)) 3 @ er_tenant_id r @ lpad (length (er_source r)) 4 @ er_source r
       @ er_event_id r"

section \<open>Statements\<close>

definition my_statement ::
  "my_env \<Rightarrow> string \<Rightarrow> nat \<Rightarrow> (my_error, 'a) my_action \<Rightarrow> (my_error, 'a) my_action" where
  "my_statement env label n body = tx_statement (my_peer env n) (my_fault env label n) body"

text \<open>A statement that reads no table of the schema, and a plain read.\<close>

definition my_ask :: "my_env \<Rightarrow> string \<Rightarrow> nat \<Rightarrow> 'a \<Rightarrow> (my_error, 'a) my_action" where
  "my_ask env label n v = my_statement env label n (tx_return (Inr v))"

definition my_read :: "my_env \<Rightarrow> string \<Rightarrow> nat \<Rightarrow> (my_db \<Rightarrow> 'a) \<Rightarrow> (my_error, 'a) my_action" where
  "my_read env label n f = my_statement env label n (tx_read_seen f)"

text \<open>
  A locking read by key: it sees what is committed and locks the deliveries \<open>keys\<close> names. The
  locks it takes on events are left out, for events never change.
\<close>

definition my_read_lock ::
  "my_env \<Rightarrow> string \<Rightarrow> nat \<Rightarrow> (my_db \<Rightarrow> 'a) \<Rightarrow> ('a \<Rightarrow> int list) \<Rightarrow> (my_error, 'a) my_action" where
  "my_read_lock env label n f keys =
     my_statement env label n (\<lambda>t. let v = f (tx_view t) in (Inr v, tx_lock (keys v) t))"

text \<open>
  An INSERT of an event. The server tests the CHECK constraints and the trigger, then the primary
  key, then the index on the identity key.
\<close>

definition my_add_event :: "my_env \<Rightarrow> int event_row \<Rightarrow> (my_error, unit) my_action" where
  "my_add_event env row t =
     (if \<not> event_check row then (Inl (my_violation env ''dovecote_events'' CheckViolation), t)
      else if er_row_id row \<in> er_row_id ` set (db_events (tx_view t))
        then (Inl (my_violation env ''dovecote_events'' UniqueViolation), t)
      else if identity_key row \<in> identity_key ` set (db_events (tx_view t))
        then (Inl (my_duplicate env ''dovecote_events'' TENANT_SOURCE_EVENT_ID_KEY), t)
      else (Inr (), tx_insert_event row t))"

definition my_insert_event ::
  "my_env \<Rightarrow> string \<Rightarrow> nat \<Rightarrow> int event_row \<Rightarrow> (my_error, unit) my_action" where
  "my_insert_event env label n row = my_statement env label n (my_add_event env row)"

definition my_insert_delivery ::
  "my_env \<Rightarrow> string \<Rightarrow> nat \<Rightarrow> int delivery_row \<Rightarrow> (my_error, unit) my_action" where
  "my_insert_delivery env label n row =
     my_statement env label n (tx_map_err (my_violation env ''dovecote_deliveries'') (tx_add_delivery row))"

text \<open>The number of rows an UPDATE found.\<close>

definition my_update ::
  "my_env \<Rightarrow> (int delivery_row \<Rightarrow> bool) \<Rightarrow> (int delivery_row \<Rightarrow> int delivery_row option)
     \<Rightarrow> (my_error, nat) my_action" where
  "my_update env p f =
     tx_then (tx_map_err (my_violation env ''dovecote_deliveries'') (tx_update p f)) (\<lambda>rows.
     tx_return (Inr (length rows)))"

definition my_finish :: "my_env \<Rightarrow> my_txn \<Rightarrow> (my_error + unit) \<times> my_db" where
  "my_finish env t = tx_finish (my_commit env) t"

definition detect_on_connection :: "my_env \<Rightarrow> (MySchemaError, BackendInfo) my_action" where
  "detect_on_connection env =
     tx_then (tx_map_err (my_schema_error_sql ''detect MySQL/MariaDB backend'')
       (my_ask env ''detect MySQL/MariaDB backend'' 1 (my_probe env))) (\<lambda>probe.
     tx_return (map_err MSchBackendMismatch (detect_probe probe)))"

text \<open>\<open>lifecycle.rs\<close>: a duration in whole microseconds, the clock of the database.\<close>

definition duration_micros :: "duration \<Rightarrow> string + int" where
  "duration_micros value =
     (if int (as_micros value) \<le> i64_max then Inr (int (as_micros value))
      else Inl ''duration does not fit MySQL microseconds'')"

definition my_database_time :: "my_env \<Rightarrow> string \<Rightarrow> nat \<Rightarrow> (my_error, offset_date_time) my_action" where
  "my_database_time env label n = my_ask env label n (my_decode env (my_clock env n))"

section \<open>Hydration\<close>

definition strv :: "string \<Rightarrow> string \<Rightarrow> hydrate_error + string" where
  "strv value field =
     (if utf8_valid value then Inr value else Inl (HErr (''stored '' @ field @ '' is not UTF-8'')))"

definition my_hydrate_event :: "ext_lib \<Rightarrow> my_env \<Rightarrow> int event_row \<Rightarrow> hydrate_error + StoredEvent" where
  "my_hydrate_event lib env row =
     (if er_specversion row \<noteq> SPEC_VERSION
        then Inl (HErr ''stored event has unsupported specversion'')
      else
      and_then (strv (er_stream row) ''stream'') (\<lambda>v. and_then (herr (stream_name_new v)) (\<lambda>stream.
      and_then (strv (er_event_id row) ''event id'') (\<lambda>v. and_then (herr (event_id_new v)) (\<lambda>eid.
      and_then (strv (er_source row) ''source'') (\<lambda>v. and_then (herr (event_source_new lib v)) (\<lambda>source.
      and_then (strv (er_event_type row) ''event type'') (\<lambda>v. and_then (herr (event_type_new v)) (\<lambda>event_type.
      and_then (set_optional (er_subject row) (\<lambda>v b.
          and_then (strv v ''subject'') (\<lambda>v.
          and_then (herr (event_subject_new v)) (\<lambda>x. Inr (builder_subject x b))))
        (builder_new stream eid source event_type)) (\<lambda>b.
      and_then (set_optional (er_occurred_at row) (\<lambda>v b.
          ok_or HPanic (builder_time (my_decode env v) b)) b) (\<lambda>b.
      and_then (set_optional (er_datacontenttype row) (\<lambda>v b.
          and_then (strv v ''content type'') (\<lambda>v.
          and_then (herr (content_type_new lib v)) (\<lambda>x. Inr (builder_datacontenttype x b)))) b) (\<lambda>b.
      and_then (set_optional (er_dataschema row) (\<lambda>v b.
          and_then (strv v ''schema URI'') (\<lambda>v.
          and_then (herr (schema_uri_new lib v)) (\<lambda>x. Inr (builder_dataschema x b)))) b) (\<lambda>b.
      and_then (set_optional (er_partitionkey row) (\<lambda>v b.
          and_then (strv v ''partition key'') (\<lambda>v.
          and_then (herr (partition_key_new v)) (\<lambda>x. Inr (builder_partitionkey x b)))) b) (\<lambda>b.
      and_then (strv (er_extensions row) ''extensions'') (\<lambda>v.
      and_then (hydrate_extensions lib v) (\<lambda>extensions.
      and_then (hydrate_data lib (er_data_kind row) (er_data row) (builder_extensions extensions b)) (\<lambda>b.
      and_then (herr (build_with_limit lib b (EventSizeLimit usize_max))) (\<lambda>event.
        herr (into_stored lib event)))))))))))))))))))"

text \<open>The columns bound for an event. \<open>database_datetime\<close> takes an instant to UTC.\<close>

definition my_event_columns ::
  "ext_lib \<Rightarrow> my_env \<Rightarrow> TenantId \<Rightarrow> NewEvent \<Rightarrow> int \<Rightarrow> int event_row" where
  "my_event_columns lib env tenant event enqueued_at =
     event_columns_with (\<lambda>t. my_encode env (to_offset_utc t)) lib (tenant_id_str tenant) (new_content event)
       (my_row_id env) enqueued_at"

section \<open>The identity key is injective\<close>

lemma digits_rev_fuel: "n < k \<Longrightarrow> digits_rev k n = digits_rev (Suc n) n"
proof (induction k arbitrary: n rule: less_induct)
  case (less k)
  then obtain j where k: "k = Suc j" by (cases k) auto
  show ?case
  proof (cases "n < 10")
    case False
    have "n div 10 < j" "j < k" "n div 10 < n" "n < k" using less.prems False k by auto
    then have "digits_rev j (n div 10) = digits_rev n (n div 10)"
      using less.IH [of j "n div 10"] less.IH [of n "n div 10"] by simp
    then show ?thesis using False k by simp
  qed (simp add: k)
qed

lemma nat_to_string_step:
  "nat_to_string n = (if n < 10 then [char_of (48 + n)] else nat_to_string (n div 10) @ [char_of (48 + n mod 10)])"
  using digits_rev_fuel [of "n div 10" n] by (simp add: nat_to_string_def)

lemma lpad_3:
  assumes "n < 1000"
  shows "lpad n 3 = [char_of (48 + n div 100), char_of (48 + n div 10 mod 10), char_of (48 + n mod 10)]"
proof -
  have zero: "CHR ''0'' = (char_of (48 :: nat) :: char)" by code_simp
  consider "n < 10" | "10 \<le> n" "n < 100" | "100 \<le> n" by linarith
  then show ?thesis
  proof cases
    case 1
    then show ?thesis by (simp add: lpad_def nat_to_string_step [of n] zero Let_def numeral_2_eq_2)
  next
    case 2
    have "n div 10 < 10" using 2 by simp
    then show ?thesis
      using 2 by (simp add: lpad_def nat_to_string_step [of n] nat_to_string_step [of "n div 10"] zero Let_def)
  next
    case 3
    have "10 \<le> n div 10" "n div 10 div 10 < 10" "n div 10 div 10 = n div 100" using 3 assms by auto
    then show ?thesis
      using 3 by (simp add: lpad_def nat_to_string_step [of n] nat_to_string_step [of "n div 10"]
          nat_to_string_step [of "n div 100"] Let_def)
  qed
qed

lemma lpad_4:
  assumes "n < 10000"
  shows "lpad n 4 = [char_of (48 + n div 1000), char_of (48 + n div 100 mod 10),
    char_of (48 + n div 10 mod 10), char_of (48 + n mod 10)]"
proof -
  have zero: "CHR ''0'' = (char_of (48 :: nat) :: char)" by code_simp
  consider "n < 10" | "10 \<le> n" "n < 100" | "100 \<le> n" "n < 1000" | "1000 \<le> n" by linarith
  then show ?thesis
  proof cases
    case 1
    then show ?thesis by (simp add: lpad_def nat_to_string_step [of n] zero Let_def numeral_3_eq_3)
  next
    case 2
    have "n div 10 < 10" using 2 by simp
    then show ?thesis
      using 2 by (simp add: lpad_def nat_to_string_step [of n] nat_to_string_step [of "n div 10"] zero Let_def
          numeral_2_eq_2)
  next
    case 3
    have "10 \<le> n div 10" "n div 100 < 10" "n div 10 div 10 = n div 100" using 3 by auto
    then show ?thesis
      using 3 by (simp add: lpad_def nat_to_string_step [of n] nat_to_string_step [of "n div 10"]
          nat_to_string_step [of "n div 100"] zero Let_def)
  next
    case 4
    have "10 \<le> n div 10" "10 \<le> n div 100" "n div 1000 < 10" "n div 10 div 10 = n div 100"
      "n div 100 div 10 = n div 1000" using 4 assms by auto
    then show ?thesis
      using 4 by (simp add: lpad_def nat_to_string_step [of n] nat_to_string_step [of "n div 10"]
          nat_to_string_step [of "n div 100"] nat_to_string_step [of "n div 1000"] Let_def)
  qed
qed

lemma digit_inj: "a < 10 \<Longrightarrow> b < 10 \<Longrightarrow> (char_of (48 + a) :: char) = char_of (48 + b) \<longleftrightarrow> a = (b :: nat)"
  by (simp add: char_of_eq_iff take_bit_nat_eq_self)

lemma div_digit: "(m :: nat) div 10 = n div 10 \<Longrightarrow> m mod 10 = n mod 10 \<Longrightarrow> m = n"
  by (metis div_mult_mod_eq)

lemma lpad_inj:
  "m < 1000 \<Longrightarrow> n < 1000 \<Longrightarrow> lpad m 3 = lpad n 3 \<Longrightarrow> m = n"
  "m < 10000 \<Longrightarrow> n < 10000 \<Longrightarrow> lpad m 4 = lpad n 4 \<Longrightarrow> m = n"
proof -
  show "m = n" if "m < 1000" "n < 1000" "lpad m 3 = lpad n 3"
  proof -
    have d: "m div 100 = n div 100" "m div 10 mod 10 = n div 10 mod 10" "m mod 10 = n mod 10"
      using that by (auto simp: lpad_3 digit_inj)
    have "m div 10 = n div 10" by (rule div_digit) (use d in \<open>simp_all add: div_mult2_eq [symmetric]\<close>)
    then show ?thesis using d(3) by (rule div_digit)
  qed
  show "m = n" if "m < 10000" "n < 10000" "lpad m 4 = lpad n 4"
  proof -
    have d: "m div 1000 = n div 1000" "m div 100 mod 10 = n div 100 mod 10"
      "m div 10 mod 10 = n div 10 mod 10" "m mod 10 = n mod 10"
      using that by (auto simp: lpad_4 digit_inj)
    have "m div 100 = n div 100" by (rule div_digit) (use d in \<open>simp_all add: div_mult2_eq [symmetric]\<close>)
    then have "m div 10 = n div 10"
      by (intro div_digit [of "m div 10" "n div 10"]) (use d in \<open>simp_all add: div_mult2_eq [symmetric]\<close>)
    then show ?thesis using d(4) by (rule div_digit)
  qed
qed

text \<open>Two rows that satisfy the CHECK constraints have the same key only if they have the same identity.\<close>

lemma identity_key_inj:
  assumes "event_check a" "event_check b"
  shows "identity_key a = identity_key b \<longleftrightarrow> event_identity a = event_identity b"
proof
  assume eq: "identity_key a = identity_key b"
  have lens: "length (er_tenant_id a) < 1000" "length (er_tenant_id b) < 1000"
    "length (er_source a) < 10000" "length (er_source b) < 10000"
    using assms by (auto simp: event_check_def)
  have t: "lpad (length (er_tenant_id a)) 3 = lpad (length (er_tenant_id b)) 3"
    using arg_cong [OF eq, of "take 3"] lens by (simp add: identity_key_def lpad_3)
  have tl: "length (er_tenant_id a) = length (er_tenant_id b)" by (rule lpad_inj(1) [OF lens(1,2) t])
  then have rest: "er_tenant_id a = er_tenant_id b"
    "lpad (length (er_source a)) 4 @ er_source a @ er_event_id a
       = lpad (length (er_source b)) 4 @ er_source b @ er_event_id b"
    using eq t by (simp_all add: identity_key_def)
  have s: "lpad (length (er_source a)) 4 = lpad (length (er_source b)) 4"
    using arg_cong [OF rest(2), of "take 4"] lens by (simp add: lpad_4)
  have "length (er_source a) = length (er_source b)" by (rule lpad_inj(2) [OF lens(3,4) s])
  then show "event_identity a = event_identity b" using rest s by (simp add: event_identity_def)
qed (simp add: identity_key_def event_identity_def)

section \<open>Statements keep a transaction consistent\<close>

lemma my_statement_Inr:
  "my_statement env label n body t = (Inr a, t') \<longleftrightarrow>
     my_fault env label n = None \<and> body (tx_peer (my_peer env n) t) = (Inr a, t')"
  by (simp add: my_statement_def tx_statement_Inr)

lemma my_ask_Inr:
  "my_ask env label n v t = (Inr a, t') \<longleftrightarrow>
     my_fault env label n = None \<and> a = v \<and> t' = tx_peer (my_peer env n) t"
  by (auto simp: my_ask_def my_statement_Inr)

lemma my_read_Inr:
  "my_read env label n f t = (Inr a, t') \<longleftrightarrow>
     my_fault env label n = None \<and> t' = tx_open (tx_peer (my_peer env n) t) \<and> a = f (tx_seen t')"
  by (auto simp: my_read_def my_statement_Inr tx_read_seen_def)

lemma my_read_lock_Inr:
  "my_read_lock env label n f keys t = (Inr a, t') \<longleftrightarrow>
     my_fault env label n = None \<and> a = f (tx_view (tx_peer (my_peer env n) t))
     \<and> t' = tx_lock (keys a) (tx_peer (my_peer env n) t)"
  by (auto simp: my_read_lock_def my_statement_Inr Let_def)

lemma detect_Inr:
  "detect_on_connection env t = (Inr info, t') \<longleftrightarrow>
     my_fault env ''detect MySQL/MariaDB backend'' 1 = None \<and> detect_probe (my_probe env) = Inr info
     \<and> t' = tx_peer (my_peer env 1) t"
  by (auto simp: detect_on_connection_def action_simps my_ask_Inr map_err_Inr_iff)

lemma my_extends_peer: "my_peers_ok env \<Longrightarrow> tx_extends t (tx_peer (my_peer env n) t)"
  by (simp add: my_peers_ok_def tx_extends_peer)

lemma my_ok_peer: "my_peers_ok env \<Longrightarrow> tx_ok t \<Longrightarrow> tx_ok (tx_peer (my_peer env n) t)"
  by (rule tx_extends_ok [OF my_extends_peer])

lemma tx_runs_my_statement: "my_peers_ok env \<Longrightarrow> tx_runs body \<Longrightarrow> tx_runs (my_statement env label n body)"
  unfolding my_statement_def by (simp add: my_peers_ok_def tx_runs_tx_statement)

lemma tx_runs_my_ask: "my_peers_ok env \<Longrightarrow> tx_runs (my_ask env label n v)"
  unfolding my_ask_def by (rule tx_runs_my_statement) simp_all

lemma tx_runs_my_read: "my_peers_ok env \<Longrightarrow> tx_runs (my_read env label n f)"
  unfolding my_read_def by (rule tx_runs_my_statement) (simp_all add: tx_runs_read_seen)

lemma tx_runs_my_read_lock: "my_peers_ok env \<Longrightarrow> tx_runs (my_read_lock env label n f keys)"
  unfolding my_read_lock_def
  by (rule tx_runs_my_statement) (simp_all add: tx_runs_def Let_def tx_extends_lock)

lemma tx_runs_detect: "my_peers_ok env \<Longrightarrow> tx_runs (detect_on_connection env)"
  unfolding detect_on_connection_def by (intro tx_runs_then tx_runs_map_err tx_runs_my_ask tx_runs_return)

lemma my_add_event_cases:
  assumes "tx_ok t" and "my_add_event env row t = (res, t')"
  obtains (failed) e where "res = Inl e" "t' = t" "\<not> is_tenant_source_event_id_duplicate e"
  | (duplicate) "res = Inl (my_duplicate env ''dovecote_events'' TENANT_SOURCE_EVENT_ID_KEY)" "t' = t"
      "event_identity row \<in> event_identity ` set (db_events (tx_view t))"
  | (inserted) "res = Inr ()" "t' = tx_insert_event row t" "tx_ok t'"
      "event_identity row \<notin> event_identity ` set (db_events (tx_view t))" "event_check row"
proof -
  have checked: "event_check e" if "e \<in> set (db_events (tx_view t))" for e
    using assms(1) that by (simp add: tx_ok_def db_ok_def list_all_iff)
  consider "\<not> event_check row"
    | "event_check row" "er_row_id row \<in> er_row_id ` set (db_events (tx_view t))"
    | "event_check row" "er_row_id row \<notin> er_row_id ` set (db_events (tx_view t))"
      "identity_key row \<in> identity_key ` set (db_events (tx_view t))"
    | "event_check row" "er_row_id row \<notin> er_row_id ` set (db_events (tx_view t))"
      "identity_key row \<notin> identity_key ` set (db_events (tx_view t))" by blast
  then show thesis
  proof cases
    case 1
    then show thesis
      using assms(2) failed by (auto simp: my_add_event_def is_tenant_source_event_id_duplicate_def)
  next
    case 2
    then show thesis
      using assms(2) duplicate_key_name_primary
      by (intro failed [of "my_violation env ''dovecote_events'' UniqueViolation"])
        (auto simp: my_add_event_def is_tenant_source_event_id_duplicate_def my_duplicate_def
          TENANT_SOURCE_EVENT_ID_KEY_def)
  next
    case 3
    then have "event_identity row \<in> event_identity ` set (db_events (tx_view t))"
      using identity_key_inj checked by (metis (no_types, lifting) imageE imageI)
    then show thesis using 3 assms(2) duplicate by (simp add: my_add_event_def)
  next
    case 4
    then have fresh: "event_identity row \<notin> event_identity ` set (db_events (tx_view t))"
      by (auto simp: identity_key_def event_identity_def image_iff)
    have "tx_add_event row t = (Inr (Some row), tx_insert_event row t)"
      using 4 fresh by (simp add: tx_add_event_def table_insert_event_def)
    with assms(1) have "tx_ok (tx_insert_event row t)" by (cases rule: tx_add_event_cases) auto
    then show thesis using 4 assms(2) fresh inserted by (simp add: my_add_event_def)
  qed
qed

lemma my_duplicate_recognised:
  "is_tenant_source_event_id_duplicate (my_duplicate env ''dovecote_events'' TENANT_SOURCE_EVENT_ID_KEY)"
  using duplicate_key_name_identity by (simp add: is_tenant_source_event_id_duplicate_def my_duplicate_def)

lemma tx_runs_my_insert_event: "my_peers_ok env \<Longrightarrow> tx_runs (my_insert_event env label n row)"
  unfolding my_insert_event_def
proof (rule tx_runs_my_statement)
  have "tx_extends t t'" if "tx_ok t" "my_add_event env row t = (r, t')" for t t' r
    using that by (cases rule: my_add_event_cases) (auto simp: tx_extends_def view_insert_event)
  then show "tx_runs (my_add_event env row)" by (rule tx_runsI)
qed

lemma tx_runs_my_insert_delivery: "my_peers_ok env \<Longrightarrow> tx_runs (my_insert_delivery env label n row)"
  unfolding my_insert_delivery_def
  by (intro tx_runs_my_statement tx_runs_map_err tx_runs_add_delivery)

lemma tx_runs_my_update:
  assumes "\<forall>d e. f d = Some e \<longrightarrow> dr_event_row_id e = dr_event_row_id d \<and> dr_tenant_id e = dr_tenant_id d"
    and "\<forall>d. p d \<longrightarrow> dr_event_row_id d = n"
  shows "tx_runs (my_update env p f)"
  unfolding my_update_def
  by (intro tx_runs_then tx_runs_map_err tx_runs_update [OF assms] tx_runs_return)

lemma my_update_Inr:
  "my_update env p f t = (Inr k, t') \<longleftrightarrow> (\<exists>rows. tx_update p f t = (Inr rows, t') \<and> k = length rows)"
  by (auto simp: my_update_def action_simps)

lemmas my_runs = tx_runs_then tx_runs_map_err tx_runs_return tx_runs_my_ask tx_runs_my_read
  tx_runs_my_read_lock tx_runs_detect tx_runs_my_insert_event tx_runs_my_insert_delivery tx_runs_if

lemma reads_only_my_statement: "reads_only body \<Longrightarrow> reads_only (my_statement env label n body)"
  unfolding my_statement_def by (rule reads_only_tx_statement)

lemma reads_only_my_ask: "reads_only (my_ask env label n v)"
  unfolding my_ask_def by (rule reads_only_my_statement) simp

lemma reads_only_my_read: "reads_only (my_read env label n f)"
  unfolding my_read_def by (intro reads_only_my_statement reads_only_read_seen)

lemma reads_only_my_read_lock: "reads_only (my_read_lock env label n f keys)"
  unfolding my_read_lock_def
  by (rule reads_only_my_statement) (simp add: reads_only_def Let_def own_writes_def)

lemma reads_only_detect: "reads_only (detect_on_connection env)"
  unfolding detect_on_connection_def by (intro reads_only_then reads_only_map_err reads_only_my_ask reads_only_return)

lemmas my_reads = reads_only_then reads_only_map_err reads_only_return reads_only_my_ask
  reads_only_my_read reads_only_my_read_lock reads_only_detect reads_only_if

section \<open>Hydration of valid texts\<close>

definition row_utf8 :: "'t event_row \<Rightarrow> bool" where
  "row_utf8 r \<longleftrightarrow> list_all utf8_valid [er_stream r, er_event_id r, er_source r, er_event_type r, er_extensions r]
     \<and> list_all (pred_option utf8_valid) [er_subject r, er_datacontenttype r, er_dataschema r, er_partitionkey r]"

lemma strv_valid [simp]: "utf8_valid v \<Longrightarrow> strv v field = Inr v"
  by (simp add: strv_def)

lemma my_hydrate_event_utf8:
  assumes "row_utf8 row" "er_specversion row = SPEC_VERSION"
  shows "my_hydrate_event lib env row = hydrate_event_with (\<lambda>t. Inr (my_decode env t)) lib row"
proof -
  have opt: "set_optional v (\<lambda>v b. and_then (strv v field) (\<lambda>v. f v b)) = set_optional v f"
    if "pred_option utf8_valid v" for v field and f :: "string \<Rightarrow> NewEventBuilder \<Rightarrow> hydrate_error + NewEventBuilder"
    using that by (cases v) (auto simp: set_optional_def fun_eq_iff)
  show ?thesis
    using assms by (simp add: my_hydrate_event_def hydrate_event_with_def row_utf8_def opt)
qed

end
