(* ===== verification/Mysql_Enqueue.thy ===== *)
theory Mysql_Enqueue
  imports Mysql_Base
begin

text \<open>
  \<open>crates/dovecote-sqlx-mysql/src/enqueue.rs\<close>: the insert of an event and its delivery in a
  transaction of the caller. A duplicate is recognised from the error of the insert and then read
  back by a plain read, which sees the snapshot of the caller's transaction.
\<close>

section \<open>Schema of the caller's transaction\<close>

definition my_schema_to_enqueue :: "MySchemaError \<Rightarrow> MyEnqueueError" where
  "my_schema_to_enqueue error =
     (case error of
        MSchBackendMismatch detail \<Rightarrow> MEnqBackendMismatch detail
      | MSchSql operation source \<Rightarrow> my_enqueue_error_sql operation source
      | MSchTransient operation kind source \<Rightarrow> MEnqTransient operation kind source
      | MSchMigrationMismatch detail \<Rightarrow> MEnqMigrationMismatch detail)"

definition my_validate_enqueue_schema :: "Migration list \<Rightarrow> my_env \<Rightarrow> (MyEnqueueError, unit) my_action" where
  "my_validate_enqueue_schema migrations env =
     tx_then (tx_map_err my_schema_to_enqueue (detect_on_connection env)) (\<lambda>info.
     if \<not> enforced_checks (bi_capabilities info)
       then tx_return (Inl (MEnqBackendMismatch ChecksNotEnforced))
     else
     tx_then (tx_map_err (my_enqueue_error_sql ''validate enqueue schema selection'')
       (my_ask env ''validate enqueue schema selection'' 2 (my_selection env))) (\<lambda>(events_table, deliveries_table).
     if events_table = 0 \<or> deliveries_table = 0
       then tx_return (Inl (MEnqMigrationMismatch ''current database does not contain the Dovecote tables''))
     else
     tx_return (map_err MEnqMigrationMismatch (and_then (current_migration migrations) (\<lambda>_. Inr ())))))"

section \<open>Stored events\<close>

text \<open>
  \<open>PrimitiveDateTime\<close> values of UTC compare as instants. A conjunction of comparisons stops at the
  first that fails, and at the first text that is not UTF-8.
\<close>

definition my_instant :: "my_env \<Rightarrow> int \<Rightarrow> int" where
  "my_instant env v = unix_nanos (my_decode env v)"

definition my_text :: "string \<Rightarrow> string \<Rightarrow> MyEnqueueError + string" where
  "my_text value field =
     (if utf8_valid value then Inr value
      else Inl (MEnqSerialization (''stored '' @ field @ '' is not UTF-8'')))"

definition my_optional_text :: "string option \<Rightarrow> string \<Rightarrow> MyEnqueueError + string option" where
  "my_optional_text value field =
     (case value of None \<Rightarrow> Inr None | Some v \<Rightarrow> and_then (my_text v field) (\<lambda>v. Inr (Some v)))"

fun all_equal :: "('e + bool) list \<Rightarrow> 'e + bool" where
  "all_equal [] = Inr True"
| "all_equal (r # rs) = and_then r (\<lambda>b. if b then all_equal rs else Inr False)"

definition my_same_event :: "ext_lib \<Rightarrow> my_env \<Rightarrow> NewEvent \<Rightarrow> int event_row \<Rightarrow> MyEnqueueError + bool" where
  "my_same_event lib env event row =
     (let c = new_content event;
        text_eq = (\<lambda>a value field. and_then (my_text value field) (\<lambda>v. Inr (a = v)));
        optional_eq = (\<lambda>a value field. and_then (my_optional_text value field) (\<lambda>v. Inr (a = v))) in
      all_equal
        [text_eq (stream_str (ec_stream c)) (er_stream row) ''stream'',
         text_eq SPEC_VERSION (er_specversion row) ''specversion'',
         text_eq (event_id_str (ec_id c)) (er_event_id row) ''event id'',
         text_eq (source_str (ec_source c)) (er_source row) ''source'',
         text_eq (event_type_str (ec_event_type c)) (er_event_type row) ''event type'',
         optional_eq (map_option subject_str (ec_subject c)) (er_subject row) ''subject'',
         Inr (map_option (\<lambda>t. unix_nanos (to_offset_utc t)) (ec_time c)
           = map_option (my_instant env) (er_occurred_at row)),
         optional_eq (map_option content_type_str (ec_datacontenttype c)) (er_datacontenttype row) ''content type'',
         optional_eq (map_option schema_uri_str (ec_dataschema c)) (er_dataschema row) ''schema URI'',
         optional_eq (map_option partition_key_str (ec_partitionkey c)) (er_partitionkey row) ''partition key'',
         Inr (canonical_json lib (ec_extensions c) = er_extensions row),
         Inr (map_option (\<lambda>d. if event_data_is_json d then ''json'' else ''binary'') (ec_data c)
           = er_data_kind row),
         Inr (map_option event_data_bytes (ec_data c) = er_data row)])"

definition my_validate_existing_event :: "ext_lib \<Rightarrow> my_env \<Rightarrow> int event_row \<Rightarrow> hydrate_error + unit" where
  "my_validate_existing_event lib env existing =
     and_then (my_hydrate_event lib env existing) (\<lambda>_. Inr ())"

definition my_enqueue_hydrate_error :: "hydrate_error \<Rightarrow> MyEnqueueError" where
  "my_enqueue_hydrate_error e = (case e of HErr d \<Rightarrow> MEnqSerialization d | HPanic \<Rightarrow> MEnqPanic)"

section \<open>The operation\<close>

definition my_find_event :: "TenantId \<Rightarrow> NewEvent \<Rightarrow> my_db \<Rightarrow> int event_row option" where
  "my_find_event tenant event db =
     find_identity db (tenant_id_str tenant) (source_str (ec_source (new_content event)))
       (event_id_str (ec_id (new_content event)))"

definition my_find_delivery :: "TenantId \<Rightarrow> int \<Rightarrow> my_db \<Rightarrow> int delivery_row option" where
  "my_find_delivery tenant rid db =
     find (\<lambda>d. dr_tenant_id d = tenant_id_str tenant \<and> dr_event_row_id d = rid) (db_deliveries db)"

text \<open>The insert, with a duplicate identity as an expected answer.\<close>

definition my_insert_new ::
  "my_env \<Rightarrow> string \<Rightarrow> nat \<Rightarrow> int event_row \<Rightarrow> (my_error, bool) my_action" where
  "my_insert_new env label n row t =
     (case my_insert_event env label n row t of
        (Inr _, t') \<Rightarrow> (Inr True, t')
      | (Inl source, t') \<Rightarrow>
          if is_tenant_source_event_id_duplicate source then (Inr False, t') else (Inl source, t'))"

text \<open>After the insert: the row is read back, compared, and given its delivery if it has none.\<close>

definition my_enqueue_resolve ::
  "ext_lib \<Rightarrow> my_env \<Rightarrow> TenantId \<Rightarrow> NewEvent \<Rightarrow> int \<Rightarrow> bool \<Rightarrow> (MyEnqueueError, EnqueueOutcome) my_action" where
  "my_enqueue_resolve lib env tenant event operation_time inserted =
     tx_then (tx_map_err (my_enqueue_error_sql ''find inserted event'')
       (my_read env ''find inserted event'' 5 (my_find_event tenant event))) (\<lambda>found.
     tx_then (tx_return (ok_or (my_enqueue_error_sql ''resolve inserted event''
         (MyProtocol ''identity insert returned no row'')) found)) (\<lambda>existing.
     tx_then (tx_return (map_err (\<lambda>e. MEnqSerialization (verror_to_string e))
         (row_id_new (er_row_id existing)))) (\<lambda>existing_id.
     tx_then (tx_return (map_err my_enqueue_hydrate_error
         (my_validate_existing_event lib env existing))) (\<lambda>_.
     tx_then (tx_return (my_same_event lib env event existing)) (\<lambda>same.
     if \<not> same then tx_return (Inl (MEnqIdempotencyConflict existing_id))
     else
     tx_then (tx_map_err (my_enqueue_error_sql ''check duplicate delivery'')
       (my_read env ''check duplicate delivery'' 6 (my_find_delivery tenant (er_row_id existing))))
       (\<lambda>delivery_exists.
     if delivery_exists \<noteq> None then tx_return (Inr (AlreadyEnqueued existing_id))
     else if \<not> inserted then tx_return (Inl (MEnqMigrationMismatch ''an existing event has no delivery row''))
     else
     tx_then (tx_map_err (my_enqueue_error_sql ''insert delivery'')
       (my_insert_delivery env ''insert delivery'' 7
         (enqueued_delivery (tenant_id_str tenant) (er_row_id existing) operation_time))) (\<lambda>_.
     tx_return (Inr (Enqueued existing_id)))))))))"

definition my_enqueue_for_scope ::
  "ext_lib \<Rightarrow> Migration list \<Rightarrow> my_env \<Rightarrow> TenantId \<Rightarrow> NewEvent \<Rightarrow> (MyEnqueueError, EnqueueOutcome) my_action" where
  "my_enqueue_for_scope lib migrations env tenant event =
     tx_then (my_validate_enqueue_schema migrations env) (\<lambda>_.
     tx_then (tx_map_err (my_enqueue_error_sql ''read enqueue operation time'')
       (my_database_time env ''read enqueue operation time'' 3)) (\<lambda>time.
     let operation_time = my_encode env time in
     tx_then (tx_map_err (my_enqueue_error_sql ''insert event'')
       (my_insert_new env ''insert event'' 4
         (my_event_columns lib env tenant event operation_time))) (\<lambda>inserted.
     my_enqueue_resolve lib env tenant event operation_time inserted)))"

section \<open>What an enqueue does\<close>

lemma reads_only_my_validate: "reads_only (my_validate_enqueue_schema migrations env)"
  unfolding my_validate_enqueue_schema_def by (auto intro!: my_reads split: prod.split)

lemma tx_runs_my_validate: "my_peers_ok env \<Longrightarrow> tx_runs (my_validate_enqueue_schema migrations env)"
  unfolding my_validate_enqueue_schema_def by (auto intro!: my_runs split: prod.split)

lemma tx_runs_insert_new:
  assumes "my_peers_ok env"
  shows "tx_runs (my_insert_new env label n row)"
proof -
  have "snd (my_insert_new env label n row t) = snd (my_insert_event env label n row t)" for t
    by (simp add: my_insert_new_def split: prod.split sum.split)
  then show ?thesis using tx_runs_my_insert_event [OF assms] by (simp add: tx_runs_def)
qed

lemma tx_runs_resolve: "my_peers_ok env \<Longrightarrow> tx_runs (my_enqueue_resolve lib env tenant event now inserted)"
  unfolding my_enqueue_resolve_def by (intro my_runs)

lemma tx_runs_my_enqueue: "my_peers_ok env \<Longrightarrow> tx_runs (my_enqueue_for_scope lib migrations env tenant event)"
  unfolding my_enqueue_for_scope_def my_database_time_def Let_def
  by (intro tx_runs_then tx_runs_map_err tx_runs_my_ask tx_runs_my_validate tx_runs_insert_new tx_runs_resolve)

lemma my_event_columns_sel [simp]:
  "er_row_id (my_event_columns lib env t ev q) = my_row_id env"
  "er_tenant_id (my_event_columns lib env t ev q) = tenant_id_str t"
  "er_enqueued_at (my_event_columns lib env t ev q) = q"
  "event_identity (my_event_columns lib env t ev q) = (tenant_id_str t,
     source_str (ec_source (new_content ev)), event_id_str (ec_id (new_content ev)))"
  by (simp_all add: my_event_columns_def)

lemma my_insert_new_cases:
  assumes "my_peers_ok env" "tx_ok t" and "my_insert_new env label n row t = (Inr inserted, t')"
  obtains (duplicate) "\<not> inserted" "t' = tx_peer (my_peer env n) t"
  | (inserted) "inserted" "t' = tx_insert_event row (tx_peer (my_peer env n) t)" "event_check row"
      "event_identity row \<notin> event_identity ` set (db_events (tx_view (tx_peer (my_peer env n) t)))"
      "er_row_id row \<notin> er_row_id ` set (db_events (tx_view (tx_peer (my_peer env n) t)))"
proof (cases "my_fault env label n")
  case None
  let ?t = "tx_peer (my_peer env n) t"
  obtain r u where add: "my_add_event env row ?t = (r, u)" by fastforce
  then have run: "(Inr inserted, t') = (case r of Inr _ \<Rightarrow> (Inr True, u)
      | Inl e \<Rightarrow> if is_tenant_source_event_id_duplicate e then (Inr False, u) else (Inl e, u))"
    using assms(3) None
    by (simp add: my_insert_new_def my_insert_event_def my_statement_def tx_statement_def split: sum.splits)
  have rid: "er_row_id row \<notin> er_row_id ` set (db_events (tx_view ?t))" if "r = Inr ()"
    using add that by (auto simp: my_add_event_def split: if_splits)
  from my_ok_peer [OF assms(1,2)] add show thesis
  proof (cases rule: my_add_event_cases)
    case (failed e)
    then show thesis using run duplicate by simp
  next
    case duplicate': duplicate
    then show thesis using run duplicate my_duplicate_recognised by simp
  next
    case inserted': inserted
    then show thesis using run inserted rid by simp
  qed
next
  case (Some e)
  then show thesis
    using assms(3) duplicate
    by (auto simp: my_insert_new_def my_insert_event_def my_statement_def tx_statement_def split: if_splits)
qed

lemma all_equal_True: "all_equal rs = Inr True \<longleftrightarrow> (\<forall>r \<in> set rs. r = Inr True)"
  by (induction rs) (auto simp: and_then_Inr_iff split: if_splits)

text \<open>
  What is documented of SQLx's conversion: a DATETIME(6) is a count of microseconds, decoded in
  UTC in the order of the counts, and an instant of microsecond precision survives.
\<close>

definition my_codec :: "my_env \<Rightarrow> bool" where
  "my_codec env \<longleftrightarrow> strict_mono (my_instant env)
     \<and> (\<forall>t. instant_ok t \<longrightarrow> my_instant env (my_encode env t) = unix_nanos t)
     \<and> (\<forall>v. utc_offset (my_decode env v) = 0)"

lemma my_codec_eq:
  assumes "my_codec env" "instant_ok t"
  shows "unix_nanos t = my_instant env v \<longleftrightarrow> v = my_encode env t"
  using assms unfolding my_codec_def by (metis strict_mono_eq)

lemma my_codec_le: "my_codec env \<Longrightarrow> my_instant env a \<le> my_instant env b \<longleftrightarrow> a \<le> b"
  by (simp add: my_codec_def strict_mono_less_eq)

lemma my_same_event_True:
  assumes "my_same_event lib env event r = Inr True" and "my_codec env"
    and time: "\<And>t. ec_time (new_content event) = Some t \<Longrightarrow> instant_ok t"
  shows "r = event_columns_with (\<lambda>t. my_encode env (to_offset_utc t)) lib (er_tenant_id r) (new_content event)
    (er_row_id r) (er_enqueued_at r)"
proof -
  have utc: "instant_ok (to_offset_utc t)" if "ec_time (new_content event) = Some t" for t
    using time [OF that] by (simp add: instant_ok_def)
  have "map_option (\<lambda>t. unix_nanos (to_offset_utc t)) (ec_time (new_content event)) = map_option (my_instant env) v
      \<Longrightarrow> map_option (\<lambda>t. my_encode env (to_offset_utc t)) (ec_time (new_content event)) = v" for v
    using my_codec_eq [OF assms(2) utc] by (cases "ec_time (new_content event)"; cases v) auto
  moreover have "my_text v f = Inr x \<longleftrightarrow> utf8_valid v \<and> x = v"
    "my_optional_text w f = Inr y \<longleftrightarrow> pred_option utf8_valid w \<and> y = w" for v w f x y
    by (auto simp: my_text_def my_optional_text_def and_then_Inr_iff split: if_splits option.splits)
  ultimately show ?thesis
    using assms(1) [unfolded my_same_event_def Let_def all_equal_True]
    unfolding same_event_with_iff [symmetric] same_event_with_def Let_def
    by (simp add: and_then_Inr_iff)
qed

lemma my_enqueue_Inr:
  assumes "my_enqueue_for_scope lib migrations env tenant event t = (Inr out, t')"
  obtains t1 t2 inserted where "my_validate_enqueue_schema migrations env t = (Inr (), t1)"
    "my_insert_new env ''insert event'' 4 (my_event_columns lib env tenant event
       (my_encode env (my_decode env (my_clock env 3)))) (tx_peer (my_peer env 3) t1) = (Inr inserted, t2)"
    "my_enqueue_resolve lib env tenant event (my_encode env (my_decode env (my_clock env 3))) inserted t2
       = (Inr out, t')"
  using assms unfolding my_enqueue_for_scope_def my_database_time_def Let_def tx_then_Inr_iff
    tx_map_err_Inr_iff my_ask_Inr by auto

text \<open>The plain reads of an enqueue see the same snapshot.\<close>

lemma my_resolve_Inr:
  assumes "my_enqueue_resolve lib env tenant event now inserted t = (Inr out, t')"
  obtains r t1 t2 where "t1 = tx_open (tx_peer (my_peer env 5) t)" "t2 = tx_peer (my_peer env 6) t1"
    "my_find_event tenant event (tx_seen t1) = Some r" "my_same_event lib env event r = Inr True"
    "my_hydrate_event lib env r \<noteq> Inl HPanic" "0 < er_row_id r"
    "(out = AlreadyEnqueued (RowId (er_row_id r)) \<and> t' = t2 \<and> my_find_delivery tenant (er_row_id r) (tx_seen t2) \<noteq> None)
     \<or> (out = Enqueued (RowId (er_row_id r)) \<and> inserted
        \<and> my_insert_delivery env ''insert delivery'' 7
            (enqueued_delivery (tenant_id_str tenant) (er_row_id r) now) t2 = (Inr (), t'))"
proof -
  let ?t1 = "tx_open (tx_peer (my_peer env 5) t)"
  let ?t2 = "tx_peer (my_peer env 6) ?t1"
  have open2: "tx_open ?t2 = ?t2" by (cases "tx_snapshot ?t1") auto
  from assms obtain r where r: "my_find_event tenant event (tx_seen ?t1) = Some r" "0 < er_row_id r"
      "my_hydrate_event lib env r \<noteq> Inl HPanic"
    and same: "my_same_event lib env event r = Inr True"
    and last: "(if my_find_delivery tenant (er_row_id r) (tx_seen ?t2) \<noteq> None
        then tx_return (Inr (AlreadyEnqueued (RowId (er_row_id r))))
      else if \<not> inserted then tx_return (Inl (MEnqMigrationMismatch ''an existing event has no delivery row''))
      else tx_then (tx_map_err (my_enqueue_error_sql ''insert delivery'')
        (my_insert_delivery env ''insert delivery'' 7
          (enqueued_delivery (tenant_id_str tenant) (er_row_id r) now))) (\<lambda>_.
        tx_return (Inr (Enqueued (RowId (er_row_id r)))))) ?t2 = (Inr out, t')"
    unfolding my_enqueue_resolve_def tx_then_return tx_then_Inr_iff tx_map_err_Inr_iff my_read_Inr
    by (auto simp: ok_or_Inr_iff map_err_Inr_iff row_id_new_Inr_iff my_validate_existing_event_def
        and_then_Inr_iff tx_then_Inr_iff tx_map_err_Inr_iff my_read_Inr open2 split: if_splits)
  show thesis
    by (rule that [OF refl refl r(1) same r(3,2)])
      (use last in \<open>auto simp: tx_then_Inr_iff tx_map_err_Inr_iff split: if_splits\<close>)
qed

lemma tx_add_delivery_Inr:
  assumes "tx_ok t" "tx_add_delivery row t = (Inr (), t')"
  shows "t' = tx_put row t" and "tx_deliveries t' = tx_deliveries t @ [row]" and "delivery_check row"
    and "find_delivery (tx_view t) (dr_event_row_id row) = None"
proof -
  from assms have *: "t' = tx_put row t \<and> delivery_check row
      \<and> find_delivery (tx_view t) (dr_event_row_id row) = None"
    by (cases rule: tx_add_delivery_cases) auto
  then show "t' = tx_put row t" "delivery_check row"
    and none: "find_delivery (tx_view t) (dr_event_row_id row) = None" by auto
  have "row_in (tx_deliveries t) (dr_event_row_id row) = None"
    using none by (simp add: find_view split: option.splits)
  then show "tx_deliveries t' = tx_deliveries t @ [row]" using * by (simp add: tx_put_def tx_lock_def)
qed

lemma my_insert_delivery_Inr:
  assumes "my_peers_ok env" "tx_ok t" and "my_insert_delivery env label n row t = (Inr (), t')"
  shows "tx_events t' = tx_events t" and "tx_deliveries t' = tx_deliveries t @ [row]"
    and "find_delivery (tx_db t') (dr_event_row_id row) = None" and "delivery_check row"
proof -
  let ?t = "tx_peer (my_peer env n) t"
  have add: "tx_add_delivery row ?t = (Inr (), t')"
    using assms(3) by (simp add: my_insert_delivery_def my_statement_Inr tx_map_err_Inr_iff)
  note put = tx_add_delivery_Inr [OF my_ok_peer [OF assms(1,2)] add]
  show "tx_events t' = tx_events t" "tx_deliveries t' = tx_deliveries t @ [row]" "delivery_check row"
    using put by simp_all
  show "find_delivery (tx_db t') (dr_event_row_id row) = None"
    using put(1,4) by (simp add: find_view split: option.splits)
qed

text \<open>A plain read finds no delivery under the identifier of a row that is being inserted.\<close>

lemma delivery_event_id:
  "db_ok db \<Longrightarrow> d \<in> set (db_deliveries db) \<Longrightarrow> dr_event_row_id d \<in> er_row_id ` set (db_events db)"
  by (auto simp: db_ok_def list_all_iff image_iff) metis

lemma seen_deliveries:
  assumes "tx_ok t" "tx_snapshot t = Some s" "d \<in> set (db_deliveries (tx_seen t))"
  shows "d \<in> set (tx_deliveries t) \<or> d \<in> set (db_deliveries s)"
  using assms view_deliveries [of "t\<lparr>tx_db := s\<rparr>"] by (auto simp: tx_seen_def tx_ok_def)

lemma seen_no_delivery:
  assumes "tx_ok t" "tx_snapshot t = Some c" "row \<in> set (tx_events t)"
    and s: "tx_ok s" "tx_deliveries t = tx_deliveries s" "er_row_id row \<notin> er_row_id ` set (db_events (tx_view s))"
  shows "d \<in> set (db_deliveries (tx_seen t)) \<Longrightarrow> dr_event_row_id d \<noteq> er_row_id row"
proof -
  have "distinct (map er_row_id (db_events (tx_db t) @ tx_events t))"
    using assms(1) by (simp add: tx_ok_def db_ok_def view_events)
  then have com: "er_row_id row \<notin> er_row_id ` set (db_events (tx_db t))" using assms(3) by auto
  have c: "db_ok c" "set (db_events c) \<subseteq> set (db_events (tx_db t))"
    using assms(1,2) by (simp_all add: tx_ok_def snapshot_ok_def)
  have own: "set (tx_deliveries s) \<subseteq> set (db_deliveries (tx_view s))" "db_ok (tx_view s)"
    using view_deliveries [of s] s(1) by (auto simp: tx_ok_def)
  assume "d \<in> set (db_deliveries (tx_seen t))"
  then consider "d \<in> set (tx_deliveries s)" | "d \<in> set (db_deliveries c)"
    using seen_deliveries [OF assms(1,2)] s(2) by auto
  then show ?thesis
  proof cases
    case 1
    then show ?thesis using delivery_event_id [OF own(2)] own(1) s(3) by (metis subsetD)
  next
    case 2
    then show ?thesis using delivery_event_id [OF c(1)] c(2) com by (metis (no_types, lifting) image_mono subsetD)
  qed
qed

lemma my_find_event_seen:
  assumes "tx_ok t" "my_find_event tenant event (tx_seen t) = Some r"
  shows "r \<in> set (db_events (tx_view t))" "r \<in> set (db_events (tx_seen t))"
    and "event_identity r = (tenant_id_str tenant, source_str (ec_source (new_content event)),
      event_id_str (ec_id (new_content event)))"
proof -
  show "r \<in> set (db_events (tx_seen t))"
    using assms(2) unfolding my_find_event_def find_identity_def by (auto dest: find_Some_in)
  then show "r \<in> set (db_events (tx_view t))" using seen_events_view [OF assms(1)] by blast
  show "event_identity r = (tenant_id_str tenant, source_str (ec_source (new_content event)),
      event_id_str (ec_id (new_content event)))"
    using assms(2) unfolding my_find_event_def find_identity_def event_identity_def by (auto dest: find_Some_in)
qed

lemma my_find_delivery_in:
  "my_find_delivery tenant rid db = Some d \<Longrightarrow>
     d \<in> set (db_deliveries db) \<and> dr_event_row_id d = rid \<and> dr_tenant_id d = tenant_id_str tenant"
  unfolding my_find_delivery_def by (auto dest: find_Some_in)

text \<open>An enqueue that inserts its event reads that event back, and it has no delivery yet.\<close>

lemma my_resolve_inserted:
  assumes "my_peers_ok env" "tx_ok t" and t: "t = tx_insert_event row s" "tx_ok s"
    and fresh: "er_row_id row \<notin> er_row_id ` set (db_events (tx_view s))"
    and row: "row = my_event_columns lib env tenant event now"
    and run: "my_enqueue_resolve lib env tenant event now True t = (Inr out, t')"
  shows "out = Enqueued (RowId (er_row_id row))" and "tx_events t' = tx_events t"
    and "tx_deliveries t' = tx_deliveries t @ [enqueued_delivery (tenant_id_str tenant) (er_row_id row) now]"
    and "find_delivery (tx_db t') (er_row_id row) = None"
proof -
  from run obtain r t1 t2 where t1: "t1 = tx_open (tx_peer (my_peer env 5) t)" "t2 = tx_peer (my_peer env 6) t1"
    and r: "my_find_event tenant event (tx_seen t1) = Some r"
    and out: "(out = AlreadyEnqueued (RowId (er_row_id r)) \<and> t' = t2
        \<and> my_find_delivery tenant (er_row_id r) (tx_seen t2) \<noteq> None)
     \<or> (out = Enqueued (RowId (er_row_id r)) \<and> True
        \<and> my_insert_delivery env ''insert delivery'' 7
            (enqueued_delivery (tenant_id_str tenant) (er_row_id r) now) t2 = (Inr (), t'))"
    by (rule my_resolve_Inr)
  have ext: "tx_extends t t1" "tx_extends t1 t2"
    unfolding t1 using my_extends_peer [OF assms(1)] tx_extends_open tx_extends_trans by blast+
  have ok: "tx_ok t1" "tx_ok t2" using tx_extends_ok ext assms(2) by blast+
  note seen = my_find_event_seen [OF ok(1) r]
  have "row \<in> set (db_events (tx_view t))" by (simp add: t(1) view_insert_event)
  then have "row \<in> set (db_events (tx_view t1))" using ext(1) by (auto simp: tx_extends_def)
  moreover have "event_identity r = event_identity row" using seen(3) row by simp
  moreover have "distinct (map event_identity (db_events (tx_view t1)))" using ok(1) by (simp add: tx_ok_def db_ok_def)
  ultimately have eq: "r = row" using seen(1) by (metis distinct_map inj_onD)
  have own: "own_writes t2 = own_writes t" by (simp add: t1 own_writes_def)
  have "my_find_delivery tenant (er_row_id row) (tx_seen t2) = None"
  proof (rule ccontr)
    assume "my_find_delivery tenant (er_row_id row) (tx_seen t2) \<noteq> None"
    then obtain d where d: "d \<in> set (db_deliveries (tx_seen t2))" "dr_event_row_id d = er_row_id row"
      using my_find_delivery_in by blast
    obtain c where c: "tx_snapshot t2 = Some c" using t1 by (cases "tx_snapshot t1") auto
    have "row \<in> set (tx_events t2)" "tx_deliveries t2 = tx_deliveries s" by (simp_all add: t1 t(1))
    then show False using seen_no_delivery [OF ok(2) c _ t(2) _ fresh d(1)] d(2) by blast
  qed
  then have ins: "out = Enqueued (RowId (er_row_id row))"
    "my_insert_delivery env ''insert delivery'' 7
       (enqueued_delivery (tenant_id_str tenant) (er_row_id row) now) t2 = (Inr (), t')"
    using out by (auto simp: eq)
  note del = my_insert_delivery_Inr [OF assms(1) ok(2) ins(2)]
  show "out = Enqueued (RowId (er_row_id row))" by (rule ins(1))
  show "tx_events t' = tx_events t"
    "tx_deliveries t' = tx_deliveries t @ [enqueued_delivery (tenant_id_str tenant) (er_row_id row) now]"
    using del(1,2) own by (simp_all add: own_writes_def)
  show "find_delivery (tx_db t') (er_row_id row) = None" using del(3) by (simp add: enqueued_delivery_def)
qed

text \<open>The instant an enqueue binds: the clock of the database, read and bound again.\<close>

abbreviation my_enqueue_time :: "my_env \<Rightarrow> int" where
  "my_enqueue_time env \<equiv> my_encode env (my_decode env (my_clock env 3))"

lemma my_enqueue_outcome:
  assumes "my_peers_ok env" "tx_ok t"
    and run: "my_enqueue_for_scope lib migrations env tenant event t = (Inr out, t')"
  obtains (enqueued) "out = Enqueued (RowId (my_row_id env))"
      "tx_events t' = tx_events t @ [my_event_columns lib env tenant event (my_enqueue_time env)]"
      "tx_deliveries t' = tx_deliveries t
         @ [enqueued_delivery (tenant_id_str tenant) (my_row_id env) (my_enqueue_time env)]"
      "find_delivery (tx_db t') (my_row_id env) = None"
      "\<forall>r \<in> set (db_events (tx_view t)). event_identity r \<noteq> (tenant_id_str tenant,
         source_str (ec_source (new_content event)), event_id_str (ec_id (new_content event)))"
  | (already) r d where "out = AlreadyEnqueued (RowId (er_row_id r))" "own_writes t' = own_writes t"
      "r \<in> set (db_events (tx_seen t'))" "er_tenant_id r = tenant_id_str tenant"
      "my_same_event lib env event r = Inr True" "d \<in> set (db_deliveries (tx_seen t'))"
      "dr_event_row_id d = er_row_id r" "dr_tenant_id d = tenant_id_str tenant"
proof -
  let ?row = "my_event_columns lib env tenant event (my_enqueue_time env)"
  from run obtain t1 t2 inserted where v: "my_validate_enqueue_schema migrations env t = (Inr (), t1)"
    and i: "my_insert_new env ''insert event'' 4 ?row (tx_peer (my_peer env 3) t1) = (Inr inserted, t2)"
    and res: "my_enqueue_resolve lib env tenant event (my_enqueue_time env) inserted t2 = (Inr out, t')"
    by (rule my_enqueue_Inr)
  let ?s = "tx_peer (my_peer env 4) (tx_peer (my_peer env 3) t1)"
  have ext1: "tx_extends t t1" by (rule tx_runsD [OF tx_runs_my_validate [OF assms(1)] assms(2) v])
  have own1: "own_writes t1 = own_writes t" by (rule reads_onlyD [OF reads_only_my_validate v])
  have ok3: "tx_ok (tx_peer (my_peer env 3) t1)" by (rule my_ok_peer [OF assms(1) tx_extends_ok [OF ext1 assms(2)]])
  have exts: "tx_extends t ?s"
    using ext1 my_extends_peer [OF assms(1)] tx_extends_trans by blast
  from assms(1) ok3 i show thesis
  proof (cases rule: my_insert_new_cases)
    case inserted': inserted
    have oks: "tx_ok ?s" by (rule my_ok_peer [OF assms(1) ok3])
    have ok2: "tx_ok t2" by (rule tx_extends_ok [OF tx_runsD [OF tx_runs_insert_new [OF assms(1)] ok3 i] ok3])
    have res': "my_enqueue_resolve lib env tenant event (my_enqueue_time env) True t2 = (Inr out, t')"
      using res inserted'(1) by simp
    note r = my_resolve_inserted [OF assms(1) ok2 inserted'(2) oks inserted'(5) refl res']
    have "event_identity r \<noteq> event_identity ?row" if "r \<in> set (db_events (tx_view t))" for r
      using inserted'(4) exts that by (metis (no_types, lifting) imageI subsetD tx_extends_def)
    then show thesis
      using r own1 enqueued by (simp add: inserted'(2) own_writes_def)
  next
    case duplicate
    from res obtain r u where u: "u = tx_open (tx_peer (my_peer env 5) t2)" "t' = tx_peer (my_peer env 6) u"
      and r: "my_find_event tenant event (tx_seen u) = Some r" "my_same_event lib env event r = Inr True"
        "out = AlreadyEnqueued (RowId (er_row_id r))" "my_find_delivery tenant (er_row_id r) (tx_seen t') \<noteq> None"
      by (rule my_resolve_Inr) (use duplicate in auto)
    have ok2: "tx_ok t2" using duplicate(2) my_ok_peer [OF assms(1) ok3] by simp
    have oku: "tx_ok u" unfolding u by (rule tx_extends_ok [OF tx_extends_open my_ok_peer [OF assms(1) ok2]])
    obtain c where c: "tx_snapshot u = Some c" using u(1) by (cases "tx_snapshot u") auto
    have "r \<in> set (db_events (tx_seen t'))"
      using my_find_event_seen(2) [OF oku r(1)] c by (simp add: seen_events u(2))
    moreover have "er_tenant_id r = tenant_id_str tenant"
      using my_find_event_seen(3) [OF oku r(1)] by (simp add: event_identity_def)
    moreover have "own_writes t' = own_writes t" using own1 duplicate(2) by (simp add: u own_writes_def)
    ultimately show thesis using already r(2-4) my_find_delivery_in by blast
  qed
qed

section \<open>Enqueueing an event that is stored already\<close>

text \<open>
  The columns of an event whose texts are UTF-8, which Rust's strings are: they are read back as
  that event and compare equal to it.
\<close>

abbreviation my_columns ::
  "ext_lib \<Rightarrow> my_env \<Rightarrow> string \<Rightarrow> EventContent \<Rightarrow> int \<Rightarrow> int \<Rightarrow> int event_row" where
  "my_columns lib env \<equiv> event_columns_with (\<lambda>t. my_encode env (to_offset_utc t)) lib"

lemma my_hydrate_columns:
  assumes "my_codec env" "event_content_wf lib c" "validate_content lib c limit = Inr ()"
    and "extension_codecs lib (ec_extensions c)" "row_utf8 (my_columns lib env tenant c rid q)"
  shows "my_hydrate_event lib env (my_columns lib env tenant c rid q) = Inr (StoredEvent c)"
proof -
  have "(Inr (my_decode env (my_encode env (to_offset_utc t))) :: hydrate_error + offset_date_time) = Inr t"
    if t: "ec_time c = Some t" for t
  proof -
    have "instant_ok t" using assms(3) t by (simp add: validate_content_Inr_iff)
    then have "instant_ok (to_offset_utc t)" by (simp add: instant_ok_def)
    then have "unix_nanos (my_decode env (my_encode env (to_offset_utc t))) = unix_nanos t"
      "utc_offset (my_decode env (my_encode env (to_offset_utc t))) = 0"
      using assms(1) by (simp_all add: my_codec_def my_instant_def)
    moreover have "utc_offset t = 0" using assms(2) t by (simp add: event_content_wf_def)
    ultimately show ?thesis by simp
  qed
  from hydrate_event_columns_with [where dec = "\<lambda>t. Inr (my_decode env t)"
      and enc = "\<lambda>t. my_encode env (to_offset_utc t)", OF assms(2-4) this] show ?thesis
    using my_hydrate_event_utf8 [OF assms(5)] by (simp add: event_columns_with_def)
qed

lemma my_same_event_columns:
  assumes "my_codec env" "validate_content lib (new_content event) limit = Inr ()"
    and "row_utf8 (my_columns lib env tenant (new_content event) rid q)"
  shows "my_same_event lib env event (my_columns lib env tenant (new_content event) rid q) = Inr True"
proof -
  let ?c = "new_content event"
  have time: "map_option (\<lambda>t. unix_nanos (to_offset_utc t)) (ec_time ?c)
      = map_option (my_instant env) (map_option (\<lambda>t. my_encode env (to_offset_utc t)) (ec_time ?c))"
  proof (cases "ec_time ?c")
    case (Some t)
    have "instant_ok t" using assms(2) Some by (simp add: validate_content_Inr_iff)
    then have "instant_ok (to_offset_utc t)" by (simp add: instant_ok_def)
    then show ?thesis using Some assms(1) by (simp add: my_codec_def)
  qed simp
  have req: "and_then (my_text v f) (\<lambda>v'. Inr (v = v')) = Inr True" if "utf8_valid v" for v f
    using that by (simp add: my_text_def)
  have opt: "and_then (my_optional_text v f) (\<lambda>v'. Inr (v = v')) = Inr True" if "pred_option utf8_valid v" for v f
    using that by (cases v) (simp_all add: my_optional_text_def my_text_def)
  have spec: "utf8_valid SPEC_VERSION" by code_simp
  show ?thesis
    unfolding my_same_event_def Let_def all_equal_True
    using assms(3) time req opt spec
    by (simp add: event_columns_with_def row_utf8_def del: map_option_eq_Some option.map_comp)
qed

text \<open>Nothing fails and nobody else commits meanwhile.\<close>

definition my_quiet :: "my_env \<Rightarrow> bool" where
  "my_quiet env \<longleftrightarrow> (\<forall>label n. my_fault env label n = None) \<and> (\<forall>n t. my_peer env n t = tx_db t)"

lemma my_quiet_peer: "my_quiet env \<Longrightarrow> tx_peer (my_peer env n) t = t"
  by (simp add: my_quiet_def tx_peer_def)

lemma my_quiet_simps:
  assumes "my_quiet env"
  shows "my_ask env label n v t = (Inr v, t)"
    and "my_read env label n f t = (Inr (f (tx_seen (tx_open t))), tx_open t)"
    and "my_insert_event env label n row t = my_add_event env row t"
    and "my_statement env label n body t = body t"
    and "my_read_lock env label n f keys t = (Inr (f (tx_view t)), tx_lock (keys (f (tx_view t))) t)"
proof -
  have "my_fault env l m = None" for l m using assms by (simp add: my_quiet_def)
  note quiet = my_quiet_peer [OF assms] this
  show "my_ask env label n v t = (Inr v, t)"
    and "my_read env label n f t = (Inr (f (tx_seen (tx_open t))), tx_open t)"
    and "my_insert_event env label n row t = my_add_event env row t"
    and "my_statement env label n body t = body t"
    and "my_read_lock env label n f keys t = (Inr (f (tx_view t)), tx_lock (keys (f (tx_view t))) t)"
    by (simp_all add: my_ask_def my_read_def my_read_lock_def my_insert_event_def my_statement_def tx_statement_def
        tx_read_seen_def tx_return_def Let_def quiet)
qed

lemma my_quiet_peers_ok: "my_quiet env \<Longrightarrow> my_peers_ok env"
  by (simp add: my_quiet_def my_peers_ok_def peers_ok_def)

lemma tx_open_idem [simp]: "tx_open (tx_open t) = tx_open t"
  by (cases "tx_snapshot (tx_open t)") auto

lemma my_validate_state:
  assumes "my_quiet env"
  shows "snd (my_validate_enqueue_schema migrations env t) = t"
  by (simp add: my_validate_enqueue_schema_def detect_on_connection_def tx_then_def tx_map_err_def tx_return_def
      my_quiet_simps [OF assms] split: sum.split prod.split)

lemma my_insert_new_stored:
  assumes "my_quiet env" "event_check row" "er_row_id row \<notin> er_row_id ` set (db_events (tx_view t))"
    and "r \<in> set (db_events (tx_view t))" "event_identity r = event_identity row"
  shows "my_insert_new env label n row t = (Inr False, t)"
proof -
  have "identity_key row \<in> identity_key ` set (db_events (tx_view t))"
    using assms(4,5) by (intro image_eqI [where x = r]) (simp_all add: identity_key_def event_identity_def)
  then show ?thesis
    using assms(2,3) my_duplicate_recognised
    by (simp add: my_insert_new_def my_quiet_simps [OF assms(1)] my_add_event_def)
qed

text \<open>
  The committed event \<open>r\<close> has the content of the one at hand. A plain read finds it exactly when
  the snapshot of the transaction has it.
\<close>

lemma my_find_event_iff:
  assumes "tx_ok t" "r \<in> set (db_events (tx_view t))"
    and "event_identity r = (tenant_id_str tenant, source_str (ec_source (new_content event)),
      event_id_str (ec_id (new_content event)))"
  shows "my_find_event tenant event (tx_seen t) = (if r \<in> set (db_events (tx_seen t)) then Some r else None)"
proof -
  have sub: "set (db_events (tx_seen t)) \<subseteq> set (db_events (tx_view t))" by (rule seen_events_view [OF assms(1)])
  have dist: "distinct (map event_identity (db_events (tx_view t)))" using assms(1) by (simp add: tx_ok_def db_ok_def)
  have only: "x = r" if "my_find_event tenant event (tx_seen t) = Some x" for x
    using my_find_event_seen [OF assms(1) that] assms(2,3) dist by (metis distinct_map inj_onD)
  show ?thesis
  proof (cases "my_find_event tenant event (tx_seen t)")
    case None
    then have "r \<notin> set (db_events (tx_seen t))"
      using assms(3) by (auto simp: my_find_event_def find_identity_def find_None_set event_identity_def)
    then show ?thesis using None by simp
  next
    case (Some x)
    then show ?thesis using only [OF Some] my_find_event_seen(2) [OF assms(1) Some] by simp
  qed
qed

lemma my_enqueue_stored:
  assumes quiet: "my_quiet env" and "tx_ok t"
    and valid: "fst (my_validate_enqueue_schema migrations env t) = Inr ()" and codec: "my_codec env"
    and r: "r \<in> set (db_events (tx_view t))"
      "r = my_columns lib env (tenant_id_str tenant) (new_content event) (er_row_id r) (er_enqueued_at r)"
    and event: "event_content_wf lib (new_content event)" "validate_content lib (new_content event) limit = Inr ()"
      "extension_codecs lib (ec_extensions (new_content event))" "row_utf8 r"
    and fresh: "0 < my_row_id env" "my_row_id env \<notin> er_row_id ` set (db_events (tx_view t))"
    and paired: "db_paired (tx_seen (tx_open t))"
  shows "my_enqueue_for_scope lib migrations env tenant event t =
    (if r \<in> set (db_events (tx_seen (tx_open t))) then Inr (AlreadyEnqueued (RowId (er_row_id r)))
     else Inl (MEnqSql ''resolve inserted event'' (MyProtocol ''identity insert returned no row'')), tx_open t)"
proof -
  let ?row = "my_event_columns lib env tenant event (my_enqueue_time env)"
  have v: "my_validate_enqueue_schema migrations env t = (Inr (), t)"
    using valid my_validate_state [OF quiet, of migrations t] by (metis prod.collapse)
  have id: "event_identity r = event_identity ?row" by (subst r(2)) simp
  have check: "event_check r" using assms(2) r(1) by (simp add: tx_ok_def db_ok_def list_all_iff)
  have "event_check ?row"
    using check fresh(1) by (subst (asm) r(2)) (simp add: my_event_columns_def event_columns_with_def event_check_def)
  then have i: "my_insert_new env ''insert event'' 4 ?row t = (Inr False, t)"
    using my_insert_new_stored [OF quiet _ _ r(1) id] fresh(2) by simp
  have f: "my_find_event tenant event (tx_seen (tx_open t))
      = (if r \<in> set (db_events (tx_seen (tx_open t))) then Some r else None)"
    by (rule my_find_event_iff) (use assms(2) r(1) id tx_extends_ok [OF tx_extends_open] in simp_all)
  have hyd: "my_hydrate_event lib env r = Inr (StoredEvent (new_content event))"
    by (subst r(2)) (rule my_hydrate_columns [OF codec event(1-3)], use event(4) r(2) in simp)
  have same: "my_same_event lib env event r = Inr True"
    by (subst r(2)) (rule my_same_event_columns [OF codec event(2)], use event(4) r(2) in simp)
  have rid: "row_id_new (er_row_id r) = Inr (RowId (er_row_id r))"
    using check by (simp add: row_id_new_Inr_iff event_check_def)
  have del: "my_find_delivery tenant (er_row_id r) (tx_seen (tx_open t)) \<noteq> None"
    if "r \<in> set (db_events (tx_seen (tx_open t)))"
  proof -
    from bspec [OF paired [unfolded db_paired_def] that]
    obtain d where "d \<in> set (db_deliveries (tx_seen (tx_open t)))" "dr_event_row_id d = er_row_id r"
      "dr_tenant_id d = er_tenant_id r" by (elim bexE conjE)
    moreover have "er_tenant_id r = tenant_id_str tenant" using id by (simp add: event_identity_def [of r])
    ultimately show ?thesis by (auto simp: my_find_delivery_def find_None_set)
  qed
  have sql: "my_enqueue_error_sql l (MyProtocol m) = MEnqSql l (MyProtocol m)" for l m
    by (simp add: my_enqueue_error_sql_def my_from_sqlx_def)
  have "my_enqueue_resolve lib env tenant event (my_enqueue_time env) False t =
    (if r \<in> set (db_events (tx_seen (tx_open t))) then Inr (AlreadyEnqueued (RowId (er_row_id r)))
     else Inl (MEnqSql ''resolve inserted event'' (MyProtocol ''identity insert returned no row'')), tx_open t)"
    using f del
    by (simp add: my_enqueue_resolve_def tx_then_def tx_map_err_def tx_return_def my_quiet_simps [OF quiet]
        my_validate_existing_event_def hyd same rid sql)
  then show ?thesis
    by (simp add: my_enqueue_for_scope_def my_database_time_def tx_then_def tx_map_err_def Let_def v
        my_quiet_simps [OF quiet] i)
qed

end
