(* ===== verification/Mysql_Schema.thy ===== *)
theory Mysql_Schema
  imports Mysql_Base
begin

text \<open>
  \<open>crates/dovecote-sqlx-mysql/src/schema.rs\<close> with \<open>schema/normalization.rs\<close>, \<open>schema/contracts.rs\<close>
  and \<open>schema/catalog.rs\<close>: verification of an installed schema. What the server answers to the
  queries on \<open>information_schema\<close> is the record \<open>my_catalog\<close>; the queries themselves filter by the
  current database and the three tables.
\<close>

section \<open>Normalization\<close>

definition normalize_trigger :: "string \<Rightarrow> string" where
  "normalize_trigger value =
     filter (\<lambda>c. \<not> ascii_space c \<and> c \<noteq> CHR ''`'') (map ascii_lower value)"

definition trigger_action_matches :: "string \<Rightarrow> string \<Rightarrow> bool" where
  "trigger_action_matches kind action =
     (let matches = (\<lambda>expected. normalize_trigger action = str_remove '' '' expected) in
      if kind = ''insert'' then matches
        ''beginifnew.row_id<0thensignal sqlstate'45000'setmessage_text='dovecote row_id must be positive';endif;end''
      else if kind = ''update'' then matches
        ''beginifnew.row_id<=0ornew.row_id<>old.row_idthensignal sqlstate'45000'setmessage_text='dovecote row_id must be positive';endif;end''
      else False)"

text \<open>
  The loop of \<open>normalize\<close>: outside literals white space and backticks go and letters are lowered,
  inside literals everything stays. The octet 92 is the backslash, 39 the quote.
\<close>

fun normalize_from :: "bool \<Rightarrow> bool \<Rightarrow> string \<Rightarrow> string" where
  "normalize_from in_string escaped [] = (if escaped then [CHR 92] else [])"
| "normalize_from True True (c # cs) =
     (if c = CHR 39 then [CHR 39] else [CHR 92, c]) @ normalize_from True False cs"
| "normalize_from True False (c # cs) =
     (if c = CHR 92 then normalize_from True True cs
      else c # normalize_from (c \<noteq> CHR 39) False cs)"
| "normalize_from False escaped (c # cs) =
     (if c = CHR 39 then c # normalize_from True escaped cs
      else if ascii_space c \<or> c = CHR ''`'' then normalize_from False escaped cs
      else ascii_lower c # normalize_from False escaped cs)"

definition my_normalize :: "string \<Rightarrow> string" where
  "my_normalize value = normalize_from False False (str_replace [CHR 92, CHR 39] [CHR 39] value)"

text \<open>One column of \<open>replace_length_aliases\<close>: \<open>length(column)\<close> becomes \<open>octet_length(column)\<close>.\<close>

function replace_length :: "string \<Rightarrow> string \<Rightarrow> string" where
  "replace_length column remaining =
     (case split_once_at (''length('' @ column @ '')'') remaining of
        None \<Rightarrow> remaining
      | Some (pre, suffix) \<Rightarrow>
          pre @ (if ends_with ''octet_'' pre then [] else ''octet_'') @ ''length('' @ column @ '')''
            @ replace_length column suffix)"
  by pat_completeness auto

termination
  by (relation "measure (\<lambda>(column, s). length s)") (auto dest!: split_once_at_Some)

declare replace_length.simps [simp del]

definition replace_length_aliases :: "string \<Rightarrow> string list \<Rightarrow> string" where
  "replace_length_aliases normalized columns = foldl (\<lambda>s column. replace_length column s) normalized columns"

text \<open>\<open>_binary'\<close> and \<open>_utf8mb4'\<close> before a literal go.\<close>

definition drop_introducers :: "string \<Rightarrow> string" where
  "drop_introducers value =
     str_replace (''_utf8mb4'' @ [CHR 39]) [CHR 39] (str_replace (''_binary'' @ [CHR 39]) [CHR 39] value)"

definition normalize_generated_expression :: "string \<Rightarrow> string" where
  "normalize_generated_expression value =
     replace_length_aliases (drop_introducers (str_remove [CHR 92] (my_normalize value))) [''tenant_id'', ''source'']"

datatype QuoteState = Outside | Quoted | Escaped

text \<open>The scan of \<open>outer_parentheses_enclose_expression\<close>; the depth is a \<open>u32\<close>.\<close>

fun parentheses_from :: "QuoteState \<Rightarrow> nat \<Rightarrow> string \<Rightarrow> bool" where
  "parentheses_from quoted depth [] \<longleftrightarrow> quoted = Outside \<and> depth = 0"
| "parentheses_from Escaped depth (c # cs) = parentheses_from Quoted depth cs"
| "parentheses_from Quoted depth (c # cs) =
     (if c = CHR 92 then parentheses_from Escaped depth cs
      else if c = CHR 39 then
        (case cs of
           [] \<Rightarrow> parentheses_from Outside depth []
         | c' # cs' \<Rightarrow>
             if c' = CHR 39 then parentheses_from Quoted depth cs'
             else parentheses_from Outside depth (c' # cs'))
      else parentheses_from Quoted depth cs)"
| "parentheses_from Outside depth (c # cs) =
     (if c = CHR 39 then parentheses_from Quoted depth cs
      else if c = CHR ''('' then depth < 4294967295 \<and> parentheses_from Outside (Suc depth) cs
      else if c = CHR '')'' then
        depth \<noteq> 0 \<and> \<not> (depth = 1 \<and> cs \<noteq> []) \<and> parentheses_from Outside (depth - 1) cs
      else parentheses_from Outside depth cs)"

definition outer_parentheses_enclose_expression :: "string \<Rightarrow> bool" where
  "outer_parentheses_enclose_expression value = parentheses_from Outside 0 value"

function strip_redundant_outer_parentheses :: "string \<Rightarrow> string" where
  "strip_redundant_outer_parentheses value =
     (if value \<noteq> [] \<and> hd value = CHR ''('' then
        (case strip_suffix (CHR '')'') (tl value) of
           None \<Rightarrow> value
         | Some inner \<Rightarrow>
             if \<not> outer_parentheses_enclose_expression value then value
             else strip_redundant_outer_parentheses inner)
      else value)"
  by pat_completeness auto

termination
  by (relation "measure length") (auto simp: strip_suffix_def split: if_splits)

declare strip_redundant_outer_parentheses.simps [simp del]

definition length_columns :: "(string \<times> string list) list" where
  "length_columns =
     [(''dovecote_events_tenant_size'', [''tenant_id'']),
      (''dovecote_events_tenant_nonempty'', [''tenant_id'']),
      (''dovecote_events_stream_size'', [''stream'']),
      (''dovecote_events_event_id_size'', [''event_id'']),
      (''dovecote_events_source_size'', [''source'']),
      (''dovecote_events_event_type_size'', [''event_type'']),
      (''dovecote_events_subject_size'', [''subject'']),
      (''dovecote_events_content_type_size'', [''datacontenttype'']),
      (''dovecote_events_schema_size'', [''dataschema'']),
      (''dovecote_events_partition_size'', [''partitionkey'']),
      (''dovecote_events_identity_size'', [''source'', ''event_id'']),
      (''dovecote_events_content_type'', [''data'']),
      (''dovecote_deliveries_tenant_size'', [''tenant_id'']),
      (''dovecote_deliveries_tenant_nonempty'', [''tenant_id'']),
      (''dovecote_deliveries_token_size'', [''claim_token'']),
      (''dovecote_deliveries_worker_size'', [''claimed_by'']),
      (''dovecote_deliveries_failure_code_size'', [''last_failure_code'']),
      (''dovecote_deliveries_failure_detail_size'', [''last_failure_detail'']),
      (''dovecote_deliveries_quarantine_size'', [''quarantine_reason''])]"

definition binary_length_columns :: "string \<Rightarrow> string list" where
  "binary_length_columns name = (case map_of length_columns name of None \<Rightarrow> [] | Some columns \<Rightarrow> columns)"

definition normalize_check_clause :: "string \<Rightarrow> string \<Rightarrow> string" where
  "normalize_check_clause name clause =
     strip_redundant_outer_parentheses
       (replace_length_aliases (drop_introducers (my_normalize clause)) (binary_length_columns name))"

section \<open>Contracts\<close>

record my_ColumnSpec =
  ms_name :: string
  ms_data_type :: string
  ms_max :: "int option"
  ms_exact_column_type :: "string option"
  ms_nullable :: bool
  ms_identity :: bool
  ms_default :: "string option"
  ms_generated :: "string option"
  ms_generation_expression :: "string option"

definition my_spec_required :: "string \<Rightarrow> string \<Rightarrow> int option \<Rightarrow> bool \<Rightarrow> my_ColumnSpec" where
  "my_spec_required name data_type width is_identity =
     \<lparr>ms_name = name, ms_data_type = data_type, ms_max = width, ms_exact_column_type = None,
      ms_nullable = False, ms_identity = is_identity, ms_default = None, ms_generated = None,
      ms_generation_expression = None\<rparr>"

definition my_spec_optional :: "string \<Rightarrow> string \<Rightarrow> int option \<Rightarrow> my_ColumnSpec" where
  "my_spec_optional name data_type width =
     \<lparr>ms_name = name, ms_data_type = data_type, ms_max = width, ms_exact_column_type = None,
      ms_nullable = True, ms_identity = False, ms_default = None, ms_generated = None,
      ms_generation_expression = None\<rparr>"

definition my_spec_required_default :: "string \<Rightarrow> string \<Rightarrow> string \<Rightarrow> my_ColumnSpec" where
  "my_spec_required_default name data_type default_text =
     \<lparr>ms_name = name, ms_data_type = data_type, ms_max = None, ms_exact_column_type = None,
      ms_nullable = False, ms_identity = False, ms_default = Some default_text, ms_generated = None,
      ms_generation_expression = None\<rparr>"

definition my_spec_required_exact_type :: "string \<Rightarrow> string \<Rightarrow> string \<Rightarrow> my_ColumnSpec" where
  "my_spec_required_exact_type name data_type column_type =
     \<lparr>ms_name = name, ms_data_type = data_type, ms_max = None, ms_exact_column_type = Some column_type,
      ms_nullable = False, ms_identity = False, ms_default = None, ms_generated = None,
      ms_generation_expression = None\<rparr>"

definition my_spec_stored_generated :: "string \<Rightarrow> string \<Rightarrow> int option \<Rightarrow> string \<Rightarrow> my_ColumnSpec" where
  "my_spec_stored_generated name data_type width expression =
     \<lparr>ms_name = name, ms_data_type = data_type, ms_max = width, ms_exact_column_type = None,
      ms_nullable = True, ms_identity = False, ms_default = None, ms_generated = Some ''STORED GENERATED'',
      ms_generation_expression = Some expression\<rparr>"

definition my_marker_columns :: "my_ColumnSpec list" where
  "my_marker_columns =
     [my_spec_required ''schema_version'' ''int'' None False,
      my_spec_required ''minimum_crate_major'' ''smallint'' None False,
      my_spec_required ''minimum_crate_minor'' ''smallint'' None False,
      my_spec_required ''minimum_crate_patch'' ''smallint'' None False,
      my_spec_required_exact_type ''rolling_compatible'' ''tinyint'' ''tinyint(1)'']"

definition IDENTITY_KEY_GENERATION_EXPRESSION :: string where
  "IDENTITY_KEY_GENERATION_EXPRESSION =
     ''CONCAT(LPAD(OCTET_LENGTH(tenant_id), 3, '0'), tenant_id, LPAD(OCTET_LENGTH(source), 4, '0'), source, event_id)''"

definition my_event_column_specs :: "my_ColumnSpec list" where
  "my_event_column_specs =
     [my_spec_required ''row_id'' ''bigint'' None True,
      my_spec_required ''tenant_id'' ''varbinary'' (Some 255) False,
      my_spec_required ''stream'' ''varbinary'' (Some 255) False,
      my_spec_required ''specversion'' ''varbinary'' (Some 8) False,
      my_spec_required ''event_id'' ''varbinary'' (Some 1024) False,
      my_spec_required ''source'' ''varbinary'' (Some 2048) False,
      my_spec_required ''event_type'' ''varbinary'' (Some 1024) False,
      my_spec_optional ''subject'' ''varbinary'' (Some 2048),
      my_spec_optional ''occurred_at'' ''datetime'' None,
      my_spec_optional ''datacontenttype'' ''varbinary'' (Some 255),
      my_spec_optional ''dataschema'' ''varbinary'' (Some 2048),
      my_spec_optional ''partitionkey'' ''varbinary'' (Some 255),
      my_spec_required ''extensions'' ''longtext'' None False,
      my_spec_optional ''data_kind'' ''varbinary'' (Some 6),
      my_spec_optional ''data'' ''longblob'' None,
      my_spec_required_default ''enqueued_at'' ''datetime'' ''CURRENT_TIMESTAMP(6)'',
      my_spec_stored_generated ''identity_key'' ''varbinary'' (Some 2310) IDENTITY_KEY_GENERATION_EXPRESSION]"

definition my_delivery_column_specs :: "my_ColumnSpec list" where
  "my_delivery_column_specs =
     [my_spec_required ''event_row_id'' ''bigint'' None False,
      my_spec_required ''tenant_id'' ''varbinary'' (Some 255) False,
      my_spec_required ''state'' ''varbinary'' (Some 12) False,
      my_spec_required_default ''available_at'' ''datetime'' ''CURRENT_TIMESTAMP(6)'',
      my_spec_required_default ''attempts'' ''bigint'' ''0'',
      my_spec_optional ''claim_token'' ''binary'' (Some 16),
      my_spec_optional ''claimed_by'' ''varbinary'' (Some 255),
      my_spec_optional ''claim_expires_at'' ''datetime'' None,
      my_spec_optional ''last_failure_code'' ''varbinary'' (Some 128),
      my_spec_optional ''last_failure_detail'' ''varbinary'' (Some 2048),
      my_spec_optional ''delivered_at'' ''datetime'' None,
      my_spec_optional ''quarantined_at'' ''datetime'' None,
      my_spec_optional ''quarantine_reason'' ''varbinary'' (Some 2048)]"

definition CHECK_NAMES :: "string list" where
  "CHECK_NAMES =
     [''dovecote_events_specversion'',
      ''dovecote_events_tenant_size'',
      ''dovecote_events_tenant_nonempty'',
      ''dovecote_events_stream_size'',
      ''dovecote_events_event_id_size'',
      ''dovecote_events_source_size'',
      ''dovecote_events_event_type_size'',
      ''dovecote_events_subject_size'',
      ''dovecote_events_content_type_size'',
      ''dovecote_events_schema_size'',
      ''dovecote_events_partition_size'',
      ''dovecote_events_identity_size'',
      ''dovecote_events_data_kind'',
      ''dovecote_events_data_pair'',
      ''dovecote_events_content_type'',
      ''dovecote_deliveries_state'',
      ''dovecote_deliveries_tenant_size'',
      ''dovecote_deliveries_tenant_nonempty'',
      ''dovecote_deliveries_attempts'',
      ''dovecote_deliveries_token_size'',
      ''dovecote_deliveries_worker_size'',
      ''dovecote_deliveries_failure_code_size'',
      ''dovecote_deliveries_failure_detail_size'',
      ''dovecote_deliveries_quarantine_size'',
      ''dovecote_deliveries_failure_pair'',
      ''dovecote_deliveries_state_shape'']"

definition MARKER_CHECK_NAMES :: "string list" where
  "MARKER_CHECK_NAMES =
     [''dovecote_schema_version_supported'',
      ''dovecote_schema_minimum_nonnegative'']"

definition marker_clauses :: "(string \<times> string) list" where
  "marker_clauses =
     [(''dovecote_schema_version_supported'', ''schema_version = 2''),
      (''dovecote_schema_minimum_nonnegative'', ''minimum_crate_major >= 0 AND minimum_crate_minor >= 0 AND minimum_crate_patch >= 0'')]"

definition marker_catalog_clauses :: "(string \<times> string) list" where
  "marker_catalog_clauses =
     [(''dovecote_schema_minimum_nonnegative'', ''(minimum_crate_major >= 0) AND (minimum_crate_minor >= 0) AND (minimum_crate_patch >= 0)'')]"

text \<open>A clause is accepted in one of its listed renderings, never by a fragment.\<close>

definition clause_is :: "string \<Rightarrow> string \<Rightarrow> (string \<times> string) list \<Rightarrow> bool" where
  "clause_is name actual clauses =
     (case map_of clauses name of None \<Rightarrow> False | Some clause \<Rightarrow> actual = normalize_check_clause name clause)"

definition marker_check_clause_is_plausible :: "string \<Rightarrow> string \<Rightarrow> bool" where
  "marker_check_clause_is_plausible name clause \<longleftrightarrow>
     map_of marker_clauses name \<noteq> None
     \<and> (let actual = normalize_check_clause name clause in
        clause_is name actual marker_clauses \<or> clause_is name actual marker_catalog_clauses)"

definition check_clauses :: "(string \<times> string) list" where
  "check_clauses =
     [(''dovecote_events_specversion'', ''specversion = _binary '1.0'' @ [CHR 39]),
      (''dovecote_events_tenant_size'', ''OCTET_LENGTH(tenant_id) <= 255''),
      (''dovecote_events_tenant_nonempty'', ''OCTET_LENGTH(tenant_id) > 0''),
      (''dovecote_events_stream_size'', ''OCTET_LENGTH(stream) <= 255''),
      (''dovecote_events_event_id_size'', ''OCTET_LENGTH(event_id) <= 1024''),
      (''dovecote_events_source_size'', ''OCTET_LENGTH(source) <= 2048''),
      (''dovecote_events_event_type_size'', ''OCTET_LENGTH(event_type) <= 1024''),
      (''dovecote_events_subject_size'', ''subject IS NULL OR OCTET_LENGTH(subject) <= 2048''),
      (''dovecote_events_content_type_size'', ''datacontenttype IS NULL OR OCTET_LENGTH(datacontenttype) <= 255''),
      (''dovecote_events_schema_size'', ''dataschema IS NULL OR OCTET_LENGTH(dataschema) <= 2048''),
      (''dovecote_events_partition_size'', ''partitionkey IS NULL OR OCTET_LENGTH(partitionkey) <= 255''),
      (''dovecote_events_identity_size'', ''OCTET_LENGTH(source) + OCTET_LENGTH(event_id) <= 2048''),
      (''dovecote_events_data_kind'', ''data_kind IS NULL OR data_kind IN (_binary 'json', _binary 'binary')''),
      (''dovecote_events_data_pair'', ''(data_kind IS NULL) = (data IS NULL)''),
      (''dovecote_events_content_type'', ''data IS NULL OR OCTET_LENGTH(data) = 0 OR datacontenttype IS NOT NULL''),
      (''dovecote_deliveries_state'', ''state IN (_binary 'pending', _binary 'claimed', _binary 'delivered', _binary 'quarantined')''),
      (''dovecote_deliveries_tenant_size'', ''OCTET_LENGTH(tenant_id) <= 255''),
      (''dovecote_deliveries_tenant_nonempty'', ''OCTET_LENGTH(tenant_id) > 0''),
      (''dovecote_deliveries_attempts'', ''attempts >= 0''),
      (''dovecote_deliveries_token_size'', ''claim_token IS NULL OR OCTET_LENGTH(claim_token) = 16''),
      (''dovecote_deliveries_worker_size'', ''claimed_by IS NULL OR OCTET_LENGTH(claimed_by) <= 255''),
      (''dovecote_deliveries_failure_code_size'', ''last_failure_code IS NULL OR OCTET_LENGTH(last_failure_code) <= 128''),
      (''dovecote_deliveries_failure_detail_size'', ''last_failure_detail IS NULL OR OCTET_LENGTH(last_failure_detail) <= 2048''),
      (''dovecote_deliveries_quarantine_size'', ''quarantine_reason IS NULL OR OCTET_LENGTH(quarantine_reason) <= 2048''),
      (''dovecote_deliveries_failure_pair'', ''(last_failure_code IS NULL) = (last_failure_detail IS NULL)''),
      (''dovecote_deliveries_state_shape'', ''(state = _binary 'pending' AND claim_token IS NULL AND claimed_by IS NULL AND claim_expires_at IS NULL AND delivered_at IS NULL AND quarantined_at IS NULL AND quarantine_reason IS NULL) OR (state = _binary 'claimed' AND claim_token IS NOT NULL AND claimed_by IS NOT NULL AND claim_expires_at IS NOT NULL AND delivered_at IS NULL AND quarantined_at IS NULL AND quarantine_reason IS NULL) OR (state = _binary 'delivered' AND claim_token IS NULL AND claimed_by IS NULL AND claim_expires_at IS NULL AND delivered_at IS NOT NULL AND quarantined_at IS NULL AND quarantine_reason IS NULL) OR (state = _binary 'quarantined' AND claim_token IS NULL AND claimed_by IS NULL AND claim_expires_at IS NULL AND delivered_at IS NULL AND quarantined_at IS NOT NULL AND quarantine_reason IS NOT NULL)'')]"

definition catalog_clauses :: "(string \<times> string) list" where
  "catalog_clauses =
     [(''dovecote_events_subject_size'', ''(subject IS NULL) OR (OCTET_LENGTH(subject) <= 2048)''),
      (''dovecote_events_content_type_size'', ''(datacontenttype IS NULL) OR (OCTET_LENGTH(datacontenttype) <= 255)''),
      (''dovecote_events_schema_size'', ''(dataschema IS NULL) OR (OCTET_LENGTH(dataschema) <= 2048)''),
      (''dovecote_events_partition_size'', ''(partitionkey IS NULL) OR (OCTET_LENGTH(partitionkey) <= 255)''),
      (''dovecote_events_identity_size'', ''(OCTET_LENGTH(source) + OCTET_LENGTH(event_id)) <= 2048''),
      (''dovecote_events_data_kind'', ''(data_kind IS NULL) OR (data_kind IN (_binary 'json', _binary 'binary'))''),
      (''dovecote_events_data_pair'', ''data_kind IS NULL = (data IS NULL)''),
      (''dovecote_events_content_type'', ''(data IS NULL) OR (OCTET_LENGTH(data) = 0) OR (datacontenttype IS NOT NULL)''),
      (''dovecote_deliveries_token_size'', ''(claim_token IS NULL) OR (OCTET_LENGTH(claim_token) = 16)''),
      (''dovecote_deliveries_worker_size'', ''(claimed_by IS NULL) OR (OCTET_LENGTH(claimed_by) <= 255)''),
      (''dovecote_deliveries_failure_code_size'', ''(last_failure_code IS NULL) OR (OCTET_LENGTH(last_failure_code) <= 128)''),
      (''dovecote_deliveries_failure_detail_size'', ''(last_failure_detail IS NULL) OR (OCTET_LENGTH(last_failure_detail) <= 2048)''),
      (''dovecote_deliveries_quarantine_size'', ''(quarantine_reason IS NULL) OR (OCTET_LENGTH(quarantine_reason) <= 2048)''),
      (''dovecote_deliveries_failure_pair'', ''last_failure_code IS NULL = (last_failure_detail IS NULL)''),
      (''dovecote_deliveries_state_shape'', ''(state = _binary 'pending' AND claim_token IS NULL AND claimed_by IS NULL AND claim_expires_at IS NULL AND delivered_at IS NULL AND quarantined_at IS NULL AND quarantine_reason IS NULL) OR (state = _binary 'claimed' AND claim_token IS NOT NULL AND claimed_by IS NOT NULL AND claim_expires_at IS NOT NULL AND delivered_at IS NULL AND quarantined_at IS NULL AND quarantine_reason IS NULL) OR (state = _binary 'delivered' AND claim_token IS NULL AND claimed_by IS NULL AND claim_expires_at IS NULL AND delivered_at IS NOT NULL AND quarantined_at IS NULL AND quarantine_reason IS NULL) OR (state = _binary 'quarantined' AND claim_token IS NULL AND claimed_by IS NULL AND claim_expires_at IS NULL AND delivered_at IS NULL AND quarantined_at IS NOT NULL AND quarantine_reason IS NOT NULL)'')]"

definition mariadb_clauses :: "(string \<times> string) list" where
  "mariadb_clauses =
     [(''dovecote_deliveries_state_shape'', ''state = _binary 'pending' AND claim_token IS NULL AND claimed_by IS NULL AND claim_expires_at IS NULL AND delivered_at IS NULL AND quarantined_at IS NULL AND quarantine_reason IS NULL OR state = _binary 'claimed' AND claim_token IS NOT NULL AND claimed_by IS NOT NULL AND claim_expires_at IS NOT NULL AND delivered_at IS NULL AND quarantined_at IS NULL AND quarantine_reason IS NULL OR state = _binary 'delivered' AND claim_token IS NULL AND claimed_by IS NULL AND claim_expires_at IS NULL AND delivered_at IS NOT NULL AND quarantined_at IS NULL AND quarantine_reason IS NULL OR state = _binary 'quarantined' AND claim_token IS NULL AND claimed_by IS NULL AND claim_expires_at IS NULL AND delivered_at IS NULL AND quarantined_at IS NOT NULL AND quarantine_reason IS NOT NULL'')]"

definition grouped_clauses :: "(string \<times> string) list" where
  "grouped_clauses =
     [(''dovecote_deliveries_state_shape'', ''((state = _binary 'pending') AND (claim_token IS NULL) AND (claimed_by IS NULL) AND (claim_expires_at IS NULL) AND (delivered_at IS NULL) AND (quarantined_at IS NULL) AND (quarantine_reason IS NULL)) OR ((state = _binary 'claimed') AND (claim_token IS NOT NULL) AND (claimed_by IS NOT NULL) AND (claim_expires_at IS NOT NULL) AND (delivered_at IS NULL) AND (quarantined_at IS NULL) AND (quarantine_reason IS NULL)) OR ((state = _binary 'delivered') AND (claim_token IS NULL) AND (claimed_by IS NULL) AND (claim_expires_at IS NULL) AND (delivered_at IS NOT NULL) AND (quarantined_at IS NULL) AND (quarantine_reason IS NULL)) OR ((state = _binary 'quarantined') AND (claim_token IS NULL) AND (claimed_by IS NULL) AND (claim_expires_at IS NULL) AND (delivered_at IS NULL) AND (quarantined_at IS NOT NULL) AND (quarantine_reason IS NOT NULL))'')]"

text \<open>\<open>mysql_unwrapped_catalog_check_clause\<close> lists the same renderings as \<open>mariadb_clauses\<close>.\<close>

definition check_clause_is_plausible :: "string \<Rightarrow> string \<Rightarrow> bool" where
  "check_clause_is_plausible name clause \<longleftrightarrow>
     map_of check_clauses name \<noteq> None
     \<and> (let actual = normalize_check_clause name clause in
        list_ex (clause_is name actual)
          [check_clauses, catalog_clauses, mariadb_clauses, mariadb_clauses, grouped_clauses])"

section \<open>Catalog\<close>

record my_SchemaMarker =
  mk_schema_version :: int
  mk_minimum_crate_major :: int
  mk_minimum_crate_minor :: int
  mk_minimum_crate_patch :: int
  mk_rolling_compatible :: bool

record my_TriggerInfo =
  mt_trigger_name :: string
  mt_event_manipulation :: string
  mt_action_timing :: string
  mt_event_object_table :: string
  mt_action_statement :: string

record my_TableInfo =
  mb_table_name :: string
  mb_engine :: "string option"
  mb_table_type :: string

record my_ColumnInfo =
  mc_column_name :: string
  mc_data_type :: string
  mc_column_type :: string
  mc_character_maximum_length :: "int option"
  mc_is_nullable :: string
  mc_column_default :: "string option"
  mc_extra :: string
  mc_generation_expression :: "string option"

record my_ConstraintInfo =
  mn_table_name :: string
  mn_constraint_name :: string
  mn_constraint_type :: string

record my_CheckInfo =
  mh_constraint_name :: string
  mh_check_clause :: string

record my_KeyColumn =
  my_key_constraint_name :: string
  my_key_column_name :: string
  my_key_referenced_table_name :: "string option"
  my_key_referenced_column_name :: "string option"

record my_IndexInfo =
  mx_table_name :: string
  mx_index_name :: string
  mx_non_unique :: int
  mx_seq_in_index :: int
  mx_column_name :: string
  mx_index_type :: string
  mx_sub_part :: "int option"

text \<open>The answers of the server; each query may fail.\<close>

record my_catalog =
  mcat_acquire :: "my_error option"
  mcat_markers :: "my_SchemaMarker list"
  mcat_marker_table :: "my_error + my_TableInfo option"
  mcat_marker_constraints :: "my_error + my_ConstraintInfo list"
  mcat_marker_checks :: "my_error + my_CheckInfo list"
  mcat_tables :: "my_error + my_TableInfo list"
  mcat_columns :: "string \<Rightarrow> my_error + my_ColumnInfo list"
  mcat_collation :: "my_error + string option"
  mcat_constraints :: "my_error + my_ConstraintInfo list"
  mcat_checks :: "my_error + my_CheckInfo list"
  mcat_keys :: "my_error + my_KeyColumn list"
  mcat_reference :: "my_error + string option"
  mcat_triggers :: "my_error + my_TriggerInfo list"
  mcat_indexes :: "my_error + my_IndexInfo list"

definition my_mismatch :: "string \<Rightarrow> MySchemaError + 'a" where
  "my_mismatch detail = Inl (MSchMigrationMismatch detail)"

definition my_require :: "bool \<Rightarrow> string \<Rightarrow> MySchemaError + unit" where
  "my_require b detail = (if b then Inr () else my_mismatch detail)"

definition default_matches :: "my_ColumnSpec \<Rightarrow> string option \<Rightarrow> bool" where
  "default_matches spec actual =
     (case ms_default spec of
        Some expected \<Rightarrow> (case actual of None \<Rightarrow> False | Some value \<Rightarrow> my_normalize value = my_normalize expected)
      | None \<Rightarrow> (case actual of None \<Rightarrow> True | Some value \<Rightarrow> ms_nullable spec \<and> my_normalize value = ''null''))"

definition non_generated_metadata_matches :: "string \<Rightarrow> string option \<Rightarrow> bool \<Rightarrow> bool \<Rightarrow> bool" where
  "non_generated_metadata_matches extra expression is_identity has_expected_default =
     (let extra = str_trim extra;
        extra_matches = (extra = []
          \<or> (has_expected_default \<and> same_ascii_case extra ''DEFAULT_GENERATED'')
          \<or> (is_identity \<and> same_ascii_case extra ''AUTO_INCREMENT'')) in
      extra_matches \<and> (case expression of None \<Rightarrow> True | Some value \<Rightarrow> list_all ascii_space value))"

text \<open>The tests of one specification against its column. The sizes of the contracts are not negative.\<close>

definition my_column_compatible :: "my_ColumnSpec \<Rightarrow> my_ColumnInfo \<Rightarrow> bool" where
  "my_column_compatible spec actual =
     (let default_matches = default_matches spec (mc_column_default actual);
        has_identity = same_ascii_case (str_trim (mc_extra actual)) ''auto_increment'';
        identity_matches = (has_identity = ms_identity spec);
        generated_matches = (case (ms_generated spec, ms_generation_expression spec) of
            (Some expected_extra, Some expected_expression) \<Rightarrow>
              same_ascii_case (mc_extra actual) expected_extra
              \<and> (case mc_generation_expression actual of
                   None \<Rightarrow> False
                 | Some actual \<Rightarrow> normalize_generated_expression actual
                     = normalize_generated_expression expected_expression)
          | (None, None) \<Rightarrow> non_generated_metadata_matches (mc_extra actual) (mc_generation_expression actual)
              (ms_identity spec) (ms_default spec \<noteq> None)
          | _ \<Rightarrow> False);
        size_matches = (if ms_data_type spec = ''binary''
          then (case ms_max spec of
              None \<Rightarrow> False
            | Some width \<Rightarrow> same_ascii_case (mc_column_type actual) (''binary('' @ nat_to_string (nat width) @ '')''))
          else ms_max spec = None \<or> mc_character_maximum_length actual = ms_max spec);
        precision_matches = (if ms_data_type spec = ''datetime''
          then same_ascii_case (mc_column_type actual) ''datetime(6)'' else True);
        exact_type_matches = (case ms_exact_column_type spec of
            None \<Rightarrow> True | Some expected \<Rightarrow> same_ascii_case (mc_column_type actual) expected) in
      \<not> (mc_data_type actual \<noteq> ms_data_type spec
        \<or> str_contains ''unsigned'' (map ascii_lower (mc_column_type actual))
        \<or> \<not> size_matches
        \<or> \<not> precision_matches
        \<or> \<not> exact_type_matches
        \<or> (mc_is_nullable actual = ''YES'') \<noteq> ms_nullable spec
        \<or> \<not> identity_matches
        \<or> \<not> generated_matches
        \<or> \<not> default_matches))"

definition my_check_columns :: "my_catalog \<Rightarrow> string \<Rightarrow> my_ColumnSpec list \<Rightarrow> MySchemaError + unit" where
  "my_check_columns cat table expected =
     and_then (map_err (my_schema_error_sql ''check Dovecote columns'') (mcat_columns cat table)) (\<lambda>columns.
     and_then (my_require (length columns = length expected) (''table '' @ table @ '' has unexpected columns'')) (\<lambda>_.
     check_each (\<lambda>spec.
       case find (\<lambda>column. mc_column_name column = ms_name spec) columns of
         None \<Rightarrow> my_mismatch (''required column '' @ table @ ''.'' @ ms_name spec @ '' is missing'')
       | Some actual \<Rightarrow>
           if \<not> my_column_compatible spec actual
             then my_mismatch (''column '' @ table @ ''.'' @ ms_name spec @ '' is incompatible'')
           else Inr ()) expected))"

definition innodb_table :: "my_TableInfo \<Rightarrow> bool" where
  "innodb_table table \<longleftrightarrow> \<not> (mb_table_type table \<noteq> ''BASE TABLE'' \<or> mb_engine table \<noteq> Some ''InnoDB'')"

definition my_check_clauses ::
  "string \<Rightarrow> (string \<Rightarrow> string \<Rightarrow> bool) \<Rightarrow> my_CheckInfo list \<Rightarrow> string list \<Rightarrow> MySchemaError + unit" where
  "my_check_clauses what plausible checks names =
     check_each (\<lambda>name.
       case find (\<lambda>check. mh_constraint_name check = name) checks of
         None \<Rightarrow> my_mismatch (''required '' @ what @ ''CHECK constraint '' @ name @ '' is missing'')
       | Some check \<Rightarrow>
           if \<not> plausible name (mh_check_clause check)
             then my_mismatch (what @ ''CHECK constraint '' @ name @ '' is incompatible'')
           else Inr ()) names"

definition check_marker_table :: "my_catalog \<Rightarrow> MySchemaError + unit" where
  "check_marker_table cat =
     and_then (map_err (my_schema_error_sql ''check Dovecote schema marker table'') (mcat_marker_table cat)) (\<lambda>found.
     case found of
       None \<Rightarrow> my_mismatch ''required table dovecote_schema is missing''
     | Some marker \<Rightarrow>
     and_then (my_require (innodb_table marker) ''table dovecote_schema must be an InnoDB base table'') (\<lambda>_.
     and_then (my_check_columns cat ''dovecote_schema'' my_marker_columns) (\<lambda>_.
     and_then (map_err (my_schema_error_sql ''check Dovecote schema marker constraints'')
       (mcat_marker_constraints cat)) (\<lambda>constraints.
     and_then (my_require (\<not> (length constraints \<noteq> length MARKER_CHECK_NAMES + 1
         \<or> \<not> list_ex (\<lambda>c. mn_constraint_name c = ''PRIMARY'' \<and> mn_constraint_type c = ''PRIMARY KEY'') constraints))
       ''Dovecote schema marker has unexpected constraints'') (\<lambda>_.
     and_then (map_err (my_schema_error_sql ''check Dovecote schema marker CHECK constraints'')
       (mcat_marker_checks cat)) (\<lambda>checks.
     my_check_clauses ''schema marker '' marker_check_clause_is_plausible checks MARKER_CHECK_NAMES))))))"

definition check_tables_and_columns :: "my_catalog \<Rightarrow> MySchemaError + unit" where
  "check_tables_and_columns cat =
     and_then (check_marker_table cat) (\<lambda>_.
     and_then (map_err (my_schema_error_sql ''check Dovecote tables'') (mcat_tables cat)) (\<lambda>tables.
     and_then (check_each (\<lambda>name.
       case find (\<lambda>table. mb_table_name table = name) tables of
         None \<Rightarrow> my_mismatch (''required table '' @ name @ '' is missing'')
       | Some table \<Rightarrow>
           if \<not> innodb_table table then my_mismatch (''table '' @ name @ '' must be an InnoDB base table'')
           else Inr ()) [''dovecote_events'', ''dovecote_deliveries'']) (\<lambda>_.
     and_then (my_check_columns cat ''dovecote_events'' my_event_column_specs) (\<lambda>_.
     and_then (map_err (my_schema_error_sql ''check extension collation'') (mcat_collation cat)) (\<lambda>collation.
     and_then (my_require (collation = Some ''utf8mb4_bin'')
       ''dovecote_events.extensions must use utf8mb4_bin'') (\<lambda>_.
     my_check_columns cat ''dovecote_deliveries'' my_delivery_column_specs))))))"

definition required_constraints :: "(string \<times> string \<times> string) list" where
  "required_constraints =
     [(''dovecote_events'', ''PRIMARY'', ''PRIMARY KEY''),
      (''dovecote_deliveries'', ''PRIMARY'', ''PRIMARY KEY''),
      (''dovecote_events'', ''dovecote_events_tenant_source_event_id'', ''UNIQUE''),
      (''dovecote_events'', ''dovecote_events_tenant_row_unique'', ''UNIQUE''),
      (''dovecote_deliveries'', ''dovecote_deliveries_event_fk'', ''FOREIGN KEY'')]"

text \<open>The columns of the keys of one constraint, in the order of the query.\<close>

definition keys_of :: "my_KeyColumn list \<Rightarrow> string \<Rightarrow> (string \<times> string option \<times> string option) list" where
  "keys_of keys name =
     map (\<lambda>k. (my_key_column_name k, my_key_referenced_table_name k, my_key_referenced_column_name k))
       (filter (\<lambda>k. my_key_constraint_name k = name) keys)"

definition my_check_keys :: "my_KeyColumn list \<Rightarrow> MySchemaError + unit" where
  "my_check_keys keys =
     and_then (my_require (map fst (keys_of keys ''dovecote_events_tenant_source_event_id'') = [''identity_key''])
       ''identity constraint must cover identity_key'') (\<lambda>_.
     and_then (my_require (map fst (keys_of keys ''dovecote_events_tenant_row_unique'') = [''tenant_id'', ''row_id''])
       ''tenant row constraint must cover tenant_id,row_id in order'') (\<lambda>_.
     my_require (keys_of keys ''dovecote_deliveries_event_fk''
         = [(''tenant_id'', Some ''dovecote_events'', Some ''tenant_id''),
            (''event_row_id'', Some ''dovecote_events'', Some ''row_id'')])
       ''delivery foreign key is incompatible''))"

definition my_check_constraints :: "my_catalog \<Rightarrow> MySchemaError + unit" where
  "my_check_constraints cat =
     and_then (map_err (my_schema_error_sql ''check Dovecote constraints'') (mcat_constraints cat)) (\<lambda>constraints.
     and_then (check_each (\<lambda>(table, name, kind).
       my_require (list_ex (\<lambda>c. mn_table_name c = table \<and> mn_constraint_name c = name \<and> mn_constraint_type c = kind)
           constraints)
         (''required constraint '' @ table @ ''.'' @ name @ '' is missing or incompatible'')) required_constraints) (\<lambda>_.
     and_then (map_err (my_schema_error_sql ''check Dovecote CHECK constraints'') (mcat_checks cat)) (\<lambda>checks.
     and_then (my_require (length constraints = length CHECK_NAMES + 5) ''Dovecote has unexpected constraints'') (\<lambda>_.
     and_then (my_check_clauses [] check_clause_is_plausible checks CHECK_NAMES) (\<lambda>_.
     and_then (map_err (my_schema_error_sql ''check Dovecote constraint columns'') (mcat_keys cat)) (\<lambda>keys.
     and_then (my_check_keys keys) (\<lambda>_.
     and_then (map_err (my_schema_error_sql ''check delivery foreign key action'') (mcat_reference cat)) (\<lambda>reference.
     my_require (reference = Some ''RESTRICT'') ''delivery foreign key must use ON DELETE RESTRICT''))))))))"

definition is_row_id_trigger :: "string \<Rightarrow> string \<Rightarrow> string \<Rightarrow> my_TriggerInfo \<Rightarrow> bool" where
  "is_row_id_trigger name manipulation kind trigger \<longleftrightarrow>
     mt_trigger_name trigger = name \<and> mt_event_manipulation trigger = manipulation
     \<and> mt_action_timing trigger = ''BEFORE'' \<and> mt_event_object_table trigger = ''dovecote_events''
     \<and> trigger_action_matches kind (mt_action_statement trigger)"

definition my_check_triggers :: "my_catalog \<Rightarrow> MySchemaError + unit" where
  "my_check_triggers cat =
     and_then (map_err (my_schema_error_sql ''check Dovecote row_id triggers'') (mcat_triggers cat)) (\<lambda>triggers.
     my_require (\<not> (length triggers \<noteq> 2
         \<or> list_ex (\<lambda>trigger. mt_event_object_table trigger = ''dovecote_deliveries'') triggers
         \<or> \<not> list_ex (is_row_id_trigger ''dovecote_events_row_id_positive_insert'' ''INSERT'' ''insert'') triggers
         \<or> \<not> list_ex (is_row_id_trigger ''dovecote_events_row_id_positive_update'' ''UPDATE'' ''update'') triggers))
       ''Dovecote row_id positivity triggers are missing'')"

definition my_index_contracts :: "(string \<times> string \<times> bool \<times> string list) list" where
  "my_index_contracts =
     [(''dovecote_events_tenant_source_event_id'', ''dovecote_events'', True, [''identity_key'']),
      (''dovecote_events_tenant_row_unique'', ''dovecote_events'', True, [''tenant_id'', ''row_id'']),
      (''dovecote_deliveries_event_fk'', ''dovecote_deliveries'', False, [''tenant_id'', ''event_row_id'']),
      (''dovecote_deliveries_claimable'', ''dovecote_deliveries'', False,
        [''tenant_id'', ''state'', ''available_at'', ''event_row_id'']),
      (''dovecote_deliveries_expired_claims'', ''dovecote_deliveries'', False,
        [''tenant_id'', ''state'', ''claim_expires_at'', ''event_row_id''])]"

definition my_check_indexes :: "my_catalog \<Rightarrow> MySchemaError + unit" where
  "my_check_indexes cat =
     and_then (map_err (my_schema_error_sql ''check Dovecote indexes'') (mcat_indexes cat)) (\<lambda>indexes.
     and_then (my_require (\<not> list_ex (\<lambda>i. mx_index_name i \<noteq> ''PRIMARY''
         \<and> mx_index_name i \<notin> set (map fst my_index_contracts)) indexes) ''Dovecote has unexpected indexes'') (\<lambda>_.
     check_each (\<lambda>(name, table, unique, columns).
       let actual = filter (\<lambda>i. mx_index_name i = name) indexes in
       my_require (\<not> (length actual \<noteq> length columns
           \<or> list_ex (\<lambda>n. let i = actual ! n in
               mx_table_name i \<noteq> table \<or> mx_column_name i \<noteq> columns ! n \<or> mx_seq_in_index i \<noteq> int n + 1
               \<or> mx_non_unique i \<noteq> (if unique then 0 else 1) \<or> mx_index_type i \<noteq> ''BTREE''
               \<or> mx_sub_part i \<noteq> None) [0..<length actual]))
         (''index '' @ name @ '' is missing or incompatible'')) my_index_contracts))"

section \<open>The check\<close>

text \<open>\<open>as i16\<close> and \<open>as i32\<close> wrap around.\<close>

definition wrap_signed :: "nat \<Rightarrow> nat \<Rightarrow> int" where
  "wrap_signed w n = (int n + 2 ^ (w - 1)) mod 2 ^ w - 2 ^ (w - 1)"

definition my_check_schema_marker :: "Migration list \<Rightarrow> my_SchemaMarker list \<Rightarrow> MySchemaError + unit" where
  "my_check_schema_marker migrations markers =
     and_then (my_require (length markers = 1) (''expected exactly one schema marker row, found ''
       @ nat_to_string (length markers))) (\<lambda>_.
     let marker = hd markers in
     and_then (map_err MSchMigrationMismatch (current_migration migrations)) (\<lambda>migration.
     let minimum = compat_minimum (mig_compatibility migration) in
     my_require (\<not> (mk_schema_version marker \<noteq> wrap_signed 32 (mig_version migration)
         \<or> mk_minimum_crate_major marker \<noteq> wrap_signed 16 (ver_major minimum)
         \<or> mk_minimum_crate_minor marker \<noteq> wrap_signed 16 (ver_minor minimum)
         \<or> mk_minimum_crate_patch marker \<noteq> wrap_signed 16 (ver_patch minimum)
         \<or> mk_rolling_compatible marker \<noteq> mig_rolling_compatible migration))
       ''schema marker is incompatible with this adapter''))"

text \<open>
  The checks in their order. Statement 1 probes the server; statement 2 reads the marker, a plain
  read of a table, which fixes the snapshot of a transaction it runs in.
\<close>

definition my_check_schema_connection ::
  "Migration list \<Rightarrow> my_catalog \<Rightarrow> my_env \<Rightarrow> (MySchemaError, unit) my_action" where
  "my_check_schema_connection migrations cat env =
     tx_then (detect_on_connection env) (\<lambda>_.
     tx_then (tx_map_err (my_schema_error_sql ''check schema marker'')
       (my_read env ''check schema marker'' 2 (\<lambda>_. mcat_markers cat))) (\<lambda>markers.
     tx_return (
       and_then (my_check_schema_marker migrations markers) (\<lambda>_.
       and_then (check_tables_and_columns cat) (\<lambda>_.
       and_then (map_err MSchMigrationMismatch (current_migration migrations)) (\<lambda>_.
       and_then (my_check_constraints cat) (\<lambda>_.
       and_then (my_check_triggers cat) (\<lambda>_.
       my_check_indexes cat))))))))"

definition my_check_schema :: "Migration list \<Rightarrow> my_catalog \<Rightarrow> my_env \<Rightarrow> my_db \<Rightarrow> MySchemaError + unit" where
  "my_check_schema migrations cat env db =
     (case mcat_acquire cat of
        Some source \<Rightarrow> Inl (my_schema_error_sql ''acquire schema-check connection'' source)
      | None \<Rightarrow> fst (my_check_schema_connection migrations cat env (tx_begin db)))"

section \<open>What an accepted catalog has\<close>

definition my_columns_accepted :: "my_catalog \<Rightarrow> string \<Rightarrow> my_ColumnSpec list \<Rightarrow> bool" where
  "my_columns_accepted cat table expected \<longleftrightarrow> (\<exists>columns. mcat_columns cat table = Inr columns
     \<and> meets mc_column_name ms_name (\<lambda>c s. my_column_compatible s c) columns expected)"

definition my_clauses_accepted :: "(string \<Rightarrow> string \<Rightarrow> bool) \<Rightarrow> my_CheckInfo list \<Rightarrow> string list \<Rightarrow> bool" where
  "my_clauses_accepted plausible checks names \<longleftrightarrow>
     (\<forall>name \<in> set names. \<exists>c \<in> set checks. mh_constraint_name c = name \<and> plausible name (mh_check_clause c))"

definition my_marker_table_accepted :: "my_catalog \<Rightarrow> bool" where
  "my_marker_table_accepted cat \<longleftrightarrow> (\<exists>marker constraints checks.
     mcat_marker_table cat = Inr (Some marker) \<and> innodb_table marker
     \<and> my_columns_accepted cat ''dovecote_schema'' my_marker_columns
     \<and> mcat_marker_constraints cat = Inr constraints \<and> length constraints = length MARKER_CHECK_NAMES + 1
     \<and> (\<exists>c \<in> set constraints. mn_constraint_name c = ''PRIMARY'' \<and> mn_constraint_type c = ''PRIMARY KEY'')
     \<and> mcat_marker_checks cat = Inr checks
     \<and> my_clauses_accepted marker_check_clause_is_plausible checks MARKER_CHECK_NAMES)"

definition my_tables_accepted :: "my_catalog \<Rightarrow> bool" where
  "my_tables_accepted cat \<longleftrightarrow> (\<exists>tables. mcat_tables cat = Inr tables
     \<and> (\<forall>name \<in> {''dovecote_events'', ''dovecote_deliveries''}.
          \<exists>t \<in> set tables. mb_table_name t = name \<and> innodb_table t)
     \<and> my_columns_accepted cat ''dovecote_events'' my_event_column_specs
     \<and> mcat_collation cat = Inr (Some ''utf8mb4_bin'')
     \<and> my_columns_accepted cat ''dovecote_deliveries'' my_delivery_column_specs)"

definition my_constraints_accepted :: "my_catalog \<Rightarrow> bool" where
  "my_constraints_accepted cat \<longleftrightarrow> (\<exists>constraints checks keys.
     mcat_constraints cat = Inr constraints
     \<and> set required_constraints
         \<subseteq> (\<lambda>c. (mn_table_name c, mn_constraint_name c, mn_constraint_type c)) ` set constraints
     \<and> length constraints = length CHECK_NAMES + 5
     \<and> mcat_checks cat = Inr checks \<and> my_clauses_accepted check_clause_is_plausible checks CHECK_NAMES
     \<and> mcat_keys cat = Inr keys
     \<and> map fst (keys_of keys ''dovecote_events_tenant_source_event_id'') = [''identity_key'']
     \<and> map fst (keys_of keys ''dovecote_events_tenant_row_unique'') = [''tenant_id'', ''row_id'']
     \<and> keys_of keys ''dovecote_deliveries_event_fk''
         = [(''tenant_id'', Some ''dovecote_events'', Some ''tenant_id''),
            (''event_row_id'', Some ''dovecote_events'', Some ''row_id'')]
     \<and> mcat_reference cat = Inr (Some ''RESTRICT''))"

definition my_triggers_accepted :: "my_catalog \<Rightarrow> bool" where
  "my_triggers_accepted cat \<longleftrightarrow> (\<exists>triggers. mcat_triggers cat = Inr triggers \<and> length triggers = 2
     \<and> (\<forall>t \<in> set triggers. mt_event_object_table t \<noteq> ''dovecote_deliveries'')
     \<and> (\<exists>t \<in> set triggers. is_row_id_trigger ''dovecote_events_row_id_positive_insert'' ''INSERT'' ''insert'' t)
     \<and> (\<exists>t \<in> set triggers. is_row_id_trigger ''dovecote_events_row_id_positive_update'' ''UPDATE'' ''update'' t))"

definition my_indexes_accepted :: "my_catalog \<Rightarrow> bool" where
  "my_indexes_accepted cat \<longleftrightarrow> (\<exists>indexes. mcat_indexes cat = Inr indexes
     \<and> mx_index_name ` set indexes \<subseteq> insert ''PRIMARY'' (fst ` set my_index_contracts)
     \<and> (\<forall>(name, table, unique, columns) \<in> set my_index_contracts.
          map (\<lambda>i. (mx_table_name i, mx_column_name i, mx_seq_in_index i, mx_non_unique i, mx_index_type i, mx_sub_part i))
            (filter (\<lambda>i. mx_index_name i = name) indexes)
          = map (\<lambda>n. (table, columns ! n, int n + 1, if unique then 0 else 1, ''BTREE'', None)) [0..<length columns]))"

text \<open>A catalog has no two columns of a table, checks or tables of one name.\<close>

definition my_catalog_distinct :: "my_catalog \<Rightarrow> bool" where
  "my_catalog_distinct cat \<longleftrightarrow>
     (\<forall>table columns. mcat_columns cat table = Inr columns \<longrightarrow> distinct (map mc_column_name columns))
     \<and> (\<forall>checks. mcat_checks cat = Inr checks \<or> mcat_marker_checks cat = Inr checks \<longrightarrow>
          distinct (map mh_constraint_name checks))
     \<and> (\<forall>tables. mcat_tables cat = Inr tables \<longrightarrow> distinct (map mb_table_name tables))"

lemma my_require_Inr [simp]: "my_require b d = Inr u \<longleftrightarrow> b"
  by (simp add: my_require_def my_mismatch_def)

lemma my_specs_distinct:
  "distinct (map ms_name my_marker_columns)" "distinct (map ms_name my_event_column_specs)"
  "distinct (map ms_name my_delivery_column_specs)"
  by (simp_all add: my_marker_columns_def my_event_column_specs_def my_delivery_column_specs_def
      my_spec_required_def my_spec_optional_def my_spec_required_default_def my_spec_required_exact_type_def
      my_spec_stored_generated_def)

lemma my_check_columns_iff:
  assumes "my_catalog_distinct cat" "distinct (map ms_name expected)"
  shows "my_check_columns cat table expected = Inr u \<longleftrightarrow> my_columns_accepted cat table expected"
proof (cases "mcat_columns cat table")
  case (Inr columns)
  then have d: "distinct (map mc_column_name columns)" using assms(1) by (auto simp: my_catalog_distinct_def)
  show ?thesis
    unfolding my_check_columns_def check_iffs my_columns_accepted_def my_mismatch_def Inr
    by (auto simp: meets_by_length [OF d assms(2)] check_found_iff [OF d, where name = ms_name and fits = "\<lambda>c s. my_column_compatible s c"])
qed (simp add: my_check_columns_def my_columns_accepted_def)

lemma my_check_clauses_iff:
  assumes "distinct (map mh_constraint_name checks)"
  shows "my_check_clauses what plausible checks names = Inr u \<longleftrightarrow> my_clauses_accepted plausible checks names"
  unfolding my_check_clauses_def check_iffs my_clauses_accepted_def my_mismatch_def
  by (simp add: check_found_iff [OF assms, where name = "\<lambda>n. n" and fits = "\<lambda>c n. plausible n (mh_check_clause c)"])

lemma check_marker_table_iff:
  assumes "my_catalog_distinct cat"
  shows "check_marker_table cat = Inr u \<longleftrightarrow> my_marker_table_accepted cat"
proof (cases "\<exists>m checks. mcat_marker_table cat = Inr (Some m) \<and> mcat_marker_checks cat = Inr checks")
  case True
  then obtain m checks where m: "mcat_marker_table cat = Inr (Some m)" "mcat_marker_checks cat = Inr checks" by blast
  then have d: "distinct (map mh_constraint_name checks)" using assms by (auto simp: my_catalog_distinct_def)
  show ?thesis
    by (auto simp: check_marker_table_def my_marker_table_accepted_def m check_iffs list_ex_iff
        my_check_clauses_iff [OF d] my_check_columns_iff [OF assms my_specs_distinct(1)])
next
  case False
  have "check_marker_table cat \<noteq> Inr u"
  proof
    assume "check_marker_table cat = Inr u"
    then show False
      using False by (auto simp: check_marker_table_def check_iffs my_mismatch_def split: option.splits)
  qed
  then show ?thesis using False by (auto simp: my_marker_table_accepted_def)
qed

lemma check_tables_iff:
  assumes "my_catalog_distinct cat"
  shows "check_tables_and_columns cat = Inr u \<longleftrightarrow> my_marker_table_accepted cat \<and> my_tables_accepted cat"
proof (cases "mcat_tables cat")
  case (Inr tables)
  then have d: "distinct (map mb_table_name tables)" using assms by (auto simp: my_catalog_distinct_def)
  note found = check_found_iff [OF d, where name = "\<lambda>n. n" and fits = "\<lambda>t n. innodb_table t"]
  show ?thesis
    unfolding check_tables_and_columns_def my_tables_accepted_def check_iffs my_mismatch_def Inr
      check_marker_table_iff [OF assms] my_check_columns_iff [OF assms my_specs_distinct(2)]
      my_check_columns_iff [OF assms my_specs_distinct(3)] my_require_Inr
    by (auto simp: found)
qed (auto simp: check_tables_and_columns_def my_tables_accepted_def and_then_Inr_iff)

lemma my_check_constraints_iff:
  assumes "my_catalog_distinct cat"
  shows "my_check_constraints cat = Inr u \<longleftrightarrow> my_constraints_accepted cat"
proof (cases "mcat_checks cat")
  case (Inr checks)
  then have d: "distinct (map mh_constraint_name checks)" using assms by (auto simp: my_catalog_distinct_def)
  have sub: "(\<forall>x \<in> set required_constraints. list_ex (\<lambda>c. mn_table_name c = fst x \<and> mn_constraint_name c = fst (snd x)
        \<and> mn_constraint_type c = snd (snd x)) constraints)
      \<longleftrightarrow> set required_constraints
         \<subseteq> (\<lambda>c. (mn_table_name c, mn_constraint_name c, mn_constraint_type c)) ` set constraints" for constraints
    by (force simp: list_ex_iff subset_iff image_iff)
  have keys: "my_check_keys keys = Inr w \<longleftrightarrow>
      map fst (keys_of keys ''dovecote_events_tenant_source_event_id'') = [''identity_key'']
      \<and> map fst (keys_of keys ''dovecote_events_tenant_row_unique'') = [''tenant_id'', ''row_id'']
      \<and> keys_of keys ''dovecote_deliveries_event_fk''
          = [(''tenant_id'', Some ''dovecote_events'', Some ''tenant_id''),
             (''event_row_id'', Some ''dovecote_events'', Some ''row_id'')]" for keys w
    unfolding my_check_keys_def and_then_Inr_iff my_require_Inr by simp
  show ?thesis
    unfolding my_check_constraints_def my_constraints_accepted_def check_iffs Inr my_require_Inr split_beta sub keys
    by (simp add: my_check_clauses_iff [OF d])
qed (auto simp: my_check_constraints_def my_constraints_accepted_def and_then_Inr_iff)

lemma my_check_triggers_iff: "my_check_triggers cat = Inr u \<longleftrightarrow> my_triggers_accepted cat"
  unfolding my_check_triggers_def my_triggers_accepted_def check_iffs my_require_Inr
  by (auto simp: list_ex_iff)

lemma map_eq_upt:
  "map f xs = map g [0..<m] \<longleftrightarrow> length xs = m \<and> (\<forall>n < m. f (xs ! n) = g n)"
proof
  show "map f xs = map g [0..<m] \<Longrightarrow> length xs = m \<and> (\<forall>n < m. f (xs ! n) = g n)"
    by (metis add_0 diff_zero length_map length_upt nth_map nth_upt)
qed (auto intro: nth_equalityI)

lemma my_check_indexes_iff: "my_check_indexes cat = Inr u \<longleftrightarrow> my_indexes_accepted cat"
proof -
  have one: "\<not> (length actual \<noteq> length columns
      \<or> list_ex (\<lambda>n. let i = actual ! n in
          mx_table_name i \<noteq> table \<or> mx_column_name i \<noteq> columns ! n \<or> mx_seq_in_index i \<noteq> int n + 1
          \<or> mx_non_unique i \<noteq> (if unique then 0 else 1) \<or> mx_index_type i \<noteq> ''BTREE''
          \<or> mx_sub_part i \<noteq> None) [0..<length actual])
    \<longleftrightarrow> map (\<lambda>i. (mx_table_name i, mx_column_name i, mx_seq_in_index i, mx_non_unique i, mx_index_type i, mx_sub_part i)) actual
      = map (\<lambda>n. (table, columns ! n, int n + 1, if unique then 0 else 1, ''BTREE'', None)) [0..<length columns]"
    for actual columns table unique
    unfolding map_eq_upt by (simp add: list_ex_iff Let_def Ball_def) blast
  have names: "\<not> list_ex (\<lambda>i. mx_index_name i \<noteq> ''PRIMARY'' \<and> mx_index_name i \<notin> set (map fst my_index_contracts)) indexes
      \<longleftrightarrow> mx_index_name ` set indexes \<subseteq> insert ''PRIMARY'' (fst ` set my_index_contracts)" for indexes
    by (auto simp: list_ex_iff)
  show ?thesis
    unfolding my_check_indexes_def my_indexes_accepted_def check_iffs split_beta Let_def my_require_Inr
      one [unfolded Let_def] names by blast
qed

text \<open>
  The whole: the marker of version 2, which asks for 0.2.0 and no rolling upgrade, and the parts.
\<close>

definition my_schema_accepted :: "my_catalog \<Rightarrow> bool" where
  "my_schema_accepted cat \<longleftrightarrow>
     mcat_markers cat = [\<lparr>mk_schema_version = 2, mk_minimum_crate_major = 0, mk_minimum_crate_minor = 2,
       mk_minimum_crate_patch = 0, mk_rolling_compatible = False\<rparr>]
     \<and> my_marker_table_accepted cat \<and> my_tables_accepted cat \<and> my_constraints_accepted cat
     \<and> my_triggers_accepted cat \<and> my_indexes_accepted cat"

lemma my_check_marker_iff:
  "my_check_schema_marker (MIGRATIONS sql) markers = Inr u \<longleftrightarrow>
     markers = [\<lparr>mk_schema_version = 2, mk_minimum_crate_major = 0, mk_minimum_crate_minor = 2,
       mk_minimum_crate_patch = 0, mk_rolling_compatible = False\<rparr>]"
proof (cases "length markers = 1")
  case True
  then obtain m where "markers = [m]" by (cases markers) auto
  moreover have "current_migration (MIGRATIONS sql) = Inr \<lparr>mig_version = 2, mig_sql = sql, mig_compatibility =
      \<lparr>compat_minimum = crate_version_new 0 2 0, compat_maximum = None\<rparr>, mig_rolling_compatible = False\<rparr>"
    unfolding current_migration_shipped by (simp add: MIGRATIONS_def)
  ultimately show ?thesis
    by (cases m) (auto simp: my_check_schema_marker_def crate_version_new_def wrap_signed_def and_then_Inr_iff)
qed (auto simp: my_check_schema_marker_def and_then_Inr_iff)

lemma my_check_schema_iff:
  assumes "my_catalog_distinct cat"
    and "my_fault env ''detect MySQL/MariaDB backend'' 1 = None" "my_fault env ''check schema marker'' 2 = None"
  shows "fst (my_check_schema_connection (MIGRATIONS sql) cat env t) = Inr u \<longleftrightarrow>
    (\<exists>info. detect_probe (my_probe env) = Inr info) \<and> my_schema_accepted cat"
proof (cases "detect_probe (my_probe env)")
  case (Inl e)
  then show ?thesis
    using assms(2) by (simp add: my_check_schema_connection_def detect_on_connection_def tx_then_def tx_map_err_def
        tx_return_def my_ask_def my_statement_def tx_statement_def)
next
  case (Inr info)
  have "detect_on_connection env t = (Inr info, tx_peer (my_peer env 1) t)" using assms(2) Inr by (simp add: detect_Inr)
  then show ?thesis
    using assms(3) Inr
    by (simp add: my_check_schema_connection_def tx_then_def tx_map_err_def tx_return_def my_read_def my_statement_def
        tx_statement_def tx_read_seen_def and_then_Inr_iff map_err_Inr_iff my_check_marker_iff current_migration_shipped
        check_tables_iff [OF assms(1)] my_check_constraints_iff [OF assms(1)] my_check_triggers_iff my_check_indexes_iff
        my_schema_accepted_def conj_assoc)
qed

end
