(* ===== verification/Mysql_Import.thy ===== *)
theory Mysql_Import
  imports Mysql_Enqueue Mysql_Schema
begin

text \<open>
  \<open>crates/dovecote-sqlx-mysql/src/import.rs\<close>, \<open>finalize.rs\<close> and \<open>delivery_state.rs\<close>: the migration
  workflow in a transaction of the caller. The schema check probes the server (statement 1) and
  reads the marker (statement 2), which opens the snapshot; the rows that decide the outcome are
  read with locks and so are those committed. A locking read that MariaDB refuses with error 1020
  is repeated, and leaves the transaction as it was.
\<close>

section \<open>Import\<close>

definition my_import_schema_error :: "MySchemaError \<Rightarrow> MyImportError" where
  "my_import_schema_error error =
     (case error of
        MSchMigrationMismatch detail \<Rightarrow> MImpMigrationMismatch detail
      | MSchBackendMismatch detail \<Rightarrow> MImpBackendMismatch detail
      | MSchSql operation source \<Rightarrow> MImpSql operation source
      | MSchTransient operation kind source \<Rightarrow> MImpTransient operation kind source)"

fun map_enqueue_error :: "MyEnqueueError \<Rightarrow> MyImportError" where
  "map_enqueue_error (MEnqIdempotencyConflict existing_row_id) = MImpIdentityConflict existing_row_id"
| "map_enqueue_error (MEnqMigrationMismatch detail) = MImpMigrationMismatch detail"
| "map_enqueue_error (MEnqBackendMismatch detail) = MImpBackendMismatch detail"
| "map_enqueue_error (MEnqSerialization detail) = MImpSerialization detail"
| "map_enqueue_error (MEnqSql operation source) = MImpSql operation source"
| "map_enqueue_error (MEnqTransient operation kind source) = MImpTransient operation kind source"
| "map_enqueue_error MEnqPanic = MImpPanic"

definition my_import_hydrate_error :: "hydrate_error \<Rightarrow> MyImportError" where
  "my_import_hydrate_error e = (case e of HErr d \<Rightarrow> MImpSerialization d | HPanic \<Rightarrow> MImpPanic)"

definition my_import_row_id :: "int \<Rightarrow> MyImportError + RowId" where
  "my_import_row_id v = map_err (\<lambda>e. MImpSerialization (verror_to_string e)) (row_id_new v)"

definition MAX_RECORD_CHANGED_RETRIES :: nat where
  "MAX_RECORD_CHANGED_RETRIES = 3"

definition is_record_changed_since_read :: "my_error \<Rightarrow> bool" where
  "is_record_changed_since_read source = (case source of MyDatabase _ number _ \<Rightarrow> number = 1020 | _ \<Rightarrow> False)"

text \<open>
  The checks and reads before the insert, which yield the operation time as it is bound.
\<close>

definition my_import_prepare ::
  "Migration list \<Rightarrow> my_catalog \<Rightarrow> my_env \<Rightarrow> ImportedDeliveryState \<Rightarrow> (MyImportError, int) my_action" where
  "my_import_prepare migrations cat env state =
     tx_then (tx_return (map_err MImpInvalidState (imported_validate state))) (\<lambda>_.
     tx_then (tx_map_err my_import_schema_error (my_check_schema_connection migrations cat env)) (\<lambda>_.
     tx_then (tx_map_err (my_import_error_sql ''read import operation time'')
       (my_database_time env ''read import operation time'' 3)) (\<lambda>operation_time.
     tx_then (tx_return (map_err MImpInvalidState (imported_delivered operation_time))) (\<lambda>_.
     tx_return (Inr (my_encode env operation_time))))))"

text \<open>The loop around the locking read of the event; its attempts are statements 5 to 8.\<close>

function my_read_imported ::
  "my_env \<Rightarrow> TenantId \<Rightarrow> NewEvent \<Rightarrow> nat \<Rightarrow> (my_error, int event_row option) my_action" where
  "my_read_imported env tenant event retries t =
     (case my_read_lock env ''find imported event'' (5 + retries) (my_find_event tenant event) (\<lambda>_. []) t of
        (Inr found, t') \<Rightarrow> (Inr found, t')
      | (Inl source, t') \<Rightarrow>
          if is_record_changed_since_read source \<and> retries < MAX_RECORD_CHANGED_RETRIES
            then my_read_imported env tenant event (Suc retries) t'
          else (Inl source, t'))"
  by pat_completeness auto
termination
  by (relation "measure (\<lambda>(_, _, _, retries, _). MAX_RECORD_CHANGED_RETRIES - retries)") auto

declare my_read_imported.simps [simp del]

definition my_insert_imported ::
  "my_env \<Rightarrow> TenantId \<Rightarrow> int \<Rightarrow> int \<Rightarrow> ImportedDeliveryState \<Rightarrow> (MyImportError, unit) my_action" where
  "my_insert_imported env tenant event_row_id operation_time state =
     tx_map_err (my_import_error_sql ''insert imported delivery'')
       (my_insert_delivery env ''insert imported delivery'' 9
         (imported_delivery_with (\<lambda>t. my_encode env (to_offset_utc t)) (tenant_id_str tenant) event_row_id
           operation_time state))"

definition my_delivery_matches :: "my_env \<Rightarrow> int delivery_row \<Rightarrow> ImportedDeliveryState \<Rightarrow> int \<Rightarrow> bool" where
  "my_delivery_matches env row state enqueued_at =
     matches_import_with (\<lambda>t. unix_nanos (to_offset_utc t)) (decode_delivery (my_instant env) row) state
       (my_instant env enqueued_at)"

text \<open>\<open>SELECT ... FOR UPDATE\<close> of a delivery by its key and tenant.\<close>

definition my_lock_delivery_row ::
  "my_env \<Rightarrow> string \<Rightarrow> nat \<Rightarrow> TenantId \<Rightarrow> int \<Rightarrow> (my_error, int delivery_row option) my_action" where
  "my_lock_delivery_row env label n tenant rid =
     my_read_lock env label n (my_find_delivery tenant rid)
       (\<lambda>found. case found of None \<Rightarrow> [] | Some d \<Rightarrow> [dr_event_row_id d])"

definition my_import_existing ::
  "ext_lib \<Rightarrow> my_env \<Rightarrow> TenantId \<Rightarrow> NewEvent \<Rightarrow> ImportedDeliveryState \<Rightarrow> int event_row \<Rightarrow> RowId
     \<Rightarrow> (MyImportError, ImportOutcome) my_action" where
  "my_import_existing lib env tenant event state existing existing_id =
     tx_then (tx_return (map_err my_import_hydrate_error
         (my_validate_existing_event lib env existing))) (\<lambda>_.
     tx_then (tx_return (map_err map_enqueue_error (my_same_event lib env event existing))) (\<lambda>same.
     if \<not> same then tx_return (Inl (MImpIdentityConflict existing_id))
     else
     tx_then (tx_map_err (my_import_error_sql ''find imported delivery'')
       (my_lock_delivery_row env ''find imported delivery'' 10 tenant (er_row_id existing))) (\<lambda>found.
     tx_then (tx_return (ok_or (MImpMigrationMismatch ''an existing event has no delivery row'') found))
       (\<lambda>delivery.
     tx_return (if my_delivery_matches env delivery state (er_enqueued_at existing)
       then Inr (AlreadyImported existing_id) else Inl (MImpImportConflict existing_id))))))"

definition my_import_for_scope ::
  "ext_lib \<Rightarrow> Migration list \<Rightarrow> my_catalog \<Rightarrow> my_env \<Rightarrow> TenantId \<Rightarrow> NewEvent \<Rightarrow> ImportedDeliveryState
     \<Rightarrow> (MyImportError, ImportOutcome) my_action" where
  "my_import_for_scope lib migrations cat env tenant event state =
     tx_then (my_import_prepare migrations cat env state) (\<lambda>operation_time.
     tx_then (tx_map_err (my_import_error_sql ''insert imported event'')
       (my_insert_new env ''insert imported event'' 4
         (my_event_columns lib env tenant event operation_time))) (\<lambda>inserted.
     tx_then (tx_map_err (my_import_error_sql ''find imported event'')
       (my_read_imported env tenant event 0)) (\<lambda>found.
     tx_then (tx_return (ok_or (my_import_error_sql ''resolve imported event''
         (MyProtocol ''identity insert returned no row'')) found)) (\<lambda>existing.
     tx_then (tx_return (my_import_row_id (er_row_id existing))) (\<lambda>existing_id.
     if inserted then
       tx_then (my_insert_imported env tenant (er_row_id existing) operation_time state) (\<lambda>_.
       tx_return (Inr (Imported existing_id)))
     else my_import_existing lib env tenant event state existing existing_id)))))"

section \<open>Finalisation\<close>

definition my_finalize_schema_error :: "MySchemaError \<Rightarrow> MyFinalizeError" where
  "my_finalize_schema_error error =
     (case error of
        MSchMigrationMismatch detail \<Rightarrow> MFinMigrationMismatch detail
      | MSchBackendMismatch detail \<Rightarrow> MFinBackendMismatch detail
      | MSchSql operation source \<Rightarrow> MFinSql operation source
      | MSchTransient operation kind source \<Rightarrow> MFinTransient operation kind source)"

text \<open>The verdict on the locked delivery, and its update.\<close>

definition my_finalize_row ::
  "my_env \<Rightarrow> TenantId \<Rightarrow> RowId \<Rightarrow> offset_date_time \<Rightarrow> int event_row \<Rightarrow> int delivery_row
     \<Rightarrow> (MyFinalizeError, FinalizeOutcome) my_action" where
  "my_finalize_row env tenant row_id delivered_at event delivery =
     (let row = decode_delivery (my_instant env) delivery; enqueued_at = my_instant env (er_enqueued_at event) in
     if dr_state row = ''delivered'' \<and> canonical row enqueued_at
       \<and> dr_delivered_at row = Some (unix_nanos delivered_at)
       then tx_return (Inr (AlreadyFinalized row_id))
     else if \<not> canonical_pending row enqueued_at then tx_return (Inl (MFinStateConflict row_id))
     else
     tx_then (tx_map_err (my_finalize_error_sql ''finalize migration delivery'')
       (my_statement env ''finalize migration delivery'' 5
         (my_update env
           (finalize_where (tenant_id_str tenant) (row_id_get row_id)
             (my_encode env (my_decode env (er_enqueued_at event))))
           (finalize_set (my_encode env delivered_at))))) (\<lambda>affected.
     tx_return (if affected \<noteq> 1 then Inl (MFinStateConflict row_id)
       else Inr (Finalized row_id))))"

definition my_finalize_for_scope ::
  "Migration list \<Rightarrow> my_catalog \<Rightarrow> my_env \<Rightarrow> TenantId \<Rightarrow> RowId \<Rightarrow> offset_date_time
     \<Rightarrow> (MyFinalizeError, FinalizeOutcome) my_action" where
  "my_finalize_for_scope migrations cat env tenant row_id delivered_at =
     tx_then (tx_return (map_err MFinInvalidTimestamp (imported_delivered delivered_at))) (\<lambda>_.
     tx_then (tx_map_err my_finalize_schema_error (my_check_schema_connection migrations cat env)) (\<lambda>_.
     tx_then (tx_map_err (my_finalize_error_sql ''lock migration event'')
       (my_read_lock env ''lock migration event'' 3
         (\<lambda>db. find_event db (tenant_id_str tenant) (row_id_get row_id)) (\<lambda>_. []))) (\<lambda>found.
     tx_then (tx_return (ok_or MFinNotFound found)) (\<lambda>event.
     tx_then (tx_map_err (my_finalize_error_sql ''lock migration delivery'')
       (my_lock_delivery_row env ''lock migration delivery'' 4 tenant (row_id_get row_id))) (\<lambda>found.
     tx_then (tx_return (ok_or (MFinMigrationMismatch ''an existing event has no delivery row'') found))
       (\<lambda>delivery.
     my_finalize_row env tenant row_id (to_offset_utc delivered_at) event delivery))))))"

section \<open>Consistent transactions\<close>

lemma reads_only_check_schema: "reads_only (my_check_schema_connection migrations cat env)"
  unfolding my_check_schema_connection_def by (intro my_reads)

lemma tx_runs_check_schema: "my_peers_ok env \<Longrightarrow> tx_runs (my_check_schema_connection migrations cat env)"
  unfolding my_check_schema_connection_def by (intro my_runs)

lemma reads_only_my_import_prepare: "reads_only (my_import_prepare migrations cat env state)"
  unfolding my_import_prepare_def my_database_time_def by (intro my_reads reads_only_check_schema)

lemma tx_runs_my_import_prepare: "my_peers_ok env \<Longrightarrow> tx_runs (my_import_prepare migrations cat env state)"
  unfolding my_import_prepare_def my_database_time_def by (intro my_runs tx_runs_check_schema)

text \<open>The loop ends with what a locking read found, or with the error of its last attempt.\<close>

lemma tx_lock_none: "tx_lock [] t = t"
  by (simp add: tx_lock_def)

lemma my_read_lock_state:
  "snd (my_read_lock env label n f (\<lambda>_. []) t) = tx_peer (my_peer env n) t"
  by (simp add: my_read_lock_def my_statement_def tx_statement_def Let_def tx_lock_none split: option.split)

lemma my_read_imported_run:
  assumes "my_peers_ok env" "my_read_imported env tenant event retries t = (r, t')"
  shows "tx_extends t t' \<and> own_writes t' = own_writes t \<and> tx_snapshot t' = tx_snapshot t
    \<and> (\<forall>found. r = Inr found \<longrightarrow> found = my_find_event tenant event (tx_view t'))"
  using assms
proof (induction env tenant event retries t rule: my_read_imported.induct)
  case (1 env tenant event retries t)
  let ?s = "tx_peer (my_peer env (5 + retries)) t"
  obtain a s where run: "my_read_lock env ''find imported event'' (5 + retries) (my_find_event tenant event) (\<lambda>_. []) t
      = (a, s)" by fastforce
  then have s: "s = ?s" using my_read_lock_state by (metis snd_conv)
  have ext: "tx_extends t s" unfolding s by (rule my_extends_peer [OF 1(2)])
  show ?case
  proof (cases a)
    case (Inl e)
    show ?thesis
    proof (cases "is_record_changed_since_read e \<and> retries < MAX_RECORD_CHANGED_RETRIES")
      case True
      then have "my_read_imported env tenant event (Suc retries) s = (r, t')"
        using 1(3) run Inl by (simp add: my_read_imported.simps [of env tenant event retries])
      from 1(1) [OF run [symmetric] Inl True 1(2) this] show ?thesis
        using tx_extends_trans [OF ext] by (auto simp: s own_writes_def)
    next
      case False
      then have "r = Inl e" "t' = s"
        using 1(3) run Inl by (auto simp: my_read_imported.simps [of env tenant event retries])
      then show ?thesis using ext by (simp add: s)
    qed
  next
    case (Inr found)
    then have "r = Inr found" "t' = s"
      using 1(3) run by (auto simp: my_read_imported.simps [of env tenant event retries])
    moreover have "found = my_find_event tenant event (tx_view s)"
      using run Inr s by (simp add: my_read_lock_Inr tx_lock_none)
    ultimately show ?thesis using ext by (simp add: s)
  qed
qed

lemma tx_runs_my_read_imported: "my_peers_ok env \<Longrightarrow> tx_runs (my_read_imported env tenant event retries)"
  by (rule tx_runsI) (use my_read_imported_run in blast)

lemma tx_runs_lock_row: "my_peers_ok env \<Longrightarrow> tx_runs (my_lock_delivery_row env label n tenant rid)"
  unfolding my_lock_delivery_row_def by (rule tx_runs_my_read_lock)

lemma reads_only_lock_row: "reads_only (my_lock_delivery_row env label n tenant rid)"
  unfolding my_lock_delivery_row_def by (rule reads_only_my_read_lock)

lemma reads_only_my_import_existing: "reads_only (my_import_existing lib env tenant event state existing rid)"
  unfolding my_import_existing_def by (intro my_reads reads_only_lock_row)

lemma tx_runs_my_import_existing:
  "my_peers_ok env \<Longrightarrow> tx_runs (my_import_existing lib env tenant event state existing rid)"
  unfolding my_import_existing_def by (intro my_runs tx_runs_lock_row)

lemma tx_runs_my_import:
  "my_peers_ok env \<Longrightarrow> tx_runs (my_import_for_scope lib migrations cat env tenant event state)"
  unfolding my_import_for_scope_def my_insert_imported_def
  by (intro my_runs tx_runs_my_import_prepare tx_runs_insert_new tx_runs_my_read_imported tx_runs_my_import_existing)

lemma tx_runs_my_finalize:
  assumes "my_peers_ok env"
  shows "tx_runs (my_finalize_for_scope migrations cat env tenant row_id delivered_at)"
proof -
  have "tx_runs (my_update env (finalize_where a b q) (finalize_set x))" for a b q x
    unfolding my_update_def by (intro tx_runs_then tx_runs_map_err tx_runs_return tx_runs_finalize_update)
  then show ?thesis
    unfolding my_finalize_for_scope_def my_finalize_row_def Let_def
    by (intro my_runs tx_runs_check_schema tx_runs_lock_row tx_runs_my_statement assms)
qed

section \<open>What an import does\<close>

lemma my_import_Inr:
  assumes "my_import_for_scope lib migrations cat env tenant event state t = (Inr out, t')"
  obtains now inserted r t1 t2 t3 where "my_import_prepare migrations cat env state t = (Inr now, t1)"
    "my_insert_new env ''insert imported event'' 4 (my_event_columns lib env tenant event now) t1 = (Inr inserted, t2)"
    "my_read_imported env tenant event 0 t2 = (Inr (Some r), t3)"
    "if inserted then my_insert_delivery env ''insert imported delivery'' 9
         (imported_delivery_with (\<lambda>t. my_encode env (to_offset_utc t)) (tenant_id_str tenant) (er_row_id r) now state) t3
         = (Inr (), t') \<and> out = Imported (RowId (er_row_id r))
     else my_import_existing lib env tenant event state r (RowId (er_row_id r)) t3 = (Inr out, t')"
  using assms unfolding my_import_for_scope_def tx_then_return tx_then_Inr_iff tx_map_err_Inr_iff
  by (auto simp: ok_or_Inr_iff map_err_Inr_iff row_id_new_Inr_iff my_import_row_id_def my_insert_imported_def
      tx_then_Inr_iff tx_map_err_Inr_iff split: if_splits intro: that)

lemma my_find_event_in:
  "my_find_event tenant event db = Some r \<Longrightarrow> r \<in> set (db_events db)
     \<and> event_identity r = (tenant_id_str tenant, source_str (ec_source (new_content event)),
         event_id_str (ec_id (new_content event)))"
  unfolding my_find_event_def find_identity_def event_identity_def by (auto dest: find_Some_in)

lemma my_import_existing_Inr:
  assumes "my_import_existing lib env tenant event state r rid t = (Inr out, t')"
  obtains d where "out = AlreadyImported rid" "my_same_event lib env event r = Inr True"
    "t' = tx_lock [er_row_id r] (tx_peer (my_peer env 10) t)"
    "my_find_delivery tenant (er_row_id r) (tx_view t') = Some d" "my_delivery_matches env d state (er_enqueued_at r)"
proof -
  let ?s = "tx_peer (my_peer env 10) t"
  from assms obtain d where d: "out = AlreadyImported rid" "my_same_event lib env event r = Inr True"
    "my_find_delivery tenant (er_row_id r) (tx_view ?s) = Some d" "t' = tx_lock [dr_event_row_id d] ?s"
    "my_delivery_matches env d state (er_enqueued_at r)"
    unfolding my_import_existing_def tx_then_return
    by (auto simp: map_err_Inr_iff ok_or_Inr_iff tx_then_Inr_iff tx_map_err_Inr_iff my_lock_delivery_row_def
        my_read_lock_Inr split: if_splits)
  then show thesis using that my_find_delivery_in [OF d(3)] by simp
qed

text \<open>
  An import inserts the event and its delivery, or finds both as it would have inserted them; the
  rows it judges are the committed ones, and the delivery is locked.
\<close>

lemma my_import_outcome:
  assumes "my_peers_ok env" "tx_ok t"
    and run: "my_import_for_scope lib migrations cat env tenant event state t = (Inr out, t')"
  obtains (imported) now where "out = Imported (RowId (my_row_id env))"
      "tx_events t' = tx_events t @ [my_event_columns lib env tenant event now]"
      "tx_deliveries t' = tx_deliveries t @ [imported_delivery_with (\<lambda>t. my_encode env (to_offset_utc t))
         (tenant_id_str tenant) (my_row_id env) now state]"
      "find_delivery (tx_db t') (my_row_id env) = None"
  | (already) r d where "out = AlreadyImported (RowId (er_row_id r))" "own_writes t' = own_writes t"
      "r \<in> set (db_events (tx_view t'))" "er_tenant_id r = tenant_id_str tenant"
      "my_same_event lib env event r = Inr True" "my_find_delivery tenant (er_row_id r) (tx_view t') = Some d"
      "my_delivery_matches env d state (er_enqueued_at r)" "er_row_id r \<in> set (tx_locked t')"
proof -
  from run obtain now inserted r t1 t2 t3 where v: "my_import_prepare migrations cat env state t = (Inr now, t1)"
    and i: "my_insert_new env ''insert imported event'' 4 (my_event_columns lib env tenant event now) t1
      = (Inr inserted, t2)"
    and f: "my_read_imported env tenant event 0 t2 = (Inr (Some r), t3)"
    and rest: "if inserted then my_insert_delivery env ''insert imported delivery'' 9
         (imported_delivery_with (\<lambda>t. my_encode env (to_offset_utc t)) (tenant_id_str tenant) (er_row_id r) now state) t3
         = (Inr (), t') \<and> out = Imported (RowId (er_row_id r))
     else my_import_existing lib env tenant event state r (RowId (er_row_id r)) t3 = (Inr out, t')"
    by (rule my_import_Inr)
  let ?row = "my_event_columns lib env tenant event now"
  have ok1: "tx_ok t1"
    by (rule tx_extends_ok [OF tx_runsD [OF tx_runs_my_import_prepare [OF assms(1)] assms(2) v] assms(2)])
  have own1: "own_writes t1 = own_writes t" by (rule reads_onlyD [OF reads_only_my_import_prepare v])
  have ok2: "tx_ok t2" by (rule tx_extends_ok [OF tx_runsD [OF tx_runs_insert_new [OF assms(1)] ok1 i] ok1])
  note read = my_read_imported_run [OF assms(1) f]
  have ok3: "tx_ok t3" using read tx_extends_ok ok2 by blast
  have r: "r \<in> set (db_events (tx_view t3))" "event_identity r = event_identity ?row"
    using my_find_event_in [of tenant event "tx_view t3" r] read by simp_all
  from assms(1) ok1 i show thesis
  proof (cases rule: my_insert_new_cases)
    case inserted': inserted
    have "?row \<in> set (db_events (tx_view t2))" by (simp add: inserted'(2) view_insert_event)
    then have "?row \<in> set (db_events (tx_view t3))" using read by (auto simp: tx_extends_def)
    moreover have "distinct (map event_identity (db_events (tx_view t3)))" using ok3 by (simp add: tx_ok_def db_ok_def)
    ultimately have eq: "r = ?row" using r by (metis distinct_map inj_onD)
    have out: "out = Imported (RowId (my_row_id env))"
      and ins: "my_insert_delivery env ''insert imported delivery'' 9 (imported_delivery_with
        (\<lambda>t. my_encode env (to_offset_utc t)) (tenant_id_str tenant) (my_row_id env) now state) t3 = (Inr (), t')"
      using rest inserted'(1) eq by simp_all
    note del = my_insert_delivery_Inr [OF assms(1) ok3 ins]
    show thesis
      by (rule imported [OF out]) (use del read own1 in \<open>simp_all add: inserted'(2) own_writes_def\<close>)
  next
    case duplicate
    then have run': "my_import_existing lib env tenant event state r (RowId (er_row_id r)) t3 = (Inr out, t')"
      using rest by simp
    then obtain d where d: "out = AlreadyImported (RowId (er_row_id r))" "my_same_event lib env event r = Inr True"
      "t' = tx_lock [er_row_id r] (tx_peer (my_peer env 10) t3)"
      "my_find_delivery tenant (er_row_id r) (tx_view t') = Some d" "my_delivery_matches env d state (er_enqueued_at r)"
      by (rule my_import_existing_Inr)
    have ext: "tx_extends t3 t'" by (rule tx_runsD [OF tx_runs_my_import_existing [OF assms(1)] ok3 run'])
    show thesis
    proof (rule already [OF d(1) _ _ _ d(2,4,5)])
      show "own_writes t' = own_writes t"
        using reads_onlyD [OF reads_only_my_import_existing run'] read own1 duplicate(2) by simp
      show "r \<in> set (db_events (tx_view t'))" using r(1) ext by (auto simp: tx_extends_def)
      show "er_tenant_id r = tenant_id_str tenant" using r(2) by (simp add: event_identity_def [of r])
      show "er_row_id r \<in> set (tx_locked t')" by (simp add: d(3) tx_lock_def)
    qed
  qed
qed

section \<open>What a finalisation does\<close>

text \<open>
  \<open>s\<close> is the transaction as the UPDATE saw it; the delivery is the untouched pending one and only
  its state and delivery time change.
\<close>

lemma my_finalize_Inr:
  assumes "my_peers_ok env" "tx_ok t"
    and run: "my_finalize_for_scope migrations cat env tenant row_id delivered_at t = (Inr out, t')"
  obtains (already) "out = AlreadyFinalized row_id" "own_writes t' = own_writes t"
  | (finalized) s d q where "out = Finalized row_id" "tx_extends t s" "own_writes s = own_writes t"
      "find_delivery (tx_view s) (row_id_get row_id) = Some d" "dr_tenant_id d = tenant_id_str tenant"
      "canonical_pending d q"
      "t' = tx_put (d\<lparr>dr_state := ''delivered'',
         dr_delivered_at := Some (my_encode env (to_offset_utc delivered_at))\<rparr>) s"
proof -
  from run obtain event delivery t1 t2 t3 where
    check: "my_check_schema_connection migrations cat env t = (Inr (), t1)"
    and ev: "my_read_lock env ''lock migration event'' 3
         (\<lambda>db. find_event db (tenant_id_str tenant) (row_id_get row_id)) (\<lambda>_. []) t1 = (Inr (Some event), t2)"
    and lock: "my_lock_delivery_row env ''lock migration delivery'' 4 tenant (row_id_get row_id) t2
      = (Inr (Some delivery), t3)"
    and rest: "my_finalize_row env tenant row_id (to_offset_utc delivered_at) event delivery t3 = (Inr out, t')"
    unfolding my_finalize_for_scope_def
    by (auto simp: tx_then_Inr_iff tx_map_err_Inr_iff ok_or_Inr_iff map_err_Inr_iff)
  note ext1 = tx_runsD [OF tx_runs_check_schema [OF assms(1)] assms(2) check]
  note ext2 = tx_runsD [OF tx_runs_my_read_lock [OF assms(1)] tx_extends_ok [OF ext1 assms(2)] ev]
  note ok2 = tx_extends_ok [OF tx_extends_trans [OF ext1 ext2] assms(2)]
  note ext3 = tx_runsD [OF tx_runs_lock_row [OF assms(1)] ok2 lock]
  have ext: "tx_extends t t3" using ext1 ext2 ext3 tx_extends_trans by blast
  have own: "own_writes t3 = own_writes t"
    using reads_onlyD [OF reads_only_check_schema check] reads_onlyD [OF reads_only_my_read_lock ev]
      reads_onlyD [OF reads_only_lock_row lock] by simp
  let ?s = "tx_peer (my_peer env 5) t3" and ?x = "my_encode env (to_offset_utc delivered_at)"
  have ok: "tx_ok ?s" by (rule my_ok_peer [OF assms(1) tx_extends_ok [OF ext assms(2)]])
  from rest consider (already) "out = AlreadyFinalized row_id" "t' = t3"
    | (changed) rows q where "tx_update (finalize_where (tenant_id_str tenant) (row_id_get row_id) q) (finalize_set ?x) ?s
        = (Inr rows, t')" "length rows = 1" "out = Finalized row_id"
    by (auto simp: my_finalize_row_def Let_def tx_then_Inr_iff tx_map_err_Inr_iff my_statement_Inr my_update_Inr
        split: if_splits)
  then show thesis
  proof cases
    case already
    then show thesis using that(1) own by simp
  next
    case changed
    have "rows \<noteq> []" using changed(2) by auto
    with ok changed(1) obtain d where
      "find_delivery (tx_view ?s) (row_id_get row_id) = Some d" "dr_tenant_id d = tenant_id_str tenant"
      "canonical_pending d q" "t' = tx_put (d\<lparr>dr_state := ''delivered'', dr_delivered_at := Some ?x\<rparr>) ?s"
      by (rule tx_update_finalize)
    then show thesis
      using that(2) [of ?s d q] changed(3) tx_extends_trans [OF ext my_extends_peer [OF assms(1)]] own by simp
  qed
qed

end
