(* ===== verification/Mysql_Claim.thy ===== *)
theory Mysql_Claim
  imports Mysql_Enqueue Adapter_Batch
begin

text \<open>
  \<open>crates/dovecote-sqlx-mysql/src/lifecycle/claim.rs\<close> with \<open>claim/candidates.rs\<close> and
  \<open>claim/preparation.rs\<close>. Windows of candidate ids are read without locks from the snapshot of the
  transaction; each id is then locked by its primary key with SKIP LOCKED, which sees what is
  committed; the locked rows are validated at one instant read after the last lock; then each row
  is updated and its expiry read back. Statements are numbered in the order they are issued:
  1 probes the server, the windows start at 2.
\<close>

section \<open>Candidates\<close>

definition my_claimable :: "int \<Rightarrow> TenantId option \<Rightarrow> int delivery_row \<Rightarrow> bool" where
  "my_claimable now tenant_id d \<longleftrightarrow> claim_scope tenant_id (dr_tenant_id d) \<and> claim_eligible now d"

definition event_by_id :: "'t db \<Rightarrow> int \<Rightarrow> 't event_row option" where
  "event_by_id db rid = find (\<lambda>e. er_row_id e = rid) (db_events db)"

definition candidate_ids :: "int \<Rightarrow> TenantId option \<Rightarrow> int \<Rightarrow> nat \<Rightarrow> my_db \<Rightarrow> int list" where
  "candidate_ids now tenant_id after_row_id limit db =
     take limit (sort (map dr_event_row_id (filter
       (\<lambda>d. event_by_id db (dr_event_row_id d) \<noteq> None \<and> after_row_id < dr_event_row_id d
          \<and> my_claimable now tenant_id d) (db_deliveries db))))"

text \<open>
  The columns of a locked candidate; the tenant is that of the delivery. \<open>skipped\<close> says whether
  another session holds a lock on the row.
\<close>

definition candidate_columns ::
  "int \<Rightarrow> TenantId option \<Rightarrow> bool \<Rightarrow> int \<Rightarrow> my_db \<Rightarrow> int durable_row option" where
  "candidate_columns now tenant_id skipped rid db =
     (case find (\<lambda>d. dr_event_row_id d = rid \<and> my_claimable now tenant_id d \<and> \<not> skipped) (db_deliveries db) of
        None \<Rightarrow> None
      | Some d \<Rightarrow>
          map_option (\<lambda>e. durable_join (e\<lparr>er_tenant_id := dr_tenant_id d\<rparr>) (Some d)) (event_by_id db rid))"

definition lock_candidate ::
  "my_env \<Rightarrow> TenantId option \<Rightarrow> nat \<Rightarrow> int \<Rightarrow> (MyClaimError, int durable_row option) my_action" where
  "lock_candidate env tenant_id n rid =
     tx_map_err (my_claim_error_sql ''lock claim candidate'')
       (my_read_lock env ''lock claim candidate'' n
         (candidate_columns (my_clock env n) tenant_id (my_locked env n rid) rid)
         (\<lambda>candidate. if candidate = None then [] else [rid]))"

text \<open>
  The state of the loops: the number of the next statement, \<open>after_row_id\<close> and the candidates so
  far. \<open>lock_window\<close> is the inner loop over the ids of one window.
\<close>

type_synonym claim_window = "nat \<times> int \<times> int durable_row list"

fun lock_window ::
  "my_env \<Rightarrow> TenantId option \<Rightarrow> nat \<Rightarrow> int list \<Rightarrow> claim_window \<Rightarrow> (MyClaimError, claim_window) my_action" where
  "lock_window env tenant_id limit [] w = tx_return (Inr w)"
| "lock_window env tenant_id limit (rid # ids) (n, after_row_id, candidates) =
     tx_then (lock_candidate env tenant_id n rid) (\<lambda>found.
       case found of
         None \<Rightarrow> lock_window env tenant_id limit ids (Suc n, rid, candidates)
       | Some candidate \<Rightarrow>
           if length (candidates @ [candidate]) = limit
             then tx_return (Inr (Suc n, rid, candidates @ [candidate]))
           else lock_window env tenant_id limit ids (Suc n, rid, candidates @ [candidate]))"

definition read_window ::
  "my_env \<Rightarrow> TenantId option \<Rightarrow> nat \<Rightarrow> nat \<Rightarrow> int \<Rightarrow> (MyClaimError, int list) my_action" where
  "read_window env tenant_id limit n after_row_id =
     tx_map_err (my_claim_error_sql ''select claim candidate IDs'')
       (my_read env ''select claim candidate IDs'' n
         (candidate_ids (my_clock env n) tenant_id after_row_id limit))"

text \<open>What a plain read of the transaction can still find after a row id.\<close>

definition window_rest :: "int \<Rightarrow> my_txn \<Rightarrow> nat" where
  "window_rest after_row_id t =
     length (filter (\<lambda>d. after_row_id < dr_event_row_id d) (db_deliveries (tx_seen t)))"

lemma read_window_ids:
  assumes "read_window env tenant limit n a t = (Inr ids, t1)"
  shows "tx_snapshot t1 \<noteq> None" and "tx_snapshot t \<noteq> None \<Longrightarrow> tx_seen t1 = tx_seen t"
    and "tx_deliveries t1 = tx_deliveries t" and "tx_events t1 = tx_events t"
    and "ids = candidate_ids (my_clock env n) tenant a limit (tx_seen t1)"
proof -
  have t1: "t1 = tx_open (tx_peer (my_peer env n) t)"
    and ids: "ids = candidate_ids (my_clock env n) tenant a limit (tx_seen t1)"
    using assms by (auto simp: read_window_def tx_map_err_Inr_iff my_read_Inr)
  show "tx_snapshot t1 \<noteq> None" "tx_deliveries t1 = tx_deliveries t" "tx_events t1 = tx_events t"
    unfolding t1 by simp_all
  show "ids = candidate_ids (my_clock env n) tenant a limit (tx_seen t1)" by (rule ids)
  show "tx_seen t1 = tx_seen t" if "tx_snapshot t \<noteq> None"
    using that by (auto simp: t1 tx_seen_def tx_view_def tx_open_def)
qed

lemma length_filter_drops:
  assumes "x \<in> set xs" "P x" "\<not> Q x" "\<And>y. Q y \<Longrightarrow> P y"
  shows "length (filter Q xs) < length (filter P xs)"
proof -
  have "(\<lambda>y. P y \<and> Q y) = Q" using assms(4) by auto
  then have "filter Q (filter P xs) = filter Q xs" by simp
  then show ?thesis using length_filter_less [of x "filter P xs" Q] assms(1-3) by simp
qed

lemma candidate_ids_after: "rid \<in> set (candidate_ids now tenant a limit db) \<Longrightarrow>
    a < rid \<and> rid \<in> dr_event_row_id ` set (db_deliveries db)"
  by (auto simp: candidate_ids_def dest!: in_set_takeD)

lemma lock_candidate_sel:
  "lock_candidate env tenant n rid t = (r, t') \<Longrightarrow>
     tx_snapshot t' = tx_snapshot t \<and> tx_deliveries t' = tx_deliveries t \<and> tx_events t' = tx_events t"
  by (auto simp: lock_candidate_def tx_map_err_def my_read_lock_def my_statement_def tx_statement_def Let_def
      split: option.splits)

lemma lock_window_sel:
  assumes "lock_window env tenant limit ids (n, a, cs) t = (Inr (n', a', cs'), t')"
  shows "tx_snapshot t' = tx_snapshot t \<and> tx_deliveries t' = tx_deliveries t \<and> tx_events t' = tx_events t
    \<and> (ids = [] \<and> a' = a \<or> a' \<in> set ids)"
  using assms
proof (induction ids arbitrary: n a cs t)
  case (Cons rid ids)
  from Cons.prems obtain found t1 where lock: "lock_candidate env tenant n rid t = (Inr found, t1)"
    by (auto simp: tx_then_Inr_iff)
  note sel = lock_candidate_sel [OF lock]
  show ?case
  proof (cases "\<exists>c. found = Some c \<and> length (cs @ [c]) = limit")
    case True
    then show ?thesis using Cons.prems lock sel by (auto simp: tx_then_def tx_return_def)
  next
    case False
    then obtain cs1 where "lock_window env tenant limit ids (Suc n, rid, cs1) t1 = (Inr (n', a', cs'), t')"
      using Cons.prems lock by (cases found) (auto simp: tx_then_def)
    from Cons.IH [OF this] sel show ?thesis by auto
  qed
qed (simp add: tx_return_def)

text \<open>
  The outer loop. It ends because every window starts after the last id of the one before, and
  all windows are read from one snapshot.
\<close>

function lock_windows ::
  "my_env \<Rightarrow> TenantId option \<Rightarrow> nat \<Rightarrow> claim_window \<Rightarrow> (MyClaimError, nat \<times> int durable_row list) my_action" where
  "lock_windows env tenant_id limit (n, after_row_id, candidates) t =
     (if limit \<le> length candidates then (Inr (n, candidates), t)
      else case read_window env tenant_id limit n after_row_id t of
        (Inl e, t) \<Rightarrow> (Inl e, t)
      | (Inr ids, t1) \<Rightarrow>
          if ids = [] then (Inr (Suc n, candidates), t1)
          else case lock_window env tenant_id limit ids (Suc n, after_row_id, candidates) t1 of
            (Inl e, t) \<Rightarrow> (Inl e, t)
          | (Inr w, t2) \<Rightarrow> lock_windows env tenant_id limit w t2)"
  by pat_completeness auto
termination
proof (relation "measures [\<lambda>(env, tenant, limit, (n, a, cs), t). if tx_snapshot t = None then 1 else 0,
    \<lambda>(env, tenant, limit, (n, a, cs), t). window_rest a t]", goal_cases)
  case 1
  then show ?case by simp
next
  case (2 env tenant limit n a cs t r t1 ids res t2 w)
  obtain n' a' cs' where w: "w = (n', a', cs')" by (cases w)
  have read: "read_window env tenant limit n a t = (Inr ids, t1)" and ne: "ids \<noteq> []"
    and lock: "lock_window env tenant limit ids (Suc n, a, cs) t1 = (Inr (n', a', cs'), t2)"
    using 2 by (simp_all add: w)
  note ids = read_window_ids [OF read]
  note sel = lock_window_sel [OF lock]
  have snap: "tx_snapshot t2 \<noteq> None" using ids(1) sel by simp
  show ?case
  proof (cases "tx_snapshot t")
    case None
    then show ?thesis using snap by (auto simp: w)
  next
    case (Some s)
    have seen: "tx_seen t2 = tx_seen t" "tx_seen t1 = tx_seen t"
      using ids(1-3) sel Some by (auto simp: tx_seen_def tx_view_def)
    have "a' \<in> set ids" using sel ne by auto
    then have "a < a'" "a' \<in> dr_event_row_id ` set (db_deliveries (tx_seen t))"
      using candidate_ids_after ids(5) seen(2) by auto
    then obtain d where d: "d \<in> set (db_deliveries (tx_seen t))" "a < dr_event_row_id d" "\<not> a' < dr_event_row_id d"
      by auto
    have "window_rest a' t2 < window_rest a t"
      unfolding window_rest_def seen
      by (rule length_filter_drops [of d]) (use d \<open>a < a'\<close> in auto)
    then show ?thesis using snap Some by (auto simp: w)
  qed
qed

definition my_schema_to_claim :: "MySchemaError \<Rightarrow> MyClaimError" where
  "my_schema_to_claim error =
     (case error of
        MSchBackendMismatch detail \<Rightarrow> MClmBackendMismatch detail
      | MSchMigrationMismatch detail \<Rightarrow> MClmMigrationMismatch detail
      | MSchSql operation source \<Rightarrow> my_claim_error_sql operation source
      | MSchTransient operation kind source \<Rightarrow> MClmTransient operation kind source)"

definition lock_candidates ::
  "my_env \<Rightarrow> TenantId option \<Rightarrow> nat \<Rightarrow> (MyClaimError, nat \<times> int durable_row list) my_action" where
  "lock_candidates env tenant_id limit = lock_windows env tenant_id limit (2, 0, [])"

text \<open>The statements before the preparation.\<close>

definition my_claim_select ::
  "my_env \<Rightarrow> TenantId option \<Rightarrow> nat \<Rightarrow> (MyClaimError, nat \<times> int durable_row list) my_action" where
  "my_claim_select env tenant_id limit =
     tx_then (tx_map_err my_schema_to_claim (detect_on_connection env)) (\<lambda>info.
     if \<not> skip_locked (bi_capabilities info) then tx_return (Inl (MClmBackendMismatch SkipLockedMissing))
     else lock_candidates env tenant_id limit)"

section \<open>Preparation\<close>

definition my_claim_verror :: "ValidationError \<Rightarrow> MyClaimError" where
  "my_claim_verror e = MClmSerialization (verror_to_string e)"

definition my_claim_hydrate_error :: "hydrate_error \<Rightarrow> MyClaimError" where
  "my_claim_hydrate_error e = (case e of HErr d \<Rightarrow> MClmSerialization d | HPanic \<Rightarrow> MClmPanic)"

text \<open>Instants are compared as \<open>OffsetDateTime\<close> values; \<open>now\<close> is the stored form of the operation time.\<close>

definition my_validate_delivery :: "my_env \<Rightarrow> int \<Rightarrow> int durable_row \<Rightarrow> MyClaimError + unit" where
  "my_validate_delivery env now candidate =
     (let state = the (du_state candidate); token = du_claim_token candidate;
          due = (\<lambda>at. my_instant env at \<le> my_instant env now) in
      and_then
        (if state = ''pending'' \<and> token = None \<and> du_claimed_by candidate = None
            \<and> du_claim_expires_at candidate = None \<and> due (the (du_available_at candidate)) then Inr ()
         else if state = ''claimed'' \<and> (\<exists>k \<in> set_option token. length k = CLAIM_TOKEN_BYTES)
            \<and> du_claimed_by candidate \<noteq> None
            \<and> (\<exists>x \<in> set_option (du_claim_expires_at candidate). due x) then Inr ()
         else if state = ''pending'' \<and> token \<noteq> None
           then Inl (MClmSerialization ''pending delivery has an unexpected claim token'')
         else if state = ''claimed'' \<and> token = None
           then Inl (MClmSerialization ''claimed delivery has no claim token'')
         else if state = ''claimed''
           then Inl (MClmSerialization ''claimed delivery has an invalid claim token width'')
         else Inl (MClmSerialization ''claim candidate has an unknown state'')) (\<lambda>_.
      if state = ''claimed'' then
        and_then (ok_or (MClmSerialization ''claimed delivery worker is not UTF-8'')
          (Option.bind (du_claimed_by candidate) (\<lambda>w. if utf8_valid w then Some w else None))) (\<lambda>worker.
        and_then (map_err my_claim_verror (worker_id_new worker)) (\<lambda>_. Inr ()))
      else Inr ()))"

definition my_claim_tenant :: "int durable_row \<Rightarrow> MyClaimError + TenantId" where
  "my_claim_tenant candidate =
     (if utf8_valid (er_tenant_id (du_event candidate))
        then map_err my_claim_verror (tenant_id_new (er_tenant_id (du_event candidate)))
      else Inl (MClmSerialization ''stored tenant id is not UTF-8''))"

text \<open>The body of the loop, before and after it needs entropy.\<close>

definition my_claim_counter ::
  "my_env \<Rightarrow> int \<Rightarrow> int durable_row \<Rightarrow> MyClaimError + (RowId \<times> AttemptCount)" where
  "my_claim_counter env now candidate =
     and_then (my_claim_tenant candidate) (\<lambda>_.
     and_then (map_err my_claim_verror (row_id_new (er_row_id (du_event candidate)))) (\<lambda>row_id.
     and_then (my_validate_delivery env now candidate) (\<lambda>_.
     and_then (ok_or (MClmCounterOverflow row_id) (checked_add_i64 (the (du_attempts candidate)) 1)) (\<lambda>m.
     and_then (map_err my_claim_verror (attempt_count_new m)) (\<lambda>attempts. Inr (row_id, attempts))))))"

definition my_claim_hydrate ::
  "ext_lib \<Rightarrow> my_env \<Rightarrow> int durable_row \<Rightarrow> RowId \<Rightarrow> AttemptCount \<Rightarrow> bytes \<Rightarrow> MyClaimError + prepared_claim" where
  "my_claim_hydrate lib env candidate row_id attempts token =
     and_then (my_claim_tenant candidate) (\<lambda>tenant_id.
     and_then (map_err my_claim_hydrate_error (my_hydrate_event lib env (du_event candidate))) (\<lambda>event.
       Inr \<lparr>pc_row_id = row_id, pc_event_row_id = er_row_id (du_event candidate),
            pc_tenant_id = tenant_id, pc_event = event, pc_attempts = attempts, pc_token = token\<rparr>))"

definition my_prepare_batch ::
  "ext_lib \<Rightarrow> my_env \<Rightarrow> int \<Rightarrow> entropy \<Rightarrow> int durable_row list
     \<Rightarrow> ((MyClaimError + prepared_claim list) \<times> entropy) option" where
  "my_prepare_batch lib env now entropy candidates =
     prepare_claims_with (my_claim_counter env now) MClmEntropyUnavailable (my_claim_hydrate lib env)
       [] entropy candidates"

section \<open>Updates\<close>

text \<open>The second loop, one claim: statement \<open>n\<close> updates the row, \<open>n + 1\<close> reads its expiry.\<close>

definition my_update_claimed ::
  "my_env \<Rightarrow> int option \<Rightarrow> WorkerId \<Rightarrow> nat \<Rightarrow> prepared_claim \<Rightarrow> (MyClaimError, nat) my_action" where
  "my_update_claimed env expiry worker n p =
     tx_map_err (my_claim_error_sql ''update claimed delivery'')
       (my_statement env ''update claimed delivery'' n
         (my_update env (claim_update_where p) (\<lambda>d. Some (claim_update_row expiry worker p d))))"

definition my_read_expiry :: "my_env \<Rightarrow> nat \<Rightarrow> prepared_claim \<Rightarrow> (MyClaimError, int) my_action" where
  "my_read_expiry env n p =
     tx_map_err (my_claim_error_sql ''read claimed expiry'')
       (tx_then (my_read env ''read claimed expiry'' n (my_find_delivery (pc_tenant_id p) (pc_event_row_id p)))
         (\<lambda>row. tx_return (and_then (ok_or MyRowNotFound row) (\<lambda>d.
            ok_or (MyOther ''unexpected null; try decoding as an `Option`'') (dr_claim_expires_at d)))))"

definition my_claim_row ::
  "my_env \<Rightarrow> int option \<Rightarrow> WorkerId \<Rightarrow> nat \<Rightarrow> prepared_claim \<Rightarrow> (MyClaimError, ClaimedEvent) my_action" where
  "my_claim_row env expiry worker n p =
     tx_then (my_update_claimed env expiry worker n p) (\<lambda>_.
     tx_then (my_read_expiry env (Suc n) p) (\<lambda>x.
     tx_return (map_err my_claim_verror
       (claimed_event_new (pc_tenant_id p) (pc_row_id p) (pc_event p) (pc_attempts p)
         (claim_token_from_bytes (pc_token p)) worker (my_decode env x)))))"

definition my_persist_batch ::
  "my_env \<Rightarrow> nat \<Rightarrow> prepared_claim list \<Rightarrow> WorkerId \<Rightarrow> Lease \<Rightarrow> offset_date_time
     \<Rightarrow> (MyClaimError, ClaimedEvent list) my_action" where
  "my_persist_batch env n prepared worker lease_for operation_time =
     tx_then (tx_return (map_err MClmSerialization (duration_micros (lease_get lease_for)))) (\<lambda>lease_micros.
     apply_claims_with (\<lambda>i. my_claim_row env (my_plus env (my_encode env operation_time) lease_micros) worker (n + 2 * i))
       0 prepared)"

text \<open>The transaction up to its commit, with what it has read of the entropy.\<close>

definition my_claim_body ::
  "ext_lib \<Rightarrow> my_env \<Rightarrow> TenantId option \<Rightarrow> WorkerId \<Rightarrow> Lease \<Rightarrow> PageLimit \<Rightarrow> entropy \<Rightarrow> my_txn
     \<Rightarrow> ((MyClaimError + ClaimedEvent list) \<times> entropy \<times> my_txn) option" where
  "my_claim_body lib env tenant_id worker lease_for limit entropy t =
     (case my_claim_select env tenant_id (limit_get limit) t of
        (Inl e, t) \<Rightarrow> Some (Inl e, entropy, t)
      | (Inr (n, candidates), t) \<Rightarrow>
     if candidates = [] then Some (Inr [], entropy, t)
     else case tx_map_err (my_claim_error_sql ''read claim operation time'')
         (my_database_time env ''read claim operation time'' n) t of
        (Inl e, t) \<Rightarrow> Some (Inl e, entropy, t)
      | (Inr operation_time, t) \<Rightarrow>
     case my_prepare_batch lib env (my_clock env n) entropy candidates of
        None \<Rightarrow> None
      | Some (Inl e, rest) \<Rightarrow> Some (Inl e, rest, t)
      | Some (Inr prepared, rest) \<Rightarrow>
     case my_persist_batch env (Suc n) prepared worker lease_for operation_time t of
        (r, t) \<Rightarrow> Some (r, rest, t))"

text \<open>Outcome, remaining entropy and committed state; an error before the commit rolls back.\<close>

definition my_claim_with_entropy_scoped ::
  "ext_lib \<Rightarrow> my_env \<Rightarrow> TenantId option \<Rightarrow> WorkerId \<Rightarrow> Lease \<Rightarrow> PageLimit \<Rightarrow> entropy \<Rightarrow> my_db
     \<Rightarrow> ((MyClaimError + ClaimedEvent list) \<times> entropy \<times> my_db) option" where
  "my_claim_with_entropy_scoped lib env tenant_id worker lease_for limit entropy db =
     (case my_fault env ''begin claim transaction'' 0 of
        Some source \<Rightarrow> Some (Inl (my_claim_error_sql ''begin claim transaction'' source), entropy, db)
      | None \<Rightarrow>
     case my_claim_body lib env tenant_id worker lease_for limit entropy (tx_begin db) of
        None \<Rightarrow> None
      | Some (Inl e, rest, t) \<Rightarrow> Some (Inl e, rest, tx_db t)
      | Some (Inr claimed, rest, t) \<Rightarrow>
     case my_finish env t of
        (Inl source, db') \<Rightarrow> Some (Inl (my_claim_error_sql ''commit claim transaction'' source), rest, db')
      | (Inr _, db') \<Rightarrow> Some (Inr claimed, rest, db'))"

text \<open>\<open>OsEntropy\<close> is the list of the operating system's answers.\<close>

definition my_claim_for_scope ::
  "ext_lib \<Rightarrow> my_env \<Rightarrow> TenantId option \<Rightarrow> WorkerId \<Rightarrow> Lease \<Rightarrow> PageLimit \<Rightarrow> entropy \<Rightarrow> my_db
     \<Rightarrow> ((MyClaimError + ClaimedEvent list) \<times> entropy \<times> my_db) option" where
  "my_claim_for_scope = my_claim_with_entropy_scoped"

section \<open>The preparation meets the shared interface\<close>

lemma my_claim_tenant_Inr: "my_claim_tenant c = Inr t \<Longrightarrow> t = TenantId (er_tenant_id (du_event c))"
  by (auto simp: my_claim_tenant_def map_err_Inr_iff tenant_id_new_Inr_iff split: if_splits)

lemma my_claim_hydrate_sel:
  assumes "my_claim_hydrate lib env c r n k = Inr p"
  shows "pc_row_id p = r \<and> pc_attempts p = n \<and> pc_token p = k
    \<and> pc_event_row_id p = er_row_id (du_event c) \<and> pc_tenant_id p = TenantId (er_tenant_id (du_event c))"
  using assms my_claim_tenant_Inr [of c] unfolding my_claim_hydrate_def and_then_Inr_iff map_err_Inr_iff
  by auto

lemma my_claim_counter_sel:
  assumes "my_claim_counter env now (durable_join e (Some d)) = Inr (r, n)"
  shows "r = RowId (er_row_id e) \<and> n = AttemptCount (dr_attempts d + 1) \<and> i64_range (dr_attempts d + 1)"
  using assms unfolding my_claim_counter_def and_then_Inr_iff map_err_Inr_iff ok_or_Inr_iff
    row_id_new_Inr_iff attempt_count_new_Inr_iff
  by (auto simp: durable_join_def)

interpretation my_claim: claim_preparation "my_claim_counter env now" MClmEntropyUnavailable "my_claim_hydrate lib env"
  for env now lib
  by unfold_locales (rule my_claim_counter_sel my_claim_hydrate_sel; assumption)+

text \<open>A validated candidate is eligible at the operation time.\<close>

lemma my_validate_eligible:
  assumes "my_codec env" "my_claim_counter env now (durable_join e (Some d)) = Inr r"
  shows "claim_eligible now d"
proof -
  have "my_validate_delivery env now (durable_join e (Some d)) = Inr ()"
    using assms(2) unfolding my_claim_counter_def and_then_Inr_iff by auto
  then show ?thesis
    by (auto simp: my_validate_delivery_def Let_def and_then_Inr_iff durable_join_def claim_eligible_def
        my_codec_le [OF assms(1)] split: if_splits)
qed

section \<open>Writes\<close>

lemma tx_runs_my_claim_row:
  assumes "my_peers_ok env"
  shows "tx_runs (my_claim_row env x worker n p)"
proof -
  have upd: "tx_runs (my_update env (claim_update_where p) (\<lambda>d. Some (claim_update_row x worker p d)))"
    by (rule tx_runs_my_update [where n = "pc_event_row_id p"]) (auto simp: claim_update_where_def)
  show ?thesis
    unfolding my_claim_row_def my_update_claimed_def my_read_expiry_def
    by (intro my_runs tx_runs_my_statement upd assms)
qed

lemma my_claim_row_Inr:
  assumes "my_peers_ok env" "tx_ok t"
    and run: "my_claim_row env x worker n p t = (Inr c, t')"
    and locked: "pc_event_row_id p \<in> set (tx_locked t)"
    and fresh: "row_in (tx_deliveries t) (pc_event_row_id p) = None"
    and found: "find_delivery (tx_db t) (pc_event_row_id p) = Some d" "claim_update_where p d"
  shows "claimed_from worker p c \<and> tx_events t' = tx_events t
    \<and> (\<forall>r. row_in (tx_deliveries t') r = (if r = pc_event_row_id p
         then Some (claim_update_row x worker p d) else row_in (tx_deliveries t) r))"
proof -
  let ?t = "tx_peer (my_peer env n) t" and ?f = "\<lambda>d. Some (claim_update_row x worker p d)"
  from run obtain rows t1 y where upd: "tx_update (claim_update_where p) ?f ?t = (Inr rows, t1)"
    and t': "t' = tx_open (tx_peer (my_peer env (Suc n)) t1)"
    and c: "claimed_event_new (pc_tenant_id p) (pc_row_id p) (pc_event p) (pc_attempts p)
         (claim_token_from_bytes (pc_token p)) worker (my_decode env y) = Inr c"
    unfolding my_claim_row_def my_update_claimed_def my_read_expiry_def action_simps my_statement_Inr
      my_update_Inr my_read_Inr map_err_Inr_iff by auto
  have ok: "tx_ok ?t" by (rule my_ok_peer [OF assms(1,2)])
  have keys: "\<forall>d e. ?f d = Some e \<longrightarrow> dr_event_row_id e = dr_event_row_id d \<and> dr_tenant_id e = dr_tenant_id d"
    "\<forall>d. claim_update_where p d \<longrightarrow> dr_event_row_id d = pc_event_row_id p"
    by (auto simp: claim_update_where_def)
  have view: "find_delivery (tx_view ?t) (pc_event_row_id p) = Some d"
    using found(1) fresh peers_okD(3) [of "my_peer env n" _ t] locked assms(1)
    by (simp add: find_view my_peers_ok_def)
  then have "d \<in> set (db_deliveries (tx_view ?t))" by (auto simp: find_delivery_def dest: find_Some_in)
  then have "rows \<noteq> []"
    using upd found(2) by (auto simp: tx_update_def table_update_deliveries_def Let_def filter_empty_conv
        split: if_splits sum.splits)
  then have t1: "t1 = tx_put (claim_update_row x worker p d) ?t"
    using tx_update_one(1) [where f = ?f, OF ok upd _ keys] view by auto
  have "dr_event_row_id d = pc_event_row_id p" using keys(2) found(2) by blast
  moreover have "claimed_from worker p c"
    using c unfolding claimed_event_new_Inr_iff by (simp add: claimed_from_def claim_token_from_bytes_def)
  ultimately show ?thesis unfolding t' t1 by (simp add: row_in_put)
qed

interpretation my_writer: claim_writer "my_peers_ok env" "\<lambda>i. my_claim_row env x worker (n + 2 * i)" x worker
  for env x worker n
  by unfold_locales (rule tx_runs_my_claim_row my_claim_row_Inr; assumption)+

section \<open>Locked candidates\<close>

text \<open>
  The candidates so far: in row order, each the columns of a committed delivery in scope that the
  transaction has locked.
\<close>

definition locked_row :: "my_txn \<Rightarrow> TenantId option \<Rightarrow> int event_row \<Rightarrow> int delivery_row \<Rightarrow> bool" where
  "locked_row t tenant e d \<longleftrightarrow> er_tenant_id e = dr_tenant_id d \<and> er_row_id e = dr_event_row_id d
     \<and> find_delivery (tx_db t) (dr_event_row_id d) = Some d \<and> dr_event_row_id d \<in> set (tx_locked t)
     \<and> claim_scope tenant (dr_tenant_id d)"

definition locked_candidates :: "my_txn \<Rightarrow> TenantId option \<Rightarrow> int \<Rightarrow> int durable_row list \<Rightarrow> bool" where
  "locked_candidates t tenant a cs \<longleftrightarrow>
     sorted_wrt (<) (map (\<lambda>c. er_row_id (du_event c)) cs) \<and> (\<forall>c \<in> set cs. er_row_id (du_event c) \<le> a)
     \<and> (\<forall>c \<in> set cs. \<exists>e d. c = durable_join e (Some d) \<and> locked_row t tenant e d)"

lemma locked_row_extends: "locked_row t tenant e d \<Longrightarrow> tx_extends t t' \<Longrightarrow> locked_row t' tenant e d"
  by (auto simp: locked_row_def tx_extends_def)

lemma locked_candidates_extends:
  assumes "locked_candidates t tenant a cs" "tx_extends t t'" "a \<le> a'"
  shows "locked_candidates t' tenant a' cs"
proof -
  have "\<exists>e d. c = durable_join e (Some d) \<and> locked_row t' tenant e d" if "c \<in> set cs" for c
    using assms(1,2) that locked_row_extends unfolding locked_candidates_def by blast
  then show ?thesis using assms(1,3) unfolding locked_candidates_def by fastforce
qed

lemma locked_candidates_snoc:
  assumes "locked_candidates t tenant a cs" "a < dr_event_row_id d" "locked_row t tenant e d"
  shows "locked_candidates t tenant (dr_event_row_id d) (cs @ [durable_join e (Some d)])"
proof -
  have id: "er_row_id (du_event (durable_join e (Some d))) = dr_event_row_id d"
    using assms(3) by (simp add: durable_join_def locked_row_def)
  have "\<forall>c \<in> set cs. er_row_id (du_event c) < dr_event_row_id d"
    using assms(1,2) unfolding locked_candidates_def by fastforce
  moreover have "\<forall>c \<in> set (cs @ [durable_join e (Some d)]). \<exists>e d. c = durable_join e (Some d) \<and> locked_row t tenant e d"
    using assms(1,3) unfolding locked_candidates_def by auto
  ultimately show ?thesis
    using assms(1) unfolding locked_candidates_def by (auto simp: sorted_wrt_append id less_imp_le)
qed

lemma tx_runs_lock_candidate: "my_peers_ok env \<Longrightarrow> tx_runs (lock_candidate env tenant n rid)"
  unfolding lock_candidate_def by (intro my_runs)

lemma lock_candidate_Some:
  assumes "my_peers_ok env" "tx_ok t" "own_writes t = ([], [])"
    and run: "lock_candidate env tenant n rid t = (Inr (Some c), t')"
  obtains e d where "c = durable_join e (Some d)" "locked_row t' tenant e d" "dr_event_row_id d = rid"
proof -
  let ?t = "tx_peer (my_peer env n) t"
  have view: "tx_view ?t = tx_db ?t" using assms(3) by (intro view_no_writes) simp
  have c: "candidate_columns (my_clock env n) tenant (my_locked env n rid) rid (tx_db ?t) = Some c"
    and t': "t' = tx_lock [rid] ?t"
    using run by (auto simp: lock_candidate_def tx_map_err_Inr_iff my_read_lock_Inr view)
  obtain d e where f: "find (\<lambda>d. dr_event_row_id d = rid \<and> my_claimable (my_clock env n) tenant d
      \<and> \<not> my_locked env n rid) (db_deliveries (tx_db ?t)) = Some d"
    and e: "event_by_id (tx_db ?t) rid = Some e" and ce: "c = durable_join (e\<lparr>er_tenant_id := dr_tenant_id d\<rparr>) (Some d)"
    using c by (auto simp: candidate_columns_def split: option.splits)
  have d: "d \<in> set (db_deliveries (tx_db ?t))" "dr_event_row_id d = rid" "my_claimable (my_clock env n) tenant d"
    using find_Some_in [OF f] by auto
  have "db_ok (tx_db ?t)" using my_ok_peer [OF assms(1,2)] by (simp add: tx_ok_def)
  then have "find_delivery (tx_db ?t) rid = Some d" using find_delivery_ok d(1,2) by blast
  moreover have "er_row_id e = rid" using e by (auto simp: event_by_id_def dest: find_Some_in)
  ultimately have "locked_row t' tenant (e\<lparr>er_tenant_id := dr_tenant_id d\<rparr>) d"
    using d by (simp add: locked_row_def t' my_claimable_def)
  then show thesis using that ce d(2) by blast
qed

lemma tx_runs_lock_window: "my_peers_ok env \<Longrightarrow> tx_runs (lock_window env tenant limit ids w)"
proof (induction ids arbitrary: w)
  case (Cons rid ids)
  obtain n a cs where w: "w = (n, a, cs)" by (cases w)
  show ?case
    unfolding w lock_window.simps
    by (intro tx_runs_then tx_runs_lock_candidate Cons.prems)
      (auto split: option.split intro: Cons.IH [OF Cons.prems])
qed simp

lemma lock_window_Inr:
  assumes "my_peers_ok env" "tx_ok t" "own_writes t = ([], [])"
    and "lock_window env tenant limit ids (n, a, cs) t = (Inr (n', a', cs'), t')"
    and "locked_candidates t tenant a cs" "sorted_wrt (<) (a # ids)" "length cs < limit"
  shows "locked_candidates t' tenant a' cs' \<and> length cs' \<le> limit"
  using assms(2-)
proof (induction ids arbitrary: n a cs t)
  case (Cons rid ids)
  from Cons.prems obtain found t1 where lock: "lock_candidate env tenant n rid t = (Inr found, t1)"
    by (auto simp: tx_then_Inr_iff)
  have ext: "tx_extends t t1" by (rule tx_runsD [OF tx_runs_lock_candidate [OF assms(1)] Cons.prems(1) lock])
  have own: "own_writes t1 = ([], [])" using lock_candidate_sel [OF lock] Cons.prems(2) by (simp add: own_writes_def)
  have ids: "a < rid" "sorted_wrt (<) (rid # ids)" using Cons.prems(5) by auto
  have a: "locked_candidates t1 tenant a cs" "locked_candidates t1 tenant rid cs"
    using locked_candidates_extends [OF Cons.prems(4) ext] ids(1) by auto
  note IH = Cons.IH [OF tx_extends_ok [OF ext Cons.prems(1)] own _ _ ids(2)]
  show ?case
  proof (cases found)
    case None
    then show ?thesis using IH [OF _ a(2) Cons.prems(6)] Cons.prems(3) lock by (auto simp: tx_then_def)
  next
    case (Some c)
    from assms(1) Cons.prems(1,2) lock [unfolded Some]
    obtain e d where c: "c = durable_join e (Some d)" "locked_row t1 tenant e d" "dr_event_row_id d = rid"
      by (rule lock_candidate_Some)
    have cs: "locked_candidates t1 tenant rid (cs @ [c])"
      using locked_candidates_snoc [OF a(1) _ c(2)] ids(1) c by simp
    show ?thesis
    proof (cases "length (cs @ [c]) = limit")
      case True
      then show ?thesis using Cons.prems(3) lock cs by (auto simp: tx_then_def Some)
    next
      case False
      then have run: "lock_window env tenant limit ids (Suc n, rid, cs @ [c]) t1 = (Inr (n', a', cs'), t')"
        using Cons.prems(3) lock by (simp add: tx_then_def Some)
      have len: "length (cs @ [c]) < limit" using False Cons.prems(6) by simp
      show ?thesis by (rule IH [OF run cs len])
    qed
  qed
qed (simp add: tx_return_def)

lemma tx_runs_read_window: "my_peers_ok env \<Longrightarrow> tx_runs (read_window env tenant limit n a)"
  unfolding read_window_def by (intro my_runs)

lemma seen_no_writes:
  "own_writes t = ([], []) \<Longrightarrow> tx_seen t = (case tx_snapshot t of None \<Rightarrow> tx_db t | Some s \<Rightarrow> s)"
  using view_no_writes [of t] view_no_writes [of "t\<lparr>tx_db := s\<rparr>" for s]
  by (auto simp: tx_seen_def own_writes_def split: option.split)

lemma candidate_ids_sorted:
  assumes "distinct (map dr_event_row_id (db_deliveries db))"
  shows "sorted_wrt (<) (a # candidate_ids now tenant a limit db)"
proof -
  have "distinct (map dr_event_row_id (filter P (db_deliveries db)))" for P
    using assms by (rule distinct_map_filter)
  then have "sorted_wrt (<) (sort (map dr_event_row_id (filter P (db_deliveries db))))" for P
    by (simp add: strict_sorted_iff)
  then have "sorted_wrt (<) (candidate_ids now tenant a limit db)"
    unfolding candidate_ids_def by (intro sorted_wrt_take)
  then show ?thesis using candidate_ids_after by auto
qed

text \<open>Induction over the windows.\<close>

lemma lock_windows_induct:
  assumes step: "\<And>n a cs t. (\<And>ids t1 n2 a2 cs2 t2. length cs < limit \<Longrightarrow>
      read_window env tenant limit n a t = (Inr ids, t1) \<Longrightarrow> ids \<noteq> [] \<Longrightarrow>
      lock_window env tenant limit ids (Suc n, a, cs) t1 = (Inr (n2, a2, cs2), t2) \<Longrightarrow> P n2 a2 cs2 t2)
    \<Longrightarrow> P n a cs t"
  shows "P n a cs t"
proof -
  let ?Q = "\<lambda>e te l w t. e = env \<and> te = tenant \<and> l = limit \<longrightarrow> (case w of (n, a, cs) \<Rightarrow> P n a cs t)"
  have "?Q env tenant limit (n, a, cs) t"
    by (rule lock_windows.induct [of ?Q]) (clarsimp, rule step, fastforce)
  then show ?thesis by simp
qed

lemma lock_windows_Inr:
  assumes "my_peers_ok env" "tx_ok t" "own_writes t = ([], [])"
    and "lock_windows env tenant limit (n, a, cs) t = (Inr (n', cs'), t')"
    and "locked_candidates t tenant a cs" "length cs \<le> limit"
  shows "tx_extends t t' \<and> own_writes t' = ([], []) \<and> length cs' \<le> limit
    \<and> (\<exists>a'. locked_candidates t' tenant a' cs')"
  using assms(2-)
proof (induction n a cs t rule: lock_windows_induct [where env = env and tenant = tenant and limit = limit])
  case (1 n a cs t)
  show ?case
  proof (cases "limit \<le> length cs")
    case True
    then show ?thesis using "1.prems" by auto
  next
    case False
    then obtain ids t1 where read: "read_window env tenant limit n a t = (Inr ids, t1)"
      using "1.prems"(3) by (auto split: prod.splits sum.splits)
    note w = read_window_ids [OF read]
    have ext1: "tx_extends t t1" by (rule tx_runsD [OF tx_runs_read_window [OF assms(1)] "1.prems"(1) read])
    have ok1: "tx_ok t1" by (rule tx_extends_ok [OF ext1 "1.prems"(1)])
    have own1: "own_writes t1 = ([], [])" using w(3,4) "1.prems"(2) by (simp add: own_writes_def)
    have lc1: "locked_candidates t1 tenant a cs" by (rule locked_candidates_extends [OF "1.prems"(4) ext1]) simp
    show ?thesis
    proof (cases "ids = []")
      case True
      then show ?thesis using "1.prems"(3,5) False read own1 lc1 ext1 by auto
    next
      case ne: False
      then obtain n2 a2 cs2 t2 where lock: "lock_window env tenant limit ids (Suc n, a, cs) t1 = (Inr (n2, a2, cs2), t2)"
        and rec: "lock_windows env tenant limit (n2, a2, cs2) t2 = (Inr (n', cs'), t')"
        using "1.prems"(3) False read by (auto split: prod.splits sum.splits)
      have ext2: "tx_extends t1 t2" by (rule tx_runsD [OF tx_runs_lock_window [OF assms(1)] ok1 lock])
      have own2: "own_writes t2 = ([], [])" using lock_window_sel [OF lock] own1 by (simp add: own_writes_def)
      have "db_ok (tx_seen t1)"
        using ok1 seen_no_writes [OF own1] by (auto simp: tx_ok_def snapshot_ok_def split: option.splits)
      then have srt: "sorted_wrt (<) (a # ids)" unfolding w(5) by (intro candidate_ids_sorted) (simp add: db_ok_def)
      have len: "length cs < limit" using False by simp
      have "locked_candidates t2 tenant a2 cs2 \<and> length cs2 \<le> limit"
        by (rule lock_window_Inr [OF assms(1) ok1 own1 lock lc1 srt len])
      then have "tx_extends t2 t' \<and> own_writes t' = ([], []) \<and> length cs' \<le> limit
          \<and> (\<exists>a'. locked_candidates t' tenant a' cs')"
        using "1.IH" [OF len read ne lock tx_extends_ok [OF ext2 ok1] own2 rec] by blast
      then show ?thesis using tx_extends_trans [OF ext1 tx_extends_trans [OF ext2]] by blast
    qed
  qed
qed

text \<open>What every read of a window and every lock of its rows does to the transaction, the loop does.\<close>

lemma lock_windows_rel:
  assumes refl: "\<And>t. Q t t" and trans: "\<And>s t u. Q s t \<Longrightarrow> Q t u \<Longrightarrow> Q s u"
    and read: "\<And>n a t. Q t (snd (read_window env tenant limit n a t))"
    and lock: "\<And>ids w t. Q t (snd (lock_window env tenant limit ids w t))"
  shows "Q t (snd (lock_windows env tenant limit (n, a, cs) t))"
proof (induction n a cs t rule: lock_windows_induct [where env = env and tenant = tenant and limit = limit])
  case (1 n a cs t)
  obtain r t1 where r: "read_window env tenant limit n a t = (r, t1)" by fastforce
  then have q1: "Q t t1" using read [of t n a] by simp
  show ?case
  proof (cases "length cs < limit \<and> (\<exists>ids. r = Inr ids \<and> ids \<noteq> [])")
    case True
    then obtain ids where ids: "r = Inr ids" "ids \<noteq> []" by blast
    obtain q t2 where l: "lock_window env tenant limit ids (Suc n, a, cs) t1 = (q, t2)" by fastforce
    then have q2: "Q t t2" using lock [of t1 ids "(Suc n, a, cs)"] trans [OF q1] by simp
    show ?thesis
    proof (cases q)
      case (Inr w)
      obtain n2 a2 cs2 where w: "w = (n2, a2, cs2)" by (cases w)
      show ?thesis
        using 1 [of ids t1 n2 a2 cs2 t2] True r l ids Inr w trans [OF q2] by simp
    qed (use True r l ids q2 in simp)
  qed (use r q1 refl in \<open>auto split: sum.split\<close>)
qed

lemma tx_runs_lock_windows:
  assumes "my_peers_ok env"
  shows "tx_runs (lock_windows env tenant limit (n, a, cs))"
proof -
  let ?Q = "\<lambda>t t'. tx_ok t \<longrightarrow> tx_extends t t'"
  have trans: "?Q s t \<Longrightarrow> ?Q t u \<Longrightarrow> ?Q s u" for s t u using tx_extends_trans tx_extends_ok by blast
  have "?Q t (snd (lock_windows env tenant limit (n, a, cs) t))" for t
    by (rule lock_windows_rel [where Q = ?Q], simp, rule trans)
      (use tx_runs_read_window [OF assms] tx_runs_lock_window [OF assms] in \<open>auto simp: tx_runs_def\<close>)
  then show ?thesis by (simp add: tx_runs_def)
qed

section \<open>A claim as one transition\<close>

lemma tx_runs_my_claim_select: "my_peers_ok env \<Longrightarrow> tx_runs (my_claim_select env tenant limit)"
  unfolding my_claim_select_def lock_candidates_def by (intro my_runs tx_runs_lock_windows)

lemma my_claim_select_Inr:
  assumes "my_peers_ok env" "db_ok db"
    and run: "my_claim_select env tenant limit (tx_begin db) = (Inr (n, cs), t)"
  shows "tx_extends (tx_begin db) t \<and> own_writes t = ([], []) \<and> length cs \<le> limit
    \<and> (\<exists>a. locked_candidates t tenant a cs)"
proof -
  let ?t = "tx_peer (my_peer env 1) (tx_begin db)"
  have lock: "lock_windows env tenant limit (2, 0, []) ?t = (Inr (n, cs), t)"
    using run by (auto simp: my_claim_select_def lock_candidates_def action_simps detect_Inr split: if_splits)
  have ext: "tx_extends (tx_begin db) ?t" by (rule my_extends_peer [OF assms(1)])
  have "tx_extends ?t t \<and> own_writes t = ([], []) \<and> length cs \<le> limit \<and> (\<exists>a. locked_candidates t tenant a cs)"
    by (rule lock_windows_Inr [OF assms(1) my_ok_peer [OF assms(1) tx_ok_begin [OF assms(2)]] _ lock])
      (simp_all add: own_writes_def locked_candidates_def)
  then show ?thesis using tx_extends_trans [OF ext] by blast
qed

text \<open>The ways a claim reaches its commit: nothing to claim, or a batch that is prepared and written.\<close>

lemma my_claim_body_Inr:
  assumes "my_claim_body lib env tenant worker lease limit ent t0 = Some (Inr claimed, rest, t)"
  obtains (idle) n where "my_claim_select env tenant (limit_get limit) t0 = (Inr (n, []), t)" "claimed = []"
  | (batch) n cs t1 ps micros where "my_claim_select env tenant (limit_get limit) t0 = (Inr (n, cs), t1)"
      "my_prepare_batch lib env (my_clock env n) ent cs = Some (Inr ps, rest)"
      "apply_claims_with (\<lambda>i. my_claim_row env (my_plus env (my_encode env (my_decode env (my_clock env n))) micros)
         worker (Suc n + 2 * i)) 0 ps (tx_peer (my_peer env n) t1) = (Inr claimed, t)"
proof -
  obtain r t1 where sel: "my_claim_select env tenant (limit_get limit) t0 = (r, t1)" by fastforce
  obtain n cs where r: "r = Inr (n, cs)" using assms sel by (cases r) (auto simp: my_claim_body_def)
  note run = assms [unfolded my_claim_body_def sel r, simplified]
  show thesis
  proof (cases "cs = []")
    case True
    then show thesis using idle [of n] run sel r by auto
  next
    case False
    obtain q t2 where time: "tx_map_err (my_claim_error_sql ''read claim operation time'')
        (my_database_time env ''read claim operation time'' n) t1 = (q, t2)" by fastforce
    obtain now where q: "q = Inr now" using run False time by (cases q) auto
    have now: "now = my_decode env (my_clock env n)" "t2 = tx_peer (my_peer env n) t1"
      using time q by (auto simp: tx_map_err_Inr_iff my_database_time_def my_ask_Inr)
    obtain p rest' where prep: "my_prepare_batch lib env (my_clock env n) ent cs = Some (p, rest')"
      using run False time q by (cases "my_prepare_batch lib env (my_clock env n) ent cs") auto
    obtain ps where p: "p = Inr ps" using run False time q prep by (cases p) auto
    have "my_persist_batch env (Suc n) ps worker lease now t2 = (Inr claimed, t)" "rest' = rest"
      using run False time q prep p by (auto split: prod.splits)
    then show thesis
      using batch [of n cs t1 ps] sel r prep p by (auto simp: my_persist_batch_def tx_then_return now)
  qed
qed

text \<open>
  \<open>s\<close> is what was committed when the operation time was read, \<open>tx_db t\<close> what the batch commits on.
  Others may have committed in between, but not to the claimed deliveries.
\<close>

lemma my_claim_transition:
  assumes "my_peers_ok env" "my_codec env" "db_ok db"
    and body: "my_claim_body lib env tenant worker lease limit ent (tx_begin db) = Some (Inr claimed, rest, t)"
  shows "\<exists>s x n. db_ok s \<and> tx_ok t \<and> set (db_events db) \<subseteq> set (db_events s)
    \<and> length claimed \<le> limit_get limit \<and> claim_taken (my_clock env n) tenant worker s claimed
    \<and> claim_applied x claimed (tx_db t) (tx_view t) \<and> tx_events t = []
    \<and> (\<forall>c \<in> set claimed. find_delivery (tx_db t) (row_id_get (ce_row_id c))
         = find_delivery s (row_id_get (ce_row_id c)))"
  using body
proof (cases rule: my_claim_body_Inr)
  case (idle n)
  note sel = my_claim_select_Inr [OF assms(1,3) idle(1)]
  have "tx_ok t" using sel tx_extends_ok tx_ok_begin [OF assms(3)] by blast
  then show ?thesis
    using sel view_no_writes [of t] idle(2)
    by (intro exI [of _ "tx_db t"]) (auto simp: tx_ok_def claim_taken_def claim_applied_def tx_extends_def own_writes_def)
next
  case (batch n cs t1 ps micros)
  let ?t = "tx_peer (my_peer env n) t1" and ?now = "my_clock env n"
  let ?x = "my_plus env (my_encode env (my_decode env ?now)) micros"
  note sel = my_claim_select_Inr [OF assms(1,3) batch(1)]
  have ext: "tx_extends t1 ?t" by (rule my_extends_peer [OF assms(1)])
  have ext0: "tx_extends (tx_begin db) ?t" using sel tx_extends_trans [OF _ ext] by blast
  have ok: "tx_ok ?t" by (rule tx_extends_ok [OF ext0 tx_ok_begin [OF assms(3)]])
  have own: "own_writes ?t = ([], [])" using sel by simp
  obtain a where lc: "locked_candidates ?t tenant a cs" using sel locked_candidates_extends [OF _ ext] by blast
  note prep = batch(2) [unfolded my_prepare_batch_def]
  have elig: "\<exists>r. my_claim_counter env ?now c = Inr r" if "c \<in> set cs" for c
    using my_claim.prepare_Inr [OF prep] that by (auto simp: list_all2_conv_all_nth in_set_conv_nth)
  have "\<exists>e d. c = durable_join e (Some d) \<and> candidate_row (tx_db ?t) ?now tenant e d" if c: "c \<in> set cs" for c
  proof -
    obtain e d where "c = durable_join e (Some d)" "locked_row ?t tenant e d"
      using lc c unfolding locked_candidates_def by blast
    moreover from this have "claim_eligible ?now d" using my_validate_eligible [OF assms(2)] elig [OF c] by blast
    ultimately show ?thesis unfolding candidate_row_def locked_row_def by blast
  qed
  then have of: "candidates_of (tx_db ?t) ?now tenant cs"
    using lc by (simp add: candidates_of_def locked_candidates_def)
  note rows = my_claim.prepare_rows [OF of prep]
  have "er_row_id (du_event c) \<in> set (tx_locked ?t)" if "c \<in> set cs" for c
    using lc that by (auto simp: locked_candidates_def locked_row_def durable_join_def)
  then have lock: "pc_event_row_id ` set ps \<subseteq> set (tx_locked ?t)"
    using arg_cong [OF rows(1), of set] by auto
  have dist: "distinct (map pc_event_row_id ps)" using rows(2) by (simp add: strict_sorted_iff)
  have found: "batch_found (tx_db ?t) ps" using my_claim.prepare_found [OF of prep] by (simp add: batch_found_def)
  note eff = my_writer.apply_effect [OF assms(1) ok batch(3) own lock dist found]
  have okt: "tx_ok t"
    by (rule tx_extends_ok [OF tx_runsD [OF my_writer.apply_runs [OF assms(1)] ok batch(3)] ok])
  have ids: "ce_row_id ` set claimed = RowId ` pc_event_row_id ` set ps"
    using arg_cong [OF my_claim.batch_ids(1) [OF of prep eff(1)], of set] by (simp add: image_image)
  have same: "find_delivery (tx_db t) (row_id_get (ce_row_id c)) = find_delivery (tx_db ?t) (row_id_get (ce_row_id c))"
    if "c \<in> set claimed" for c
  proof -
    have "ce_row_id c \<in> RowId ` pc_event_row_id ` set ps" using that ids by blast
    then show ?thesis using eff(4) by auto
  qed
  have "length claimed \<le> limit_get limit"
    using list_all2_lengthD [OF eff(1)] rows(3) sel by simp
  moreover have "set (db_events db) \<subseteq> set (db_events (tx_db ?t))"
    using ext0 view_no_writes [OF own] by (simp add: tx_extends_def)
  moreover have "db_ok (tx_db ?t)" using ok by (simp add: tx_ok_def)
  ultimately show ?thesis
    using okt my_claim.batch_taken(1) [OF of prep eff(1)] my_claim.batch_applied [OF of prep eff(1,3,4)] eff(2) same
    by (intro exI [of _ "tx_db ?t"] exI [of _ ?x] exI [of _ n] conjI ballI) assumption+
qed

lemma tx_extends_my_claim_body:
  assumes "my_peers_ok env" "tx_ok t0"
    and "my_claim_body lib env tenant worker lease limit ent t0 = Some (res, rest, t)"
  shows "tx_extends t0 t"
proof -
  obtain r t1 where sel: "my_claim_select env tenant (limit_get limit) t0 = (r, t1)" by fastforce
  have ext1: "tx_extends t0 t1" by (rule tx_runsD [OF tx_runs_my_claim_select [OF assms(1)] assms(2) sel])
  have time: "tx_extends t0 t2" if run: "tx_map_err (my_claim_error_sql ''read claim operation time'')
      (my_database_time env ''read claim operation time'' n) t1 = (q, t2)" for n q t2
  proof -
    have "tx_runs (tx_map_err (my_claim_error_sql ''read claim operation time'')
        (my_database_time env ''read claim operation time'' n))"
      unfolding my_database_time_def by (intro my_runs assms(1))
    then show ?thesis using tx_extends_trans [OF ext1] tx_runsD [OF _ tx_extends_ok [OF ext1 assms(2)]] run by blast
  qed
  have persist: "tx_extends t0 t3" if ext: "tx_extends t0 t2"
    and run: "my_persist_batch env n ps worker lease op t2 = (q, t3)" for n ps op q t2 t3
  proof -
    have "tx_runs (my_persist_batch env n ps worker lease op)"
      unfolding my_persist_batch_def by (intro tx_runs_then tx_runs_return my_writer.apply_runs assms(1))
    then show ?thesis using tx_extends_trans [OF ext] tx_runsD [OF _ tx_extends_ok [OF ext assms(2)]] run by blast
  qed
  show ?thesis
    using assms(3) sel ext1
    by (auto simp: my_claim_body_def split: sum.splits prod.splits option.splits if_splits dest: time persist [OF time])
qed

text \<open>What the caller of a claim sees, and what is committed.\<close>

lemma my_claim_cases:
  assumes "my_claim_for_scope lib env tenant worker lease limit ent db = Some (res, rest, db')"
  obtains (unopened) e where "res = Inl e" "db' = db"
  | (rolled_back) e t where "my_claim_body lib env tenant worker lease limit ent (tx_begin db) = Some (Inl e, rest, t)"
      "res = Inl e" "db' = tx_db t"
  | (finished) claimed t where
      "my_claim_body lib env tenant worker lease limit ent (tx_begin db) = Some (Inr claimed, rest, t)"
      "(my_commit env = Committed \<and> res = Inr claimed \<and> db' = tx_view t)
       \<or> (\<exists>e. my_commit env = CommitFailed e \<and> res = Inl (my_claim_error_sql ''commit claim transaction'' e) \<and> db' = tx_db t)
       \<or> (\<exists>e. my_commit env = CommitUnreported e \<and> res = Inl (my_claim_error_sql ''commit claim transaction'' e) \<and> db' = tx_view t)"
proof (cases "my_fault env ''begin claim transaction'' 0")
  case None
  let ?b = "my_claim_body lib env tenant worker lease limit ent (tx_begin db)"
  note run = assms [unfolded my_claim_for_scope_def my_claim_with_entropy_scoped_def None, simplified]
  obtain r rest' t where b: "?b = Some (r, rest', t)" using run by (cases ?b) auto
  show thesis
    using run b rolled_back finished
    by (cases r) (auto simp: my_finish_def tx_finish_def split: commit_outcome.splits)
qed (use assms unopened in \<open>auto simp: my_claim_for_scope_def my_claim_with_entropy_scoped_def\<close>)

text \<open>The windows end by themselves; drawing tokens ends when the entropy source keeps giving new values.\<close>

lemma my_claim_returns:
  assumes "my_peers_ok env" "db_ok db" "distinct ent" "2 * limit_get limit \<le> length ent"
  shows "my_claim_for_scope lib env tenant worker lease limit ent db \<noteq> None"
proof -
  have "my_claim_body lib env tenant worker lease limit ent (tx_begin db) \<noteq> None"
  proof (cases "my_claim_select env tenant (limit_get limit) (tx_begin db)")
    case (Pair r t1)
    show ?thesis
    proof (cases r)
      case (Inr b)
      obtain n cs where b: "b = (n, cs)" by (cases b)
      have "length cs \<le> limit_get limit" using my_claim_select_Inr [OF assms(1,2)] Pair Inr b by auto
      then obtain q rest where prep: "my_prepare_batch lib env (my_clock env n) ent cs = Some (q, rest)"
        using my_claim.prepare_returns [of ent cs "[]" env "my_clock env n" lib] assms(3,4)
        by (auto simp: my_prepare_batch_def)
      then show ?thesis
        using Pair Inr b by (cases q) (auto simp: my_claim_body_def split: prod.split sum.split)
    qed (use Pair in \<open>simp add: my_claim_body_def\<close>)
  qed
  then show ?thesis
    by (auto simp: my_claim_for_scope_def my_claim_with_entropy_scoped_def split: option.split sum.split prod.split)
qed

section \<open>Windows find what one scan finds\<close>

text \<open>
  On a server that answers at one instant and whose other sessions do not commit, the windows
  yield the first candidates of one ordered scan that passes over the locked rows.
\<close>

definition my_still :: "my_env \<Rightarrow> int \<Rightarrow> (int \<Rightarrow> bool) \<Rightarrow> bool" where
  "my_still env now skipped \<longleftrightarrow> (\<forall>label n. my_fault env label n = None)
     \<and> (\<forall>n t. my_peer env n t = tx_db t) \<and> (\<forall>n. my_clock env n = now) \<and> (\<forall>n. my_locked env n = skipped)"

definition still_txn :: "my_db \<Rightarrow> my_txn \<Rightarrow> bool" where
  "still_txn db t \<longleftrightarrow> tx_db t = db \<and> own_writes t = ([], []) \<and> (tx_snapshot t = None \<or> tx_snapshot t = Some db)"

text \<open>The claimable deliveries in row order, and what locking one of them yields.\<close>

definition claimables :: "int \<Rightarrow> TenantId option \<Rightarrow> my_db \<Rightarrow> int delivery_row list" where
  "claimables now tenant db = filter (\<lambda>d. event_by_id db (dr_event_row_id d) \<noteq> None \<and> my_claimable now tenant d)
     (sort_key dr_event_row_id (db_deliveries db))"

definition locked_as :: "(int \<Rightarrow> bool) \<Rightarrow> my_db \<Rightarrow> int delivery_row \<Rightarrow> int durable_row option" where
  "locked_as skipped db d = (if skipped (dr_event_row_id d) then None
     else map_option (\<lambda>e. durable_join (e\<lparr>er_tenant_id := dr_tenant_id d\<rparr>) (Some d)) (event_by_id db (dr_event_row_id d)))"

lemma still_lock_candidate:
  assumes "my_still env now skipped" "still_txn db t" "db_ok db" "d \<in> set (claimables now tenant db)"
  shows "\<exists>t'. lock_candidate env tenant n (dr_event_row_id d) t = (Inr (locked_as skipped db d), t') \<and> still_txn db t'"
proof -
  have peer: "tx_peer (my_peer env n) t = t" using assms(1) by (simp add: my_still_def tx_peer_def)
  have view: "tx_view t = db" using assms(2) view_no_writes [of t] by (simp add: still_txn_def)
  have d: "d \<in> set (db_deliveries db)" "my_claimable now tenant d"
    using assms(4) by (auto simp: claimables_def)
  have dist: "distinct (map dr_event_row_id (db_deliveries db))" using assms(3) by (simp add: db_ok_def)
  let ?p = "\<lambda>d'. dr_event_row_id d' = dr_event_row_id d \<and> my_claimable now tenant d' \<and> \<not> skipped (dr_event_row_id d)"
  have "find ?p (db_deliveries db) = (if skipped (dr_event_row_id d) then None else Some d)"
    using find_key_weaker [OF dist d(1), of ?p] d(2) by (auto simp: find_None_set)
  then have "candidate_columns now tenant (skipped (dr_event_row_id d)) (dr_event_row_id d) db = locked_as skipped db d"
    by (simp add: candidate_columns_def locked_as_def)
  then show ?thesis
    using assms(1,2)
    by (simp add: lock_candidate_def tx_map_err_def my_read_lock_def my_statement_def tx_statement_def my_still_def
        Let_def still_txn_def own_writes_def peer view)
qed

lemma still_lock_window:
  assumes "my_still env now skipped" "db_ok db"
    and "still_txn db t" "set ds \<subseteq> set (claimables now tenant db)" "length cs < limit"
  shows "\<exists>ds1 ds2 n' a' t'. lock_window env tenant limit (map dr_event_row_id ds) (n, a, cs) t
      = (Inr (n', a', cs @ List.map_filter (locked_as skipped db) ds1), t') \<and> still_txn db t'
    \<and> ds = ds1 @ ds2 \<and> a' = last (a # map dr_event_row_id ds1)
    \<and> (ds2 = [] \<and> length (cs @ List.map_filter (locked_as skipped db) ds1) < limit
       \<or> length (cs @ List.map_filter (locked_as skipped db) ds1) = limit)"
  using assms(3-)
proof (induction ds arbitrary: n a cs t)
  case Nil
  then show ?case by (auto simp: map_filter_simps tx_return_def)
next
  case (Cons d ds)
  let ?h = "locked_as skipped db" and ?id = "dr_event_row_id d"
  obtain t1 where lock: "lock_candidate env tenant n ?id t = (Inr (?h d), t1)" and still: "still_txn db t1"
    using still_lock_candidate [OF assms(1) Cons.prems(1) assms(2)] Cons.prems(2) by (metis list.set_intros(1) subsetD)
  have sub: "set ds \<subseteq> set (claimables now tenant db)" using Cons.prems(2) by simp
  show ?case
  proof (cases "\<exists>c. ?h d = Some c \<and> length (cs @ [c]) = limit")
    case True
    then obtain c where c: "?h d = Some c" "length (cs @ [c]) = limit" by blast
    then have "lock_window env tenant limit (map dr_event_row_id (d # ds)) (n, a, cs) t = (Inr (Suc n, ?id, cs @ [c]), t1)"
      using lock by (simp add: tx_then_def tx_return_def)
    moreover have "List.map_filter ?h [d] = [c]" using c by (simp add: map_filter_simps)
    ultimately show ?thesis
      using still c(2) by (intro exI [of _ "[d]"] exI [of _ ds] exI [of _ "Suc n"] exI [of _ ?id] exI [of _ t1]) simp
  next
    case False
    define cs1 where "cs1 = cs @ List.map_filter ?h [d]"
    have len: "length cs1 < limit" using False Cons.prems(3) by (cases "?h d") (auto simp: cs1_def map_filter_simps)
    have run: "lock_window env tenant limit (map dr_event_row_id (d # ds)) (n, a, cs) t
        = lock_window env tenant limit (map dr_event_row_id ds) (Suc n, ?id, cs1) t1"
      using lock False by (cases "?h d") (auto simp: tx_then_def cs1_def map_filter_simps)
    from Cons.IH [OF still sub len, of "Suc n" ?id] obtain ds1 ds2 n' a' t' where
      w: "lock_window env tenant limit (map dr_event_row_id ds) (Suc n, ?id, cs1) t1
        = (Inr (n', a', cs1 @ List.map_filter ?h ds1), t')" "still_txn db t'" "ds = ds1 @ ds2"
      "a' = last (?id # map dr_event_row_id ds1)"
      "ds2 = [] \<and> length (cs1 @ List.map_filter ?h ds1) < limit \<or> length (cs1 @ List.map_filter ?h ds1) = limit"
      by blast
    have "cs1 @ List.map_filter ?h ds1 = cs @ List.map_filter ?h (d # ds1)"
      by (cases "?h d") (simp_all add: cs1_def map_filter_simps)
    then show ?thesis
      using w unfolding run
      by (intro exI [of _ "d # ds1"] exI [of _ ds2] exI [of _ n'] exI [of _ a'] exI [of _ t']) simp
  qed
qed

lemma claimables_sorted:
  assumes "db_ok db"
  shows "sorted_wrt (<) (map dr_event_row_id (claimables now tenant db))"
proof -
  have "distinct (map dr_event_row_id (sort_key dr_event_row_id (db_deliveries db)))"
    using assms by (simp add: db_ok_def distinct_map)
  then have "distinct (map dr_event_row_id (claimables now tenant db))"
    unfolding claimables_def by (rule distinct_map_filter)
  moreover have "sorted (map dr_event_row_id (claimables now tenant db))"
    unfolding claimables_def by (rule sorted_filter) simp
  ultimately show ?thesis by (simp add: strict_sorted_iff)
qed

lemma sort_map_key: "sort (map f xs) = map f (sort_key f xs)"
  by (rule properties_for_sort) simp_all

lemma candidate_ids_claimables:
  "candidate_ids now tenant a limit db
     = map dr_event_row_id (take limit (filter (\<lambda>d. a < dr_event_row_id d) (claimables now tenant db)))"
  by (simp add: candidate_ids_def claimables_def sort_map_key take_map filter_sort conj_ac)

lemma still_read_window:
  assumes "my_still env now skipped" "still_txn db t"
  shows "\<exists>t'. read_window env tenant limit n a t = (Inr (candidate_ids now tenant a limit db), t') \<and> still_txn db t'"
proof -
  have peer: "tx_peer (my_peer env n) t = t" using assms(1) by (simp add: my_still_def tx_peer_def)
  have own: "own_writes (tx_open t) = ([], [])" using assms(2) by (simp add: still_txn_def own_writes_def)
  have snap: "tx_snapshot (tx_open t) = Some db" using assms(2) by (auto simp: still_txn_def tx_open_def)
  have "tx_seen (tx_open t) = db" using seen_no_writes [OF own] snap by simp
  then show ?thesis
    using assms snap
    by (simp add: read_window_def tx_map_err_def my_read_def my_statement_def tx_statement_def tx_read_seen_def
        my_still_def still_txn_def peer own_writes_def)
qed

lemma take_append_full: "length xs = n \<Longrightarrow> take n (xs @ ys) = xs"
  by simp

lemma window_after_prefix:
  assumes "sorted_wrt (<) (map f (filter (\<lambda>d. a < f d) xs))" and eq: "filter (\<lambda>d. (a :: int) < f d) xs = ds @ rest"
  shows "filter (\<lambda>d. last (a # map f ds) < f d) xs = rest"
proof (cases ds rule: rev_cases)
  case (snoc es d)
  have srt: "sorted_wrt (<) (map f (ds @ rest))" using assms by simp
  have "filter (\<lambda>x. f d < f x) (filter (\<lambda>x. a < f x) xs) = rest"
    unfolding eq using srt by (auto simp: snoc sorted_wrt_append filter_empty_conv intro!: filter_True)
  moreover have "d \<in> set (filter (\<lambda>x. a < f x) xs)" unfolding eq snoc by simp
  then have "a < f d" by simp
  then have "(\<lambda>x. a < f x \<and> f d < f x) = (\<lambda>x. f d < f x)" by auto
  ultimately show ?thesis by (simp add: snoc)
qed (use eq in simp)

lemma still_lock_windows:
  assumes "my_still env now skipped" "db_ok db" "still_txn db t" "length cs \<le> limit"
  shows "\<exists>n' t'. lock_windows env tenant limit (n, a, cs) t
      = (Inr (n', take limit (cs @ List.map_filter (locked_as skipped db)
          (filter (\<lambda>d. a < dr_event_row_id d) (claimables now tenant db)))), t')"
  using assms(3,4)
proof (induction n a cs t rule: lock_windows_induct [where env = env and tenant = tenant and limit = limit])
  case (1 n a cs t)
  let ?h = "locked_as skipped db" and ?C = "claimables now tenant db"
  let ?rest = "filter (\<lambda>d. a < dr_event_row_id d) ?C"
  show ?case
  proof (cases "length cs < limit")
    case False
    then have "length cs = limit" using "1.prems"(2) by simp
    then show ?thesis by simp
  next
    case len: True
    obtain t1 where read: "read_window env tenant limit n a t = (Inr (map dr_event_row_id (take limit ?rest)), t1)"
      and still1: "still_txn db t1"
      using still_read_window [OF assms(1) "1.prems"(1)] unfolding candidate_ids_claimables by blast
    show ?thesis
    proof (cases "?rest = []")
      case True
      then show ?thesis using read len by (simp add: map_filter_simps)
    next
      case False
      then have ne: "map dr_event_row_id (take limit ?rest) \<noteq> []" using len by auto
      have sub: "set (take limit ?rest) \<subseteq> set ?C" by (auto dest: in_set_takeD)
      from still_lock_window [OF assms(1,2) still1 sub len, of "Suc n" a] obtain ds1 ds2 n2 a2 t2 where
        lock: "lock_window env tenant limit (map dr_event_row_id (take limit ?rest)) (Suc n, a, cs) t1
          = (Inr (n2, a2, cs @ List.map_filter ?h ds1), t2)" and still2: "still_txn db t2"
        and ds: "take limit ?rest = ds1 @ ds2" and a2: "a2 = last (a # map dr_event_row_id ds1)"
        and len2: "length (cs @ List.map_filter ?h ds1) \<le> limit"
        by (metis (no_types, lifting) less_or_eq_imp_le)
      have eq: "?rest = ds1 @ (ds2 @ drop limit ?rest)" using ds append_take_drop_id [of limit ?rest] by simp
      have srt: "sorted_wrt (<) (map dr_event_row_id ?rest)"
        using claimables_sorted [OF assms(2), of now tenant] by (simp add: sorted_wrt_map sorted_wrt_filter)
      have after: "filter (\<lambda>d. a2 < dr_event_row_id d) ?C = ds2 @ drop limit ?rest"
        unfolding a2 by (rule window_after_prefix [OF srt eq])
      have all: "cs @ List.map_filter ?h ?rest = (cs @ List.map_filter ?h ds1)
          @ List.map_filter ?h (filter (\<lambda>d. a2 < dr_event_row_id d) ?C)"
        unfolding after by (subst eq) (simp add: map_filter_def)
      show ?thesis
        using "1.IH" [OF len read ne lock still2 len2] read ne lock len unfolding all by simp
    qed
  qed
qed

lemma map_filter_filter:
  assumes "\<And>x. x \<in> set xs \<Longrightarrow> f x = (if p x then g x else None)"
  shows "List.map_filter f xs = List.map_filter g (filter p xs)"
  using assms by (induction xs) (auto simp: map_filter_simps split: option.splits)

lemma claim_candidates_claimables:
  assumes "db_ok db"
  shows "claim_candidates now tenant skipped limit db
    = take limit (List.map_filter (locked_as skipped db) (claimables now tenant db))"
proof -
  have "(case join_event db d of None \<Rightarrow> None
      | Some e \<Rightarrow> if claim_scope tenant (dr_tenant_id d) \<and> claim_eligible now d \<and> \<not> skipped (dr_event_row_id d)
          then Some (durable_join e (Some d)) else None)
    = (if event_by_id db (dr_event_row_id d) \<noteq> None \<and> my_claimable now tenant d then locked_as skipped db d else None)"
    if d: "d \<in> set (sort_key dr_event_row_id (db_deliveries db))" for d
  proof -
    obtain e where e: "e \<in> set (db_events db)" "er_row_id e = dr_event_row_id d" "er_tenant_id e = dr_tenant_id d"
      using assms d by (auto simp: db_ok_def list_all_iff)
    have dist: "distinct (map er_row_id (db_events db))" using assms by (simp add: db_ok_def)
    have "event_by_id db (dr_event_row_id d) = Some e"
      using find_key_unique [OF dist e(1)] e(2) by (simp add: event_by_id_def)
    moreover have "join_event db d = Some e"
      using find_key_weaker [OF dist e(1), of "\<lambda>x. er_tenant_id x = dr_tenant_id d \<and> er_row_id x = dr_event_row_id d"] e
      by (simp add: join_event_def)
    moreover have "e\<lparr>er_tenant_id := dr_tenant_id d\<rparr> = e" using e(3) by (cases e) simp
    ultimately show ?thesis by (simp add: locked_as_def my_claimable_def)
  qed
  then show ?thesis
    unfolding claim_candidates_def claim_rows_def claimables_def by (intro arg_cong [of _ _ "take limit"] map_filter_filter)
qed

lemma still_lock_candidates:
  assumes "my_still env now skipped" "db_ok db" "\<forall>d \<in> set (db_deliveries db). 0 < dr_event_row_id d"
  shows "\<exists>n t. lock_candidates env tenant limit (tx_begin db) = (Inr (n, claim_candidates now tenant skipped limit db), t)"
proof -
  have "filter (\<lambda>d. 0 < dr_event_row_id d) (claimables now tenant db) = claimables now tenant db"
    using assms(3) by (intro filter_True) (auto simp: claimables_def)
  then show ?thesis
    using still_lock_windows [OF assms(1,2), of "tx_begin db" "[]" limit tenant 2 0]
    by (simp add: lock_candidates_def claim_candidates_claimables [OF assms(2)] still_txn_def own_writes_def)
qed

end
