(* ===== verification/Mysql_Mutation.thy ===== *)
theory Mysql_Mutation
  imports Mysql_Claim Adapter_Mutation
begin

text \<open>
  \<open>crates/dovecote-sqlx-mysql/src/lifecycle/mutation.rs\<close>: the claim-token-fenced mutations. A
  mutation is one conditional UPDATE. When it finds no row the delivery is locked, the clock is
  read, the delivery is classified, and the UPDATE is repeated. Statement 0 opens the
  transaction, 1 probes the server, 2 and 5 are the UPDATEs, 3 locks and 4 reads the clock.
\<close>

section \<open>Statements\<close>

definition my_prepare_mutation :: "Mutation \<Rightarrow> MyMutationError + PreparedMutation" where
  "my_prepare_mutation mutation = map_err MMutSerialization (prepare_mutation_with duration_micros mutation)"

definition my_execute_mutation_fast ::
  "my_env \<Rightarrow> TenantId option \<Rightarrow> RowId \<Rightarrow> ClaimToken \<Rightarrow> Mutation \<Rightarrow> nat \<Rightarrow> (MyMutationError, nat) my_action" where
  "my_execute_mutation_fast env tenant row_id token mutation n =
     tx_then (tx_return (my_prepare_mutation mutation)) (\<lambda>prepared.
     tx_map_err (my_mutation_error_sql ''execute fast conditional delivery mutation'')
       (my_statement env ''execute fast conditional delivery mutation'' n
         (my_update env (mutation_where row_id tenant token (my_clock env n))
           (mutation_set (my_plus env) (my_clock env n) prepared))))"

definition my_lock_delivery ::
  "my_env \<Rightarrow> TenantId option \<Rightarrow> RowId \<Rightarrow> (MyMutationError, int delivery_row) my_action" where
  "my_lock_delivery env tenant row_id =
     tx_then (tx_map_err (my_mutation_error_sql ''lock delivery for mutation'')
       (my_read_lock env ''lock delivery for mutation'' 3
         (\<lambda>db. find (lock_where tenant row_id) (db_deliveries db))
         (\<lambda>found. case found of None \<Rightarrow> [] | Some d \<Rightarrow> [dr_event_row_id d]))) (\<lambda>found.
     tx_return (ok_or MMutNotFound found))"

section \<open>Classification\<close>

definition my_parse_state :: "string \<Rightarrow> MyMutationError + DeliveryState" where
  "my_parse_state value =
     (if value = ''pending'' then Inr Pending
      else if value = ''claimed'' then Inr Claimed
      else if value = ''delivered'' then Inr Delivered
      else if value = ''quarantined'' then Inr Quarantined
      else Inl (MMutSerialization ''unknown delivery state''))"

text \<open>\<open>now\<close> is the stored form of the instant that was read.\<close>

definition my_classify_delivery ::
  "my_env \<Rightarrow> int delivery_row \<Rightarrow> ClaimToken \<Rightarrow> int \<Rightarrow> MyMutationError + unit" where
  "my_classify_delivery env delivery token now =
     and_then (my_parse_state (dr_state delivery)) (\<lambda>state.
     if state \<noteq> Claimed then Inl (MMutIllegalTransition state)
     else
     and_then (ok_or (MMutSerialization ''claimed delivery has no claim token'')
       (dr_claim_token delivery)) (\<lambda>stored.
     if length stored \<noteq> CLAIM_TOKEN_BYTES
       then Inl (MMutSerialization ''claimed delivery has invalid claim token width'')
     else
     and_then (ok_or (MMutSerialization ''claimed delivery has no claim expiry'')
       (dr_claim_expires_at delivery)) (\<lambda>expiry.
     if stored \<noteq> claim_token_bytes token \<or> my_instant env expiry \<le> my_instant env now
       then Inl MMutLostClaim
     else Inr ())))"

section \<open>The operation\<close>

definition my_schema_to_mutation :: "MySchemaError \<Rightarrow> MyMutationError" where
  "my_schema_to_mutation error =
     (case error of
        MSchBackendMismatch detail \<Rightarrow> MMutBackendMismatch detail
      | MSchMigrationMismatch detail \<Rightarrow> MMutMigrationMismatch detail
      | MSchSql operation source \<Rightarrow> my_mutation_error_sql operation source
      | MSchTransient operation kind source \<Rightarrow> MMutTransient operation kind source)"

definition my_mutate_again ::
  "my_env \<Rightarrow> TenantId option \<Rightarrow> RowId \<Rightarrow> ClaimToken \<Rightarrow> Mutation \<Rightarrow> (MyMutationError, unit) my_action" where
  "my_mutate_again env tenant row_id token mutation =
     tx_then (my_lock_delivery env tenant row_id) (\<lambda>delivery.
     tx_then (tx_map_err (my_mutation_error_sql ''read mutation operation time'')
       (my_database_time env ''read mutation operation time'' 4)) (\<lambda>_.
     tx_then (tx_return (my_classify_delivery env delivery token (my_clock env 4))) (\<lambda>_.
     tx_then (my_execute_mutation_fast env tenant row_id token mutation 5) (\<lambda>affected.
     if affected \<noteq> 1 then
       tx_return (Inl (my_mutation_error_sql ''conditional delivery mutation''
         (MyProtocol ''locked claimed delivery did not satisfy mutation'')))
     else tx_return (Inr ())))))"

definition my_mutate_body ::
  "my_env \<Rightarrow> TenantId option \<Rightarrow> RowId \<Rightarrow> ClaimToken \<Rightarrow> Mutation \<Rightarrow> (MyMutationError, unit) my_action" where
  "my_mutate_body env tenant row_id token mutation =
     tx_then (tx_map_err my_schema_to_mutation (detect_on_connection env)) (\<lambda>_.
     tx_then (my_execute_mutation_fast env tenant row_id token mutation 2) (\<lambda>affected.
     if affected = 1 then tx_return (Inr ())
     else my_mutate_again env tenant row_id token mutation))"

text \<open>Outcome and committed state.\<close>

definition my_mutate ::
  "my_env \<Rightarrow> TenantId option \<Rightarrow> RowId \<Rightarrow> ClaimToken \<Rightarrow> Mutation \<Rightarrow> my_db \<Rightarrow> (MyMutationError + unit) \<times> my_db" where
  "my_mutate env tenant row_id token mutation db =
     (case my_fault env ''begin mutation transaction'' 0 of
        Some source \<Rightarrow> (Inl (my_mutation_error_sql ''begin mutation transaction'' source), db)
      | None \<Rightarrow>
     case my_mutate_body env tenant row_id token mutation (tx_begin db) of
        (Inl e, t) \<Rightarrow> (Inl e, tx_db t)
      | (Inr _, t) \<Rightarrow>
     case my_finish env t of
        (Inl source, db') \<Rightarrow> (Inl (my_mutation_error_sql ''commit mutation transaction'' source), db')
      | (Inr _, db') \<Rightarrow> (Inr (), db'))"

definition my_renew_for_scope where
  "my_renew_for_scope env tenant row_id token lease db = my_mutate env tenant row_id token (MRenew lease) db"

definition my_ack_for_scope where
  "my_ack_for_scope env tenant row_id token db = my_mutate env tenant row_id token MAck db"

definition my_retry_for_scope where
  "my_retry_for_scope env tenant row_id token failure backoff db =
     my_mutate env tenant row_id token (MRetry failure backoff) db"

definition my_release_for_scope where
  "my_release_for_scope env tenant row_id token delay db = my_mutate env tenant row_id token (MRelease delay) db"

definition my_quarantine_for_scope where
  "my_quarantine_for_scope env tenant row_id token reason db =
     my_mutate env tenant row_id token (MQuarantine reason) db"

section \<open>Transactions of a mutation\<close>

lemma tx_runs_my_execute:
  assumes "my_peers_ok env"
  shows "tx_runs (my_execute_mutation_fast env tenant row_id token mutation n)"
proof -
  have "tx_runs (my_update env (mutation_where row_id tenant token now) (mutation_set (my_plus env) now p))" for now p
    by (rule tx_runs_my_update [OF mutation_set_keys mutation_where_key])
  then show ?thesis
    unfolding my_execute_mutation_fast_def by (intro my_runs tx_runs_my_statement assms)
qed

lemma tx_runs_my_lock_delivery: "my_peers_ok env \<Longrightarrow> tx_runs (my_lock_delivery env tenant row_id)"
  unfolding my_lock_delivery_def by (intro my_runs)

lemma tx_runs_my_mutate:
  "my_peers_ok env \<Longrightarrow> tx_runs (my_mutate_body env tenant row_id token mutation)"
  unfolding my_mutate_body_def my_mutate_again_def my_database_time_def
  by (intro my_runs tx_runs_my_execute tx_runs_my_lock_delivery)

section \<open>Effect of a mutation\<close>

lemma my_execute_Inr:
  assumes "my_peers_ok env" "tx_ok t" "own_writes t = ([], [])"
    and run: "my_execute_mutation_fast env tenant row_id token mutation n t = (Inr a, t')"
  shows "\<exists>p. prepare_mutation_with duration_micros mutation = Inr p
    \<and> ((a = 1 \<and> mutation_hit (my_plus env) (my_clock env n) p tenant row_id token t')
      \<or> (a = 0 \<and> t' = tx_peer (my_peer env n) t \<and> (\<forall>d. find_delivery (tx_db t') (row_id_get row_id) = Some d \<longrightarrow>
           \<not> mutation_where row_id tenant token (my_clock env n) d)))"
proof -
  let ?u = "tx_peer (my_peer env n) t" and ?now = "my_clock env n"
  from run obtain p rows where p: "prepare_mutation_with duration_micros mutation = Inr p" and a: "a = length rows"
    and upd: "tx_update (mutation_where row_id tenant token ?now) (mutation_set (my_plus env) ?now p) ?u = (Inr rows, t')"
    unfolding my_execute_mutation_fast_def tx_then_return tx_map_err_Inr_iff my_statement_Inr my_update_Inr
      my_prepare_mutation_def map_err_Inr_iff by blast
  have own: "own_writes ?u = ([], [])" using assms(3) by simp
  show ?thesis
    using mutation_update_Inr [OF my_ok_peer [OF assms(1,2)] own upd] p a by auto
qed

lemma reads_only_my_lock_delivery: "reads_only (my_lock_delivery env tenant row_id)"
  unfolding my_lock_delivery_def by (intro my_reads)

text \<open>A mutation that succeeds is one UPDATE that hit, at the clock of its statement.\<close>

lemma my_mutate_body_Inr:
  assumes "my_peers_ok env" "db_ok db"
    and run: "my_mutate_body env tenant row_id token mutation (tx_begin db) = (Inr (), t)"
  shows "tx_ok t \<and> (\<exists>p n. prepare_mutation_with duration_micros mutation = Inr p
    \<and> mutation_hit (my_plus env) (my_clock env n) p tenant row_id token t)"
proof -
  note ok0 = tx_ok_begin [OF assms(2)]
  let ?t1 = "tx_peer (my_peer env 1) (tx_begin db)"
  have ok: "tx_ok t" by (rule tx_extends_ok [OF tx_runsD [OF tx_runs_my_mutate [OF assms(1)] ok0 run] ok0])
  have t1: "tx_ok ?t1" "own_writes ?t1 = ([], [])" using my_ok_peer [OF assms(1) ok0] by (auto simp: own_writes_def)
  from run obtain t2 a where ex: "my_execute_mutation_fast env tenant row_id token mutation 2 ?t1 = (Inr a, t2)"
    and rest: "(if a = 1 then tx_return (Inr ()) else my_mutate_again env tenant row_id token mutation) t2 = (Inr (), t)"
    unfolding my_mutate_body_def action_simps detect_Inr by blast
  show ?thesis
  proof (cases "a = 1")
    case True
    then show ?thesis using my_execute_Inr [OF assms(1) t1 ex] rest ok by auto
  next
    case False
    then have t2: "t2 = tx_peer (my_peer env 2) ?t1" using my_execute_Inr [OF assms(1) t1 ex] by auto
    have own2: "own_writes t2 = ([], [])" and ok2: "tx_ok t2"
      using t1 my_ok_peer [OF assms(1) t1(1)] by (auto simp: t2)
    from rest False obtain d t3 where lock: "my_lock_delivery env tenant row_id t2 = (Inr d, t3)"
      and ex5: "my_execute_mutation_fast env tenant row_id token mutation 5 (tx_peer (my_peer env 4) t3) = (Inr 1, t)"
      unfolding my_mutate_again_def my_database_time_def by (auto simp: action_simps my_ask_Inr split: if_splits)
    have own3: "own_writes (tx_peer (my_peer env 4) t3) = ([], [])"
      using reads_onlyD [OF reads_only_my_lock_delivery lock] own2 by simp
    have ok3: "tx_ok (tx_peer (my_peer env 4) t3)"
      using my_ok_peer [OF assms(1)] tx_extends_ok [OF tx_runsD [OF tx_runs_my_lock_delivery [OF assms(1)] ok2 lock] ok2]
      by blast
    show ?thesis using my_execute_Inr [OF assms(1) ok3 own3 ex5] ok by auto
  qed
qed

lemma my_mutate_cases:
  assumes "my_mutate env tenant row_id token mutation db = (res, db')"
  obtains (unopened) e where "res = Inl e" "db' = db"
  | (rolled_back) e t where "my_mutate_body env tenant row_id token mutation (tx_begin db) = (Inl e, t)"
      "res = Inl e" "db' = tx_db t"
  | (finished) t where "my_mutate_body env tenant row_id token mutation (tx_begin db) = (Inr (), t)"
      "(my_commit env = Committed \<and> res = Inr () \<and> db' = tx_view t)
       \<or> (\<exists>e. my_commit env = CommitFailed e \<and> res = Inl (my_mutation_error_sql ''commit mutation transaction'' e)
            \<and> db' = tx_db t)
       \<or> (\<exists>e. my_commit env = CommitUnreported e \<and> res = Inl (my_mutation_error_sql ''commit mutation transaction'' e)
            \<and> db' = tx_view t)"
proof (cases "my_fault env ''begin mutation transaction'' 0")
  case None
  obtain r t where b: "my_mutate_body env tenant row_id token mutation (tx_begin db) = (r, t)" by fastforce
  show thesis
    using assms b None rolled_back finished
    by (cases r) (auto simp: my_mutate_def my_finish_def tx_finish_def split: commit_outcome.splits)
qed (use assms unopened in \<open>auto simp: my_mutate_def\<close>)

section \<open>Why a mutation is refused\<close>

text \<open>
  The server is accepted and reports no fault, the span of the mutation can be encoded and its
  sums are in range.
\<close>

definition my_mutation_quiet :: "my_env \<Rightarrow> Mutation \<Rightarrow> bool" where
  "my_mutation_quiet env mutation \<longleftrightarrow> (\<forall>label n. my_fault env label n = None)
     \<and> my_commit env = Committed \<and> (\<exists>info. detect_probe (my_probe env) = Inr info)
     \<and> (\<exists>prepared. prepare_mutation_with duration_micros mutation = Inr prepared
          \<and> (\<forall>now. \<not> mutation_overflows (my_plus env) now prepared))"

text \<open>
  A refusal of a quiet mutation, and the committed state it is about: no such delivery in the
  scope, a state other than claimed, another token or a lease that has run out. A lease that
  runs out after the delivery was classified is reported as a protocol error.
\<close>

definition my_refusal ::
  "my_env \<Rightarrow> TenantId option \<Rightarrow> RowId \<Rightarrow> ClaimToken \<Rightarrow> MyMutationError \<Rightarrow> my_db \<Rightarrow> bool" where
  "my_refusal env tenant row_id token e db \<longleftrightarrow>
     (case find_delivery db (row_id_get row_id) of
        None \<Rightarrow> e = MMutNotFound
      | Some d \<Rightarrow>
          if \<not> tenant_matches tenant d then e = MMutNotFound
          else if dr_state d \<noteq> ''claimed''
            then \<exists>st. my_parse_state (dr_state d) = Inr st \<and> e = MMutIllegalTransition st
          else if dr_claim_token d \<noteq> Some (claim_token_bytes token) then e = MMutLostClaim
          else \<exists>x. dr_claim_expires_at d = Some x
            \<and> (e = MMutLostClaim \<and> x \<le> my_clock env 4
              \<or> e = MMutSql ''conditional delivery mutation''
                    (MyProtocol ''locked claimed delivery did not satisfy mutation'')
                \<and> my_clock env 4 < x \<and> x \<le> my_clock env 5))"

lemma my_execute_quiet:
  assumes "my_peers_ok env" "tx_ok t" "my_mutation_quiet env mutation" "mutation_payload_ok mutation"
  shows "\<exists>a t'. my_execute_mutation_fast env tenant row_id token mutation n t = (Inr a, t')"
proof -
  obtain p where p: "prepare_mutation_with duration_micros mutation = Inr p"
      "\<And>now. \<not> mutation_overflows (my_plus env) now p"
    and quiet: "my_fault env label k = None" for label k
    using assms(3) by (auto simp: my_mutation_quiet_def)
  let ?now = "my_clock env n" and ?u = "tx_peer (my_peer env n) t"
  have "delivery_check d" if "d \<in> set (db_deliveries (tx_view ?u))" for d
    using that my_ok_peer [OF assms(1,2), of n] by (auto simp: tx_ok_def db_ok_def list_all_iff)
  then obtain rows u where "tx_update (mutation_where row_id tenant token ?now)
      (mutation_set (my_plus env) ?now p) ?u = (Inr rows, u)"
    using tx_update_defined [of ?u "mutation_where row_id tenant token ?now" "mutation_set (my_plus env) ?now p"]
      mutation_set_check [OF _ _ assms(4) p] by blast
  then show ?thesis
    using p quiet by (simp add: my_execute_mutation_fast_def my_prepare_mutation_def tx_then_def tx_map_err_def
        tx_return_def my_statement_def tx_statement_def my_update_def Let_def)
qed

text \<open>The verdict on a consistent row.\<close>

lemma my_classify_cases:
  assumes "my_codec env" "delivery_check d"
  shows "if dr_state d \<noteq> ''claimed''
      then \<exists>st. my_parse_state (dr_state d) = Inr st \<and> my_classify_delivery env d token now = Inl (MMutIllegalTransition st)
    else \<exists>k x. dr_claim_token d = Some k \<and> dr_claim_expires_at d = Some x
      \<and> my_classify_delivery env d token now
          = (if k \<noteq> claim_token_bytes token \<or> x \<le> now then Inl MMutLostClaim else Inr ())"
proof (cases "dr_state d = ''claimed''")
  case True
  then obtain k x where "dr_claim_token d = Some k" "dr_claim_expires_at d = Some x" "length k = 16"
    using assms(2) by (auto simp: delivery_check_def delivery_shape_def)
  then show ?thesis
    using True by (simp add: my_classify_delivery_def my_parse_state_def my_codec_le [OF assms(1)] CLAIM_TOKEN_BYTES_def)
next
  case False
  then have "dr_state d \<in> {''pending'', ''delivered'', ''quarantined''}"
    using assms(2) by (auto simp: delivery_check_def delivery_shape_def)
  then show ?thesis using False by (auto simp: my_classify_delivery_def my_parse_state_def)
qed

text \<open>A locking read either finds no row or leaves it locked.\<close>

lemma my_lock_delivery_quiet:
  assumes "my_peers_ok env" "tx_ok t" "own_writes t = ([], [])" "\<And>label n. my_fault env label n = None"
  obtains (missing) t' where "my_lock_delivery env tenant row_id t = (Inl MMutNotFound, t')"
      "\<And>token. my_refusal env tenant row_id token MMutNotFound (tx_db t')"
  | (found) d t' where "my_lock_delivery env tenant row_id t = (Inr d, t')"
      "find_delivery (tx_db t') (row_id_get row_id) = Some d" "tenant_matches tenant d" "delivery_check d"
      "row_id_get row_id \<in> set (tx_locked t')" "tx_ok t'" "own_writes t' = ([], [])"
proof -
  let ?u = "tx_peer (my_peer env 3) t"
  let ?found = "find (lock_where tenant row_id) (db_deliveries (tx_db ?u))"
  let ?t = "tx_lock (case ?found of None \<Rightarrow> [] | Some d \<Rightarrow> [dr_event_row_id d]) ?u"
  have view: "tx_view ?u = tx_db ?u" using assms(3) by (intro view_no_writes) simp
  have ok: "tx_ok ?u" by (rule my_ok_peer [OF assms(1,2)])
  then have dbok: "db_ok (tx_db ?u)" by (simp add: tx_ok_def)
  have run: "my_lock_delivery env tenant row_id t = (ok_or MMutNotFound ?found, ?t)"
    using assms(4) view by (simp add: my_lock_delivery_def tx_then_def tx_map_err_def tx_return_def my_read_lock_def
        my_statement_def tx_statement_def Let_def)
  show thesis
  proof (cases ?found)
    case None
    then have "my_refusal env tenant row_id token MMutNotFound (tx_db ?t)" for token
      using find_lock_where [OF dbok, of tenant row_id] by (auto simp: my_refusal_def split: option.splits if_splits)
    then show thesis using missing None run by simp
  next
    case (Some d)
    have d: "find_delivery (tx_db ?u) (row_id_get row_id) = Some d" "tenant_matches tenant d"
      using Some find_lock_where [OF dbok, of tenant row_id] by (auto split: option.splits if_splits)
    have "lock_where tenant row_id d" using find_Some_in [OF Some] by simp
    then have "row_id_get row_id \<in> set (tx_locked ?t)" using Some by (simp add: lock_where_def)
    moreover have "own_writes ?t = ([], [])" using assms(3) by (simp add: own_writes_def)
    ultimately show thesis
      using found [of d ?t] Some d run tx_ok_lock [OF ok] find_delivery_check [OF dbok d(1)] by simp
  qed
qed

lemma my_again_refused:
  assumes "my_peers_ok env" "tx_ok t" "own_writes t = ([], [])" "my_codec env"
    and quiet: "my_mutation_quiet env mutation" and "mutation_payload_ok mutation"
    and run: "my_mutate_again env tenant row_id token mutation t = (Inl e, t')"
  shows "my_refusal env tenant row_id token e (tx_db t')"
proof -
  have nofault: "my_fault env label n = None" for label n using quiet by (simp add: my_mutation_quiet_def)
  have time: "tx_map_err f (my_database_time env label 4) t = (Inr (my_decode env (my_clock env 4)), tx_peer (my_peer env 4) t)"
    for f label t
    using nofault by (simp add: my_database_time_def my_ask_def tx_map_err_def my_statement_def tx_statement_def tx_return_def)
  note eval = run [unfolded my_mutate_again_def tx_then_def]
  from assms(1-3) nofault show ?thesis
  proof (cases rule: my_lock_delivery_quiet [where tenant = tenant and row_id = row_id])
    case (missing t1)
    then show ?thesis using eval by simp
  next
    case (found d t1)
    let ?t2 = "tx_peer (my_peer env 4) t1"
    have ext: "tx_extends t1 ?t2" by (rule my_extends_peer [OF assms(1)])
    have d2: "find_delivery (tx_db ?t2) (row_id_get row_id) = Some d" "row_id_get row_id \<in> set (tx_locked ?t2)"
      using ext found(2,5) by (auto simp: tx_extends_def)
    note verdict = my_classify_cases [OF assms(4) found(4), of token "my_clock env 4"]
    show ?thesis
    proof (cases "my_classify_delivery env d token (my_clock env 4)")
      case (Inl e')
      then have "e' = e" "t' = ?t2" using eval found(1) by (auto simp: tx_return_def time)
      then show ?thesis
        using Inl verdict d2(1) found(3) by (auto simp: my_refusal_def split: if_splits)
    next
      case (Inr u)
      then obtain x where x: "dr_claim_expires_at d = Some x" "my_clock env 4 < x"
        "dr_state d = ''claimed''" "dr_claim_token d = Some (claim_token_bytes token)"
        using verdict by (auto split: if_splits)
      have ok2: "tx_ok ?t2" and own2: "own_writes ?t2 = ([], [])"
        using tx_extends_ok [OF ext found(6)] found(7) by auto
      obtain a t3 where ex: "my_execute_mutation_fast env tenant row_id token mutation 5 ?t2 = (Inr a, t3)"
        using my_execute_quiet [OF assms(1) ok2 quiet assms(6)] by blast
      have miss: "a \<noteq> 1" and e: "e = my_mutation_error_sql ''conditional delivery mutation''
          (MyProtocol ''locked claimed delivery did not satisfy mutation'')" and t': "t' = t3"
        using eval found(1) Inr ex by (auto simp: tx_return_def time split: if_splits)
      have none: "\<not> mutation_where row_id tenant token (my_clock env 5) d'"
        if "find_delivery (tx_db t3) (row_id_get row_id) = Some d'" for d'
        using my_execute_Inr [OF assms(1) ok2 own2 ex] miss that by auto
      have "t3 = tx_peer (my_peer env 5) ?t2" using my_execute_Inr [OF assms(1) ok2 own2 ex] miss by auto
      then have d3: "find_delivery (tx_db t3) (row_id_get row_id) = Some d"
        using my_extends_peer [OF assms(1), of ?t2 5] d2 by (simp add: tx_extends_def)
      have "dr_event_row_id d = row_id_get row_id" using d3 by (auto simp: find_delivery_def dest: find_Some_in)
      then have "x \<le> my_clock env 5" using none [OF d3] x found(3) by (auto simp: mutation_where_def)
      then show ?thesis
        using d3 t' e x found(3) by (simp add: my_refusal_def my_mutation_error_sql_def my_from_sqlx_def)
    qed
  qed
qed

lemma my_mutate_refused:
  assumes "my_peers_ok env" "db_ok db" "my_codec env" "my_mutation_quiet env mutation" "mutation_payload_ok mutation"
    and run: "my_mutate env tenant row_id token mutation db = (Inl e, db')"
  shows "my_refusal env tenant row_id token e db'"
proof -
  have nofault: "my_fault env label n = None" for label n using assms(4) by (simp add: my_mutation_quiet_def)
  obtain info where info: "detect_probe (my_probe env) = Inr info" using assms(4) by (auto simp: my_mutation_quiet_def)
  obtain t where body: "my_mutate_body env tenant row_id token mutation (tx_begin db) = (Inl e, t)"
    and db': "db' = tx_db t"
    using run assms(4) by (auto simp: my_mutate_def my_mutation_quiet_def my_finish_def tx_finish_def split: sum.splits prod.splits)
  let ?t1 = "tx_peer (my_peer env 1) (tx_begin db)"
  have detect: "detect_on_connection env (tx_begin db) = (Inr info, ?t1)" using nofault info by (simp add: detect_Inr)
  have t1: "tx_ok ?t1" "own_writes ?t1 = ([], [])"
    using my_ok_peer [OF assms(1) tx_ok_begin [OF assms(2)]] by (auto simp: own_writes_def)
  obtain a t2 where ex: "my_execute_mutation_fast env tenant row_id token mutation 2 ?t1 = (Inr a, t2)"
    using my_execute_quiet [OF assms(1) t1(1) assms(4,5)] by blast
  have ok2: "tx_ok t2" by (rule tx_extends_ok [OF tx_runsD [OF tx_runs_my_execute [OF assms(1)] t1(1) ex] t1(1)])
  have miss: "a \<noteq> 1" and again: "my_mutate_again env tenant row_id token mutation t2 = (Inl e, t)"
    using body detect ex by (auto simp: my_mutate_body_def tx_then_def tx_map_err_def split: if_splits)
  then have "own_writes t2 = ([], [])" using my_execute_Inr [OF assms(1) t1 ex] t1(2) by auto
  from my_again_refused [OF assms(1) ok2 this assms(3-5) again] show ?thesis by (simp add: db')
qed

end
