(* ===== verification/Mysql_Page.thy ===== *)
theory Mysql_Page
  imports Mysql_Enqueue
begin

text \<open>
  \<open>crates/dovecote-sqlx-mysql/src/page.rs\<close>: live pages and the finite snapshot pager. A live page
  is one statement outside a transaction and reads what is committed when it runs. The pager
  starts its transaction with a consistent snapshot, read only, so every page sees what was
  committed at that moment.
\<close>

section \<open>Hydration of a joined row\<close>

text \<open>\<open>absent\<close> is \<open>require_absent\<close>; the texts are UTF-8 or refused.\<close>

definition my_token_width :: "bytes option \<Rightarrow> hydrate_error + unit" where
  "my_token_width value =
     (case value of
        Some v \<Rightarrow> if length v = CLAIM_TOKEN_BYTES then Inr ()
          else Inl (HErr (''invalid claim token width '' @ nat_to_string (length v)))
      | None \<Rightarrow> Inl (HErr ''claimed delivery has no claim token''))"

definition my_parse_failure :: "string option \<Rightarrow> string option \<Rightarrow> hydrate_error + Failure option" where
  "my_parse_failure code detail =
     (case (code, detail) of
        (None, None) \<Rightarrow> Inr None
      | (Some c, Some d) \<Rightarrow>
          and_then (strv c ''failure code'') (\<lambda>c. and_then (strv d ''failure detail'') (\<lambda>d.
          and_then (herr (failure_new c d)) (\<lambda>f. Inr (Some f))))
      | _ \<Rightarrow> Inl (HErr ''failure code and detail must be paired''))"

definition my_hydrate_snapshot ::
  "my_env \<Rightarrow> int durable_row \<Rightarrow> string \<Rightarrow> int \<Rightarrow> AttemptCount \<Rightarrow> Failure option
     \<Rightarrow> hydrate_error + DeliverySnapshot" where
  "my_hydrate_snapshot env row state available_at attempts failure =
     (if state = ''pending'' then
        and_then (require_absent ''pending claim token'' (du_claim_token row)) (\<lambda>_.
        and_then (require_absent ''pending worker'' (du_claimed_by row)) (\<lambda>_.
        and_then (require_absent ''pending expiry'' (du_claim_expires_at row)) (\<lambda>_.
        and_then (require_absent ''pending delivered'' (du_delivered_at row)) (\<lambda>_.
        and_then (require_absent ''pending quarantined'' (du_quarantined_at row)) (\<lambda>_.
        and_then (require_absent ''pending reason'' (du_quarantine_reason row)) (\<lambda>_.
          herr (snapshot_pending (my_decode env available_at) attempts failure)))))))
      else if state = ''claimed'' then
        and_then (my_token_width (du_claim_token row)) (\<lambda>_.
        and_then (ok_or (HErr ''claimed delivery has no worker'') (du_claimed_by row)) (\<lambda>claimed_by.
        and_then (strv claimed_by ''worker'') (\<lambda>worker.
        and_then (herr (worker_id_new worker)) (\<lambda>worker.
        and_then (ok_or (HErr ''claimed delivery has no expiry'') (du_claim_expires_at row)) (\<lambda>expires.
        and_then (require_absent ''claimed delivered'' (du_delivered_at row)) (\<lambda>_.
        and_then (require_absent ''claimed quarantined'' (du_quarantined_at row)) (\<lambda>_.
        and_then (require_absent ''claimed reason'' (du_quarantine_reason row)) (\<lambda>_.
          herr (snapshot_claimed (my_decode env available_at) worker (my_decode env expires) attempts
            failure)))))))))
      else if state = ''delivered'' then
        and_then (require_absent ''delivered token'' (du_claim_token row)) (\<lambda>_.
        and_then (require_absent ''delivered worker'' (du_claimed_by row)) (\<lambda>_.
        and_then (require_absent ''delivered expiry'' (du_claim_expires_at row)) (\<lambda>_.
        and_then (ok_or (HErr ''delivered delivery has no timestamp'') (du_delivered_at row)) (\<lambda>delivered.
        and_then (require_absent ''delivered quarantined'' (du_quarantined_at row)) (\<lambda>_.
        and_then (require_absent ''delivered reason'' (du_quarantine_reason row)) (\<lambda>_.
          herr (snapshot_delivered (my_decode env available_at) (my_decode env delivered) attempts
            failure)))))))
      else if state = ''quarantined'' then
        and_then (require_absent ''quarantined token'' (du_claim_token row)) (\<lambda>_.
        and_then (require_absent ''quarantined worker'' (du_claimed_by row)) (\<lambda>_.
        and_then (require_absent ''quarantined expiry'' (du_claim_expires_at row)) (\<lambda>_.
        and_then (require_absent ''quarantined delivered'' (du_delivered_at row)) (\<lambda>_.
        and_then (ok_or (HErr ''quarantined delivery has no timestamp'') (du_quarantined_at row)) (\<lambda>at.
        and_then (ok_or (HErr ''quarantined delivery has no reason'') (du_quarantine_reason row)) (\<lambda>reason.
        and_then (strv reason ''quarantine reason'') (\<lambda>reason.
        and_then (herr (quarantine_reason_new reason)) (\<lambda>reason.
          herr (snapshot_quarantined (my_decode env available_at) (my_decode env at) attempts failure
            reason)))))))))
      else Inl (HErr ''unknown delivery state''))"

definition my_hydrate_page :: "ext_lib \<Rightarrow> my_env \<Rightarrow> int durable_row \<Rightarrow> hydrate_error + PagedEvent" where
  "my_hydrate_page lib env row =
     and_then (strv (er_tenant_id (du_event row)) ''tenant id'') (\<lambda>tenant.
     and_then (herr (tenant_id_new tenant)) (\<lambda>tenant_id.
     and_then (herr (row_id_new (er_row_id (du_event row)))) (\<lambda>row_id.
     and_then (my_hydrate_event lib env (du_event row)) (\<lambda>event.
     and_then (ok_or (HErr (''event row '' @ int_to_string (er_row_id (du_event row))
       @ '' has no required delivery row'')) (du_state row)) (\<lambda>state.
     and_then (ok_or (HErr ''delivery row has no available_at'') (du_available_at row)) (\<lambda>available_at.
     and_then (ok_or (HErr ''delivery row has no attempts'') (du_attempts row)) (\<lambda>n.
     and_then (herr (attempt_count_new n)) (\<lambda>attempts.
     and_then (my_parse_failure (du_last_failure_code row) (du_last_failure_detail row)) (\<lambda>failure.
     and_then (my_hydrate_snapshot env row state available_at attempts failure) (\<lambda>delivery.
       herr (paged_event_new tenant_id row_id event (my_decode env (er_enqueued_at (du_event row)))
         delivery)))))))))))"

section \<open>One page\<close>

definition schema_to_page :: "MySchemaError \<Rightarrow> MyPageError" where
  "schema_to_page error =
     (case error of
        MSchBackendMismatch detail \<Rightarrow> MPagBackendMismatch detail
      | MSchMigrationMismatch detail \<Rightarrow> MPagSerialization detail
      | MSchSql operation source \<Rightarrow> my_page_error_sql operation source
      | MSchTransient operation kind source \<Rightarrow> MPagTransient operation kind source)"

definition my_page_hydrate_error :: "hydrate_error \<Rightarrow> MyPageError" where
  "my_page_hydrate_error e = (case e of HErr d \<Rightarrow> MPagSerialization d | HPanic \<Rightarrow> MPagPanic)"

definition query_page_scoped ::
  "ext_lib \<Rightarrow> my_env \<Rightarrow> TenantId option \<Rightarrow> int \<Rightarrow> int option \<Rightarrow> PageLimit \<Rightarrow> my_db
     \<Rightarrow> MyPageError + PagedEvent list" where
  "query_page_scoped lib env tenant_id after_row_id upper limit db =
     and_then (map_err (my_page_error_sql ''read event page'')
       (run_or (my_fault env ''read event page'' 2)
         (page_sql tenant_id after_row_id upper (limit_get limit) db))) (\<lambda>rows.
     map_err my_page_hydrate_error (collect_results (my_hydrate_page lib env) rows))"

text \<open>What is committed when statement \<open>n\<close> of a session without writes runs.\<close>

definition my_committed :: "my_env \<Rightarrow> nat \<Rightarrow> my_db \<Rightarrow> my_db" where
  "my_committed env n db = my_peer env n (tx_begin db)"

definition my_page_for_scope ::
  "ext_lib \<Rightarrow> my_env \<Rightarrow> TenantId option \<Rightarrow> RowId option \<Rightarrow> PageLimit \<Rightarrow> my_db
     \<Rightarrow> MyPageError + PagedEvent list" where
  "my_page_for_scope lib env tenant_id after_row_id limit db =
     and_then (map_err (my_page_error_sql ''acquire live page connection'')
       (run_or (my_fault env ''acquire live page connection'' 0) ())) (\<lambda>_.
     and_then (map_err schema_to_page (fst (detect_on_connection env (tx_begin db)))) (\<lambda>_.
     query_page_scoped lib env tenant_id (cursor_value after_row_id) None limit
       (my_committed env 2 (my_committed env 1 db))))"

section \<open>The snapshot pager\<close>

type_synonym my_SnapshotPager = "int snapshot_pager"

definition my_begin_snapshot_for_scope ::
  "my_env \<Rightarrow> TenantId option \<Rightarrow> my_db \<Rightarrow> MyPageError + my_SnapshotPager" where
  "my_begin_snapshot_for_scope env tenant_id db =
     and_then (map_err (my_page_error_sql ''begin snapshot transaction'')
       (run_or (my_fault env ''begin snapshot transaction'' 0) ())) (\<lambda>_.
     let snapshot = my_committed env 0 db in
     and_then (map_err schema_to_page (fst (detect_on_connection env (tx_begin snapshot)))) (\<lambda>info.
     if \<not> repeatable_read_snapshot (bi_capabilities info) then Inl (MPagBackendMismatch SnapshotsMissing)
     else if \<not> same_ascii_case (bi_transaction_isolation info) ''REPEATABLE-READ''
       then Inl (MPagBackendMismatch (SnapshotIsolation (bi_transaction_isolation info)))
     else
     and_then (map_err (my_page_error_sql ''read snapshot upper row ID'')
       (run_or (my_fault env ''read snapshot upper row ID'' 2) (sql_max_row_id tenant_id snapshot))) (\<lambda>value.
     and_then (case value of
         None \<Rightarrow> Inr None
       | Some v \<Rightarrow> map_err (\<lambda>e. MPagSerialization (verror_to_string e))
           (and_then (row_id_new v) (\<lambda>r. Inr (Some r)))) (\<lambda>upper_bound.
     Inr \<lparr>pgr_transaction = snapshot, pgr_upper_bound = upper_bound, pgr_cursor = None,
          pgr_exhausted = (upper_bound = None), pgr_tenant_id = tenant_id\<rparr>))))"

definition my_next_page ::
  "ext_lib \<Rightarrow> my_env \<Rightarrow> PageLimit \<Rightarrow> my_SnapshotPager \<Rightarrow> (MyPageError + PagedEvent list) \<times> my_SnapshotPager" where
  "my_next_page lib env = next_page_with (query_page_scoped lib env) MPagPanic"

definition my_pager_finish :: "my_env \<Rightarrow> my_SnapshotPager \<Rightarrow> MyPageError + unit" where
  "my_pager_finish env p = map_err (my_page_error_sql ''finish snapshot transaction'')
     (fst (my_finish env (tx_begin (pgr_transaction p))))"

definition my_pager_rollback :: "my_env \<Rightarrow> my_SnapshotPager \<Rightarrow> MyPageError + unit" where
  "my_pager_rollback env p = map_err (my_page_error_sql ''rollback snapshot transaction'')
     (run_or (my_fault env ''rollback snapshot transaction'' 0) ())"

definition my_pager_close :: "my_env \<Rightarrow> my_SnapshotPager \<Rightarrow> MyPageError + unit" where
  "my_pager_close env p = my_pager_rollback env p"

section \<open>The pager reads its snapshot once\<close>

lemma my_hydrate_page_sel:
  assumes "my_hydrate_page lib env row = Inr p"
  shows "pe_row_id p = RowId (er_row_id (du_event row))"
    and "tenant_id_str (pe_tenant_id p) = er_tenant_id (du_event row)"
proof -
  from assms obtain t tid rid ev q s where new: "strv (er_tenant_id (du_event row)) ''tenant id'' = Inr t"
    "tenant_id_new t = Inr tid" "row_id_new (er_row_id (du_event row)) = Inr rid"
    "paged_event_new tid rid ev q s = Inr p"
    unfolding my_hydrate_page_def and_then_Inr_iff herr_Inr_iff by blast
  from new(3,4) show "pe_row_id p = RowId (er_row_id (du_event row))"
    by (auto simp: paged_event_new_def and_then_Inr_iff row_id_new_Inr_iff)
  from new(1,2,4) show "tenant_id_str (pe_tenant_id p) = er_tenant_id (du_event row)"
    by (auto simp: paged_event_new_def and_then_Inr_iff tenant_id_new_Inr_iff strv_def split: if_splits)
qed

lemma my_begin_snapshot_at:
  assumes "db_ok (my_committed env 0 db)" and "my_begin_snapshot_for_scope env tenant db = Inr p"
  shows "pgr_at p tenant (my_committed env 0 db) 0"
  using assms(2) sql_max_row_id_eq [OF assms(1), of tenant]
  by (auto simp: my_begin_snapshot_for_scope_def and_then_Inr_iff run_or_Inr_iff row_id_new_Inr_iff
      Let_def pgr_at_def position_def cursor_value_def split: if_splits)

text \<open>
  A call on a connection that reads its page. SQLx decodes with one conversion, that of the
  environment \<open>env0\<close> in which the snapshot was opened.
\<close>

definition my_quiet_call :: "my_env \<Rightarrow> my_env \<times> PageLimit \<Rightarrow> bool" where
  "my_quiet_call env0 = (\<lambda>(env, l). 0 < limit_get l \<and> my_decode env = my_decode env0
     \<and> my_fault env ''read event page'' 2 = None)"

lemma my_hydrate_page_cong:
  assumes "my_decode env = my_decode env'"
  shows "my_hydrate_page lib env = my_hydrate_page lib env'"
  by (rule ext) (simp only: my_hydrate_page_def my_hydrate_snapshot_def my_hydrate_event_def assms)

lemma my_query_page_quiet:
  assumes "my_quiet_call env0 (env, l)"
  shows "query_page_scoped lib env tenant a upper l db
    = map_err my_page_hydrate_error
        (collect_results (my_hydrate_page lib env0) (page_sql tenant a upper (limit_get l) db))"
  using assms my_hydrate_page_cong [of env env0 lib]
  by (simp add: query_page_scoped_def my_quiet_call_def)

interpretation my_pages: page_server
  "\<lambda>(env, l). query_page_scoped lib env" "\<lambda>(env, l). l" MPagPanic "my_hydrate_page lib env0"
  my_page_hydrate_error "my_quiet_call env0" for lib env0
  by unfold_locales (auto simp: my_query_page_quiet my_quiet_call_def intro: my_hydrate_page_sel(1))

definition my_run_pager ::
  "ext_lib \<Rightarrow> (my_env \<times> PageLimit) list \<Rightarrow> my_SnapshotPager
     \<Rightarrow> (MyPageError + PagedEvent list) \<times> my_SnapshotPager" where
  "my_run_pager lib calls p = run_calls (\<lambda>(env, l). my_next_page lib env l) calls p"

definition my_total_limit :: "(my_env \<times> PageLimit) list \<Rightarrow> nat" where
  "my_total_limit calls = sum_list (map (\<lambda>(env, l). limit_get l) calls)"

lemma my_run_pager_at:
  assumes "db_ok db"
    and evs: "collect_results (my_hydrate_page lib env0) (map (page_join db) (scope_rows tenant db)) = Inr evs"
    and "list_all (my_quiet_call env0) calls" and "pgr_at p tenant db k"
  shows "\<exists>p'. my_run_pager lib calls p = (Inr (take (my_total_limit calls) (drop k evs)), p')
    \<and> pgr_at p' tenant db (k + my_total_limit calls)"
  using my_pages.slices.calls [of db lib env0 tenant evs p k calls] assms
  by (simp add: my_run_pager_def my_total_limit_def my_next_page_def split_beta' cong: if_cong)

text \<open>A live page is the next slice of what is committed when it is read.\<close>

lemma my_page_for_scope_Inr:
  assumes "my_page_for_scope lib env tenant after_row_id limit db = Inr rows"
  shows "collect_results (my_hydrate_page lib env) (page_sql tenant (cursor_value after_row_id) None
      (limit_get limit) (my_committed env 2 (my_committed env 1 db))) = Inr rows"
  using assms
  by (auto simp: my_page_for_scope_def query_page_scoped_def and_then_Inr_iff map_err_Inr_iff run_or_Inr_iff)

end
