(* ===== verification/Mysql_Scope.thy ===== *)
theory Mysql_Scope
  imports Mysql_Import Mysql_Mutation Mysql_Page
begin

text \<open>
  The handles of \<open>crates/dovecote-sqlx-mysql/src/lib.rs\<close> and \<open>scope.rs\<close>. A handle holds the pool,
  which is the environment argument here, and for a tenant the tenant it is restricted to; the
  administrative one takes the tenant as an argument.
\<close>

datatype MyTenantDovecote = MyTenantDovecote (my_handle_tenant: TenantId)

datatype MyAdminDovecote = MyAdminDovecote

definition my_for_tenant :: "TenantId \<Rightarrow> MyTenantDovecote" where
  "my_for_tenant tenant = MyTenantDovecote tenant"

definition my_admin :: MyAdminDovecote where
  "my_admin = MyAdminDovecote"

definition mysql_check_schema :: "Migration list \<Rightarrow> my_catalog \<Rightarrow> my_env \<Rightarrow> my_db \<Rightarrow> MySchemaError + unit" where
  "mysql_check_schema migrations cat env db = my_check_schema migrations cat env db"

text \<open>\<open>detect\<close> of \<open>backend.rs\<close>, on a connection of the pool.\<close>

definition detect :: "my_env \<Rightarrow> my_db \<Rightarrow> MySchemaError + BackendInfo" where
  "detect env db =
     and_then (map_err (my_schema_error_sql ''acquire backend detection connection'')
       (run_or (my_fault env ''acquire backend detection connection'' 0) ())) (\<lambda>_.
     fst (detect_on_connection env (tx_begin db)))"

definition backend_info :: "my_env \<Rightarrow> my_db \<Rightarrow> MySchemaError + BackendInfo" where
  "backend_info env db = detect env db"

section \<open>The tenant handle\<close>

definition my_tenant_enqueue where
  "my_tenant_enqueue lib migrations env self event =
     my_enqueue_for_scope lib migrations env (my_handle_tenant self) event"

definition my_tenant_import_for_migration where
  "my_tenant_import_for_migration lib migrations cat env self event state =
     my_import_for_scope lib migrations cat env (my_handle_tenant self) event state"

definition my_tenant_finalize_pending_delivery_for_migration where
  "my_tenant_finalize_pending_delivery_for_migration migrations cat env self row_id delivered_at =
     my_finalize_for_scope migrations cat env (my_handle_tenant self) row_id delivered_at"

definition my_tenant_page where
  "my_tenant_page lib env self after_row_id limit db =
     my_page_for_scope lib env (Some (my_handle_tenant self)) after_row_id limit db"

definition my_tenant_begin_snapshot where
  "my_tenant_begin_snapshot env self db = my_begin_snapshot_for_scope env (Some (my_handle_tenant self)) db"

definition my_tenant_claim where
  "my_tenant_claim lib env self worker lease_for limit entropy db =
     my_claim_for_scope lib env (Some (my_handle_tenant self)) worker lease_for limit entropy db"

definition my_tenant_renew where
  "my_tenant_renew env self row_id claim_token lease_for db =
     my_renew_for_scope env (Some (my_handle_tenant self)) row_id claim_token lease_for db"

definition my_tenant_ack where
  "my_tenant_ack env self row_id claim_token db =
     my_ack_for_scope env (Some (my_handle_tenant self)) row_id claim_token db"

definition my_tenant_retry where
  "my_tenant_retry env self row_id claim_token failure backoff db =
     my_retry_for_scope env (Some (my_handle_tenant self)) row_id claim_token failure backoff db"

definition my_tenant_release where
  "my_tenant_release env self row_id claim_token delay db =
     my_release_for_scope env (Some (my_handle_tenant self)) row_id claim_token delay db"

definition my_tenant_quarantine where
  "my_tenant_quarantine env self row_id claim_token reason db =
     my_quarantine_for_scope env (Some (my_handle_tenant self)) row_id claim_token reason db"

section \<open>The administrative handle\<close>

definition my_admin_enqueue where
  "my_admin_enqueue lib migrations env (self :: MyAdminDovecote) tenant_id event =
     my_enqueue_for_scope lib migrations env tenant_id event"

definition my_admin_import_for_migration where
  "my_admin_import_for_migration lib migrations cat env (self :: MyAdminDovecote) tenant_id event state =
     my_import_for_scope lib migrations cat env tenant_id event state"

definition my_admin_finalize_pending_delivery_for_migration where
  "my_admin_finalize_pending_delivery_for_migration migrations cat env (self :: MyAdminDovecote) tenant_id
     row_id delivered_at = my_finalize_for_scope migrations cat env tenant_id row_id delivered_at"

definition my_admin_page where
  "my_admin_page lib env (self :: MyAdminDovecote) after_row_id limit db =
     my_page_for_scope lib env None after_row_id limit db"

definition my_admin_begin_snapshot where
  "my_admin_begin_snapshot env (self :: MyAdminDovecote) db = my_begin_snapshot_for_scope env None db"

definition my_admin_claim where
  "my_admin_claim lib env (self :: MyAdminDovecote) worker lease_for limit entropy db =
     my_claim_for_scope lib env None worker lease_for limit entropy db"

definition my_admin_renew where
  "my_admin_renew env (self :: MyAdminDovecote) tenant_id row_id claim_token lease_for db =
     my_renew_for_scope env (Some tenant_id) row_id claim_token lease_for db"

definition my_admin_ack where
  "my_admin_ack env (self :: MyAdminDovecote) tenant_id row_id claim_token db =
     my_ack_for_scope env (Some tenant_id) row_id claim_token db"

definition my_admin_retry where
  "my_admin_retry env (self :: MyAdminDovecote) tenant_id row_id claim_token failure backoff db =
     my_retry_for_scope env (Some tenant_id) row_id claim_token failure backoff db"

definition my_admin_release where
  "my_admin_release env (self :: MyAdminDovecote) tenant_id row_id claim_token delay db =
     my_release_for_scope env (Some tenant_id) row_id claim_token delay db"

definition my_admin_quarantine where
  "my_admin_quarantine env (self :: MyAdminDovecote) tenant_id row_id claim_token reason db =
     my_quarantine_for_scope env (Some tenant_id) row_id claim_token reason db"

end
