(* ===== verification/Mysql_Lifecycle.thy ===== *)
theory Mysql_Lifecycle
  imports Mysql_Scope Adapter_Session
begin

text \<open>
  The MySQL adapter refines the delivery lifecycle. A step of \<open>my_step\<close> is a commit: from what is
  committed at that moment to the view of the transaction. A claim and a mutation are transactions
  of the adapter, and \<open>my_caller\<close> is a transaction in which a caller enqueues, imports and
  finalises. The interpretation of \<open>server_commits\<close> gives the laws of the lifecycle for every
  history of commits.
\<close>

section \<open>Commits\<close>

text \<open>
  A transaction of a caller that started on \<open>db\<close>. Between its calls others may commit (\<open>wait\<close>), and
  its own reads may open the snapshot (\<open>read\<close>); it is rolled back after an error.
\<close>

inductive my_caller :: "ext_lib \<Rightarrow> my_db \<Rightarrow> my_txn \<Rightarrow> bool" for lib db where
  opened: "my_caller lib db (tx_begin db)"
| wait: "my_caller lib db t \<Longrightarrow> peers_ok peer \<Longrightarrow> my_caller lib db (tx_peer peer t)"
| read: "my_caller lib db t \<Longrightarrow> my_caller lib db (tx_open t)"
| enqueue: "my_caller lib db t \<Longrightarrow> my_peers_ok env \<Longrightarrow>
    my_enqueue_for_scope lib migrations env tenant event t = (Inr enqueued, t') \<Longrightarrow> my_caller lib db t'"
| imported: "my_caller lib db t \<Longrightarrow> my_peers_ok env \<Longrightarrow>
    my_import_for_scope lib migrations cat env tenant event state t = (Inr outcome, t') \<Longrightarrow> my_caller lib db t'"
| finalize: "my_caller lib db t \<Longrightarrow> my_peers_ok env \<Longrightarrow>
    my_finalize_for_scope migrations cat env tenant row_id delivered_at t = (Inr finalized, t') \<Longrightarrow>
    my_caller lib db t'"

inductive my_step :: "ext_lib \<Rightarrow> my_db \<Rightarrow> my_db \<Rightarrow> bool" for lib where
  caller: "my_caller lib db t \<Longrightarrow> db_ok db \<Longrightarrow> my_step lib (tx_db t) (tx_view t)"
| claim: "my_claim_body lib env tenant worker lease limit ent (tx_begin db) = Some (Inr claimed, rest, t) \<Longrightarrow>
    my_peers_ok env \<Longrightarrow> my_codec env \<Longrightarrow> db_ok db \<Longrightarrow> my_step lib (tx_db t) (tx_view t)"
| mutate: "my_mutate_body env tenant row_id token mutation (tx_begin db) = (Inr (), t) \<Longrightarrow>
    my_peers_ok env \<Longrightarrow> db_ok db \<Longrightarrow> my_step lib (tx_db t) (tx_view t)"

section \<open>Every commit refines the lifecycle\<close>

lemma my_caller_ok:
  assumes "my_caller lib db t" "db_ok db"
  shows "caller_ok t"
  using assms(1)
proof induction
  case opened
  then show ?case using assms(2) by (rule caller_ok_begin)
next
  case (wait t peer)
  show ?case by (rule caller_ok_same [OF wait.IH tx_extends_peer [OF wait(2)]]) simp
next
  case (read t)
  show ?case by (rule caller_ok_same [OF read.IH tx_extends_open]) (simp add: own_writes_def)
next
  case (enqueue t env migrations tenant event out t')
  then have ok: "tx_ok t" by (simp add: caller_ok_def)
  note ext = tx_runsD [OF tx_runs_my_enqueue [OF enqueue(2)] ok enqueue(3)]
  from enqueue(2) ok enqueue(3) show ?case
  proof (cases rule: my_enqueue_outcome)
    case enqueued
    show ?thesis
      by (rule caller_ok_insert [OF enqueue.IH ext enqueued(2,3)])
        (simp_all add: enqueued_delivery_def enqueued(4))
  next
    case (already r d)
    show ?thesis by (rule caller_ok_same [OF enqueue.IH ext already(2)])
  qed
next
  case (imported t env migrations cat tenant event state out t')
  then have ok: "tx_ok t" by (simp add: caller_ok_def)
  note ext = tx_runsD [OF tx_runs_my_import [OF imported(2)] ok imported(3)]
  from imported(2) ok imported(3) show ?case
  proof (cases rule: my_import_outcome)
    case new: (imported now)
    show ?thesis
      by (rule caller_ok_insert [OF imported.IH ext new(2,3)]) (simp_all add: new(4))
  next
    case (already r d)
    show ?thesis by (rule caller_ok_same [OF imported.IH ext already(2)])
  qed
next
  case (finalize t env migrations cat tenant row_id delivered_at out t')
  then have ok: "tx_ok t" by (simp add: caller_ok_def)
  note ext = tx_runsD [OF tx_runs_my_finalize [OF finalize(2)] ok finalize(3)]
  from finalize(2) ok finalize(3) show ?case
  proof (cases rule: my_finalize_Inr)
    case already
    show ?thesis by (rule caller_ok_same [OF finalize.IH ext already(2)])
  next
    case (finalized s d q)
    have "caller_ok s" by (rule caller_ok_same [OF finalize.IH finalized(2,3)])
    then show ?thesis
      by (rule caller_ok_finalize [OF _ finalized(4,6,7) tx_extends_ok [OF ext ok]])
  qed
qed

lemma my_step_commits:
  assumes "my_step lib db db'"
  shows "\<exists>t. db = tx_db t \<and> db' = tx_view t \<and> commit_ok t"
  using assms
proof cases
  case (caller db0 t)
  then show ?thesis using my_caller_ok commit_ok_def by blast
next
  case (claim env tenant worker lease limit ent db0 claimed rest t)
  then have "claim_commit t"
    using my_claim_transition [OF claim(4,5,6,3)] unfolding claim_commit_def by blast
  then show ?thesis using claim(1,2) commit_ok_def by blast
next
  case (mutate env tenant row_id token mutation db0 t)
  then have "mutation_commit t"
    using my_mutate_body_Inr [OF mutate(4,5,3)] unfolding mutation_commit_def by blast
  then show ?thesis using mutate(1,2) commit_ok_def by blast
qed

interpretation my: server_commits "my_step lib" for lib
  by unfold_locales (rule my_step_commits)

section \<open>Calls are histories of commits\<close>

text \<open>The others run the same adapter.\<close>

definition my_peers_run :: "ext_lib \<Rightarrow> my_env \<Rightarrow> bool" where
  "my_peers_run lib env \<longleftrightarrow> my_peers_ok env \<and> (\<forall>n t. (my_step lib)\<^sup>*\<^sup>* (tx_db t) (my_peer env n t))"

lemma reaches_my_statement:
  assumes "my_peers_run lib env" "keeps_db body"
  shows "reaches (my_step lib) (my_statement env label n body)"
  unfolding my_statement_def by (rule reaches_tx_statement) (use assms in \<open>simp_all add: my_peers_run_def\<close>)

lemma keeps_db_my_update: "keeps_db (my_update env p f)"
  using keeps_db_map_err [OF keeps_db_update, of "my_violation env ''dovecote_deliveries''" p f]
  by (auto simp: keeps_db_def my_update_def tx_then_def tx_return_def split: prod.split sum.split)
    (metis snd_conv)+

lemma reaches_my_ask: "my_peers_run lib env \<Longrightarrow> reaches (my_step lib) (my_ask env label n v)"
  unfolding my_ask_def by (rule reaches_my_statement) (simp_all add: keeps_db_def tx_return_def)

lemma reaches_my_read: "my_peers_run lib env \<Longrightarrow> reaches (my_step lib) (my_read env label n f)"
  unfolding my_read_def by (rule reaches_my_statement) (simp_all add: keeps_db_def tx_read_seen_def)

lemma reaches_my_read_lock: "my_peers_run lib env \<Longrightarrow> reaches (my_step lib) (my_read_lock env label n f keys)"
  unfolding my_read_lock_def by (rule reaches_my_statement) (simp_all add: keeps_db_def Let_def)

lemma reaches_detect: "my_peers_run lib env \<Longrightarrow> reaches (my_step lib) (detect_on_connection env)"
  unfolding detect_on_connection_def by (intro reaches_intros reaches_my_ask)

lemmas my_reaches = reaches_intros reaches_my_ask reaches_my_read reaches_my_read_lock reaches_detect
  reaches_my_statement keeps_db_my_update

lemma reaches_lock_window:
  "my_peers_run lib env \<Longrightarrow> reaches (my_step lib) (lock_window env tenant limit ids w)"
proof (induction ids arbitrary: w)
  case (Cons rid ids)
  obtain n a cs where w: "w = (n, a, cs)" by (cases w)
  show ?case
    unfolding w lock_window.simps lock_candidate_def
    by (intro reaches_then reaches_map_err reaches_my_read_lock Cons.prems)
      (auto split: option.split intro: Cons.IH [OF Cons.prems])
qed simp

lemma reaches_my_claim_select:
  assumes "my_peers_run lib env"
  shows "reaches (my_step lib) (my_claim_select env tenant limit)"
proof -
  have "reaches (my_step lib) (read_window env tenant limit n a)" for n a
    unfolding read_window_def by (intro my_reaches assms)
  then have "(my_step lib)\<^sup>*\<^sup>* (tx_db t) (tx_db (snd (lock_windows env tenant limit (n, a, cs) t)))" for t n a cs
    using reaches_lock_window [OF assms]
    by (intro lock_windows_rel [where Q = "\<lambda>t t'. (my_step lib)\<^sup>*\<^sup>* (tx_db t) (tx_db t')"])
      (auto simp: reaches_def)
  then have "reaches (my_step lib) (lock_windows env tenant limit (n, a, cs))" for n a cs
    by (simp add: reaches_def)
  then show ?thesis
    unfolding my_claim_select_def lock_candidates_def by (intro my_reaches assms)
qed

lemma reaches_my_persist:
  assumes "my_peers_run lib env"
  shows "reaches (my_step lib) (my_persist_batch env n ps worker lease now)"
proof -
  have "reaches (my_step lib) (apply_claims_with (\<lambda>i. my_claim_row env x worker (n + 2 * i)) k ps)" for x k
    by (induction ps arbitrary: k)
      (auto simp: my_claim_row_def my_update_claimed_def my_read_expiry_def intro!: my_reaches assms)
  then show ?thesis unfolding my_persist_batch_def by (intro my_reaches)
qed

lemma reaches_my_claim_body:
  assumes "my_peers_run lib env"
    and "my_claim_body lib env tenant worker lease limit ent t0 = Some (res, rest, t)"
  shows "(my_step lib)\<^sup>*\<^sup>* (tx_db t0) (tx_db t)"
proof -
  obtain r t1 where sel: "my_claim_select env tenant (limit_get limit) t0 = (r, t1)" by fastforce
  have 1: "(my_step lib)\<^sup>*\<^sup>* (tx_db t0) (tx_db t1)" by (rule reachesD [OF reaches_my_claim_select [OF assms(1)] sel])
  have time: "(my_step lib)\<^sup>*\<^sup>* (tx_db t1) (tx_db t2)" if "tx_map_err (my_claim_error_sql l)
      (my_database_time env l n) t1 = (w, t2)" for l n w t2
    by (rule reachesD [where m = "tx_map_err (my_claim_error_sql l) (my_database_time env l n)", OF _ that])
      (simp add: my_database_time_def reaches_map_err reaches_my_ask [OF assms(1)])
  have persist: "(my_step lib)\<^sup>*\<^sup>* (tx_db t2) (tx_db t3)"
    if "my_persist_batch env n ps worker lease now t2 = (w, t3)" for n ps now w t2 t3
    by (rule reachesD [OF reaches_my_persist [OF assms(1)] that])
  show ?thesis
    using assms(2) sel 1 time persist rtranclp_trans [OF 1] rtranclp_trans [OF rtranclp_trans [OF 1 time] persist]
    by (auto simp: my_claim_body_def split: sum.splits prod.splits option.splits if_splits)
qed

lemma reaches_my_mutate_body:
  assumes "my_peers_run lib env"
  shows "reaches (my_step lib) (my_mutate_body env tenant row_id token mutation)"
  unfolding my_mutate_body_def my_mutate_again_def my_execute_mutation_fast_def my_lock_delivery_def
    my_database_time_def
  by (intro my_reaches assms)

lemma my_claim_run:
  assumes "my_peers_run lib env" "my_codec env" "db_ok db"
    and "my_claim_for_scope lib env tenant worker lease limit ent db = Some (res, rest, db')"
  shows "(my_step lib)\<^sup>*\<^sup>* db db'"
  using assms(4)
proof (cases rule: my_claim_cases)
  case (rolled_back e t)
  then show ?thesis using reaches_my_claim_body [OF assms(1) rolled_back(1)] by simp
next
  case (finished claimed t)
  have 1: "(my_step lib)\<^sup>*\<^sup>* db (tx_db t)" using reaches_my_claim_body [OF assms(1) finished(1)] by simp
  have "my_step lib (tx_db t) (tx_view t)"
    using my_step.claim [OF finished(1) _ assms(2,3)] assms(1) by (simp add: my_peers_run_def)
  then show ?thesis using 1 finished(2) by (auto intro: rtranclp.rtrancl_into_rtrancl)
qed simp

lemma my_mutate_run:
  assumes "my_peers_run lib env" "db_ok db"
    and "my_mutate env tenant row_id token mutation db = (res, db')"
  shows "(my_step lib)\<^sup>*\<^sup>* db db'"
  using assms(3)
proof (cases rule: my_mutate_cases)
  case (rolled_back e t)
  then show ?thesis using reachesD [OF reaches_my_mutate_body [OF assms(1)] rolled_back(1)] by simp
next
  case (finished t)
  have 1: "(my_step lib)\<^sup>*\<^sup>* db (tx_db t)"
    using reachesD [OF reaches_my_mutate_body [OF assms(1)] finished(1)] by simp
  have "my_step lib (tx_db t) (tx_view t)"
    using my_step.mutate [OF finished(1) _ assms(2)] assms(1) by (simp add: my_peers_run_def)
  then show ?thesis using 1 finished(2) by (auto intro: rtranclp.rtrancl_into_rtrancl)
qed simp

end
