(* ===== verification/Mysql_Samples.thy ===== *)
theory Mysql_Samples
  imports Mysql_Lifecycle Server_Samples
begin

text \<open>
  Concrete values at which the properties of the MySQL adapter are instantiated: a server of an
  accepted release without faults whose clock stands still, and the operations that take the
  sample event from the empty tables to its acknowledgement.
\<close>

section \<open>A server\<close>

definition my_sample_probe :: ServerProbe where
  "my_sample_probe = \<lparr>probe_version = ''8.4.7'', probe_version_comment = ''MySQL Community Server'',
     probe_time_zone = ''+00:00'', probe_transaction_isolation = ''REPEATABLE-READ'',
     probe_sql_mode = ''STRICT_TRANS_TABLES'', probe_character_set_client = ''utf8mb4'',
     probe_character_set_connection = ''utf8mb4'', probe_character_set_results = ''utf8mb4'',
     probe_collation_connection = ''utf8mb4_bin''\<rparr>"

definition my_sample_info :: BackendInfo where
  "my_sample_info = \<lparr>bi_kind = MySql, bi_version = \<lparr>sv_major = 8, sv_minor = 4, sv_patch = 7\<rparr>,
     bi_capabilities = capabilities MySql \<lparr>sv_major = 8, sv_minor = 4, sv_patch = 7\<rparr>,
     bi_transaction_isolation = ''REPEATABLE-READ''\<rparr>"

lemma my_sample_version: "parse_server_version ''8.4.7'' = Some \<lparr>sv_major = 8, sv_minor = 4, sv_patch = 7\<rparr>"
proof -
  have "split_where (\<lambda>c. \<not> is_ascii_digit c \<and> c \<noteq> CHR ''.'') ''8.4.7'' = [''8.4.7'']"
    "split_str (CHR ''.'') ''8.4.7'' = [''8'', ''4'', ''7'']"
    "list_all is_ascii_digit ''8''" "list_all is_ascii_digit ''4''" "list_all is_ascii_digit ''7''" by code_simp+
  moreover have "byte (CHR ''8'') = 56" "byte (CHR ''4'') = 52" "byte (CHR ''7'') = 55" by code_simp+
  ultimately show ?thesis
    by (simp add: parse_server_version_def parse_u32_def del: split_where.simps split_str.simps)
qed

lemma my_sample_zone: "str_trim ''+00:00'' = ''+00:00''"
proof -
  have "byte (CHR ''+'') = 43" "byte (CHR ''0'') = 48" by code_simp+
  then show ?thesis by (simp add: str_trim_visible)
qed

lemma my_sample_modes:
  "has_sql_mode my_sample_probe ''STRICT_TRANS_TABLES''" "\<not> has_sql_mode my_sample_probe ''NO_AUTO_VALUE_ON_ZERO''"
proof -
  have "split_str (CHR '','') ''STRICT_TRANS_TABLES'' = [''STRICT_TRANS_TABLES'']" by code_simp
  then show "has_sql_mode my_sample_probe ''STRICT_TRANS_TABLES''" "\<not> has_sql_mode my_sample_probe ''NO_AUTO_VALUE_ON_ZERO''"
    by (auto simp: has_sql_mode_def my_sample_probe_def same_ascii_case_def simp del: list.map dest: map_eq_imp_length_eq)
qed

lemma my_sample_detect: "detect_probe my_sample_probe = Inr my_sample_info"
proof -
  have "server_kind my_sample_probe = Some MySql"
    "starts_with ''utf8mb4_'' (map ascii_lower ''utf8mb4_bin'')"
    by code_simp+
  then show ?thesis
    unfolding detect_probe_iff
    by (simp add: my_sample_version my_sample_modes my_sample_info_def same_ascii_case_def session_charsets_def)
      (simp add: my_sample_probe_def my_sample_version my_sample_zone)
qed

definition my_sample_env :: my_env where
  "my_sample_env = \<lparr>my_fault = (\<lambda>_ _. None), my_peer = (\<lambda>_ t. tx_db t), my_clock = (\<lambda>_. server_now),
     my_locked = (\<lambda>_ _. False), my_row_id = 1, my_plus = (\<lambda>a b. Some (a + b)),
     my_encode = server_encode, my_decode = server_decode, my_commit = Committed, my_probe = my_sample_probe,
     my_selection = (1, 1), my_entry = ''k'', my_message = ''m''\<rparr>"

lemma my_sample_env_sel [simp]:
  "my_fault my_sample_env label n = None" "my_peer my_sample_env n t = tx_db t"
  "my_clock my_sample_env n = server_now" "my_locked my_sample_env n r = False" "my_row_id my_sample_env = 1"
  "my_plus my_sample_env a b = Some (a + b)" "my_encode my_sample_env = server_encode"
  "my_decode my_sample_env = server_decode" "my_commit my_sample_env = Committed"
  "my_probe my_sample_env = my_sample_probe" "my_selection my_sample_env = (1, 1)"
  by (simp_all add: my_sample_env_def)

lemma my_sample_quiet [simp]: "my_quiet my_sample_env"
  by (simp add: my_quiet_def)

lemmas my_sample_simps = my_quiet_simps [OF my_sample_quiet]

lemma my_sample_peers_ok [simp]: "my_peers_ok my_sample_env"
  by (rule my_quiet_peers_ok) simp

lemma my_sample_peers_run [simp]: "my_peers_run lib my_sample_env"
  by (simp add: my_peers_run_def)

lemma my_sample_codec [simp]: "my_codec my_sample_env"
  by (auto simp: my_codec_def my_instant_def strict_mono_def instant_ok_def server_encode_def)

lemma my_sample_detected: "detect_on_connection my_sample_env t = (Inr my_sample_info, t)"
  by (simp add: detect_Inr my_sample_detect my_quiet_peer)

lemma my_sample_capable:
  "skip_locked (bi_capabilities my_sample_info)" "enforced_checks (bi_capabilities my_sample_info)"
  "repeatable_read_snapshot (bi_capabilities my_sample_info)"
  by code_simp+

section \<open>Enqueue\<close>

lemma my_sample_columns: "my_event_columns lib my_sample_env sample_tenant sample_event server_now
    = event_columns_with server_encode lib ''acme'' sample_content 1 server_now"
  by (simp add: my_event_columns_def event_columns_with_def server_encode_def cong: option.map_cong)

lemma my_sample_row: "my_event_columns sample_lib my_sample_env sample_tenant sample_event server_now = server_row"
  by (simp add: my_sample_columns server_row_def)

lemma server_row_utf8: "row_utf8 server_row"
proof -
  have "list_all utf8_valid [''orders'', ''e1'', ''src'', ''created'', ''{}'']" by code_simp
  then show ?thesis
    by (simp add: row_utf8_def server_row_def event_columns_with_def sample_content_def
        canonical_json_def sample_print_def extensions_object_def)
qed

lemma server_row_columns: "server_row = my_columns sample_lib my_sample_env ''acme'' sample_content 1 server_now"
  by (simp add: server_row_def event_columns_with_def server_encode_def cong: option.map_cong)

lemma my_sample_hydrate [simp]: "my_hydrate_event sample_lib my_sample_env server_row = Inr (StoredEvent sample_content)"
  using my_hydrate_columns [OF my_sample_codec sample_content_wf sample_content_valid sample_extension_codecs, of "''acme''" 1 server_now]
    server_row_utf8 server_row_columns by simp

lemma my_sample_same [simp]: "my_same_event sample_lib my_sample_env sample_event server_row = Inr True"
  using my_same_event_columns [OF my_sample_codec, of sample_lib sample_event event_size_limit_default "''acme''" 1 server_now]
    server_row_utf8 server_row_columns sample_content_valid by simp

definition my_sample_txn :: my_txn where
  "my_sample_txn = tx_put server_delivery (tx_open (tx_insert_event server_row (tx_begin db_empty)))"

lemma my_sample_validate: "my_validate_enqueue_schema (MIGRATIONS []) my_sample_env t = (Inr (), t)"
  by (simp add: my_validate_enqueue_schema_def my_sample_detected tx_then_def tx_map_err_def tx_return_def
      my_sample_simps my_sample_capable current_migration_shipped)

lemma my_sample_add_event:
  "my_add_event my_sample_env server_row (tx_begin db_empty) = (Inr (), tx_insert_event server_row (tx_begin db_empty))"
  by (simp add: my_add_event_def db_empty_def)

lemma my_sample_enqueue:
  "my_enqueue_for_scope sample_lib (MIGRATIONS []) my_sample_env sample_tenant sample_event (tx_begin db_empty)
     = (Inr (Enqueued (RowId 1)), my_sample_txn)"
proof -
  let ?t = "tx_open (tx_insert_event server_row (tx_begin db_empty))"
  have seen: "db_events (tx_seen ?t) = [server_row]" "db_deliveries (tx_seen ?t) = []"
    by (simp_all add: tx_seen_def tx_view_def tx_open_def tx_insert_event_def tx_begin_def db_empty_def)
  have f: "my_find_event sample_tenant sample_event (tx_seen ?t) = Some server_row"
    using seen by (simp add: my_find_event_def find_identity_def)
      (simp add: server_row_def event_columns_with_def)
  have d: "my_find_delivery sample_tenant 1 (tx_seen ?t) = None" using seen by (simp add: my_find_delivery_def)
  have "table_insert_delivery server_delivery (tx_view ?t) \<noteq> Inl v" for v
    by (simp add: table_insert_delivery_def tx_view_def tx_open_def tx_insert_event_def tx_begin_def db_empty_def)
  then have add: "tx_add_delivery server_delivery ?t = (Inr (), my_sample_txn)"
    by (auto simp: tx_add_delivery_def my_sample_txn_def split: sum.split)
  have "my_enqueue_resolve sample_lib my_sample_env sample_tenant sample_event server_now True
      (tx_insert_event server_row (tx_begin db_empty)) = (Inr (Enqueued (RowId 1)), my_sample_txn)"
    using f d add
    by (simp add: my_enqueue_resolve_def tx_then_def tx_map_err_def tx_return_def my_sample_simps row_id_new_def
        my_validate_existing_event_def my_insert_delivery_def server_delivery_def [symmetric])
  then show ?thesis
    by (simp add: my_enqueue_for_scope_def my_database_time_def tx_then_def tx_map_err_def my_sample_validate
        my_sample_simps my_sample_row my_insert_new_def my_sample_add_event)
qed

lemma my_sample_txn_view: "tx_view my_sample_txn = server_db" "tx_db my_sample_txn = db_empty"
  by (simp_all add: my_sample_txn_def tx_view_def server_db_def tx_put_def tx_lock_def row_in_def db_empty_def
      tx_open_def tx_insert_event_def tx_begin_def)

section \<open>Claim\<close>

lemma my_sample_update_one:
  assumes "p d" "f d = Some e" "delivery_check e" "db_deliveries (tx_view t) = [d]"
  shows "my_update my_sample_env p f t = (Inr 1, tx_put e t)"
  using assms
  by (simp add: my_update_def tx_map_err_def tx_then_def tx_return_def tx_update_def table_update_deliveries_def)

definition my_locked_txn :: my_txn where
  "my_locked_txn = tx_lock [1] (tx_open (tx_begin server_db))"

definition my_claim_txn :: my_txn where
  "my_claim_txn = tx_put server_claimed_delivery my_locked_txn"

lemma my_locked_txn_sel [simp]:
  "tx_view my_locked_txn = server_db" "tx_seen my_locked_txn = server_db" "tx_open my_locked_txn = my_locked_txn"
  by (simp_all add: my_locked_txn_def tx_view_def tx_seen_def tx_open_def tx_lock_def tx_begin_def row_in_def server_db_def)

lemma my_sample_select:
  "my_claim_select my_sample_env (Some sample_tenant) 1 (tx_begin server_db)
     = (Inr (4, [durable_join server_row (Some server_delivery)]), my_locked_txn)"
proof -
  let ?c = "durable_join server_row (Some server_delivery)" and ?t = "tx_open (tx_begin server_db)"
  have seen: "tx_seen ?t = server_db" "tx_view ?t = server_db"
    by (simp_all add: tx_view_def tx_seen_def tx_open_def tx_begin_def row_in_def server_db_def)
  have ev: "event_by_id server_db 1 = Some server_row" by (simp add: event_by_id_def server_db_def)
  have claimable: "my_claimable server_now (Some sample_tenant) server_delivery"
    by (simp add: my_claimable_def claim_scope_def claim_eligible_def)
  have ids: "candidate_ids server_now (Some sample_tenant) 0 1 server_db = [1]"
    using ev claimable by (simp add: candidate_ids_def server_db_def)
  have row: "server_row\<lparr>er_tenant_id := ''acme''\<rparr> = server_row"
    by (simp add: server_row_def event_columns_with_def)
  have c: "candidate_columns server_now (Some sample_tenant) False 1 server_db = Some ?c"
    using ev claimable by (simp add: candidate_columns_def server_db_def row)
  show ?thesis
    using ids c seen my_sample_capable(1)
    by (simp add: my_claim_select_def lock_candidates_def lock_windows.simps [of _ _ _ 2]
        lock_windows.simps [of _ _ _ 4] read_window_def lock_candidate_def tx_then_def tx_map_err_def tx_return_def
        my_sample_simps my_sample_detected my_locked_txn_def)
qed

lemma my_sample_prepare:
  "my_prepare_batch sample_lib my_sample_env server_now [Inr sample_token]
     [durable_join server_row (Some server_delivery)] = Some (Inr [sample_prepared], [])"
proof -
  have "utf8_valid ''acme''" by code_simp
  then show ?thesis
    by (simp add: my_prepare_batch_def my_claim_counter_def my_claim_tenant_def my_validate_delivery_def
        my_claim_hydrate_def durable_join_def row_id_new_def attempt_count_new_def checked_add_i64_def i64_range_def
        i64_min_def i64_max_def sample_prepared_def)
qed

lemma my_claim_txn_views:
  "tx_view my_claim_txn = server_claimed_db" "tx_db my_claim_txn = server_db" "tx_open my_claim_txn = my_claim_txn"
  "tx_seen my_claim_txn = server_claimed_db"
  by (simp_all add: my_claim_txn_def my_locked_txn_def tx_view_def tx_seen_def tx_open_def tx_put_def tx_lock_def
      tx_begin_def row_in_def server_db_def server_claimed_db_def)

lemma my_sample_persist:
  "my_persist_batch my_sample_env n [sample_prepared] (WorkerId ''w1'') (Lease \<lparr>secs = 60, subsec_nanos = 0\<rparr>)
     (server_decode server_now) my_locked_txn = (Inr [server_claim], my_claim_txn)"
proof -
  let ?x = "Some (server_now + 60000000)"
  have "claim_update_where sample_prepared server_delivery"
    "claim_update_row ?x (WorkerId ''w1'') sample_prepared server_delivery = server_claimed_delivery"
    by (simp_all add: claim_update_where_def claim_update_row_def sample_prepared_def server_claimed_delivery_def)
  then have upd: "my_update my_sample_env (claim_update_where sample_prepared)
      (\<lambda>d. Some (claim_update_row ?x (WorkerId ''w1'') sample_prepared d)) my_locked_txn = (Inr 1, my_claim_txn)"
    unfolding my_claim_txn_def by (intro my_sample_update_one [of _ server_delivery]) (simp_all add: server_db_def)
  have exp: "my_find_delivery (pc_tenant_id sample_prepared) (pc_event_row_id sample_prepared) server_claimed_db
      = Some server_claimed_delivery"
    by (simp add: my_find_delivery_def sample_prepared_def server_claimed_db_def)
  have new: "claimed_event_new (pc_tenant_id sample_prepared) (pc_row_id sample_prepared) (pc_event sample_prepared)
      (pc_attempts sample_prepared) (claim_token_from_bytes (pc_token sample_prepared)) (WorkerId ''w1'')
      (server_decode (server_now + 60000000)) = Inr server_claim"
    by (simp add: claimed_event_new_def server_instants and_then_Inr_iff server_claim_def sample_claim_def
        sample_prepared_def claim_token_from_bytes_def)
  have micros: "duration_micros \<lparr>secs = 60, subsec_nanos = 0\<rparr> = Inr 60000000"
    by (simp add: duration_micros_def as_micros_def i64_max_def)
  show ?thesis
    using upd exp new micros
    by (simp add: my_persist_batch_def my_claim_row_def my_update_claimed_def my_read_expiry_def tx_then_def
        tx_map_err_def tx_return_def my_sample_simps my_claim_txn_views)
qed

lemma my_sample_claim_body:
  "my_claim_body sample_lib my_sample_env (Some sample_tenant) (WorkerId ''w1'') (Lease \<lparr>secs = 60, subsec_nanos = 0\<rparr>)
     (PageLimit 1) [Inr sample_token] (tx_begin server_db) = Some (Inr [server_claim], [], my_claim_txn)"
  using my_sample_select my_sample_prepare my_sample_persist
  by (simp add: my_claim_body_def my_database_time_def my_sample_simps tx_map_err_def)

lemma my_sample_claim:
  "my_claim_for_scope sample_lib my_sample_env (Some sample_tenant) (WorkerId ''w1'')
     (Lease \<lparr>secs = 60, subsec_nanos = 0\<rparr>) (PageLimit 1) [Inr sample_token] server_db
     = Some (Inr [server_claim], [], server_claimed_db)"
  using my_sample_claim_body
  by (simp add: my_claim_for_scope_def my_claim_with_entropy_scoped_def my_finish_def tx_finish_def my_claim_txn_views)

section \<open>Acknowledgement\<close>

definition my_ack_txn :: my_txn where
  "my_ack_txn = tx_put server_acked_delivery (tx_begin server_claimed_db)"

lemma my_sample_ack_body:
  "my_mutate_body my_sample_env (Some sample_tenant) (RowId 1) (ClaimToken sample_token) MAck
     (tx_begin server_claimed_db) = (Inr (), my_ack_txn)"
proof -
  have "my_update my_sample_env (mutation_where (RowId 1) (Some sample_tenant) (ClaimToken sample_token) server_now)
      (mutation_set (my_plus my_sample_env) server_now PAck) (tx_begin server_claimed_db) = (Inr 1, my_ack_txn)"
    unfolding my_ack_txn_def
    by (intro my_sample_update_one [of _ server_claimed_delivery])
      (simp_all add: mutation_where_def tenant_matches_def server_acked_delivery_def server_claimed_delivery_def
        server_claimed_db_def server_checks(3) [unfolded server_acked_delivery_def])
  then show ?thesis
    by (simp add: my_mutate_body_def my_execute_mutation_fast_def my_prepare_mutation_def tx_then_def tx_map_err_def
        tx_return_def my_sample_detected my_sample_simps)
qed

lemma my_ack_views: "tx_view my_ack_txn = server_delivered_db" "tx_db my_ack_txn = server_claimed_db"
  by (simp_all add: my_ack_txn_def tx_view_def tx_put_def tx_lock_def tx_begin_def row_in_def server_claimed_db_def
      server_delivered_db_def server_db_def)

lemma my_sample_ack:
  "my_mutate my_sample_env (Some sample_tenant) (RowId 1) (ClaimToken sample_token) MAck server_claimed_db
     = (Inr (), server_delivered_db)"
  using my_sample_ack_body by (simp add: my_mutate_def my_finish_def tx_finish_def my_ack_views)

section \<open>Commits\<close>

lemma my_sample_steps:
  "my_step sample_lib db_empty server_db" "my_step sample_lib server_db server_claimed_db"
  "my_step sample_lib server_claimed_db server_delivered_db"
proof -
  from my_caller.enqueue [OF my_caller.opened my_sample_peers_ok my_sample_enqueue]
  have "my_caller sample_lib db_empty my_sample_txn" .
  from my_step.caller [OF this db_ok_empty] show "my_step sample_lib db_empty server_db"
    by (simp add: my_sample_txn_view)
  show "my_step sample_lib server_db server_claimed_db"
    using my_step.claim [OF my_sample_claim_body] by (simp add: my_claim_txn_views)
  show "my_step sample_lib server_claimed_db server_delivered_db"
    using my_step.mutate [OF my_sample_ack_body] by (simp add: my_ack_views)
qed

end
