(* ===== verification/Mysql_Catalog_Samples.thy ===== *)
theory Mysql_Catalog_Samples
  imports Mysql_Schema
begin

text \<open>
  The catalog of a MySQL database in which exactly what the contracts of version 2 ask for is
  installed, each object in the rendering that the contracts list first.
\<close>

definition my_column_of :: "my_ColumnSpec \<Rightarrow> my_ColumnInfo" where
  "my_column_of s = \<lparr>mc_column_name = ms_name s, mc_data_type = ms_data_type s,
     mc_column_type = (case ms_exact_column_type s of
         Some t \<Rightarrow> t
       | None \<Rightarrow> if ms_data_type s = ''binary'' then ''binary(16)''
                else if ms_data_type s = ''datetime'' then ''datetime(6)'' else ms_data_type s),
     mc_character_maximum_length = ms_max s, mc_is_nullable = (if ms_nullable s then ''YES'' else ''NO''),
     mc_column_default = ms_default s,
     mc_extra = (case ms_generated s of Some e \<Rightarrow> e | None \<Rightarrow> if ms_identity s then ''auto_increment'' else []),
     mc_generation_expression = ms_generation_expression s\<rparr>"

definition my_index_rows :: "string \<times> string \<times> bool \<times> string list \<Rightarrow> my_IndexInfo list" where
  "my_index_rows = (\<lambda>(name, table, unique, columns). map (\<lambda>n. \<lparr>mx_table_name = table, mx_index_name = name,
     mx_non_unique = (if unique then 0 else 1), mx_seq_in_index = int n + 1, mx_column_name = columns ! n,
     mx_index_type = ''BTREE'', mx_sub_part = None\<rparr>) [0..<length columns])"

definition my_check_of :: "string \<times> string \<Rightarrow> my_CheckInfo" where
  "my_check_of = (\<lambda>(name, clause). \<lparr>mh_constraint_name = name, mh_check_clause = clause\<rparr>)"

definition my_constraint_of :: "string \<times> string \<times> string \<Rightarrow> my_ConstraintInfo" where
  "my_constraint_of = (\<lambda>(table, name, kind).
     \<lparr>mn_table_name = table, mn_constraint_name = name, mn_constraint_type = kind\<rparr>)"

definition my_trigger_of :: "string \<Rightarrow> string \<Rightarrow> string \<Rightarrow> my_TriggerInfo" where
  "my_trigger_of name manipulation action = \<lparr>mt_trigger_name = name, mt_event_manipulation = manipulation,
     mt_action_timing = ''BEFORE'', mt_event_object_table = ''dovecote_events'', mt_action_statement = action\<rparr>"

definition my_table_of :: "string \<Rightarrow> my_TableInfo" where
  "my_table_of name = \<lparr>mb_table_name = name, mb_engine = Some ''InnoDB'', mb_table_type = ''BASE TABLE''\<rparr>"

definition my_key_of :: "string \<Rightarrow> string \<Rightarrow> (string \<times> string) option \<Rightarrow> my_KeyColumn" where
  "my_key_of name column target = \<lparr>my_key_constraint_name = name, my_key_column_name = column,
     my_key_referenced_table_name = map_option fst target, my_key_referenced_column_name = map_option snd target\<rparr>"

definition my_reference_columns :: "string \<Rightarrow> my_ColumnSpec list" where
  "my_reference_columns table =
     (if table = ''dovecote_schema'' then my_marker_columns
      else if table = ''dovecote_events'' then my_event_column_specs else my_delivery_column_specs)"

definition my_reference_triggers :: "my_TriggerInfo list" where
  "my_reference_triggers =
     [my_trigger_of ''dovecote_events_row_id_positive_insert'' ''INSERT''
        ''beginifnew.row_id<0thensignal sqlstate'45000'setmessage_text='dovecote row_id must be positive';endif;end'',
      my_trigger_of ''dovecote_events_row_id_positive_update'' ''UPDATE''
        ''beginifnew.row_id<=0ornew.row_id<>old.row_idthensignal sqlstate'45000'setmessage_text='dovecote row_id must be positive';endif;end'']"

definition my_reference_catalog :: my_catalog where
  "my_reference_catalog = \<lparr>mcat_acquire = None,
     mcat_markers = [\<lparr>mk_schema_version = 2, mk_minimum_crate_major = 0, mk_minimum_crate_minor = 2,
       mk_minimum_crate_patch = 0, mk_rolling_compatible = False\<rparr>],
     mcat_marker_table = Inr (Some (my_table_of ''dovecote_schema'')),
     mcat_marker_constraints = Inr (my_constraint_of (''dovecote_schema'', ''PRIMARY'', ''PRIMARY KEY'')
       # map (\<lambda>n. my_constraint_of (''dovecote_schema'', n, ''CHECK'')) MARKER_CHECK_NAMES),
     mcat_marker_checks = Inr (map my_check_of marker_clauses),
     mcat_tables = Inr (map my_table_of [''dovecote_events'', ''dovecote_deliveries'']),
     mcat_columns = (\<lambda>table. Inr (map my_column_of (my_reference_columns table))),
     mcat_collation = Inr (Some ''utf8mb4_bin''),
     mcat_constraints = Inr (map my_constraint_of (required_constraints
       @ map (\<lambda>n. (''dovecote_events'', n, ''CHECK'')) CHECK_NAMES)),
     mcat_checks = Inr (map my_check_of check_clauses),
     mcat_keys = Inr [my_key_of ''dovecote_events_tenant_source_event_id'' ''identity_key'' None,
       my_key_of ''dovecote_events_tenant_row_unique'' ''tenant_id'' None,
       my_key_of ''dovecote_events_tenant_row_unique'' ''row_id'' None,
       my_key_of ''dovecote_deliveries_event_fk'' ''tenant_id'' (Some (''dovecote_events'', ''tenant_id'')),
       my_key_of ''dovecote_deliveries_event_fk'' ''event_row_id'' (Some (''dovecote_events'', ''row_id''))],
     mcat_reference = Inr (Some ''RESTRICT''),
     mcat_triggers = Inr my_reference_triggers,
     mcat_indexes = Inr (concat (map my_index_rows my_index_contracts))\<rparr>"

section \<open>The catalog is accepted\<close>

lemma my_reference_names:
  "map fst check_clauses = CHECK_NAMES" "map fst marker_clauses = MARKER_CHECK_NAMES"
  "distinct CHECK_NAMES" "distinct MARKER_CHECK_NAMES"
  by (simp_all add: check_clauses_def CHECK_NAMES_def marker_clauses_def MARKER_CHECK_NAMES_def)

lemma my_reference_types:
  "list_all (\<lambda>s. \<not> str_contains ''unsigned'' (map ascii_lower (mc_column_type (my_column_of s))))
     (my_marker_columns @ my_event_column_specs @ my_delivery_column_specs)"
proof -
  let ?types = "[''bigint'', ''varbinary'', ''datetime(6)'', ''longtext'', ''longblob'', ''binary(16)'', ''int'',
    ''smallint'', ''tinyint(1)'']"
  have "list_all (\<lambda>t. \<not> str_contains ''unsigned'' (map ascii_lower t)) ?types" by code_simp
  moreover have "list_all (\<lambda>s. mc_column_type (my_column_of s) \<in> set ?types)
      (my_marker_columns @ my_event_column_specs @ my_delivery_column_specs)"
    by (simp add: my_marker_columns_def my_event_column_specs_def my_delivery_column_specs_def my_column_of_def
        my_spec_required_def my_spec_optional_def my_spec_required_default_def my_spec_required_exact_type_def
        my_spec_stored_generated_def)
  ultimately show ?thesis unfolding list_all_iff by blast
qed

lemma my_reference_extras:
  "str_trim [] = []" "str_trim ''auto_increment'' = ''auto_increment''" "str_trim ''STORED GENERATED'' = ''STORED GENERATED''"
proof -
  have "find (\<lambda>_. False) ws = None" for ws :: "string list" by (simp add: find_None_set)
  then have "trim_with ws [] = []" for ws by (simp add: trim_with.simps)
  then show "str_trim [] = []" by (simp add: str_trim_def)
  have "byte (CHR ''a'') = 97" "byte (CHR ''t'') = 116" "byte (CHR ''S'') = 83" "byte (CHR ''D'') = 68" by code_simp+
  then show "str_trim ''auto_increment'' = ''auto_increment''" "str_trim ''STORED GENERATED'' = ''STORED GENERATED''"
    by (simp_all add: str_trim_visible)
qed

lemma my_reference_compatible:
  "list_all (\<lambda>s. my_column_compatible s (my_column_of s))
     (my_marker_columns @ my_event_column_specs @ my_delivery_column_specs)"
proof -
  have identity: "\<not> same_ascii_case [] ''auto_increment''" "\<not> same_ascii_case ''STORED GENERATED'' ''auto_increment''"
    "same_ascii_case ''auto_increment'' ''AUTO_INCREMENT''" by code_simp+
  have width: "nat_to_string 16 = ''16''" by code_simp
  have one: "my_column_compatible s (my_column_of s)"
    if "s \<in> set (my_marker_columns @ my_event_column_specs @ my_delivery_column_specs)"
      "ms_data_type s = ''binary'' \<longrightarrow> ms_max s = Some 16 \<and> ms_exact_column_type s = None"
      "ms_data_type s = ''datetime'' \<longrightarrow> ms_exact_column_type s = None"
      "ms_generated s = None \<and> ms_generation_expression s = None
        \<or> (ms_generated s = Some ''STORED GENERATED'' \<and> ms_generation_expression s \<noteq> None \<and> \<not> ms_identity s)" for s
  proof -
    have "\<not> str_contains ''unsigned'' (map ascii_lower (mc_column_type (my_column_of s)))"
      using my_reference_types that(1) unfolding list_all_iff by blast
    moreover have "default_matches s (ms_default s)" by (simp add: default_matches_def split: option.split)
    ultimately show ?thesis
      using that(2-4) identity width
      by (auto simp: my_column_compatible_def my_column_of_def Let_def my_reference_extras
          non_generated_metadata_matches_def split: option.splits if_splits)
  qed
  have "list_all (\<lambda>s. (ms_data_type s = ''binary'' \<longrightarrow> ms_max s = Some 16 \<and> ms_exact_column_type s = None)
      \<and> (ms_data_type s = ''datetime'' \<longrightarrow> ms_exact_column_type s = None)
      \<and> (ms_generated s = None \<and> ms_generation_expression s = None
        \<or> (ms_generated s = Some ''STORED GENERATED'' \<and> ms_generation_expression s \<noteq> None \<and> \<not> ms_identity s)))
    (my_marker_columns @ my_event_column_specs @ my_delivery_column_specs)"
    by (simp add: my_marker_columns_def my_event_column_specs_def my_delivery_column_specs_def
        my_spec_required_def my_spec_optional_def my_spec_required_default_def my_spec_required_exact_type_def
        my_spec_stored_generated_def)
  then show ?thesis using one unfolding list_all_iff by blast
qed

lemma my_reference_sel [simp]:
  "mcat_acquire my_reference_catalog = None"
  "mcat_columns my_reference_catalog table = Inr (map my_column_of (my_reference_columns table))"
  "mcat_checks my_reference_catalog = Inr (map my_check_of check_clauses)"
  "mcat_marker_checks my_reference_catalog = Inr (map my_check_of marker_clauses)"
  "mcat_tables my_reference_catalog = Inr (map my_table_of [''dovecote_events'', ''dovecote_deliveries''])"
  by (simp_all add: my_reference_catalog_def)

lemma my_column_of_name [simp]: "mc_column_name (my_column_of s) = ms_name s"
  by (simp add: my_column_of_def)

lemma my_column_of_names: "map (mc_column_name \<circ> my_column_of) specs = map ms_name specs"
  by simp

lemma my_check_of_name: "map mh_constraint_name (map my_check_of cs) = map fst cs"
  by (simp add: my_check_of_def split_beta)

lemma my_reference_distinct: "my_catalog_distinct my_reference_catalog"
proof -
  have "distinct (map mc_column_name (map my_column_of (my_reference_columns table)))" for table
    using my_specs_distinct by (simp add: my_column_of_names my_reference_columns_def)
  moreover have "distinct (map mh_constraint_name (map my_check_of check_clauses))"
    "distinct (map mh_constraint_name (map my_check_of marker_clauses))"
    unfolding my_check_of_name my_reference_names by (simp_all add: my_reference_names)
  moreover have "distinct (map mb_table_name (map my_table_of [''dovecote_events'', ''dovecote_deliveries'']))"
    by (simp add: my_table_of_def)
  ultimately show ?thesis unfolding my_catalog_distinct_def my_reference_sel by auto
qed

lemma my_reference_columns_accepted:
  assumes "table \<in> {''dovecote_schema'', ''dovecote_events'', ''dovecote_deliveries''}"
  shows "my_columns_accepted my_reference_catalog table (my_reference_columns table)"
proof -
  have "my_column_compatible s (my_column_of s)" if "s \<in> set (my_reference_columns table)" for s
    using that my_reference_compatible by (auto simp: my_reference_columns_def list_all_iff split: if_splits)
  then have "meets mc_column_name ms_name (\<lambda>c s. my_column_compatible s c)
      (map my_column_of (my_reference_columns table)) (my_reference_columns table)"
    by (intro meets_self) simp_all
  then show ?thesis by (simp add: my_columns_accepted_def)
qed

text \<open>A clause that is its own contract is plausible.\<close>

lemma my_reference_clauses:
  "my_clauses_accepted check_clause_is_plausible (map my_check_of check_clauses) CHECK_NAMES"
  "my_clauses_accepted marker_check_clause_is_plausible (map my_check_of marker_clauses) MARKER_CHECK_NAMES"
proof -
  have self: "clause_is name (normalize_check_clause name clause) clauses"
    if "(name, clause) \<in> set clauses" "distinct (map fst clauses)" for name clause clauses
    using that by (simp add: clause_is_def)
  have dist: "distinct (map fst check_clauses)" "distinct (map fst marker_clauses)"
    by (simp_all only: my_reference_names)
  have "check_clause_is_plausible name clause" if "(name, clause) \<in> set check_clauses" for name clause
    using self [OF that dist(1)] that dist(1) by (simp add: check_clause_is_plausible_def Let_def)
  then show "my_clauses_accepted check_clause_is_plausible (map my_check_of check_clauses) CHECK_NAMES"
    unfolding my_clauses_accepted_def my_reference_names(1) [symmetric] by (force simp: my_check_of_def)
  have "marker_check_clause_is_plausible name clause" if "(name, clause) \<in> set marker_clauses" for name clause
    using self [OF that dist(2)] that dist(2) by (simp add: marker_check_clause_is_plausible_def Let_def)
  then show "my_clauses_accepted marker_check_clause_is_plausible (map my_check_of marker_clauses) MARKER_CHECK_NAMES"
    unfolding my_clauses_accepted_def my_reference_names(2) [symmetric] by (force simp: my_check_of_def)
qed

lemma my_reference_trigger_texts:
  "trigger_action_matches ''insert'' ''beginifnew.row_id<0thensignal sqlstate'45000'setmessage_text='dovecote row_id must be positive';endif;end''"
  "trigger_action_matches ''update'' ''beginifnew.row_id<=0ornew.row_id<>old.row_idthensignal sqlstate'45000'setmessage_text='dovecote row_id must be positive';endif;end''"
  by code_simp+

lemma my_reference_triggers_accepted: "my_triggers_accepted my_reference_catalog"
proof -
  have "mcat_triggers my_reference_catalog = Inr my_reference_triggers" by (simp add: my_reference_catalog_def)
  then show ?thesis
    unfolding my_triggers_accepted_def
    by (auto simp: my_reference_triggers_def my_trigger_of_def is_row_id_trigger_def my_reference_trigger_texts)
qed

lemma filter_index_rows:
  assumes "distinct (map fst contracts)" "(name, table, unique, columns) \<in> set contracts"
  shows "filter (\<lambda>i. mx_index_name i = name) (concat (map my_index_rows contracts))
    = my_index_rows (name, table, unique, columns)"
  using assms
proof (induction contracts)
  case (Cons c cs)
  obtain n t u ks where c: "c = (n, t, u, ks)" by (cases c)
  have same: "filter (\<lambda>i. mx_index_name i = name) (my_index_rows (n', t', u', ks'))
      = (if n' = name then my_index_rows (n', t', u', ks') else [])" for n' t' u' ks'
    by (simp add: my_index_rows_def filter_map o_def)
  have none: "filter (\<lambda>i. mx_index_name i = n) (concat (map my_index_rows cs)) = []"
    using Cons.prems(1) by (force simp: c filter_empty_conv my_index_rows_def)
  show ?case
    using Cons none by (auto simp: c same intro: rev_image_eqI)
qed simp

lemma my_reference_indexes_accepted: "my_indexes_accepted my_reference_catalog"
proof -
  have "mcat_indexes my_reference_catalog = Inr (concat (map my_index_rows my_index_contracts))"
    by (simp add: my_reference_catalog_def)
  moreover have "distinct (map fst my_index_contracts)" by (simp add: my_index_contracts_def)
  moreover have "mx_index_name ` set (concat (map my_index_rows cs)) \<subseteq> insert ''PRIMARY'' (fst ` set cs)" for cs
    by (force simp: my_index_rows_def)
  moreover have "map (\<lambda>i. (mx_table_name i, mx_column_name i, mx_seq_in_index i, mx_non_unique i, mx_index_type i, mx_sub_part i))
      (my_index_rows (name, table, unique, columns))
    = map (\<lambda>n. (table, columns ! n, int n + 1, if unique then 0 else 1, ''BTREE'', None)) [0..<length columns]"
    for name table unique columns by (simp add: my_index_rows_def)
  ultimately show ?thesis
    unfolding my_indexes_accepted_def using filter_index_rows [of my_index_contracts] by fastforce
qed

lemma my_reference_constraints_accepted: "my_constraints_accepted my_reference_catalog"
proof -
  let ?all = "required_constraints @ map (\<lambda>n. (''dovecote_events'', n, ''CHECK'')) CHECK_NAMES"
  have "(\<lambda>c. (mn_table_name c, mn_constraint_name c, mn_constraint_type c)) (my_constraint_of x) = x" for x
    by (simp add: my_constraint_of_def split_beta)
  then have "(\<lambda>c. (mn_table_name c, mn_constraint_name c, mn_constraint_type c)) ` set (map my_constraint_of ?all) = set ?all"
    by (simp only: set_map image_image image_ident)
  moreover have "length (map my_constraint_of ?all) = length CHECK_NAMES + 5" by (simp add: required_constraints_def)
  moreover have "mcat_constraints my_reference_catalog = Inr (map my_constraint_of ?all)"
    "mcat_reference my_reference_catalog = Inr (Some ''RESTRICT'')"
    by (simp_all add: my_reference_catalog_def)
  ultimately show ?thesis
    unfolding my_constraints_accepted_def using my_reference_clauses(1)
    by (simp del: set_map) (simp add: my_reference_catalog_def my_key_of_def keys_of_def)
qed

lemma my_reference_accepted: "my_schema_accepted my_reference_catalog"
proof -
  have "my_tables_accepted my_reference_catalog"
    using my_reference_columns_accepted [of "''dovecote_events''"] my_reference_columns_accepted [of "''dovecote_deliveries''"]
    by (simp add: my_tables_accepted_def my_reference_columns_def my_table_of_def innodb_table_def)
      (simp add: my_reference_catalog_def)
  moreover have "my_marker_table_accepted my_reference_catalog"
    using my_reference_columns_accepted [of "''dovecote_schema''"] my_reference_clauses(2)
    by (simp add: my_marker_table_accepted_def my_reference_columns_def)
      (simp add: my_reference_catalog_def my_table_of_def innodb_table_def my_constraint_of_def)
  ultimately show ?thesis
    unfolding my_schema_accepted_def
    using my_reference_constraints_accepted my_reference_triggers_accepted my_reference_indexes_accepted
    by (simp add: my_reference_catalog_def)
qed

end
