(* ===== verification/Mysql_Properties.thy ===== *)
theory Mysql_Properties
  imports Mysql_Samples Mysql_Catalog_Samples
begin

text \<open>
  The properties of the MySQL adapter, whose transactions run under REPEATABLE READ and interleave
  with those of other sessions statement by statement. Each is followed by an instance on the
  sample server.
\<close>

section \<open>The lifecycle\<close>

text \<open>C13. Every commit of the MySQL adapter refines the abstract delivery lifecycle, whatever other
  sessions committed between the statements of the transaction: from what is committed at that
  moment each delivery stays, unchanged or with one step of the specification. The commits are
  those of claims, of mutations and of caller transactions that enqueue, import and finalise.\<close>

theorem my_commits_refine_lifecycle:
  assumes "my_step lib db db'" and "db_spec db r = Some d"
  shows "\<exists>d'. db_spec db' r = Some d' \<and> (d' = d \<or> (\<exists>now a. spec_step now a d d'))"
  using my.step_refines [OF assms(1), of r] assms(2) by (simp add: row_steps_def)

theorem my_commits_refine_lifecycle_witness:
  "\<exists>d'. db_spec server_claimed_db 1 = Some d'
     \<and> (d' = abs_delivery server_delivery \<or> (\<exists>now a. spec_step now a (abs_delivery server_delivery) d'))"
proof -
  have "db_spec server_db 1 = Some (abs_delivery server_delivery)"
    by (simp add: db_spec_def find_delivery_def server_db_def)
  from my_commits_refine_lifecycle [OF my_sample_steps(2) this] show ?thesis .
qed

text \<open>Along any history of commits, those that a claim or a mutation amounts to included, the tables
  keep their constraints, every event has a delivery of its tenant, no delivery is lost, attempt
  counters never decrease and a delivered or quarantined delivery never changes again.\<close>

theorem my_histories_keep_deliveries:
  assumes "(my_step lib)\<^sup>*\<^sup>* db db'" and "db_ok db" and "db_paired db"
  shows "db_ok db' \<and> db_paired db' \<and> (\<forall>r d. db_spec db r = Some d \<longrightarrow>
    (\<exists>d'. db_spec db' r = Some d' \<and> sp_attempts d \<le> sp_attempts d' \<and> (terminal d \<longrightarrow> d' = d)))"
proof -
  have inv: "db_ok db \<and> db_paired db" using assms(2,3) by simp
  show ?thesis using my.run_inv [OF assms(1) inv] my.run_keeps_row [OF assms(1) inv] by blast
qed

theorem my_histories_keep_deliveries_witness: "db_ok server_delivered_db \<and> db_paired server_delivered_db"
proof -
  have "(my_step sample_lib)\<^sup>*\<^sup>* db_empty server_delivered_db"
    using my_sample_steps by (meson converse_rtranclp_into_rtranclp rtranclp.rtrancl_refl)
  from my_histories_keep_deliveries [OF this db_ok_empty] show ?thesis by (simp add: db_paired_def db_empty_def)
qed

section \<open>Claims\<close>

text \<open>C14. A claim that returns events locked them and validated them at one instant: at most the
  requested number, in row order, under distinct tokens that are new for their rows, each eligible
  at that instant and in the tenant's scope, with a counter one higher, in a committed state that
  holds every event committed before. Others may commit until the claim does, but no other session
  touches a claimed row in between, and the commit changes the claimed rows and nothing else.\<close>

theorem my_claim_returns_batch:
  assumes "my_peers_run lib env" and "my_codec env" and "db_ok db"
    and "my_tenant_claim lib env h worker lease limit ent db = Some (Inr claimed, rest, db')"
  shows "\<exists>locked base x n. db_ok locked \<and> set (db_events db) \<subseteq> set (db_events locked)
    \<and> (my_step lib)\<^sup>*\<^sup>* db base \<and> length claimed \<le> limit_get limit
    \<and> claim_taken (my_clock env n) (Some (my_handle_tenant h)) worker locked claimed
    \<and> (\<forall>c \<in> set claimed. find_delivery base (row_id_get (ce_row_id c))
         = find_delivery locked (row_id_get (ce_row_id c)))
    \<and> claim_applied x claimed base db' \<and> db_events db' = db_events base"
proof -
  have peers: "my_peers_ok env" using assms(1) by (simp add: my_peers_run_def)
  from assms(4) obtain t where body: "my_claim_body lib env (Some (my_handle_tenant h)) worker lease limit ent
      (tx_begin db) = Some (Inr claimed, rest, t)" and db': "db' = tx_view t"
    unfolding my_tenant_claim_def by (elim my_claim_cases) auto
  have "(my_step lib)\<^sup>*\<^sup>* db (tx_db t)" using reaches_my_claim_body [OF assms(1) body] by simp
  moreover have "db_events (tx_view t) = db_events (tx_db t)" if "tx_events t = []"
    using that by (simp add: view_events)
  ultimately show ?thesis using my_claim_transition [OF peers assms(2,3) body] unfolding db' by metis
qed

definition my_handle :: MyTenantDovecote where "my_handle = my_for_tenant sample_tenant"

lemma my_handle_sel [simp]: "my_handle_tenant my_handle = sample_tenant"
  by (simp add: my_handle_def my_for_tenant_def)

theorem my_claim_returns_batch_witness:
  "\<exists>locked base x. claim_taken server_now (Some sample_tenant) (WorkerId ''w1'') locked [server_claim]
    \<and> claim_applied x [server_claim] base server_claimed_db"
  using my_claim_returns_batch [OF my_sample_peers_run my_sample_codec server_db_ok(1), where h = my_handle]
    my_sample_claim by (fastforce simp: my_tenant_claim_def)

text \<open>C15. On a server that answers at one instant while nobody else commits, the windows of candidate ids
  and the locking reads find exactly what one ordered scan finds: the first claimable rows of the
  scope that no other session has locked, up to the limit. The loop over the windows ends.\<close>

theorem my_windows_are_one_scan:
  assumes "my_still env now skipped" and "db_ok db"
  shows "\<exists>n t. lock_candidates env tenant limit (tx_begin db)
    = (Inr (n, claim_candidates now tenant skipped limit db), t)"
proof (rule still_lock_candidates [OF assms])
  show "\<forall>d \<in> set (db_deliveries db). 0 < dr_event_row_id d"
    using assms(2) by (fastforce simp: db_ok_def list_all_iff event_check_def)
qed

theorem my_windows_are_one_scan_witness:
  "\<exists>n t. lock_candidates my_sample_env (Some sample_tenant) 10 (tx_begin server_db)
     = (Inr (n, [durable_join server_row (Some server_delivery)]), t)"
proof -
  have "my_still my_sample_env server_now (\<lambda>_. False)" by (simp add: my_still_def fun_eq_iff)
  from my_windows_are_one_scan [OF this server_db_ok(1), of "Some sample_tenant" 10] show ?thesis
    by (simp add: server_candidates)
qed

text \<open>A claim returns: the windows run out by themselves, because each starts after the last id of the
  one before and all are read from one snapshot, whatever others commit; and with pairwise different
  draws two for every requested row are enough for the loop that draws tokens.\<close>

theorem my_claim_terminates:
  assumes "my_peers_ok env" and "db_ok db" and "distinct ent" and "2 * limit_get limit \<le> length ent"
  shows "\<exists>res rest db'. my_tenant_claim lib env h worker lease limit ent db = Some (res, rest, db')"
  using my_claim_returns [OF assms, of lib "Some (my_handle_tenant h)" worker lease]
  by (auto simp: my_tenant_claim_def)

theorem my_claim_terminates_witness:
  "\<exists>res rest db'. my_tenant_claim sample_lib my_sample_env my_handle (WorkerId ''w1'')
     (Lease \<lparr>secs = 60, subsec_nanos = 0\<rparr>) (PageLimit 1) [Inr sample_token, Inr (replicate 16 (CHR ''m''))] server_db
       = Some (res, rest, db')"
proof -
  have "distinct [Inr sample_token, Inr (replicate 16 (CHR ''m'')) :: nat + bytes]"
    by (simp add: sample_token_def)
  then show ?thesis
    using my_claim_terminates [OF my_sample_peers_ok server_db_ok(1), of _ "PageLimit 1"] by simp
qed

section \<open>Fenced mutations\<close>




lemma my_sample_second_ack:
  "my_mutate my_sample_env (Some sample_tenant) (RowId 1) (ClaimToken sample_token) MAck server_delivered_db
     = (Inl (MMutIllegalTransition Delivered), server_delivered_db)"
proof -
  have lock: "lock_where (Some sample_tenant) (RowId 1) server_acked_delivery"
    by (simp add: lock_where_def tenant_matches_def)
  have miss: "my_update my_sample_env (mutation_where (RowId 1) (Some sample_tenant) (ClaimToken sample_token) server_now)
      f (tx_begin server_delivered_db) = (Inr 0, tx_begin server_delivered_db)" for f
    by (simp add: my_update_def tx_map_err_def tx_then_def tx_return_def tx_update_def table_update_deliveries_def
        mutation_where_def server_delivered_db_def)
  have rows: "db_deliveries server_delivered_db = [server_acked_delivery]" by (simp add: server_delivered_db_def)
  have "my_classify_delivery my_sample_env server_acked_delivery (ClaimToken sample_token) server_now
      = Inl (MMutIllegalTransition Delivered)"
    by (simp add: my_classify_delivery_def my_parse_state_def)
  then show ?thesis
    using lock
    by (simp add: my_mutate_def my_mutate_body_def my_mutate_again_def my_execute_mutation_fast_def
        my_prepare_mutation_def my_lock_delivery_def my_database_time_def tx_then_def tx_map_err_def tx_return_def
        my_sample_detected my_sample_simps miss rows)
qed


section \<open>Enqueueing\<close>

text \<open>C18. In a transaction of the caller an enqueue that succeeds either stores the event once or finds
  it. A new event is written with one pending delivery under an identity that no committed or own
  event has, and the row reads back as the event; an event that the transaction sees already has
  the same content, keeps its row and its delivery, and nothing is written.\<close>

theorem my_enqueue_stores_once:
  assumes "my_peers_ok env" and "tx_ok t" and "my_codec env"
    and "event_content_wf lib (new_content event)" and "validate_content lib (new_content event) limit = Inr ()"
    and "extension_codecs lib (ec_extensions (new_content event))"
    and "row_utf8 (my_event_columns lib env (my_handle_tenant h) event 0)"
    and "my_tenant_enqueue lib migrations env h event t = (Inr out, t')"
  shows "case out of
      Enqueued rid \<Rightarrow> \<exists>row. tx_events t' = tx_events t @ [row] \<and> rid = RowId (er_row_id row)
        \<and> er_tenant_id row = tenant_id_str (my_handle_tenant h)
        \<and> my_hydrate_event lib env row = Inr (StoredEvent (new_content event))
        \<and> tx_deliveries t' = tx_deliveries t
            @ [enqueued_delivery (tenant_id_str (my_handle_tenant h)) (er_row_id row) (er_enqueued_at row)]
        \<and> event_identity row \<notin> event_identity ` set (db_events (tx_view t))
    | AlreadyEnqueued rid \<Rightarrow> own_writes t' = own_writes t
        \<and> (\<exists>row \<in> set (db_events (tx_seen t')). rid = RowId (er_row_id row)
            \<and> er_tenant_id row = tenant_id_str (my_handle_tenant h)
            \<and> my_hydrate_event lib env row = Inr (StoredEvent (new_content event))
            \<and> (\<exists>d \<in> set (db_deliveries (tx_seen t')). dr_event_row_id d = er_row_id row
                 \<and> dr_tenant_id d = tenant_id_str (my_handle_tenant h)))"
proof -
  let ?tenant = "my_handle_tenant h"
  note run = assms(8) [unfolded my_tenant_enqueue_def]
  have read: "my_hydrate_event lib env (my_columns lib env tenant (new_content event) rid q)
      = Inr (StoredEvent (new_content event))" for tenant rid q
    by (rule my_hydrate_columns [OF assms(3-6)])
      (use assms(7) in \<open>simp add: row_utf8_def my_event_columns_def event_columns_with_def\<close>)
  from assms(1,2) run show ?thesis
  proof (cases rule: my_enqueue_outcome)
    case enqueued
    let ?row = "my_event_columns lib env ?tenant event (my_enqueue_time env)"
    have "event_identity ?row \<notin> event_identity ` set (db_events (tx_view t))"
      using enqueued(5) by (auto simp: my_event_columns_def event_columns_with_def event_identity_def)
    then show ?thesis
      unfolding enqueued(1) EnqueueOutcome.case using enqueued(2,3) read
      by (intro exI [of _ ?row]) (simp add: my_event_columns_def)
  next
    case (already r d)
    have "instant_ok x" if "ec_time (new_content event) = Some x" for x
      using assms(5) that by (simp add: validate_content_Inr_iff)
    from my_same_event_True [OF already(5) assms(3) this] read
    have "my_hydrate_event lib env r = Inr (StoredEvent (new_content event))" by metis
    then show ?thesis using already by auto
  qed
qed

theorem my_enqueue_stores_once_witness:
  "\<exists>row. tx_events my_sample_txn = [row] \<and> my_hydrate_event sample_lib my_sample_env row = Inr (StoredEvent sample_content)"
proof -
  have "row_utf8 (my_event_columns sample_lib my_sample_env sample_tenant sample_event 0)"
    using server_row_utf8 by (simp add: row_utf8_def server_row_def my_event_columns_def event_columns_with_def)
  then show ?thesis
    using my_enqueue_stores_once [OF my_sample_peers_ok tx_ok_begin [OF db_ok_empty] my_sample_codec,
        of sample_lib sample_event event_size_limit_default my_handle "MIGRATIONS []"]
      my_sample_enqueue sample_content_wf sample_content_valid sample_extension_codecs
    by (fastforce simp: my_tenant_enqueue_def)
qed

text \<open>C20. The insert tells a new event from a stored one by its identity alone. The unique index is on a
  key generated from the lengths and texts of tenant, source and id, and a duplicate is recognised
  from the text of the server's message; on a row that satisfies the checks and has a new row id
  the two together answer exactly whether tenant, source and id are new.\<close>

theorem my_insert_decides_identity:
  assumes "my_peers_ok env" and "tx_ok t" and "my_fault env label n = None" and "event_check row"
    and "er_row_id row \<notin> er_row_id ` set (db_events (tx_view (tx_peer (my_peer env n) t)))"
  shows "my_insert_new env label n row t =
    (if event_identity row \<in> event_identity ` set (db_events (tx_view (tx_peer (my_peer env n) t)))
     then (Inr False, tx_peer (my_peer env n) t)
     else (Inr True, tx_insert_event row (tx_peer (my_peer env n) t)))"
proof -
  let ?u = "tx_peer (my_peer env n) t"
  have "tx_ok ?u" by (rule my_ok_peer [OF assms(1,2)])
  then have "event_check r" if "r \<in> set (db_events (tx_view ?u))" for r
    using that by (simp add: tx_ok_def db_ok_def list_all_iff)
  then have "identity_key row \<in> identity_key ` set (db_events (tx_view ?u))
      \<longleftrightarrow> event_identity row \<in> event_identity ` set (db_events (tx_view ?u))"
    using identity_key_inj [OF assms(4)] by (auto simp: image_iff)
  then show ?thesis
    using assms(3-5) my_duplicate_recognised
    by (simp add: my_insert_new_def my_insert_event_def my_statement_def tx_statement_def my_add_event_def)
qed

theorem my_insert_decides_identity_witness:
  "my_insert_new my_sample_env ''insert event'' 4 server_row (tx_begin db_empty)
     = (Inr True, tx_insert_event server_row (tx_begin db_empty))"
  using my_insert_decides_identity [OF my_sample_peers_ok tx_ok_begin [OF db_ok_empty], of "''insert event''" 4 server_row]
  by (simp add: my_quiet_peer) (simp add: db_empty_def)

text \<open>C19. Enqueueing an event whose row is committed already succeeds exactly when the snapshot of the
  caller's transaction has that row. The insert sees what is committed and reports the duplicate,
  but the row is read back by a plain read; when it was committed after the snapshot was opened the
  enqueue ends with a protocol error, although the content is the same. Either way nothing is
  written.\<close>

theorem my_enqueue_reads_its_snapshot:
  assumes "my_quiet env" and "tx_ok t" and "fst (my_validate_enqueue_schema migrations env t) = Inr ()"
    and "my_codec env" and "r \<in> set (db_events (tx_view t))"
    and "r = my_columns lib env (tenant_id_str (my_handle_tenant h)) (new_content event) (er_row_id r) (er_enqueued_at r)"
    and "event_content_wf lib (new_content event)" and "validate_content lib (new_content event) limit = Inr ()"
    and "extension_codecs lib (ec_extensions (new_content event))" and "row_utf8 r"
    and "0 < my_row_id env" and "my_row_id env \<notin> er_row_id ` set (db_events (tx_view t))"
    and "db_paired (tx_seen (tx_open t))"
  shows "my_tenant_enqueue lib migrations env h event t =
    (if r \<in> set (db_events (tx_seen (tx_open t))) then Inr (AlreadyEnqueued (RowId (er_row_id r)))
     else Inl (MEnqSql ''resolve inserted event'' (MyProtocol ''identity insert returned no row'')), tx_open t)"
  unfolding my_tenant_enqueue_def by (rule my_enqueue_stored) (use assms in simp_all)

lemma db_empty_sel: "db_events db_empty = []" "db_deliveries db_empty = []"
  by (simp_all add: db_empty_def)

text \<open>The sample event was committed after the snapshot, of the empty tables, was opened.\<close>

definition my_stale_txn :: my_txn where
  "my_stale_txn = (tx_begin server_db)\<lparr>tx_snapshot := Some db_empty\<rparr>"

theorem my_enqueue_reads_its_snapshot_witness:
  "fst (my_tenant_enqueue sample_lib (MIGRATIONS []) (my_sample_env\<lparr>my_row_id := 2\<rparr>) my_handle sample_event my_stale_txn)
     = Inl (MEnqSql ''resolve inserted event'' (MyProtocol ''identity insert returned no row''))"
proof -
  let ?env = "my_sample_env\<lparr>my_row_id := 2\<rparr>"
  have view: "tx_view my_stale_txn = server_db" "tx_open my_stale_txn = my_stale_txn" "tx_seen my_stale_txn = db_empty"
    by (simp_all add: my_stale_txn_def tx_view_def tx_open_def tx_seen_def tx_begin_def row_in_def server_db_def db_empty_def)
  have ok: "tx_ok my_stale_txn"
    using view db_ok_empty by (simp add: tx_ok_def) (simp add: my_stale_txn_def snapshot_ok_def db_empty_sel)
  have quiet: "my_quiet ?env" by (simp add: my_quiet_def)
  have "my_instant ?env = my_instant my_sample_env" by (simp add: fun_eq_iff my_instant_def)
  then have codec: "my_codec ?env" using my_sample_codec by (simp add: my_codec_def)
  have valid: "fst (my_validate_enqueue_schema (MIGRATIONS []) ?env my_stale_txn) = Inr ()"
    by (simp add: my_validate_enqueue_schema_def detect_on_connection_def my_sample_detect tx_then_def tx_map_err_def
        tx_return_def my_quiet_simps [OF quiet] my_sample_capable current_migration_shipped)
  have row: "server_row = my_columns sample_lib ?env (tenant_id_str (my_handle_tenant my_handle)) (new_content sample_event)
      (er_row_id server_row) (er_enqueued_at server_row)"
    using server_row_columns by simp
  from my_enqueue_reads_its_snapshot [OF quiet ok valid codec _ row, of event_size_limit_default] view
  show ?thesis
    by (simp add: sample_content_wf sample_content_valid sample_extension_codecs server_row_utf8 server_db_def
        db_paired_def db_empty_def)
qed

section \<open>Schema\<close>



section \<open>Pages\<close>

text \<open>C21. The pages of a snapshot pager are the scope as it was committed when the snapshot began, cut
  in consecutive pieces: put together they are its rows in order, without gap or repetition, up to
  the sum of the limits, whatever others commit meanwhile; and the pager is exhausted exactly when
  the sum covers the scope.\<close>

theorem my_snapshot_pages_are_the_scope:
  assumes "db_ok (my_committed env 0 db)" and "my_tenant_begin_snapshot env h db = Inr p"
    and "collect_results (my_hydrate_page lib env) (map (page_join (my_committed env 0 db))
      (scope_rows (Some (my_handle_tenant h)) (my_committed env 0 db))) = Inr evs"
    and "list_all (my_quiet_call env) calls"
  shows "\<exists>p'. my_run_pager lib calls p = (Inr (take (my_total_limit calls) evs), p')
    \<and> (pgr_exhausted p' \<longleftrightarrow> length evs \<le> my_total_limit calls)"
proof -
  let ?db = "my_committed env 0 db" and ?tenant = "Some (my_handle_tenant h)"
  have "pgr_at p ?tenant ?db 0"
    by (rule my_begin_snapshot_at [OF assms(1) assms(2) [unfolded my_tenant_begin_snapshot_def]])
  from my_run_pager_at [OF assms(1,3,4) this] obtain p' where
    "my_run_pager lib calls p = (Inr (take (my_total_limit calls) evs), p')"
    "pgr_at p' ?tenant ?db (my_total_limit calls)" by auto
  then show ?thesis using collect_results_length [OF assms(3)] by (auto simp: pgr_at_def Let_def)
qed

lemma my_sample_committed [simp]: "my_committed my_sample_env n db = db"
  by (simp add: my_committed_def)

theorem my_snapshot_pages_are_the_scope_witness:
  "\<exists>p evs p'. my_tenant_begin_snapshot my_sample_env my_handle server_db = Inr p
     \<and> my_run_pager sample_lib [(my_sample_env, PageLimit 1), (my_sample_env, PageLimit 1)] p = (Inr evs, p')
     \<and> length evs = 1 \<and> pgr_exhausted p'"
proof -
  have rows: "scope_rows (Some sample_tenant) server_db = [server_row]"
    by (simp add: scope_rows_def page_scope_def server_db_def)
  have join: "page_join server_db server_row = durable_join server_row (Some server_delivery)"
    by (simp add: page_join_def server_db_def)
  have utf8: "utf8_valid ''acme''" by code_simp
  have "\<exists>e. my_hydrate_page sample_lib my_sample_env (page_join server_db server_row) = Inr e"
    by (simp add: join my_hydrate_page_def durable_join_def row_id_new_def herr_def attempt_count_new_def utf8
        my_parse_failure_def my_hydrate_snapshot_def require_absent_def snapshot_pending_def paged_event_new_def
        server_instants)
  then obtain e where e: "my_hydrate_page sample_lib my_sample_env (page_join server_db server_row) = Inr e" ..
  have "\<exists>p. my_tenant_begin_snapshot my_sample_env my_handle server_db = Inr p"
    using sql_max_row_id_eq [OF server_db_ok(1), of "Some sample_tenant"] rows my_sample_capable(3)
    by (simp add: my_tenant_begin_snapshot_def my_begin_snapshot_for_scope_def row_id_new_def Let_def
        my_sample_detected my_sample_info_def same_ascii_case_def)
  then obtain p where p: "my_tenant_begin_snapshot my_sample_env my_handle server_db = Inr p" ..
  have evs: "collect_results (my_hydrate_page sample_lib my_sample_env)
      (map (page_join server_db) (scope_rows (Some sample_tenant) server_db)) = Inr [e]"
    using rows e by simp
  show ?thesis
    using my_snapshot_pages_are_the_scope [OF _ p, of sample_lib "[e]"
        "[(my_sample_env, PageLimit 1), (my_sample_env, PageLimit 1)]"] evs p
    by (auto simp: my_quiet_call_def my_total_limit_def)
qed

end
