(* ===== verification/Spec2Isabelle.thy ===== *)
theory Spec2Isabelle
  imports Core_Properties Sqlite_Properties Migration_Properties Postgres_Properties Mysql_Properties
begin

text \<open>
  A verification library for Dovecote, a transactional outbox: application code enqueues
  CloudEvents in its own database transaction, and workers claim them under leases and mark them
  delivered, to be retried, or quarantined.

  \<^bold>\<open>The program.\<close> The crate \<open>dovecote\<close> (\<open>src/crates/dovecote\<close>) has the event model: bounded values,
  validation, typed extensions with a canonical durable text, the builder that checks an event,
  and its structured and binary projections. Three adapters store events and deliveries in two
  tables: \<open>dovecote-sqlx-sqlite\<close>, \<open>dovecote-sqlx-postgres\<close> and \<open>dovecote-sqlx-mysql\<close>. Each enqueues
  inside the caller's transaction, claims batches in its own, applies mutations that are fenced by
  the claim token, pages over events, imports from a legacy publisher and checks its schema.

  \<^bold>\<open>The theories.\<close>

  \<^item> \<open>Dovecote_Prelude\<close>: results as sums with \<open>and_then\<close> and \<open>map_err\<close>, octets and UTF-8,
    durations, ordered maps; the simp collections the components share.
  \<^item> \<open>Core_Error\<close>, \<open>Core_External\<close>, \<open>Core_Validation\<close>, \<open>Core_Bounds\<close>, \<open>Core_Value\<close>, \<open>Core_Extension\<close>,
    \<open>Core_Event\<close>, \<open>Core_State\<close>: one theory per source file of the core crate, except that
    \<open>Core_Event\<close> has \<open>event.rs\<close>, \<open>serialization.rs\<close> and \<open>projection.rs\<close>, which call each other. A
    newtype is a datatype with one constructor, its \<open>new\<close> a function into a sum. What the crate
    takes from serde_json, base64, mime, fluent-uri and time is the record \<open>ext_lib\<close>, an argument
    of the definitions that use it.
  \<^item> \<open>Durable_Schema\<close>: the two tables of the schema as lists of rows, with the CHECK, UNIQUE and
    foreign key constraints as \<open>db_ok\<close>; the type of stored instants is a parameter.
  \<^item> \<open>Delivery_Lifecycle\<close>: the abstract delivery lifecycle \<open>spec_step\<close>, the abstraction of a row,
    and the locale \<open>delivery_store\<close>, in which the facts about runs are proved once.
  \<^item> \<open>Adapter_Tables\<close>, \<open>Adapter_Events\<close>, \<open>Adapter_Claim\<close>, \<open>Adapter_Delivery\<close>, \<open>Adapter_Page\<close>,
    \<open>Adapter_Migration\<close>: what the adapters have in common: the statements on the two tables, the
    columns of a stored event and their bounds, the columns a claim, a mutation and a page read or
    write, the pager of a server, the migration options and outcomes. The type of a stored instant
    is a parameter, a text for SQLite and a count of microseconds for PostgreSQL and MySQL.
  \<^item> \<open>Sqlite_Base\<close>, \<open>Sqlite_Hydrate\<close>, \<open>Sqlite_Enqueue\<close>, \<open>Sqlite_Claim\<close>,
    \<open>Sqlite_Mutation\<close>, \<open>Sqlite_Schema\<close>, \<open>Sqlite_Import\<close>, \<open>Sqlite_Page\<close>, \<open>Sqlite_Scope\<close>: the SQLite
    adapter, one theory per source file (\<open>Sqlite_Base\<close> has \<open>error.rs\<close> and the transactions of
    \<open>lib.rs\<close>, \<open>Sqlite_Import\<close> has \<open>import.rs\<close>, \<open>finalize.rs\<close> and \<open>delivery_state.rs\<close>).
  \<^item> \<open>Sqlite_Lifecycle\<close>: the step relation of committed operations and its interpretation in
    \<open>delivery_store\<close>; interleaving with peers; tenants.
  \<^item> \<open>Adapter_Transaction\<close>, \<open>Adapter_Batch\<close>, \<open>Adapter_Mutation\<close>, \<open>Adapter_Session\<close>: a transaction on
    a server that other sessions use at the same time, the writes of a claimed batch, the prepared
    mutations, and the facts about the transactions an operation opens for itself; the locale
    \<open>server_commits\<close> derives the laws of \<open>delivery_store\<close> from what a commit of a server does.
    \<open>Adapter_Catalog\<close>: the lemmas on checks that look a contract up in a catalog.
  \<^item> \<open>Postgres_Base\<close>, \<open>Postgres_Enqueue\<close>, \<open>Postgres_Claim\<close>, \<open>Postgres_Mutation\<close>, \<open>Postgres_Schema\<close>,
    \<open>Postgres_Import\<close>, \<open>Postgres_Page\<close>, \<open>Postgres_Scope\<close>: the PostgreSQL adapter (\<open>Postgres_Base\<close>
    has \<open>error.rs\<close>, \<open>rls.rs\<close> and the markers of \<open>migration.rs\<close>, \<open>Postgres_Enqueue\<close> has
    \<open>enqueue.rs\<close> and \<open>hydrate.rs\<close>).
  \<^item> \<open>Postgres_Lifecycle\<close>: what a caller's transaction may do, the step relation of committed
    transactions and its interpretation in \<open>server_commits\<close>.
  \<^item> \<open>Mysql_Backend\<close>, \<open>Mysql_Base\<close>, \<open>Mysql_Enqueue\<close>, \<open>Mysql_Claim\<close>, \<open>Mysql_Mutation\<close>, \<open>Mysql_Schema\<close>,
    \<open>Mysql_Import\<close>, \<open>Mysql_Page\<close>, \<open>Mysql_Scope\<close>: the MySQL and MariaDB adapter (\<open>Mysql_Backend\<close> has \<open>backend.rs\<close> and the classification of
    server errors, \<open>Mysql_Base\<close> the error enums, the statements and \<open>hydrate.rs\<close>, \<open>Mysql_Claim\<close>
    has \<open>lifecycle.rs\<close>, \<open>lifecycle/claim.rs\<close> and the files under \<open>lifecycle/claim\<close>,
    \<open>Mysql_Import\<close> has \<open>import.rs\<close>, \<open>finalize.rs\<close> and \<open>delivery_state.rs\<close>).
  \<^item> \<open>Mysql_Lifecycle\<close>: what a caller's transaction may do on MySQL, the step relation of its commits
    and its interpretation in \<open>server_commits\<close>.
  \<^item> \<open>Core_Samples\<close>, \<open>Dovecote_Samples\<close>, \<open>Migration_Samples\<close>, \<open>Server_Samples\<close>, \<open>Postgres_Samples\<close>,
    \<open>Mysql_Samples\<close>, \<open>Mysql_Catalog_Samples\<close>: concrete values for the instances of the properties.
  \<^item> \<open>Core_Properties\<close>, \<open>Sqlite_Properties\<close>, \<open>Migration_Properties\<close>, \<open>Postgres_Properties\<close>,
    \<open>Mysql_Properties\<close>: the properties, each with an instance when it has hypotheses; the two
    grammars of trace context are in \<open>Core_Validation\<close>, and the property that spans the core crate
    and the three adapters is at the end of this theory.

  \<^bold>\<open>State and operations, SQLite.\<close> A database is a record of the event rows, the delivery rows and
  the last row identifier. An operation takes the connection's answers as an environment
  \<open>sqlite_env\<close>: for every statement whether it fails and how, the clock text, the result of
  \<open>strftime\<close> on an addition, and what other writers committed before this attempt got the lock.
  Statements are functions on the tables that check the constraints and report SQLite's result
  codes. An operation that owns its transaction returns the committed state, and every early
  return of the source is a branch; an operation in the caller's transaction returns the working
  state. Errors are the source's enums; a constructor that ends in \<open>Panic\<close> marks where the source
  would panic. Timestamps of SQLite are texts compared as texts, as its statements compare them.

  \<^bold>\<open>State and operations, PostgreSQL.\<close> There is no lock on the whole database, so a transaction is
  a record \<open>txn\<close> of the committed database, the rows the transaction has inserted or rewritten, and
  the rows it has locked; a statement sees \<open>tx_view\<close>, the committed rows with its own on top. The
  environment says what other sessions commit before each statement, which is named by its number;
  \<open>peers_ok\<close> states that they leave alone the rows this transaction has locked.
  Under READ COMMITTED a statement first sees what was committed before it, under REPEATABLE READ
  the view stays the snapshot of the first statement. A candidate another session holds is skipped,
  as \<open>FOR UPDATE SKIP LOCKED\<close> skips it; which ones are held is an answer of the environment.
  Row-level security is the tenant context of the session. An operation in the caller's
  transaction returns the transaction, an operation that owns its transaction the database after
  commit or rollback.

  \<^bold>\<open>State and operations, MySQL and MariaDB.\<close> The transaction is the record of PostgreSQL's model; it
  runs under REPEATABLE READ. The first plain read opens the snapshot \<open>tx_snapshot\<close> that every later
  plain read sees, with the transaction's own writes on top, while a locking read and a write work
  on the rows as they are committed. The identity of an event is unique through the generated column
  \<open>identity_key\<close>. A claim reads windows of row identifiers in the snapshot and locks every row by its
  identifier; the clock of a statement is the one at its start. A statement that the server refuses
  leaves the transaction as it was; the operations that own their transaction roll it back then.

  \<^bold>\<open>Loops.\<close> The retry loops over busy attempts are total functions, with the remaining retries as
  measure. The loop of MySQL's claim over its windows ends because every window starts after the last
  row of the one before, and the locking read of an import is repeated three times at most. The loop
  that draws a claim token until it is fresh may not end; it is recursion on the list of draws with \<open>None\<close> when the draws run out, and a claim is proved to return when the draws
  are distinct and two for every row and attempt.

  \<^bold>\<open>What is shown.\<close> The validators accept exactly the grammars they implement; an accepted event
  fits its size limit in both projections and is read back from the database as it was stored; the
  extension text has one spelling. For each of the three adapters, every committed operation keeps
  the constraints and refines the lifecycle, so deliveries are never lost, counters never decrease
  and terminal states are final; a claim returns eligible rows in order under new tokens; a
  mutation is one fenced step of one row; a refused or failed operation changes nothing and says
  why; enqueueing is idempotent; pages neither skip nor repeat; the schema check accepts what its
  contracts ask for, and for PostgreSQL and MySQL exactly that. For SQLite also that a claim is exclusive
  until it expires and its receiver can acknowledge within the lease, that import and finalisation
  are idempotent, and that tenants are isolated. For PostgreSQL and MySQL also that a call, with all
  that other sessions commit while it runs, is a history of the lifecycle. For MySQL also that the
  windows of a claim find what one scan finds, that the generated key decides exactly the identity
  of an event, and that enqueueing an event that another producer committed after the caller's
  snapshot was opened ends in an error. An event the builder accepts can be stored by each adapter
  and reads back as the same event.

  \<^bold>\<open>Not modelled.\<close> The Display texts of the adapter errors; the \<open>async\<close> runtime, the pool and connection management beyond success and failure of each call;
  tests, examples and scripts. SQL texts are included files and stay parameters: the statements
  are translated as functions on the tables.
\<close>

section \<open>Across the adapters\<close>

text \<open>C23. Events are portable between the databases: an event that the builder accepts satisfies the
  CHECK constraints of the durable schema in the columns that each of the three adapters binds for
  it, and each adapter reads its own columns back as one and the same stored event, the one the
  core crate makes of it.\<close>

theorem events_are_portable:
  assumes "build_with_limit lib b limit = Inr event" and "event_content_wf lib (builder_content b)"
    and "durable_codecs lib (builder_content b)" and "pg_codec penv" and "my_codec menv"
    and "row_utf8 (my_event_columns lib menv tenant event 0)" and "tenant_ok tenant"
    and "0 < rid" and "0 < pg_row_id penv" and "0 < my_row_id menv"
  shows "\<exists>stored. into_stored lib event = Inr stored
    \<and> event_check (event_columns lib (tenant_id_str tenant) (new_content event) rid at)
    \<and> event_check (pg_event_columns lib penv tenant event now) \<and> event_check (my_event_columns lib menv tenant event now)
    \<and> hydrate_event lib (event_columns lib (tenant_id_str tenant) (new_content event) rid at) = Inr stored
    \<and> pg_hydrate_event lib penv (pg_event_columns lib penv tenant event now) = Inr stored
    \<and> my_hydrate_event lib menv (my_event_columns lib menv tenant event now) = Inr stored"
proof -
  have c: "new_content event = builder_content b" "validate_content lib (builder_content b) limit = Inr ()"
    using assms(1) by (auto simp: build_with_limit_Inr_iff)
  have codecs: "extension_codecs lib (ec_extensions (builder_content b))"
    using assms(3) by (simp add: durable_codecs_def)
  have utf8: "row_utf8 (my_columns lib menv (tenant_id_str tenant) (builder_content b) (my_row_id menv) now)"
    using assms(6) by (simp add: row_utf8_def my_event_columns_def event_columns_with_def c(1))
  note check = event_columns_with_check [OF assms(2) c(2) assms(7)]
  show ?thesis
    using build_into_stored [OF assms(1)] hydrate_event_columns [OF assms(2) c(2) assms(3)]
      pg_hydrate_columns_with [OF assms(4,2) c(2) codecs] my_hydrate_columns [OF assms(5,2) c(2) codecs utf8]
    by (simp add: event_columns_def pg_event_columns_def my_event_columns_def c(1) check [OF assms(8)]
        check [OF assms(9)] check [OF assms(10)])
qed

theorem events_are_portable_witness:
  "hydrate_event sample_lib (event_columns sample_lib ''acme'' sample_content 1 ''2026-01-01T00:00:05.000000Z'')
     = pg_hydrate_event sample_lib pg_sample_env server_row
   \<and> pg_hydrate_event sample_lib pg_sample_env server_row = my_hydrate_event sample_lib my_sample_env server_row"
proof -
  have "build_with_limit sample_lib (NewEventBuilder sample_content) event_size_limit_default = Inr sample_event"
    using sample_content_valid by (simp add: build_with_limit_Inr_iff sample_event_def)
  moreover have "row_utf8 (my_event_columns sample_lib my_sample_env sample_tenant sample_event 0)"
    using server_row_utf8 by (simp add: row_utf8_def server_row_def my_event_columns_def event_columns_with_def)
  ultimately show ?thesis
    using events_are_portable [of sample_lib "NewEventBuilder sample_content" event_size_limit_default sample_event
        pg_sample_env my_sample_env sample_tenant 1 "''2026-01-01T00:00:05.000000Z''" server_now]
      sample_content_wf sample_codecs sample_tenant_ok
    by (auto simp: my_sample_row)
qed

end
